(* ===== verification/Nodera_Prelude.thy ===== *)
theory Nodera_Prelude
  imports Main "HOL-Library.List_Lexorder" "HOL-Library.Char_ord"
begin

text \<open>
  Shared vocabulary of the development: identifiers, clocks, JSON values, the per-call
  environment (clock readings and injected driver errors), and the row-list reading of the SQL
  statements the Go services issue, with the lemmas that carry the component proofs.
\<close>

section \<open>Identifiers, clocks, JSON\<close>

text \<open>
  A \<open>uuid.UUID\<close> is a number; \<open>uuid.Nil\<close> is 0. A \<open>time.Time\<close> and a \<open>time.Duration\<close> are counts of
  nanoseconds. The Go process and PostgreSQL have separate clocks.
\<close>

type_synonym uuid = nat
type_synonym time = int
type_synonym duration = int

abbreviation uuid_nil :: uuid where "uuid_nil \<equiv> 0"

definition second :: duration where "second = 1000000000"
definition minute :: duration where "minute = 60 * second"
definition hour :: duration where "hour = 60 * minute"

lemmas duration_defs = second_def minute_def hour_def

text \<open>Text in single quotes, as the error messages quote names.\<close>

definition quoted :: "string \<Rightarrow> string" where
  "quoted s = CHR 0x27 # s @ [CHR 0x27]"

datatype json =
    JNull
  | JBool bool
  | JNum string
  | JStr string
  | JArr "json list"
  | JObj "(string \<times> json) list"

text \<open>
  One call of a service method sees one reading of the Go clock, one of the database clock, the
  id that \<open>gen_random_uuid()\<close> would hand out, and a fault script: \<open>fault e k\<close> says that the
  \<open>k\<close>-th SQL statement the method issues, counted in source order from 0, comes back with a
  driver error. A statement that fails changes nothing.
\<close>

record env =
  go_now :: time
  db_now :: time
  new_id :: uuid
  fault :: "nat \<Rightarrow> bool"

definition calm :: "time \<Rightarrow> uuid \<Rightarrow> env" where
  "calm t i = \<lparr>go_now = t, db_now = t, new_id = i, fault = (\<lambda>_. False)\<rparr>"

lemma calm_sel [simp]:
  "go_now (calm t i) = t" "db_now (calm t i) = t" "new_id (calm t i) = i" "fault (calm t i) = (\<lambda>_. False)"
  by (simp_all add: calm_def)

section \<open>SQL statements over row lists\<close>

text \<open>
  A table is the list of its rows in insertion order. \<open>UPDATE .. WHERE\<close> is \<open>update_where\<close>,
  \<open>DELETE .. WHERE\<close> is \<open>delete_where\<close>, a one-row \<open>SELECT\<close> is \<open>find\<close>,
  \<open>SELECT EXISTS\<close> is \<open>list_ex\<close>, \<open>count(*)\<close> is \<open>row_count\<close>; \<open>hit_rows\<close> is what \<open>UPDATE .. RETURNING\<close>
  hands back.
\<close>

definition update_where :: "('r \<Rightarrow> bool) \<Rightarrow> ('r \<Rightarrow> 'r) \<Rightarrow> 'r list \<Rightarrow> 'r list" where
  "update_where p f tbl = map (\<lambda>r. if p r then f r else r) tbl"

definition delete_where :: "('r \<Rightarrow> bool) \<Rightarrow> 'r list \<Rightarrow> 'r list" where
  "delete_where p tbl = filter (\<lambda>r. \<not> p r) tbl"

definition row_count :: "('r \<Rightarrow> bool) \<Rightarrow> 'r list \<Rightarrow> nat" where
  "row_count p tbl = length (filter p tbl)"

definition hit_rows :: "('r \<Rightarrow> bool) \<Rightarrow> ('r \<Rightarrow> 'r) \<Rightarrow> 'r list \<Rightarrow> 'r list" where
  "hit_rows p f tbl = map f (filter p tbl)"

named_theorems sql "facts about the row-list statements"

lemma update_where_Nil [simp]: "update_where p f [] = []"
  by (simp add: update_where_def)

lemma update_where_Cons [simp]:
  "update_where p f (r # tbl) = (if p r then f r else r) # update_where p f tbl"
  by (simp add: update_where_def)

lemma length_update_where [simp]: "length (update_where p f tbl) = length tbl"
  by (simp add: update_where_def)

lemma set_update_where [sql]:
  "set (update_where p f tbl) = (\<lambda>r. if p r then f r else r) ` set tbl"
  by (simp add: update_where_def)

lemma update_where_none [sql]: "(\<And>r. r \<in> set tbl \<Longrightarrow> \<not> p r) \<Longrightarrow> update_where p f tbl = tbl"
  by (induction tbl) auto

lemma map_update_where [sql]:
  "(\<And>r. p r \<Longrightarrow> k (f r) = k r) \<Longrightarrow> map k (update_where p f tbl) = map k tbl"
  by (induction tbl) auto

lemma filter_update_where_other [sql]:
  "(\<And>r. q r \<Longrightarrow> \<not> p r) \<Longrightarrow> (\<And>r. p r \<Longrightarrow> \<not> q (f r)) \<Longrightarrow> filter q (update_where p f tbl) = filter q tbl"
  by (induction tbl) auto

lemma delete_where_Nil [simp]: "delete_where p [] = []"
  by (simp add: delete_where_def)

lemma delete_where_Cons [simp]:
  "delete_where p (r # tbl) = (if p r then delete_where p tbl else r # delete_where p tbl)"
  by (simp add: delete_where_def)

lemma set_delete_where [simp]: "set (delete_where p tbl) = {r \<in> set tbl. \<not> p r}"
  by (auto simp: delete_where_def)

lemma filter_delete_where_other [sql]:
  "(\<And>r. q r \<Longrightarrow> \<not> p r) \<Longrightarrow> filter q (delete_where p tbl) = filter q tbl"
  by (induction tbl) auto

lemma row_count_0 [sql]: "row_count p tbl = 0 \<longleftrightarrow> (\<forall>r \<in> set tbl. \<not> p r)"
  by (simp add: row_count_def filter_empty_conv)

lemma row_count_pos [sql]: "0 < row_count p tbl \<longleftrightarrow> (\<exists>r \<in> set tbl. p r)"
  by (induction tbl) (auto simp: row_count_def)

lemma hit_rows_Nil_iff [sql]: "hit_rows p f tbl = [] \<longleftrightarrow> (\<forall>r \<in> set tbl. \<not> p r)"
  by (simp add: hit_rows_def filter_empty_conv)

lemma hit_rows_ConsD [sql]:
  assumes "hit_rows p f tbl = x # xs"
  shows "\<exists>r \<in> set tbl. p r \<and> x = f r"
proof -
  have "x \<in> set (hit_rows p f tbl)" using assms by simp
  then show ?thesis by (auto simp: hit_rows_def)
qed

lemma find_SomeD: "find p xs = Some x \<Longrightarrow> x \<in> set xs \<and> p x"
  by (induction xs) (auto split: if_splits)

lemma find_NoneD: "find p xs = None \<Longrightarrow> x \<in> set xs \<Longrightarrow> \<not> p x"
  by (induction xs) (auto split: if_splits)

section \<open>Primary keys\<close>

text \<open>
  A primary key: no two rows of the table agree on \<open>k\<close>. In-place updates that keep the key and
  deletions preserve it; an insert preserves it when the key is new.
\<close>

definition pk :: "('r \<Rightarrow> 'k) \<Rightarrow> 'r list \<Rightarrow> bool" where
  "pk k tbl \<longleftrightarrow> distinct (map k tbl)"

lemma pk_Nil [simp]: "pk k []"
  by (simp add: pk_def)

lemma pk_update_where [sql]: "(\<And>r. p r \<Longrightarrow> k (f r) = k r) \<Longrightarrow> pk k (update_where p f tbl) = pk k tbl"
  by (simp add: pk_def map_update_where)

lemma pk_delete_where [sql]: "pk k tbl \<Longrightarrow> pk k (delete_where p tbl)"
  by (simp add: pk_def delete_where_def distinct_map_filter)

lemma pk_append [sql]: "pk k (tbl @ [r]) \<longleftrightarrow> pk k tbl \<and> k r \<notin> k ` set tbl"
  by (auto simp: pk_def)

lemma pk_unique: "pk k tbl \<Longrightarrow> r \<in> set tbl \<Longrightarrow> s \<in> set tbl \<Longrightarrow> k r = k s \<Longrightarrow> r = s"
  by (auto simp: pk_def distinct_map dest: inj_onD)

lemma pk_find: "pk k tbl \<Longrightarrow> r \<in> set tbl \<Longrightarrow> k r = x \<Longrightarrow> find (\<lambda>r. k r = x) tbl = Some r"
  by (induction tbl) (auto simp: pk_def)

section \<open>Runs\<close>

fun run_ops :: "('op \<Rightarrow> 's \<Rightarrow> 's) \<Rightarrow> 'op list \<Rightarrow> 's \<Rightarrow> 's" where
  "run_ops step [] s = s"
| "run_ops step (x # xs) s = run_ops step xs (step x s)"

lemma run_ops_append [simp]: "run_ops step (xs @ ys) s = run_ops step ys (run_ops step xs s)"
  by (induction xs arbitrary: s) auto

lemma run_ops_invariant:
  "I s \<Longrightarrow> (\<And>x s. I s \<Longrightarrow> I (step x s)) \<Longrightarrow> I (run_ops step xs s)"
  by (induction xs arbitrary: s) auto

lemma run_ops_related:
  "(\<And>s. R s s) \<Longrightarrow> (\<And>a b c. R a b \<Longrightarrow> R b c \<Longrightarrow> R a c) \<Longrightarrow> (\<And>x s. R s (step x s)) \<Longrightarrow> R s (run_ops step xs s)"
  by (induction xs arbitrary: s) (auto, blast)

end
