(* ===== verification/Authz.thy ===== *)
theory Authz
  imports Nodera_Prelude
begin

text \<open>
  The vocabulary every service shares: normalised errors (internal/platform/apierr), the caller's
  authentication context (internal/platform/authctx), the permission choke point
  (\<open>rbac.Require\<close>, internal/rbac) and the append-only audit log (\<open>audit.Record\<close>, internal/audit).
\<close>

section \<open>apierr\<close>

datatype error_code =
    CodeValidation
  | CodeUnauthenticated
  | CodeForbidden
  | CodeNotFound
  | CodeConflict
  | CodeRateLimited
  | CodeInternal
  | CodeUnavailable
  | CodeNotImplemented

primrec code_text :: "error_code \<Rightarrow> string" where
  "code_text CodeValidation = ''VALIDATION_ERROR''"
| "code_text CodeUnauthenticated = ''UNAUTHENTICATED''"
| "code_text CodeForbidden = ''FORBIDDEN''"
| "code_text CodeNotFound = ''NOT_FOUND''"
| "code_text CodeConflict = ''CONFLICT''"
| "code_text CodeRateLimited = ''RATE_LIMITED''"
| "code_text CodeInternal = ''INTERNAL_ERROR''"
| "code_text CodeUnavailable = ''UNAVAILABLE''"
| "code_text CodeNotImplemented = ''NOT_IMPLEMENTED''"

text \<open>
  \<open>Error.Err\<close> (the wrapped cause) is only logged and \<open>Error.Details\<close> only decorates the HTTP body,
  so an error is its code and its client-safe message.
\<close>

datatype api_error = ApiErr (err_code: error_code) (err_msg: string)

definition Wrap :: "error_code \<Rightarrow> string \<Rightarrow> api_error" where
  "Wrap c m = ApiErr c m"

definition NotFound :: "string \<Rightarrow> api_error" where
  "NotFound resource = ApiErr CodeNotFound (resource @ '' not found'')"

definition Validation :: "string \<Rightarrow> api_error" where
  "Validation m = ApiErr CodeValidation m"

definition Forbidden :: "string \<Rightarrow> api_error" where
  "Forbidden m = ApiErr CodeForbidden m"

definition Unauthenticated :: "string \<Rightarrow> api_error" where
  "Unauthenticated m = ApiErr CodeUnauthenticated m"

definition Conflict :: "string \<Rightarrow> api_error" where
  "Conflict m = ApiErr CodeConflict m"

definition NotImplemented :: "string \<Rightarrow> api_error" where
  "NotImplemented m = ApiErr CodeNotImplemented m"

lemma err_code_simps [simp]:
  "err_code (Wrap c m) = c"
  "err_code (NotFound r) = CodeNotFound"
  "err_code (Validation m) = CodeValidation"
  "err_code (Forbidden m) = CodeForbidden"
  "err_code (Unauthenticated m) = CodeUnauthenticated"
  "err_code (Conflict m) = CodeConflict"
  "err_code (NotImplemented m) = CodeNotImplemented"
  by (simp_all add: Wrap_def NotFound_def Validation_def Forbidden_def Unauthenticated_def
      Conflict_def NotImplemented_def)

lemma code_text_inj: "code_text c = code_text d \<Longrightarrow> c = d"
  by (cases c; cases d) simp_all

section \<open>authctx\<close>

datatype actor_type = ActorUser | ActorServiceAccount | ActorAgent | ActorSystem

record auth_context =
  actor_type :: actor_type
  actor_id :: uuid
  actor_label :: string
  org_id :: uuid
  permissions :: "string set"
  session_id :: uuid
  correlation_id :: string

definition HasPermission :: "auth_context \<Rightarrow> string \<Rightarrow> bool" where
  "HasPermission a key \<longleftrightarrow> key \<in> permissions a"

definition System_ctx :: "uuid \<Rightarrow> auth_context" where
  "System_ctx org = \<lparr>actor_type = ActorSystem, actor_id = uuid_nil, actor_label = ''system'',
     org_id = org, permissions = {}, session_id = uuid_nil, correlation_id = []\<rparr>"

section \<open>rbac.Require\<close>

definition Require :: "auth_context \<Rightarrow> string \<Rightarrow> api_error option" where
  "Require ac permission =
     (if actor_type ac = ActorSystem then None
      else if \<not> HasPermission ac permission
        then Some (Forbidden (''missing required permission: '' @ permission))
      else None)"

definition authorised :: "auth_context \<Rightarrow> string \<Rightarrow> bool" where
  "authorised ac p \<longleftrightarrow> actor_type ac = ActorSystem \<or> p \<in> permissions ac"

lemma Require_None [simp]: "Require ac p = None \<longleftrightarrow> authorised ac p"
  by (simp add: Require_def authorised_def HasPermission_def)

lemma Require_SomeD: "Require ac p = Some x \<Longrightarrow> \<not> authorised ac p \<and> err_code x = CodeForbidden"
  by (auto simp: Require_def authorised_def HasPermission_def split: if_splits)

lemma Require_cases:
  obtains (denied) x where "Require ac p = Some x" "\<not> authorised ac p" "err_code x = CodeForbidden"
  | (granted) "Require ac p = None" "authorised ac p"
  by (cases "Require ac p") (auto dest: Require_SomeD)

lemma authorised_System [simp]: "authorised (System_ctx org) p"
  by (simp add: authorised_def System_ctx_def)

text \<open>
  \<open>actor_user\<close> is the user id a row is attributed to: set for human callers only.
\<close>

definition actor_user :: "auth_context \<Rightarrow> uuid option" where
  "actor_user ac = (if actor_type ac = ActorUser then Some (actor_id ac) else None)"

section \<open>audit.Record\<close>

text \<open>
  What an audit row names as its resource: a row of the database or a key. \<open>audit_entry\<close> has the columns
  that say who did what to what; \<open>stated_entry\<close> adds the three JSON columns, previous and resulting state
  and metadata. \<open>RecordWith\<close> is the INSERT with all of them. Nothing but the audit queries reads the JSON
  columns back, so the services whose properties do not speak of them use \<open>Record\<close>, the same row without
  these columns (\<open>Record_columns\<close>).
\<close>

datatype resource_ref = IdRef uuid | TextRef string

record audit_entry =
  au_org :: "uuid option"
  au_user :: "uuid option"
  au_service_account :: "uuid option"
  au_label :: string
  au_action :: string
  au_rtype :: string
  au_rid :: resource_ref
  au_source :: string
  au_corr :: "string option"
  au_success :: bool

record stated_entry = audit_entry +
  au_previous :: "json option"
  au_resulting :: "json option"
  au_metadata :: json

definition null_string :: "string \<Rightarrow> string option" where
  "null_string s = (if s = [] then None else Some s)"

text \<open>
  \<open>failed\<close> is the fault bit of the INSERT. No caller turns an audit failure into a failure of
  its own (they only log it), so the outcome is just the new log.
\<close>

definition audit_row ::
  "auth_context \<Rightarrow> string \<Rightarrow> string \<Rightarrow> resource_ref \<Rightarrow> string \<Rightarrow> bool \<Rightarrow> audit_entry" where
  "audit_row ac action rtype rid src ok =
     \<lparr>au_org = (if org_id ac \<noteq> uuid_nil then Some (org_id ac) else None),
      au_user = actor_user ac,
      au_service_account = (if actor_type ac = ActorServiceAccount then Some (actor_id ac) else None),
      au_label = actor_label ac,
      au_action = action, au_rtype = rtype, au_rid = rid,
      au_source = (if src = [] then ''api'' else src),
      au_corr = null_string (correlation_id ac),
      au_success = ok\<rparr>"

definition Record ::
  "bool \<Rightarrow> auth_context \<Rightarrow> string \<Rightarrow> string \<Rightarrow> resource_ref \<Rightarrow> string \<Rightarrow> bool \<Rightarrow> audit_entry list \<Rightarrow> audit_entry list" where
  "Record failed ac action rtype rid src ok log =
     (if failed then log else log @ [audit_row ac action rtype rid src ok])"

text \<open>A missing state is NULL, missing metadata the empty object.\<close>

definition RecordWith ::
  "bool \<Rightarrow> auth_context \<Rightarrow> string \<Rightarrow> string \<Rightarrow> resource_ref \<Rightarrow> string \<Rightarrow> bool
     \<Rightarrow> json option \<Rightarrow> json option \<Rightarrow> json option \<Rightarrow> stated_entry list \<Rightarrow> stated_entry list" where
  "RecordWith failed ac action rtype rid src ok prev res metadata log =
     (if failed then log
      else log @ [audit_entry.extend (audit_row ac action rtype rid src ok)
             (stated_entry.fields prev res (case metadata of None \<Rightarrow> JObj [] | Some m \<Rightarrow> m))])"

lemma Record_columns:
  "map audit_entry.truncate (RecordWith failed ac a t i s ok prev res m log) =
     Record failed ac a t i s ok (map audit_entry.truncate log)"
  by (simp add: RecordWith_def Record_def audit_row_def audit_entry.defs stated_entry.defs)

definition extends :: "'a list \<Rightarrow> 'a list \<Rightarrow> bool" where
  "extends old new \<longleftrightarrow> (\<exists>more. new = old @ more)"

lemma extends_refl [simp, intro]: "extends l l"
  by (simp add: extends_def)

lemma extends_trans [trans]: "extends a b \<Longrightarrow> extends b c \<Longrightarrow> extends a c"
  by (auto simp: extends_def)

lemma extends_Record [simp, intro]: "extends l (Record failed ac a t i s ok l)"
  by (simp add: Record_def extends_def)

lemma Record_set: "set (Record failed ac a t i s ok l) \<subseteq> insert (audit_row ac a t i s ok) (set l)"
  by (auto simp: Record_def)

end
