(* ===== verification/ToolGateway.thy ===== *)
theory ToolGateway
  imports Authz
begin

text \<open>
  The Tool Gateway and its approvals (internal/tools/tools.go): the tool registry, the per-tool
  approval lifetime, and the operations that create, cancel, decide, execute and expire an
  approval. Each operation is one function from the gateway state to its result and the new
  state; the SQL statements it issues are separate functions, so that ApprovalRace can
  interleave the same statements of several callers.
\<close>

section \<open>State\<close>

record tool =
  t_key :: string
  t_description :: string
  t_risk :: string
  t_permission :: string
  t_implemented :: bool

record tool_setting =
  ts_org :: uuid
  ts_tool :: string
  ts_ttl_seconds :: int
  ts_updated_by :: "uuid option"
  ts_updated_at :: time

datatype approval_status =
    Pending | Executing | Executed | ExecutionFailed | Rejected | Cancelled | Expired

primrec approval_status_text :: "approval_status \<Rightarrow> string" where
  "approval_status_text Pending = ''pending''"
| "approval_status_text Executing = ''executing''"
| "approval_status_text Executed = ''executed''"
| "approval_status_text ExecutionFailed = ''execution_failed''"
| "approval_status_text Rejected = ''rejected''"
| "approval_status_text Cancelled = ''cancelled''"
| "approval_status_text Expired = ''expired''"

record approval =
  ap_id :: uuid
  ap_org :: uuid
  ap_action :: string
  ap_risk :: string
  ap_rtype :: string
  ap_rid :: string
  ap_params :: json
  ap_status :: approval_status
  ap_user :: "uuid option"
  ap_agent :: "uuid option"
  ap_created_at :: time
  ap_expires_at :: "time option"
  ap_decided_by :: "uuid option"
  ap_decided_at :: "time option"
  ap_reason :: string
  ap_result :: json

text \<open>
  \<open>world\<close> is whatever the registered handlers act on: other services, other tables, the network.
  A handler fails with a normalised error or with any other Go error.
\<close>

datatype exec_error = ApiFailure api_error | OtherFailure string

type_synonym 'w handler =
  "auth_context \<Rightarrow> string \<Rightarrow> string \<Rightarrow> json \<Rightarrow> 'w \<Rightarrow> (exec_error + json) \<times> 'w"

type_synonym 'w handlers = "string \<Rightarrow> 'w handler option"

record 'w gateway =
  tools_tbl :: "tool list"
  settings :: "tool_setting list"
  approvals :: "approval list"
  audit_log :: "audit_entry list"
  world :: 'w

record execute_input =
  in_rtype :: string
  in_rid :: string
  in_params :: json

record execute_result =
  res_status :: string
  res_value :: "json option"
  res_approval :: "uuid option"

definition empty_result :: execute_result where
  "empty_result = \<lparr>res_status = [], res_value = None, res_approval = None\<rparr>"

section \<open>Registry\<close>

definition get_tool :: "bool \<Rightarrow> string \<Rightarrow> tool list \<Rightarrow> api_error + tool" where
  "get_tool failed key tbl =
     (if failed then Inl (Wrap CodeInternal ''failed to load tool'')
      else case find (\<lambda>t. t_key t = key) tbl of
        None \<Rightarrow> Inl (NotFound ''tool'')
      | Some t \<Rightarrow> Inr t)"

definition list_tools :: "env \<Rightarrow> auth_context \<Rightarrow> 'w gateway \<Rightarrow> api_error + tool list" where
  "list_tools e ac g =
     (case Require ac ''tools.read'' of Some x \<Rightarrow> Inl x
      | None \<Rightarrow>
          if fault e 0 then Inl (Wrap CodeInternal ''failed to list tools'')
          else Inr (sort_key t_key (tools_tbl g)))"

definition risk_tier_permission :: "string \<Rightarrow> string" where
  "risk_tier_permission risk =
     (if risk = ''read'' then []
      else if risk = ''safe'' then ''tools.safe''
      else if risk = ''privileged'' then ''tools.privileged''
      else if risk = ''critical'' then ''tools.critical''
      else [])"

definition requires_approval :: "string \<Rightarrow> bool" where
  "requires_approval risk \<longleftrightarrow> risk = ''privileged'' \<or> risk = ''critical''"

definition run_handler ::
  "'w handlers \<Rightarrow> auth_context \<Rightarrow> tool \<Rightarrow> execute_input \<Rightarrow> 'w \<Rightarrow> (exec_error + json) \<times> 'w" where
  "run_handler hs ac t inp w =
     (if \<not> t_implemented t
      then (Inl (ApiFailure (NotImplemented
             (''tool '' @ quoted (t_key t) @ '' has no execution backend yet''))), w)
      else case hs (t_key t) of
        None \<Rightarrow> (Inl (ApiFailure (ApiErr CodeInternal
                  (''tool '' @ quoted (t_key t) @ '' is marked implemented but has no registered handler''))), w)
      | Some h \<Rightarrow> h ac (in_rtype inp) (in_rid inp) (in_params inp) w)"

section \<open>Approval lifetime\<close>

definition default_approval_ttl :: duration where "default_approval_ttl = 24 * hour"
definition min_approval_ttl :: duration where "min_approval_ttl = 5 * minute"
definition max_approval_ttl :: duration where "max_approval_ttl = 30 * 24 * hour"

definition upsert_setting ::
  "uuid \<Rightarrow> string \<Rightarrow> int \<Rightarrow> uuid option \<Rightarrow> time \<Rightarrow> tool_setting list \<Rightarrow> tool_setting list" where
  "upsert_setting org key secs by now tbl =
     (let hit = (\<lambda>s. ts_org s = org \<and> ts_tool s = key)
      in if list_ex hit tbl
         then update_where hit
                (\<lambda>s. s\<lparr>ts_ttl_seconds := secs, ts_updated_by := by, ts_updated_at := now\<rparr>) tbl
         else tbl @ [\<lparr>ts_org = org, ts_tool = key, ts_ttl_seconds = secs,
                      ts_updated_by = by, ts_updated_at = now\<rparr>])"

definition set_approval_ttl ::
  "env \<Rightarrow> auth_context \<Rightarrow> string \<Rightarrow> duration \<Rightarrow> 'w gateway \<Rightarrow> (api_error + int) \<times> 'w gateway" where
  "set_approval_ttl e ac key ttl g =
     (case Require ac ''tools.manage'' of Some x \<Rightarrow> (Inl x, g)
      | None \<Rightarrow>
     (case get_tool (fault e 0) key (tools_tbl g) of Inl x \<Rightarrow> (Inl x, g)
      | Inr _ \<Rightarrow>
        if ttl < min_approval_ttl \<or> ttl > max_approval_ttl
        then (Inl (Validation ''approval_ttl_seconds must be between 5m0s and 720h0m0s''), g)
        else if fault e 1 then (Inl (Wrap CodeInternal ''failed to set approval TTL override''), g)
        else
          (let secs = ttl div second
           in (Inr secs,
               g\<lparr>settings := upsert_setting (org_id ac) key secs (actor_user ac) (db_now e) (settings g),
                 audit_log := Record (fault e 2) ac ''tools.approval_ttl.set'' ''tool''
                                (TextRef key) [] True (audit_log g)\<rparr>))))"

definition clear_approval_ttl ::
  "env \<Rightarrow> auth_context \<Rightarrow> string \<Rightarrow> 'w gateway \<Rightarrow> (api_error + unit) \<times> 'w gateway" where
  "clear_approval_ttl e ac key g =
     (case Require ac ''tools.manage'' of Some x \<Rightarrow> (Inl x, g)
      | None \<Rightarrow>
        if fault e 0 then (Inl (Wrap CodeInternal ''failed to clear approval TTL override''), g)
        else (Inr (),
              g\<lparr>settings := delete_where (\<lambda>s. ts_org s = org_id ac \<and> ts_tool s = key) (settings g),
                audit_log := Record (fault e 1) ac ''tools.approval_ttl.cleared'' ''tool''
                               (TextRef key) [] True (audit_log g)\<rparr>))"

definition list_approval_ttl_overrides ::
  "env \<Rightarrow> auth_context \<Rightarrow> 'w gateway \<Rightarrow> api_error + tool_setting list" where
  "list_approval_ttl_overrides e ac g =
     (case Require ac ''tools.manage'' of Some x \<Rightarrow> Inl x
      | None \<Rightarrow>
        if fault e 0 then Inl (Wrap CodeInternal ''failed to list approval TTL overrides'')
        else Inr (sort_key ts_tool (filter (\<lambda>s. ts_org s = org_id ac) (settings g))))"

definition resolve_approval_ttl ::
  "bool \<Rightarrow> uuid \<Rightarrow> string \<Rightarrow> tool_setting list \<Rightarrow> api_error + duration" where
  "resolve_approval_ttl failed org key tbl =
     (if failed then Inl (Wrap CodeInternal ''failed to resolve approval TTL'')
      else case find (\<lambda>s. ts_org s = org \<and> ts_tool s = key) tbl of
        None \<Rightarrow> Inr default_approval_ttl
      | Some s \<Rightarrow> Inr (ts_ttl_seconds s * second))"

section \<open>Creating and executing\<close>

text \<open>The \<open>INSERT .. RETURNING\<close> of \<open>createApproval\<close>: the new row, pending, undecided.\<close>

definition new_approval ::
  "uuid \<Rightarrow> auth_context \<Rightarrow> tool \<Rightarrow> execute_input \<Rightarrow> time \<Rightarrow> time \<Rightarrow> approval" where
  "new_approval i ac t inp created expires =
     \<lparr>ap_id = i, ap_org = org_id ac, ap_action = t_key t, ap_risk = t_risk t,
      ap_rtype = in_rtype inp, ap_rid = in_rid inp, ap_params = in_params inp,
      ap_status = Pending,
      ap_user = (if actor_type ac = ActorUser then Some (actor_id ac) else None),
      ap_agent = (if actor_type ac = ActorAgent then Some (actor_id ac) else None),
      ap_created_at = created, ap_expires_at = Some expires,
      ap_decided_by = None, ap_decided_at = None, ap_reason = [], ap_result = JNull\<rparr>"

text \<open>Statements 1 to 3 of the call (\<open>getTool\<close> is statement 0).\<close>

definition create_approval ::
  "env \<Rightarrow> auth_context \<Rightarrow> tool \<Rightarrow> execute_input \<Rightarrow> 'w gateway \<Rightarrow> (api_error + approval) \<times> 'w gateway" where
  "create_approval e ac t inp g =
     (case resolve_approval_ttl (fault e 1) (org_id ac) (t_key t) (settings g) of
        Inl x \<Rightarrow> (Inl x, g)
      | Inr ttl \<Rightarrow>
          if fault e 2 then (Inl (Wrap CodeInternal ''failed to create approval request''), g)
          else
            (let a = new_approval (new_id e) ac t inp (db_now e) (go_now e + ttl)
             in (Inr a,
                 g\<lparr>approvals := approvals g @ [a],
                   audit_log := Record (fault e 3) ac ''approvals.approval.requested'' ''approval''
                                  (IdRef (ap_id a)) [] True (audit_log g)\<rparr>)))"

definition require_tier :: "auth_context \<Rightarrow> string \<Rightarrow> api_error option" where
  "require_tier ac risk =
     (let tier = risk_tier_permission risk in if tier \<noteq> [] then Require ac tier else None)"

definition execute ::
  "env \<Rightarrow> 'w handlers \<Rightarrow> auth_context \<Rightarrow> string \<Rightarrow> execute_input \<Rightarrow> 'w gateway
     \<Rightarrow> (exec_error + execute_result) \<times> 'w gateway" where
  "execute e hs ac key inp g =
     (case get_tool (fault e 0) key (tools_tbl g) of Inl x \<Rightarrow> (Inl (ApiFailure x), g)
      | Inr t \<Rightarrow>
     (case Require ac (t_permission t) of Some x \<Rightarrow> (Inl (ApiFailure x), g)
      | None \<Rightarrow>
     (case require_tier ac (t_risk t) of
        Some x \<Rightarrow> (Inl (ApiFailure x), g)
      | None \<Rightarrow>
        if requires_approval (t_risk t)
        then (case create_approval e ac t inp g of
                (Inl x, g') \<Rightarrow> (Inl (ApiFailure x), g')
              | (Inr a, g') \<Rightarrow>
                  (Inr (empty_result\<lparr>res_status := ''approval_required'',
                          res_approval := Some (ap_id a)\<rparr>), g'))
        else (case run_handler hs ac t inp (world g) of (r, w') \<Rightarrow>
               (let g' = g\<lparr>world := w',
                           audit_log := Record (fault e 1) ac
                             (''tools.'' @ t_key t @ ''.executed'') (in_rtype inp)
                             (TextRef (in_rid inp)) [] (\<not> isl r) (audit_log g)\<rparr>
                in (case r of
                      Inl x \<Rightarrow> (Inl x, g')
                    | Inr v \<Rightarrow> (Inr (empty_result\<lparr>res_status := ''executed'', res_value := Some v\<rparr>), g')))))))"

section \<open>Expiry\<close>

definition stale :: "time \<Rightarrow> approval \<Rightarrow> bool" where
  "stale now a \<longleftrightarrow> ap_status a = Pending \<and>
     (case ap_expires_at a of None \<Rightarrow> False | Some x \<Rightarrow> x < now)"

definition expire_pending :: "time \<Rightarrow> uuid \<Rightarrow> approval list \<Rightarrow> approval list" where
  "expire_pending now org tbl =
     update_where (\<lambda>a. ap_org a = org \<and> stale now a) (\<lambda>a. a\<lparr>ap_status := Expired\<rparr>) tbl"

definition run_expiry_sweep :: "env \<Rightarrow> 'w gateway \<Rightarrow> (api_error + nat) \<times> 'w gateway" where
  "run_expiry_sweep e g =
     (if fault e 0 then (Inl (Wrap CodeInternal ''failed to run approval expiry sweep''), g)
      else (Inr (row_count (stale (db_now e)) (approvals g)),
            g\<lparr>approvals := update_where (stale (db_now e)) (\<lambda>a. a\<lparr>ap_status := Expired\<rparr>) (approvals g)\<rparr>))"

definition list_approvals ::
  "env \<Rightarrow> auth_context \<Rightarrow> string \<Rightarrow> 'w gateway
     \<Rightarrow> (api_error + approval list) \<times> 'w gateway" where
  "list_approvals e ac status g =
     (case Require ac ''approvals.decide'' of Some x \<Rightarrow> (Inl x, g)
      | None \<Rightarrow>
        if fault e 0 then (Inl (Wrap CodeInternal ''failed to expire stale approvals''), g)
        else
          (let g' = g\<lparr>approvals := expire_pending (db_now e) (org_id ac) (approvals g)\<rparr>
           in if fault e 1 then (Inl (Wrap CodeInternal ''failed to list approvals''), g')
              else (Inr (rev (sort_key ap_created_at
                           (filter (\<lambda>a. ap_org a = org_id ac \<and>
                                       (status = [] \<or> approval_status_text (ap_status a) = status)) (approvals g')))),
                    g')))"

section \<open>Cancelling and deciding\<close>

text \<open>
  The conditional updates are the atomic guards: each touches only rows that are still in the
  expected status and returns the first row it changed, \<open>None\<close> being \<open>pgx.ErrNoRows\<close>.
\<close>

definition find_approval :: "uuid \<Rightarrow> uuid \<Rightarrow> approval list \<Rightarrow> approval option" where
  "find_approval i org tbl = find (\<lambda>a. ap_id a = i \<and> ap_org a = org) tbl"

definition update_returning ::
  "(approval \<Rightarrow> bool) \<Rightarrow> (approval \<Rightarrow> approval) \<Rightarrow> approval list \<Rightarrow> approval option \<times> approval list" where
  "update_returning p f tbl =
     ((case hit_rows p f tbl of [] \<Rightarrow> None | a # _ \<Rightarrow> Some a), update_where p f tbl)"

definition cancel_stmt :: "uuid \<Rightarrow> uuid \<Rightarrow> time \<Rightarrow> approval list \<Rightarrow> approval option \<times> approval list" where
  "cancel_stmt i org now =
     update_returning (\<lambda>a. ap_id a = i \<and> ap_org a = org \<and> ap_status a = Pending)
       (\<lambda>a. a\<lparr>ap_status := Cancelled, ap_decided_at := Some now\<rparr>)"

definition reject_stmt ::
  "uuid \<Rightarrow> uuid option \<Rightarrow> string \<Rightarrow> time \<Rightarrow> approval list \<Rightarrow> approval option \<times> approval list" where
  "reject_stmt i by reason now =
     update_returning (\<lambda>a. ap_id a = i \<and> ap_status a = Pending)
       (\<lambda>a. a\<lparr>ap_status := Rejected, ap_decided_by := by, ap_decided_at := Some now, ap_reason := reason\<rparr>)"

definition claim_stmt ::
  "uuid \<Rightarrow> uuid option \<Rightarrow> string \<Rightarrow> time \<Rightarrow> approval list \<Rightarrow> approval option \<times> approval list" where
  "claim_stmt i by reason now =
     update_returning (\<lambda>a. ap_id a = i \<and> ap_status a = Pending)
       (\<lambda>a. a\<lparr>ap_status := Executing, ap_decided_by := by, ap_decided_at := Some now, ap_reason := reason\<rparr>)"

definition finish_stmt ::
  "uuid \<Rightarrow> approval_status \<Rightarrow> json \<Rightarrow> approval list \<Rightarrow> approval option \<times> approval list" where
  "finish_stmt i st res =
     update_returning (\<lambda>a. ap_id a = i \<and> ap_status a = Executing)
       (\<lambda>a. a\<lparr>ap_status := st, ap_result := res\<rparr>)"

definition cancel_approval ::
  "env \<Rightarrow> auth_context \<Rightarrow> uuid \<Rightarrow> 'w gateway \<Rightarrow> (api_error + approval) \<times> 'w gateway" where
  "cancel_approval e ac i g =
     (if actor_type ac \<noteq> ActorUser
      then (Inl (Forbidden ''only the requesting user can cancel an approval''), g)
      else if fault e 0 then (Inl (Wrap CodeInternal ''failed to expire stale approvals''), g)
      else
     (let g1 = g\<lparr>approvals := expire_pending (db_now e) (org_id ac) (approvals g)\<rparr>
      in if fault e 1 then (Inl (Wrap CodeInternal ''failed to load approval''), g1)
         else
     (case find_approval i (org_id ac) (approvals g1) of
        None \<Rightarrow> (Inl (NotFound ''approval''), g1)
      | Some a0 \<Rightarrow>
        if ap_user a0 \<noteq> Some (actor_id ac)
        then (Inl (Forbidden ''only the requesting user can cancel an approval''), g1)
        else if ap_status a0 \<noteq> Pending
        then (Inl (Conflict (''approval is no longer pending (status: ''
                     @ approval_status_text (ap_status a0) @ '')'')), g1)
        else if fault e 2 then (Inl (Wrap CodeInternal ''failed to cancel approval''), g1)
        else
     (case cancel_stmt i (org_id ac) (db_now e) (approvals g1) of
        (None, _) \<Rightarrow> (Inl (Conflict ''approval is no longer pending''), g1)
      | (Some a, tbl) \<Rightarrow>
          (Inr a,
           g1\<lparr>approvals := tbl,
              audit_log := Record (fault e 3) ac ''approvals.approval.cancelled'' ''approval''
                             (IdRef (ap_id a)) [] True (audit_log g1)\<rparr>)))))"

text \<open>
  What \<open>json.Unmarshal(a.Parameters, &params)\<close> leaves in a \<open>map[string]any\<close>: an object is itself,
  \<open>null\<close> is the nil map, anything else is an error and becomes the empty map.
\<close>

definition decode_params :: "json \<Rightarrow> json" where
  "decode_params j = (case j of JObj kvs \<Rightarrow> JObj kvs | JNull \<Rightarrow> JNull | _ \<Rightarrow> JObj [])"

definition failure_json :: "exec_error \<Rightarrow> json" where
  "failure_json x = (case x of
       ApiFailure a \<Rightarrow> JObj [(''error'', JStr (code_text (err_code a))), (''message'', JStr (err_msg a))]
     | OtherFailure _ \<Rightarrow> JObj [(''error'', JStr ''INTERNAL_ERROR'')])"

text \<open>
  The execution part of \<open>DecideApproval\<close>: look the tool up again, run its handler with the
  captured parameters, and say what is recorded: success flag, result document, new world.
\<close>

definition run_claimed ::
  "bool \<Rightarrow> 'w handlers \<Rightarrow> auth_context \<Rightarrow> approval \<Rightarrow> tool list \<Rightarrow> 'w \<Rightarrow> (bool \<times> json) \<times> 'w" where
  "run_claimed failed hs ac a tools w =
     (case get_tool failed (ap_action a) tools of
        Inl _ \<Rightarrow> ((False, JObj [(''error'', JStr ''tool no longer exists in the registry'')]), w)
      | Inr t \<Rightarrow>
          (case run_handler hs ac t \<lparr>in_rtype = ap_rtype a, in_rid = ap_rid a,
                                     in_params = decode_params (ap_params a)\<rparr> w of
             (Inl x, w') \<Rightarrow> ((False, failure_json x), w')
           | (Inr v, w') \<Rightarrow> ((True, v), w')))"

definition final_status :: "bool \<Rightarrow> approval_status" where
  "final_status ok = (if ok then Executed else ExecutionFailed)"

text \<open>Statements 4 to 6 of \<open>DecideApproval\<close>, for the caller that won the claim.\<close>

definition execute_claimed ::
  "env \<Rightarrow> 'w handlers \<Rightarrow> auth_context \<Rightarrow> approval \<Rightarrow> 'w gateway \<Rightarrow> approval \<times> 'w gateway" where
  "execute_claimed e hs ac a g =
     (case run_claimed (fault e 4) hs ac a (tools_tbl g) (world g) of
        ((ok, res), w') \<Rightarrow>
     (let st = final_status ok;
          act = ''approvals.approval.'' @ approval_status_text st;
          lost = (a\<lparr>ap_status := st, ap_result := res\<rparr>,
                  g\<lparr>world := w',
                    audit_log := Record (fault e 6) ac act ''approval'' (IdRef (ap_id a)) [] ok (audit_log g)\<rparr>)
      in if fault e 5 then lost
         else (case finish_stmt (ap_id a) st res (approvals g) of
                 (None, _) \<Rightarrow> lost
               | (Some final, tbl) \<Rightarrow>
                   (final,
                    g\<lparr>world := w', approvals := tbl,
                      audit_log := Record (fault e 6) ac act ''approval'' (IdRef (ap_id final)) [] ok
                                     (audit_log g)\<rparr>))))"

definition decide_approval ::
  "env \<Rightarrow> 'w handlers \<Rightarrow> auth_context \<Rightarrow> uuid \<Rightarrow> bool \<Rightarrow> string \<Rightarrow> 'w gateway
     \<Rightarrow> (api_error + approval) \<times> 'w gateway" where
  "decide_approval e hs ac i approve reason g =
     (case Require ac ''approvals.decide'' of Some x \<Rightarrow> (Inl x, g)
      | None \<Rightarrow>
      if fault e 0 then (Inl (Wrap CodeInternal ''failed to expire stale approvals''), g)
      else
     (let g1 = g\<lparr>approvals := expire_pending (db_now e) (org_id ac) (approvals g)\<rparr>
      in if fault e 1 then (Inl (Wrap CodeInternal ''failed to load approval''), g1)
         else
     (case find_approval i (org_id ac) (approvals g1) of
        None \<Rightarrow> (Inl (NotFound ''approval''), g1)
      | Some a0 \<Rightarrow>
        if ap_status a0 \<noteq> Pending
        then (Inl (Conflict (''approval is no longer pending (status: ''
                     @ approval_status_text (ap_status a0) @ '')'')), g1)
        else if fault e 2 then (Inl (Wrap CodeInternal ''failed to record approval decision''), g1)
        else if \<not> approve then
          (case reject_stmt i (actor_user ac) reason (db_now e) (approvals g1) of
             (None, _) \<Rightarrow> (Inl (Conflict ''approval is no longer pending''), g1)
           | (Some a, tbl) \<Rightarrow>
               (Inr a,
                g1\<lparr>approvals := tbl,
                   audit_log := Record (fault e 3) ac ''approvals.approval.rejected'' ''approval''
                                  (IdRef (ap_id a)) [] True (audit_log g1)\<rparr>))
        else
          (case claim_stmt i (actor_user ac) reason (db_now e) (approvals g1) of
             (None, _) \<Rightarrow> (Inl (Conflict ''approval is no longer pending''), g1)
           | (Some a, tbl) \<Rightarrow>
               (let g2 = g1\<lparr>approvals := tbl,
                     audit_log := Record (fault e 3) ac ''approvals.approval.executing'' ''approval''
                                    (IdRef (ap_id a)) [] True (audit_log g1)\<rparr>
                in (case execute_claimed e hs ac a g2 of (a', g') \<Rightarrow> (Inr a', g')))))))"

section \<open>The approval state machine\<close>

text \<open>
  The machine docs/AGENTS.md promises: pending to executing to executed or execution_failed, or
  pending to rejected, cancelled or expired. \<open>moves\<close> relates two versions of one row: the status
  advances along the machine and what the request captured is never rewritten. \<open>evolves\<close> lifts it
  to tables: no row disappears, rows only move, new rows come after the old ones.
\<close>

fun lifecycle :: "approval_status \<Rightarrow> approval_status \<Rightarrow> bool" where
  "lifecycle Pending t = True"
| "lifecycle Executing t = (t \<in> {Executing, Executed, ExecutionFailed})"
| "lifecycle s t = (s = t)"

lemma lifecycle_refl [simp]: "lifecycle s s"
  by (cases s) auto

lemma lifecycle_trans: "lifecycle s t \<Longrightarrow> lifecycle t u \<Longrightarrow> lifecycle s u"
  by (cases s; cases t) auto

definition captured :: "approval \<Rightarrow> approval \<Rightarrow> bool" where
  "captured a b \<longleftrightarrow> ap_id b = ap_id a \<and> ap_org b = ap_org a \<and> ap_action b = ap_action a
     \<and> ap_risk b = ap_risk a \<and> ap_rtype b = ap_rtype a \<and> ap_rid b = ap_rid a
     \<and> ap_params b = ap_params a \<and> ap_user b = ap_user a \<and> ap_agent b = ap_agent a
     \<and> ap_created_at b = ap_created_at a \<and> ap_expires_at b = ap_expires_at a"

definition moves :: "approval \<Rightarrow> approval \<Rightarrow> bool" where
  "moves a b \<longleftrightarrow> captured a b \<and> lifecycle (ap_status a) (ap_status b)"

definition evolves :: "approval list \<Rightarrow> approval list \<Rightarrow> bool" where
  "evolves tbl tbl' \<longleftrightarrow> (\<exists>old fresh. tbl' = old @ fresh \<and> list_all2 moves tbl old)"

lemma moves_refl [simp, intro]: "moves a a"
  by (simp add: moves_def captured_def)

lemma moves_trans: "moves a b \<Longrightarrow> moves b c \<Longrightarrow> moves a c"
  by (auto simp: moves_def captured_def intro: lifecycle_trans)

lemma evolvesI: "list_all2 moves tbl old \<Longrightarrow> evolves tbl (old @ fresh)"
  by (auto simp: evolves_def)

lemma evolves_refl [simp, intro]: "evolves tbl tbl"
  using evolvesI [of tbl tbl "[]"] by (simp add: list_all2_refl)

lemma evolves_append [simp, intro]: "evolves tbl (tbl @ fresh)"
  by (rule evolvesI) (simp add: list_all2_refl)

lemma evolves_trans [trans]:
  assumes "evolves t1 t2" "evolves t2 t3"
  shows "evolves t1 t3"
proof -
  from assms(1) obtain o1 f1 where 1: "t2 = o1 @ f1" "list_all2 moves t1 o1"
    by (auto simp: evolves_def)
  from assms(2) obtain o2 f2 where 2: "t3 = o2 @ f2" "list_all2 moves (o1 @ f1) o2"
    by (auto simp: evolves_def 1)
  from 2(2) obtain p q where 3: "o2 = p @ q" "list_all2 moves o1 p"
    by (auto simp: list_all2_append1)
  have "list_all2 moves t1 p"
    by (rule list_all2_trans [OF _ 1(2) 3(2)]) (rule moves_trans)
  then show ?thesis
    using evolvesI [of t1 p "q @ f2"] by (simp add: 2 3)
qed

lemma evolves_update_where:
  "(\<And>a. p a \<Longrightarrow> moves a (f a)) \<Longrightarrow> evolves tbl (update_where p f tbl)"
proof -
  assume "\<And>a. p a \<Longrightarrow> moves a (f a)"
  then have "list_all2 moves tbl (update_where p f tbl)"
    by (induction tbl) auto
  then show ?thesis using evolvesI [of tbl _ "[]"] by simp
qed

named_theorems gw_tbl "what each statement does to the approvals table"

lemma expire_pending_evolves [gw_tbl]: "evolves tbl (expire_pending now org tbl)"
  unfolding expire_pending_def
  by (rule evolves_update_where) (auto simp: moves_def captured_def stale_def)

lemma sweep_evolves [gw_tbl]: "evolves tbl (update_where (stale now) (\<lambda>a. a\<lparr>ap_status := Expired\<rparr>) tbl)"
  by (rule evolves_update_where) (auto simp: moves_def captured_def stale_def)

lemma cancel_stmt_evolves [gw_tbl]: "evolves tbl (snd (cancel_stmt i org now tbl))"
  unfolding cancel_stmt_def update_returning_def snd_conv
  by (rule evolves_update_where) (auto simp: moves_def captured_def)

lemma reject_stmt_evolves [gw_tbl]: "evolves tbl (snd (reject_stmt i who r now tbl))"
  unfolding reject_stmt_def update_returning_def snd_conv
  by (rule evolves_update_where) (auto simp: moves_def captured_def)

lemma claim_stmt_evolves [gw_tbl]: "evolves tbl (snd (claim_stmt i who r now tbl))"
  unfolding claim_stmt_def update_returning_def snd_conv
  by (rule evolves_update_where) (auto simp: moves_def captured_def)

lemma finish_stmt_evolves [gw_tbl]:
  "st \<in> {Executed, ExecutionFailed} \<Longrightarrow> evolves tbl (snd (finish_stmt i st res tbl))"
  unfolding finish_stmt_def update_returning_def snd_conv
  by (rule evolves_update_where) (auto simp: moves_def captured_def)

lemma final_status_range: "final_status ok \<in> {Executed, ExecutionFailed}"
  by (simp add: final_status_def)

section \<open>Every operation follows the machine\<close>

lemma expire_then: "evolves (expire_pending now org tbl) t \<Longrightarrow> evolves tbl t"
  by (rule evolves_trans [OF expire_pending_evolves])

lemma stmt_evolvesD:
  "cancel_stmt i org now tbl = (r, tbl') \<Longrightarrow> evolves tbl tbl'"
  "reject_stmt i who why now tbl = (r, tbl') \<Longrightarrow> evolves tbl tbl'"
  "claim_stmt i who why now tbl = (r, tbl') \<Longrightarrow> evolves tbl tbl'"
  "finish_stmt i (final_status ok) res tbl = (r, tbl') \<Longrightarrow> evolves tbl tbl'"
  using cancel_stmt_evolves [of tbl i org now] reject_stmt_evolves [of tbl i who why now]
    claim_stmt_evolves [of tbl i who why now]
    finish_stmt_evolves [OF final_status_range, of tbl i ok res]
  by simp_all

lemma create_approval_evolves:
  "create_approval e ac t inp g = (r, g') \<Longrightarrow> evolves (approvals g) (approvals g')"
  by (auto simp: create_approval_def Let_def split: sum.splits if_splits)

lemma execute_evolves: "evolves (approvals g) (approvals (snd (execute e hs ac k inp g)))"
  by (auto simp: execute_def Let_def dest: create_approval_evolves
      split: sum.splits option.splits prod.splits)

lemma list_approvals_evolves: "evolves (approvals g) (approvals (snd (list_approvals e ac st g)))"
  by (auto simp: list_approvals_def Let_def gw_tbl split: option.splits)

lemma cancel_approval_evolves: "evolves (approvals g) (approvals (snd (cancel_approval e ac i g)))"
  by (auto simp: cancel_approval_def Let_def gw_tbl dest: stmt_evolvesD intro: expire_then
      split: option.splits prod.splits)

lemma execute_claimed_evolves:
  "execute_claimed e hs ac a g = (a', g') \<Longrightarrow> evolves (approvals g) (approvals g')"
  by (auto simp: execute_claimed_def Let_def dest: stmt_evolvesD
      split: option.splits prod.splits if_splits)

lemma decide_approval_evolves:
  "evolves (approvals g) (approvals (snd (decide_approval e hs ac i approve why g)))"
proof -
  have claimed: "evolves tbl (approvals g')"
    if "claim_stmt i who why now tbl = (Some a, tbl')"
      and "execute_claimed e hs ac a (h\<lparr>approvals := tbl', audit_log := l\<rparr>) = (a', g')"
    for a a' g' tbl tbl' now who l and h :: "'a gateway"
    using evolves_trans [OF stmt_evolvesD(3) [OF that(1)] execute_claimed_evolves [OF that(2), simplified]] .
  show ?thesis
    by (auto simp: decide_approval_def Let_def gw_tbl dest: stmt_evolvesD claimed intro: expire_then
        split: option.splits prod.splits)
qed

lemma run_expiry_sweep_evolves: "evolves (approvals g) (approvals (snd (run_expiry_sweep e g)))"
  by (simp add: run_expiry_sweep_def gw_tbl)

section \<open>The operations as one interface\<close>

datatype gateway_op =
    GExecute env auth_context string execute_input
  | GCancel env auth_context uuid
  | GDecide env auth_context uuid bool string
  | GList env auth_context string
  | GSweep env
  | GSetTTL env auth_context string duration
  | GClearTTL env auth_context string

primrec gateway_step :: "'w handlers \<Rightarrow> gateway_op \<Rightarrow> 'w gateway \<Rightarrow> 'w gateway" where
  "gateway_step hs (GExecute e ac k inp) g = snd (execute e hs ac k inp g)"
| "gateway_step hs (GCancel e ac i) g = snd (cancel_approval e ac i g)"
| "gateway_step hs (GDecide e ac i ok why) g = snd (decide_approval e hs ac i ok why g)"
| "gateway_step hs (GList e ac st) g = snd (list_approvals e ac st g)"
| "gateway_step hs (GSweep e) g = snd (run_expiry_sweep e g)"
| "gateway_step hs (GSetTTL e ac k ttl) g = snd (set_approval_ttl e ac k ttl g)"
| "gateway_step hs (GClearTTL e ac k) g = snd (clear_approval_ttl e ac k g)"

lemma set_approval_ttl_frame [simp]:
  "approvals (snd (set_approval_ttl e ac k ttl g)) = approvals g"
  "world (snd (set_approval_ttl e ac k ttl g)) = world g"
  "tools_tbl (snd (set_approval_ttl e ac k ttl g)) = tools_tbl g"
  by (auto simp: set_approval_ttl_def Let_def split: option.splits sum.splits)

lemma clear_approval_ttl_frame [simp]:
  "approvals (snd (clear_approval_ttl e ac k g)) = approvals g"
  "world (snd (clear_approval_ttl e ac k g)) = world g"
  "tools_tbl (snd (clear_approval_ttl e ac k g)) = tools_tbl g"
  by (auto simp: clear_approval_ttl_def split: option.splits)

lemma gateway_step_evolves: "evolves (approvals g) (approvals (gateway_step hs op g))"
  by (cases op) (simp_all add: execute_evolves cancel_approval_evolves decide_approval_evolves
      list_approvals_evolves run_expiry_sweep_evolves)

lemma gateway_run_evolves: "evolves (approvals g) (approvals (run_ops (gateway_step hs) ops g))"
  by (rule run_ops_related [where R = "\<lambda>g g'. evolves (approvals g) (approvals g')"])
    (auto simp: gateway_step_evolves intro: evolves_trans)

section \<open>Primary key and tenant isolation\<close>

lemma pk_stmts [gw_tbl]:
  "pk ap_id (expire_pending now org tbl) = pk ap_id tbl"
  "pk ap_id (snd (cancel_stmt i org now tbl)) = pk ap_id tbl"
  "pk ap_id (snd (reject_stmt i who why now tbl)) = pk ap_id tbl"
  "pk ap_id (snd (claim_stmt i who why now tbl)) = pk ap_id tbl"
  "pk ap_id (snd (finish_stmt i st res tbl)) = pk ap_id tbl"
  by (simp_all add: expire_pending_def cancel_stmt_def reject_stmt_def claim_stmt_def finish_stmt_def
      update_returning_def sql)

definition org_rows :: "uuid \<Rightarrow> approval list \<Rightarrow> approval list" where
  "org_rows org tbl = filter (\<lambda>a. ap_org a = org) tbl"

lemma org_rows_update_where:
  assumes "\<And>a. a \<in> set tbl \<Longrightarrow> p a \<Longrightarrow> ap_org a \<noteq> org" "\<And>a. ap_org (f a) = ap_org a"
  shows "org_rows org (update_where p f tbl) = org_rows org tbl"
  using assms(1) by (induction tbl) (auto simp: org_rows_def assms(2))

lemma org_rows_expire: "org \<noteq> o' \<Longrightarrow> org_rows org (expire_pending now o' tbl) = org_rows org tbl"
  unfolding expire_pending_def by (rule org_rows_update_where) auto

lemma org_rows_by_id:
  assumes "pk ap_id tbl" "find_approval i o' tbl = Some a" "org \<noteq> o'"
  shows "org_rows org (snd (cancel_stmt i o2 now tbl)) = org_rows org tbl"
    and "org_rows org (snd (reject_stmt i who why now tbl)) = org_rows org tbl"
    and "org_rows org (snd (claim_stmt i who why now tbl)) = org_rows org tbl"
    and "org_rows org (snd (finish_stmt i st res tbl)) = org_rows org tbl"
proof -
  have "ap_org b = o'" if "b \<in> set tbl" "ap_id b = i" for b
    using find_SomeD [OF assms(2) [unfolded find_approval_def]] pk_unique [OF assms(1) that(1), of a] that
    by auto
  with assms(3) show
    "org_rows org (snd (cancel_stmt i o2 now tbl)) = org_rows org tbl"
    "org_rows org (snd (reject_stmt i who why now tbl)) = org_rows org tbl"
    "org_rows org (snd (claim_stmt i who why now tbl)) = org_rows org tbl"
    "org_rows org (snd (finish_stmt i st res tbl)) = org_rows org tbl"
    unfolding cancel_stmt_def reject_stmt_def claim_stmt_def finish_stmt_def update_returning_def snd_conv
    by (intro org_rows_update_where; auto)+
qed

text \<open>
  After a claim the row with the claimed id still belongs to the same organization, so the final
  update cannot reach another tenant either.
\<close>

lemma update_returning_row:
  "update_returning p f tbl = (Some a, tbl') \<Longrightarrow> \<exists>b \<in> set tbl. p b \<and> a = f b \<and> a \<in> set tbl'"
  by (auto simp: update_returning_def set_update_where split: list.splits dest!: hit_rows_ConsD)

lemma update_returning_None:
  "update_returning p f tbl = (None, tbl') \<Longrightarrow> tbl' = tbl \<and> (\<forall>b \<in> set tbl. \<not> p b)"
  by (auto simp: update_returning_def hit_rows_Nil_iff update_where_none split: list.splits)

lemma claim_stmt_SomeD:
  assumes "claim_stmt i who why now tbl = (Some a, tbl')"
  shows "ap_id a = i" "ap_status a = Executing" "a \<in> set tbl'"
    "\<exists>b \<in> set tbl. ap_id b = i \<and> ap_status b = Pending \<and> captured b a"
  using update_returning_row [OF assms [unfolded claim_stmt_def]] by (auto simp: captured_def)

lemma execute_claimed_org_rows:
  assumes "execute_claimed e hs ac a g = (a', g')" "pk ap_id (approvals g)"
    and "a \<in> set (approvals g)" "ap_org a \<noteq> org"
  shows "org_rows org (approvals g') = org_rows org (approvals g)"
proof -
  have "find_approval (ap_id a) (ap_org a) (approvals g) \<noteq> None"
    using assms(3) by (auto simp: find_approval_def find_None_iff)
  then obtain b where "find_approval (ap_id a) (ap_org a) (approvals g) = Some b" by blast
  from org_rows_by_id(4) [OF assms(2) this] assms(4)
  have "finish_stmt (ap_id a) st res (approvals g) = (r, t) \<Longrightarrow> org_rows org t = org_rows org (approvals g)"
    for st res r t by (metis snd_conv)
  then show ?thesis
    using assms(1) by (auto simp: execute_claimed_def Let_def split: prod.splits option.splits if_splits)
qed

lemma decide_approval_org_rows:
  assumes "pk ap_id (approvals g)" "org_id ac \<noteq> org"
  shows "org_rows org (approvals (snd (decide_approval e hs ac i approve why g))) = org_rows org (approvals g)"
proof -
  let ?t = "expire_pending (db_now e) (org_id ac) (approvals g)"
  have t: "pk ap_id ?t" "org_rows org ?t = org_rows org (approvals g)"
    using assms by (simp_all add: gw_tbl org_rows_expire)
  have rej: "org_rows org t' = org_rows org (approvals g)"
    if "find_approval i (org_id ac) ?t = Some a0" "reject_stmt i who why (db_now e) ?t = (r, t')"
    for a0 who r t'
    using org_rows_by_id(2) [OF t(1) that(1), of org who why "db_now e"] assms(2) that(2) t(2) by simp
  have cl: "org_rows org (approvals g') = org_rows org (approvals g)"
    if f: "find_approval i (org_id ac) ?t = Some a0"
      and c: "claim_stmt i who why (db_now e) ?t = (Some a, t')"
      and x: "execute_claimed e hs ac a (h\<lparr>approvals := t', audit_log := l\<rparr>) = (a', g')"
    for a0 a a' who t' l g' and h :: "'a gateway"
  proof -
    have pk': "pk ap_id t'" using pk_stmts(4) [of i who why "db_now e" ?t] c t(1) by simp
    have o1: "org_rows org t' = org_rows org (approvals g)"
      using org_rows_by_id(3) [OF t(1) f, of org who why "db_now e"] assms(2) c t(2) by simp
    obtain b where b: "b \<in> set ?t" "ap_id b = i" "captured b a"
      using claim_stmt_SomeD(4) [OF c] by blast
    have "b = a0"
      using find_SomeD [OF f [unfolded find_approval_def]] b pk_unique [OF t(1) b(1), of a0] by auto
    then have "ap_org a = org_id ac"
      using find_SomeD [OF f [unfolded find_approval_def]] b(3) by (simp add: captured_def)
    then show ?thesis
      using execute_claimed_org_rows [OF x] pk' claim_stmt_SomeD(3) [OF c] assms(2) o1 by simp
  qed
  show ?thesis
    by (auto simp: decide_approval_def Let_def t dest: rej cl split: option.splits prod.splits)
qed

lemma cancel_approval_org_rows:
  assumes "pk ap_id (approvals g)" "org_id ac \<noteq> org"
  shows "org_rows org (approvals (snd (cancel_approval e ac i g))) = org_rows org (approvals g)"
proof -
  let ?t = "expire_pending (db_now e) (org_id ac) (approvals g)"
  have t: "pk ap_id ?t" "org_rows org ?t = org_rows org (approvals g)"
    using assms by (simp_all add: gw_tbl org_rows_expire)
  have c: "org_rows org t' = org_rows org (approvals g)"
    if "find_approval i (org_id ac) ?t = Some a0" "cancel_stmt i (org_id ac) (db_now e) ?t = (r, t')"
    for a0 r t'
    using org_rows_by_id(1) [OF t(1) that(1), of org "org_id ac" "db_now e"] assms(2) that(2) t(2) by simp
  show ?thesis
    by (auto simp: cancel_approval_def Let_def t dest: c split: option.splits prod.splits)
qed

lemma create_approval_org_rows:
  "create_approval e ac t inp g = (r, g') \<Longrightarrow> org_id ac \<noteq> org \<Longrightarrow>
     org_rows org (approvals g') = org_rows org (approvals g)"
  by (auto simp: create_approval_def new_approval_def org_rows_def Let_def split: sum.splits if_splits)

lemma execute_org_rows:
  "org_id ac \<noteq> org \<Longrightarrow>
     org_rows org (approvals (snd (execute e hs ac k inp g))) = org_rows org (approvals g)"
  by (auto simp: execute_def Let_def dest: create_approval_org_rows
      split: sum.splits option.splits prod.splits)

lemma list_approvals_org_rows:
  "org_id ac \<noteq> org \<Longrightarrow>
     org_rows org (approvals (snd (list_approvals e ac st g))) = org_rows org (approvals g)"
  by (auto simp: list_approvals_def Let_def org_rows_expire split: option.splits)

text \<open>The caller of an operation; the sweep has none.\<close>

primrec gateway_caller :: "gateway_op \<Rightarrow> auth_context option" where
  "gateway_caller (GExecute e ac k inp) = Some ac"
| "gateway_caller (GCancel e ac i) = Some ac"
| "gateway_caller (GDecide e ac i ok why) = Some ac"
| "gateway_caller (GList e ac st) = Some ac"
| "gateway_caller (GSweep e) = None"
| "gateway_caller (GSetTTL e ac k ttl) = Some ac"
| "gateway_caller (GClearTTL e ac k) = Some ac"

section \<open>What reaches a handler\<close>

lemma create_approval_world [simp]: "create_approval e ac t inp g = (r, g') \<Longrightarrow> world g' = world g"
  by (auto simp: create_approval_def Let_def split: sum.splits if_splits)

text \<open>
  \<open>Execute\<close> reaches a handler only for a tool of tier read or safe, and only when the caller
  holds the tool's own permission and the tier's.
\<close>

lemma get_tool_InrD: "get_tool failed k tbl = Inr t \<Longrightarrow> find (\<lambda>t. t_key t = k) tbl = Some t"
  by (auto simp: get_tool_def split: if_splits option.splits)

lemma execute_reaches_handler:
  assumes w: "world (snd (execute e hs ac k inp g)) \<noteq> world g"
  shows "\<exists>t. find (\<lambda>t. t_key t = k) (tools_tbl g) = Some t
    \<and> authorised ac (t_permission t)
    \<and> (risk_tier_permission (t_risk t) = [] \<or> authorised ac (risk_tier_permission (t_risk t)))
    \<and> \<not> requires_approval (t_risk t)
    \<and> world (snd (execute e hs ac k inp g)) = snd (run_handler hs ac t inp (world g))"
proof -
  obtain t where t: "get_tool (fault e 0) k (tools_tbl g) = Inr t"
    using w by (cases "get_tool (fault e 0) k (tools_tbl g)") (auto simp: execute_def)
  have p: "authorised ac (t_permission t)"
    using w by (cases "Require ac (t_permission t)") (simp_all add: execute_def t)
  then have p': "Require ac (t_permission t) = None" by simp
  have q: "require_tier ac (t_risk t) = None"
    using w by (cases "require_tier ac (t_risk t)") (simp_all add: execute_def t p')
  have r: "\<not> requires_approval (t_risk t)"
  proof
    assume r: "requires_approval (t_risk t)"
    obtain v g' where c: "create_approval e ac t inp g = (v, g')" by force
    with w show False
      by (cases v) (simp_all add: execute_def t p' q r)
  qed
  obtain v w' where h: "run_handler hs ac t inp (world g) = (v, w')" by force
  have "world (snd (execute e hs ac k inp g)) = w'"
    by (cases v) (simp_all add: execute_def t p' q r h Let_def)
  with get_tool_InrD [OF t] p q r h show ?thesis
    by (auto simp: require_tier_def Let_def split: if_splits)
qed

lemma run_claimed_world:
  assumes "snd (run_claimed failed hs ac a tools w) \<noteq> w"
  shows "\<exists>t. find (\<lambda>t. t_key t = ap_action a) tools = Some t
    \<and> snd (run_claimed failed hs ac a tools w) =
        snd (run_handler hs ac t \<lparr>in_rtype = ap_rtype a, in_rid = ap_rid a,
               in_params = decode_params (ap_params a)\<rparr> w)"
  using assms
  by (cases "get_tool failed (ap_action a) tools")
    (auto simp: run_claimed_def dest: get_tool_InrD split: prod.splits sum.splits)

lemma execute_claimed_world:
  "world (snd (execute_claimed e hs ac a g)) = snd (run_claimed (fault e 4) hs ac a (tools_tbl g) (world g))"
proof -
  obtain ok res w' where r: "run_claimed (fault e 4) hs ac a (tools_tbl g) (world g) = ((ok, res), w')"
    by (metis prod.exhaust)
  obtain v tbl where f: "finish_stmt (ap_id a) (final_status ok) res (approvals g) = (v, tbl)" by force
  show ?thesis
    by (cases "fault e 5"; cases v) (simp_all add: execute_claimed_def r f Let_def)
qed

lemma expire_pending_live:
  assumes "a \<in> set (expire_pending now org tbl)" "ap_status a = Pending" "ap_org a = org"
  shows "a \<in> set tbl" "\<not> stale now a"
proof -
  from assms(1) obtain b where b: "b \<in> set tbl"
    "a = (if ap_org b = org \<and> stale now b then b\<lparr>ap_status := Expired\<rparr> else b)"
    unfolding expire_pending_def set_update_where by blast
  then have "\<not> (ap_org b = org \<and> stale now b)" using assms(2) by auto
  with b assms(3) show "a \<in> set tbl" "\<not> stale now a" by auto
qed

text \<open>
  \<open>DecideApproval\<close> reaches a handler only to approve, by a caller who may decide, an approval of
  the caller's own organization that is pending and not past its expiry; and what runs is the
  captured action with the captured parameters.
\<close>

lemma decide_reaches_handler:
  assumes pk: "pk ap_id (approvals g)"
    and w: "world (snd (decide_approval e hs ac i approve why g)) \<noteq> world g"
  obtains a t where "a \<in> set (approvals g)" "ap_id a = i" "ap_org a = org_id ac"
    "ap_status a = Pending" "\<not> stale (db_now e) a" "approve" "authorised ac ''approvals.decide''"
    "find (\<lambda>t. t_key t = ap_action a) (tools_tbl g) = Some t"
    "world (snd (decide_approval e hs ac i approve why g)) =
       snd (run_handler hs ac t \<lparr>in_rtype = ap_rtype a, in_rid = ap_rid a,
              in_params = decode_params (ap_params a)\<rparr> (world g))"
proof -
  let ?t = "expire_pending (db_now e) (org_id ac) (approvals g)"
  from w obtain a0 b tbl' g' a' l where
    f: "find_approval i (org_id ac) ?t = Some a0" "ap_status a0 = Pending"
    and ok: "approve" "authorised ac ''approvals.decide''"
    and c: "claim_stmt i (actor_user ac) why (db_now e) ?t = (Some b, tbl')"
    and x: "execute_claimed e hs ac b (g\<lparr>approvals := tbl', audit_log := l\<rparr>) = (a', g')"
    and d: "snd (decide_approval e hs ac i approve why g) = g'"
    by (auto simp: decide_approval_def Let_def split: option.splits prod.splits if_splits)
  from claim_stmt_SomeD(4) [OF c] obtain b0 where
    b0: "b0 \<in> set ?t" "ap_id b0 = i" "ap_status b0 = Pending" "captured b0 b" by blast
  have a0: "a0 \<in> set ?t" "ap_id a0 = i" "ap_org a0 = org_id ac"
    using find_SomeD [OF f(1) [unfolded find_approval_def]] by auto
  have "pk ap_id ?t" using pk by (simp add: gw_tbl)
  from pk_unique [OF this b0(1) a0(1)] b0(2) a0(2) have "b0 = a0" by simp
  with b0(4) have cap: "captured a0 b" by simp
  have "world g' = snd (run_claimed (fault e 4) hs ac b (tools_tbl g) (world g))"
    using execute_claimed_world [of e hs ac b "g\<lparr>approvals := tbl', audit_log := l\<rparr>"] x by simp
  with w d obtain t where t: "find (\<lambda>t. t_key t = ap_action b) (tools_tbl g) = Some t"
    "world g' = snd (run_handler hs ac t \<lparr>in_rtype = ap_rtype b, in_rid = ap_rid b,
                       in_params = decode_params (ap_params b)\<rparr> (world g))"
    using run_claimed_world [of "fault e 4" hs ac b "tools_tbl g" "world g"] by auto
  show ?thesis
    using that [OF expire_pending_live(1) [OF a0(1) f(2) a0(3)] a0(2,3) f(2)
        expire_pending_live(2) [OF a0(1) f(2) a0(3)] ok, of t] t cap d
    by (simp add: captured_def)
qed

lemma cancel_approval_world [simp]: "world (snd (cancel_approval e ac i g)) = world g"
  by (auto simp: cancel_approval_def Let_def split: option.splits prod.splits)

lemma list_approvals_world [simp]: "world (snd (list_approvals e ac st g)) = world g"
  by (auto simp: list_approvals_def Let_def split: option.splits)

lemma run_expiry_sweep_world [simp]: "world (snd (run_expiry_sweep e g)) = world g"
  by (simp add: run_expiry_sweep_def)

end
