(* ===== verification/GatewayProps.thy ===== *)
theory GatewayProps
  imports ToolGateway
begin

text \<open>
  What the Tool Gateway guarantees: bounded approval lifetimes, tenant isolation, who can reach a
  tool handler, finality of decided approvals, and the approving path in full.
\<close>

section \<open>Bounded lifetimes\<close>

definition ttl_bounded :: "'w gateway \<Rightarrow> bool" where
  "ttl_bounded g \<longleftrightarrow> (\<forall>s \<in> set (settings g).
     min_approval_ttl \<le> ts_ttl_seconds s * second \<and> ts_ttl_seconds s * second \<le> max_approval_ttl)"

lemma whole_seconds:
  "min_approval_ttl \<le> ttl \<Longrightarrow> ttl \<le> max_approval_ttl \<Longrightarrow>
     min_approval_ttl \<le> ttl div second * second \<and> ttl div second * second \<le> max_approval_ttl"
  using zdiv_mono1 [of min_approval_ttl ttl second] zdiv_mono1 [of ttl max_approval_ttl second]
  by (simp add: min_approval_ttl_def max_approval_ttl_def duration_defs)

lemma set_upsert_setting:
  "s \<in> set (upsert_setting org k secs who now tbl) \<Longrightarrow> s \<in> set tbl \<or> ts_ttl_seconds s = secs"
  by (auto simp: upsert_setting_def Let_def set_update_where split: if_splits)

lemma set_approval_ttl_settings:
  "settings (snd (set_approval_ttl e ac k ttl g)) = settings g
   \<or> min_approval_ttl \<le> ttl \<and> ttl \<le> max_approval_ttl
     \<and> settings (snd (set_approval_ttl e ac k ttl g)) =
         upsert_setting (org_id ac) k (ttl div second) (actor_user ac) (db_now e) (settings g)"
  by (auto simp: set_approval_ttl_def Let_def split: option.split sum.split)

lemma clear_approval_ttl_settings:
  "set (settings (snd (clear_approval_ttl e ac k g))) \<subseteq> set (settings g)"
  by (auto simp: clear_approval_ttl_def split: option.splits)

lemma create_approval_settings:
  "create_approval e ac t inp g = (r, g') \<Longrightarrow> settings g' = settings g"
  by (auto simp: create_approval_def Let_def split: sum.splits if_splits)

lemma settings_frames [simp]:
  "settings (snd (execute e hs ac k inp g)) = settings g"
  "settings (snd (cancel_approval e ac i g)) = settings g"
  "settings (snd (list_approvals e ac st g)) = settings g"
  "settings (snd (run_expiry_sweep e g)) = settings g"
  by (auto simp: execute_def cancel_approval_def list_approvals_def run_expiry_sweep_def Let_def
      dest: create_approval_settings split: option.split sum.split prod.split)

lemma execute_claimed_settings: "settings (snd (execute_claimed e hs ac a g)) = settings g"
  by (auto simp: execute_claimed_def Let_def split: prod.split option.split)

lemma decide_approval_settings [simp]:
  "settings (snd (decide_approval e hs ac i ok why g)) = settings g"
  using execute_claimed_settings [of e hs ac]
  by (auto simp: decide_approval_def Let_def case_prod_unfold split: option.split)


lemma ttl_bounded_step: "ttl_bounded g \<Longrightarrow> ttl_bounded (gateway_step hs op g)"
proof (cases op)
  case (GSetTTL e ac k ttl)
  then show "ttl_bounded g \<Longrightarrow> ?thesis"
    using set_approval_ttl_settings [of e ac k ttl g] whole_seconds [of ttl]
    by (auto simp: ttl_bounded_def dest!: set_upsert_setting)
next
  case (GClearTTL e ac k)
  then show "ttl_bounded g \<Longrightarrow> ?thesis"
    using clear_approval_ttl_settings [of e ac k g] by (auto simp: ttl_bounded_def)
qed (simp_all add: ttl_bounded_def)

lemma resolve_approval_ttl_bounds:
  "ttl_bounded g \<Longrightarrow> resolve_approval_ttl failed org k (settings g) = Inr ttl \<Longrightarrow>
     min_approval_ttl \<le> ttl \<and> ttl \<le> max_approval_ttl"
  by (auto simp: resolve_approval_ttl_def ttl_bounded_def default_approval_ttl_def min_approval_ttl_def
      max_approval_ttl_def duration_defs split: if_splits option.splits dest: find_SomeD)

lemma create_approval_InrD:
  assumes "create_approval e ac t inp g = (Inr a, g')"
  obtains ttl where "resolve_approval_ttl (fault e 1) (org_id ac) (t_key t) (settings g) = Inr ttl"
    "a = new_approval (new_id e) ac t inp (db_now e) (go_now e + ttl)"
    "approvals g' = approvals g @ [a]" "settings g' = settings g" "tools_tbl g' = tools_tbl g"
    "audit_log g' = Record (fault e 3) ac ''approvals.approval.requested'' ''approval''
                      (IdRef (new_id e)) [] True (audit_log g)"
  using assms by (auto simp: create_approval_def new_approval_def Let_def split: sum.splits if_splits)

lemma execute_approval_required:
  assumes "find (\<lambda>t. t_key t = k) (tools_tbl g) = Some t" "requires_approval (t_risk t)"
    and "fst (execute e hs ac k inp g) = Inr r"
  obtains a g' where "create_approval e ac t inp g = (Inr a, g')" "snd (execute e hs ac k inp g) = g'"
    "r = \<lparr>res_status = ''approval_required'', res_value = None, res_approval = Some (ap_id a)\<rparr>"
    "authorised ac (t_permission t)" "authorised ac (risk_tier_permission (t_risk t))"
proof -
  have t: "get_tool (fault e 0) k (tools_tbl g) = Inr t"
    using assms(1,3) by (cases "fault e 0") (simp_all add: get_tool_def execute_def)
  have p: "Require ac (t_permission t) = None"
    using assms(3) by (cases "Require ac (t_permission t)") (simp_all add: execute_def t)
  have q: "require_tier ac (t_risk t) = None"
    using assms(3) by (cases "require_tier ac (t_risk t)") (simp_all add: execute_def t p del: Require_None)
  obtain v g' where c: "create_approval e ac t inp g = (v, g')" by force
  have tier: "authorised ac (risk_tier_permission (t_risk t))"
    using q assms(2) by (auto simp: require_tier_def risk_tier_permission_def requires_approval_def)
  show ?thesis
  proof (cases v)
    case (Inl x)
    then show ?thesis using assms(2,3) by (simp add: execute_def t p q c del: Require_None)
  next
    case (Inr a)
    have r: "r = \<lparr>res_status = ''approval_required'', res_value = None, res_approval = Some (ap_id a)\<rparr>"
      using assms(2,3) by (simp add: execute_def t p q c Inr empty_result_def del: Require_None)
    have s: "snd (execute e hs ac k inp g) = g'"
      using assms(2) by (simp add: execute_def t p q c Inr del: Require_None)
    show ?thesis
      by (rule that [OF _ s r _ tier]) (use c Inr p in simp_all)
  qed
qed

lemma execute_dangerous_error:
  assumes "find (\<lambda>t. t_key t = k) (tools_tbl g) = Some t" "t_risk t = ''privileged'' \<or> t_risk t = ''critical''"
    and "execute e hs ac k inp g = (Inl x, g')"
  shows "g' = g"
proof -
  have "get_tool (fault e 0) k (tools_tbl g) = Inr t \<or> (\<exists>y. get_tool (fault e 0) k (tools_tbl g) = Inl y)"
    using assms(1) by (auto simp: get_tool_def)
  moreover have "requires_approval (t_risk t)" using assms(2) by (auto simp: requires_approval_def)
  moreover have "create_approval e ac t inp g = (Inl y, h) \<Longrightarrow> h = g" for y h
    by (auto simp: create_approval_def Let_def split: sum.splits if_splits)
  ultimately show ?thesis
    using assms(3) by (auto simp: execute_def split: option.splits prod.splits sum.splits)
qed

section \<open>Properties\<close>

text \<open>
  C1: the approvals table is a refinement of the documented state machine: whatever the callers,
  faults, clocks and handlers, after any sequence of gateway operations every approval that was
  there before is still there, the fields that capture the request are unchanged, and its status
  has only advanced along the machine.
\<close>

theorem approvals_follow_state_machine:
  "evolves (approvals g) (approvals (run_ops (gateway_step hs) ops g))"
  by (rule gateway_run_evolves)

text \<open>
  C2: tenant isolation: an operation called from one organization leaves every approval of every
  other organization exactly as it was (approval ids being the table's primary key).
\<close>

theorem gateway_tenant_isolation:
  assumes "pk ap_id (approvals g)" "gateway_caller op = Some ac" "org_id ac \<noteq> org"
  shows "org_rows org (approvals (gateway_step hs op g)) = org_rows org (approvals g)"
  using assms by (cases op)
    (simp_all add: execute_org_rows cancel_approval_org_rows decide_approval_org_rows list_approvals_org_rows)

text \<open>
  C3: the only two ways an operation of the gateway reaches a tool handler: \<open>Execute\<close> of a tool that
  needs no approval by a caller holding the tool's and the tier's permission, or \<open>DecideApproval\<close>
  approving a pending, unexpired approval of the caller's own organization, which then runs the
  captured action with the captured parameters.
\<close>

theorem handlers_run_only_when_authorised:
  assumes "pk ap_id (approvals g)" "world (gateway_step hs op g) \<noteq> world g"
  shows "(\<exists>e ac k inp t. op = GExecute e ac k inp
            \<and> find (\<lambda>t. t_key t = k) (tools_tbl g) = Some t \<and> \<not> requires_approval (t_risk t)
            \<and> authorised ac (t_permission t)
            \<and> (risk_tier_permission (t_risk t) = [] \<or> authorised ac (risk_tier_permission (t_risk t)))
            \<and> world (gateway_step hs op g) = snd (run_handler hs ac t inp (world g)))
       \<or> (\<exists>e ac i why a t. op = GDecide e ac i True why \<and> authorised ac ''approvals.decide''
            \<and> a \<in> set (approvals g) \<and> ap_id a = i \<and> ap_org a = org_id ac
            \<and> ap_status a = Pending \<and> \<not> stale (db_now e) a
            \<and> find (\<lambda>t. t_key t = ap_action a) (tools_tbl g) = Some t
            \<and> world (gateway_step hs op g) =
                snd (run_handler hs ac t \<lparr>in_rtype = ap_rtype a, in_rid = ap_rid a,
                       in_params = decode_params (ap_params a)\<rparr> (world g)))"
proof (cases op)
  case (GExecute e ac k inp)
  with assms(2) have "world (snd (execute e hs ac k inp g)) \<noteq> world g" by simp
  from execute_reaches_handler [OF this] obtain t where t:
    "find (\<lambda>t. t_key t = k) (tools_tbl g) = Some t" "authorised ac (t_permission t)"
    "risk_tier_permission (t_risk t) = [] \<or> authorised ac (risk_tier_permission (t_risk t))"
    "\<not> requires_approval (t_risk t)"
    "world (snd (execute e hs ac k inp g)) = snd (run_handler hs ac t inp (world g))" by blast
  show ?thesis
    by (rule disjI1, rule exI [of _ e], rule exI [of _ ac], rule exI [of _ k], rule exI [of _ inp],
        rule exI [of _ t]) (simp add: t GExecute)
next
  case (GDecide e ac i ok why)
  with assms(2) have "world (snd (decide_approval e hs ac i ok why g)) \<noteq> world g" by simp
  from decide_reaches_handler [OF assms(1) this] obtain a t where t:
    "a \<in> set (approvals g)" "ap_id a = i" "ap_org a = org_id ac" "ap_status a = Pending"
    "\<not> stale (db_now e) a" "ok" "authorised ac ''approvals.decide''"
    "find (\<lambda>t. t_key t = ap_action a) (tools_tbl g) = Some t"
    "world (snd (decide_approval e hs ac i ok why g)) =
       snd (run_handler hs ac t \<lparr>in_rtype = ap_rtype a, in_rid = ap_rid a,
              in_params = decode_params (ap_params a)\<rparr> (world g))" .
  show ?thesis
    by (rule disjI2, rule exI [of _ e], rule exI [of _ ac], rule exI [of _ i], rule exI [of _ why],
        rule exI [of _ a], rule exI [of _ t]) (use t GDecide in simp)
qed (use assms(2) in simp_all)

text \<open>
  C4: a tool whose risk tier is \<open>privileged\<close> or \<open>critical\<close> is never executed synchronously: whatever
  \<open>Execute\<close> answers on one, the handlers' world is untouched. When it refuses, nothing at all has
  changed. When it succeeds, the caller holds the tool's permission and that of the tier, the result
  carries an approval id and no value, and the table gained exactly that approval: pending,
  undecided, attributed to the requester, with an expiry between five minutes and thirty days from
  now whatever override the organization set.
\<close>

theorem execute_dangerous_only_requests:
  assumes "find (\<lambda>t. t_key t = k) (tools_tbl g) = Some t" "t_risk t = ''privileged'' \<or> t_risk t = ''critical''"
    and "execute e hs ac k inp g = (res, g')" "ttl_bounded g"
  shows "world g' = world g
    \<and> (case res of
         Inl x \<Rightarrow> g' = g
       | Inr r \<Rightarrow> authorised ac (t_permission t) \<and> authorised ac (''tools.'' @ t_risk t)
         \<and> res_status r = ''approval_required'' \<and> res_value r = None
         \<and> (\<exists>ttl. 5 * minute \<le> ttl \<and> ttl \<le> 30 * 24 * hour
              \<and> approvals g' = approvals g @ [new_approval (new_id e) ac t inp (db_now e) (go_now e + ttl)]
              \<and> res_approval r = Some (new_id e)))"
proof (cases res)
  case (Inl x)
  then have "g' = g" using execute_dangerous_error [OF assms(1,2)] assms(3) by simp
  then show ?thesis using Inl by simp
next
  case (Inr r)
  have ra: "requires_approval (t_risk t)" using assms(2) by (auto simp: requires_approval_def)
  obtain a where c: "create_approval e ac t inp g = (Inr a, g')"
    and r: "r = \<lparr>res_status = ''approval_required'', res_value = None, res_approval = Some (ap_id a)\<rparr>"
    and p: "authorised ac (t_permission t)" "authorised ac (risk_tier_permission (t_risk t))"
    using execute_approval_required [OF assms(1) ra, of e hs ac inp r] assms(3) Inr by auto
  from create_approval_InrD [OF c] obtain ttl where
    "resolve_approval_ttl (fault e 1) (org_id ac) (t_key t) (settings g) = Inr ttl"
    "a = new_approval (new_id e) ac t inp (db_now e) (go_now e + ttl)" "approvals g' = approvals g @ [a]"
    by metis
  moreover have "risk_tier_permission (t_risk t) = ''tools.'' @ t_risk t"
    using assms(2) by (auto simp: risk_tier_permission_def)
  ultimately show ?thesis
    using resolve_approval_ttl_bounds [OF assms(4)] create_approval_world [OF c] r p Inr
    by (auto simp: new_approval_def min_approval_ttl_def max_approval_ttl_def)
qed

section \<open>Decided approvals are final\<close>

lemma keeps_update_where: "a \<in> set tbl \<Longrightarrow> \<not> p a \<Longrightarrow> a \<in> set (update_where p f tbl)"
  by (force simp: set_update_where)

lemma keeps_stmts:
  assumes "a \<in> set tbl" "ap_status a \<noteq> Pending"
  shows "a \<in> set (expire_pending now org tbl)"
    "a \<in> set (snd (cancel_stmt i org now tbl))"
    "a \<in> set (snd (reject_stmt i who why now tbl))"
    "a \<in> set (snd (claim_stmt i who why now tbl))"
    "ap_id a \<noteq> i \<Longrightarrow> a \<in> set (snd (finish_stmt i st res tbl))"
    "a \<in> set (update_where (stale now) f tbl)"
  using assms unfolding expire_pending_def cancel_stmt_def reject_stmt_def claim_stmt_def finish_stmt_def
    update_returning_def snd_conv
  by (intro keeps_update_where; simp add: stale_def)+

lemma execute_claimed_keeps:
  assumes "execute_claimed e hs ac c g = (c', g')" "a \<in> set (approvals g)"
    "ap_status a \<noteq> Pending" "ap_id a \<noteq> ap_id c"
  shows "a \<in> set (approvals g')"
proof -
  have "finish_stmt (ap_id c) st res (approvals g) = (r, t) \<Longrightarrow> a \<in> set t" for st res r t
    using keeps_stmts(5) [OF assms(2,3,4)] by (metis snd_conv)
  then show ?thesis
    using assms(1,2) by (auto simp: execute_claimed_def Let_def split: prod.splits option.splits if_splits)
qed

lemma decide_keeps:
  assumes pk: "pk ap_id (approvals g)" and a: "a \<in> set (approvals g)" "ap_status a \<noteq> Pending"
  shows "a \<in> set (approvals (snd (decide_approval e hs ac i ok why g)))"
proof -
  let ?t = "expire_pending (db_now e) (org_id ac) (approvals g)"
  have at: "a \<in> set ?t" using keeps_stmts(1) [OF a] .
  have rej: "a \<in> set t'" if "reject_stmt i who why (db_now e) ?t = (r, t')" for who r t'
    using keeps_stmts(3) [OF at a(2), of i who why "db_now e"] that by simp
  have cl: "a \<in> set (approvals g')"
    if c: "claim_stmt i who why (db_now e) ?t = (Some b, t')"
      and x: "execute_claimed e hs ac b (h\<lparr>approvals := t', audit_log := l\<rparr>) = (a', g')"
    for b a' who t' l g' and h :: "'a gateway"
  proof -
    obtain b0 where "b0 \<in> set ?t" "ap_id b0 = i" "ap_status b0 = Pending"
      using claim_stmt_SomeD(4) [OF c] by blast
    then have "ap_id a \<noteq> i"
      using pk_unique [of ap_id ?t a b0] pk at a(2) by (auto simp: gw_tbl)
    then show ?thesis
      using execute_claimed_keeps [OF x, of a] keeps_stmts(4) [OF at a(2), of i who why "db_now e"] c
        claim_stmt_SomeD(1) [OF c] a(2) by simp
  qed
  show ?thesis
    by (auto simp: decide_approval_def Let_def at a(1) dest: rej cl split: option.splits prod.splits)
qed

lemma cancel_keeps:
  assumes a: "a \<in> set (approvals g)" "ap_status a \<noteq> Pending"
  shows "a \<in> set (approvals (snd (cancel_approval e ac i g)))"
proof -
  let ?t = "expire_pending (db_now e) (org_id ac) (approvals g)"
  have at: "a \<in> set ?t" using keeps_stmts(1) [OF a] .
  have "a \<in> set t'" if "cancel_stmt i (org_id ac) (db_now e) ?t = (r, t')" for r t'
    using keeps_stmts(2) [OF at a(2), of i "org_id ac" "db_now e"] that by simp
  then show ?thesis
    by (auto simp: cancel_approval_def Let_def at a(1) split: option.splits prod.splits)
qed

lemma create_approval_approvals:
  "create_approval e ac t inp g = (r, g') \<Longrightarrow>
     approvals g' = approvals g \<or> (\<exists>a. approvals g' = approvals g @ [a] \<and> ap_id a = new_id e \<and> ap_status a = Pending)"
  by (auto simp: create_approval_def new_approval_def Let_def split: sum.splits if_splits)

lemma execute_approvals:
  "approvals (snd (execute e hs ac k inp g)) = approvals g
   \<or> (\<exists>a. approvals (snd (execute e hs ac k inp g)) = approvals g @ [a] \<and> ap_id a = new_id e
          \<and> ap_status a = Pending)"
  by (auto simp: execute_def Let_def dest: create_approval_approvals
      split: sum.split option.split prod.split)

lemma gateway_step_keeps:
  assumes "pk ap_id (approvals g)" "a \<in> set (approvals g)" "ap_status a \<noteq> Pending"
  shows "a \<in> set (approvals (gateway_step hs op g))"
proof (cases op)
  case (GExecute e ac k inp)
  then show ?thesis using execute_approvals [of e hs ac k inp g] assms(2) by auto
next
  case (GList e ac st)
  then show ?thesis using assms keeps_stmts(1) [OF assms(2,3)]
    by (simp add: list_approvals_def Let_def split: option.split)
next
  case (GSweep e)
  then show ?thesis using assms keeps_stmts(6) [OF assms(2,3)] by (simp add: run_expiry_sweep_def)
qed (use assms in \<open>simp_all add: decide_keeps cancel_keeps\<close>)

text \<open>
  The primary key along a run: every id handed out by \<open>gen_random_uuid()\<close> must be new when it is
  inserted, which is what PostgreSQL enforces; \<open>fresh_ids\<close> says so for a whole run.
\<close>

fun fresh_ids :: "'w handlers \<Rightarrow> gateway_op list \<Rightarrow> 'w gateway \<Rightarrow> bool" where
  "fresh_ids hs [] g = True"
| "fresh_ids hs (op # ops) g =
     ((case op of GExecute e ac k inp \<Rightarrow> new_id e \<notin> ap_id ` set (approvals g) | _ \<Rightarrow> True)
      \<and> fresh_ids hs ops (gateway_step hs op g))"

lemma execute_claimed_pk:
  "execute_claimed e hs ac a g = (a', g') \<Longrightarrow> pk ap_id (approvals g') = pk ap_id (approvals g)"
proof -
  have "finish_stmt (ap_id a) st res (approvals g) = (r, t) \<Longrightarrow> pk ap_id t = pk ap_id (approvals g)" for st res r t
    using pk_stmts(5) by (metis snd_conv)
  then show "execute_claimed e hs ac a g = (a', g') \<Longrightarrow> ?thesis"
    by (auto simp: execute_claimed_def Let_def split: prod.splits option.splits if_splits)
qed

lemma decide_pk: "pk ap_id (approvals (snd (decide_approval e hs ac i ok why g))) = pk ap_id (approvals g)"
proof -
  have s: "reject_stmt i who why now t = (r, t') \<Longrightarrow> pk ap_id t' = pk ap_id t"
    "claim_stmt i who why now t = (r, t') \<Longrightarrow> pk ap_id t' = pk ap_id t" for who now t r t'
    using pk_stmts by (metis snd_conv)+
  show ?thesis
    by (auto simp: decide_approval_def Let_def gw_tbl dest: s dest!: execute_claimed_pk split: option.split prod.split)
qed

lemma cancel_pk: "pk ap_id (approvals (snd (cancel_approval e ac i g))) = pk ap_id (approvals g)"
proof -
  have "cancel_stmt i org now t = (r, t') \<Longrightarrow> pk ap_id t' = pk ap_id t" for org now t r t'
    using pk_stmts(2) by (metis snd_conv)
  then show ?thesis
    by (auto simp: cancel_approval_def Let_def gw_tbl split: option.split prod.split)
qed

lemma gateway_step_pk:
  assumes "pk ap_id (approvals g)" "fresh_ids hs [op] g"
  shows "pk ap_id (approvals (gateway_step hs op g))"
proof (cases op)
  case (GExecute e ac k inp)
  then show ?thesis using execute_approvals [of e hs ac k inp g] assms by (auto simp: pk_append)
next
  case (GList e ac st)
  then show ?thesis using assms
    by (simp add: list_approvals_def Let_def gw_tbl split: option.split)
next
  case (GSweep e)
  then show ?thesis using assms by (simp add: run_expiry_sweep_def sql)
qed (use assms in \<open>simp_all add: decide_pk cancel_pk\<close>)

lemma gateway_run_keeps:
  assumes "pk ap_id (approvals g)" "fresh_ids hs ops g" "a \<in> set (approvals g)" "ap_status a \<noteq> Pending"
  shows "a \<in> set (approvals (run_ops (gateway_step hs) ops g))"
  using assms
proof (induction ops arbitrary: g)
  case (Cons op ops)
  have "pk ap_id (approvals (gateway_step hs op g))"
    using gateway_step_pk [of g hs op] Cons.prems by simp
  then show ?case
    using Cons.IH [of "gateway_step hs op g"] gateway_step_keeps [of g a hs op] Cons.prems by simp
qed simp

text \<open>
  an approval that has left \<open>pending\<close> is final: no later sequence of operations rewrites any of
  its fields. In particular one that is stuck in \<open>executing\<close> (the process died between the claim
  and the final update, or that update failed) is never reclaimed, re-decided, cancelled or expired.
\<close>

theorem decided_approvals_are_final:
  assumes "pk ap_id (approvals g)" "fresh_ids hs ops g" "a \<in> set (approvals g)" "ap_status a \<noteq> Pending"
  shows "a \<in> set (approvals (run_ops (gateway_step hs) ops g))"
  using assms by (rule gateway_run_keeps)

section \<open>The approving path in full\<close>

lemma filter_pk:
  assumes "pk k tbl" "a \<in> set tbl" "k a = i"
  shows "filter (\<lambda>r. k r = i \<and> q r) tbl = (if q a then [a] else [])"
  using assms
proof (induction tbl)
  case (Cons b tbl)
  show ?case
  proof (cases "k b = i")
    case True
    then have "b = a" using pk_unique [OF Cons.prems(1), of b a] Cons.prems by simp
    moreover have "\<not> k r = i" if "r \<in> set tbl" for r
      using Cons.prems(1) imageI [OF that, of k] True by (auto simp: pk_def)
    ultimately show ?thesis using True by (auto simp: filter_empty_conv)
  qed (use Cons in \<open>auto simp: pk_def\<close>)
qed simp

lemma find_filter: "filter p xs = a # ys \<Longrightarrow> find p xs = Some a"
  by (induction xs) (auto split: if_splits)

lemma update_where_pk:
  assumes "pk k tbl" "a \<in> set tbl" "k a = i" "q a"
  shows "update_where (\<lambda>r. k r = i \<and> q r) f tbl = update_where (\<lambda>r. k r = i) (\<lambda>_. f a) tbl"
proof -
  have "k r = i \<Longrightarrow> r = a" if "r \<in> set tbl" for r
    using pk_unique [OF assms(1) that assms(2)] assms(3) by simp
  then show ?thesis using assms(4) by (auto simp: update_where_def)
qed

lemma update_returning_pk:
  assumes "pk k tbl" "a \<in> set tbl" "k a = i" "q a"
  shows "update_returning (\<lambda>r. k r = i \<and> q r) f tbl = (Some (f a), update_where (\<lambda>r. k r = i) (\<lambda>_. f a) tbl)"
  using filter_pk [where k = k and tbl = tbl and a = a and i = i and q = q]
    update_where_pk [where k = k and tbl = tbl and a = a and i = i and q = q and f = f] assms
  by (simp add: update_returning_def hit_rows_def)

lemma expire_pending_keeps_live:
  "a \<in> set tbl \<Longrightarrow> \<not> stale now a \<Longrightarrow> a \<in> set (expire_pending now org tbl)"
  unfolding expire_pending_def by (rule keeps_update_where) auto

text \<open>The row a successful approval leaves behind.\<close>

definition approved_row :: "auth_context \<Rightarrow> string \<Rightarrow> time \<Rightarrow> bool \<Rightarrow> json \<Rightarrow> approval \<Rightarrow> approval" where
  "approved_row ac why now ok res a =
     a\<lparr>ap_decided_by := actor_user ac, ap_decided_at := Some now, ap_reason := why,
       ap_status := final_status ok, ap_result := res\<rparr>"

text \<open>
  the approving path in full: when an authorised caller approves a live pending approval of its
  organization and no statement fails, \<open>DecideApproval\<close> returns and stores exactly one changed row
  (decided by the caller, now, with the handler's outcome and result), the world is the handler's,
  and the audit log gains the executing entry and then the outcome entry.
\<close>

theorem decide_approve_ok:
  assumes pk: "pk ap_id (approvals g)" and calm: "\<And>k. \<not> fault e k"
    and auth: "authorised ac ''approvals.decide''"
    and a: "a \<in> set (approvals g)" "ap_id a = i" "ap_org a = org_id ac" "ap_status a = Pending"
      "\<not> stale (db_now e) a"
    and run: "run_claimed False hs ac
        (a\<lparr>ap_status := Executing, ap_decided_by := actor_user ac, ap_decided_at := Some (db_now e), ap_reason := why\<rparr>)
        (tools_tbl g) (world g) = ((ok, res), w')"
  shows "\<exists>g'. decide_approval e hs ac i True why g = (Inr (approved_row ac why (db_now e) ok res a), g')
    \<and> world g' = w'
    \<and> approvals g' = update_where (\<lambda>b. ap_id b = i) (\<lambda>_. approved_row ac why (db_now e) ok res a)
                       (expire_pending (db_now e) (org_id ac) (approvals g))
    \<and> audit_log g' = audit_log g
        @ [audit_row ac ''approvals.approval.executing'' ''approval'' (IdRef i) [] True,
           audit_row ac (''approvals.approval.'' @ approval_status_text (final_status ok)) ''approval'' (IdRef i) [] ok]"
proof -
  let ?t = "expire_pending (db_now e) (org_id ac) (approvals g)"
  let ?c = "a\<lparr>ap_status := Executing, ap_decided_by := actor_user ac, ap_decided_at := Some (db_now e), ap_reason := why\<rparr>"
  let ?t2 = "update_where (\<lambda>b. ap_id b = i) (\<lambda>_. ?c) ?t"
  have pkt: "pk ap_id ?t" using pk by (simp add: gw_tbl)
  have at: "a \<in> set ?t" using expire_pending_keeps_live [OF a(1) a(5)] .
  have r0: "Require ac ''approvals.decide'' = None" using auth by simp
  have f: "find_approval i (org_id ac) ?t = Some a"
  proof -
    have "filter (\<lambda>b. ap_id b = i \<and> ap_org b = org_id ac) ?t = [a]"
      using filter_pk [OF pkt at a(2), of "\<lambda>b. ap_org b = org_id ac"] a(3) by simp
    then show ?thesis unfolding find_approval_def by (rule find_filter)
  qed
  have c: "claim_stmt i (actor_user ac) why (db_now e) ?t = (Some ?c, ?t2)"
    unfolding claim_stmt_def by (rule update_returning_pk [OF pkt at a(2)]) (rule a(4))
  have pk2: "pk ap_id ?t2"
    using pk_stmts(4) [of i "actor_user ac" why "db_now e" ?t] pkt c by simp
  have c2: "?c \<in> set ?t2" using at a(2) by (force simp: set_update_where)
  have fin: "finish_stmt i (final_status ok) res ?t2
      = (Some (approved_row ac why (db_now e) ok res a),
         update_where (\<lambda>b. ap_id b = i) (\<lambda>_. approved_row ac why (db_now e) ok res a) ?t)"
  proof -
    have "finish_stmt i (final_status ok) res ?t2
        = (Some (?c\<lparr>ap_status := final_status ok, ap_result := res\<rparr>),
           update_where (\<lambda>b. ap_id b = i) (\<lambda>_. ?c\<lparr>ap_status := final_status ok, ap_result := res\<rparr>) ?t2)"
      unfolding finish_stmt_def by (rule update_returning_pk [OF pk2 c2]) (simp_all add: a(2))
    moreover have "update_where (\<lambda>b. ap_id b = i) (\<lambda>_. x) ?t2 = update_where (\<lambda>b. ap_id b = i) (\<lambda>_. x) ?t" for x
      unfolding update_where_def map_map comp_def using a(2) by (intro map_cong) auto
    ultimately show ?thesis by (simp add: approved_row_def)
  qed
  show ?thesis
    using run fin a(2)
    by (simp add: decide_approval_def r0 calm f c a(4) execute_claimed_def Let_def Record_def approved_row_def
        del: Require_None)
qed

section \<open>A concrete gateway\<close>

definition demo_user :: auth_context where
  "demo_user = \<lparr>actor_type = ActorUser, actor_id = 7, actor_label = ''ada'', org_id = 1,
     permissions = {''approvals.decide'', ''servers.reboot'', ''tools.critical''}, session_id = 0,
     correlation_id = []\<rparr>"

definition demo_tool :: tool where
  "demo_tool = \<lparr>t_key = ''server.reboot'', t_description = [], t_risk = ''critical'',
     t_permission = ''servers.reboot'', t_implemented = True\<rparr>"

definition demo_approval :: approval where
  "demo_approval = new_approval 11 demo_user demo_tool \<lparr>in_rtype = ''server'', in_rid = ''s1'', in_params = JObj []\<rparr> 0 (24 * hour)"

definition demo_foreign :: approval where
  "demo_foreign = demo_approval\<lparr>ap_id := 12, ap_org := 2\<rparr>"

definition demo_handlers :: "nat handlers" where
  "demo_handlers k = (if k = ''server.reboot'' then Some (\<lambda>ac rt ri p w. (Inr (JStr ri), w + 1)) else None)"

definition demo_gateway :: "nat gateway" where
  "demo_gateway = \<lparr>tools_tbl = [demo_tool], settings = [], approvals = [demo_approval, demo_foreign],
     audit_log = [], world = 0\<rparr>"

lemmas demo_defs = demo_user_def demo_tool_def demo_approval_def demo_foreign_def demo_handlers_def
  demo_gateway_def new_approval_def

lemma demo_pk: "pk ap_id (approvals demo_gateway)"
  by (simp add: demo_defs pk_def)

lemma demo_decide:
  "world (gateway_step demo_handlers (GDecide (calm 5 0) demo_user 11 True ''ok'') demo_gateway) = 1"
  by code_simp

theorem gateway_tenant_isolation_witness:
  "org_rows 2 (approvals (gateway_step demo_handlers (GDecide (calm 5 0) demo_user 11 True ''ok'') demo_gateway))
     = [demo_foreign]"
proof -
  have "org_rows 2 (approvals (gateway_step demo_handlers (GDecide (calm 5 0) demo_user 11 True ''ok'') demo_gateway))
      = org_rows 2 (approvals demo_gateway)"
    by (rule gateway_tenant_isolation [OF demo_pk, where ac = demo_user]) (simp_all add: demo_user_def)
  then show ?thesis by (simp add: demo_defs org_rows_def)
qed

theorem handlers_run_only_when_authorised_witness:
  "\<exists>a t. a \<in> set (approvals demo_gateway) \<and> ap_id a = 11 \<and> ap_status a = Pending
     \<and> find (\<lambda>t. t_key t = ap_action a) (tools_tbl demo_gateway) = Some t"
proof -
  have "world (gateway_step demo_handlers (GDecide (calm 5 0) demo_user 11 True ''ok'') demo_gateway) \<noteq> world demo_gateway"
    unfolding demo_decide by (simp add: demo_gateway_def)
  from handlers_run_only_when_authorised [OF demo_pk this] show ?thesis
    by (elim disjE exE conjE) (simp_all only: gateway_op.distinct gateway_op.inject, blast)
qed

theorem execute_dangerous_only_requests_witness:
  "\<exists>r g'. execute (calm 0 13) demo_handlers demo_user ''server.reboot'' \<lparr>in_rtype = ''server'', in_rid = ''s2'', in_params = JObj []\<rparr> demo_gateway
     = (Inr r, g') \<and> res_status r = ''approval_required'' \<and> world g' = 0 \<and> length (approvals g') = 3"
proof -
  let ?x = "execute (calm 0 13) demo_handlers demo_user ''server.reboot'' \<lparr>in_rtype = ''server'', in_rid = ''s2'', in_params = JObj []\<rparr> demo_gateway"
  have "\<not> isl (fst ?x)" by code_simp
  then obtain r g' where x: "?x = (Inr r, g')" by (metis prod.collapse sum.collapse(2))
  have "find (\<lambda>t. t_key t = ''server.reboot'') (tools_tbl demo_gateway) = Some demo_tool"
    by (simp add: demo_defs)
  from execute_dangerous_only_requests [OF this _ x] x show ?thesis
    by (auto simp: demo_defs ttl_bounded_def)
qed

theorem decided_approvals_are_final_witness:
  "demo_approval\<lparr>ap_status := Executing\<rparr> \<in> set (approvals (run_ops (gateway_step demo_handlers)
     [GSweep (calm (48 * hour) 0), GDecide (calm 5 0) demo_user 11 True [], GCancel (calm 5 0) demo_user 11]
     (demo_gateway\<lparr>approvals := [demo_approval\<lparr>ap_status := Executing\<rparr>, demo_foreign]\<rparr>)))"
  by (rule decided_approvals_are_final) (simp_all add: demo_defs pk_def)

theorem decide_approve_ok_witness:
  "\<exists>g'. decide_approval (calm 5 0) demo_handlers demo_user 11 True ''ok'' demo_gateway
       = (Inr (approved_row demo_user ''ok'' 5 True (JStr ''s1'') demo_approval), g') \<and> world g' = 1"
proof -
  have "\<exists>g'. decide_approval (calm 5 0) demo_handlers demo_user 11 True ''ok'' demo_gateway
     = (Inr (approved_row demo_user ''ok'' (db_now (calm 5 0)) True (JStr ''s1'') demo_approval), g') \<and> world g' = 1
    \<and> approvals g' = update_where (\<lambda>b. ap_id b = 11) (\<lambda>_. approved_row demo_user ''ok'' (db_now (calm 5 0)) True (JStr ''s1'') demo_approval)
                       (expire_pending (db_now (calm 5 0)) (org_id demo_user) (approvals demo_gateway))
    \<and> audit_log g' = audit_log demo_gateway
        @ [audit_row demo_user ''approvals.approval.executing'' ''approval'' (IdRef 11) [] True,
           audit_row demo_user (''approvals.approval.'' @ approval_status_text (final_status True)) ''approval'' (IdRef 11) [] True]"
    by (rule decide_approve_ok [OF demo_pk])
      (simp_all add: demo_defs authorised_def stale_def duration_defs run_claimed_def get_tool_def run_handler_def)
  then show ?thesis by (simp, blast)
qed

end
