(* ===== verification/Rbac.thy ===== *)
theory Rbac
  imports Authz
begin

text \<open>
  Organization-scoped roles and permissions (internal/rbac/rbac.go) over the tables of
  migrations 0001 and 0002, which internal/tenancy and internal/platformauth share. Foreign keys
  and unique constraints are part of the statements: an INSERT that violates one is an error, a
  DELETE cascades.
\<close>

section \<open>Tables\<close>

record user =
  us_id :: uuid
  us_email :: string
  us_name :: string
  us_status :: string
  us_created_at :: time

record organization =
  og_id :: uuid
  og_name :: string
  og_slug :: string
  og_created_at :: time

record membership =
  mb_org :: uuid
  mb_user :: uuid

record role_grant =
  rg_org :: uuid
  rg_user :: uuid
  rg_role :: uuid

record role_row =
  ro_id :: uuid
  ro_org :: "uuid option"
  ro_name :: string
  ro_description :: string
  ro_is_system :: bool

record role_permission =
  rp_role :: uuid
  rp_key :: string

record platform_grant =
  pg_user :: uuid
  pg_key :: string
  pg_granted_by :: "uuid option"
  pg_granted_at :: time

record iam =
  users :: "user list"
  organizations :: "organization list"
  members :: "membership list"
  member_roles :: "role_grant list"
  roles :: "role_row list"
  role_permissions :: "role_permission list"
  permission_keys :: "string list"
  platform_permissions :: "(string \<times> string) list"
  platform_grants :: "platform_grant list"
  iam_audit :: "audit_entry list"

text \<open>What the service returns for a role.\<close>

record role =
  r_id :: uuid
  r_name :: string
  r_description :: string
  r_is_system :: bool
  r_permissions :: "string list"

record member =
  m_user_id :: uuid
  m_email :: string
  m_display_name :: string
  m_roles :: "(uuid \<times> string) list"

section \<open>Reading\<close>

definition resolve_permissions :: "bool \<Rightarrow> uuid \<Rightarrow> uuid \<Rightarrow> iam \<Rightarrow> api_error + string set" where
  "resolve_permissions failed org user s =
     (if failed then Inl (Wrap CodeInternal ''failed to resolve permissions'')
      else Inr {rp_key rp | rp. rp \<in> set (role_permissions s) \<and>
                  (\<exists>g \<in> set (member_roles s). rg_org g = org \<and> rg_user g = user \<and> rg_role g = rp_role rp)})"

text \<open>
  The listing loops group the rows of a left join: a row opens an entry the first time its id is
  seen, and appends its item, when it has one, to that entry.
\<close>

fun add_item :: "'k \<Rightarrow> 'h \<Rightarrow> 'i option \<Rightarrow> ('k \<times> 'h \<times> 'i list) list \<Rightarrow> ('k \<times> 'h \<times> 'i list) list" where
  "add_item k h it [] = [(k, h, (case it of None \<Rightarrow> [] | Some i \<Rightarrow> [i]))]"
| "add_item k h it ((k', h', is) # out) =
     (if k' = k then (k', h', (case it of None \<Rightarrow> is | Some i \<Rightarrow> is @ [i])) # out
      else (k', h', is) # add_item k h it out)"

fun group_rows :: "('k \<times> 'h \<times> 'i option) list \<Rightarrow> ('k \<times> 'h \<times> 'i list) list \<Rightarrow> ('k \<times> 'h \<times> 'i list) list" where
  "group_rows [] out = out"
| "group_rows ((k, h, it) # rows) out = group_rows rows (add_item k h it out)"

text \<open>
  The rows of \<open>ListRoles\<close>, ordered by role name and then permission key, a missing key (NULL)
  last; two stable sorts give that order.
\<close>

definition left_join_permissions :: "role_permission list \<Rightarrow> role_row list \<Rightarrow> (role_row \<times> string option) list" where
  "left_join_permissions rps rs =
     concat (map (\<lambda>r. case filter (\<lambda>rp. rp_role rp = ro_id r) rps of
                        [] \<Rightarrow> [(r, None)]
                      | hits \<Rightarrow> map (\<lambda>rp. (r, Some (rp_key rp))) hits) rs)"

definition role_rows_in_order :: "(role_row \<times> string option) list \<Rightarrow> (role_row \<times> string option) list" where
  "role_rows_in_order rows =
     sort_key (\<lambda>(r, _). ro_name r)
       (sort_key (\<lambda>(_, k). the k) (filter (\<lambda>(_, k). k \<noteq> None) rows) @ filter (\<lambda>(_, k). k = None) rows)"

definition list_roles :: "env \<Rightarrow> auth_context \<Rightarrow> iam \<Rightarrow> api_error + role list" where
  "list_roles e ac s =
     (case Require ac ''organization.manage'' of Some x \<Rightarrow> Inl x
      | None \<Rightarrow>
        if fault e 0 then Inl (Wrap CodeInternal ''failed to list roles'')
        else
          (let visible = filter (\<lambda>r. ro_org r = None \<or> ro_org r = Some (org_id ac)) (roles s);
               rows = role_rows_in_order (left_join_permissions (role_permissions s) visible);
               keyed = map (\<lambda>(r, k). (ro_id r, r, (case k of None \<Rightarrow> None
                                                     | Some p \<Rightarrow> if p = [] then None else Some p))) rows
           in Inr (map (\<lambda>(i, r, ps). \<lparr>r_id = i, r_name = ro_name r, r_description = ro_description r,
                                      r_is_system = ro_is_system r, r_permissions = ps\<rparr>)
                    (group_rows keyed []))))"

definition left_join_roles :: "iam \<Rightarrow> membership \<Rightarrow> user \<Rightarrow> (user \<times> (uuid \<times> string) option) list" where
  "left_join_roles s m u =
     (case filter (\<lambda>g. rg_org g = mb_org m \<and> rg_user g = mb_user m) (member_roles s) of
        [] \<Rightarrow> [(u, None)]
      | gs \<Rightarrow> concat (map (\<lambda>g. case filter (\<lambda>r. ro_id r = rg_role g) (roles s) of
                                 [] \<Rightarrow> [(u, None)]
                               | rs \<Rightarrow> map (\<lambda>r. (u, Some (ro_id r, ro_name r))) rs) gs))"

definition member_rows_in_order ::
  "(user \<times> (uuid \<times> string) option) list \<Rightarrow> (user \<times> (uuid \<times> string) option) list" where
  "member_rows_in_order rows =
     sort_key (\<lambda>(u, _). us_email u)
       (sort_key (\<lambda>(_, r). snd (the r)) (filter (\<lambda>(_, r). r \<noteq> None) rows) @ filter (\<lambda>(_, r). r = None) rows)"

definition list_members :: "env \<Rightarrow> auth_context \<Rightarrow> iam \<Rightarrow> api_error + member list" where
  "list_members e ac s =
     (case Require ac ''organization.manage'' of Some x \<Rightarrow> Inl x
      | None \<Rightarrow>
        if fault e 0 then Inl (Wrap CodeInternal ''failed to list organization members'')
        else
          (let joined = concat (map (\<lambda>m. concat (map (left_join_roles s m)
                                 (filter (\<lambda>u. us_id u = mb_user m) (users s))))
                               (filter (\<lambda>m. mb_org m = org_id ac) (members s)));
               keyed = map (\<lambda>(u, r). (us_id u, u, r)) (member_rows_in_order joined)
           in Inr (map (\<lambda>(i, u, rs). \<lparr>m_user_id = i, m_email = us_email u, m_display_name = us_name u,
                                      m_roles = rs\<rparr>)
                    (group_rows keyed []))))"

section \<open>Granting and revoking\<close>

definition is_member :: "uuid \<Rightarrow> uuid \<Rightarrow> iam \<Rightarrow> bool" where
  "is_member org user s \<longleftrightarrow> list_ex (\<lambda>m. mb_org m = org \<and> mb_user m = user) (members s)"

definition holds_role :: "uuid \<Rightarrow> uuid \<Rightarrow> uuid \<Rightarrow> iam \<Rightarrow> bool" where
  "holds_role org user role s \<longleftrightarrow>
     list_ex (\<lambda>g. rg_org g = org \<and> rg_user g = user \<and> rg_role g = role) (member_roles s)"

definition insert_role_grant :: "uuid \<Rightarrow> uuid \<Rightarrow> uuid \<Rightarrow> iam \<Rightarrow> iam" where
  "insert_role_grant org user role s =
     (if holds_role org user role s then s
      else s\<lparr>member_roles := member_roles s @ [\<lparr>rg_org = org, rg_user = user, rg_role = role\<rparr>]\<rparr>)"

definition assign_role :: "env \<Rightarrow> auth_context \<Rightarrow> uuid \<Rightarrow> uuid \<Rightarrow> iam \<Rightarrow> (api_error + unit) \<times> iam" where
  "assign_role e ac user role s =
     (case Require ac ''organization.manage'' of Some x \<Rightarrow> (Inl x, s)
      | None \<Rightarrow>
        if fault e 0 then (Inl (Wrap CodeInternal ''failed to check organization membership''), s)
        else if \<not> is_member (org_id ac) user s then (Inl (NotFound ''organization member''), s)
        else if fault e 1 then (Inl (Wrap CodeInternal ''failed to check role''), s)
        else if \<not> list_ex (\<lambda>r. ro_id r = role \<and> (ro_org r = None \<or> ro_org r = Some (org_id ac))) (roles s)
        then (Inl (NotFound ''role''), s)
        else if fault e 2 then (Inl (Wrap CodeInternal ''failed to assign role''), s)
        else
          (let s' = insert_role_grant (org_id ac) user role s
           in (Inr (), s'\<lparr>iam_audit := Record (fault e 3) ac ''rbac.role.assigned'' ''organization_member''
                                        (IdRef user) [] True (iam_audit s')\<rparr>)))"

definition revoke_role :: "env \<Rightarrow> auth_context \<Rightarrow> uuid \<Rightarrow> uuid \<Rightarrow> iam \<Rightarrow> (api_error + unit) \<times> iam" where
  "revoke_role e ac user role s =
     (case Require ac ''organization.manage'' of Some x \<Rightarrow> (Inl x, s)
      | None \<Rightarrow>
        if fault e 0 then (Inl (Wrap CodeInternal ''failed to revoke role''), s)
        else if \<not> holds_role (org_id ac) user role s then (Inl (NotFound ''role assignment''), s)
        else
          (Inr (),
           s\<lparr>member_roles := delete_where (\<lambda>g. rg_org g = org_id ac \<and> rg_user g = user \<and> rg_role g = role)
                               (member_roles s),
             iam_audit := Record (fault e 1) ac ''rbac.role.revoked'' ''organization_member''
                            (IdRef user) [] True (iam_audit s)\<rparr>))"

section \<open>Custom roles\<close>

fun validate_permission_subset :: "auth_context \<Rightarrow> string list \<Rightarrow> api_error option" where
  "validate_permission_subset ac [] = None"
| "validate_permission_subset ac (p # ps) =
     (if \<not> HasPermission ac p then Some (Forbidden (''cannot grant permission you do not hold: '' @ p))
      else validate_permission_subset ac ps)"

text \<open>One \<open>SELECT EXISTS\<close> per key: statements \<open>k\<close>, \<open>k + 1\<close>, ... of the call.\<close>

fun validate_permission_keys :: "env \<Rightarrow> nat \<Rightarrow> string list \<Rightarrow> string list \<Rightarrow> api_error option" where
  "validate_permission_keys e k catalog [] = None"
| "validate_permission_keys e k catalog (p # ps) =
     (if fault e k then Some (Wrap CodeInternal ''failed to validate permission key'')
      else if p \<notin> set catalog then Some (Validation (''unknown permission key: '' @ p))
      else validate_permission_keys e (Suc k) catalog ps)"

text \<open>
  The INSERTs into \<open>role_permissions\<close>: (role_id, permission_key) is the primary key, so a
  duplicate key in the request is an error, and the transaction is rolled back.
\<close>

fun insert_grants :: "env \<Rightarrow> nat \<Rightarrow> uuid \<Rightarrow> string list \<Rightarrow> string list \<Rightarrow> role_permission list \<Rightarrow> role_permission list option" where
  "insert_grants e k role catalog [] tbl = Some tbl"
| "insert_grants e k role catalog (p # ps) tbl =
     (if fault e k \<or> p \<notin> set catalog \<or> list_ex (\<lambda>rp. rp_role rp = role \<and> rp_key rp = p) tbl then None
      else insert_grants e (Suc k) role catalog ps (tbl @ [\<lparr>rp_role = role, rp_key = p\<rparr>]))"

definition to_role :: "role_row \<Rightarrow> string list \<Rightarrow> role" where
  "to_role r ps = \<lparr>r_id = ro_id r, r_name = ro_name r, r_description = ro_description r,
                   r_is_system = ro_is_system r, r_permissions = ps\<rparr>"

text \<open>
  With \<open>n\<close> keys: statements \<open>0 .. n-1\<close> validate the keys, \<open>n\<close> is BEGIN, \<open>n+1\<close> the role's INSERT,
  \<open>n+2 .. 2n+1\<close> the grants, \<open>2n+2\<close> COMMIT and \<open>2n+3\<close> the audit row.
\<close>

definition create_role ::
  "env \<Rightarrow> auth_context \<Rightarrow> string \<Rightarrow> string \<Rightarrow> string list \<Rightarrow> iam \<Rightarrow> (api_error + role) \<times> iam" where
  "create_role e ac name description perms s =
     (case Require ac ''organization.manage'' of Some x \<Rightarrow> (Inl x, s)
      | None \<Rightarrow>
        if name = [] then (Inl (Validation ''role name is required''), s)
        else
     (case validate_permission_keys e 0 (permission_keys s) perms of Some x \<Rightarrow> (Inl x, s)
      | None \<Rightarrow>
     (case validate_permission_subset ac perms of Some x \<Rightarrow> (Inl x, s)
      | None \<Rightarrow>
     (let n = length perms;
          row = \<lparr>ro_id = new_id e, ro_org = Some (org_id ac), ro_name = name,
                 ro_description = description, ro_is_system = False\<rparr>
      in if fault e n then (Inl (Wrap CodeInternal ''failed to begin transaction''), s)
         else if fault e (n + 1) then (Inl (Wrap CodeInternal ''failed to create role''), s)
         else if list_ex (\<lambda>r. ro_org r = Some (org_id ac) \<and> ro_name r = name) (roles s)
         then (Inl (Conflict ''a role with this name already exists in this organization''), s)
         else
     (case insert_grants e (n + 2) (ro_id row) (permission_keys s) perms (role_permissions s) of
        None \<Rightarrow> (Inl (Wrap CodeInternal ''failed to grant permission to role''), s)
      | Some grants \<Rightarrow>
          if fault e (2 * n + 2) then (Inl (Wrap CodeInternal ''failed to commit transaction''), s)
          else (Inr (to_role row perms),
                s\<lparr>roles := roles s @ [row], role_permissions := grants,
                  iam_audit := Record (fault e (2 * n + 3)) ac ''rbac.role.created'' ''role''
                                 (IdRef (ro_id row)) [] True (iam_audit s)\<rparr>))))))"

definition get_custom_role :: "bool \<Rightarrow> uuid \<Rightarrow> uuid \<Rightarrow> role_row list \<Rightarrow> api_error + role_row" where
  "get_custom_role failed org role tbl =
     (if failed then Inl (Wrap CodeInternal ''failed to load role'')
      else case find (\<lambda>r. ro_id r = role) tbl of
        None \<Rightarrow> Inl (NotFound ''role'')
      | Some r \<Rightarrow> if ro_is_system r \<or> ro_org r \<noteq> Some org then Inl (NotFound ''role'') else Inr r)"

definition load_role_permissions :: "bool \<Rightarrow> uuid \<Rightarrow> iam \<Rightarrow> api_error + string list" where
  "load_role_permissions failed role s =
     (if failed then Inl (Wrap CodeInternal ''failed to load role permissions'')
      else Inr (sort (map rp_key (filter (\<lambda>rp. rp_role rp = role) (role_permissions s)))))"

definition update_role_details ::
  "env \<Rightarrow> auth_context \<Rightarrow> uuid \<Rightarrow> string \<Rightarrow> string \<Rightarrow> iam \<Rightarrow> (api_error + role) \<times> iam" where
  "update_role_details e ac role name description s =
     (case Require ac ''organization.manage'' of Some x \<Rightarrow> (Inl x, s)
      | None \<Rightarrow>
        if name = [] then (Inl (Validation ''role name is required''), s)
        else
     (case get_custom_role (fault e 0) (org_id ac) role (roles s) of Inl x \<Rightarrow> (Inl x, s)
      | Inr r \<Rightarrow>
        if fault e 1 then (Inl (Wrap CodeInternal ''failed to update role''), s)
        else if list_ex (\<lambda>q. ro_id q \<noteq> role \<and> ro_org q = ro_org r \<and> ro_name q = name) (roles s)
        then (Inl (Conflict ''a role with this name already exists in this organization''), s)
        else
     (let r' = r\<lparr>ro_name := name, ro_description := description\<rparr>;
          s' = s\<lparr>roles := update_where (\<lambda>q. ro_id q = role)
                            (\<lambda>q. q\<lparr>ro_name := name, ro_description := description\<rparr>) (roles s)\<rparr>
      in (case load_role_permissions (fault e 2) role s' of Inl x \<Rightarrow> (Inl x, s')
          | Inr ps \<Rightarrow>
              (Inr (to_role r' ps),
               s'\<lparr>iam_audit := Record (fault e 3) ac ''rbac.role.details_updated'' ''role''
                                (IdRef role) [] True (iam_audit s')\<rparr>)))))"

text \<open>
  Statement 0 loads the role, \<open>1 .. n\<close> validate the keys, then BEGIN, DELETE, the \<open>n\<close> INSERTs,
  COMMIT and the audit row.
\<close>

definition update_role_permissions ::
  "env \<Rightarrow> auth_context \<Rightarrow> uuid \<Rightarrow> string list \<Rightarrow> iam \<Rightarrow> (api_error + role) \<times> iam" where
  "update_role_permissions e ac role perms s =
     (case Require ac ''organization.manage'' of Some x \<Rightarrow> (Inl x, s)
      | None \<Rightarrow>
     (case get_custom_role (fault e 0) (org_id ac) role (roles s) of Inl x \<Rightarrow> (Inl x, s)
      | Inr r \<Rightarrow>
     (case validate_permission_keys e 1 (permission_keys s) perms of Some x \<Rightarrow> (Inl x, s)
      | None \<Rightarrow>
     (case validate_permission_subset ac perms of Some x \<Rightarrow> (Inl x, s)
      | None \<Rightarrow>
     (let n = length perms
      in if fault e (n + 1) then (Inl (Wrap CodeInternal ''failed to begin transaction''), s)
         else if fault e (n + 2) then (Inl (Wrap CodeInternal ''failed to clear existing permissions''), s)
         else
     (case insert_grants e (n + 3) role (permission_keys s) perms
             (delete_where (\<lambda>rp. rp_role rp = role) (role_permissions s)) of
        None \<Rightarrow> (Inl (Wrap CodeInternal ''failed to grant permission to role''), s)
      | Some grants \<Rightarrow>
          if fault e (2 * n + 3) then (Inl (Wrap CodeInternal ''failed to commit transaction''), s)
          else (Inr (to_role r perms),
                s\<lparr>role_permissions := grants,
                  iam_audit := Record (fault e (2 * n + 4)) ac ''rbac.role.permissions_updated'' ''role''
                                 (IdRef role) [] True (iam_audit s)\<rparr>)))))))"

definition delete_role :: "env \<Rightarrow> auth_context \<Rightarrow> uuid \<Rightarrow> iam \<Rightarrow> (api_error + unit) \<times> iam" where
  "delete_role e ac role s =
     (case Require ac ''organization.manage'' of Some x \<Rightarrow> (Inl x, s)
      | None \<Rightarrow>
     (case get_custom_role (fault e 0) (org_id ac) role (roles s) of Inl x \<Rightarrow> (Inl x, s)
      | Inr _ \<Rightarrow>
        if fault e 1 then (Inl (Wrap CodeInternal ''failed to check role assignments''), s)
        else if row_count (\<lambda>g. rg_role g = role) (member_roles s) > 0
        then (Inl (Conflict ''role is still assigned to one or more members; revoke it from them first''), s)
        else if fault e 2 then (Inl (Wrap CodeInternal ''failed to delete role''), s)
        else
          (Inr (),
           s\<lparr>roles := delete_where (\<lambda>r. ro_id r = role) (roles s),
             role_permissions := delete_where (\<lambda>rp. rp_role rp = role) (role_permissions s),
             member_roles := delete_where (\<lambda>g. rg_role g = role) (member_roles s),
             iam_audit := Record (fault e 3) ac ''rbac.role.deleted'' ''role'' (IdRef role) [] True
                            (iam_audit s)\<rparr>)))"

end
