(* ===== verification/Go_Strings.thy ===== *)
theory Go_Strings
  imports Nodera_Prelude
begin

text \<open>
  The part of Go's \<open>strings\<close> package the modelled code calls. A Go string is its UTF-8 bytes, so a
  \<open>string\<close> here is a list of bytes and its length is \<open>len(s)\<close>.
\<close>

definition has_prefix :: "string \<Rightarrow> string \<Rightarrow> bool" where
  "has_prefix p s \<longleftrightarrow> take (length p) s = p"

definition has_suffix :: "string \<Rightarrow> string \<Rightarrow> bool" where
  "has_suffix p s \<longleftrightarrow> length p \<le> length s \<and> drop (length s - length p) s = p"

text \<open>\<open>strings.Split(s, sep)\<close> for a one-byte separator.\<close>

fun split_on :: "char \<Rightarrow> string \<Rightarrow> string list" where
  "split_on c [] = [[]]"
| "split_on c (x # xs) =
     (if x = c then [] # split_on c xs
      else (case split_on c xs of [] \<Rightarrow> [[x]] | p # ps \<Rightarrow> (x # p) # ps))"

fun join_with :: "string \<Rightarrow> string list \<Rightarrow> string" where
  "join_with sep [] = []"
| "join_with sep [p] = p"
| "join_with sep (p # q # ps) = p @ sep @ join_with sep (q # ps)"

lemma split_on_not_Nil [simp]: "split_on c s \<noteq> []"
  by (induction s) (auto split: list.splits)

lemma split_on_no_sep: "p \<in> set (split_on c s) \<Longrightarrow> c \<notin> set p"
  by (induction s arbitrary: p) (auto split: if_splits list.splits)

lemma join_split: "join_with [c] (split_on c s) = s"
proof (induction s)
  case (Cons x xs)
  obtain p ps where "split_on c xs = p # ps" by (cases "split_on c xs") auto
  with Cons show ?case by (cases ps) auto
qed simp

lemma split_on_chars: "p \<in> set (split_on c s) \<Longrightarrow> set p \<subseteq> set s"
  by (induction s arbitrary: p) (auto split: if_splits list.splits, blast)

lemma split_on_single: "c \<notin> set s \<Longrightarrow> split_on c s = [s]"
  by (induction s) auto

definition code :: "char \<Rightarrow> nat" where
  "code c = of_char c"

definition is_digit :: "char \<Rightarrow> bool" where
  "is_digit c \<longleftrightarrow> 48 \<le> code c \<and> code c \<le> 57"

definition is_lower :: "char \<Rightarrow> bool" where
  "is_lower c \<longleftrightarrow> 97 \<le> code c \<and> code c \<le> 122"

definition is_upper :: "char \<Rightarrow> bool" where
  "is_upper c \<longleftrightarrow> 65 \<le> code c \<and> code c \<le> 90"

definition is_hex_lower :: "char \<Rightarrow> bool" where
  "is_hex_lower c \<longleftrightarrow> is_digit c \<or> (97 \<le> code c \<and> code c \<le> 102)"

text \<open>
  \<open>unicode.IsSpace\<close> at the head of a UTF-8 string: how many bytes the leading space rune has, 0
  when the string does not start with one.
\<close>

definition ascii_space :: "nat \<Rightarrow> bool" where
  "ascii_space n \<longleftrightarrow> n = 32 \<or> (9 \<le> n \<and> n \<le> 13)"

fun space_len :: "nat list \<Rightarrow> nat" where
  "space_len [] = 0"
| "space_len (a # r) =
     (if ascii_space a then 1
      else (case r of
          [] \<Rightarrow> 0
        | b # r' \<Rightarrow>
            if a = 0xC2 \<and> (b = 0x85 \<or> b = 0xA0) then 2
            else (case r' of
                [] \<Rightarrow> 0
              | c # _ \<Rightarrow>
                  if a = 0xE1 \<and> b = 0x9A \<and> c = 0x80 then 3
                  else if a = 0xE2 \<and> b = 0x80 \<and> (c \<le> 0x8A \<and> 0x80 \<le> c \<or> c = 0xA8 \<or> c = 0xA9 \<or> c = 0xAF) then 3
                  else if a = 0xE2 \<and> b = 0x81 \<and> c = 0x9F then 3
                  else if a = 0xE3 \<and> b = 0x80 \<and> c = 0x80 then 3
                  else 0)))"

function trim_left :: "string \<Rightarrow> string" where
  "trim_left s = (let n = space_len (map code s) in if n = 0 \<or> s = [] then s else trim_left (drop n s))"
  by pat_completeness auto
termination by (relation "measure length") auto

declare trim_left.simps [simp del]

definition all_space :: "string \<Rightarrow> bool" where
  "all_space s \<longleftrightarrow> trim_left s = []"

fun trim_right :: "string \<Rightarrow> string" where
  "trim_right [] = []"
| "trim_right (c # cs) = (if all_space (c # cs) then [] else c # trim_right cs)"

definition trim_space :: "string \<Rightarrow> string" where
  "trim_space s = trim_right (trim_left s)"

lemma trim_left_Nil [simp]: "trim_left [] = []"
  by (simp add: trim_left.simps)

lemma trim_left_nonspace: "\<not> ascii_space (code c) \<Longrightarrow> code c < 128 \<Longrightarrow> trim_left (c # cs) = c # cs"
  by (subst trim_left.simps) (auto split: list.split)

lemma trim_right_Nil_iff: "trim_right s = [] \<longleftrightarrow> all_space s"
  by (cases s) (simp_all add: all_space_def)

lemma trim_left_suffix: "\<exists>pre. s = pre @ trim_left s"
proof (induction s rule: trim_left.induct)
  case (1 s)
  let ?n = "space_len (map code s)"
  show ?case
  proof (cases "?n = 0 \<or> s = []")
    case True
    then have "trim_left s = s" by (subst trim_left.simps) (auto simp: Let_def)
    then show ?thesis by simp
  next
    case False
    have d: "trim_left s = trim_left (drop ?n s)"
      by (subst trim_left.simps) (use False in \<open>simp add: Let_def\<close>)
    from 1 [OF refl False] obtain pre where "drop ?n s = pre @ trim_left (drop ?n s)" by blast
    then have "s = (take ?n s @ pre) @ trim_left s"
      unfolding d append_assoc by (metis append_take_drop_id)
    then show ?thesis by blast
  qed
qed

lemma all_space_trim_left [simp]: "all_space (trim_left s) = all_space s"
proof (induction s rule: trim_left.induct)
  case (1 s)
  let ?n = "space_len (map code s)"
  show ?case
  proof (cases "?n = 0 \<or> s = []")
    case True
    then have "trim_left s = s" by (subst trim_left.simps) (auto simp: Let_def)
    then show ?thesis by simp
  next
    case False
    have "trim_left s = trim_left (drop ?n s)"
      by (subst trim_left.simps) (use False in \<open>simp add: Let_def\<close>)
    then show ?thesis using 1 [OF refl False] by (simp add: all_space_def)
  qed
qed

lemma trim_space_Nil_iff: "trim_space s = [] \<longleftrightarrow> all_space s"
  by (simp add: trim_space_def trim_right_Nil_iff)

text \<open>\<open>strings.Index(s, sep)\<close> for a one-byte separator, and the parts around it.\<close>

fun index_of :: "char \<Rightarrow> string \<Rightarrow> nat option" where
  "index_of c [] = None"
| "index_of c (x # xs) = (if x = c then Some 0 else map_option Suc (index_of c xs))"

lemma index_of_None: "index_of c s = None \<longleftrightarrow> c \<notin> set s"
  by (induction s) auto

lemma index_of_Some: "index_of c s = Some i \<Longrightarrow> i < length s \<and> s ! i = c \<and> c \<notin> set (take i s)"
  by (induction s arbitrary: i) (auto split: if_splits simp: nth_Cons')

text \<open>\<open>strconv.Itoa\<close> on the non-negative integers.\<close>

definition digit_char :: "nat \<Rightarrow> char" where
  "digit_char d = char_of (48 + d)"

fun itoa :: "nat \<Rightarrow> string" where
  "itoa n = (if n < 10 then [digit_char n] else itoa (n div 10) @ [digit_char (n mod 10)])"

declare itoa.simps [simp del]

fun digits_value :: "string \<Rightarrow> nat \<Rightarrow> nat" where
  "digits_value [] acc = acc"
| "digits_value (c # cs) acc = digits_value cs (acc * 10 + (code c - 48))"

lemma code_digit_char [simp]: "d < 10 \<Longrightarrow> code (digit_char d) = 48 + d"
  by (simp add: code_def digit_char_def)

lemma is_digit_digit_char [simp]: "d < 10 \<Longrightarrow> is_digit (digit_char d)"
  by (simp add: is_digit_def)

lemma digits_value_append: "digits_value (xs @ ys) acc = digits_value ys (digits_value xs acc)"
  by (induction xs arbitrary: acc) auto

lemma itoa_digits: "c \<in> set (itoa n) \<Longrightarrow> is_digit c"
proof (induction n arbitrary: c rule: itoa.induct)
  case (1 n)
  then show ?case by (subst (asm) (2) itoa.simps) (auto split: if_splits)
qed

lemma itoa_not_Nil [simp]: "itoa n \<noteq> []"
  by (subst itoa.simps) simp

lemma digits_value_itoa [simp]: "digits_value (itoa n) 0 = n"
proof (induction n rule: itoa.induct)
  case (1 n)
  show ?case
  proof (cases "n < 10")
    case True
    then show ?thesis by (subst itoa.simps) simp
  next
    case False
    then show ?thesis using 1 by (subst itoa.simps) (simp add: digits_value_append)
  qed
qed

end
