(* ===== verification/Tenancy.thy ===== *)
theory Tenancy
  imports Rbac Go_Strings
begin

text \<open>
  Organizations and membership (internal/tenancy/tenancy.go): creating, renaming and deleting an
  organization, adding and removing members, and the last-owner guard. \<open>LOWER\<close> of PostgreSQL
  depends on the database locale and is the parameter \<open>sql_lower\<close>.
\<close>

definition system_owner_role_id :: uuid where "system_owner_role_id = 1"
definition system_member_role_id :: uuid where "system_member_role_id = 3"

text \<open>The regular expression \<open>^[a-z0-9]+(-[a-z0-9]+)*$\<close>: dash-separated, non-empty parts.\<close>

definition slug_char :: "char \<Rightarrow> bool" where
  "slug_char c \<longleftrightarrow> is_lower c \<or> is_digit c"

definition slug_pattern :: "string \<Rightarrow> bool" where
  "slug_pattern s \<longleftrightarrow> list_all (\<lambda>p. p \<noteq> [] \<and> list_all slug_char p) (split_on CHR ''-'' s)"

text \<open>Statements: BEGIN, organization, member, owner grant, COMMIT.\<close>

definition create_organization ::
  "env \<Rightarrow> uuid \<Rightarrow> string \<Rightarrow> string \<Rightarrow> iam \<Rightarrow> (api_error + organization) \<times> iam" where
  "create_organization e creator name slug s =
     (if trim_space name = [] then (Inl (Validation ''organization name is required''), s)
      else if \<not> slug_pattern slug
      then (Inl (Validation ''slug must be lowercase alphanumeric with single hyphens''), s)
      else if fault e 0 then (Inl (Wrap CodeInternal ''failed to begin transaction''), s)
      else if fault e 1 then (Inl (Wrap CodeInternal ''failed to create organization''), s)
      else if list_ex (\<lambda>o'. og_slug o' = slug) (organizations s)
      then (Inl (Conflict ''an organization with this slug already exists''), s)
      else
        (let o1 = \<lparr>og_id = new_id e, og_name = name, og_slug = slug, og_created_at = db_now e\<rparr>
         in if fault e 2 \<or> \<not> list_ex (\<lambda>u. us_id u = creator) (users s)
            then (Inl (Wrap CodeInternal ''failed to add creator as member''), s)
            else if fault e 3 \<or> \<not> list_ex (\<lambda>r. ro_id r = system_owner_role_id) (roles s)
            then (Inl (Wrap CodeInternal ''failed to grant owner role''), s)
            else if fault e 4 then (Inl (Wrap CodeInternal ''failed to commit transaction''), s)
            else (Inr o1,
                  s\<lparr>organizations := organizations s @ [o1],
                    members := members s @ [\<lparr>mb_org = new_id e, mb_user = creator\<rparr>],
                    member_roles := member_roles s
                      @ [\<lparr>rg_org = new_id e, rg_user = creator, rg_role = system_owner_role_id\<rparr>]\<rparr>)))"

definition list_for_user :: "env \<Rightarrow> uuid \<Rightarrow> iam \<Rightarrow> api_error + organization list" where
  "list_for_user e user s =
     (if fault e 0 then Inl (Wrap CodeInternal ''failed to list organizations'')
      else Inr (sort_key og_created_at (filter (\<lambda>o'. is_member (og_id o') user s) (organizations s))))"

definition get_organization :: "bool \<Rightarrow> auth_context \<Rightarrow> iam \<Rightarrow> api_error + organization" where
  "get_organization failed ac s =
     (if failed then Inl (Wrap CodeInternal ''failed to load organization'')
      else case find (\<lambda>o'. og_id o' = org_id ac) (organizations s) of
        None \<Rightarrow> Inl (NotFound ''organization'')
      | Some o1 \<Rightarrow> Inr o1)"

definition update_organization ::
  "env \<Rightarrow> auth_context \<Rightarrow> string option \<Rightarrow> string option \<Rightarrow> iam \<Rightarrow> (api_error + organization) \<times> iam" where
  "update_organization e ac in_name in_slug s =
     (case Require ac ''organization.manage'' of Some x \<Rightarrow> (Inl x, s)
      | None \<Rightarrow>
     (case get_organization (fault e 0) ac s of Inl x \<Rightarrow> (Inl x, s)
      | Inr existing \<Rightarrow>
        if (case in_name of None \<Rightarrow> False | Some n \<Rightarrow> trim_space n = [])
        then (Inl (Validation ''organization name is required''), s)
        else if (case in_slug of None \<Rightarrow> False | Some x \<Rightarrow> \<not> slug_pattern x)
        then (Inl (Validation ''slug must be lowercase alphanumeric with single hyphens''), s)
        else
     (let name = (case in_name of None \<Rightarrow> og_name existing | Some n \<Rightarrow> n);
          slug = (case in_slug of None \<Rightarrow> og_slug existing | Some x \<Rightarrow> x)
      in if fault e 1 then (Inl (Wrap CodeInternal ''failed to update organization''), s)
         else if list_ex (\<lambda>o'. og_id o' \<noteq> org_id ac \<and> og_slug o' = slug) (organizations s)
         then (Inl (Conflict ''an organization with this slug already exists''), s)
         else (Inr (existing\<lparr>og_name := name, og_slug := slug\<rparr>),
               s\<lparr>organizations := update_where (\<lambda>o'. og_id o' = org_id ac)
                                    (\<lambda>o'. o'\<lparr>og_name := name, og_slug := slug\<rparr>) (organizations s),
                 iam_audit := Record (fault e 2) ac ''tenancy.organization.updated'' ''organization''
                                (IdRef (org_id ac)) [] True (iam_audit s)\<rparr>))))"

text \<open>\<open>identity.FindByEmail\<close>.\<close>

definition find_by_email :: "(string \<Rightarrow> string) \<Rightarrow> bool \<Rightarrow> string \<Rightarrow> iam \<Rightarrow> api_error + user" where
  "find_by_email sql_lower failed email s =
     (if failed then Inl (Wrap CodeInternal ''failed to look up user'')
      else case find (\<lambda>u. us_email u = sql_lower email) (users s) of
        None \<Rightarrow> Inl (NotFound ''user'')
      | Some u \<Rightarrow> Inr u)"

text \<open>
  Statements: lookup, BEGIN, member, grant, COMMIT, audit. The foreign keys of the two INSERTs
  (the organization exists, the member role exists) are checked by the database.
\<close>

definition add_member ::
  "(string \<Rightarrow> string) \<Rightarrow> env \<Rightarrow> auth_context \<Rightarrow> string \<Rightarrow> iam \<Rightarrow> (api_error + user) \<times> iam" where
  "add_member sql_lower e ac email s =
     (case Require ac ''organization.manage'' of Some x \<Rightarrow> (Inl x, s)
      | None \<Rightarrow>
     (case find_by_email sql_lower (fault e 0) email s of Inl x \<Rightarrow> (Inl x, s)
      | Inr u \<Rightarrow>
        if fault e 1 then (Inl (Wrap CodeInternal ''failed to begin transaction''), s)
        else if fault e 2 then (Inl (Wrap CodeInternal ''failed to add member''), s)
        else if is_member (org_id ac) (us_id u) s
        then (Inl (Conflict ''user is already a member of this organization''), s)
        else if \<not> list_ex (\<lambda>o'. og_id o' = org_id ac) (organizations s)
        then (Inl (Wrap CodeInternal ''failed to add member''), s)
        else if fault e 3 \<or> \<not> list_ex (\<lambda>r. ro_id r = system_member_role_id) (roles s)
        then (Inl (Wrap CodeInternal ''failed to grant member role''), s)
        else if fault e 4 then (Inl (Wrap CodeInternal ''failed to commit transaction''), s)
        else (Inr u,
              s\<lparr>members := members s @ [\<lparr>mb_org = org_id ac, mb_user = us_id u\<rparr>],
                member_roles := member_roles s
                  @ [\<lparr>rg_org = org_id ac, rg_user = us_id u, rg_role = system_member_role_id\<rparr>],
                iam_audit := Record (fault e 5) ac ''tenancy.member.added'' ''organization_member''
                               (IdRef (us_id u)) [] True (iam_audit s)\<rparr>)))"

text \<open>
  \<open>removeMember\<close>. Statements: the owner test, the owner count (only for an owner), the DELETE,
  whose foreign key also drops the member's grants, and the audit row. \<open>k\<close> is the DELETE's number.
\<close>

definition owner_count :: "uuid \<Rightarrow> iam \<Rightarrow> nat" where
  "owner_count org s =
     row_count (\<lambda>g. rg_org g = org \<and> rg_role g = system_owner_role_id) (member_roles s)"

definition drop_membership :: "uuid \<Rightarrow> uuid \<Rightarrow> iam \<Rightarrow> iam" where
  "drop_membership org user s =
     s\<lparr>members := delete_where (\<lambda>m. mb_org m = org \<and> mb_user m = user) (members s),
       member_roles := delete_where (\<lambda>g. rg_org g = org \<and> rg_user g = user) (member_roles s)\<rparr>"

definition remove_member_common ::
  "env \<Rightarrow> auth_context \<Rightarrow> uuid \<Rightarrow> string \<Rightarrow> iam \<Rightarrow> (api_error + unit) \<times> iam" where
  "remove_member_common e ac user action s =
     (if fault e 0 then (Inl (Wrap CodeInternal ''failed to check member's role''), s)
      else
        (let owner = holds_role (org_id ac) user system_owner_role_id s;
             k = (if owner then 2 else 1)
         in if owner \<and> fault e 1 then (Inl (Wrap CodeInternal ''failed to count owners''), s)
            else if owner \<and> owner_count (org_id ac) s \<le> 1
            then (Inl (Conflict ''cannot remove the organization's last owner''), s)
            else if fault e k then (Inl (Wrap CodeInternal ''failed to remove member''), s)
            else if \<not> is_member (org_id ac) user s then (Inl (NotFound ''organization member''), s)
            else
              (let s' = drop_membership (org_id ac) user s
               in (Inr (),
                   s'\<lparr>iam_audit := Record (fault e (k + 1)) ac action ''organization_member''
                                    (IdRef user) [] True (iam_audit s')\<rparr>))))"

definition remove_member :: "env \<Rightarrow> auth_context \<Rightarrow> uuid \<Rightarrow> iam \<Rightarrow> (api_error + unit) \<times> iam" where
  "remove_member e ac user s =
     (case Require ac ''organization.manage'' of Some x \<Rightarrow> (Inl x, s)
      | None \<Rightarrow> remove_member_common e ac user ''tenancy.member.removed'' s)"

definition leave_organization :: "env \<Rightarrow> auth_context \<Rightarrow> iam \<Rightarrow> (api_error + unit) \<times> iam" where
  "leave_organization e ac s = remove_member_common e ac (actor_id ac) ''tenancy.member.left'' s"

text \<open>
  \<open>ON DELETE CASCADE\<close> from \<open>organizations\<close>: memberships and their grants, the organization's
  custom roles, and what hangs off those; audit rows keep existing without their organization.
\<close>

definition cascade_organization :: "uuid \<Rightarrow> iam \<Rightarrow> iam" where
  "cascade_organization org s =
     (let dead = map ro_id (filter (\<lambda>r. ro_org r = Some org) (roles s))
      in s\<lparr>organizations := delete_where (\<lambda>o'. og_id o' = org) (organizations s),
           members := delete_where (\<lambda>m. mb_org m = org) (members s),
           member_roles := delete_where (\<lambda>g. rg_org g = org \<or> rg_role g \<in> set dead) (member_roles s),
           roles := delete_where (\<lambda>r. ro_org r = Some org) (roles s),
           role_permissions := delete_where (\<lambda>rp. rp_role rp \<in> set dead) (role_permissions s),
           iam_audit := update_where (\<lambda>a. au_org a = Some org) (\<lambda>a. a\<lparr>au_org := None\<rparr>) (iam_audit s)\<rparr>)"

definition delete_organization ::
  "env \<Rightarrow> auth_context \<Rightarrow> uuid \<Rightarrow> iam \<Rightarrow> (api_error + unit) \<times> iam" where
  "delete_organization e ac org s =
     (if org = uuid_nil then (Inl (Validation ''organization id is required''), s)
      else if fault e 0 then (Inl (Wrap CodeInternal ''failed to start organization deletion''), s)
      else if fault e 1 then (Inl (Wrap CodeInternal ''failed to load organization''), s)
      else if \<not> list_ex (\<lambda>o'. og_id o' = org) (organizations s) then (Inl (NotFound ''organization''), s)
      else if fault e 2 then (Inl (Wrap CodeInternal ''failed to delete organization''), s)
      else if fault e 3 then (Inl (Wrap CodeInternal ''failed to commit organization deletion''), s)
      else
        (let s' = cascade_organization org s
         in (Inr (),
             s'\<lparr>iam_audit := Record (fault e 4 \<or> org_id ac = org) ac ''tenancy.organization.deleted''
                              ''organization'' (IdRef org) [] True (iam_audit s')\<rparr>)))"

end
