(* ===== verification/Platform_Auth.thy ===== *)
theory Platform_Auth
  imports Rbac
begin

text \<open>
  Platform-scoped authorization (internal/platformauth/platformauth.go): explicit per-user grants,
  separate from every organization's roles.
\<close>

definition perm_manage_platform_admins :: string where
  "perm_manage_platform_admins = ''platform.admins.manage''"

definition list_catalog :: "env \<Rightarrow> iam \<Rightarrow> api_error + (string \<times> string) list" where
  "list_catalog e s =
     (if fault e 0 then Inl (Wrap CodeInternal ''failed to list platform permission catalog'')
      else Inr (sort_key fst (platform_permissions s)))"

definition platform_has :: "bool \<Rightarrow> uuid \<Rightarrow> string \<Rightarrow> iam \<Rightarrow> api_error + bool" where
  "platform_has failed user key s =
     (if failed then Inl (Wrap CodeInternal ''failed to check platform permission'')
      else Inr (list_ex (\<lambda>g. pg_user g = user \<and> pg_key g = key) (platform_grants s)))"

text \<open>The query is statement 0 of the calling method.\<close>

definition platform_require :: "bool \<Rightarrow> auth_context \<Rightarrow> string \<Rightarrow> iam \<Rightarrow> api_error option" where
  "platform_require failed ac key s =
     (if actor_type ac = ActorSystem then None
      else if actor_type ac \<noteq> ActorUser
      then Some (Forbidden (''platform permission '' @ quoted key @ '' requires a human user identity''))
      else case platform_has failed (actor_id ac) key s of
        Inl x \<Rightarrow> Some x
      | Inr ok \<Rightarrow> if \<not> ok then Some (Forbidden (''missing platform permission: '' @ key)) else None)"

definition list_mine :: "env \<Rightarrow> auth_context \<Rightarrow> iam \<Rightarrow> api_error + string list" where
  "list_mine e ac s =
     (if actor_type ac \<noteq> ActorUser then Inr []
      else if fault e 0 then Inl (Wrap CodeInternal ''failed to list your platform permissions'')
      else Inr (sort (map pg_key (filter (\<lambda>g. pg_user g = actor_id ac) (platform_grants s)))))"

definition list_grants :: "env \<Rightarrow> auth_context \<Rightarrow> iam \<Rightarrow> api_error + platform_grant list" where
  "list_grants e ac s =
     (case platform_require (fault e 0) ac perm_manage_platform_admins s of Some x \<Rightarrow> Inl x
      | None \<Rightarrow>
        if fault e 1 then Inl (Wrap CodeInternal ''failed to list platform grants'')
        else Inr (sort_key pg_granted_at (platform_grants s)))"

text \<open>\<open>INSERT .. ON CONFLICT (user_id, permission_key) DO NOTHING\<close>.\<close>

definition insert_platform_grant :: "platform_grant \<Rightarrow> platform_grant list \<Rightarrow> platform_grant list" where
  "insert_platform_grant g tbl =
     (if list_ex (\<lambda>h. pg_user h = pg_user g \<and> pg_key h = pg_key g) tbl then tbl else tbl @ [g])"

text \<open>
  Statements: the permission check, catalog, target user, INSERT, audit. \<open>granted_by_user_id\<close>
  references \<open>users\<close>, so a system caller (whose id is nil) cannot insert a new grant.
\<close>

definition grant_platform ::
  "env \<Rightarrow> auth_context \<Rightarrow> uuid \<Rightarrow> string \<Rightarrow> iam \<Rightarrow> (api_error + unit) \<times> iam" where
  "grant_platform e ac target key s =
     (case platform_require (fault e 0) ac perm_manage_platform_admins s of Some x \<Rightarrow> (Inl x, s)
      | None \<Rightarrow>
        if fault e 1 then (Inl (Wrap CodeInternal ''failed to validate platform permission key''), s)
        else if key \<notin> fst ` set (platform_permissions s)
        then (Inl (Validation (''unknown platform permission: '' @ key)), s)
        else if fault e 2 then (Inl (Wrap CodeInternal ''failed to validate target user''), s)
        else if target \<notin> us_id ` set (users s) then (Inl (NotFound ''user''), s)
        else
          (let held = list_ex (\<lambda>h. pg_user h = target \<and> pg_key h = key) (platform_grants s)
           in if fault e 3 \<or> (\<not> held \<and> actor_id ac \<notin> us_id ` set (users s))
              then (Inl (Wrap CodeInternal ''failed to grant platform permission''), s)
              else (Inr (),
                    s\<lparr>platform_grants := insert_platform_grant
                        \<lparr>pg_user = target, pg_key = key, pg_granted_by = Some (actor_id ac),
                         pg_granted_at = db_now e\<rparr> (platform_grants s),
                      iam_audit := Record (fault e 4) ac ''platform.permission.granted''
                                     ''platform_user_permission'' (IdRef target) [] True (iam_audit s)\<rparr>)))"

text \<open>The self-revocation guard adds a statement, so the DELETE is number \<open>k\<close>.\<close>

definition revoke_platform ::
  "env \<Rightarrow> auth_context \<Rightarrow> uuid \<Rightarrow> string \<Rightarrow> iam \<Rightarrow> (api_error + unit) \<times> iam" where
  "revoke_platform e ac target key s =
     (case platform_require (fault e 0) ac perm_manage_platform_admins s of Some x \<Rightarrow> (Inl x, s)
      | None \<Rightarrow>
     (let self = (target = actor_id ac \<and> key = perm_manage_platform_admins);
          k = (if self then 2 else 1)
      in if self \<and> fault e 1 then (Inl (Wrap CodeInternal ''failed to check remaining platform admins''), s)
         else if self \<and> row_count (\<lambda>g. pg_key g = perm_manage_platform_admins \<and> pg_user g \<noteq> actor_id ac)
                           (platform_grants s) = 0
         then (Inl (Conflict ''cannot revoke the last platform.admins.manage grant''), s)
         else if fault e k then (Inl (Wrap CodeInternal ''failed to revoke platform permission''), s)
         else (Inr (),
               s\<lparr>platform_grants := delete_where (\<lambda>g. pg_user g = target \<and> pg_key g = key) (platform_grants s),
                 iam_audit := Record (fault e (k + 1)) ac ''platform.permission.revoked''
                                ''platform_user_permission'' (IdRef target) [] True (iam_audit s)\<rparr>)))"

text \<open>
  \<open>BootstrapAdmin\<close>: statement 0 resolves the email, 1 loads the catalog, \<open>2 + i\<close> inserts the i-th
  grant outside any transaction, so a failure keeps the grants made before it.
\<close>

fun bootstrap_grants :: "env \<Rightarrow> nat \<Rightarrow> uuid \<Rightarrow> string list \<Rightarrow> platform_grant list \<Rightarrow> bool \<times> platform_grant list" where
  "bootstrap_grants e k user [] tbl = (True, tbl)"
| "bootstrap_grants e k user (key # keys) tbl =
     (if fault e k then (False, tbl)
      else bootstrap_grants e (Suc k) user keys
             (insert_platform_grant \<lparr>pg_user = user, pg_key = key, pg_granted_by = None,
                                     pg_granted_at = db_now e\<rparr> tbl))"

definition bootstrap_admin :: "env \<Rightarrow> string \<Rightarrow> iam \<Rightarrow> (api_error + unit) \<times> iam" where
  "bootstrap_admin e email s =
     (if fault e 0 then (Inl (Wrap CodeInternal ''failed to resolve platform bootstrap admin''), s)
      else case find (\<lambda>u. us_email u = email) (users s) of
        None \<Rightarrow> (Inr (), s)
      | Some u \<Rightarrow>
          if fault e 1 then (Inl (Wrap CodeInternal ''failed to load platform permission catalog''), s)
          else (case bootstrap_grants e 2 (us_id u) (map fst (platform_permissions s)) (platform_grants s) of
              (False, tbl) \<Rightarrow> (Inl (Wrap CodeInternal ''failed to bootstrap platform admin grant''),
                              s\<lparr>platform_grants := tbl\<rparr>)
            | (True, tbl) \<Rightarrow> (Inr (), s\<lparr>platform_grants := tbl\<rparr>)))"

end
