(* ===== verification/Iam.thy ===== *)
theory Iam
  imports Tenancy Platform_Auth
begin

text \<open>
  The identity tables as one system: every operation of Rbac, Tenancy and Platform_Auth as one
  step function, what each can do to the tables, and the guarantees that hold along any sequence
  of them: integrity, no escalation through role definitions, the last-owner guard (and the one
  operation it misses), the effect of granting and revoking, and platform authority.
\<close>

section \<open>The operations as one interface\<close>

datatype iam_op =
    IAssign env auth_context uuid uuid
  | IRevoke env auth_context uuid uuid
  | ICreateRole env auth_context string string "string list"
  | IUpdateRole env auth_context uuid string string
  | ISetPermissions env auth_context uuid "string list"
  | IDeleteRole env auth_context uuid
  | ICreateOrg env uuid string string
  | IUpdateOrg env auth_context "string option" "string option"
  | IAddMember env auth_context string
  | IRemoveMember env auth_context uuid
  | ILeave env auth_context
  | IDeleteOrg env auth_context uuid
  | IGrantPlatform env auth_context uuid string
  | IRevokePlatform env auth_context uuid string
  | IBootstrap env string

primrec iam_step :: "(string \<Rightarrow> string) \<Rightarrow> iam_op \<Rightarrow> iam \<Rightarrow> iam" where
  "iam_step lw (IAssign e ac u r) s = snd (assign_role e ac u r s)"
| "iam_step lw (IRevoke e ac u r) s = snd (revoke_role e ac u r s)"
| "iam_step lw (ICreateRole e ac n d ps) s = snd (create_role e ac n d ps s)"
| "iam_step lw (IUpdateRole e ac r n d) s = snd (update_role_details e ac r n d s)"
| "iam_step lw (ISetPermissions e ac r ps) s = snd (update_role_permissions e ac r ps s)"
| "iam_step lw (IDeleteRole e ac r) s = snd (delete_role e ac r s)"
| "iam_step lw (ICreateOrg e u n sl) s = snd (create_organization e u n sl s)"
| "iam_step lw (IUpdateOrg e ac n sl) s = snd (update_organization e ac n sl s)"
| "iam_step lw (IAddMember e ac m) s = snd (add_member lw e ac m s)"
| "iam_step lw (IRemoveMember e ac u) s = snd (remove_member e ac u s)"
| "iam_step lw (ILeave e ac) s = snd (leave_organization e ac s)"
| "iam_step lw (IDeleteOrg e ac i) s = snd (delete_organization e ac i s)"
| "iam_step lw (IGrantPlatform e ac u k) s = snd (grant_platform e ac u k s)"
| "iam_step lw (IRevokePlatform e ac u k) s = snd (revoke_platform e ac u k s)"
| "iam_step lw (IBootstrap e m) s = snd (bootstrap_admin e m s)"

section \<open>What each operation can do to the tables\<close>

text \<open>The tables without the audit log.\<close>

definition iam_tables :: "iam \<Rightarrow> iam" where
  "iam_tables s = s\<lparr>iam_audit := []\<rparr>"

lemma iam_tables_audit [simp]: "iam_tables (s\<lparr>iam_audit := l\<rparr>) = iam_tables s"
  by (simp add: iam_tables_def)

lemma iam_tablesD:
  assumes "iam_tables s = iam_tables t"
  shows "users s = users t" "organizations s = organizations t" "members s = members t"
    "member_roles s = member_roles t" "roles s = roles t" "role_permissions s = role_permissions t"
    "permission_keys s = permission_keys t" "platform_permissions s = platform_permissions t"
    "platform_grants s = platform_grants t"
  using assms by (cases s; cases t; simp add: iam_tables_def)+

text \<open>
  One lemma per operation: it leaves the state alone, or it passed its guards and made the
  named change (the audit log aside).
\<close>

lemma assign_role_outcome:
  "snd (assign_role e ac u r s) = s
   \<or> (authorised ac ''organization.manage'' \<and> is_member (org_id ac) u s
      \<and> (\<exists>q \<in> set (roles s). ro_id q = r \<and> (ro_org q = None \<or> ro_org q = Some (org_id ac)))
      \<and> iam_tables (snd (assign_role e ac u r s)) =
           iam_tables (insert_role_grant (org_id ac) u r s))"
  by (auto simp: assign_role_def Let_def list_ex_iff iam_tables_def split: option.split)

lemma revoke_role_outcome:
  "snd (revoke_role e ac u r s) = s
   \<or> (authorised ac ''organization.manage''
      \<and> iam_tables (snd (revoke_role e ac u r s)) = iam_tables
           (s\<lparr>member_roles := delete_where (\<lambda>g. rg_org g = org_id ac \<and> rg_user g = u \<and> rg_role g = r)
                              (member_roles s)\<rparr>))"
  by (auto simp: iam_tables_def revoke_role_def split: option.split)

lemma validate_subset_None:
  "validate_permission_subset ac ps = None \<longleftrightarrow> set ps \<subseteq> permissions ac"
  by (induction ps) (auto simp: HasPermission_def)

lemma validate_keys_None:
  "validate_permission_keys e k cat ps = None \<Longrightarrow> set ps \<subseteq> set cat"
  by (induction ps arbitrary: k) (auto split: if_splits)

lemma insert_grants_SomeD:
  "insert_grants e k r cat ps tbl = Some tbl' \<Longrightarrow>
     tbl' = tbl @ map (\<lambda>p. \<lparr>rp_role = r, rp_key = p\<rparr>) ps \<and> distinct ps \<and> set ps \<subseteq> set cat
     \<and> (\<forall>rp \<in> set tbl. rp_role rp = r \<longrightarrow> rp_key rp \<notin> set ps)"
  by (induction ps arbitrary: k tbl) (fastforce split: if_splits simp: list_ex_iff)+

lemma create_role_outcome:
  "snd (create_role e ac n d ps s) = s
   \<or> (authorised ac ''organization.manage'' \<and> n \<noteq> [] \<and> set ps \<subseteq> permissions ac \<and> set ps \<subseteq> set (permission_keys s)
      \<and> distinct ps \<and> (\<forall>rp \<in> set (role_permissions s). rp_role rp = new_id e \<longrightarrow> rp_key rp \<notin> set ps)
      \<and> \<not> (\<exists>r \<in> set (roles s). ro_org r = Some (org_id ac) \<and> ro_name r = n)
      \<and> iam_tables (snd (create_role e ac n d ps s)) =
           iam_tables (s\<lparr>roles := roles s @ [\<lparr>ro_id = new_id e, ro_org = Some (org_id ac), ro_name = n,
                                    ro_description = d, ro_is_system = False\<rparr>],
             role_permissions := role_permissions s @ map (\<lambda>p. \<lparr>rp_role = new_id e, rp_key = p\<rparr>) ps\<rparr>))"
  by (auto simp: create_role_def Let_def iam_tables_def validate_subset_None list_ex_iff
      dest!: insert_grants_SomeD split: option.split)

lemma get_custom_role_InrD:
  "get_custom_role failed org i tbl = Inr r \<Longrightarrow>
     find (\<lambda>r. ro_id r = i) tbl = Some r \<and> r \<in> set tbl \<and> ro_id r = i \<and> \<not> ro_is_system r \<and> ro_org r = Some org"
  by (auto simp: get_custom_role_def split: if_splits option.splits dest: find_SomeD)

definition custom_role :: "uuid \<Rightarrow> uuid \<Rightarrow> iam \<Rightarrow> bool" where
  "custom_role org i s \<longleftrightarrow>
     (\<exists>r. find (\<lambda>r. ro_id r = i) (roles s) = Some r \<and> \<not> ro_is_system r \<and> ro_org r = Some org)"

lemma update_role_details_outcome:
  "snd (update_role_details e ac i n d s) = s
   \<or> (authorised ac ''organization.manage'' \<and> n \<noteq> [] \<and> custom_role (org_id ac) i s
      \<and> \<not> (\<exists>q \<in> set (roles s). ro_id q \<noteq> i \<and> ro_org q = Some (org_id ac) \<and> ro_name q = n)
      \<and> iam_tables (snd (update_role_details e ac i n d s)) =
           iam_tables (s\<lparr>roles := update_where (\<lambda>q. ro_id q = i) (\<lambda>q. q\<lparr>ro_name := n, ro_description := d\<rparr>) (roles s)\<rparr>))"
proof (cases "get_custom_role (fault e 0) (org_id ac) i (roles s)")
  case (Inl x)
  then show ?thesis by (auto simp: update_role_details_def split: option.split)
next
  case (Inr r)
  from get_custom_role_InrD [OF Inr] have c: "custom_role (org_id ac) i s" "ro_org r = Some (org_id ac)"
    by (auto simp: custom_role_def)
  show ?thesis
  proof (cases "Require ac ''organization.manage''")
    case None
    then have a: "authorised ac ''organization.manage''" by simp
    show ?thesis
      using a by (cases "load_role_permissions (fault e 2) i
          (s\<lparr>roles := update_where (\<lambda>q. ro_id q = i) (\<lambda>q. q\<lparr>ro_name := n, ro_description := d\<rparr>) (roles s)\<rparr>)")
      (simp_all add: None update_role_details_def Inr c Let_def list_ex_iff iam_tables_def del: Require_None)
  qed (simp add: update_role_details_def)
qed

lemma update_role_permissions_outcome:
  "snd (update_role_permissions e ac i ps s) = s
   \<or> (authorised ac ''organization.manage'' \<and> custom_role (org_id ac) i s
      \<and> set ps \<subseteq> permissions ac \<and> set ps \<subseteq> set (permission_keys s) \<and> distinct ps
      \<and> iam_tables (snd (update_role_permissions e ac i ps s)) =
           iam_tables (s\<lparr>role_permissions := delete_where (\<lambda>rp. rp_role rp = i) (role_permissions s)
                                 @ map (\<lambda>p. \<lparr>rp_role = i, rp_key = p\<rparr>) ps\<rparr>))"
  by (auto simp: update_role_permissions_def Let_def iam_tables_def validate_subset_None custom_role_def
      dest!: insert_grants_SomeD get_custom_role_InrD split: option.split sum.split)

lemma delete_role_outcome:
  "snd (delete_role e ac i s) = s
   \<or> (authorised ac ''organization.manage'' \<and> custom_role (org_id ac) i s
      \<and> (\<forall>g \<in> set (member_roles s). rg_role g \<noteq> i)
      \<and> iam_tables (snd (delete_role e ac i s)) =
           iam_tables (s\<lparr>roles := delete_where (\<lambda>r. ro_id r = i) (roles s),
             role_permissions := delete_where (\<lambda>rp. rp_role rp = i) (role_permissions s),
             member_roles := delete_where (\<lambda>g. rg_role g = i) (member_roles s)\<rparr>))"
  by (auto simp: iam_tables_def delete_role_def custom_role_def row_count_pos split: option.split sum.split dest!: get_custom_role_InrD)

lemma create_organization_outcome:
  "snd (create_organization e u n sl s) = s
   \<or> (slug_pattern sl \<and> trim_space n \<noteq> [] \<and> (\<forall>o' \<in> set (organizations s). og_slug o' \<noteq> sl)
      \<and> u \<in> us_id ` set (users s) \<and> system_owner_role_id \<in> ro_id ` set (roles s)
      \<and> snd (create_organization e u n sl s) =
          s\<lparr>organizations := organizations s @ [\<lparr>og_id = new_id e, og_name = n, og_slug = sl, og_created_at = db_now e\<rparr>],
            members := members s @ [\<lparr>mb_org = new_id e, mb_user = u\<rparr>],
            member_roles := member_roles s @ [\<lparr>rg_org = new_id e, rg_user = u, rg_role = system_owner_role_id\<rparr>]\<rparr>)"
proof -
  have img: "list_ex (\<lambda>x. f x = v) xs \<longleftrightarrow> v \<in> f ` set xs" for f :: "'q \<Rightarrow> 'r" and v xs
    by (auto simp: list_ex_iff)
  have img2: "v \<notin> f ` set xs \<longleftrightarrow> (\<forall>x \<in> set xs. f x \<noteq> v)" for f :: "'q \<Rightarrow> 'r" and v xs
    by auto
  show ?thesis
    by (simp add: create_organization_def Let_def img img2 [symmetric])
qed

lemma update_organization_outcome:
  "snd (update_organization e ac n sl s) = s
   \<or> (authorised ac ''organization.manage''
      \<and> (\<exists>nm slug. (\<forall>o' \<in> set (organizations s). og_id o' \<noteq> org_id ac \<longrightarrow> og_slug o' \<noteq> slug)
           \<and> iam_tables (snd (update_organization e ac n sl s)) = iam_tables
           (s\<lparr>organizations := update_where (\<lambda>o'. og_id o' = org_id ac) (\<lambda>o'. o'\<lparr>og_name := nm, og_slug := slug\<rparr>)
                               (organizations s)\<rparr>)))"
proof (cases "get_organization (fault e 0) ac s")
  case (Inl x)
  then show ?thesis by (simp add: update_organization_def split: option.split)
next
  case (Inr o1)
  let ?nm = "case n of None \<Rightarrow> og_name o1 | Some n \<Rightarrow> n"
  let ?sl = "case sl of None \<Rightarrow> og_slug o1 | Some n \<Rightarrow> n"
  have "snd (update_organization e ac n sl s) = s
   \<or> (authorised ac ''organization.manage''
      \<and> (\<forall>o' \<in> set (organizations s). og_id o' \<noteq> org_id ac \<longrightarrow> og_slug o' \<noteq> ?sl)
           \<and> iam_tables (snd (update_organization e ac n sl s)) = iam_tables
           (s\<lparr>organizations := update_where (\<lambda>o'. og_id o' = org_id ac) (\<lambda>o'. o'\<lparr>og_name := ?nm, og_slug := ?sl\<rparr>)
                               (organizations s)\<rparr>))"
  proof (cases "Require ac ''organization.manage''")
    case None
    then have a: "authorised ac ''organization.manage''" by simp
    show ?thesis
      using a by (simp add: None iam_tables_def update_organization_def Inr Let_def list_ex_iff del: Require_None) blast
  qed (simp add: update_organization_def)
  then show ?thesis by blast
qed

lemma add_member_outcome:
  "snd (add_member lw e ac m s) = s
   \<or> (authorised ac ''organization.manage''
      \<and> (\<exists>u. u \<in> us_id ` set (users s) \<and> \<not> is_member (org_id ac) u s
           \<and> org_id ac \<in> og_id ` set (organizations s) \<and> system_member_role_id \<in> ro_id ` set (roles s)
           \<and> iam_tables (snd (add_member lw e ac m s)) = iam_tables
           (s\<lparr>members := members s @ [\<lparr>mb_org = org_id ac, mb_user = u\<rparr>],
             member_roles := member_roles s @ [\<lparr>rg_org = org_id ac, rg_user = u, rg_role = system_member_role_id\<rparr>]\<rparr>)))"
proof (cases "find_by_email lw (fault e 0) m s")
  case (Inl x)
  then show ?thesis by (simp add: add_member_def split: option.split)
next
  case (Inr u)
  then have u: "us_id u \<in> us_id ` set (users s)"
    by (auto simp: find_by_email_def split: if_splits option.splits dest: find_SomeD)
  have img: "list_ex (\<lambda>x. f x = v) xs \<longleftrightarrow> v \<in> f ` set xs" for f :: "'q \<Rightarrow> uuid" and v xs
    by (auto simp: list_ex_iff)
  have "snd (add_member lw e ac m s) = s
   \<or> (authorised ac ''organization.manage'' \<and> \<not> is_member (org_id ac) (us_id u) s
           \<and> org_id ac \<in> og_id ` set (organizations s) \<and> system_member_role_id \<in> ro_id ` set (roles s)
           \<and> iam_tables (snd (add_member lw e ac m s)) = iam_tables
           (s\<lparr>members := members s @ [\<lparr>mb_org = org_id ac, mb_user = us_id u\<rparr>],
             member_roles := member_roles s @ [\<lparr>rg_org = org_id ac, rg_user = us_id u, rg_role = system_member_role_id\<rparr>]\<rparr>))"
  proof (cases "Require ac ''organization.manage''")
    case None
    then have a: "authorised ac ''organization.manage''" by simp
    show ?thesis
      using a by (simp add: None iam_tables_def add_member_def Inr img del: Require_None)
  qed (simp add: add_member_def)
  with u show ?thesis by blast
qed

lemma remove_member_common_outcome:
  "snd (remove_member_common e ac u a s) = s
   \<or> ((holds_role (org_id ac) u system_owner_role_id s \<longrightarrow> 1 < owner_count (org_id ac) s)
      \<and> iam_tables (snd (remove_member_common e ac u a s)) =
           iam_tables (drop_membership (org_id ac) u s))"
  by (auto simp: iam_tables_def remove_member_common_def Let_def)

lemma remove_member_outcome:
  "snd (remove_member e ac u s) = s
   \<or> (authorised ac ''organization.manage''
      \<and> (holds_role (org_id ac) u system_owner_role_id s \<longrightarrow> 1 < owner_count (org_id ac) s)
      \<and> iam_tables (snd (remove_member e ac u s)) = iam_tables (drop_membership (org_id ac) u s))"
proof (cases "Require ac ''organization.manage''")
  case None
  then have "authorised ac ''organization.manage''" by simp
  then show ?thesis
    using remove_member_common_outcome [of e ac u "''tenancy.member.removed''" s]
    by (simp add: None remove_member_def del: Require_None)
qed (simp add: remove_member_def)

lemma delete_organization_outcome:
  "snd (delete_organization e ac i s) = s
   \<or> (i \<noteq> uuid_nil \<and> iam_tables (snd (delete_organization e ac i s)) = iam_tables (cascade_organization i s))"
  by (auto simp: iam_tables_def delete_organization_def Let_def)

lemma grant_platform_outcome:
  "snd (grant_platform e ac u k s) = s
   \<or> (platform_require (fault e 0) ac perm_manage_platform_admins s = None
      \<and> k \<in> fst ` set (platform_permissions s) \<and> u \<in> us_id ` set (users s)
      \<and> iam_tables (snd (grant_platform e ac u k s)) = iam_tables
           (s\<lparr>platform_grants := insert_platform_grant \<lparr>pg_user = u, pg_key = k, pg_granted_by = Some (actor_id ac),
                 pg_granted_at = db_now e\<rparr> (platform_grants s)\<rparr>))"
  by (auto simp: iam_tables_def grant_platform_def Let_def split: option.split)

lemma revoke_platform_outcome:
  "snd (revoke_platform e ac u k s) = s
   \<or> (platform_require (fault e 0) ac perm_manage_platform_admins s = None
      \<and> (u = actor_id ac \<and> k = perm_manage_platform_admins \<longrightarrow>
           (\<exists>g \<in> set (platform_grants s). pg_key g = perm_manage_platform_admins \<and> pg_user g \<noteq> actor_id ac))
      \<and> iam_tables (snd (revoke_platform e ac u k s)) =
           iam_tables (s\<lparr>platform_grants := delete_where (\<lambda>g. pg_user g = u \<and> pg_key g = k) (platform_grants s)\<rparr>))"
  by (auto simp: iam_tables_def revoke_platform_def Let_def row_count_0 split: option.split)

section \<open>Integrity of the tables\<close>

definition mb_key :: "membership \<Rightarrow> uuid \<times> uuid" where
  "mb_key m = (mb_org m, mb_user m)"

definition rg_triple :: "role_grant \<Rightarrow> uuid \<times> uuid \<times> uuid" where
  "rg_triple g = (rg_org g, rg_user g, rg_role g)"

definition rp_pair :: "role_permission \<Rightarrow> uuid \<times> string" where
  "rp_pair rp = (rp_role rp, rp_key rp)"

definition pg_pair :: "platform_grant \<Rightarrow> uuid \<times> string" where
  "pg_pair g = (pg_user g, pg_key g)"

lemmas iam_keys = mb_key_def rg_triple_def rp_pair_def pg_pair_def

definition names_unique :: "role_row list \<Rightarrow> bool" where
  "names_unique rs \<longleftrightarrow> (\<forall>r \<in> set rs. \<forall>q \<in> set rs. ro_org r \<noteq> None \<and> ro_org r = ro_org q \<and> ro_name r = ro_name q
      \<longrightarrow> ro_id r = ro_id q)"

definition seeded :: "uuid \<Rightarrow> role_row list \<Rightarrow> bool" where
  "seeded i rs \<longleftrightarrow> (\<exists>r \<in> set rs. ro_id r = i \<and> ro_org r = None \<and> ro_is_system r)"

text \<open>
  The constraints of migrations 0001, 0002 and 0018: primary keys, unique slugs and role names,
  foreign keys, and the seeded system roles.
\<close>

definition keys_ok :: "iam \<Rightarrow> bool" where
  "keys_ok s \<longleftrightarrow> pk og_id (organizations s) \<and> pk og_slug (organizations s) \<and> pk mb_key (members s)
     \<and> pk ro_id (roles s) \<and> names_unique (roles s) \<and> pk rg_triple (member_roles s)
     \<and> pk rp_pair (role_permissions s) \<and> pk pg_pair (platform_grants s)"

definition refs_ok :: "iam \<Rightarrow> bool" where
  "refs_ok s \<longleftrightarrow>
     (\<forall>m \<in> set (members s). mb_org m \<in> og_id ` set (organizations s) \<and> mb_user m \<in> us_id ` set (users s))
   \<and> (\<forall>g \<in> set (member_roles s). (rg_org g, rg_user g) \<in> mb_key ` set (members s)
        \<and> rg_role g \<in> ro_id ` set (roles s))
   \<and> (\<forall>rp \<in> set (role_permissions s). rp_role rp \<in> ro_id ` set (roles s) \<and> rp_key rp \<in> set (permission_keys s))
   \<and> (\<forall>g \<in> set (platform_grants s). pg_user g \<in> us_id ` set (users s)
        \<and> pg_key g \<in> fst ` set (platform_permissions s))
   \<and> seeded system_owner_role_id (roles s) \<and> seeded system_member_role_id (roles s)"

definition iam_ok :: "iam \<Rightarrow> bool" where
  "iam_ok s \<longleftrightarrow> keys_ok s \<and> refs_ok s"

lemma iam_ok_tables: "iam_tables s = iam_tables t \<Longrightarrow> iam_ok s \<longleftrightarrow> iam_ok t"
  using iam_tablesD [of s t] by (simp add: iam_ok_def keys_ok_def refs_ok_def)

text \<open>The id an operation inserts is not in use (\<open>gen_random_uuid()\<close> and the primary key).\<close>

definition iam_fresh :: "iam_op \<Rightarrow> iam \<Rightarrow> bool" where
  "iam_fresh op s = (case op of
       ICreateRole e ac n d ps \<Rightarrow> new_id e \<notin> ro_id ` set (roles s)
     | ICreateOrg e u n sl \<Rightarrow> new_id e \<notin> og_id ` set (organizations s)
     | _ \<Rightarrow> True)"

lemma names_unique_append:
  "names_unique rs \<Longrightarrow> (\<And>q. q \<in> set rs \<Longrightarrow> ro_org q = ro_org r \<Longrightarrow> ro_org q \<noteq> None \<Longrightarrow> ro_name q \<noteq> ro_name r) \<Longrightarrow>
     names_unique (rs @ [r])"
proof (unfold names_unique_def, intro ballI impI, elim conjE)
  fix a b
  assume rs: "\<forall>r \<in> set rs. \<forall>q \<in> set rs. ro_org r \<noteq> None \<and> ro_org r = ro_org q \<and> ro_name r = ro_name q \<longrightarrow> ro_id r = ro_id q"
    and new: "\<And>q. q \<in> set rs \<Longrightarrow> ro_org q = ro_org r \<Longrightarrow> ro_org q \<noteq> None \<Longrightarrow> ro_name q \<noteq> ro_name r"
    and ab: "a \<in> set (rs @ [r])" "b \<in> set (rs @ [r])" "ro_org a \<noteq> None" "ro_org a = ro_org b" "ro_name a = ro_name b"
  from ab(1,2) consider "a \<in> set rs" "b \<in> set rs" | "a = r" "b = r" | "a \<in> set rs" "b = r" | "a = r" "b \<in> set rs"
    by auto
  then show "ro_id a = ro_id b"
  proof cases
    case 1 then show ?thesis using rs ab by blast
  next
    case 3 then show ?thesis using new [of a] ab by simp
  next
    case 4 then show ?thesis using new [of b] ab by simp
  qed simp
qed

lemma names_unique_delete: "names_unique rs \<Longrightarrow> names_unique (delete_where p rs)"
  by (auto simp: names_unique_def)

lemma ex_update: "(\<exists>r \<in> set (update_where p f xs). Q r) \<longleftrightarrow> (\<exists>r \<in> set xs. Q (if p r then f r else r))"
  by (induction xs) auto

lemma seeded_append [simp]: "seeded i rs \<Longrightarrow> seeded i (rs @ qs)"
  by (auto simp: seeded_def)

lemma img_update_where: "(\<And>r. p r \<Longrightarrow> k (f r) = k r) \<Longrightarrow> k ` set (update_where p f tbl) = k ` set tbl"
  by (induction tbl) auto

lemma list_ex_img: "list_ex (\<lambda>m. mb_org m = o' \<and> mb_user m = u) ms \<longleftrightarrow> (o', u) \<in> mb_key ` set ms"
  by (force simp: list_ex_iff mb_key_def)

lemma ok_assign:
  assumes "iam_ok s" "is_member o' u s" "q \<in> set (roles s)" "ro_id q = r"
  shows "iam_ok (insert_role_grant o' u r s)"
  using assms unfolding iam_ok_def keys_ok_def refs_ok_def insert_role_grant_def holds_role_def is_member_def
  by (auto simp: pk_append list_ex_img rg_triple_def list_ex_iff split: if_splits)

lemma ok_drop_grants:
  assumes "iam_ok s" shows "iam_ok (s\<lparr>member_roles := delete_where p (member_roles s)\<rparr>)"
  using assms unfolding iam_ok_def keys_ok_def refs_ok_def by (auto simp: pk_delete_where)

lemma ok_drop_role_perms:
  assumes "iam_ok s" shows "iam_ok (s\<lparr>role_permissions := delete_where p (role_permissions s)\<rparr>)"
  using assms unfolding iam_ok_def keys_ok_def refs_ok_def by (auto simp: pk_delete_where)

lemma ok_add_role_perms:
  assumes "iam_ok s" "i \<in> ro_id ` set (roles s)" "distinct ps" "set ps \<subseteq> set (permission_keys s)"
    "\<forall>rp \<in> set (role_permissions s). rp_role rp = i \<longrightarrow> rp_key rp \<notin> set ps"
  shows "iam_ok (s\<lparr>role_permissions := role_permissions s @ map (\<lambda>p. \<lparr>rp_role = i, rp_key = p\<rparr>) ps\<rparr>)"
proof -
  have "pk rp_pair (role_permissions s @ map (\<lambda>p. \<lparr>rp_role = i, rp_key = p\<rparr>) ps)"
    using assms(1,3,5) by (auto simp: iam_ok_def keys_ok_def pk_def rp_pair_def comp_def distinct_map inj_on_def)
  then show ?thesis
    using assms unfolding iam_ok_def keys_ok_def refs_ok_def by auto
qed

lemma ok_add_role:
  assumes "iam_ok s" "ro_id r \<notin> ro_id ` set (roles s)" "ro_org r \<noteq> None"
    "\<not> (\<exists>q \<in> set (roles s). ro_org q = ro_org r \<and> ro_name q = ro_name r)"
  shows "iam_ok (s\<lparr>roles := roles s @ [r]\<rparr>)"
proof -
  have "names_unique (roles s @ [r])"
    using assms by (intro names_unique_append) (auto simp: iam_ok_def keys_ok_def)
  then show ?thesis
    using assms(1,2) unfolding iam_ok_def keys_ok_def refs_ok_def by (auto simp: pk_append)
qed

lemma ok_rename_role:
  assumes ok: "iam_ok s" and c: "custom_role o' i s"
    and u: "\<not> (\<exists>q \<in> set (roles s). ro_id q \<noteq> i \<and> ro_org q = Some o' \<and> ro_name q = n)"
  shows "iam_ok (s\<lparr>roles := update_where (\<lambda>q. ro_id q = i) (\<lambda>q. q\<lparr>ro_name := n, ro_description := d\<rparr>) (roles s)\<rparr>)"
proof -
  let ?rs = "update_where (\<lambda>q. ro_id q = i) (\<lambda>q. q\<lparr>ro_name := n, ro_description := d\<rparr>) (roles s)"
  obtain r where r: "r \<in> set (roles s)" "ro_id r = i" "ro_org r = Some o'" "\<not> ro_is_system r"
    using c by (auto simp: custom_role_def dest: find_SomeD)
  have pk: "pk ro_id (roles s)" using ok by (simp add: iam_ok_def keys_ok_def)
  have only: "q = r" if "q \<in> set (roles s)" "ro_id q = i" for q
    using pk_unique [OF pk that(1) r(1)] that r by simp
  have "names_unique ?rs"
  proof (unfold names_unique_def, intro ballI impI, elim conjE)
    fix a b
    assume ab: "a \<in> set ?rs" "b \<in> set ?rs" "ro_org a \<noteq> None" "ro_org a = ro_org b" "ro_name a = ro_name b"
    have org: "\<exists>q \<in> set (roles s). ro_id x = ro_id q \<and> ro_org x = ro_org q
        \<and> (if ro_id q = i then ro_name x = n \<and> ro_org q = Some o' else ro_name x = ro_name q)"
      if x: "x \<in> set ?rs" for x
    proof -
      from x obtain q where q: "q \<in> set (roles s)"
        "x = (if ro_id q = i then q\<lparr>ro_name := n, ro_description := d\<rparr> else q)"
        unfolding set_update_where by blast
      have "ro_id q = i \<Longrightarrow> ro_org q = Some o'" using only [OF q(1)] r(3) by simp
      with q(2) show ?thesis by (intro bexI [OF _ q(1)]) (cases "ro_id q = i"; simp)
    qed
    from org [OF ab(1)] org [OF ab(2)] obtain p q where
      p: "p \<in> set (roles s)" "ro_id a = ro_id p" "ro_org a = ro_org p"
        "if ro_id p = i then ro_name a = n \<and> ro_org p = Some o' else ro_name a = ro_name p" and
      q: "q \<in> set (roles s)" "ro_id b = ro_id q" "ro_org b = ro_org q"
        "if ro_id q = i then ro_name b = n \<and> ro_org q = Some o' else ro_name b = ro_name q" by blast
    have nu: "names_unique (roles s)" using ok by (simp add: iam_ok_def keys_ok_def)
    show "ro_id a = ro_id b"
    proof (cases "ro_id p = i")
      case True
      then have na: "ro_name a = n" "ro_org p = Some o'" using p(4) by simp_all
      show ?thesis
      proof (cases "ro_id q = i")
        case False
        then have "ro_name q = n" "ro_org q = Some o'" using q(3,4) na ab(4,5) p(3) by simp_all
        with u q(1) False show ?thesis by blast
      qed (use True p(2) q(2) in simp)
    next
      case np: False
      then have na: "ro_name a = ro_name p" using p(4) by simp
      show ?thesis
      proof (cases "ro_id q = i")
        case True
        then have "ro_name p = n" "ro_org p = Some o'" using q(3,4) na ab(4,5) p(3) by simp_all
        with u p(1) np show ?thesis by blast
      next
        case False
        then have "ro_name q = ro_name p" "ro_org p = ro_org q" "ro_org p \<noteq> None"
          using q(3,4) na ab(3-5) p(3) by simp_all
        then have "ro_id p = ro_id q"
          using nu [unfolded names_unique_def, rule_format, OF p(1) q(1)] by simp
        then show ?thesis using p(2) q(2) by simp
      qed
    qed
  qed
  moreover have "seeded j ?rs" if "seeded j (roles s)" for j
    using that by (auto simp: seeded_def ex_update)
  moreover have "ro_id ` set ?rs = ro_id ` set (roles s)" by (rule img_update_where) simp
  moreover have "pk ro_id ?rs" using pk by (simp add: pk_update_where)
  ultimately show ?thesis
    using ok unfolding iam_ok_def keys_ok_def refs_ok_def by simp
qed

lemma custom_not_seeded:
  assumes "iam_ok s" "custom_role o' i s" "j = system_owner_role_id \<or> j = system_member_role_id"
  shows "i \<noteq> j"
proof
  assume eq: "i = j"
  obtain r where r: "r \<in> set (roles s)" "ro_id r = i" "ro_org r = Some o'" "\<not> ro_is_system r"
    using assms(2) by (auto simp: custom_role_def dest: find_SomeD)
  have pk: "pk ro_id (roles s)" using assms(1) by (simp add: iam_ok_def keys_ok_def)
  have "seeded i (roles s)" using assms(1,3) eq unfolding iam_ok_def refs_ok_def by blast
  then obtain q where "q \<in> set (roles s)" "ro_id q = i" "ro_is_system q" by (auto simp: seeded_def)
  with r pk_unique [OF pk this(1) r(1)] show False by simp
qed

lemma ok_delete_role:
  assumes ok: "iam_ok s" and c: "custom_role o' i s"
  shows "iam_ok (s\<lparr>roles := delete_where (\<lambda>r. ro_id r = i) (roles s),
             role_permissions := delete_where (\<lambda>rp. rp_role rp = i) (role_permissions s),
             member_roles := delete_where (\<lambda>g. rg_role g = i) (member_roles s)\<rparr>)"
proof -
  have "seeded j (delete_where (\<lambda>r. ro_id r = i) (roles s))" if "seeded j (roles s)" "i \<noteq> j" for j
    using that by (auto simp: seeded_def)
  with custom_not_seeded [OF ok c] ok show ?thesis
    unfolding iam_ok_def keys_ok_def refs_ok_def
    by (auto simp: pk_delete_where names_unique_delete)
qed

lemma ok_add_membership:
  assumes ok: "iam_ok s" and "o' \<in> og_id ` set (organizations s)" "u \<in> us_id ` set (users s)"
    "(o', u) \<notin> mb_key ` set (members s)" "r \<in> ro_id ` set (roles s)"
  shows "iam_ok (s\<lparr>members := members s @ [\<lparr>mb_org = o', mb_user = u\<rparr>],
                   member_roles := member_roles s @ [\<lparr>rg_org = o', rg_user = u, rg_role = r\<rparr>]\<rparr>)"
proof -
  have "(o', u, r) \<notin> rg_triple ` set (member_roles s)"
    using ok assms(4) by (auto simp: iam_ok_def refs_ok_def rg_triple_def)
  then show ?thesis
    using assms unfolding iam_ok_def keys_ok_def refs_ok_def
    by (auto simp: pk_append mb_key_def rg_triple_def)
qed

lemma ok_drop_membership:
  assumes "iam_ok s" shows "iam_ok (drop_membership o' u s)"
proof -
  have "(rg_org g, rg_user g) \<in> mb_key ` set (delete_where (\<lambda>m. mb_org m = o' \<and> mb_user m = u) (members s))"
    if "g \<in> set (member_roles s)" "\<not> (rg_org g = o' \<and> rg_user g = u)" for g
  proof -
    have "(rg_org g, rg_user g) \<in> mb_key ` set (members s)"
      using assms that(1) by (auto simp: iam_ok_def refs_ok_def)
    then obtain m where "m \<in> set (members s)" "mb_org m = rg_org g" "mb_user m = rg_user g"
      by (auto simp: mb_key_def)
    with that(2) show ?thesis by (intro image_eqI [of _ _ m]) (auto simp: mb_key_def)
  qed
  then show ?thesis
    using assms unfolding iam_ok_def keys_ok_def refs_ok_def drop_membership_def
    by (auto simp: pk_delete_where)
qed

lemma ok_add_org:
  assumes "iam_ok s" "og_id x \<notin> og_id ` set (organizations s)" "og_slug x \<notin> og_slug ` set (organizations s)"
  shows "iam_ok (s\<lparr>organizations := organizations s @ [x]\<rparr>)"
  using assms unfolding iam_ok_def keys_ok_def refs_ok_def by (auto simp: pk_append)

lemma pk_slug_update:
  assumes "pk og_slug tbl" "\<forall>x \<in> set tbl. og_id x \<noteq> i \<longrightarrow> og_slug x \<noteq> sl" "pk og_id tbl"
  shows "pk og_slug (update_where (\<lambda>x. og_id x = i) (\<lambda>x. x\<lparr>og_name := n, og_slug := sl\<rparr>) tbl)"
  using assms
proof (induction tbl)
  case (Cons x tbl)
  have e: "og_slug ` set (update_where (\<lambda>x. og_id x = i) (\<lambda>x. x\<lparr>og_name := n, og_slug := sl\<rparr>) tbl) = og_slug ` set tbl"
    if "\<forall>y \<in> set tbl. og_id y \<noteq> i"
    using that by (subst update_where_none) auto
  show ?case
  proof (cases "og_id x = i")
    case True
    have "\<forall>y \<in> set tbl. og_id y \<noteq> i" using Cons.prems(3) True unfolding pk_def by (simp, metis image_eqI)
    with Cons True e show ?thesis by (auto simp: pk_def)
  next
    case False
    have "og_slug x \<notin> og_slug ` set (update_where (\<lambda>x. og_id x = i) (\<lambda>x. x\<lparr>og_name := n, og_slug := sl\<rparr>) tbl)"
      using Cons.prems(1,2) False by (auto simp: set_update_where pk_def split: if_splits)
    with Cons False show ?thesis by (simp add: pk_def)
  qed
qed simp

lemma ok_update_org:
  assumes "iam_ok s" "\<forall>x \<in> set (organizations s). og_id x \<noteq> i \<longrightarrow> og_slug x \<noteq> sl"
  shows "iam_ok (s\<lparr>organizations := update_where (\<lambda>x. og_id x = i) (\<lambda>x. x\<lparr>og_name := n, og_slug := sl\<rparr>) (organizations s)\<rparr>)"
proof -
  let ?t = "update_where (\<lambda>x. og_id x = i) (\<lambda>x. x\<lparr>og_name := n, og_slug := sl\<rparr>) (organizations s)"
  have "og_id ` set ?t = og_id ` set (organizations s)" by (rule img_update_where) simp
  moreover have "pk og_id ?t = pk og_id (organizations s)" by (simp add: pk_update_where)
  moreover have "pk og_slug ?t" using pk_slug_update assms by (auto simp: iam_ok_def keys_ok_def)
  ultimately show ?thesis using assms(1) unfolding iam_ok_def keys_ok_def refs_ok_def by simp
qed

lemma ok_platform_insert:
  assumes "iam_ok s" "pg_user g \<in> us_id ` set (users s)" "pg_key g \<in> fst ` set (platform_permissions s)"
  shows "iam_ok (s\<lparr>platform_grants := insert_platform_grant g (platform_grants s)\<rparr>)"
  using assms unfolding iam_ok_def keys_ok_def refs_ok_def insert_platform_grant_def
  by (auto simp: pk_append pg_pair_def list_ex_iff)

lemma ok_platform_delete:
  assumes "iam_ok s" shows "iam_ok (s\<lparr>platform_grants := delete_where p (platform_grants s)\<rparr>)"
  using assms unfolding iam_ok_def keys_ok_def refs_ok_def by (auto simp: pk_delete_where)

lemma ok_cascade:
  assumes ok: "iam_ok s" shows "iam_ok (cascade_organization o' s)"
proof -
  let ?s = "cascade_organization o' s"
  have pk: "pk ro_id (roles s)" using ok by (simp add: iam_ok_def keys_ok_def)
  have alive: "i \<in> ro_id ` set (roles ?s)"
    if "i \<in> ro_id ` set (roles s)" "i \<notin> set (map ro_id (filter (\<lambda>r. ro_org r = Some o') (roles s)))" for i
    using that by (auto simp: cascade_organization_def)
  have seed: "seeded j (roles ?s)" if "seeded j (roles s)" for j
    using that by (auto simp: seeded_def cascade_organization_def)
  have org: "x \<in> og_id ` set (organizations ?s)" if "x \<in> og_id ` set (organizations s)" "x \<noteq> o'" for x
    using that by (auto simp: cascade_organization_def)
  have mem: "(rg_org g, rg_user g) \<in> mb_key ` set (members ?s)"
    if "(rg_org g, rg_user g) \<in> mb_key ` set (members s)" "rg_org g \<noteq> o'" for g
    using that by (auto simp: cascade_organization_def mb_key_def)
  have k: "keys_ok ?s"
    using ok by (simp add: iam_ok_def keys_ok_def cascade_organization_def Let_def pk_delete_where names_unique_delete)
  have r: "refs_ok s" using ok by (simp add: iam_ok_def)
  have us: "users ?s = users s" "permission_keys ?s = permission_keys s" "platform_grants ?s = platform_grants s"
    "platform_permissions ?s = platform_permissions s" by (simp_all add: cascade_organization_def Let_def)
  have "refs_ok ?s"
    unfolding refs_ok_def us
  proof (intro conjI ballI)
    fix m assume m: "m \<in> set (members ?s)"
    then have "m \<in> set (members s)" "mb_org m \<noteq> o'" by (auto simp: cascade_organization_def Let_def)
    with r org show "mb_org m \<in> og_id ` set (organizations ?s)" "mb_user m \<in> us_id ` set (users s)"
      unfolding refs_ok_def by blast+
  next
    fix g assume "g \<in> set (member_roles ?s)"
    then have g: "g \<in> set (member_roles s)" "rg_org g \<noteq> o'"
      "rg_role g \<notin> set (map ro_id (filter (\<lambda>r. ro_org r = Some o') (roles s)))"
      by (auto simp: cascade_organization_def Let_def)
    have "(rg_org g, rg_user g) \<in> mb_key ` set (members s)" "rg_role g \<in> ro_id ` set (roles s)"
      using r g(1) unfolding refs_ok_def by blast+
    with mem alive g show "(rg_org g, rg_user g) \<in> mb_key ` set (members ?s)" "rg_role g \<in> ro_id ` set (roles ?s)"
      by blast+
  next
    fix rp assume "rp \<in> set (role_permissions ?s)"
    then have g: "rp \<in> set (role_permissions s)"
      "rp_role rp \<notin> set (map ro_id (filter (\<lambda>r. ro_org r = Some o') (roles s)))"
      by (auto simp: cascade_organization_def Let_def)
    with r alive show "rp_role rp \<in> ro_id ` set (roles ?s)" "rp_key rp \<in> set (permission_keys s)"
      unfolding refs_ok_def by blast+
  qed (use r seed in \<open>simp_all add: refs_ok_def\<close>)
  with k show ?thesis by (simp add: iam_ok_def)
qed

lemma bootstrap_grants_ok:
  assumes "iam_ok (s\<lparr>platform_grants := tbl\<rparr>)" "u \<in> us_id ` set (users s)" "set ks \<subseteq> fst ` set (platform_permissions s)"
  shows "iam_ok (s\<lparr>platform_grants := snd (bootstrap_grants e k u ks tbl)\<rparr>)"
  using assms
proof (induction ks arbitrary: k tbl)
  case (Cons key ks)
  show ?case
  proof (cases "fault e k")
    case False
    have "iam_ok (s\<lparr>platform_grants := insert_platform_grant \<lparr>pg_user = u, pg_key = key, pg_granted_by = None,
                                     pg_granted_at = db_now e\<rparr> tbl\<rparr>)"
      using ok_platform_insert [OF Cons.prems(1), of "\<lparr>pg_user = u, pg_key = key, pg_granted_by = None, pg_granted_at = db_now e\<rparr>"]
        Cons.prems(2,3) by simp
    then show ?thesis using Cons False by simp
  qed (use Cons.prems(1) in simp)
qed simp

lemma bootstrap_admin_outcome:
  "snd (bootstrap_admin e m s) = s
   \<or> (\<exists>u. u \<in> set (users s) \<and> us_email u = m \<and> snd (bootstrap_admin e m s) =
        s\<lparr>platform_grants := snd (bootstrap_grants e 2 (us_id u) (map fst (platform_permissions s)) (platform_grants s))\<rparr>)"
  by (auto simp: bootstrap_admin_def dest!: find_SomeD split: option.split prod.split bool.split)

lemma ok_via: "iam_tables t = iam_tables u \<Longrightarrow> iam_ok u \<Longrightarrow> iam_ok t"
  using iam_ok_tables by blast

lemma create_role_ok:
  assumes ok: "iam_ok s" and fr: "new_id e \<notin> ro_id ` set (roles s)"
  shows "iam_ok (snd (create_role e ac n d ps s))"
  using create_role_outcome [of e ac n d ps s]
proof (elim disjE conjE)
  let ?r = "\<lparr>ro_id = new_id e, ro_org = Some (org_id ac), ro_name = n, ro_description = d, ro_is_system = False\<rparr>"
  assume t: "iam_tables (snd (create_role e ac n d ps s)) = iam_tables (s\<lparr>roles := roles s @ [?r],
             role_permissions := role_permissions s @ map (\<lambda>p. \<lparr>rp_role = new_id e, rp_key = p\<rparr>) ps\<rparr>)"
    and u: "\<not> (\<exists>r \<in> set (roles s). ro_org r = Some (org_id ac) \<and> ro_name r = n)"
    and d: "distinct ps" "set ps \<subseteq> set (permission_keys s)"
      "\<forall>rp \<in> set (role_permissions s). rp_role rp = new_id e \<longrightarrow> rp_key rp \<notin> set ps"
  have "iam_ok (s\<lparr>roles := roles s @ [?r]\<rparr>)"
    by (rule ok_add_role [OF ok]) (use u fr in simp_all)
  from ok_add_role_perms [OF this, of "new_id e" ps] d have
    "iam_ok (s\<lparr>roles := roles s @ [?r],
       role_permissions := role_permissions s @ map (\<lambda>p. \<lparr>rp_role = new_id e, rp_key = p\<rparr>) ps\<rparr>)" by simp
  then show ?thesis by (rule ok_via [OF t])
qed (use ok in simp)

lemma update_role_permissions_ok:
  assumes ok: "iam_ok s"
  shows "iam_ok (snd (update_role_permissions e ac i ps s))"
  using update_role_permissions_outcome [of e ac i ps s]
proof (elim disjE conjE)
  assume t: "iam_tables (snd (update_role_permissions e ac i ps s)) =
           iam_tables (s\<lparr>role_permissions := delete_where (\<lambda>rp. rp_role rp = i) (role_permissions s)
                                 @ map (\<lambda>p. \<lparr>rp_role = i, rp_key = p\<rparr>) ps\<rparr>)"
    and d: "distinct ps" "set ps \<subseteq> set (permission_keys s)" and c: "custom_role (org_id ac) i s"
  have "i \<in> ro_id ` set (roles s)" using c by (auto simp: custom_role_def dest: find_SomeD)
  then have "iam_ok (s\<lparr>role_permissions := delete_where (\<lambda>rp. rp_role rp = i) (role_permissions s)
                                 @ map (\<lambda>p. \<lparr>rp_role = i, rp_key = p\<rparr>) ps\<rparr>)"
    using ok_add_role_perms [OF ok_drop_role_perms [OF ok, of "\<lambda>rp. rp_role rp = i"], of i ps] d by simp
  then show ?thesis by (rule ok_via [OF t])
qed (use ok in simp)

lemma create_organization_ok:
  assumes ok: "iam_ok s" and f: "new_id e \<notin> og_id ` set (organizations s)"
  shows "iam_ok (snd (create_organization e u n sl s))"
  using create_organization_outcome [of e u n sl s]
proof (elim disjE conjE)
  let ?o = "\<lparr>og_id = new_id e, og_name = n, og_slug = sl, og_created_at = db_now e\<rparr>"
  assume t: "snd (create_organization e u n sl s) =
          s\<lparr>organizations := organizations s @ [?o],
            members := members s @ [\<lparr>mb_org = new_id e, mb_user = u\<rparr>],
            member_roles := member_roles s @ [\<lparr>rg_org = new_id e, rg_user = u, rg_role = system_owner_role_id\<rparr>]\<rparr>"
    and o: "\<forall>o' \<in> set (organizations s). og_slug o' \<noteq> sl" "u \<in> us_id ` set (users s)"
      "system_owner_role_id \<in> ro_id ` set (roles s)"
  have 1: "iam_ok (s\<lparr>organizations := organizations s @ [?o]\<rparr>)"
    by (rule ok_add_org [OF ok]) (use f o in auto)
  have 2: "(new_id e, u) \<notin> mb_key ` set (members s)"
    using f ok by (auto simp: iam_ok_def refs_ok_def mb_key_def)
  show ?thesis
    unfolding t using ok_add_membership [OF 1, of "new_id e" u system_owner_role_id] o 2 by simp
qed (use ok in simp)

lemma add_member_ok:
  assumes ok: "iam_ok s"
  shows "iam_ok (snd (add_member lw e ac m s))"
  using add_member_outcome [of lw e ac m s]
proof (elim disjE conjE exE)
  fix u
  assume t: "iam_tables (snd (add_member lw e ac m s)) = iam_tables
           (s\<lparr>members := members s @ [\<lparr>mb_org = org_id ac, mb_user = u\<rparr>],
             member_roles := member_roles s @ [\<lparr>rg_org = org_id ac, rg_user = u, rg_role = system_member_role_id\<rparr>]\<rparr>)"
    and o: "u \<in> us_id ` set (users s)" "\<not> is_member (org_id ac) u s" "org_id ac \<in> og_id ` set (organizations s)"
      "system_member_role_id \<in> ro_id ` set (roles s)"
  show ?thesis
    by (rule ok_via [OF t], rule ok_add_membership [OF ok o(3,1) _ o(4)])
      (use o(2) in \<open>simp add: is_member_def list_ex_img\<close>)
qed (use ok in simp)

lemma bootstrap_admin_ok:
  assumes ok: "iam_ok s"
  shows "iam_ok (snd (bootstrap_admin e m s))"
  using bootstrap_admin_outcome [of e m s]
proof (elim disjE conjE exE)
  fix u
  assume u: "u \<in> set (users s)" and t: "snd (bootstrap_admin e m s) =
        s\<lparr>platform_grants := snd (bootstrap_grants e 2 (us_id u) (map fst (platform_permissions s)) (platform_grants s))\<rparr>"
  show ?thesis
    unfolding t by (rule bootstrap_grants_ok) (use ok u in simp_all)
qed (use ok in simp)

lemma iam_step_ok:
  assumes ok: "iam_ok s" and fr: "iam_fresh op s"
  shows "iam_ok (iam_step lw op s)"
proof (cases op)
  case (IAssign e ac u r)
  show ?thesis using assign_role_outcome [of e ac u r s] unfolding IAssign iam_step.simps
    by (elim disjE conjE bexE) (simp add: ok, (erule ok_via, rule ok_assign [OF ok], assumption+)+)
next
  case (IRevoke e ac u r)
  show ?thesis using revoke_role_outcome [of e ac u r s] unfolding IRevoke iam_step.simps
    by (elim disjE conjE) (simp add: ok, erule ok_via, rule ok_drop_grants [OF ok])
next
  case (ICreateRole e ac n d ps)
  then show ?thesis using create_role_ok [OF ok] fr by (simp add: iam_fresh_def)
next
  case (IUpdateRole e ac i n d)
  show ?thesis using update_role_details_outcome [of e ac i n d s] unfolding IUpdateRole iam_step.simps
    by (elim disjE conjE) (simp add: ok, erule ok_via, rule ok_rename_role [OF ok])
next
  case (ISetPermissions e ac i ps)
  then show ?thesis using update_role_permissions_ok [OF ok] by simp
next
  case (IDeleteRole e ac i)
  show ?thesis using delete_role_outcome [of e ac i s] unfolding IDeleteRole iam_step.simps
    by (elim disjE conjE) (simp add: ok, erule ok_via, rule ok_delete_role [OF ok])
next
  case (ICreateOrg e u n sl)
  then show ?thesis using create_organization_ok [OF ok] fr by (simp add: iam_fresh_def)
next
  case (IUpdateOrg e ac n sl)
  show ?thesis using update_organization_outcome [of e ac n sl s] unfolding IUpdateOrg iam_step.simps
    by (elim disjE conjE exE) (simp add: ok, erule ok_via, rule ok_update_org [OF ok])
next
  case (IAddMember e ac m)
  then show ?thesis using add_member_ok [OF ok] by simp
next
  case (IRemoveMember e ac u)
  show ?thesis using remove_member_outcome [of e ac u s] unfolding IRemoveMember iam_step.simps
    by (elim disjE conjE) (simp add: ok, erule ok_via, rule ok_drop_membership [OF ok])
next
  case (ILeave e ac)
  show ?thesis using remove_member_common_outcome [of e ac "actor_id ac" "''tenancy.member.left''" s]
    unfolding ILeave iam_step.simps leave_organization_def
    by (elim disjE conjE) (simp add: ok, erule ok_via, rule ok_drop_membership [OF ok])
next
  case (IDeleteOrg e ac i)
  show ?thesis using delete_organization_outcome [of e ac i s] unfolding IDeleteOrg iam_step.simps
    by (elim disjE conjE) (simp add: ok, erule ok_via, rule ok_cascade [OF ok])
next
  case (IGrantPlatform e ac u k)
  show ?thesis using grant_platform_outcome [of e ac u k s] unfolding IGrantPlatform iam_step.simps
    by (elim disjE conjE) (simp add: ok, erule ok_via, rule ok_platform_insert [OF ok], simp_all)
next
  case (IRevokePlatform e ac u k)
  show ?thesis using revoke_platform_outcome [of e ac u k s] unfolding IRevokePlatform iam_step.simps
    by (elim disjE conjE) (simp add: ok, erule ok_via, rule ok_platform_delete [OF ok])
next
  case (IBootstrap e m)
  then show ?thesis using bootstrap_admin_ok [OF ok] by simp
qed

fun iam_fresh_run :: "(string \<Rightarrow> string) \<Rightarrow> iam_op list \<Rightarrow> iam \<Rightarrow> bool" where
  "iam_fresh_run lw [] s = True"
| "iam_fresh_run lw (op # ops) s = (iam_fresh op s \<and> iam_fresh_run lw ops (iam_step lw op s))"

lemma iam_run_ok: "iam_ok s \<Longrightarrow> iam_fresh_run lw ops s \<Longrightarrow> iam_ok (run_ops (iam_step lw) ops s)"
  by (induction ops arbitrary: s) (auto simp: iam_step_ok)

text \<open>
  C5: whatever sequence of role, membership, organization and platform operations runs, with any
  callers and faults, the tables keep their integrity: keys and slugs stay unique, every grant
  belongs to a member and names an existing role, every permission of a role is in the catalog, and
  the seeded owner and member roles remain.
\<close>

theorem iam_integrity_preserved:
  assumes "iam_ok s" "iam_fresh_run lw ops s"
  shows "iam_ok (run_ops (iam_step lw) ops s)"
  using assms by (rule iam_run_ok)

section \<open>No escalation through roles\<close>

primrec iam_caller :: "iam_op \<Rightarrow> auth_context option" where
  "iam_caller (IAssign e ac u r) = Some ac"
| "iam_caller (IRevoke e ac u r) = Some ac"
| "iam_caller (ICreateRole e ac n d ps) = Some ac"
| "iam_caller (IUpdateRole e ac r n d) = Some ac"
| "iam_caller (ISetPermissions e ac r ps) = Some ac"
| "iam_caller (IDeleteRole e ac r) = Some ac"
| "iam_caller (ICreateOrg e u n sl) = None"
| "iam_caller (IUpdateOrg e ac n sl) = Some ac"
| "iam_caller (IAddMember e ac m) = Some ac"
| "iam_caller (IRemoveMember e ac u) = Some ac"
| "iam_caller (ILeave e ac) = Some ac"
| "iam_caller (IDeleteOrg e ac i) = Some ac"
| "iam_caller (IGrantPlatform e ac u k) = Some ac"
| "iam_caller (IRevokePlatform e ac u k) = Some ac"
| "iam_caller (IBootstrap e m) = None"

lemma assign_role_role_permissions [simp]: "role_permissions (snd (assign_role e ac u r s)) = role_permissions s"
  using assign_role_outcome [of e ac u r s]
  by (elim disjE conjE exE) (simp, drule iam_tablesD(6), simp add: insert_role_grant_def drop_membership_def)

lemma revoke_role_role_permissions [simp]: "role_permissions (snd (revoke_role e ac u r s)) = role_permissions s"
  using revoke_role_outcome [of e ac u r s]
  by (elim disjE conjE exE) (simp, drule iam_tablesD(6), simp add: insert_role_grant_def drop_membership_def)

lemma update_role_details_role_permissions [simp]: "role_permissions (snd (update_role_details e ac u n d s)) = role_permissions s"
  using update_role_details_outcome [of e ac u n d s]
  by (elim disjE conjE exE) (simp, drule iam_tablesD(6), simp add: insert_role_grant_def drop_membership_def)

lemma update_organization_role_permissions [simp]: "role_permissions (snd (update_organization e ac on osl s)) = role_permissions s"
  using update_organization_outcome [of e ac on osl s]
  by (elim disjE conjE exE) (simp, drule iam_tablesD(6), simp add: insert_role_grant_def drop_membership_def)

lemma add_member_role_permissions [simp]: "role_permissions (snd (add_member lw e ac n s)) = role_permissions s"
  using add_member_outcome [of lw e ac n s]
  by (elim disjE conjE exE) (simp, drule iam_tablesD(6), simp add: insert_role_grant_def drop_membership_def)

lemma remove_member_role_permissions [simp]: "role_permissions (snd (remove_member e ac u s)) = role_permissions s"
  using remove_member_outcome [of e ac u s]
  by (elim disjE conjE exE) (simp, drule iam_tablesD(6), simp add: insert_role_grant_def drop_membership_def)

lemma grant_platform_role_permissions [simp]: "role_permissions (snd (grant_platform e ac u n s)) = role_permissions s"
  using grant_platform_outcome [of e ac u n s]
  by (elim disjE conjE exE) (simp, drule iam_tablesD(6), simp add: insert_role_grant_def drop_membership_def)

lemma revoke_platform_role_permissions [simp]: "role_permissions (snd (revoke_platform e ac u n s)) = role_permissions s"
  using revoke_platform_outcome [of e ac u n s]
  by (elim disjE conjE exE) (simp, drule iam_tablesD(6), simp add: insert_role_grant_def drop_membership_def)

lemma leave_organization_role_permissions [simp]: "role_permissions (snd (leave_organization e ac s)) = role_permissions s"
  using remove_member_common_outcome [of e ac "actor_id ac" "''tenancy.member.left''" s] unfolding leave_organization_def
  by (elim disjE conjE exE) (simp, drule iam_tablesD(6), simp add: drop_membership_def)

lemma create_organization_role_permissions [simp]: "role_permissions (snd (create_organization e u n d s)) = role_permissions s"
  using create_organization_outcome [of e u n d s] by (elim disjE conjE) simp_all

lemma bootstrap_admin_role_permissions [simp]: "role_permissions (snd (bootstrap_admin e n s)) = role_permissions s"
  using bootstrap_admin_outcome [of e n s] by (elim disjE conjE exE) simp_all

lemma delete_role_role_permissions:
  "set (role_permissions (snd (delete_role e ac u s))) \<subseteq> set (role_permissions s)"
  using delete_role_outcome [of e ac u s]
  by (elim disjE conjE exE) (simp, drule iam_tablesD(6), auto)

lemma delete_organization_role_permissions:
  "set (role_permissions (snd (delete_organization e ac u s))) \<subseteq> set (role_permissions s)"
  using delete_organization_outcome [of e ac u s]
  by (elim disjE conjE exE) (simp, drule iam_tablesD(6), auto simp: cascade_organization_def Let_def)

text \<open>
  C6: no privilege escalation through role definitions: whenever an operation puts a permission
  into a role, its caller holds \<open>organization.manage\<close> and that very permission, the key is in the
  catalog, and the role is a custom role of the caller's own organization.
\<close>

theorem role_permissions_never_escalate:
  assumes "rp \<in> set (role_permissions (iam_step lw op s))" "rp \<notin> set (role_permissions s)"
  shows "\<exists>ac. iam_caller op = Some ac \<and> authorised ac ''organization.manage''
    \<and> rp_key rp \<in> permissions ac \<and> rp_key rp \<in> set (permission_keys s)
    \<and> (\<exists>r \<in> set (roles (iam_step lw op s)). ro_id r = rp_role rp \<and> ro_org r = Some (org_id ac) \<and> \<not> ro_is_system r)"
proof (cases op)
  case (ICreateRole e ac n d ps)
  show ?thesis
    using create_role_outcome [of e ac n d ps s] assms [unfolded ICreateRole iam_step.simps]
  proof (elim disjE conjE)
    assume t: "iam_tables (snd (create_role e ac n d ps s)) = iam_tables (s\<lparr>roles := roles s @
             [\<lparr>ro_id = new_id e, ro_org = Some (org_id ac), ro_name = n, ro_description = d, ro_is_system = False\<rparr>],
             role_permissions := role_permissions s @ map (\<lambda>p. \<lparr>rp_role = new_id e, rp_key = p\<rparr>) ps\<rparr>)"
      and o: "authorised ac ''organization.manage''" "set ps \<subseteq> permissions ac" "set ps \<subseteq> set (permission_keys s)"
      and rp: "rp \<in> set (role_permissions (snd (create_role e ac n d ps s)))" "rp \<notin> set (role_permissions s)"
    have rp': "rp \<in> (\<lambda>p. \<lparr>rp_role = new_id e, rp_key = p\<rparr>) ` set ps"
      using rp iam_tablesD(6) [OF t] by auto
    with o iam_tablesD(5) [OF t] ICreateRole show ?thesis by auto
  qed simp
next
  case (ISetPermissions e ac i ps)
  show ?thesis
    using update_role_permissions_outcome [of e ac i ps s] assms [unfolded ISetPermissions iam_step.simps]
  proof (elim disjE conjE)
    assume t: "iam_tables (snd (update_role_permissions e ac i ps s)) =
           iam_tables (s\<lparr>role_permissions := delete_where (\<lambda>rp. rp_role rp = i) (role_permissions s)
                                 @ map (\<lambda>p. \<lparr>rp_role = i, rp_key = p\<rparr>) ps\<rparr>)"
      and o: "authorised ac ''organization.manage''" "set ps \<subseteq> permissions ac" "set ps \<subseteq> set (permission_keys s)"
      and c: "custom_role (org_id ac) i s"
      and rp: "rp \<in> set (role_permissions (snd (update_role_permissions e ac i ps s)))" "rp \<notin> set (role_permissions s)"
    have rp': "rp \<in> (\<lambda>p. \<lparr>rp_role = i, rp_key = p\<rparr>) ` set ps"
      using rp iam_tablesD(6) [OF t] by auto
    from c obtain r where "r \<in> set (roles s)" "ro_id r = i" "\<not> ro_is_system r" "ro_org r = Some (org_id ac)"
      by (auto simp: custom_role_def dest: find_SomeD)
    with o rp' iam_tablesD(5) [OF t] ISetPermissions show ?thesis by auto
  qed simp
next
  case (IDeleteRole e ac i)
  then show ?thesis using assms delete_role_role_permissions [of e ac i s] by auto
next
  case (IDeleteOrg e ac i)
  then show ?thesis using assms delete_organization_role_permissions [of e ac i s] by auto
qed (use assms in simp_all)

section \<open>The last owner\<close>

definition has_owner :: "uuid \<Rightarrow> iam \<Rightarrow> bool" where
  "has_owner org s \<longleftrightarrow> (\<exists>g \<in> set (member_roles s). rg_org g = org \<and> rg_role g = system_owner_role_id)"

lemma has_owner_tables: "iam_tables t = iam_tables u \<Longrightarrow> has_owner org u \<Longrightarrow> has_owner org t"
  using iam_tablesD(4) [of t u] by (simp add: has_owner_def)

lemma has_owner_more: "set (member_roles s) \<subseteq> set (member_roles t) \<Longrightarrow> has_owner org s \<Longrightarrow> has_owner org t"
  by (auto simp: has_owner_def)

lemma other_owner:
  assumes "pk rg_triple tbl" "1 < length (filter (\<lambda>g. rg_org g = org \<and> rg_role g = r) tbl)"
  shows "\<exists>g \<in> set tbl. rg_org g = org \<and> rg_role g = r \<and> rg_user g \<noteq> u"
proof (rule ccontr)
  let ?h = "filter (\<lambda>g. rg_org g = org \<and> rg_role g = r) tbl"
  assume "\<not> ?thesis"
  then have u: "\<forall>g \<in> set ?h. rg_triple g = (org, u, r)" by (auto simp: rg_triple_def)
  have d: "distinct (map rg_triple ?h)" using assms(1) by (simp add: pk_def distinct_map_filter)
  have "set (map rg_triple ?h) \<subseteq> {(org, u, r)}" using u by auto
  then have "card (set (map rg_triple ?h)) \<le> card {(org, u, r)}" by (rule card_mono [rotated]) simp
  then have "length ?h \<le> 1" using distinct_card [OF d] by simp
  with assms(2) show False by simp
qed

lemma drop_membership_has_owner:
  assumes "iam_ok s" "has_owner org s" "holds_role o' u system_owner_role_id s \<longrightarrow> 1 < owner_count o' s"
  shows "has_owner org (drop_membership o' u s)"
proof -
  have pk: "pk rg_triple (member_roles s)" using assms(1) by (simp add: iam_ok_def keys_ok_def)
  obtain g where g: "g \<in> set (member_roles s)" "rg_org g = org" "rg_role g = system_owner_role_id"
    using assms(2) by (auto simp: has_owner_def)
  show ?thesis
  proof (cases "rg_org g = o' \<and> rg_user g = u")
    case True
    then have "holds_role o' u system_owner_role_id s" using g by (auto simp: holds_role_def list_ex_iff)
    with assms(3) obtain h where "h \<in> set (member_roles s)" "rg_org h = o'" "rg_role h = system_owner_role_id" "rg_user h \<noteq> u"
      using other_owner [OF pk, of o' system_owner_role_id u] by (auto simp: owner_count_def row_count_def)
    then show ?thesis using True g(2) by (auto simp: has_owner_def drop_membership_def)
  qed (use g in \<open>auto simp: has_owner_def drop_membership_def\<close>)
qed

lemma cascade_has_owner:
  assumes ok: "iam_ok s" and "has_owner org s" "i \<noteq> org"
  shows "has_owner org (cascade_organization i s)"
proof -
  obtain g where g: "g \<in> set (member_roles s)" "rg_org g = org" "rg_role g = system_owner_role_id"
    using assms(2) by (auto simp: has_owner_def)
  have pk: "pk ro_id (roles s)" using ok by (simp add: iam_ok_def keys_ok_def)
  have "seeded system_owner_role_id (roles s)" using ok by (simp add: iam_ok_def refs_ok_def)
  then obtain q where q: "q \<in> set (roles s)" "ro_id q = system_owner_role_id" "ro_org q = None"
    by (auto simp: seeded_def)
  have "system_owner_role_id \<notin> set (map ro_id (filter (\<lambda>r. ro_org r = Some i) (roles s)))"
  proof
    assume "system_owner_role_id \<in> set (map ro_id (filter (\<lambda>r. ro_org r = Some i) (roles s)))"
    then obtain p where "p \<in> set (roles s)" "ro_id p = system_owner_role_id" "ro_org p = Some i" by auto
    then show False using pk_unique [OF pk, of p q] q by simp
  qed
  with g assms(3) have "g \<in> set (member_roles (cascade_organization i s))"
    by (auto simp: cascade_organization_def Let_def)
  with g show ?thesis by (auto simp: has_owner_def)
qed

text \<open>The two operations the guard does not cover: revoking a role, deleting the organization.\<close>

definition keeps_owners :: "uuid \<Rightarrow> iam_op \<Rightarrow> bool" where
  "keeps_owners org op = (case op of
       IRevoke e ac u r \<Rightarrow> \<not> (org_id ac = org \<and> r = system_owner_role_id)
     | IDeleteOrg e ac i \<Rightarrow> i \<noteq> org
     | _ \<Rightarrow> True)"

lemma iam_step_has_owner:
  assumes ok: "iam_ok s" and h: "has_owner org s" and op: "keeps_owners org op"
  shows "has_owner org (iam_step lw op s)"
proof (cases op)
  case (IAssign e ac u r)
  have "has_owner org (insert_role_grant (org_id ac) u r s)"
    by (rule has_owner_more [OF _ h]) (auto simp: insert_role_grant_def)
  then show ?thesis using assign_role_outcome [of e ac u r s] h unfolding IAssign iam_step.simps
    by (elim disjE conjE bexE) (simp, (erule has_owner_tables, assumption)+)
next
  case (IRevoke e ac u r)
  have "has_owner org (s\<lparr>member_roles := delete_where (\<lambda>g. rg_org g = org_id ac \<and> rg_user g = u \<and> rg_role g = r) (member_roles s)\<rparr>)"
    using h op IRevoke by (auto simp: has_owner_def keeps_owners_def)
  then show ?thesis using revoke_role_outcome [of e ac u r s] h unfolding IRevoke iam_step.simps
    by (elim disjE conjE) (simp, erule has_owner_tables, assumption)
next
  case (ICreateRole e ac n d ps)
  show ?thesis using create_role_outcome [of e ac n d ps s] h unfolding ICreateRole iam_step.simps
    by (elim disjE conjE) (simp, erule has_owner_tables, simp add: has_owner_def)
next
  case (IUpdateRole e ac i n d)
  show ?thesis using update_role_details_outcome [of e ac i n d s] h unfolding IUpdateRole iam_step.simps
    by (elim disjE conjE) (simp, erule has_owner_tables, simp add: has_owner_def)
next
  case (ISetPermissions e ac i ps)
  show ?thesis using update_role_permissions_outcome [of e ac i ps s] h unfolding ISetPermissions iam_step.simps
    by (elim disjE conjE) (simp, erule has_owner_tables, simp add: has_owner_def)
next
  case (IDeleteRole e ac i)
  have "\<forall>g \<in> set (member_roles s). rg_role g \<noteq> i \<Longrightarrow> has_owner org (s\<lparr>roles := delete_where (\<lambda>r. ro_id r = i) (roles s),
             role_permissions := delete_where (\<lambda>rp. rp_role rp = i) (role_permissions s),
             member_roles := delete_where (\<lambda>g. rg_role g = i) (member_roles s)\<rparr>)"
    using h by (auto simp: has_owner_def)
  then show ?thesis using delete_role_outcome [of e ac i s] h unfolding IDeleteRole iam_step.simps
    by (elim disjE conjE) (simp, erule has_owner_tables, blast)
next
  case (ICreateOrg e u n sl)
  show ?thesis using create_organization_outcome [of e u n sl s] h unfolding ICreateOrg iam_step.simps
    by (elim disjE conjE) (auto simp: has_owner_def)
next
  case (IUpdateOrg e ac n sl)
  show ?thesis using update_organization_outcome [of e ac n sl s] h unfolding IUpdateOrg iam_step.simps
    by (elim disjE conjE exE) (simp, erule has_owner_tables, simp add: has_owner_def)
next
  case (IAddMember e ac m)
  show ?thesis using add_member_outcome [of lw e ac m s] h unfolding IAddMember iam_step.simps
    by (elim disjE conjE exE) (simp, erule has_owner_tables, auto simp: has_owner_def)
next
  case (IRemoveMember e ac u)
  show ?thesis using remove_member_outcome [of e ac u s] drop_membership_has_owner [OF ok h] h
    unfolding IRemoveMember iam_step.simps
    by (elim disjE conjE) (simp, erule has_owner_tables, blast)
next
  case (ILeave e ac)
  show ?thesis using remove_member_common_outcome [of e ac "actor_id ac" "''tenancy.member.left''" s]
      drop_membership_has_owner [OF ok h] h
    unfolding ILeave iam_step.simps leave_organization_def
    by (elim disjE conjE) (simp, erule has_owner_tables, blast)
next
  case (IDeleteOrg e ac i)
  have "i \<noteq> org" using op IDeleteOrg by (simp add: keeps_owners_def)
  then show ?thesis using delete_organization_outcome [of e ac i s] cascade_has_owner [OF ok h] h
    unfolding IDeleteOrg iam_step.simps
    by (elim disjE conjE) (simp, erule has_owner_tables, blast)
next
  case (IGrantPlatform e ac u k)
  show ?thesis using grant_platform_outcome [of e ac u k s] h unfolding IGrantPlatform iam_step.simps
    by (elim disjE conjE) (simp, erule has_owner_tables, simp add: has_owner_def)
next
  case (IRevokePlatform e ac u k)
  show ?thesis using revoke_platform_outcome [of e ac u k s] h unfolding IRevokePlatform iam_step.simps
    by (elim disjE conjE) (simp, erule has_owner_tables, simp add: has_owner_def)
next
  case (IBootstrap e m)
  show ?thesis using bootstrap_admin_outcome [of e m s] h unfolding IBootstrap iam_step.simps
    by (elim disjE conjE exE) (simp_all add: has_owner_def)
qed

lemma iam_run_has_owner:
  "iam_ok s \<Longrightarrow> iam_fresh_run lw ops s \<Longrightarrow> has_owner org s \<Longrightarrow> list_all (keeps_owners org) ops \<Longrightarrow>
     has_owner org (run_ops (iam_step lw) ops s)"
  by (induction ops arbitrary: s) (auto simp: iam_step_ok iam_step_has_owner)

text \<open>
  C7: an organization that has an owner keeps one through every sequence of operations that
  neither deletes the organization nor revokes the owner role in it: members leaving or being
  removed, roles created, changed and deleted, and the cascades they cause never orphan it.
\<close>

theorem last_owner_guard:
  assumes "iam_ok s" "iam_fresh_run lw ops s" "has_owner org s" "list_all (keeps_owners org) ops"
  shows "has_owner org (run_ops (iam_step lw) ops s)"
  using assms by (rule iam_run_has_owner)

text \<open>
  C8: the guard does not extend to \<open>RevokeRole\<close>: with no statement failing, a caller holding
  \<open>organization.manage\<close> revokes the owner role of the only owner successfully, and the organization
  is left without one.
\<close>

theorem revoke_role_orphans_organization:
  assumes "authorised ac ''organization.manage''" "\<not> fault e 0"
    and "holds_role (org_id ac) u system_owner_role_id s" "iam_ok s" "owner_count (org_id ac) s = 1"
  shows "\<exists>s'. revoke_role e ac u system_owner_role_id s = (Inr (), s') \<and> \<not> has_owner (org_id ac) s'"
proof -
  obtain g where g: "filter (\<lambda>g. rg_org g = org_id ac \<and> rg_role g = system_owner_role_id) (member_roles s) = [g]"
    using assms(5) by (auto simp: owner_count_def row_count_def length_Suc_conv)
  obtain h where h: "h \<in> set (member_roles s)" "rg_org h = org_id ac" "rg_user h = u" "rg_role h = system_owner_role_id"
    using assms(3) by (auto simp: holds_role_def list_ex_iff)
  have all: "x = g" if "x \<in> set (member_roles s)" "rg_org x = org_id ac" "rg_role x = system_owner_role_id" for x
  proof -
    have "x \<in> set (filter (\<lambda>g. rg_org g = org_id ac \<and> rg_role g = system_owner_role_id) (member_roles s))"
      using that by simp
    then show ?thesis unfolding g by simp
  qed
  have "rg_user g = u" using all [OF h(1,2,4)] h(3) by simp
  moreover have "Require ac ''organization.manage'' = None" using assms(1) by simp
  ultimately show ?thesis
    using assms(2,3) all by (auto simp: revoke_role_def has_owner_def simp del: Require_None)
qed

section \<open>What assigning and revoking do to a member's permissions\<close>

definition role_keys :: "uuid \<Rightarrow> iam \<Rightarrow> string set" where
  "role_keys r s = {rp_key rp | rp. rp \<in> set (role_permissions s) \<and> rp_role rp = r}"

definition member_keys :: "uuid \<Rightarrow> uuid \<Rightarrow> iam \<Rightarrow> string set" where
  "member_keys org u s = (\<Union>g \<in> {g \<in> set (member_roles s). rg_org g = org \<and> rg_user g = u}. role_keys (rg_role g) s)"

lemma resolve_permissions_ok: "resolve_permissions False org u s = Inr (member_keys org u s)"
proof -
  have "{rp_key rp | rp. rp \<in> R \<and> (\<exists>g \<in> M. rg_org g = org \<and> rg_user g = u \<and> rg_role g = rp_role rp)}
      = (\<Union>g \<in> {g \<in> M. rg_org g = org \<and> rg_user g = u}. {rp_key rp | rp. rp \<in> R \<and> rp_role rp = rg_role g})" for R M
  proof (intro set_eqI iffI)
    fix x assume "x \<in> {rp_key rp | rp. rp \<in> R \<and> (\<exists>g \<in> M. rg_org g = org \<and> rg_user g = u \<and> rg_role g = rp_role rp)}"
    then obtain rp g where "x = rp_key rp" "rp \<in> R" "g \<in> M" "rg_org g = org" "rg_user g = u" "rg_role g = rp_role rp"
      by blast
    then show "x \<in> (\<Union>g \<in> {g \<in> M. rg_org g = org \<and> rg_user g = u}. {rp_key rp | rp. rp \<in> R \<and> rp_role rp = rg_role g})"
      by (intro UN_I [of g]) auto
  next
    fix x assume "x \<in> (\<Union>g \<in> {g \<in> M. rg_org g = org \<and> rg_user g = u}. {rp_key rp | rp. rp \<in> R \<and> rp_role rp = rg_role g})"
    then obtain rp g where "x = rp_key rp" "rp \<in> R" "g \<in> M" "rg_org g = org" "rg_user g = u" "rp_role rp = rg_role g"
      by blast
    then show "x \<in> {rp_key rp | rp. rp \<in> R \<and> (\<exists>g \<in> M. rg_org g = org \<and> rg_user g = u \<and> rg_role g = rp_role rp)}"
      by (metis (mono_tags, lifting) mem_Collect_eq)
  qed
  then show ?thesis by (simp add: resolve_permissions_def member_keys_def role_keys_def)
qed

lemma member_keys_insert:
  "member_keys org v (insert_role_grant o' u r s) =
     member_keys org v s \<union> (if org = o' \<and> v = u then role_keys r s else {})"
proof -
  let ?s' = "insert_role_grant o' u r s"
  have rk: "role_keys q ?s' = role_keys q s" for q by (simp add: role_keys_def insert_role_grant_def)
  show ?thesis
  proof (cases "holds_role o' u r s")
    case True
    then obtain g where g: "g \<in> set (member_roles s)" "rg_org g = o'" "rg_user g = u" "rg_role g = r"
      by (auto simp: holds_role_def list_ex_iff)
    then have "org = o' \<Longrightarrow> v = u \<Longrightarrow> role_keys r s \<subseteq> member_keys org v s" unfolding member_keys_def by blast
    with True show ?thesis by (auto simp: insert_role_grant_def)
  next
    case False
    let ?n = "\<lparr>rg_org = o', rg_user = u, rg_role = r\<rparr>"
    have "{g \<in> set (member_roles ?s'). rg_org g = org \<and> rg_user g = v}
        = {g \<in> set (member_roles s). rg_org g = org \<and> rg_user g = v} \<union> (if org = o' \<and> v = u then {?n} else {})"
      using False by (auto simp: insert_role_grant_def)
    then show ?thesis unfolding member_keys_def by (simp add: rk)
  qed
qed

text \<open>
  a successful \<open>AssignRole\<close> gives the named member exactly the role's permissions on top of
  what it had, a successful \<open>RevokeRole\<close> leaves it exactly what its other roles give, and neither
  changes what \<open>ResolvePermissions\<close> returns for anyone else in any organization.
\<close>

theorem assign_and_revoke_effect:
  "(assign_role e ac u r s = (Inr (), s') \<longrightarrow>
      resolve_permissions False org v s' =
        Inr (member_keys org v s \<union> (if org = org_id ac \<and> v = u then role_keys r s else {})))
   \<and> (revoke_role e ac u r s = (Inr (), s') \<longrightarrow>
      resolve_permissions False org v s' =
        Inr (\<Union>g \<in> {g \<in> set (member_roles s). rg_org g = org \<and> rg_user g = v
                      \<and> \<not> (org = org_id ac \<and> v = u \<and> rg_role g = r)}. role_keys (rg_role g) s))"
proof (intro conjI impI)
  assume a: "assign_role e ac u r s = (Inr (), s')"
  have e: "member_roles s' = member_roles (insert_role_grant (org_id ac) u r s)" "role_permissions s' = role_permissions s"
    using a by (auto simp: assign_role_def insert_role_grant_def Let_def split: option.splits if_splits)
  have "member_keys org v s' = member_keys org v (insert_role_grant (org_id ac) u r s)"
    using e by (simp add: member_keys_def role_keys_def insert_role_grant_def)
  then show "resolve_permissions False org v s' =
        Inr (member_keys org v s \<union> (if org = org_id ac \<and> v = u then role_keys r s else {}))"
    unfolding resolve_permissions_ok member_keys_insert by simp
next
  assume a: "revoke_role e ac u r s = (Inr (), s')"
  have e: "member_roles s' = delete_where (\<lambda>g. rg_org g = org_id ac \<and> rg_user g = u \<and> rg_role g = r) (member_roles s)"
    "role_permissions s' = role_permissions s"
    using a by (auto simp: revoke_role_def split: option.splits if_splits)
  show "resolve_permissions False org v s' =
        Inr (\<Union>g \<in> {g \<in> set (member_roles s). rg_org g = org \<and> rg_user g = v
                      \<and> \<not> (org = org_id ac \<and> v = u \<and> rg_role g = r)}. role_keys (rg_role g) s)"
    unfolding resolve_permissions_ok member_keys_def role_keys_def e
    by (intro arg_cong [where f = Inr] SUP_cong) auto
qed

section \<open>Platform administrators\<close>

definition platform_admin :: "uuid \<Rightarrow> iam \<Rightarrow> bool" where
  "platform_admin u s \<longleftrightarrow> (\<exists>g \<in> set (platform_grants s). pg_user g = u \<and> pg_key g = perm_manage_platform_admins)"

lemma platform_require_None:
  "platform_require failed ac perm_manage_platform_admins s = None \<Longrightarrow>
     actor_type ac = ActorSystem \<or> actor_type ac = ActorUser \<and> platform_admin (actor_id ac) s"
  by (auto simp: platform_require_def platform_has_def platform_admin_def list_ex_iff split: if_splits sum.splits)

text \<open>
  C9: platform authority comes only from platform administrators: when an operation creates a
  platform grant, it is either the operator's bootstrap at startup or a \<open>Grant\<close> by the system or by
  a human who already holds \<open>platform.admins.manage\<close>; no organization role is ever consulted.
  And a revocation by a human never leaves the platform without an administrator.
\<close>

theorem platform_authority:
  "(g \<in> set (platform_grants (iam_step lw op s)) \<and> g \<notin> set (platform_grants s) \<longrightarrow>
      (\<exists>e m. op = IBootstrap e m)
      \<or> (\<exists>e ac u k. op = IGrantPlatform e ac u k \<and> pg_user g = u \<and> pg_key g = k
           \<and> (actor_type ac = ActorSystem \<or> actor_type ac = ActorUser \<and> platform_admin (actor_id ac) s)))
   \<and> (op = IRevokePlatform e1 ac1 u1 k1 \<and> actor_type ac1 = ActorUser \<and> platform_admin x s \<longrightarrow>
      (\<exists>y. platform_admin y (iam_step lw op s)))"
proof (intro conjI impI; elim conjE)
  assume g: "g \<in> set (platform_grants (iam_step lw op s))" "g \<notin> set (platform_grants s)"
  show "(\<exists>e m. op = IBootstrap e m)
      \<or> (\<exists>e ac u k. op = IGrantPlatform e ac u k \<and> pg_user g = u \<and> pg_key g = k
           \<and> (actor_type ac = ActorSystem \<or> actor_type ac = ActorUser \<and> platform_admin (actor_id ac) s))"
  proof (cases op)
    case (IGrantPlatform e ac u k)
    show ?thesis using grant_platform_outcome [of e ac u k s]
    proof (elim disjE conjE)
      assume r: "platform_require (fault e 0) ac perm_manage_platform_admins s = None"
        and t: "iam_tables (snd (grant_platform e ac u k s)) = iam_tables
           (s\<lparr>platform_grants := insert_platform_grant \<lparr>pg_user = u, pg_key = k, pg_granted_by = Some (actor_id ac),
                 pg_granted_at = db_now e\<rparr> (platform_grants s)\<rparr>)"
      have "pg_user g = u \<and> pg_key g = k"
        using g IGrantPlatform iam_tablesD(9) [OF t] by (auto simp: insert_platform_grant_def split: if_splits)
      then show ?thesis using platform_require_None [OF r] IGrantPlatform by blast
    qed (use g IGrantPlatform in simp)
  next
    case (IRevokePlatform e ac u k)
    then show ?thesis using revoke_platform_outcome [of e ac u k s] g
      by (elim disjE conjE) (simp, drule iam_tablesD(9), simp)
  next
    case (IAssign e ac u r)
    then show ?thesis using assign_role_outcome [of e ac u r s] g
      by (elim disjE conjE) (simp, drule iam_tablesD(9), simp add: insert_role_grant_def split: if_splits)
  next
    case (IRevoke e ac u r)
    then show ?thesis using revoke_role_outcome [of e ac u r s] g
      by (elim disjE conjE) (simp, drule iam_tablesD(9), simp)
  next
    case (ICreateRole e ac n d ps)
    then show ?thesis using create_role_outcome [of e ac n d ps s] g
      by (elim disjE conjE) (simp, drule iam_tablesD(9), simp)
  next
    case (IUpdateRole e ac i n d)
    then show ?thesis using update_role_details_outcome [of e ac i n d s] g
      by (elim disjE conjE) (simp, drule iam_tablesD(9), simp)
  next
    case (ISetPermissions e ac i ps)
    then show ?thesis using update_role_permissions_outcome [of e ac i ps s] g
      by (elim disjE conjE) (simp, drule iam_tablesD(9), simp)
  next
    case (IDeleteRole e ac i)
    then show ?thesis using delete_role_outcome [of e ac i s] g
      by (elim disjE conjE) (simp, drule iam_tablesD(9), simp)
  next
    case (ICreateOrg e u n sl)
    then show ?thesis using create_organization_outcome [of e u n sl s] g by (elim disjE conjE) simp_all
  next
    case (IUpdateOrg e ac n sl)
    then show ?thesis using update_organization_outcome [of e ac n sl s] g
      by (elim disjE conjE exE) (simp, drule iam_tablesD(9), simp)
  next
    case (IAddMember e ac m)
    then show ?thesis using add_member_outcome [of lw e ac m s] g
      by (elim disjE conjE exE) (simp, drule iam_tablesD(9), simp)
  next
    case (IRemoveMember e ac u)
    then show ?thesis using remove_member_outcome [of e ac u s] g
      by (elim disjE conjE) (simp, drule iam_tablesD(9), simp add: drop_membership_def)
  next
    case (ILeave e ac)
    then show ?thesis using remove_member_common_outcome [of e ac "actor_id ac" "''tenancy.member.left''" s] g
      unfolding leave_organization_def
      by (elim disjE conjE) (simp add: leave_organization_def, drule iam_tablesD(9), simp add: drop_membership_def leave_organization_def)
  next
    case (IDeleteOrg e ac i)
    then show ?thesis using delete_organization_outcome [of e ac i s] g
      by (elim disjE conjE) (simp, drule iam_tablesD(9), simp add: cascade_organization_def Let_def)
  qed blast
next
  assume op: "op = IRevokePlatform e1 ac1 u1 k1" and ac: "actor_type ac1 = ActorUser" and x: "platform_admin x s"
  show "\<exists>y. platform_admin y (iam_step lw op s)"
    using revoke_platform_outcome [of e1 ac1 u1 k1 s]
  proof (elim disjE conjE)
    assume r: "platform_require (fault e1 0) ac1 perm_manage_platform_admins s = None"
      and gd: "u1 = actor_id ac1 \<and> k1 = perm_manage_platform_admins \<longrightarrow>
           (\<exists>g \<in> set (platform_grants s). pg_key g = perm_manage_platform_admins \<and> pg_user g \<noteq> actor_id ac1)"
      and t: "iam_tables (snd (revoke_platform e1 ac1 u1 k1 s)) =
           iam_tables (s\<lparr>platform_grants := delete_where (\<lambda>g. pg_user g = u1 \<and> pg_key g = k1) (platform_grants s)\<rparr>)"
    have me: "platform_admin (actor_id ac1) s" using platform_require_None [OF r] ac by auto
    show ?thesis
    proof (cases "u1 = actor_id ac1 \<and> k1 = perm_manage_platform_admins")
      case True
      with gd obtain g where "g \<in> set (platform_grants s)" "pg_key g = perm_manage_platform_admins" "pg_user g \<noteq> actor_id ac1"
        by blast
      then show ?thesis using True op iam_tablesD(9) [OF t]
        by (intro exI [of _ "pg_user g"]) (auto simp: platform_admin_def)
    next
      case False
      then show ?thesis using me op iam_tablesD(9) [OF t]
        by (intro exI [of _ "actor_id ac1"]) (auto simp: platform_admin_def)
    qed
  qed (use op x in auto)
qed

section \<open>A concrete organization\<close>

definition demo_owner :: auth_context where
  "demo_owner = \<lparr>actor_type = ActorUser, actor_id = 7, actor_label = ''ada'', org_id = 20,
     permissions = {''organization.manage'', ''jobs.read''}, session_id = 0, correlation_id = []\<rparr>"

definition demo_iam :: iam where
  "demo_iam = \<lparr>
     users = [\<lparr>us_id = 7, us_email = ''ada@x.io'', us_name = ''Ada'', us_status = ''active'', us_created_at = 0\<rparr>,
              \<lparr>us_id = 8, us_email = ''bob@x.io'', us_name = ''Bob'', us_status = ''active'', us_created_at = 0\<rparr>],
     organizations = [\<lparr>og_id = 20, og_name = ''Acme'', og_slug = ''acme'', og_created_at = 0\<rparr>],
     members = [\<lparr>mb_org = 20, mb_user = 7\<rparr>],
     member_roles = [\<lparr>rg_org = 20, rg_user = 7, rg_role = 1\<rparr>],
     roles = [\<lparr>ro_id = 1, ro_org = None, ro_name = ''owner'', ro_description = [], ro_is_system = True\<rparr>,
              \<lparr>ro_id = 3, ro_org = None, ro_name = ''member'', ro_description = [], ro_is_system = True\<rparr>],
     role_permissions = [\<lparr>rp_role = 1, rp_key = ''organization.manage''\<rparr>, \<lparr>rp_role = 3, rp_key = ''jobs.read''\<rparr>],
     permission_keys = [''organization.manage'', ''jobs.read''],
     platform_permissions = [(perm_manage_platform_admins, [])],
     platform_grants = [\<lparr>pg_user = 7, pg_key = perm_manage_platform_admins, pg_granted_by = None, pg_granted_at = 0\<rparr>],
     iam_audit = []\<rparr>"

lemma demo_iam_ok: "iam_ok demo_iam"
  by (simp add: iam_ok_def keys_ok_def refs_ok_def demo_iam_def pk_def iam_keys names_unique_def seeded_def
      system_owner_role_id_def system_member_role_id_def)

definition demo_iam_ops :: "iam_op list" where
  "demo_iam_ops = [IAddMember (calm 1 0) demo_owner ''bob@x.io'', ICreateRole (calm 2 50) demo_owner ''ops'' [] [''jobs.read''],
     IAssign (calm 3 0) demo_owner 8 50, ILeave (calm 4 0) demo_owner, IRemoveMember (calm 5 0) demo_owner 8,
     IDeleteRole (calm 6 0) demo_owner 50]"

lemma demo_iam_fresh: "iam_fresh_run (\<lambda>x. x) demo_iam_ops demo_iam"
  by code_simp

theorem iam_integrity_preserved_witness:
  "iam_ok (run_ops (iam_step (\<lambda>x. x)) demo_iam_ops demo_iam)"
  by (rule iam_integrity_preserved [OF demo_iam_ok demo_iam_fresh])

theorem role_permissions_never_escalate_witness:
  "\<exists>ac. iam_caller (ICreateRole (calm 2 50) demo_owner ''ops'' [] [''jobs.read'']) = Some ac
      \<and> ''jobs.read'' \<in> permissions ac"
proof -
  let ?op = "ICreateRole (calm 2 50) demo_owner ''ops'' [] [''jobs.read'']"
  let ?rp = "\<lparr>rp_role = 50, rp_key = ''jobs.read''\<rparr>"
  have "?rp \<in> set (role_permissions (iam_step (\<lambda>x. x) ?op demo_iam))" by code_simp
  moreover have "?rp \<notin> set (role_permissions demo_iam)" by (simp add: demo_iam_def)
  ultimately show ?thesis
    using role_permissions_never_escalate [of ?rp "\<lambda>x. x" ?op demo_iam] by auto
qed

theorem last_owner_guard_witness:
  "has_owner 20 (run_ops (iam_step (\<lambda>x. x)) demo_iam_ops demo_iam)"
  by (rule last_owner_guard [OF demo_iam_ok demo_iam_fresh])
    (simp_all add: has_owner_def demo_iam_def system_owner_role_id_def demo_iam_ops_def keeps_owners_def)

theorem revoke_role_orphans_organization_witness:
  "\<exists>s'. revoke_role (calm 1 0) demo_owner 7 system_owner_role_id demo_iam = (Inr (), s') \<and> \<not> has_owner (org_id demo_owner) s'"
  by (rule revoke_role_orphans_organization [OF _ _ _ demo_iam_ok])
    (simp_all add: authorised_def demo_owner_def holds_role_def demo_iam_def system_owner_role_id_def owner_count_def row_count_def)

definition demo_assigned :: iam where
  "demo_assigned = snd (assign_role (calm 1 0) demo_owner 7 3 demo_iam)"

theorem assign_and_revoke_effect_witness:
  "resolve_permissions False 20 7 demo_assigned = Inr (member_keys 20 7 demo_iam \<union> role_keys 3 demo_iam)"
proof -
  have "fst (assign_role (calm 1 0) demo_owner 7 3 demo_iam) = Inr ()" by code_simp
  then have "assign_role (calm 1 0) demo_owner 7 3 demo_iam = (Inr (), demo_assigned)"
    unfolding demo_assigned_def by (metis prod.collapse)
  with assign_and_revoke_effect [of "calm 1 0" demo_owner 7 3 demo_iam demo_assigned 20 7] show ?thesis
    by (simp add: demo_owner_def)
qed

theorem platform_authority_witness:
  "\<exists>y. platform_admin y (iam_step (\<lambda>x. x) (IRevokePlatform (calm 1 0) demo_owner 8 perm_manage_platform_admins) demo_iam)"
  using platform_authority [of undefined "\<lambda>x. x" "IRevokePlatform (calm 1 0) demo_owner 8 perm_manage_platform_admins" demo_iam
      "calm 1 0" demo_owner 8 perm_manage_platform_admins 7]
  by (simp add: platform_admin_def demo_iam_def demo_owner_def)

end
