(* ===== verification/Jobs.thy ===== *)
theory Jobs
  imports Authz
begin

text \<open>
  The job queue and its worker (internal/jobs): enqueueing, listing, cancelling and retrying jobs,
  claiming the next one, recording its outcome, draining the queue, and the recovery at start-up.
  What a handler does is a parameter acting on the same database; the locale \<open>job_handler\<close> states
  what the queue relies on, and Ops_Engine provides it.
\<close>

section \<open>Rows\<close>

datatype job_status =
    StatusQueued | StatusRunning | StatusPaused | StatusWaiting | StatusSucceeded | StatusFailed
  | StatusCancelled | StatusRetrying | StatusRollingBack

primrec job_status_text :: "job_status \<Rightarrow> string" where
  "job_status_text StatusQueued = ''queued''"
| "job_status_text StatusRunning = ''running''"
| "job_status_text StatusPaused = ''paused''"
| "job_status_text StatusWaiting = ''waiting''"
| "job_status_text StatusSucceeded = ''succeeded''"
| "job_status_text StatusFailed = ''failed''"
| "job_status_text StatusCancelled = ''cancelled''"
| "job_status_text StatusRetrying = ''retrying''"
| "job_status_text StatusRollingBack = ''rolling_back''"

text \<open>
  A row of \<open>jobs\<close> (migrations 0005 and 0022). \<open>progress\<close> is NUMERIC(5,2) and is kept in hundredths.
\<close>

record job_row =
  jr_id :: uuid
  jr_org :: uuid
  jr_type :: string
  jr_status :: job_status
  jr_priority :: int
  jr_payload :: json
  jr_result :: "json option"
  jr_error :: "string option"
  jr_progress :: int
  jr_attempts :: int
  jr_max_attempts :: int
  jr_timeout_seconds :: int
  jr_correlation :: "string option"
  jr_key :: "string option"
  jr_created_at :: time
  jr_updated_at :: time
  jr_started_at :: "time option"
  jr_finished_at :: "time option"
  jr_project :: "uuid option"
  jr_creator :: "uuid option"
  jr_operation :: "string option"
  jr_cancel_requested :: bool
  jr_rolled_back :: bool

record job_step =
  sp_job :: uuid
  sp_org :: uuid
  sp_seq :: nat
  sp_name :: string
  sp_status :: string
  sp_progress :: int
  sp_error :: "string option"
  sp_started_at :: "time option"
  sp_finished_at :: "time option"

record notice =
  nt_org :: uuid
  nt_kind :: string
  nt_job :: uuid

text \<open>\<open>outside\<close> is whatever else handlers act on.\<close>

record 'w jobs_db =
  jobs :: "job_row list"
  job_steps :: "job_step list"
  notices :: "notice list"
  jobs_audit :: "audit_entry list"
  outside :: 'w

text \<open>The API's \<open>Job\<close>; \<open>timeout_seconds\<close> is scanned by the worker's claim only.\<close>

record job =
  j_id :: uuid
  j_org :: uuid
  j_type :: string
  j_status :: job_status
  j_priority :: int
  j_payload :: json
  j_result :: json
  j_error :: string
  j_progress :: int
  j_attempts :: int
  j_max_attempts :: int
  j_timeout_seconds :: int
  j_correlation :: string
  j_created_at :: time
  j_updated_at :: time
  j_started_at :: "time option"
  j_finished_at :: "time option"

definition coalesce :: "'a option \<Rightarrow> 'a \<Rightarrow> 'a" where
  "coalesce x d = (case x of None \<Rightarrow> d | Some v \<Rightarrow> v)"

definition scan_job :: "int \<Rightarrow> job_row \<Rightarrow> job" where
  "scan_job timeout r =
     \<lparr>j_id = jr_id r, j_org = jr_org r, j_type = jr_type r, j_status = jr_status r,
      j_priority = jr_priority r, j_payload = jr_payload r, j_result = coalesce (jr_result r) JNull,
      j_error = coalesce (jr_error r) [], j_progress = jr_progress r, j_attempts = jr_attempts r,
      j_max_attempts = jr_max_attempts r, j_timeout_seconds = timeout,
      j_correlation = coalesce (jr_correlation r) [], j_created_at = jr_created_at r,
      j_updated_at = jr_updated_at r, j_started_at = jr_started_at r, j_finished_at = jr_finished_at r\<rparr>"

record enqueue_input =
  ei_type :: string
  ei_payload :: "json option"
  ei_priority :: int
  ei_max_attempts :: int
  ei_timeout_seconds :: int
  ei_key :: string

definition perm_jobs_manage :: string where "perm_jobs_manage = ''jobs.manage''"
definition perm_jobs_read :: string where "perm_jobs_read = ''jobs.read''"

text \<open>An INTEGER column takes a 32-bit value; the driver rejects any other.\<close>

definition int4 :: "int \<Rightarrow> bool" where
  "int4 x \<longleftrightarrow> - (2 ^ 31) \<le> x \<and> x < 2 ^ 31"

section \<open>Service\<close>

definition find_by_idempotency_key :: "bool \<Rightarrow> uuid \<Rightarrow> string \<Rightarrow> job_row list \<Rightarrow> api_error + job_row option" where
  "find_by_idempotency_key failed org key tbl =
     (if failed then Inl (Wrap CodeInternal ''failed to check idempotency key'')
      else Inr (find (\<lambda>r. jr_org r = org \<and> jr_key r = Some key) tbl))"

definition blank_row :: "env \<Rightarrow> uuid \<Rightarrow> string \<Rightarrow> json \<Rightarrow> job_row" where
  "blank_row e org typ payload =
     \<lparr>jr_id = new_id e, jr_org = org, jr_type = typ, jr_status = StatusQueued, jr_priority = 0,
      jr_payload = payload, jr_result = None, jr_error = None, jr_progress = 0, jr_attempts = 0,
      jr_max_attempts = 1, jr_timeout_seconds = 300, jr_correlation = None, jr_key = None,
      jr_created_at = db_now e, jr_updated_at = db_now e, jr_started_at = None, jr_finished_at = None,
      jr_project = None, jr_creator = None, jr_operation = None, jr_cancel_requested = False,
      jr_rolled_back = False\<rparr>"

text \<open>The defaults of \<open>Enqueue\<close> and the row its INSERT writes.\<close>

definition enqueue_row :: "env \<Rightarrow> auth_context \<Rightarrow> enqueue_input \<Rightarrow> job_row" where
  "enqueue_row e ac inp =
     (blank_row e (org_id ac) (ei_type inp) (coalesce (ei_payload inp) (JObj [])))
       \<lparr>jr_priority := ei_priority inp,
        jr_max_attempts := (if ei_max_attempts inp \<le> 0 then 1 else ei_max_attempts inp),
        jr_timeout_seconds := (if ei_timeout_seconds inp \<le> 0 then 300 else ei_timeout_seconds inp),
        jr_correlation := Some (correlation_id ac), jr_key := null_string (ei_key inp)\<rparr>"

definition key_taken :: "uuid \<Rightarrow> string option \<Rightarrow> job_row list \<Rightarrow> bool" where
  "key_taken org key tbl \<longleftrightarrow> key \<noteq> None \<and> list_ex (\<lambda>r. jr_org r = org \<and> jr_key r = key) tbl"

definition insert_job :: "env \<Rightarrow> auth_context \<Rightarrow> job_row \<Rightarrow> 'w jobs_db \<Rightarrow> (api_error + job) \<times> 'w jobs_db" where
  "insert_job e ac row d =
     (if fault e 1 \<or> \<not> int4 (jr_priority row) \<or> \<not> int4 (jr_max_attempts row) \<or> \<not> int4 (jr_timeout_seconds row)
         \<or> key_taken (jr_org row) (jr_key row) (jobs d)
      then (Inl (Wrap CodeInternal ''failed to enqueue job''), d)
      else (Inr (scan_job 0 row),
            d\<lparr>jobs := jobs d @ [row],
              jobs_audit := Record (fault e 2) ac ''jobs.job.enqueued'' ''job'' (IdRef (jr_id row)) [] True
                              (jobs_audit d)\<rparr>))"

text \<open>Statements: the idempotency lookup (only with a key), the INSERT, the audit row.\<close>

definition enqueue :: "env \<Rightarrow> auth_context \<Rightarrow> enqueue_input \<Rightarrow> 'w jobs_db \<Rightarrow> (api_error + job) \<times> 'w jobs_db" where
  "enqueue e ac inp d =
     (case Require ac perm_jobs_manage of Some x \<Rightarrow> (Inl x, d)
      | None \<Rightarrow>
        if ei_type inp = [] then (Inl (Validation ''job type is required''), d)
        else if ei_key inp \<noteq> []
        then (case find_by_idempotency_key (fault e 0) (org_id ac) (ei_key inp) (jobs d) of
                Inl x \<Rightarrow> (Inl x, d)
              | Inr (Some r) \<Rightarrow> (Inr (scan_job 0 r), d)
              | Inr None \<Rightarrow> insert_job e ac (enqueue_row e ac inp) d)
        else insert_job e ac (enqueue_row e ac inp) d)"

definition get_job :: "env \<Rightarrow> auth_context \<Rightarrow> uuid \<Rightarrow> 'w jobs_db \<Rightarrow> api_error + job" where
  "get_job e ac i d =
     (case Require ac perm_jobs_read of Some x \<Rightarrow> Inl x
      | None \<Rightarrow>
        if fault e 0 then Inl (Wrap CodeInternal ''failed to load job'')
        else case find (\<lambda>r. jr_id r = i \<and> jr_org r = org_id ac) (jobs d) of
          None \<Rightarrow> Inl (NotFound ''job'')
        | Some r \<Rightarrow> Inr (scan_job 0 r))"

definition normalize_limit :: "int \<Rightarrow> int" where
  "normalize_limit limit = (if limit \<le> 0 then 50 else if limit > 1000 then 1000 else limit)"

text \<open>\<open>LIMIT l OFFSET o\<close>; PostgreSQL rejects a negative offset.\<close>

definition page :: "int \<Rightarrow> int \<Rightarrow> 'a list \<Rightarrow> 'a list" where
  "page limit offset xs = take (nat limit) (drop (nat offset) xs)"

definition list_jobs ::
  "env \<Rightarrow> auth_context \<Rightarrow> string \<Rightarrow> int \<Rightarrow> int \<Rightarrow> 'w jobs_db \<Rightarrow> api_error + job list" where
  "list_jobs e ac status limit offset d =
     (case Require ac perm_jobs_read of Some x \<Rightarrow> Inl x
      | None \<Rightarrow>
        if fault e 0 \<or> offset < 0 then Inl (Wrap CodeInternal ''failed to list jobs'')
        else Inr (map (scan_job 0) (page (normalize_limit limit) offset
               (rev (sort_key jr_created_at (filter (\<lambda>r. jr_org r = org_id ac \<and>
                      (status = [] \<or> job_status_text (jr_status r) = status)) (jobs d)))))))"

definition cancel_job :: "env \<Rightarrow> auth_context \<Rightarrow> uuid \<Rightarrow> 'w jobs_db \<Rightarrow> (api_error + unit) \<times> 'w jobs_db" where
  "cancel_job e ac i d =
     (case Require ac perm_jobs_manage of Some x \<Rightarrow> (Inl x, d)
      | None \<Rightarrow>
        if fault e 0 then (Inl (Wrap CodeInternal ''failed to cancel job''), d)
        else
     (let hit = (\<lambda>r. jr_id r = i \<and> jr_org r = org_id ac \<and> jr_status r = StatusQueued)
      in if row_count hit (jobs d) = 0
         then (Inl (Conflict ''job is not in a cancellable (queued) state, or does not exist''), d)
         else (Inr (),
               d\<lparr>jobs := update_where hit (\<lambda>r. r\<lparr>jr_status := StatusCancelled, jr_updated_at := db_now e,
                                                  jr_finished_at := Some (db_now e)\<rparr>) (jobs d),
                 jobs_audit := Record (fault e 1) ac ''jobs.job.cancelled'' ''job'' (IdRef i) [] True
                                 (jobs_audit d)\<rparr>)))"

definition requeued :: "time \<Rightarrow> job_row \<Rightarrow> job_row" where
  "requeued now r = r\<lparr>jr_status := StatusQueued, jr_attempts := 0, jr_progress := 0, jr_error := None,
                      jr_result := None, jr_started_at := None, jr_finished_at := None, jr_updated_at := now\<rparr>"

definition retry_job :: "env \<Rightarrow> auth_context \<Rightarrow> uuid \<Rightarrow> 'w jobs_db \<Rightarrow> (api_error + job) \<times> 'w jobs_db" where
  "retry_job e ac i d =
     (case Require ac perm_jobs_manage of Some x \<Rightarrow> (Inl x, d)
      | None \<Rightarrow>
        if fault e 0 then (Inl (Wrap CodeInternal ''failed to retry job''), d)
        else
     (let hit = (\<lambda>r. jr_id r = i \<and> jr_org r = org_id ac \<and> jr_status r = StatusFailed)
      in case hit_rows hit (requeued (db_now e)) (jobs d) of
           [] \<Rightarrow> (Inl (Conflict ''job is not in a retryable (failed) state, or does not exist''), d)
         | r # _ \<Rightarrow>
             (Inr (scan_job 0 r),
              d\<lparr>jobs := update_where hit (requeued (db_now e)) (jobs d),
                jobs_audit := Record (fault e 1) ac ''jobs.job.retried'' ''job'' (IdRef (jr_id r)) [] True
                                (jobs_audit d)\<rparr>)))"

section \<open>Worker\<close>

text \<open>
  How a handler call ends: a result (\<open>nil\<close> is \<open>None\<close>), an error matching \<open>ErrCancelled\<close>, any other
  error, or a panic. The per-job deadline only cancels the context the handler is given, so it is
  part of what the handler chooses to do.
\<close>

datatype job_outcome = JobDone "json option" | JobCancelled string | JobError string | JobPanic

type_synonym 'w job_fun = "job \<Rightarrow> 'w jobs_db \<Rightarrow> job_outcome \<times> 'w jobs_db"

text \<open>\<open>runWithRecover\<close>: a panic is an ordinary error.\<close>

definition run_with_recover :: "'w job_fun \<Rightarrow> job \<Rightarrow> 'w jobs_db \<Rightarrow> job_outcome \<times> 'w jobs_db" where
  "run_with_recover h j d =
     (case h j d of (JobPanic, d') \<Rightarrow> (JobError ''job handler panicked'', d') | other \<Rightarrow> other)"

text \<open>
  The claim: under \<open>FOR UPDATE SKIP LOCKED\<close> the rows other workers hold (\<open>locked\<close>) are passed
  over; of the rest the queued row of highest priority, oldest first. Statements: BEGIN, SELECT,
  UPDATE, COMMIT. \<open>Inl ()\<close> is a driver error, after which nothing was claimed.
\<close>

definition claim_order :: "job_row list \<Rightarrow> job_row list" where
  "claim_order tbl = sort_key (\<lambda>r. - jr_priority r) (sort_key jr_created_at tbl)"

definition claimed :: "time \<Rightarrow> job_row \<Rightarrow> job_row" where
  "claimed now r = r\<lparr>jr_status := StatusRunning, jr_started_at := Some now,
                     jr_attempts := jr_attempts r + 1, jr_updated_at := now\<rparr>"

definition claim_job :: "env \<Rightarrow> (uuid \<Rightarrow> bool) \<Rightarrow> 'w jobs_db \<Rightarrow> (unit + job option) \<times> 'w jobs_db" where
  "claim_job e locked d =
     (if fault e 0 \<or> fault e 1 then (Inl (), d)
      else case claim_order (filter (\<lambda>r. jr_status r = StatusQueued \<and> \<not> locked (jr_id r)) (jobs d)) of
        [] \<Rightarrow> (Inr None, d)
      | r # _ \<Rightarrow>
          if fault e 2 \<or> fault e 3 then (Inl (), d)
          else (Inr (Some (scan_job (jr_timeout_seconds r) (claimed (db_now e) r))),
                d\<lparr>jobs := update_where (\<lambda>q. jr_id q = jr_id r) (claimed (db_now e)) (jobs d)\<rparr>))"

definition finish_with_status ::
  "env \<Rightarrow> uuid \<Rightarrow> json option \<Rightarrow> job_status \<Rightarrow> string \<Rightarrow> 'w jobs_db \<Rightarrow> 'w jobs_db" where
  "finish_with_status e i result st msg d =
     (if fault e 4 then d
      else d\<lparr>jobs := update_where (\<lambda>r. jr_id r = i)
               (\<lambda>r. r\<lparr>jr_status := st, jr_result := Some (coalesce result JNull), jr_error := null_string msg,
                      jr_progress := (if st = StatusSucceeded then 10000 else jr_progress r),
                      jr_finished_at := Some (db_now e), jr_updated_at := db_now e\<rparr>) (jobs d)\<rparr>)"

definition finish_job :: "env \<Rightarrow> uuid \<Rightarrow> json option \<Rightarrow> string \<Rightarrow> 'w jobs_db \<Rightarrow> 'w jobs_db" where
  "finish_job e i result msg d =
     finish_with_status e i result (if msg \<noteq> [] then StatusFailed else StatusSucceeded) msg d"

definition requeue_job :: "env \<Rightarrow> uuid \<Rightarrow> string \<Rightarrow> 'w jobs_db \<Rightarrow> 'w jobs_db" where
  "requeue_job e i msg d =
     (if fault e 4 then d
      else d\<lparr>jobs := update_where (\<lambda>r. jr_id r = i)
               (\<lambda>r. r\<lparr>jr_status := StatusQueued, jr_error := Some msg, jr_updated_at := db_now e\<rparr>) (jobs d)\<rparr>)"

definition execute_job :: "env \<Rightarrow> (string \<Rightarrow> 'w job_fun option) \<Rightarrow> job \<Rightarrow> 'w jobs_db \<Rightarrow> 'w jobs_db" where
  "execute_job e hs j d =
     (case hs (j_type j) of
        None \<Rightarrow> finish_job e (j_id j) None (''no handler registered for job type: '' @ j_type j) d
      | Some h \<Rightarrow>
          (case run_with_recover h j d of
             (JobCancelled msg, d') \<Rightarrow> finish_with_status e (j_id j) None StatusCancelled msg d'
           | (JobError msg, d') \<Rightarrow>
               if j_attempts j < j_max_attempts j then requeue_job e (j_id j) msg d'
               else finish_job e (j_id j) None msg d'
           | (JobDone res, d') \<Rightarrow> finish_job e (j_id j) res [] d'
           | (JobPanic, d') \<Rightarrow> d'))"

definition claim_and_run_one ::
  "env \<Rightarrow> (uuid \<Rightarrow> bool) \<Rightarrow> (string \<Rightarrow> 'w job_fun option) \<Rightarrow> 'w jobs_db \<Rightarrow> bool \<times> 'w jobs_db" where
  "claim_and_run_one e locked hs d =
     (case claim_job e locked d of
        (Inl _, d') \<Rightarrow> (False, d')
      | (Inr None, d') \<Rightarrow> (False, d')
      | (Inr (Some j), d') \<Rightarrow> (True, execute_job e hs j d'))"

text \<open>
  One tick of \<open>Run\<close>: claim and run until nothing is claimed. \<open>fuel\<close> bounds the loop and \<open>envs\<close> gives
  each round its own clock and faults; \<open>None\<close> means the fuel ran out.
\<close>

fun drain ::
  "nat \<Rightarrow> (nat \<Rightarrow> env) \<Rightarrow> (uuid \<Rightarrow> bool) \<Rightarrow> (string \<Rightarrow> 'w job_fun option) \<Rightarrow> 'w jobs_db \<Rightarrow> 'w jobs_db option" where
  "drain 0 envs locked hs d = None"
| "drain (Suc n) envs locked hs d =
     (case claim_and_run_one (envs n) locked hs d of
        (False, d') \<Rightarrow> Some d'
      | (True, d') \<Rightarrow> drain n envs locked hs d')"

text \<open>\<open>RecoverInterrupted\<close>: statement 0 fails the interrupted jobs, statement 1 their running steps.\<close>

definition interrupted :: "job_status \<Rightarrow> bool" where
  "interrupted st \<longleftrightarrow> st = StatusRunning \<or> st = StatusRollingBack"

definition interrupted_msg :: string where
  "interrupted_msg = ''interrupted: the control plane restarted while this operation was running. Check its steps for what completed; retrying is safe.''"

definition recover_interrupted :: "env \<Rightarrow> 'w jobs_db \<Rightarrow> (unit + nat) \<times> 'w jobs_db" where
  "recover_interrupted e d =
     (if fault e 0 then (Inl (), d)
      else
        (let hit = (\<lambda>r. interrupted (jr_status r));
             ids = map jr_id (filter hit (jobs d));
             d1 = d\<lparr>jobs := update_where hit (\<lambda>r. r\<lparr>jr_status := StatusFailed, jr_error := Some interrupted_msg,
                        jr_finished_at := Some (db_now e), jr_updated_at := db_now e\<rparr>) (jobs d)\<rparr>
         in if ids = [] then (Inr 0, d1)
            else if fault e 1 then (Inl (), d1)
            else (Inr (length ids),
                  d1\<lparr>job_steps := update_where (\<lambda>s. sp_job s \<in> set ids \<and> sp_status s = ''running'')
                       (\<lambda>s. s\<lparr>sp_status := ''failed'', sp_error := Some ''interrupted by a control-plane restart'',
                              sp_finished_at := Some (db_now e)\<rparr>) (job_steps d1)\<rparr>)))"

end
