(* ===== verification/Ops_Engine.thy ===== *)
theory Ops_Engine
  imports Jobs ToolGateway
begin

text \<open>
  The operation engine (internal/ops): submitting an operation, executing it step by step with
  persisted step rows, rolling completed steps back in reverse order on failure or cancellation,
  requesting cancellation, the queries, and the bridge that exposes dangerous operations as tools.
  Log lines (\<open>job_logs\<close>, \<open>log_entries\<close>) are write-only and their errors ignored; they are not kept.
\<close>

section \<open>Operations\<close>

text \<open>
  What a step can return: nothing, an error, an error matching \<open>errCancelRequested\<close> or
  \<open>jobs.ErrCancelled\<close>, or a panic.
\<close>

datatype op_error = OpError string | OpCancelRequested string | OpJobCancelled string

primrec op_error_text :: "op_error \<Rightarrow> string" where
  "op_error_text (OpError s) = s"
| "op_error_text (OpCancelRequested s) = s"
| "op_error_text (OpJobCancelled s) = s"

datatype step_end = StepOk | StepErr op_error | StepPanic string

definition err_cancelled :: op_error where
  "err_cancelled = OpJobCancelled ''job cancelled''"

text \<open>The part of \<open>Run\<close> the steps share: the key/value state and the result.\<close>

record run_state =
  rs_state :: "(string \<times> json) list"
  rs_result :: "json option"

text \<open>
  A step sees the cancellation flag through \<open>CheckCancel\<close>: its first argument says what the k-th
  poll returns.
\<close>

type_synonym 'w step_fun = "(nat \<Rightarrow> bool) \<Rightarrow> run_state \<Rightarrow> 'w \<Rightarrow> step_end \<times> run_state \<times> 'w"

record 'w op_step =
  os_name :: string
  os_run :: "'w step_fun option"
  os_undo :: "'w step_fun option"

datatype 'w op_body = StepperOp "'w op_step list" | PlainOp "'w step_fun" "'w step_fun"

record 'w operation =
  op_validate :: "'w \<Rightarrow> exec_error option"
  op_body :: "'w op_body"

record 'w op_definition =
  df_name :: string
  df_permission :: string
  df_tool_key :: string
  df_notify_kind :: string
  df_timeout_seconds :: int
  df_flag :: string
  df_factory :: "uuid \<Rightarrow> uuid \<Rightarrow> json \<Rightarrow> exec_error + 'w operation"

type_synonym 'w op_table = "string \<Rightarrow> 'w op_definition option"

definition register_op :: "'w op_definition \<Rightarrow> 'w op_table \<Rightarrow> 'w op_table" where
  "register_op df t =
     t(df_name df \<mapsto> (if df_timeout_seconds df = 0 then df\<lparr>df_timeout_seconds := 900\<rparr> else df))"

type_synonym flag_checker = "(uuid \<Rightarrow> string \<Rightarrow> bool) option"

section \<open>Submission\<close>

text \<open>\<open>si_payload\<close> is \<open>None\<close> when \<open>json.Marshal\<close> rejects the payload.\<close>

record submit_input =
  si_operation :: string
  si_project :: uuid
  si_payload :: "json option"
  si_key :: string

record job_ref =
  jf_job :: uuid
  jf_created :: bool

definition flag_off :: "flag_checker \<Rightarrow> uuid \<Rightarrow> string \<Rightarrow> bool" where
  "flag_off flags org flag \<longleftrightarrow> flag \<noteq> [] \<and> (case flags of None \<Rightarrow> False | Some on \<Rightarrow> \<not> on org flag)"

definition normal_payload :: "json \<Rightarrow> json" where
  "normal_payload j = (case j of JNull \<Rightarrow> JObj [] | _ \<Rightarrow> j)"

definition op_row :: "env \<Rightarrow> auth_context \<Rightarrow> 'w op_definition \<Rightarrow> submit_input \<Rightarrow> json \<Rightarrow> job_row" where
  "op_row e ac df inp payload =
     (blank_row e (org_id ac) (df_name df) payload)
       \<lparr>jr_operation := Some (df_name df),
        jr_project := (if si_project inp \<noteq> uuid_nil then Some (si_project inp) else None),
        jr_creator := actor_user ac, jr_timeout_seconds := df_timeout_seconds df,
        jr_correlation := null_string (correlation_id ac), jr_key := null_string (si_key inp)\<rparr>"

text \<open>
  Statements: the INSERT (\<open>ON CONFLICT (organization_id, idempotency_key) DO NOTHING\<close>), the lookup
  after a conflict, the audit row. Foreign keys the INSERT can violate are part of its fault.
\<close>

definition submit_common ::
  "env \<Rightarrow> flag_checker \<Rightarrow> auth_context \<Rightarrow> 'w op_definition \<Rightarrow> submit_input \<Rightarrow> 'w jobs_db
     \<Rightarrow> (exec_error + job_ref) \<times> 'w jobs_db" where
  "submit_common e flags ac df inp d =
     (if flag_off flags (org_id ac) (df_flag df)
      then (Inl (ApiFailure (Forbidden (''the '' @ df_flag df @ '' feature is disabled for this organization''))), d)
      else case si_payload inp of
        None \<Rightarrow> (Inl (ApiFailure (Validation ''payload is not valid JSON'')), d)
      | Some p \<Rightarrow>
     (let payload = normal_payload p
      in case df_factory df (org_id ac) (si_project inp) payload of
        Inl x \<Rightarrow> (Inl x, d)
      | Inr op \<Rightarrow>
     (case op_validate op (outside d) of Some x \<Rightarrow> (Inl x, d)
      | None \<Rightarrow>
        if fault e 0 \<or> \<not> int4 (df_timeout_seconds df)
        then (Inl (ApiFailure (Wrap CodeInternal ''failed to enqueue operation'')), d)
        else
     (let row = op_row e ac df inp payload
      in case (case jr_key row of None \<Rightarrow> None
               | Some k \<Rightarrow> find (\<lambda>r. jr_org r = org_id ac \<and> jr_key r = Some k) (jobs d)) of
           Some old \<Rightarrow>
             if fault e 1 then (Inl (ApiFailure (Wrap CodeInternal ''failed to enqueue operation'')), d)
             else (Inr \<lparr>jf_job = jr_id old, jf_created = False\<rparr>, d)
         | None \<Rightarrow>
             (Inr \<lparr>jf_job = jr_id row, jf_created = True\<rparr>,
              d\<lparr>jobs := jobs d @ [row],
                jobs_audit := Record (fault e 2) ac ''operations.operation.submitted'' ''job''
                                (IdRef (jr_id row)) [] True (jobs_audit d)\<rparr>)))))"

definition submit ::
  "env \<Rightarrow> flag_checker \<Rightarrow> 'w op_table \<Rightarrow> auth_context \<Rightarrow> submit_input \<Rightarrow> 'w jobs_db
     \<Rightarrow> (exec_error + job_ref) \<times> 'w jobs_db" where
  "submit e flags defs ac inp d =
     (case defs (si_operation inp) of
        None \<Rightarrow> (Inl (ApiFailure (Validation (''unknown operation: '' @ si_operation inp))), d)
      | Some df \<Rightarrow>
     (case Require ac (df_permission df) of Some x \<Rightarrow> (Inl (ApiFailure x), d)
      | None \<Rightarrow>
        if df_tool_key df \<noteq> []
        then (Inl (ApiFailure (Validation (''operation '' @ df_name df
                @ '' is dangerous and must be requested through the tool gateway ('' @ df_tool_key df
                @ '') so it goes through approval''))), d)
        else submit_common e flags ac df inp d))"

definition submit_trusted ::
  "env \<Rightarrow> flag_checker \<Rightarrow> 'w op_table \<Rightarrow> auth_context \<Rightarrow> submit_input \<Rightarrow> 'w jobs_db
     \<Rightarrow> (exec_error + job_ref) \<times> 'w jobs_db" where
  "submit_trusted e flags defs ac inp d =
     (case defs (si_operation inp) of
        None \<Rightarrow> (Inl (ApiFailure (Validation (''unknown operation: '' @ si_operation inp))), d)
      | Some df \<Rightarrow> submit_common e flags ac df inp d)"

text \<open>\<open>Check\<close>: everything \<open>Submit\<close> checks, without enqueueing.\<close>

definition check_submission ::
  "flag_checker \<Rightarrow> 'w op_table \<Rightarrow> auth_context \<Rightarrow> submit_input \<Rightarrow> 'w \<Rightarrow> exec_error option" where
  "check_submission flags defs ac inp w =
     (case defs (si_operation inp) of
        None \<Rightarrow> Some (ApiFailure (Validation (''unknown operation: '' @ si_operation inp)))
      | Some df \<Rightarrow>
     (case Require ac (df_permission df) of Some x \<Rightarrow> Some (ApiFailure x)
      | None \<Rightarrow>
        if flag_off flags (org_id ac) (df_flag df)
        then Some (ApiFailure (Forbidden (''the '' @ df_flag df @ '' feature is disabled for this organization'')))
        else case si_payload inp of
          None \<Rightarrow> Some (ApiFailure (Validation ''payload is not valid JSON''))
        | Some p \<Rightarrow>
            (case df_factory df (org_id ac) (si_project inp) (normal_payload p) of
               Inl x \<Rightarrow> Some x
             | Inr op \<Rightarrow> op_validate op w)))"

section \<open>Step rows\<close>

text \<open>
  The statements an execution issues, numbered for the fault script: 0 loads the job's context,
  1 to 4 are the final audit row and status writes, and step \<open>i\<close> has the six numbers from
  \<open>10 + 6 * i\<close>: insert, cancellation poll, begin, end, progress, end of its undo. Only the first
  statement and the inserts can fail the execution; the others are lost silently, as in the code.
\<close>

definition slot :: "nat \<Rightarrow> nat \<Rightarrow> nat" where
  "slot i k = 10 + 6 * i + k"

fun init_steps :: "env \<Rightarrow> job \<Rightarrow> nat \<Rightarrow> 'w op_step list \<Rightarrow> job_step list \<Rightarrow> bool \<times> job_step list" where
  "init_steps e j i [] tbl = (True, tbl)"
| "init_steps e j i (st # sts) tbl =
     (if fault e (slot i 0) then (False, tbl)
      else
        (let hit = (\<lambda>s. sp_job s = j_id j \<and> sp_seq s = i);
             tbl' = (if list_ex hit tbl
                     then update_where hit (\<lambda>s. s\<lparr>sp_name := os_name st, sp_status := ''pending'', sp_error := None,
                                                  sp_started_at := None, sp_finished_at := None\<rparr>) tbl
                     else tbl @ [\<lparr>sp_job = j_id j, sp_org = j_org j, sp_seq = i, sp_name = os_name st,
                                  sp_status = ''pending'', sp_progress = 0, sp_error = None,
                                  sp_started_at = None, sp_finished_at = None\<rparr>])
         in init_steps e j (Suc i) sts tbl'))"

definition begin_step :: "env \<Rightarrow> uuid \<Rightarrow> nat \<Rightarrow> 'w jobs_db \<Rightarrow> 'w jobs_db" where
  "begin_step e jid i d =
     (if fault e (slot i 2) then d
      else d\<lparr>job_steps := update_where (\<lambda>s. sp_job s = jid \<and> sp_seq s = i)
               (\<lambda>s. s\<lparr>sp_status := ''running'', sp_started_at := Some (db_now e)\<rparr>) (job_steps d)\<rparr>)"

definition end_step ::
  "env \<Rightarrow> nat \<Rightarrow> uuid \<Rightarrow> nat \<Rightarrow> string \<Rightarrow> string option \<Rightarrow> 'w jobs_db \<Rightarrow> 'w jobs_db" where
  "end_step e k jid i st msg d =
     (if fault e (slot i k) then d
      else d\<lparr>job_steps := update_where (\<lambda>s. sp_job s = jid \<and> sp_seq s = i)
               (\<lambda>s. s\<lparr>sp_status := st, sp_error := msg, sp_progress := (if st = ''succeeded'' then 10000 else 0),
                      sp_finished_at := Some (db_now e)\<rparr>) (job_steps d)\<rparr>)"

text \<open>\<open>done*100/len\<close> as NUMERIC(5,2), in hundredths, halves rounded up.\<close>

definition progress_of :: "nat \<Rightarrow> nat \<Rightarrow> int" where
  "progress_of k n = (20000 * int k + int n) div (2 * int n)"

definition set_job :: "bool \<Rightarrow> uuid \<Rightarrow> (job_row \<Rightarrow> job_row) \<Rightarrow> 'w jobs_db \<Rightarrow> 'w jobs_db" where
  "set_job failed jid f d = (if failed then d else d\<lparr>jobs := update_where (\<lambda>r. jr_id r = jid) f (jobs d)\<rparr>)"

definition set_progress :: "env \<Rightarrow> nat \<Rightarrow> uuid \<Rightarrow> int \<Rightarrow> 'w jobs_db \<Rightarrow> 'w jobs_db" where
  "set_progress e i jid p =
     set_job (fault e (slot i 4)) jid (\<lambda>r. r\<lparr>jr_progress := p, jr_updated_at := db_now e\<rparr>)"

text \<open>
  What other callers do meanwhile: \<open>ce_before i\<close> says that a \<open>RequestCancel\<close> of this job commits
  before the i-th boundary, \<open>ce_during i k\<close> that it is visible to the k-th poll inside step \<open>i\<close>.
\<close>

record cancel_env =
  ce_before :: "nat \<Rightarrow> bool"
  ce_during :: "nat \<Rightarrow> nat \<Rightarrow> bool"

definition arrive :: "cancel_env \<Rightarrow> nat \<Rightarrow> uuid \<Rightarrow> 'w jobs_db \<Rightarrow> 'w jobs_db" where
  "arrive c i jid d = set_job (\<not> ce_before c i) jid (\<lambda>r. r\<lparr>jr_cancel_requested := True\<rparr>) d"

definition cancel_requested :: "bool \<Rightarrow> uuid \<Rightarrow> 'w jobs_db \<Rightarrow> bool" where
  "cancel_requested failed jid d \<longleftrightarrow> \<not> failed \<and>
     (case find (\<lambda>r. jr_id r = jid) (jobs d) of None \<Rightarrow> False | Some r \<Rightarrow> jr_cancel_requested r)"

section \<open>Execution\<close>

text \<open>\<open>safeRun\<close>: a missing function succeeds, a panic is an error.\<close>

definition safe_run ::
  "'w step_fun option \<Rightarrow> (nat \<Rightarrow> bool) \<Rightarrow> run_state \<Rightarrow> 'w \<Rightarrow> op_error option \<times> run_state \<times> 'w" where
  "safe_run f poll rs w =
     (case f of
        None \<Rightarrow> (None, rs, w)
      | Some g \<Rightarrow>
          (case g poll rs w of
             (StepOk, rs', w') \<Rightarrow> (None, rs', w')
           | (StepErr x, rs', w') \<Rightarrow> (Some x, rs', w')
           | (StepPanic v, rs', w') \<Rightarrow> (Some (OpError (''step panicked: '' @ v)), rs', w')))"

text \<open>
  The step loop. It returns the error that stopped it, the number of steps a rollback covers (the
  failed one included), the run state and the database.
\<close>

fun run_steps ::
  "env \<Rightarrow> cancel_env \<Rightarrow> uuid \<Rightarrow> nat \<Rightarrow> nat \<Rightarrow> 'w op_step list \<Rightarrow> run_state \<Rightarrow> 'w jobs_db
     \<Rightarrow> op_error option \<times> nat \<times> run_state \<times> 'w jobs_db" where
  "run_steps e c jid n i [] rs d = (None, i, rs, d)"
| "run_steps e c jid n i (st # sts) rs d =
     (let d0 = arrive c i jid d
      in if cancel_requested (fault e (slot i 1)) jid d0 then (Some err_cancelled, i, rs, d0)
         else
     (let d1 = begin_step e jid i d0
      in case safe_run (os_run st) (\<lambda>k. cancel_requested False jid d1 \<or> ce_during c i k) rs (outside d1) of
           (Some x, rs', w') \<Rightarrow>
             (Some (case x of OpCancelRequested _ \<Rightarrow> err_cancelled | _ \<Rightarrow> x), Suc i, rs',
              end_step e 3 jid i ''failed'' (Some (op_error_text x)) (d1\<lparr>outside := w'\<rparr>))
         | (None, rs', w') \<Rightarrow>
             run_steps e c jid n (Suc i) sts rs'
               (set_progress e i jid (progress_of (Suc i) n)
                 (end_step e 3 jid i ''succeeded'' None (d1\<lparr>outside := w'\<rparr>)))))"

text \<open>The rollback loop, over the covered steps with their numbers, last first.\<close>

fun undo_steps ::
  "env \<Rightarrow> uuid \<Rightarrow> (nat \<times> 'w op_step) list \<Rightarrow> bool \<Rightarrow> run_state \<Rightarrow> 'w jobs_db \<Rightarrow> bool \<times> run_state \<times> 'w jobs_db" where
  "undo_steps e jid [] ok rs d = (ok, rs, d)"
| "undo_steps e jid ((i, st) # sts) ok rs d =
     (case os_undo st of
        None \<Rightarrow> undo_steps e jid sts ok rs d
      | Some u \<Rightarrow>
          (case safe_run (Some u) (\<lambda>_. cancel_requested False jid d) rs (outside d) of
             (Some x, rs', w') \<Rightarrow>
               undo_steps e jid sts False rs'
                 (end_step e 5 jid i ''rollback_failed'' (Some (op_error_text x)) (d\<lparr>outside := w'\<rparr>))
           | (None, rs', w') \<Rightarrow>
               undo_steps e jid sts ok rs' (end_step e 5 jid i ''rolled_back'' None (d\<lparr>outside := w'\<rparr>))))"

definition steps_of :: "'w operation \<Rightarrow> 'w op_step list" where
  "steps_of op = (case op_body op of
       StepperOp sts \<Rightarrow> sts
     | PlainOp ex rb \<Rightarrow> [\<lparr>os_name = ''execute'', os_run = Some ex, os_undo = None\<rparr>])"

definition covered :: "nat \<Rightarrow> 'w op_step list \<Rightarrow> (nat \<times> 'w op_step) list" where
  "covered k sts = rev (zip [0..<k] (take k sts))"

definition roll_back ::
  "env \<Rightarrow> uuid \<Rightarrow> 'w operation \<Rightarrow> nat \<Rightarrow> run_state \<Rightarrow> 'w jobs_db \<Rightarrow> bool \<times> 'w jobs_db" where
  "roll_back e jid op k rs d =
     (case op_body op of
        StepperOp sts \<Rightarrow> (case undo_steps e jid (covered k sts) True rs d of (ok, _, d') \<Rightarrow> (ok, d'))
      | PlainOp ex rb \<Rightarrow>
          (case safe_run (Some rb) (\<lambda>_. cancel_requested False jid d) rs (outside d) of
             (x, _, w') \<Rightarrow> (x = None, d\<lparr>outside := w'\<rparr>)))"

definition op_context :: "job \<Rightarrow> auth_context" where
  "op_context j = (System_ctx (j_org j))\<lparr>actor_label := ''operation:'' @ j_type j,
                                         correlation_id := j_correlation j\<rparr>"

definition op_audit :: "bool \<Rightarrow> job \<Rightarrow> string \<Rightarrow> bool \<Rightarrow> 'w jobs_db \<Rightarrow> 'w jobs_db" where
  "op_audit failed j action ok d =
     d\<lparr>jobs_audit := Record failed (op_context j) action ''job'' (IdRef (j_id j)) ''system'' ok (jobs_audit d)\<rparr>"

definition notify :: "job \<Rightarrow> string \<Rightarrow> 'w jobs_db \<Rightarrow> 'w jobs_db" where
  "notify j kind d = d\<lparr>notices := notices d @ [\<lparr>nt_org = j_org j, nt_kind = kind, nt_job = j_id j\<rparr>]\<rparr>"

definition exec_error_text :: "exec_error \<Rightarrow> string" where
  "exec_error_text x = (case x of ApiFailure a \<Rightarrow> code_text (err_code a) @ '': '' @ err_msg a | OtherFailure s \<Rightarrow> s)"

definition op_fail :: "env \<Rightarrow> job \<Rightarrow> 'w jobs_db \<Rightarrow> 'w jobs_db" where
  "op_fail e j d = notify j ''job.failed'' (op_audit (fault e 1) j ''operations.operation.failed'' False d)"

text \<open>The failure half of \<open>execute\<close>: mark, roll back, record, notify.\<close>

definition fail_and_roll_back ::
  "env \<Rightarrow> job \<Rightarrow> 'w operation \<Rightarrow> op_error \<Rightarrow> nat \<Rightarrow> run_state \<Rightarrow> 'w jobs_db \<Rightarrow> job_outcome \<times> 'w jobs_db" where
  "fail_and_roll_back e j op x k rs d =
     (let d1 = set_job (fault e 3) (j_id j) (\<lambda>r. r\<lparr>jr_status := StatusRollingBack, jr_updated_at := db_now e\<rparr>) d
      in case roll_back e (j_id j) op k rs d1 of
        (ok, d2) \<Rightarrow>
     (let d3 = set_job (fault e 4) (j_id j) (\<lambda>r. r\<lparr>jr_rolled_back := ok, jr_updated_at := db_now e\<rparr>) d2
      in case x of
           OpJobCancelled _ \<Rightarrow>
             (JobCancelled ''job cancelled: rolled back'',
              op_audit (fault e 1) j ''operations.operation.cancelled'' True d3)
         | _ \<Rightarrow>
             (JobError (op_error_text x),
              notify j ''job.failed'' (op_audit (fault e 1) j ''operations.operation.failed'' False d3))))"

definition engine_execute ::
  "env \<Rightarrow> cancel_env \<Rightarrow> 'w op_definition \<Rightarrow> 'w job_fun" where
  "engine_execute e c df j d =
     (if fault e 0 then (JobError ''load job context'', d)
      else case find (\<lambda>r. jr_id r = j_id j) (jobs d) of
        None \<Rightarrow> (JobError ''load job context: no rows in result set'', d)
      | Some row \<Rightarrow>
     (case df_factory df (j_org j) (coalesce (jr_project row) uuid_nil) (j_payload j) of
        Inl x \<Rightarrow> (JobError (exec_error_text x), op_fail e j d)
      | Inr op \<Rightarrow>
     (let d1 = op_audit (fault e 2) j ''operations.operation.started'' True d
      in case op_validate op (outside d1) of
        Some x \<Rightarrow> (JobError (exec_error_text x), op_fail e j d1)
      | None \<Rightarrow>
     (case init_steps e j 0 (steps_of op) (job_steps d1) of
        (False, tbl) \<Rightarrow> (JobError ''failed to record steps'', d1\<lparr>job_steps := tbl\<rparr>)
      | (True, tbl) \<Rightarrow>
     (case run_steps e c (j_id j) (length (steps_of op)) 0 (steps_of op)
             \<lparr>rs_state = [], rs_result = None\<rparr> (d1\<lparr>job_steps := tbl\<rparr>) of
        (None, _, rs, d2) \<Rightarrow>
          (JobDone (Some (coalesce (rs_result rs) JNull)),
           (let d3 = op_audit (fault e 1) j ''operations.operation.succeeded'' True d2
            in if df_notify_kind df \<noteq> [] then notify j (df_notify_kind df) d3 else d3))
      | (Some x, k, rs, d2) \<Rightarrow> fail_and_roll_back e j op x k rs d2)))))"

text \<open>\<open>RegisterWorker\<close>.\<close>

definition engine_handlers :: "env \<Rightarrow> cancel_env \<Rightarrow> 'w op_table \<Rightarrow> string \<Rightarrow> 'w job_fun option" where
  "engine_handlers e c defs name = map_option (engine_execute e c) (defs name)"

section \<open>Queries and cancellation\<close>

definition perm_operations_read :: string where "perm_operations_read = ''operations.read''"

record operation_view =
  ov_id :: uuid
  ov_operation :: string
  ov_status :: job_status
  ov_progress :: int
  ov_project :: "uuid option"
  ov_creator :: "uuid option"
  ov_correlation :: string
  ov_error :: string
  ov_result :: json
  ov_rolled_back :: bool
  ov_cancel_requested :: bool
  ov_created_at :: time
  ov_started_at :: "time option"
  ov_finished_at :: "time option"

definition scan_view :: "job_row \<Rightarrow> operation_view" where
  "scan_view r =
     \<lparr>ov_id = jr_id r, ov_operation = coalesce (jr_operation r) (jr_type r), ov_status = jr_status r,
      ov_progress = jr_progress r, ov_project = jr_project r, ov_creator = jr_creator r,
      ov_correlation = coalesce (jr_correlation r) [], ov_error = coalesce (jr_error r) [],
      ov_result = coalesce (jr_result r) JNull, ov_rolled_back = jr_rolled_back r,
      ov_cancel_requested = jr_cancel_requested r, ov_created_at = jr_created_at r,
      ov_started_at = jr_started_at r, ov_finished_at = jr_finished_at r\<rparr>"

definition get_operation :: "bool \<Rightarrow> auth_context \<Rightarrow> uuid \<Rightarrow> 'w jobs_db \<Rightarrow> api_error + operation_view" where
  "get_operation failed ac i d =
     (case Require ac perm_operations_read of Some x \<Rightarrow> Inl x
      | None \<Rightarrow>
        if failed then Inl (Wrap CodeInternal ''failed to load operation'')
        else case find (\<lambda>r. jr_id r = i \<and> jr_org r = org_id ac \<and> jr_operation r \<noteq> None) (jobs d) of
          None \<Rightarrow> Inl (NotFound ''operation'')
        | Some r \<Rightarrow> Inr (scan_view r))"

definition list_operations ::
  "env \<Rightarrow> auth_context \<Rightarrow> uuid \<Rightarrow> int \<Rightarrow> int \<Rightarrow> 'w jobs_db \<Rightarrow> api_error + operation_view list" where
  "list_operations e ac project limit offset d =
     (case Require ac perm_operations_read of Some x \<Rightarrow> Inl x
      | None \<Rightarrow>
        if fault e 0 \<or> offset < 0 then Inl (Wrap CodeInternal ''failed to list operations'')
        else Inr (map scan_view (page (if limit \<le> 0 \<or> limit > 200 then 50 else limit) offset
               (rev (sort_key jr_created_at (filter (\<lambda>r. jr_org r = org_id ac \<and> jr_operation r \<noteq> None \<and>
                      (project = uuid_nil \<or> jr_project r = Some project)) (jobs d)))))))"

definition list_steps :: "env \<Rightarrow> auth_context \<Rightarrow> uuid \<Rightarrow> 'w jobs_db \<Rightarrow> api_error + job_step list" where
  "list_steps e ac i d =
     (case get_operation (fault e 0) ac i d of Inl x \<Rightarrow> Inl x
      | Inr _ \<Rightarrow>
        if fault e 1 then Inl (Wrap CodeInternal ''failed to list steps'')
        else Inr (sort_key sp_seq (filter (\<lambda>s. sp_job s = i \<and> sp_org s = org_id ac) (job_steps d))))"

definition finished_status :: "job_status \<Rightarrow> bool" where
  "finished_status st \<longleftrightarrow> st = StatusSucceeded \<or> st = StatusFailed \<or> st = StatusCancelled"

definition request_cancel ::
  "env \<Rightarrow> 'w op_table \<Rightarrow> auth_context \<Rightarrow> uuid \<Rightarrow> 'w jobs_db \<Rightarrow> (api_error + unit) \<times> 'w jobs_db" where
  "request_cancel e defs ac i d =
     (case get_operation (fault e 0) ac i d of Inl x \<Rightarrow> (Inl x, d)
      | Inr v \<Rightarrow>
        if ov_creator v \<noteq> Some (actor_id ac)
           \<and> (case defs (ov_operation v) of None \<Rightarrow> True | Some df \<Rightarrow> \<not> HasPermission ac (df_permission df))
           \<and> actor_type ac \<noteq> ActorSystem
        then (Inl (Forbidden ''only the operation's creator or a holder of its permission can cancel it''), d)
        else if finished_status (ov_status v)
        then (Inl (Conflict (''operation already finished ('' @ job_status_text (ov_status v) @ '')'')), d)
        else if fault e 1 then (Inl (Wrap CodeInternal ''failed to request cancellation''), d)
        else
     (let hit = (\<lambda>r. jr_id r = i \<and> jr_org r = org_id ac \<and> \<not> finished_status (jr_status r))
      in if row_count hit (jobs d) = 0 then (Inl (Conflict ''operation already finished''), d)
         else (Inr (),
               d\<lparr>jobs := update_where hit (\<lambda>r. r\<lparr>jr_cancel_requested := True,
                     jr_status := (if jr_status r = StatusQueued then StatusCancelled else jr_status r),
                     jr_finished_at := (if jr_status r = StatusQueued then Some (db_now e) else jr_finished_at r),
                     jr_updated_at := db_now e\<rparr>) (jobs d),
                 jobs_audit := Record (fault e 2) ac ''operations.operation.cancel_requested'' ''job''
                                 (IdRef i) [] True (jobs_audit d)\<rparr>)))"

section \<open>The bridge to the Tool Gateway\<close>

definition obj_get :: "string \<Rightarrow> json \<Rightarrow> json option" where
  "obj_get k j = (case j of JObj kvs \<Rightarrow> map_of kvs k | _ \<Rightarrow> None)"

definition obj_set :: "string \<Rightarrow> json \<Rightarrow> (string \<times> json) list \<Rightarrow> (string \<times> json) list" where
  "obj_set k v kvs = (k, v) # filter (\<lambda>p. fst p \<noteq> k) kvs"

definition obj_fields :: "json \<Rightarrow> (string \<times> json) list" where
  "obj_fields j = (case j of JObj kvs \<Rightarrow> kvs | _ \<Rightarrow> [])"

text \<open>
  The handler \<open>BridgeTools\<close> registers for an operation. \<open>uuid.Parse\<close> and \<open>UUID.String\<close> are library
  code and are the parameters \<open>parse_uuid\<close> and \<open>show_uuid\<close>.
\<close>

definition bridge_handler ::
  "env \<Rightarrow> flag_checker \<Rightarrow> (string \<Rightarrow> uuid option) \<Rightarrow> (uuid \<Rightarrow> string) \<Rightarrow> 'w op_table \<Rightarrow> 'w op_definition
     \<Rightarrow> 'w jobs_db handler" where
  "bridge_handler e flags parse_uuid show_uuid defs df ac rtype rid params d =
     (let target =
            (if rtype = ''project''
             then (case parse_uuid rid of
                     None \<Rightarrow> Inl (Validation ''resource_id must be a project id'')
                   | Some p \<Rightarrow> Inr (p, obj_fields params))
             else
               (let flds = obj_set ''resource_id'' (JStr rid) (obj_set ''resource_type'' (JStr rtype) (obj_fields params));
                    project = (case obj_get ''project_id'' params of
                                 Some (JStr s) \<Rightarrow> coalesce (parse_uuid s) uuid_nil
                               | _ \<Rightarrow> uuid_nil)
                in Inr (project, flds)))
      in case target of
           Inl x \<Rightarrow> (Inl (ApiFailure x), d)
         | Inr (project, flds) \<Rightarrow>
             (case submit_trusted e flags defs ac
                     \<lparr>si_operation = df_name df, si_project = project, si_payload = Some (JObj flds), si_key = []\<rparr> d of
                (Inl x, d') \<Rightarrow> (Inl x, d')
              | (Inr ref, d') \<Rightarrow>
                  (Inr (JObj [(''job_id'', JStr (show_uuid (jf_job ref))), (''operation'', JStr (df_name df))]), d')))"

text \<open>
  \<open>BridgeTools\<close> walks the registered operations and registers a handler for each that has a tool
  key; \<open>dfs\<close> lists them in the order of the walk, so the last one for a key wins.
\<close>

fun bridge_tools ::
  "env \<Rightarrow> flag_checker \<Rightarrow> (string \<Rightarrow> uuid option) \<Rightarrow> (uuid \<Rightarrow> string) \<Rightarrow> 'w op_table \<Rightarrow> 'w op_definition list
     \<Rightarrow> 'w jobs_db handlers \<Rightarrow> 'w jobs_db handlers" where
  "bridge_tools e flags pu su defs [] reg = reg"
| "bridge_tools e flags pu su defs (df # dfs) reg =
     bridge_tools e flags pu su defs dfs
       (if df_tool_key df = [] then reg
        else reg(df_tool_key df \<mapsto> bridge_handler e flags pu su defs df))"

definition payload_resource :: "(string \<Rightarrow> uuid option) \<Rightarrow> json \<Rightarrow> string \<times> uuid" where
  "payload_resource parse_uuid payload =
     ((case obj_get ''resource_type'' payload of Some (JStr s) \<Rightarrow> s | _ \<Rightarrow> []),
      (case obj_get ''resource_id'' payload of Some (JStr s) \<Rightarrow> coalesce (parse_uuid s) uuid_nil | _ \<Rightarrow> uuid_nil))"

end
