(* ===== verification/Job_Runs.thy ===== *)
theory Job_Runs
  imports Ops_Engine
begin

text \<open>
  The queue and its callers as one system. The locale \<open>job_handlers\<close> states what the worker relies
  on a handler for; inside it, a worker round is shown to keep the queue's invariant and to spend
  attempts, so that draining ends. The operation engine is shown to provide the contract. Then the
  guarantees along any sequence of calls: attempts and keys, claim order, finality of outcomes,
  idempotent submission and who may cancel.
\<close>

section \<open>What the queue relies on a handler for\<close>

text \<open>
  A handler may rewrite the row of its own job, but not what identifies and schedules it, and it
  leaves the job running or rolling back; it does not touch the other rows.
\<close>

definition same_job :: "job_row \<Rightarrow> job_row \<Rightarrow> bool" where
  "same_job a b \<longleftrightarrow> jr_id b = jr_id a \<and> jr_org b = jr_org a \<and> jr_type b = jr_type a
     \<and> jr_priority b = jr_priority a \<and> jr_payload b = jr_payload a \<and> jr_attempts b = jr_attempts a
     \<and> jr_max_attempts b = jr_max_attempts a \<and> jr_key b = jr_key a \<and> jr_created_at b = jr_created_at a
     \<and> jr_operation b = jr_operation a \<and> jr_creator b = jr_creator a \<and> jr_project b = jr_project a"

definition touch :: "uuid \<Rightarrow> job_row \<Rightarrow> job_row \<Rightarrow> bool" where
  "touch i a b \<longleftrightarrow> (if jr_id a = i then same_job a b \<and> (interrupted (jr_status a) \<longrightarrow> interrupted (jr_status b)) else b = a)"

definition touches :: "uuid \<Rightarrow> 'w jobs_db \<Rightarrow> 'w jobs_db \<Rightarrow> bool" where
  "touches i d d' \<longleftrightarrow> list_all2 (touch i) (jobs d) (jobs d')"

lemma same_job_refl [simp]: "same_job a a"
  by (simp add: same_job_def)

lemma touch_refl [simp]: "touch i a a"
  by (simp add: touch_def)

lemma touch_trans: "touch i a b \<Longrightarrow> touch i b c \<Longrightarrow> touch i a c"
  by (auto simp: touch_def same_job_def split: if_splits)

lemma touches_refl [simp, intro]: "touches i d d"
  by (simp add: touches_def list_all2_refl)

lemma touches_trans [trans]: "touches i a b \<Longrightarrow> touches i b c \<Longrightarrow> touches i a c"
  unfolding touches_def by (rule list_all2_trans [OF touch_trans])

lemma touches_same_jobs: "jobs d' = jobs d \<Longrightarrow> touches i d d'"
  by (simp add: touches_def list_all2_refl)

locale job_handlers =
  fixes hs :: "string \<Rightarrow> 'w job_fun option"
  assumes frame: "hs t = Some h \<Longrightarrow> h j d = (r, d') \<Longrightarrow> touches (j_id j) d d'"

section \<open>One round of the worker\<close>

definition worked :: "uuid \<Rightarrow> job_row \<Rightarrow> job_row \<Rightarrow> bool" where
  "worked i a b \<longleftrightarrow>
     (if jr_id a = i
      then jr_id b = i \<and> jr_org b = jr_org a \<and> jr_key b = jr_key a \<and> jr_attempts b = jr_attempts a + 1
        \<and> jr_max_attempts b = jr_max_attempts a
        \<and> (jr_status b = StatusQueued \<longrightarrow> jr_attempts b < jr_max_attempts b)
      else b = a)"

lemma claim_order_set [simp]: "set (claim_order tbl) = set tbl"
  by (simp add: claim_order_def)

lemma claim_job_SomeD:
  assumes "claim_job e locked d = (Inr (Some j), d')"
  obtains r rest where "claim_order (filter (\<lambda>r. jr_status r = StatusQueued \<and> \<not> locked (jr_id r)) (jobs d)) = r # rest"
    "j = scan_job (jr_timeout_seconds r) (claimed (db_now e) r)" "r \<in> set (jobs d)" "jr_status r = StatusQueued"
    "\<not> locked (jr_id r)"
    "d' = d\<lparr>jobs := update_where (\<lambda>q. jr_id q = jr_id r) (claimed (db_now e)) (jobs d)\<rparr>"
proof (cases "claim_order (filter (\<lambda>r. jr_status r = StatusQueued \<and> \<not> locked (jr_id r)) (jobs d))")
  case (Cons r rest)
  then have "r \<in> set (claim_order (filter (\<lambda>r. jr_status r = StatusQueued \<and> \<not> locked (jr_id r)) (jobs d)))" by simp
  then have "r \<in> set (jobs d)" "jr_status r = StatusQueued" "\<not> locked (jr_id r)" by simp_all
  then show ?thesis using assms Cons that by (auto simp: claim_job_def split: if_splits)
qed (use assms in \<open>simp add: claim_job_def split: if_splits\<close>)

lemma claim_job_otherD:
  "claim_job e locked d = (Inl u, d') \<Longrightarrow> d' = d" "claim_job e locked d = (Inr None, d') \<Longrightarrow> d' = d"
  by (auto simp: claim_job_def split: if_splits list.splits)

text \<open>The row of the claimed job, as the worker remembers it and as the table has it.\<close>

definition in_flight :: "job \<Rightarrow> 'w jobs_db \<Rightarrow> bool" where
  "in_flight j d \<longleftrightarrow> (\<forall>r \<in> set (jobs d). jr_id r = j_id j \<longrightarrow>
     jr_attempts r = j_attempts j \<and> jr_max_attempts r = j_max_attempts j \<and> interrupted (jr_status r))"

lemma in_flight_touches:
  assumes "in_flight j d" "touches (j_id j) d d'"
  shows "in_flight j d'"
proof (unfold in_flight_def, intro ballI impI)
  fix r assume r: "r \<in> set (jobs d')" "jr_id r = j_id j"
  from r(1) assms(2) obtain a where a: "a \<in> set (jobs d)" "touch (j_id j) a r"
    unfolding touches_def by (metis in_set_conv_nth list_all2_conv_all_nth)
  then have "jr_id a = j_id j" using r(2) by (auto simp: touch_def same_job_def split: if_splits)
  with a assms(1) show "jr_attempts r = j_attempts j \<and> jr_max_attempts r = j_max_attempts j \<and> interrupted (jr_status r)"
    by (auto simp: in_flight_def touch_def same_job_def)
qed

text \<open>How the outcome is recorded, for a row in flight.\<close>

definition recorded :: "uuid \<Rightarrow> job_row \<Rightarrow> job_row \<Rightarrow> bool" where
  "recorded i a b \<longleftrightarrow>
     (if jr_id a = i then same_job a b \<and> (jr_status b = StatusQueued \<longrightarrow> jr_attempts b < jr_max_attempts b) else b = a)"

lemma list_all2_update_where:
  "(\<And>r. r \<in> set tbl \<Longrightarrow> p r \<Longrightarrow> R r (f r)) \<Longrightarrow> (\<And>r. r \<in> set tbl \<Longrightarrow> \<not> p r \<Longrightarrow> R r r) \<Longrightarrow> list_all2 R tbl (update_where p f tbl)"
  by (induction tbl) auto

lemma recorded_refl: "in_flight j d \<Longrightarrow> list_all2 (recorded (j_id j)) (jobs d) (jobs d)"
  by (rule list.rel_refl_strong) (auto simp: recorded_def in_flight_def interrupted_def)

lemma finish_recorded:
  "in_flight j d \<Longrightarrow> st \<noteq> StatusQueued \<Longrightarrow>
     list_all2 (recorded (j_id j)) (jobs d) (jobs (finish_with_status e (j_id j) res st msg d))"
  using recorded_refl [of j d]
  by (auto simp: finish_with_status_def recorded_def same_job_def intro!: list_all2_update_where)

lemma requeue_recorded:
  "in_flight j d \<Longrightarrow> j_attempts j < j_max_attempts j \<Longrightarrow>
     list_all2 (recorded (j_id j)) (jobs d) (jobs (requeue_job e (j_id j) msg d))"
  using recorded_refl [of j d]
  by (auto simp: requeue_job_def recorded_def same_job_def in_flight_def intro!: list_all2_update_where)

lemma finish_job_recorded:
  "in_flight j d \<Longrightarrow> list_all2 (recorded (j_id j)) (jobs d) (jobs (finish_job e (j_id j) res msg d))"
  by (simp add: finish_job_def finish_recorded)

context job_handlers
begin

lemma run_frame:
  assumes "hs t = Some h" "run_with_recover h j d = (r, d')"
  shows "touches (j_id j) d d'" "r \<noteq> JobPanic"
proof -
  obtain x y where "h j d = (x, y)" by force
  with assms show "touches (j_id j) d d'" "r \<noteq> JobPanic"
    using frame [of t h j d x y] by (auto simp: run_with_recover_def split: job_outcome.splits)
qed

lemma execute_job_steps:
  assumes "in_flight j d"
  shows "\<exists>m. touches (j_id j) d m \<and> list_all2 (recorded (j_id j)) (jobs m) (jobs (execute_job e hs j d))"
proof (cases "hs (j_type j)")
  case None
  then show ?thesis using finish_job_recorded [OF assms] by (auto simp: execute_job_def)
next
  case (Some h)
  obtain r m where r: "run_with_recover h j d = (r, m)" by force
  note f = run_frame [OF Some r]
  have fl: "in_flight j m" by (rule in_flight_touches [OF assms f(1)])
  show ?thesis
    using f finish_job_recorded [OF fl] finish_recorded [OF fl] requeue_recorded [OF fl]
    by (intro exI [of _ m]) (cases r; simp add: execute_job_def Some r)
qed

lemma worked_step:
  assumes "pk jr_id (jobs d)" "claim_and_run_one e locked hs d = (True, d')"
  shows "\<exists>r \<in> set (jobs d). jr_status r = StatusQueued \<and> \<not> locked (jr_id r) \<and> list_all2 (worked (jr_id r)) (jobs d) (jobs d') \<and>
    (\<exists>j d1. claim_job e locked d = (Inr (Some j), d1) \<and> j_id j = jr_id r)"
proof -
  obtain j d1 where c: "claim_job e locked d = (Inr (Some j), d1)" and x: "d' = execute_job e hs j d1"
    using assms(2) by (auto simp: claim_and_run_one_def split: prod.splits sum.splits option.splits)
  note claim = c
  obtain r rest where
    "claim_order (filter (\<lambda>r. jr_status r = StatusQueued \<and> \<not> locked (jr_id r)) (jobs d)) = r # rest"
    and j: "j = scan_job (jr_timeout_seconds r) (claimed (db_now e) r)" and r: "r \<in> set (jobs d)" "jr_status r = StatusQueued"
      "\<not> locked (jr_id r)"
    and d1: "d1 = d\<lparr>jobs := update_where (\<lambda>q. jr_id q = jr_id r) (claimed (db_now e)) (jobs d)\<rparr>"
    by (rule claim_job_SomeD [OF c])
  have id: "j_id j = jr_id r" by (simp add: j scan_job_def claimed_def)
  have only: "q = r" if "q \<in> set (jobs d)" "jr_id q = jr_id r" for q
    using pk_unique [OF assms(1) that(1) r(1)] that by simp
  have fl: "in_flight j d1"
    using only by (auto simp: in_flight_def d1 set_update_where j scan_job_def claimed_def interrupted_def
        split: if_splits dest!: only)
  from execute_job_steps [OF fl, of e] obtain m where
    m0: "touches (jr_id r) d1 m" and m1: "list_all2 (recorded (jr_id r)) (jobs m) (jobs d')"
    unfolding id x by blast
  have m: "list_all2 (touch (jr_id r)) (jobs d1) (jobs m)" using m0 by (simp add: touches_def)
  have c: "list_all2 (\<lambda>a b. if jr_id a = jr_id r then b = claimed (db_now e) a else b = a) (jobs d) (jobs d1)"
    unfolding d1 by (simp, rule list_all2_update_where) simp_all
  have comb: "(if jr_id a = i then b = claimed now a else b = a) \<Longrightarrow> touch i b c \<Longrightarrow> recorded i c d \<Longrightarrow> worked i a d"
    for i now a b c d
    by (cases "jr_id a = i") (auto simp: touch_def recorded_def worked_def same_job_def claimed_def)
  have "list_all2 (\<lambda>a c. \<exists>b. (if jr_id a = jr_id r then b = claimed (db_now e) a else b = a) \<and> touch (jr_id r) b c)
          (jobs d) (jobs m)"
    by (rule list_all2_trans [OF _ c m]) blast
  from list_all2_trans [OF _ this m1, of "worked (jr_id r)"] comb
  have "list_all2 (worked (jr_id r)) (jobs d) (jobs d')" by blast
  with r claim id show ?thesis by blast
qed

lemma idle_step: "claim_and_run_one e locked hs d = (False, d') \<Longrightarrow> d' = d"
  by (auto simp: claim_and_run_one_def dest: claim_job_otherD split: prod.splits sum.splits option.splits)

end

section \<open>Attempts and the queue's budget\<close>

definition attempts_ok :: "job_row \<Rightarrow> bool" where
  "attempts_ok r \<longleftrightarrow> 0 \<le> jr_attempts r \<and> jr_attempts r \<le> jr_max_attempts r \<and> 1 \<le> jr_max_attempts r
     \<and> (jr_status r = StatusQueued \<longrightarrow> jr_attempts r < jr_max_attempts r)"

definition queue_ok :: "job_row list \<Rightarrow> bool" where
  "queue_ok tbl \<longleftrightarrow> pk jr_id tbl \<and> (\<forall>r \<in> set tbl. attempts_ok r)
     \<and> pk (\<lambda>r. (jr_org r, jr_key r)) (filter (\<lambda>r. jr_key r \<noteq> None) tbl)"

text \<open>How many more times the rows of the queue can be claimed.\<close>

definition budget :: "job_row \<Rightarrow> nat" where
  "budget r = (if jr_status r = StatusQueued then nat (jr_max_attempts r - jr_attempts r) else 0)"

definition queue_budget :: "job_row list \<Rightarrow> nat" where
  "queue_budget tbl = sum_list (map budget tbl)"

lemma worked_map:
  "list_all2 (worked i) xs ys \<Longrightarrow> map jr_id ys = map jr_id xs
     \<and> map (\<lambda>r. (jr_org r, jr_key r)) ys = map (\<lambda>r. (jr_org r, jr_key r)) xs"
  by (induction rule: list_all2_induct) (auto simp: worked_def split: if_splits)

lemma worked_keys:
  "list_all2 (worked i) xs ys \<Longrightarrow>
     map (\<lambda>r. (jr_org r, jr_key r)) (filter (\<lambda>r. jr_key r \<noteq> None) ys)
   = map (\<lambda>r. (jr_org r, jr_key r)) (filter (\<lambda>r. jr_key r \<noteq> None) xs)"
  by (induction rule: list_all2_induct) (auto simp: worked_def split: if_splits)

lemma worked_attempts_ok:
  assumes "list_all2 (worked i) xs ys" "\<forall>r \<in> set xs. attempts_ok r" "\<forall>r \<in> set xs. jr_id r = i \<longrightarrow> jr_status r = StatusQueued"
  shows "\<forall>r \<in> set ys. attempts_ok r"
  using assms
proof (induction rule: list_all2_induct)
  case (Cons x xs y ys)
  have "attempts_ok y"
  proof (cases "jr_id x = i")
    case True
    then have "jr_attempts y = jr_attempts x + 1" "jr_max_attempts y = jr_max_attempts x"
      "jr_status y = StatusQueued \<longrightarrow> jr_attempts y < jr_max_attempts y" "attempts_ok x" "jr_status x = StatusQueued"
      using Cons.hyps(1) Cons.prems by (auto simp: worked_def)
    then show ?thesis by (auto simp: attempts_ok_def)
  qed (use Cons.hyps(1) Cons.prems in \<open>simp add: worked_def\<close>)
  with Cons show ?case by simp
qed simp

lemma worked_budget:
  assumes "list_all2 (worked i) xs ys" "\<forall>r \<in> set xs. attempts_ok r" "\<forall>r \<in> set xs. jr_id r = i \<longrightarrow> jr_status r = StatusQueued"
  shows "queue_budget ys \<le> queue_budget xs \<and> ((\<exists>r \<in> set xs. jr_id r = i) \<longrightarrow> queue_budget ys < queue_budget xs)"
  using assms
proof (induction rule: list_all2_induct)
  case (Cons x xs y ys)
  have "budget y \<le> budget x \<and> (jr_id x = i \<longrightarrow> budget y < budget x)"
  proof (cases "jr_id x = i")
    case True
    then have "jr_attempts y = jr_attempts x + 1" "jr_max_attempts y = jr_max_attempts x"
      "jr_status x = StatusQueued" "jr_attempts x < jr_max_attempts x"
      using Cons.hyps(1) Cons.prems by (simp_all add: worked_def attempts_ok_def)
    then show ?thesis by (auto simp: budget_def)
  qed (use Cons.hyps(1) in \<open>simp add: worked_def\<close>)
  with Cons show ?case by (auto simp: queue_budget_def)
qed simp

context job_handlers
begin

lemma worker_round:
  assumes "queue_ok (jobs d)" "claim_and_run_one e locked hs d = (True, d')"
  shows "queue_ok (jobs d')" "queue_budget (jobs d') < queue_budget (jobs d)"
proof -
  have pk: "pk jr_id (jobs d)" and at: "\<forall>r \<in> set (jobs d). attempts_ok r" using assms(1) by (auto simp: queue_ok_def)
  from worked_step [OF pk assms(2)] obtain r where
    r: "r \<in> set (jobs d)" "jr_status r = StatusQueued" and w: "list_all2 (worked (jr_id r)) (jobs d) (jobs d')" by blast
  have q: "\<forall>s \<in> set (jobs d). jr_id s = jr_id r \<longrightarrow> jr_status s = StatusQueued"
    using pk_unique [OF pk _ r(1)] r(2) by metis
  show "queue_ok (jobs d')"
    using assms(1) worked_map [OF w] worked_keys [OF w] worked_attempts_ok [OF w at q] by (simp add: queue_ok_def pk_def)
  show "queue_budget (jobs d') < queue_budget (jobs d)"
    using worked_budget [OF w at q] r(1) by blast
qed

lemma drain_terminates:
  "queue_ok (jobs d) \<Longrightarrow> queue_budget (jobs d) < n \<Longrightarrow>
     \<exists>d'. drain n envs locked hs d = Some d' \<and> queue_ok (jobs d') \<and> (\<exists>k. claim_and_run_one (envs k) locked hs d' = (False, d'))"
proof (induction n arbitrary: d)
  case (Suc n)
  obtain b d1 where c: "claim_and_run_one (envs n) locked hs d = (b, d1)" by force
  show ?case
  proof (cases b)
    case True
    with c worker_round [OF Suc.prems(1), of "envs n" locked d1] Suc.prems(2) Suc.IH [of d1] show ?thesis by simp
  next
    case False
    with c idle_step [of "envs n" locked d d1] Suc.prems(1) show ?thesis by auto
  qed
qed simp

end

lemma idle_means_empty:
  assumes "claim_and_run_one e locked hs d = (False, d')" "\<And>k. \<not> fault e k" "r \<in> set (jobs d)" "\<not> locked (jr_id r)"
  shows "jr_status r \<noteq> StatusQueued"
proof
  assume q: "jr_status r = StatusQueued"
  have "r \<in> set (claim_order (filter (\<lambda>r. jr_status r = StatusQueued \<and> \<not> locked (jr_id r)) (jobs d)))"
    using q assms(3,4) by simp
  then obtain x xs where "claim_order (filter (\<lambda>r. jr_status r = StatusQueued \<and> \<not> locked (jr_id r)) (jobs d)) = x # xs"
    by (cases "claim_order (filter (\<lambda>r. jr_status r = StatusQueued \<and> \<not> locked (jr_id r)) (jobs d))") auto
  then show False using assms(1,2) by (simp add: claim_and_run_one_def claim_job_def)
qed

section \<open>The operation engine as a provider\<close>

lemma set_job_touches:
  "(\<And>r. same_job r (f r) \<and> (interrupted (jr_status r) \<longrightarrow> interrupted (jr_status (f r)))) \<Longrightarrow> touches i d (set_job failed i f d)"
  by (auto simp: touches_def set_job_def touch_def list_all2_refl intro!: list_all2_update_where)

lemma step_writes_touch [simp, intro]:
  "touches i d (begin_step e jid k d)" "touches i d (end_step e n jid k st msg d)"
  "touches i d (set_progress e k i p d)" "touches i d (arrive c k i d)" "touches i d (op_audit failed j a ok d)"
  "touches i d (notify j kind d)" "touches i d (op_fail e j d)" "touches i d (d\<lparr>outside := w\<rparr>)"
  "touches i d (d\<lparr>job_steps := tbl\<rparr>)"
proof -
  show "touches i d (set_progress e k i p d)" "touches i d (arrive c k i d)"
    unfolding set_progress_def arrive_def by (rule set_job_touches; simp add: same_job_def)+
qed (rule touches_same_jobs; simp add: begin_step_def end_step_def op_audit_def notify_def op_fail_def)+

lemma run_steps_touches: "run_steps e c jid n i sts rs d = (x, k, rs', d') \<Longrightarrow> touches jid d d'"
proof (induction sts arbitrary: i rs d)
  case (Cons st sts)
  let ?d0 = "arrive c i jid d"
  let ?d1 = "begin_step e jid i ?d0"
  have t1: "touches jid d ?d1" by (rule touches_trans [of _ _ ?d0]) auto
  obtain y rs1 w where s: "safe_run (os_run st) (\<lambda>k. cancel_requested False jid ?d1 \<or> ce_during c i k) rs (outside ?d1) = (y, rs1, w)"
    by (metis prod_cases3)
  have t2: "touches jid d (end_step e m jid i a b (?d1\<lparr>outside := w\<rparr>))" for m a b
    by (rule touches_trans [OF t1], rule touches_trans [of _ _ "?d1\<lparr>outside := w\<rparr>"]) auto
  show ?case
  proof (cases "cancel_requested (fault e (slot i 1)) jid ?d0")
    case True
    then show ?thesis using Cons.prems by (auto simp: Let_def)
  next
    case False
    show ?thesis
    proof (cases y)
      case (Some z)
      then show ?thesis using Cons.prems False s t2 by (auto simp: Let_def)
    next
      case None
      let ?d2 = "set_progress e i jid (progress_of (Suc i) n) (end_step e 3 jid i ''succeeded'' None (?d1\<lparr>outside := w\<rparr>))"
      have "run_steps e c jid n (Suc i) sts rs1 ?d2 = (x, k, rs', d')"
        using Cons.prems False s None by (simp add: Let_def)
      from Cons.IH [OF this] have "touches jid ?d2 d'" .
      moreover have "touches jid d ?d2" by (rule touches_trans [OF t2]) auto
      ultimately show ?thesis by (rule touches_trans [rotated])
    qed
  qed
qed simp

lemma undo_steps_touches: "undo_steps e jid sts ok rs d = (ok', rs', d') \<Longrightarrow> touches i d d'"
proof (induction e jid sts ok rs d rule: undo_steps.induct)
  case (2 e jid k st sts ok rs d)
  have t: "touches i d (end_step e m jid k a b (d\<lparr>outside := w\<rparr>))" for m a b w
    by (rule touches_trans [of _ _ "d\<lparr>outside := w\<rparr>"]) auto
  obtain y rs1 w where s: "safe_run (os_undo st) (\<lambda>_. cancel_requested False jid d) rs (outside d) = (y, rs1, w)"
    by (metis prod_cases3)
  show ?case
  proof (cases "os_undo st")
    case None
    then show ?thesis using 2 by simp
  next
    case (Some u)
    show ?thesis
    proof (cases y)
      case None
      with Some s 2 have "touches i (end_step e 5 jid k ''rolled_back'' None (d\<lparr>outside := w\<rparr>)) d'" by simp
      then show ?thesis by (rule touches_trans [OF t])
    next
      case (Some z)
      with \<open>os_undo st = Some u\<close> s 2
      have "touches i (end_step e 5 jid k ''rollback_failed'' (Some (op_error_text z)) (d\<lparr>outside := w\<rparr>)) d'" by simp
      then show ?thesis by (rule touches_trans [OF t])
    qed
  qed
qed simp

lemma roll_back_touches: "roll_back e jid op k rs d = (ok, d') \<Longrightarrow> touches i d d'"
  by (auto simp: roll_back_def dest: undo_steps_touches split: op_body.splits prod.splits)

lemma fail_and_roll_back_touches:
  assumes "fail_and_roll_back e j op x k rs d = (r, d')" shows "touches (j_id j) d d'"
proof -
  let ?d1 = "set_job (fault e 3) (j_id j) (\<lambda>r. r\<lparr>jr_status := StatusRollingBack, jr_updated_at := db_now e\<rparr>) d"
  obtain ok d2 where rb: "roll_back e (j_id j) op k rs ?d1 = (ok, d2)" by force
  let ?d3 = "set_job (fault e 4) (j_id j) (\<lambda>r. r\<lparr>jr_rolled_back := ok, jr_updated_at := db_now e\<rparr>) d2"
  have "touches (j_id j) d ?d1" by (rule set_job_touches) (simp add: same_job_def interrupted_def)
  also have "touches (j_id j) ?d1 d2" by (rule roll_back_touches [OF rb])
  also have "touches (j_id j) d2 ?d3" by (rule set_job_touches) (simp add: same_job_def)
  finally have t: "touches (j_id j) d ?d3" .
  have "touches (j_id j) ?d3 d'"
    using assms touches_trans [of "j_id j" ?d3 "op_audit (fault e 1) j ''operations.operation.failed'' False ?d3" "notify j ''job.failed'' (op_audit (fault e 1) j ''operations.operation.failed'' False ?d3)"]
    by (cases x) (auto simp: fail_and_roll_back_def rb Let_def)
  with t show ?thesis by (rule touches_trans)
qed

lemma engine_execute_touches:
  assumes "engine_execute e c df j d = (r, d')" shows "touches (j_id j) d d'"
proof (cases "fault e 0 \<or> find (\<lambda>r. jr_id r = j_id j) (jobs d) = None")
  case True
  then show ?thesis using assms by (cases "fault e 0") (simp_all add: engine_execute_def)
next
  case False
  then obtain row where row: "find (\<lambda>r. jr_id r = j_id j) (jobs d) = Some row" "\<not> fault e 0" by auto
  show ?thesis
  proof (cases "df_factory df (j_org j) (coalesce (jr_project row) uuid_nil) (j_payload j)")
    case (Inl x)
    then show ?thesis using assms row by (auto simp: engine_execute_def)
  next
    case (Inr op)
    let ?d1 = "op_audit (fault e 2) j ''operations.operation.started'' True d"
    show ?thesis
    proof (cases "op_validate op (outside ?d1)")
      case (Some x)
      then show ?thesis using assms row Inr touches_trans [of "j_id j" d ?d1 "op_fail e j ?d1"]
        by (auto simp: engine_execute_def Let_def)
    next
      case None
      obtain ok tbl where i: "init_steps e j 0 (steps_of op) (job_steps ?d1) = (ok, tbl)" by force
      obtain x k rs d2 where s: "run_steps e c (j_id j) (length (steps_of op)) 0 (steps_of op)
             \<lparr>rs_state = [], rs_result = None\<rparr> (?d1\<lparr>job_steps := tbl\<rparr>) = (x, k, rs, d2)" by (metis prod_cases4)
      have t1: "touches (j_id j) d (?d1\<lparr>job_steps := tbl\<rparr>)" by (rule touches_trans [of _ _ ?d1]) auto
      have t2: "touches (j_id j) d d2" by (rule touches_trans [OF t1 run_steps_touches [OF s]])
      have t3: "touches (j_id j) d (op_audit (fault e 1) j a b d2)" for a b by (rule touches_trans [OF t2]) auto
      have t4: "touches (j_id j) d (notify j nk (op_audit (fault e 1) j a b d2))" for a b nk by (rule touches_trans [OF t3]) auto
      show ?thesis
        using assms row Inr None i s t1 t3 t4 touches_trans [OF t2 fail_and_roll_back_touches]
        by (cases ok; cases x) (auto simp: engine_execute_def Let_def split: if_splits)
    qed
  qed
qed

interpretation ops: job_handlers "engine_handlers e c defs" for e c defs
  by unfold_locales (auto simp: engine_handlers_def engine_execute_touches)

section \<open>The service operations\<close>

lemma queue_ok_update:
  assumes "queue_ok tbl" "\<And>r. p r \<Longrightarrow> jr_id (f r) = jr_id r \<and> jr_org (f r) = jr_org r \<and> jr_key (f r) = jr_key r"
    "\<And>r. p r \<Longrightarrow> attempts_ok r \<Longrightarrow> attempts_ok (f r)"
  shows "queue_ok (update_where p f tbl)"
proof -
  have "map (\<lambda>r. (jr_org r, jr_key r)) (filter (\<lambda>r. jr_key r \<noteq> None) (update_where p f tbl))
      = map (\<lambda>r. (jr_org r, jr_key r)) (filter (\<lambda>r. jr_key r \<noteq> None) tbl)"
    using assms(2) by (induction tbl) auto
  moreover have "pk jr_id (update_where p f tbl)" using assms(1,2) by (simp add: queue_ok_def pk_update_where)
  moreover have "\<forall>r \<in> set (update_where p f tbl). attempts_ok r"
    using assms(1,3) by (auto simp: queue_ok_def set_update_where)
  ultimately show ?thesis using assms(1) by (simp add: queue_ok_def pk_def)
qed

lemma queue_ok_append:
  assumes "queue_ok tbl" "jr_id r \<notin> jr_id ` set tbl" "attempts_ok r"
    "jr_key r \<noteq> None \<Longrightarrow> \<forall>q \<in> set tbl. \<not> (jr_org q = jr_org r \<and> jr_key q = jr_key r)"
  shows "queue_ok (tbl @ [r])"
proof (cases "jr_key r = None")
  case True
  then show ?thesis using assms(1-3) by (simp add: queue_ok_def pk_append)
next
  case False
  have "(jr_org r, jr_key r) \<notin> (\<lambda>r. (jr_org r, jr_key r)) ` set (filter (\<lambda>r. jr_key r \<noteq> None) tbl)"
    using assms(4) [OF False] by auto
  with False show ?thesis using assms(1-3) by (simp add: queue_ok_def pk_append)
qed

lemma insert_job_outcome:
  "jobs (snd (insert_job e ac row d)) = jobs d
   \<or> jobs (snd (insert_job e ac row d)) = jobs d @ [row] \<and> \<not> key_taken (jr_org row) (jr_key row) (jobs d)"
  by (simp add: insert_job_def Let_def)

lemma enqueue_insert:
  "jobs (snd (enqueue e ac inp d)) = jobs d
   \<or> jobs (snd (enqueue e ac inp d)) = jobs (snd (insert_job e ac (enqueue_row e ac inp) d))"
  by (simp add: enqueue_def split: option.split sum.split)

lemma enqueue_row_fields:
  "jr_id (enqueue_row e ac inp) = new_id e" "jr_org (enqueue_row e ac inp) = org_id ac"
  "jr_status (enqueue_row e ac inp) = StatusQueued" "jr_attempts (enqueue_row e ac inp) = 0"
  "1 \<le> jr_max_attempts (enqueue_row e ac inp)" "jr_key (enqueue_row e ac inp) = null_string (ei_key inp)"
  by (simp_all add: enqueue_row_def blank_row_def)

lemma submit_common_outcome:
  "jobs (snd (submit_common e flags ac df inp d)) = jobs d
   \<or> (\<exists>row. jobs (snd (submit_common e flags ac df inp d)) = jobs d @ [row] \<and> jr_id row = new_id e \<and> jr_org row = org_id ac
        \<and> jr_status row = StatusQueued \<and> jr_attempts row = 0 \<and> 1 \<le> jr_max_attempts row
        \<and> jr_operation row = Some (df_name df) \<and> jr_type row = df_name df \<and> jr_key row = null_string (si_key inp)
        \<and> (jr_key row \<noteq> None \<longrightarrow> (\<forall>q \<in> set (jobs d). \<not> (jr_org q = jr_org row \<and> jr_key q = jr_key row))))"
  by (auto simp: submit_common_def Let_def op_row_def blank_row_def dest!: find_NoneD split: option.split sum.split)

lemma submit_outcome:
  "jobs (snd (submit e flags defs ac inp d)) = jobs d
   \<or> (\<exists>df. defs (si_operation inp) = Some df \<and> authorised ac (df_permission df) \<and> df_tool_key df = []
        \<and> jobs (snd (submit e flags defs ac inp d)) = jobs (snd (submit_common e flags ac df inp d)))"
  by (auto simp: submit_def split: option.split)

text \<open>What a new row of either kind has in common.\<close>

definition fresh_row :: "uuid \<Rightarrow> job_row list \<Rightarrow> job_row \<Rightarrow> bool" where
  "fresh_row i tbl row \<longleftrightarrow> jr_id row = i \<and> jr_status row = StatusQueued \<and> jr_attempts row = 0 \<and> 1 \<le> jr_max_attempts row
     \<and> (jr_key row \<noteq> None \<longrightarrow> (\<forall>q \<in> set tbl. \<not> (jr_org q = jr_org row \<and> jr_key q = jr_key row)))"

lemma queue_ok_fresh: "queue_ok tbl \<Longrightarrow> fresh_row i tbl row \<Longrightarrow> i \<notin> jr_id ` set tbl \<Longrightarrow> queue_ok (tbl @ [row])"
  by (rule queue_ok_append) (auto simp: fresh_row_def attempts_ok_def)

lemma enqueue_fresh: "jobs (snd (enqueue e ac inp d)) = jobs d
    \<or> (\<exists>row. jobs (snd (enqueue e ac inp d)) = jobs d @ [row] \<and> fresh_row (new_id e) (jobs d) row)"
  using enqueue_insert [of e ac inp d] insert_job_outcome [of e ac "enqueue_row e ac inp" d]
  by (auto simp: fresh_row_def enqueue_row_fields key_taken_def list_ex_iff)

lemma submit_common_fresh: "jobs (snd (submit_common e flags ac df inp d)) = jobs d
    \<or> (\<exists>row. jobs (snd (submit_common e flags ac df inp d)) = jobs d @ [row] \<and> fresh_row (new_id e) (jobs d) row)"
  using submit_common_outcome [of e flags ac df inp d] by (simp add: fresh_row_def) blast

lemma submit_fresh: "jobs (snd (submit e flags defs ac inp d)) = jobs d
    \<or> (\<exists>row. jobs (snd (submit e flags defs ac inp d)) = jobs d @ [row] \<and> fresh_row (new_id e) (jobs d) row)"
  using submit_outcome [of e flags defs ac inp d] submit_common_fresh [of e flags ac _ inp d] by metis

lemma submit_trusted_fresh: "jobs (snd (submit_trusted e flags defs ac inp d)) = jobs d
    \<or> (\<exists>row. jobs (snd (submit_trusted e flags defs ac inp d)) = jobs d @ [row] \<and> fresh_row (new_id e) (jobs d) row)"
  using submit_common_fresh [of e flags ac _ inp d] by (auto simp: submit_trusted_def split: option.split)

section \<open>All callers of the queue\<close>

datatype job_op =
    JEnqueue env auth_context enqueue_input
  | JCancel env auth_context uuid
  | JRetry env auth_context uuid
  | JSubmit env auth_context submit_input
  | JSubmitTrusted env auth_context submit_input
  | JRequestCancel env auth_context uuid
  | JWork env env cancel_env "uuid \<Rightarrow> bool"
  | JRecover env

primrec job_step :: "flag_checker \<Rightarrow> 'w op_table \<Rightarrow> job_op \<Rightarrow> 'w jobs_db \<Rightarrow> 'w jobs_db" where
  "job_step flags defs (JEnqueue e ac inp) d = snd (enqueue e ac inp d)"
| "job_step flags defs (JCancel e ac i) d = snd (cancel_job e ac i d)"
| "job_step flags defs (JRetry e ac i) d = snd (retry_job e ac i d)"
| "job_step flags defs (JSubmit e ac inp) d = snd (submit e flags defs ac inp d)"
| "job_step flags defs (JSubmitTrusted e ac inp) d = snd (submit_trusted e flags defs ac inp d)"
| "job_step flags defs (JRequestCancel e ac i) d = snd (request_cancel e defs ac i d)"
| "job_step flags defs (JWork e e' c locked) d = snd (claim_and_run_one e locked (engine_handlers e' c defs) d)"
| "job_step flags defs (JRecover e) d = snd (recover_interrupted e d)"

primrec job_fresh :: "job_op \<Rightarrow> 'w jobs_db \<Rightarrow> bool" where
  "job_fresh (JEnqueue e ac inp) d = (new_id e \<notin> jr_id ` set (jobs d))"
| "job_fresh (JSubmit e ac inp) d = (new_id e \<notin> jr_id ` set (jobs d))"
| "job_fresh (JSubmitTrusted e ac inp) d = (new_id e \<notin> jr_id ` set (jobs d))"
| "job_fresh (JCancel e ac i) d = True"
| "job_fresh (JRetry e ac i) d = True"
| "job_fresh (JRequestCancel e ac i) d = True"
| "job_fresh (JWork e e' c locked) d = True"
| "job_fresh (JRecover e) d = True"

fun job_fresh_run :: "flag_checker \<Rightarrow> 'w op_table \<Rightarrow> job_op list \<Rightarrow> 'w jobs_db \<Rightarrow> bool" where
  "job_fresh_run flags defs [] d = True"
| "job_fresh_run flags defs (op # ops) d = (job_fresh op d \<and> job_fresh_run flags defs ops (job_step flags defs op d))"

lemma cancel_job_outcome:
  "jobs (snd (cancel_job e ac i d)) = jobs d
   \<or> jobs (snd (cancel_job e ac i d)) = update_where (\<lambda>r. jr_id r = i \<and> jr_org r = org_id ac \<and> jr_status r = StatusQueued)
       (\<lambda>r. r\<lparr>jr_status := StatusCancelled, jr_updated_at := db_now e, jr_finished_at := Some (db_now e)\<rparr>) (jobs d)"
  by (simp add: cancel_job_def Let_def split: option.split)

lemma retry_job_outcome:
  "jobs (snd (retry_job e ac i d)) = jobs d
   \<or> jobs (snd (retry_job e ac i d)) =
       update_where (\<lambda>r. jr_id r = i \<and> jr_org r = org_id ac \<and> jr_status r = StatusFailed) (requeued (db_now e)) (jobs d)"
  by (simp add: retry_job_def Let_def split: option.split list.split)

lemma request_cancel_outcome:
  "jobs (snd (request_cancel e defs ac i d)) = jobs d
   \<or> jobs (snd (request_cancel e defs ac i d)) =
       update_where (\<lambda>r. jr_id r = i \<and> jr_org r = org_id ac \<and> \<not> finished_status (jr_status r))
         (\<lambda>r. r\<lparr>jr_cancel_requested := True,
                     jr_status := (if jr_status r = StatusQueued then StatusCancelled else jr_status r),
                     jr_finished_at := (if jr_status r = StatusQueued then Some (db_now e) else jr_finished_at r),
                     jr_updated_at := db_now e\<rparr>) (jobs d)"
proof (cases "get_operation (fault e 0) ac i d")
  case (Inr v)
  then show ?thesis by (simp add: request_cancel_def Let_def)
qed (simp add: request_cancel_def)

lemma recover_outcome:
  "jobs (snd (recover_interrupted e d)) = jobs d
   \<or> jobs (snd (recover_interrupted e d)) =
       update_where (\<lambda>r. interrupted (jr_status r)) (\<lambda>r. r\<lparr>jr_status := StatusFailed, jr_error := Some interrupted_msg,
          jr_finished_at := Some (db_now e), jr_updated_at := db_now e\<rparr>) (jobs d)"
  by (simp add: recover_interrupted_def Let_def)

lemma job_step_queue_ok:
  assumes ok: "queue_ok (jobs d)" and fr: "job_fresh op d"
  shows "queue_ok (jobs (job_step flags defs op d))"
proof (cases op)
  case (JEnqueue e ac inp)
  then show ?thesis using enqueue_fresh [of e ac inp d] ok fr by (auto intro: queue_ok_fresh)
next
  case (JSubmit e ac inp)
  then show ?thesis using submit_fresh [of e flags defs ac inp d] ok fr by (auto intro: queue_ok_fresh)
next
  case (JSubmitTrusted e ac inp)
  then show ?thesis using submit_trusted_fresh [of e flags defs ac inp d] ok fr by (auto intro: queue_ok_fresh)
next
  case (JCancel e ac i)
  show ?thesis using cancel_job_outcome [of e ac i d] ok unfolding JCancel job_step.simps
    by (elim disjE) (simp, simp only:, rule queue_ok_update, auto simp: attempts_ok_def)
next
  case (JRetry e ac i)
  show ?thesis using retry_job_outcome [of e ac i d] ok unfolding JRetry job_step.simps
    by (elim disjE) (simp, simp only:, rule queue_ok_update, auto simp: attempts_ok_def requeued_def)
next
  case (JRequestCancel e ac i)
  show ?thesis using request_cancel_outcome [of e defs ac i d] ok unfolding JRequestCancel job_step.simps
    by (elim disjE) (simp, simp only:, rule queue_ok_update, auto simp: attempts_ok_def split: if_splits)
next
  case (JRecover e)
  show ?thesis using recover_outcome [of e d] ok unfolding JRecover job_step.simps
    by (elim disjE) (simp, simp only:, rule queue_ok_update, auto simp: attempts_ok_def)
next
  case (JWork e e' c locked)
  obtain b d' where w: "claim_and_run_one e locked (engine_handlers e' c defs) d = (b, d')" by force
  show ?thesis
  proof (cases b)
    case True
    then show ?thesis using ops.worker_round(1) [OF ok] w JWork by simp
  next
    case False
    then have "d' = d" using ops.idle_step [of e locked e' c defs d d'] w by simp
    then show ?thesis using w JWork ok by simp
  qed
qed

lemma job_run_queue_ok:
  "queue_ok (jobs d) \<Longrightarrow> job_fresh_run flags defs ops d \<Longrightarrow> queue_ok (jobs (run_ops (job_step flags defs) ops d))"
  by (induction ops arbitrary: d) (auto simp: job_step_queue_ok)

section \<open>How often a job is started\<close>

text \<open>
  Read off the calls themselves: a step starts the job \<open>i\<close> when its claim returns it, and \<open>Retry\<close> gives it
  its attempts back when it succeeds. \<open>started\<close> counts on from \<open>n\<close>, beginning again at each retry.
\<close>

definition starts :: "uuid \<Rightarrow> job_op \<Rightarrow> 'w jobs_db \<Rightarrow> bool" where
  "starts i op d \<longleftrightarrow> (case op of
     JWork e e' c locked \<Rightarrow> (case fst (claim_job e locked d) of Inr (Some j) \<Rightarrow> j_id j = i | _ \<Rightarrow> False) | _ \<Rightarrow> False)"

definition retries :: "uuid \<Rightarrow> job_op \<Rightarrow> 'w jobs_db \<Rightarrow> bool" where
  "retries i op d \<longleftrightarrow> (case op of JRetry e ac k \<Rightarrow> k = i \<and> \<not> isl (fst (retry_job e ac k d)) | _ \<Rightarrow> False)"

fun started :: "flag_checker \<Rightarrow> 'w op_table \<Rightarrow> uuid \<Rightarrow> int \<Rightarrow> job_op list \<Rightarrow> 'w jobs_db \<Rightarrow> int" where
  "started flags defs i n [] d = n"
| "started flags defs i n (op # ops) d =
     started flags defs i (if retries i op d then 0 else if starts i op d then n + 1 else n) ops (job_step flags defs op d)"

text \<open>The attempts the table records of a job; a job that is not there has none.\<close>

definition attempts_of :: "uuid \<Rightarrow> job_row list \<Rightarrow> int" where
  "attempts_of i tbl = (case find (\<lambda>r. jr_id r = i) tbl of None \<Rightarrow> 0 | Some r \<Rightarrow> jr_attempts r)"

lemma attempts_of_update:
  "(\<And>r. jr_id (f r) = jr_id r \<and> jr_attempts (f r) = jr_attempts r) \<Longrightarrow> attempts_of i (update_where p f tbl) = attempts_of i tbl"
  unfolding attempts_of_def by (induction tbl) auto

lemma attempts_of_append: "jr_attempts r = 0 \<Longrightarrow> attempts_of i (tbl @ [r]) = attempts_of i tbl"
  unfolding attempts_of_def by (induction tbl) auto

lemma attempts_of_worked:
  "list_all2 (worked k) xs ys \<Longrightarrow> attempts_of i ys = attempts_of i xs + (if i = k \<and> k \<in> jr_id ` set xs then 1 else 0)"
proof (induction rule: list_all2_induct)
  case (Cons x xs y ys)
  then show ?case by (cases "jr_id x = i"; cases "jr_id x = k") (auto simp: attempts_of_def worked_def)
qed (simp add: attempts_of_def)

lemma attempts_of_retry:
  assumes "pk jr_id (jobs d)"
  shows "attempts_of i (jobs (snd (retry_job e ac k d))) =
     (if retries i (JRetry e ac k) d then 0 else attempts_of i (jobs d))"
proof (cases "isl (fst (retry_job e ac k d))")
  case True
  then have "jobs (snd (retry_job e ac k d)) = jobs d"
    by (cases "Require ac perm_jobs_manage") (auto simp: retry_job_def Let_def simp del: Require_None split: list.splits if_splits)
  then show ?thesis using True by (simp add: retries_def)
next
  case False
  let ?hit = "\<lambda>r. jr_id r = k \<and> jr_org r = org_id ac \<and> jr_status r = StatusFailed"
  have j: "jobs (snd (retry_job e ac k d)) = update_where ?hit (requeued (db_now e)) (jobs d)"
    and h: "hit_rows ?hit (requeued (db_now e)) (jobs d) \<noteq> []"
    using False by (cases "Require ac perm_jobs_manage";
        auto simp: retry_job_def Let_def simp del: Require_None split: list.splits if_splits)+
  obtain r where r: "r \<in> set (jobs d)" "?hit r" using h by (fastforce simp: hit_rows_def filter_empty_conv)
  have only: "q = r" if "q \<in> set (jobs d)" "jr_id q = k" for q
    using pk_unique [OF assms that(1) r(1)] that(2) r(2) by simp
  have "attempts_of i (update_where ?hit (requeued (db_now e)) tbl) = (if i = k \<and> k \<in> jr_id ` set tbl then 0 else attempts_of i tbl)"
    if "set tbl \<subseteq> set (jobs d)" for tbl
    using that
  proof (induction tbl)
    case (Cons q tbl)
    have "?hit q" if "jr_id q = k" using only [of q] that Cons.prems r(2) by simp
    then show ?case using Cons by (cases "jr_id q = i"; cases "jr_id q = k") (auto simp: attempts_of_def requeued_def)
  qed (simp add: attempts_of_def)
  from this [OF subset_refl] show ?thesis using j False r by (auto simp: retries_def)
qed

lemma job_step_attempts:
  assumes "queue_ok (jobs d)"
  shows "attempts_of i (jobs (job_step flags defs op d)) =
     (if retries i op d then 0 else if starts i op d then attempts_of i (jobs d) + 1 else attempts_of i (jobs d))"
proof (cases op)
  case (JEnqueue e ac inp)
  then show ?thesis using enqueue_fresh [of e ac inp d] by (auto simp: retries_def starts_def fresh_row_def attempts_of_append)
next
  case (JSubmit e ac inp)
  then show ?thesis using submit_fresh [of e flags defs ac inp d] by (auto simp: retries_def starts_def fresh_row_def attempts_of_append)
next
  case (JSubmitTrusted e ac inp)
  then show ?thesis using submit_trusted_fresh [of e flags defs ac inp d] by (auto simp: retries_def starts_def fresh_row_def attempts_of_append)
next
  case (JCancel e ac k)
  then show ?thesis using cancel_job_outcome [of e ac k d]
    by (elim disjE) (simp_all add: retries_def starts_def attempts_of_update)
next
  case (JRetry e ac k)
  then show ?thesis using attempts_of_retry [of d i e ac k] assms by (simp add: queue_ok_def starts_def)
next
  case (JRequestCancel e ac k)
  then show ?thesis using request_cancel_outcome [of e defs ac k d]
    by (elim disjE) (simp_all add: retries_def starts_def attempts_of_update)
next
  case (JRecover e)
  then show ?thesis using recover_outcome [of e d]
    by (elim disjE) (simp_all add: retries_def starts_def attempts_of_update)
next
  case (JWork e e' c locked)
  obtain b d' where w: "claim_and_run_one e locked (engine_handlers e' c defs) d = (b, d')" by force
  have pk: "pk jr_id (jobs d)" using assms by (simp add: queue_ok_def)
  show ?thesis
  proof (cases b)
    case True
    then have "claim_and_run_one e locked (engine_handlers e' c defs) d = (True, d')" using w by simp
    from ops.worked_step [OF pk this] obtain r j d1 where r: "r \<in> set (jobs d)"
        "list_all2 (worked (jr_id r)) (jobs d) (jobs d')" "claim_job e locked d = (Inr (Some j), d1)" "j_id j = jr_id r" by blast
    then show ?thesis using attempts_of_worked [OF r(2), of i] w JWork by (auto simp: retries_def starts_def)
  next
    case False
    then have "d' = d" using ops.idle_step [of e locked e' c defs d d'] w by simp
    moreover have "\<not> starts i op d" using w False JWork
      by (auto simp: starts_def claim_and_run_one_def split: prod.splits sum.splits option.splits)
    ultimately show ?thesis using w JWork by (simp add: retries_def)
  qed
qed

lemma started_attempts:
  "queue_ok (jobs d) \<Longrightarrow> job_fresh_run flags defs ops d \<Longrightarrow>
   started flags defs i (attempts_of i (jobs d)) ops d = attempts_of i (jobs (run_ops (job_step flags defs) ops d))"
proof (induction ops arbitrary: d)
  case (Cons op ops)
  from Cons.prems have ok: "queue_ok (jobs (job_step flags defs op d))"
    and fresh: "job_fresh_run flags defs ops (job_step flags defs op d)" by (simp_all add: job_step_queue_ok)
  show ?case using Cons.IH [OF ok fresh] unfolding job_step_attempts [OF Cons.prems(1)] by simp
qed simp


text \<open>
  C26: the worker's drain loop ends: started on any queue satisfying the invariant, with any faults
  and any row locks held by other workers, it stops within one round more than the attempts left in
  the queue; and when it stops in a round without faults, every unlocked job has left the queue.
\<close>

theorem drain_ends_with_empty_queue:
  assumes "queue_ok (jobs d)" "queue_budget (jobs d) < n"
  shows "\<exists>d'. drain n envs locked (engine_handlers e c defs) d = Some d'
    \<and> ((\<forall>k m. \<not> fault (envs k) m) \<longrightarrow> (\<forall>r \<in> set (jobs d'). \<not> locked (jr_id r) \<longrightarrow> jr_status r \<noteq> StatusQueued))"
proof -
  obtain d' k where d: "drain n envs locked (engine_handlers e c defs) d = Some d'"
    and k: "claim_and_run_one (envs k) locked (engine_handlers e c defs) d' = (False, d')"
    using ops.drain_terminates [OF assms] by blast
  have "(\<forall>k m. \<not> fault (envs k) m) \<longrightarrow> (\<forall>r \<in> set (jobs d'). \<not> locked (jr_id r) \<longrightarrow> jr_status r \<noteq> StatusQueued)"
    using idle_means_empty [OF k] by blast
  with d show ?thesis by blast
qed

lemma claim_order_head:
  assumes "claim_order tbl = r # rest" "q \<in> set tbl"
  shows "jr_priority q \<le> jr_priority r" "jr_priority q = jr_priority r \<Longrightarrow> jr_created_at r \<le> jr_created_at q"
proof -
  let ?s = "sort_key jr_created_at tbl"
  have hd: "sort_key (\<lambda>r. - jr_priority r) ?s = r # rest" using assms(1) by (simp add: claim_order_def)
  have "sorted (map (\<lambda>r. - jr_priority r) (r # rest))" unfolding hd [symmetric] by (rule sorted_sort_key)
  moreover have q: "q \<in> set (r # rest)" unfolding hd [symmetric] using assms(2) by simp
  ultimately show "jr_priority q \<le> jr_priority r" by auto
  assume eq: "jr_priority q = jr_priority r"
  have "filter (\<lambda>x. - jr_priority x = - jr_priority r) (r # rest) = filter (\<lambda>x. - jr_priority x = - jr_priority r) ?s"
    unfolding hd [symmetric] by (rule sort_key_stable)
  then have f: "r # filter (\<lambda>x. - jr_priority x = - jr_priority r) rest = filter (\<lambda>x. - jr_priority x = - jr_priority r) ?s" by simp
  have "sorted (map jr_created_at (filter (\<lambda>x. - jr_priority x = - jr_priority r) ?s))"
    by (intro sorted_filter sorted_sort_key)
  then have s: "sorted (map jr_created_at (r # filter (\<lambda>x. - jr_priority x = - jr_priority r) rest))" unfolding f .
  show "jr_created_at r \<le> jr_created_at q"
  proof (cases "q = r")
    case False
    then have "q \<in> set (filter (\<lambda>x. - jr_priority x = - jr_priority r) rest)" using q eq by auto
    with s show ?thesis by auto
  qed simp
qed

text \<open>
  the claim is fair in the documented order: the claimed job was queued and not held by
  another worker, no such job has a higher priority, and among those of the same priority none is
  older; it is handed to the handler as running, with one more attempt.
\<close>

theorem claim_takes_first_in_line:
  assumes "claim_job e locked d = (Inr (Some j), d')"
  shows "\<exists>r \<in> set (jobs d). j_id j = jr_id r \<and> jr_status r = StatusQueued \<and> \<not> locked (jr_id r)
    \<and> j_status j = StatusRunning \<and> j_attempts j = jr_attempts r + 1
    \<and> (\<forall>q \<in> set (jobs d). jr_status q = StatusQueued \<and> \<not> locked (jr_id q) \<longrightarrow>
          jr_priority q \<le> jr_priority r \<and> (jr_priority q = jr_priority r \<longrightarrow> jr_created_at r \<le> jr_created_at q))"
proof -
  obtain r rest where
    c: "claim_order (filter (\<lambda>r. jr_status r = StatusQueued \<and> \<not> locked (jr_id r)) (jobs d)) = r # rest"
    and j: "j = scan_job (jr_timeout_seconds r) (claimed (db_now e) r)" and r: "r \<in> set (jobs d)" "jr_status r = StatusQueued"
      "\<not> locked (jr_id r)"
    and d1: "d' = d\<lparr>jobs := update_where (\<lambda>q. jr_id q = jr_id r) (claimed (db_now e)) (jobs d)\<rparr>"
    by (rule claim_job_SomeD [OF assms])
  have "jr_priority q \<le> jr_priority r \<and> (jr_priority q = jr_priority r \<longrightarrow> jr_created_at r \<le> jr_created_at q)"
    if "q \<in> set (jobs d)" "jr_status q = StatusQueued" "\<not> locked (jr_id q)" for q
    using claim_order_head [OF c, of q] that by simp
  with r j show ?thesis by (intro bexI [of _ r]) (simp_all add: scan_job_def claimed_def)
qed

section \<open>Finished jobs, idempotency, cancellation\<close>

lemma worked_keeps:
  assumes "list_all2 (worked i) xs ys" "r \<in> set xs" "jr_id r \<noteq> i"
  shows "r \<in> set ys"
  using assms by (induction rule: list_all2_induct) (auto simp: worked_def)

lemma keeps_row: "r \<in> set tbl \<Longrightarrow> \<not> p r \<Longrightarrow> r \<in> set (update_where p f tbl)"
  by (force simp: set_update_where)

lemma job_step_keeps_finished:
  assumes ok: "queue_ok (jobs d)" and r: "r \<in> set (jobs d)" and st: "finished_status (jr_status r)"
    and nr: "jr_status r = StatusFailed \<Longrightarrow> \<not> (\<exists>e ac. op = JRetry e ac (jr_id r))"
  shows "r \<in> set (jobs (job_step flags defs op d))"
proof (cases op)
  case (JEnqueue e ac inp)
  then show ?thesis using enqueue_fresh [of e ac inp d] r by auto
next
  case (JSubmit e ac inp)
  then show ?thesis using submit_fresh [of e flags defs ac inp d] r by auto
next
  case (JSubmitTrusted e ac inp)
  then show ?thesis using submit_trusted_fresh [of e flags defs ac inp d] r by auto
next
  case (JCancel e ac i)
  show ?thesis using cancel_job_outcome [of e ac i d] r st unfolding JCancel job_step.simps
    by (elim disjE) (simp, simp only:, rule keeps_row, auto simp: finished_status_def)
next
  case (JRetry e ac i)
  show ?thesis using retry_job_outcome [of e ac i d] r st nr unfolding JRetry job_step.simps
    by (elim disjE) (simp, simp only:, rule keeps_row, auto simp: finished_status_def)
next
  case (JRequestCancel e ac i)
  show ?thesis using request_cancel_outcome [of e defs ac i d] r st unfolding JRequestCancel job_step.simps
    by (elim disjE) (simp, simp only:, rule keeps_row, auto simp: finished_status_def)
next
  case (JRecover e)
  show ?thesis using recover_outcome [of e d] r st unfolding JRecover job_step.simps
    by (elim disjE) (simp, simp only:, rule keeps_row, auto simp: finished_status_def interrupted_def)
next
  case (JWork e e' c locked)
  obtain b d' where w: "claim_and_run_one e locked (engine_handlers e' c defs) d = (b, d')" by force
  show ?thesis
  proof (cases b)
    case True
    have pk: "pk jr_id (jobs d)" using ok by (simp add: queue_ok_def)
    have "claim_and_run_one e locked (engine_handlers e' c defs) d = (True, d')" using w True by simp
    from ops.worked_step [OF pk this] obtain q where
      q: "q \<in> set (jobs d)" "jr_status q = StatusQueued" "list_all2 (worked (jr_id q)) (jobs d) (jobs d')" by auto
    have "jr_id r \<noteq> jr_id q" using pk_unique [OF pk r q(1)] q(2) st by (auto simp: finished_status_def)
    from worked_keeps [OF q(3) r this] show ?thesis using JWork w by simp
  next
    case False
    then have "d' = d" using ops.idle_step [of e locked e' c defs d d'] w by simp
    then show ?thesis using w JWork r by simp
  qed
qed

lemma job_run_keeps_finished:
  "queue_ok (jobs d) \<Longrightarrow> job_fresh_run flags defs ops d \<Longrightarrow> r \<in> set (jobs d) \<Longrightarrow>
     finished_status (jr_status r) \<Longrightarrow> (jr_status r = StatusFailed \<Longrightarrow> \<forall>op \<in> set ops. \<not> (\<exists>e ac. op = JRetry e ac (jr_id r))) \<Longrightarrow>
     r \<in> set (jobs (run_ops (job_step flags defs) ops d))"
proof (induction ops arbitrary: d)
  case (Cons op ops)
  have "r \<in> set (jobs (job_step flags defs op d))"
    by (rule job_step_keeps_finished [OF Cons.prems(1,3,4)]) (use Cons.prems(5) in auto)
  then show ?case
    using Cons.IH [of "job_step flags defs op d"] Cons.prems job_step_queue_ok [OF Cons.prems(1)] by simp
qed simp

text \<open>
  C27: the outcome of a finished job is permanent: a succeeded or cancelled job's row is never
  rewritten by any sequence of operations, and a failed one only by an explicit retry of that job.
\<close>

theorem finished_jobs_are_final:
  assumes "queue_ok (jobs d)" "job_fresh_run flags defs ops d" "r \<in> set (jobs d)" "finished_status (jr_status r)"
    and "jr_status r = StatusFailed \<Longrightarrow> \<forall>op \<in> set ops. \<not> (\<exists>e ac. op = JRetry e ac (jr_id r))"
  shows "r \<in> set (jobs (run_ops (job_step flags defs) ops d))"
  using assms by (rule job_run_keeps_finished)

lemma pk_find_key:
  assumes "pk (\<lambda>r. (jr_org r, jr_key r)) (filter (\<lambda>r. jr_key r \<noteq> None) tbl)" "r \<in> set tbl" "jr_org r = o'" "jr_key r = Some k"
  shows "find (\<lambda>r. jr_org r = o' \<and> jr_key r = Some k) tbl = Some r"
  using assms
proof (induction tbl)
  case (Cons x tbl)
  show ?case
  proof (cases "jr_org x = o' \<and> jr_key x = Some k")
    case True
    have "r = x"
    proof (rule ccontr)
      assume "r \<noteq> x"
      then have "r \<in> set (filter (\<lambda>r. jr_key r \<noteq> None) tbl)" using Cons.prems by auto
      from imageI [OF this, of "\<lambda>r. (jr_org r, jr_key r)"] Cons.prems(1,3,4) True show False by (auto simp: pk_def)
    qed
    with True show ?thesis by simp
  next
    case False
    then have "r \<in> set tbl" using Cons.prems by auto
    moreover have "pk (\<lambda>r. (jr_org r, jr_key r)) (filter (\<lambda>r. jr_key r \<noteq> None) tbl)"
      using Cons.prems(1) by (auto simp: pk_def split: if_splits)
    ultimately show ?thesis using False Cons.IH Cons.prems(3,4) by auto
  qed
qed simp

text \<open>
  submission is idempotent: while a job with an idempotency key is in the table, in whatever
  state it is by then, submitting again with that key in its organization returns that job and
  changes nothing, both for plain jobs and for operations.
\<close>

theorem resubmission_is_idempotent:
  assumes "queue_ok (jobs d)" "r \<in> set (jobs d)" "jr_org r = org_id ac" "jr_key r = Some k" "k \<noteq> []"
    and "\<not> fault e 0" "\<not> fault e 1"
  shows "(authorised ac perm_jobs_manage \<and> ei_type inp \<noteq> [] \<and> ei_key inp = k \<longrightarrow>
            enqueue e ac inp d = (Inr (scan_job 0 r), d))
    \<and> (\<not> flag_off flags (org_id ac) (df_flag df) \<and> si_payload si = Some p \<and> si_key si = k
        \<and> df_factory df (org_id ac) (si_project si) (normal_payload p) = Inr op
        \<and> op_validate op (outside d) = None \<and> int4 (df_timeout_seconds df) \<longrightarrow>
            submit_common e flags ac df si d = (Inr \<lparr>jf_job = jr_id r, jf_created = False\<rparr>, d))"
proof -
  have f: "find (\<lambda>r. jr_org r = org_id ac \<and> jr_key r = Some k) (jobs d) = Some r"
    by (rule pk_find_key) (use assms in \<open>simp_all add: queue_ok_def\<close>)
  show ?thesis
  proof (intro conjI impI; elim conjE)
    assume a: "authorised ac perm_jobs_manage" "ei_type inp \<noteq> []" "ei_key inp = k"
    have "Require ac perm_jobs_manage = None" using a(1) by simp
    then show "enqueue e ac inp d = (Inr (scan_job 0 r), d)"
      using a(2,3) assms(5,6) f by (simp add: enqueue_def find_by_idempotency_key_def del: Require_None)
  next
    assume "\<not> flag_off flags (org_id ac) (df_flag df)" "si_payload si = Some p" "si_key si = k"
      "df_factory df (org_id ac) (si_project si) (normal_payload p) = Inr op"
      "op_validate op (outside d) = None" "int4 (df_timeout_seconds df)"
    then show "submit_common e flags ac df si d = (Inr \<lparr>jf_job = jr_id r, jf_created = False\<rparr>, d)"
      using assms(5-7) f by (simp add: submit_common_def op_row_def null_string_def)
  qed
qed

text \<open>
  who may cancel an operation: when \<open>RequestCancel\<close> succeeds, the caller may read operations,
  the operation belongs to the caller's organization and had not finished, the caller created it,
  holds its permission or is the system; and exactly its flag is set, a queued one being cancelled
  on the spot while a running one keeps its status.
\<close>

theorem request_cancel_effect:
  assumes "request_cancel e defs ac i d = (Inr (), d')" "pk jr_id (jobs d)"
  shows "authorised ac perm_operations_read \<and> (\<exists>r \<in> set (jobs d). jr_id r = i \<and> jr_org r = org_id ac
      \<and> jr_operation r \<noteq> None \<and> \<not> finished_status (jr_status r)
      \<and> (jr_creator r = Some (actor_id ac) \<or> actor_type ac = ActorSystem
          \<or> (\<exists>df. defs (coalesce (jr_operation r) (jr_type r)) = Some df \<and> HasPermission ac (df_permission df)))
      \<and> (\<exists>r' \<in> set (jobs d'). same_job r r' \<and> jr_cancel_requested r'
            \<and> jr_status r' = (if jr_status r = StatusQueued then StatusCancelled else jr_status r))
      \<and> (\<forall>q \<in> set (jobs d). q \<noteq> r \<longrightarrow> q \<in> set (jobs d')))"
proof -
  obtain v where v: "get_operation (fault e 0) ac i d = Inr v"
    using assms(1) by (cases "get_operation (fault e 0) ac i d") (auto simp: request_cancel_def)
  then obtain r where f: "find (\<lambda>r. jr_id r = i \<and> jr_org r = org_id ac \<and> jr_operation r \<noteq> None) (jobs d) = Some r"
    and vv: "v = scan_view r" and au: "authorised ac perm_operations_read"
    by (auto simp: get_operation_def split: option.splits if_splits)
  from find_SomeD [OF f] have r: "r \<in> set (jobs d)" "jr_id r = i" "jr_org r = org_id ac" "jr_operation r \<noteq> None" by auto
  let ?hit = "\<lambda>r. jr_id r = i \<and> jr_org r = org_id ac \<and> \<not> finished_status (jr_status r)"
  let ?f = "\<lambda>r. r\<lparr>jr_cancel_requested := True,
                     jr_status := (if jr_status r = StatusQueued then StatusCancelled else jr_status r),
                     jr_finished_at := (if jr_status r = StatusQueued then Some (db_now e) else jr_finished_at r),
                     jr_updated_at := db_now e\<rparr>"
  have allowed: "ov_creator v = Some (actor_id ac) \<or> \<not> (case defs (ov_operation v) of None \<Rightarrow> True | Some df \<Rightarrow> \<not> HasPermission ac (df_permission df))
      \<or> actor_type ac = ActorSystem"
    and nf: "\<not> finished_status (ov_status v)"
    and d': "jobs d' = update_where ?hit ?f (jobs d)"
    using assms(1) v by (auto simp: request_cancel_def Let_def split: if_splits)
  have only: "q = r" if "q \<in> set (jobs d)" "jr_id q = i" for q
    using pk_unique [OF assms(2) that(1) r(1)] that(2) r(2) by simp
  have hr: "?hit r" using r nf vv by (simp add: scan_view_def)
  have perm: "jr_creator r = Some (actor_id ac) \<or> actor_type ac = ActorSystem
          \<or> (\<exists>df. defs (coalesce (jr_operation r) (jr_type r)) = Some df \<and> HasPermission ac (df_permission df))"
    using allowed vv by (auto simp: scan_view_def split: option.splits)
  have new: "?f r \<in> set (jobs d')" unfolding d' set_update_where using r(1) hr by force
  have rest: "q \<in> set (jobs d')" if "q \<in> set (jobs d)" "q \<noteq> r" for q
    unfolding d' by (rule keeps_row [OF that(1)]) (use only [OF that(1)] that(2) in blast)
  have "\<exists>r' \<in> set (jobs d'). same_job r r' \<and> jr_cancel_requested r'
            \<and> jr_status r' = (if jr_status r = StatusQueued then StatusCancelled else jr_status r)"
    by (rule bexI [OF _ new]) (simp add: same_job_def)
  with au r hr perm rest show ?thesis by blast
qed

end
