(* ===== verification/Saga_Rules.thy ===== *)
theory Saga_Rules
  imports Ops_Engine
begin

text \<open>
  Reasoning about one execution of a step-wise operation. \<open>Inv k\<close> is what holds before step \<open>k\<close>, \<open>Bad k\<close>
  what holds while the undos of the steps below \<open>k\<close> are still to run; both see the run's state and the
  world. The rule turns conditions on the single steps into one on the execution.
\<close>

section \<open>Conditions on a step\<close>

text \<open>
  \<open>Bad\<close> may depend on whether every undo so far went through: the flag the engine writes to the job's
  \<open>rolled_back\<close> column. An undo that fails clears it.
\<close>

definition step_tracks ::
  "(nat \<Rightarrow> run_state \<Rightarrow> 'w \<Rightarrow> bool) \<Rightarrow> (bool \<Rightarrow> nat \<Rightarrow> run_state \<Rightarrow> 'w \<Rightarrow> bool) \<Rightarrow> nat \<Rightarrow> 'w op_step \<Rightarrow> bool" where
  "step_tracks Inv Bad k st \<longleftrightarrow>
     (\<forall>poll rs w. Inv k rs w \<longrightarrow>
        (case safe_run (os_run st) poll rs w of
           (None, rs', w') \<Rightarrow> Inv (Suc k) rs' w'
         | (Some x, rs', w') \<Rightarrow> Bad True (Suc k) rs' w')) \<and>
     (\<forall>ok poll rs w. Bad ok (Suc k) rs w \<longrightarrow>
        (case safe_run (os_undo st) poll rs w of (x, rs', w') \<Rightarrow> Bad (ok \<and> x = None) k rs' w'))"

definition step_keeps ::
  "(nat \<Rightarrow> run_state \<Rightarrow> 'w \<Rightarrow> bool) \<Rightarrow> (nat \<Rightarrow> run_state \<Rightarrow> 'w \<Rightarrow> bool) \<Rightarrow> nat \<Rightarrow> 'w op_step \<Rightarrow> bool" where
  "step_keeps Inv Bad k st \<longleftrightarrow> step_tracks Inv (\<lambda>ok. Bad) k st"

lemma step_tracksI:
  assumes "\<And>poll rs w. Inv k rs w \<Longrightarrow>
      (case safe_run (os_run st) poll rs w of (None, rs', w') \<Rightarrow> Inv (Suc k) rs' w' | (Some x, rs', w') \<Rightarrow> Bad True (Suc k) rs' w')"
    and "\<And>ok poll rs w. Bad ok (Suc k) rs w \<Longrightarrow>
      (case safe_run (os_undo st) poll rs w of (x, rs', w') \<Rightarrow> Bad (ok \<and> x = None) k rs' w')"
  shows "step_tracks Inv Bad k st"
  using assms by (simp add: step_tracks_def)

lemma step_keepsI:
  assumes "\<And>poll rs w. Inv k rs w \<Longrightarrow>
      (case safe_run (os_run st) poll rs w of (None, rs', w') \<Rightarrow> Inv (Suc k) rs' w' | (Some x, rs', w') \<Rightarrow> Bad (Suc k) rs' w')"
    and "\<And>poll rs w. Bad (Suc k) rs w \<Longrightarrow> (case safe_run (os_undo st) poll rs w of (_, rs', w') \<Rightarrow> Bad k rs' w')"
  shows "step_keeps Inv Bad k st"
  unfolding step_keeps_def using assms by (intro step_tracksI) auto

lemma step_runs:
  "step_tracks Inv Bad k st \<Longrightarrow> Inv k rs w \<Longrightarrow>
     (case safe_run (os_run st) poll rs w of (None, rs', w') \<Rightarrow> Inv (Suc k) rs' w' | (Some x, rs', w') \<Rightarrow> Bad True (Suc k) rs' w')"
  by (simp add: step_tracks_def)

lemma step_undoes:
  "step_tracks Inv Bad k st \<Longrightarrow> Bad ok (Suc k) rs w \<Longrightarrow>
     (case safe_run (os_undo st) poll rs w of (x, rs', w') \<Rightarrow> Bad (ok \<and> x = None) k rs' w')"
  by (simp add: step_tracks_def)

fun steps_track ::
  "(nat \<Rightarrow> run_state \<Rightarrow> 'w \<Rightarrow> bool) \<Rightarrow> (bool \<Rightarrow> nat \<Rightarrow> run_state \<Rightarrow> 'w \<Rightarrow> bool) \<Rightarrow> nat \<Rightarrow> 'w op_step list \<Rightarrow> bool" where
  "steps_track Inv Bad k [] = True"
| "steps_track Inv Bad k (st # sts) = (step_tracks Inv Bad k st \<and> steps_track Inv Bad (Suc k) sts)"

fun steps_keep ::
  "(nat \<Rightarrow> run_state \<Rightarrow> 'w \<Rightarrow> bool) \<Rightarrow> (nat \<Rightarrow> run_state \<Rightarrow> 'w \<Rightarrow> bool) \<Rightarrow> nat \<Rightarrow> 'w op_step list \<Rightarrow> bool" where
  "steps_keep Inv Bad k [] = True"
| "steps_keep Inv Bad k (st # sts) = (step_keeps Inv Bad k st \<and> steps_keep Inv Bad (Suc k) sts)"

lemma steps_keep_tracks: "steps_keep Inv Bad k sts \<Longrightarrow> steps_track Inv (\<lambda>ok. Bad) k sts"
  by (induction sts arbitrary: k) (simp_all add: step_keeps_def)

section \<open>The step loop and the rollback\<close>

lemma outside_bookkeeping [simp]:
  "outside (begin_step e jid k d) = outside d" "outside (end_step e n jid k st msg d) = outside d"
  "outside (set_progress e k i p d) = outside d" "outside (arrive c k i d) = outside d"
  "outside (op_audit failed j a ok d) = outside d" "outside (notify j kind d) = outside d"
  "outside (op_fail e j d) = outside d" "outside (set_job failed i f d) = outside d"
  by (simp_all add: begin_step_def end_step_def set_progress_def arrive_def op_audit_def notify_def op_fail_def set_job_def)

text \<open>The job is recorded as rolled back.\<close>

definition rolled_back :: "uuid \<Rightarrow> 'w jobs_db \<Rightarrow> bool" where
  "rolled_back i d \<longleftrightarrow> list_ex (\<lambda>r. jr_id r = i \<and> jr_rolled_back r) (jobs d)"

lemma rolled_back_frame: "jobs d' = jobs d \<Longrightarrow> rolled_back i d' = rolled_back i d"
  by (simp add: rolled_back_def)

lemma jobs_bookkeeping [simp]:
  "jobs (begin_step e jid k d) = jobs d" "jobs (end_step e n jid k st msg d) = jobs d"
  "jobs (op_audit failed j a ok d) = jobs d" "jobs (notify j kind d) = jobs d"
  by (simp_all add: begin_step_def end_step_def op_audit_def notify_def)

lemma rolled_back_bookkeeping [simp]:
  "rolled_back i (begin_step e jid k d) = rolled_back i d" "rolled_back i (end_step e n jid k st msg d) = rolled_back i d"
  "rolled_back i (op_audit failed j a ok d) = rolled_back i d" "rolled_back i (notify j kind d) = rolled_back i d"
  "rolled_back i (d\<lparr>outside := w\<rparr>) = rolled_back i d" "rolled_back i (d\<lparr>job_steps := tbl\<rparr>) = rolled_back i d"
  by (rule rolled_back_frame, simp)+

lemma rolled_back_set_job:
  "(\<And>r. jr_id (f r) = jr_id r \<and> jr_rolled_back (f r) = jr_rolled_back r) \<Longrightarrow>
   rolled_back i (set_job failed jid f d) = rolled_back i d"
  by (auto simp: rolled_back_def set_job_def list_ex_iff update_where_def)

lemma rolled_back_updates [simp]:
  "rolled_back i (set_progress e k jid p d) = rolled_back i d" "rolled_back i (arrive c k jid d) = rolled_back i d"
  "rolled_back i (set_job failed jid (\<lambda>r. r\<lparr>jr_status := st, jr_updated_at := t\<rparr>) d) = rolled_back i d"
  by (simp_all add: set_progress_def arrive_def rolled_back_set_job)

lemma rolled_back_recorded:
  assumes "rolled_back i (set_job failed i (\<lambda>r. r\<lparr>jr_rolled_back := ok, jr_updated_at := t\<rparr>) d)" "\<not> ok"
  shows "rolled_back i d"
proof (cases failed)
  case True
  then show ?thesis using assms(1) by (simp add: set_job_def)
next
  case False
  then have "list_ex (\<lambda>r. jr_id r = i \<and> jr_rolled_back r)
      (map (\<lambda>r. if jr_id r = i then r\<lparr>jr_rolled_back := ok, jr_updated_at := t\<rparr> else r) (jobs d))"
    using assms(1) by (simp add: set_job_def rolled_back_def update_where_def)
  then obtain r where "r \<in> set (jobs d)" "jr_id r = i" "jr_rolled_back r"
    using assms(2) by (auto simp only: list_ex_iff set_map split: if_splits) simp_all
  then show ?thesis by (auto simp: rolled_back_def list_ex_iff)
qed

lemma run_steps_keep:
  assumes "steps_track Inv Bad i sts" and "\<And>k rs w. k < i + length sts \<Longrightarrow> Inv k rs w \<Longrightarrow> Bad True k rs w"
    and "Inv i rs (outside d)"
  shows "case run_steps e c jid n i sts rs d of
      (None, k, rs', d') \<Rightarrow> k = i + length sts \<and> Inv k rs' (outside d')
    | (Some x, k, rs', d') \<Rightarrow> i \<le> k \<and> k \<le> i + length sts \<and> Bad True k rs' (outside d') \<and>
        rolled_back jid d' = rolled_back jid d"
  using assms
proof (induction sts arbitrary: i rs d)
  case (Cons st sts)
  let ?d0 = "arrive c i jid d"
  let ?d1 = "begin_step e jid i ?d0"
  let ?p = "\<lambda>k. cancel_requested False jid ?d1 \<or> ce_during c i k"
  obtain y rs1 w where s: "safe_run (os_run st) ?p rs (outside ?d1) = (y, rs1, w)" by (metis prod_cases3)
  have keeps: "case (y, rs1, w) of (None, rs', w') \<Rightarrow> Inv (Suc i) rs' w' | (Some x, rs', w') \<Rightarrow> Bad True (Suc i) rs' w'"
    using Cons.prems s step_runs [of Inv Bad i st rs "outside ?d1" ?p] by simp
  show ?case
  proof (cases "cancel_requested (fault e (slot i 1)) jid ?d0")
    case True
    then show ?thesis using Cons.prems by (auto simp: Let_def)
  next
    case False
    show ?thesis
    proof (cases y)
      case None
      let ?d2 = "set_progress e i jid (progress_of (Suc i) n) (end_step e 3 jid i ''succeeded'' None (?d1\<lparr>outside := w\<rparr>))"
      have "Inv (Suc i) rs1 (outside ?d2)" using keeps None by simp
      moreover have "Bad True k rs w" if "k < Suc i + length sts" "Inv k rs w" for k rs w
        using Cons.prems(2) that by simp
      ultimately show ?thesis using Cons.IH [of "Suc i" rs1 ?d2] Cons.prems(1) False s None
        by (auto simp: Let_def split: prod.splits option.splits)
    qed (use False s keeps in \<open>auto simp: Let_def\<close>)
  qed
qed simp

lemma undo_steps_keep:
  assumes "\<And>j st. (j, st) \<in> set (zip [i..<k] (take (k - i) sts)) \<Longrightarrow> step_tracks Inv Bad j st"
    and "k \<le> i + length sts" "i \<le> k" "Bad ok k rs (outside d)"
  shows "case undo_steps e jid (rev (zip [i..<k] (take (k - i) sts))) ok rs d of
      (ok', rs', d') \<Rightarrow> Bad ok' i rs' (outside d') \<and> rolled_back jid d' = rolled_back jid d"
  using assms
proof (induction "k - i" arbitrary: k ok rs d)
  case (Suc m)
  then obtain k' where k: "k = Suc k'" "i \<le> k'" by (cases k) auto
  let ?st = "sts ! (k' - i)"
  have z: "zip [i..<k] (take (k - i) sts) = zip [i..<k'] (take (k' - i) sts) @ [(k', ?st)]"
    using k Suc.prems(2) by (simp add: Suc_diff_le take_Suc_conv_app_nth)
  have keeps: "step_tracks Inv Bad k' ?st" using Suc.prems(1) unfolding z by simp
  have rest: "\<And>j st. (j, st) \<in> set (zip [i..<k'] (take (k' - i) sts)) \<Longrightarrow> step_tracks Inv Bad j st"
    using Suc.prems(1) unfolding z by simp
  have IH: "case undo_steps e jid (rev (zip [i..<k'] (take (k' - i) sts))) ok rs d of
      (ok', rs', d') \<Rightarrow> Bad ok' i rs' (outside d') \<and> rolled_back jid d' = rolled_back jid d"
    if "Bad ok k' rs (outside d)" for ok rs d
    using Suc.hyps(1) [of k' ok rs d, OF _ rest] Suc.hyps(2) Suc.prems(2) k that by simp
  show ?case
  proof (cases "os_undo ?st")
    case None
    then have "Bad ok k' rs (outside d)"
      using step_undoes [OF keeps, of ok rs "outside d"] Suc.prems(4) by (simp add: k(1) safe_run_def)
    then show ?thesis using IH [of ok rs d] None unfolding z by simp
  next
    case (Some u)
    obtain x rs1 w where s: "safe_run (Some u) (\<lambda>_. cancel_requested False jid d) rs (outside d) = (x, rs1, w)" by (metis prod_cases3)
    have "Bad (ok \<and> x = None) k' rs1 w"
      using step_undoes [OF keeps, of ok rs "outside d" "\<lambda>_. cancel_requested False jid d"] Suc.prems(4) s Some by (simp add: k(1))
    then show ?thesis
      using IH [of False rs1 "end_step e 5 jid k' ''rollback_failed'' (Some (op_error_text (the x))) (d\<lparr>outside := w\<rparr>)"]
        IH [of ok rs1 "end_step e 5 jid k' ''rolled_back'' None (d\<lparr>outside := w\<rparr>)"]
        Some s unfolding z by (cases x) simp_all
  qed
qed simp

lemma steps_track_nth:
  "steps_track Inv Bad i sts \<Longrightarrow> (j, st) \<in> set (zip [i..<k] (take (k - i) sts)) \<Longrightarrow> step_tracks Inv Bad j st"
proof (induction sts arbitrary: i)
  case (Cons st' sts)
  show ?case
  proof (cases "i < k")
    case True
    then have "zip [i..<k] (take (k - i) (st' # sts)) = (i, st') # zip [Suc i..<k] (take (k - Suc i) sts)"
      by (simp add: upt_conv_Cons take_Cons')
    then show ?thesis using Cons by auto
  qed (use Cons in simp)
qed simp

section \<open>The execution\<close>

text \<open>
  A failed execution ends with \<open>Bad ok\<close> where \<open>ok\<close> says whether all undos went through; if the job is
  recorded as rolled back and was not before, they did.
\<close>

theorem execution_tracks:
  assumes "engine_execute e c df j d = (r, d')"
    and "\<And>row op'. find (\<lambda>r. jr_id r = j_id j) (jobs d) = Some row \<Longrightarrow>
        df_factory df (j_org j) (coalesce (jr_project row) uuid_nil) (j_payload j) = Inr op' \<Longrightarrow> op' = op"
    and "op_body op = StepperOp sts" and "steps_track Inv Bad 0 sts"
    and "\<And>k rs w. k < length sts \<Longrightarrow> Inv k rs w \<Longrightarrow> Bad True k rs w"
    and "op_validate op (outside d) = None \<Longrightarrow> Inv 0 \<lparr>rs_state = [], rs_result = None\<rparr> (outside d)"
  obtains (succeeded) res rs where "r = JobDone res" "Inv (length sts) rs (outside d')"
  | (refused) "outside d' = outside d" "\<And>res. r \<noteq> JobDone res"
  | (failed) ok rs where "Bad ok 0 rs (outside d')" "\<And>res. r \<noteq> JobDone res" "op_validate op (outside d) = None"
      "rolled_back (j_id j) d' \<Longrightarrow> ok \<or> rolled_back (j_id j) d"
proof (cases "fault e 0 \<or> find (\<lambda>r. jr_id r = j_id j) (jobs d) = None \<or>
    (\<exists>row x. find (\<lambda>r. jr_id r = j_id j) (jobs d) = Some row \<and>
       df_factory df (j_org j) (coalesce (jr_project row) uuid_nil) (j_payload j) = Inl x)")
  case True
  then show ?thesis using assms(1) refused by (cases "fault e 0") (auto simp: engine_execute_def)
next
  case False
  then obtain row op' where row: "find (\<lambda>r. jr_id r = j_id j) (jobs d) = Some row" "\<not> fault e 0"
    and op': "df_factory df (j_org j) (coalesce (jr_project row) uuid_nil) (j_payload j) = Inr op'"
    by (metis (no_types, lifting) not_None_eq obj_sumE)
  note fac = op' [unfolded assms(2) [OF row(1) op']]
  let ?d1 = "op_audit (fault e 2) j ''operations.operation.started'' True d"
  show ?thesis
  proof (cases "op_validate op (outside d)")
    case (Some x)
    then show ?thesis using assms(1) row fac refused by (auto simp: engine_execute_def Let_def)
  next
    case None
    obtain ok tbl where i: "init_steps e j 0 (steps_of op) (job_steps ?d1) = (ok, tbl)" by force
    have sts: "steps_of op = sts" using assms(3) by (simp add: steps_of_def)
    show ?thesis
    proof (cases ok)
      case False
      then show ?thesis using assms(1) row fac None i refused by (auto simp: engine_execute_def Let_def)
    next
      case True
      let ?rs = "\<lparr>rs_state = [], rs_result = None\<rparr>"
      obtain x k rs d2 where run: "run_steps e c (j_id j) (length sts) 0 sts ?rs (?d1\<lparr>job_steps := tbl\<rparr>) = (x, k, rs, d2)"
        by (metis prod_cases4)
      have inv: "Inv 0 ?rs (outside (?d1\<lparr>job_steps := tbl\<rparr>))" using assms(6) [OF None] by simp
      note keep = run_steps_keep [OF assms(4) _ inv, where e = e and c = c and jid = "j_id j" and n = "length sts", unfolded run add_0, OF assms(5)]
      show ?thesis
      proof (cases x)
        case None
        then show ?thesis using keep assms(1) row fac \<open>op_validate op (outside d) = None\<close> i True sts run
          by (intro succeeded [of "Some (coalesce (rs_result rs) JNull)" rs]) (auto simp: engine_execute_def Let_def)
      next
        case (Some y)
        have k: "k \<le> length sts" and bad: "Bad True k rs (outside d2)"
          and mark: "rolled_back (j_id j) d2 = rolled_back (j_id j) d" using keep Some by auto
        let ?d3 = "set_job (fault e 3) (j_id j) (\<lambda>r. r\<lparr>jr_status := StatusRollingBack, jr_updated_at := db_now e\<rparr>) d2"
        obtain ok' rs' d4 where u: "undo_steps e (j_id j) (covered k sts) True rs ?d3 = (ok', rs', d4)" by (metis prod_cases3)
        have "case undo_steps e (j_id j) (rev (zip [0..<k] (take (k - 0) sts))) True rs ?d3 of
            (ok', rs', d') \<Rightarrow> Bad ok' 0 rs' (outside d') \<and> rolled_back (j_id j) d' = rolled_back (j_id j) ?d3"
          using steps_track_nth [OF assms(4)] k bad by (intro undo_steps_keep) auto
        then have b0: "Bad ok' 0 rs' (outside d4)" "rolled_back (j_id j) d4 = rolled_back (j_id j) d"
          using u mark by (simp_all add: covered_def)
        have exec: "engine_execute e c df j d = fail_and_roll_back e j op y k rs d2"
          using row fac \<open>op_validate op (outside d) = None\<close> i True sts run Some by (simp add: engine_execute_def Let_def)
        let ?d5 = "set_job (fault e 4) (j_id j) (\<lambda>r. r\<lparr>jr_rolled_back := ok', jr_updated_at := db_now e\<rparr>) d4"
        have "outside d' = outside d4 \<and> (\<forall>res. r \<noteq> JobDone res) \<and> rolled_back (j_id j) d' = rolled_back (j_id j) ?d5"
          using assms(1,3) u unfolding exec by (cases y) (auto simp: fail_and_roll_back_def roll_back_def Let_def)
        moreover have "ok' \<or> rolled_back (j_id j) d" if "rolled_back (j_id j) ?d5"
          using rolled_back_recorded [OF that] b0(2) by blast
        ultimately show ?thesis using failed [of ok' rs'] b0(1) \<open>op_validate op (outside d) = None\<close> by auto
      qed
    qed
  qed
qed

theorem execution_keeps:
  assumes "engine_execute e c df j d = (r, d')"
    and "\<And>row op'. find (\<lambda>r. jr_id r = j_id j) (jobs d) = Some row \<Longrightarrow>
        df_factory df (j_org j) (coalesce (jr_project row) uuid_nil) (j_payload j) = Inr op' \<Longrightarrow> op' = op"
    and "op_body op = StepperOp sts" and "steps_keep Inv Bad 0 sts"
    and "\<And>k rs w. k < length sts \<Longrightarrow> Inv k rs w \<Longrightarrow> Bad k rs w"
    and "op_validate op (outside d) = None \<Longrightarrow> Inv 0 \<lparr>rs_state = [], rs_result = None\<rparr> (outside d)"
  obtains (succeeded) res rs where "r = JobDone res" "Inv (length sts) rs (outside d')"
  | (refused) "outside d' = outside d" "\<And>res. r \<noteq> JobDone res"
  | (failed) rs where "Bad 0 rs (outside d')" "\<And>res. r \<noteq> JobDone res" "op_validate op (outside d) = None"
  by (rule execution_tracks [OF assms(1,2,3) steps_keep_tracks [OF assms(4)] assms(5,6)]) (assumption | rule that)+

section \<open>An invariant of executions\<close>

lemma steps_keep_each:
  "(\<And>st k. st \<in> set sts \<Longrightarrow> step_keeps Inv Bad k st) \<Longrightarrow> steps_keep Inv Bad k sts"
  by (induction sts arbitrary: k) auto

lemma execution_invariant:
  assumes "engine_execute e c df j d = (r, d')" and "J (outside d)"
    and "\<And>i op. df_factory df (j_org j) i (j_payload j) = Inr op \<Longrightarrow>
      \<exists>sts. op_body op = StepperOp sts \<and> (\<forall>st \<in> set sts. \<forall>k. step_keeps (\<lambda>_ _. J) (\<lambda>_ _. J) k st)"
  shows "J (outside d')"
proof (cases "\<exists>row op. find (\<lambda>r. jr_id r = j_id j) (jobs d) = Some row \<and>
      df_factory df (j_org j) (coalesce (jr_project row) uuid_nil) (j_payload j) = Inr op")
  case False
  then have "outside d' = outside d"
    using assms(1) unfolding engine_execute_def by (auto split: option.splits sum.splits if_splits)
  then show ?thesis using assms(2) by simp
next
  case True
  then obtain row op where f: "find (\<lambda>r. jr_id r = j_id j) (jobs d) = Some row"
    "df_factory df (j_org j) (coalesce (jr_project row) uuid_nil) (j_payload j) = Inr op" by blast
  obtain sts where sts: "op_body op = StepperOp sts" "\<forall>st \<in> set sts. \<forall>k. step_keeps (\<lambda>_ _. J) (\<lambda>_ _. J) k st"
    using assms(3) [OF f(2)] by blast
  then have "steps_keep (\<lambda>k (rs :: run_state). J) (\<lambda>k rs. J) 0 sts" by (intro steps_keep_each) simp
  from execution_keeps [OF assms(1) _ sts(1) this] f assms(2) show ?thesis by fastforce
qed

section \<open>Weakest preconditions of step functions\<close>

text \<open>\<open>ends r Ok Err\<close>: how a step function ended satisfies \<open>Ok\<close> or \<open>Err\<close>.\<close>

named_theorems ends "how the pieces of step functions end"

definition ends ::
  "step_end \<times> run_state \<times> 'w \<Rightarrow> (run_state \<Rightarrow> 'w \<Rightarrow> bool) \<Rightarrow> (run_state \<Rightarrow> 'w \<Rightarrow> bool) \<Rightarrow> bool" where
  "ends r Ok Err \<longleftrightarrow> (case r of (StepOk, rs, w) \<Rightarrow> Ok rs w | (_, rs, w) \<Rightarrow> Err rs w)"

lemma ends_simps [simp]:
  "ends (StepOk, rs, w) Ok Err = Ok rs w" "ends (StepErr x, rs, w) Ok Err = Err rs w"
  "ends (StepPanic t, rs, w) Ok Err = Err rs w"
  by (simp_all add: ends_def)

lemma ends_weaken: "ends r Ok Err \<Longrightarrow> (\<And>rs w. Ok rs w \<Longrightarrow> Ok' rs w) \<Longrightarrow> (\<And>rs w. Err rs w \<Longrightarrow> Err' rs w) \<Longrightarrow> ends r Ok' Err'"
  by (cases r) (auto simp: ends_def split: step_end.splits)

lemma safe_run_ends:
  "ends (f poll rs w) Ok Err \<Longrightarrow>
     (case safe_run (Some f) poll rs w of (None, rs', w') \<Rightarrow> Ok rs' w' | (Some x, rs', w') \<Rightarrow> Err rs' w')"
  by (cases "f poll rs w") (auto simp: ends_def safe_run_def split: step_end.splits)

lemma safe_undo_ends:
  "ends (f poll rs w) Ok Err \<Longrightarrow>
     (case safe_run (Some f) poll rs w of (x, rs', w') \<Rightarrow> if x = None then Ok rs' w' else Err rs' w')"
  by (cases "f poll rs w") (auto simp: ends_def safe_run_def split: step_end.splits)

lemma step_tracks_ends:
  assumes "os_run st = Some f"
    and "\<And>poll rs w. Inv k rs w \<Longrightarrow> ends (f poll rs w) (Inv (Suc k)) (Bad True (Suc k))"
    and "case os_undo st of
        None \<Rightarrow> \<forall>ok rs w. Bad ok (Suc k) rs w \<longrightarrow> Bad ok k rs w
      | Some u \<Rightarrow> \<forall>ok poll rs w. Bad ok (Suc k) rs w \<longrightarrow> ends (u poll rs w) (Bad ok k) (Bad False k)"
  shows "step_tracks Inv Bad k st"
proof (rule step_tracksI)
  fix poll rs w assume "Inv k rs w"
  then show "case safe_run (os_run st) poll rs w of (None, rs', w') \<Rightarrow> Inv (Suc k) rs' w' | (Some x, rs', w') \<Rightarrow> Bad True (Suc k) rs' w'"
    unfolding assms(1) by (intro safe_run_ends assms(2))
next
  fix ok poll rs w assume b: "Bad ok (Suc k) rs w"
  show "case safe_run (os_undo st) poll rs w of (x, rs', w') \<Rightarrow> Bad (ok \<and> x = None) k rs' w'"
  proof (cases "os_undo st")
    case None
    then show ?thesis using assms(3) b by (simp add: safe_run_def)
  next
    case (Some u)
    then have "ends (u poll rs w) (Bad ok k) (Bad False k)" using assms(3) b by simp
    from safe_undo_ends [of u poll rs w "Bad ok k" "Bad False k", OF this] show ?thesis
      unfolding Some by (auto split: prod.splits if_splits)
  qed
qed

lemma step_keeps_ends:
  assumes "os_run st = Some f"
    and "\<And>poll rs w. Inv k rs w \<Longrightarrow> ends (f poll rs w) (Inv (Suc k)) (Bad (Suc k))"
    and "case os_undo st of
        None \<Rightarrow> \<forall>rs w. Bad (Suc k) rs w \<longrightarrow> Bad k rs w
      | Some u \<Rightarrow> \<forall>poll rs w. Bad (Suc k) rs w \<longrightarrow> ends (u poll rs w) (Bad k) (Bad k)"
  shows "step_keeps Inv Bad k st"
proof (rule step_keepsI)
  fix poll rs w assume "Inv k rs w"
  then show "case safe_run (os_run st) poll rs w of (None, rs', w') \<Rightarrow> Inv (Suc k) rs' w' | (Some x, rs', w') \<Rightarrow> Bad (Suc k) rs' w'"
    unfolding assms(1) by (intro safe_run_ends assms(2))
next
  fix poll rs w assume b: "Bad (Suc k) rs w"
  show "case safe_run (os_undo st) poll rs w of (_, rs', w') \<Rightarrow> Bad k rs' w'"
  proof (cases "os_undo st")
    case None
    then show ?thesis using assms(3) b by (simp add: safe_run_def)
  next
    case (Some u)
    then have "ends (u poll rs w) (Bad k) (Bad k)" using assms(3) b by simp
    from safe_run_ends [of u poll rs w "Bad k" "Bad k", OF this] show ?thesis unfolding Some by (auto split: prod.splits option.splits)
  qed
qed

text \<open>Steps that keep a property of the world, whatever else they do.\<close>

lemma step_keeps_const:
  assumes "os_run st = Some f" and "\<And>poll rs w. J w \<Longrightarrow> ends (f poll rs w) (\<lambda>_. J) (\<lambda>_. J)"
    and "\<And>u poll rs w. os_undo st = Some u \<Longrightarrow> J w \<Longrightarrow> ends (u poll rs w) (\<lambda>_. J) (\<lambda>_. J)"
  shows "step_keeps (\<lambda>_ _. J) (\<lambda>_ _. J) k st"
  by (rule step_keeps_ends [OF assms(1)]) (use assms(2,3) in \<open>auto split: option.split\<close>)

text \<open>Steps whose conditions do not look at the run.\<close>

lemma step_keeps_both:
  assumes "os_run st = Some f" "os_undo st = Some u" and "\<And>poll rs w. J k w \<Longrightarrow> ends (f poll rs w) (\<lambda>_. J (Suc k)) (\<lambda>_. B (Suc k))"
    and "\<And>poll rs w. B (Suc k) w \<Longrightarrow> ends (u poll rs w) (\<lambda>_. B k) (\<lambda>_. B k)"
  shows "step_keeps (\<lambda>k _. J k) (\<lambda>k _. B k) k st"
  using assms(2-4) by (intro step_keeps_ends [where f = f, OF assms(1)]) simp_all

lemma step_keeps_run:
  assumes "os_run st = Some f" "os_undo st = None" and "\<And>poll rs w. J k w \<Longrightarrow> ends (f poll rs w) (\<lambda>_. J (Suc k)) (\<lambda>_. B (Suc k))"
    and "\<And>w. B (Suc k) w \<Longrightarrow> B k w"
  shows "step_keeps (\<lambda>k _. J k) (\<lambda>k _. B k) k st"
  using assms(2-4) by (intro step_keeps_ends [where f = f, OF assms(1)]) simp_all

section \<open>Operations outside the engine\<close>

definition on_outside :: "('w \<Rightarrow> 'a \<times> 'w) \<Rightarrow> 'w jobs_db \<Rightarrow> 'w jobs_db" where
  "on_outside f d = d\<lparr>outside := snd (f (outside d))\<rparr>"

text \<open>An execution nobody cancels.\<close>

definition no_cancel :: cancel_env where
  "no_cancel = \<lparr>ce_before = (\<lambda>_. False), ce_during = (\<lambda>_ _. False)\<rparr>"

end
