(* ===== verification/Ops_Safety.thy ===== *)
theory Ops_Safety
  imports Job_Runs Saga_Rules
begin

text \<open>
  What the engine guarantees about failure and danger: an operation that does not succeed restores
  the state it started from when its steps keep their compensation contract, and a dangerous
  operation reaches the queue only through an approval decided in the Tool Gateway.
\<close>

section \<open>Rollback\<close>

text \<open>
  The contract a step's author owes the engine: the undo, run on what the step left behind however
  it ended, succeeds and restores the state the step started from; a step without undo changes
  nothing.
\<close>

definition compensated :: "'w op_step \<Rightarrow> bool" where
  "compensated st \<longleftrightarrow> (\<forall>poll rs w x rs' w'. safe_run (os_run st) poll rs w = (x, rs', w') \<longrightarrow>
     (case os_undo st of
        None \<Rightarrow> w' = w
      | Some u \<Rightarrow> \<forall>poll rs. \<exists>rs''. u poll rs w' = (StepOk, rs'', w)))"

text \<open>
  The states an execution can leave behind after its first \<open>k\<close> steps, each run to whatever end.
\<close>

fun trail :: "'w op_step list \<Rightarrow> 'w \<Rightarrow> nat \<Rightarrow> 'w \<Rightarrow> bool" where
  "trail sts w0 0 w = (w = w0)"
| "trail sts w0 (Suc k) w = (\<exists>v poll rs x rs'. trail sts w0 k v \<and> safe_run (os_run (sts ! k)) poll rs v = (x, rs', w))"

lemma compensated_undo:
  assumes "compensated st" "safe_run (os_run st) poll rs v = (x, rs', w)"
  shows "case safe_run (os_undo st) poll2 rs2 w of (_, rs', w') \<Rightarrow> w' = v"
proof (cases "os_undo st")
  case None
  then show ?thesis using assms by (auto simp: compensated_def safe_run_def)
next
  case (Some u)
  then obtain rs'' where "u poll2 rs2 w = (StepOk, rs'', v)" using assms unfolding compensated_def by fastforce
  then show ?thesis using Some by (simp add: safe_run_def)
qed

lemma compensated_keeps:
  assumes "compensated (sts ! k)"
  shows "step_keeps (\<lambda>k rs. trail sts w0 k) (\<lambda>k rs. trail sts w0 k) k (sts ! k)"
proof (rule step_keepsI)
  fix poll rs w assume t: "trail sts w0 k w"
  obtain x rs' w' where r: "safe_run (os_run (sts ! k)) poll rs w = (x, rs', w')" by (metis prod_cases3)
  then have "trail sts w0 (Suc k) w'" using t unfolding trail.simps by blast
  then show "case safe_run (os_run (sts ! k)) poll rs w of (None, rs', w') \<Rightarrow> trail sts w0 (Suc k) w'
      | (Some x, rs', w') \<Rightarrow> trail sts w0 (Suc k) w'"
    unfolding r by (simp split: option.split del: trail.simps)
next
  fix poll rs w assume "trail sts w0 (Suc k) w"
  then obtain v poll' rs1 x rs' where v: "trail sts w0 k v" "safe_run (os_run (sts ! k)) poll' rs1 v = (x, rs', w)" by auto
  from compensated_undo [OF assms v(2), of poll rs] v(1)
  show "case safe_run (os_undo (sts ! k)) poll rs w of (_, rs', w') \<Rightarrow> trail sts w0 k w'" by (auto split: prod.splits)
qed

lemma steps_keep_all: "(\<And>k. k < length sts \<Longrightarrow> step_keeps Inv Bad (i + k) (sts ! k)) \<Longrightarrow> steps_keep Inv Bad i sts"
proof (induction sts arbitrary: i)
  case (Cons st sts)
  have "step_keeps Inv Bad (Suc i + k) (sts ! k)" if "k < length sts" for k
    using Cons.prems [of "Suc k"] that by simp
  then show ?case using Cons.IH [of "Suc i"] Cons.prems [of 0] by simp
qed simp

text \<open>
  C28: a failed or cancelled operation leaves no trace in the world it acts on: when every step of a
  step-wise operation keeps its compensation contract, an execution that does not end with a result
  has restored exactly the state it started from, wherever it stopped (before a step, inside one,
  by an error, a panic or a cancellation) and whatever bookkeeping statements were lost.
\<close>

theorem failed_operation_is_undone:
  assumes "engine_execute e c df j d = (r, d')" "\<And>res. r \<noteq> JobDone res"
    and "\<And>org p pl op. df_factory df org p pl = Inr op \<Longrightarrow> \<exists>sts. op_body op = StepperOp sts \<and> (\<forall>st \<in> set sts. compensated st)"
  shows "outside d' = outside d"
proof -
  have unchanged: "outside d' = outside d" if "\<And>row op. find (\<lambda>r. jr_id r = j_id j) (jobs d) = Some row \<Longrightarrow>
      df_factory df (j_org j) (coalesce (jr_project row) uuid_nil) (j_payload j) \<noteq> Inr op"
    using assms(1) that unfolding engine_execute_def by (auto split: option.splits sum.splits if_splits)
  show ?thesis
  proof (cases "\<exists>row op. find (\<lambda>r. jr_id r = j_id j) (jobs d) = Some row \<and>
      df_factory df (j_org j) (coalesce (jr_project row) uuid_nil) (j_payload j) = Inr op")
    case True
    then obtain row op where f: "find (\<lambda>r. jr_id r = j_id j) (jobs d) = Some row"
        "df_factory df (j_org j) (coalesce (jr_project row) uuid_nil) (j_payload j) = Inr op" by blast
    from assms(3) [OF f(2)] obtain sts where sts: "op_body op = StepperOp sts" "\<forall>st \<in> set sts. compensated st" by blast
    let ?T = "\<lambda>k (rs :: run_state). trail sts (outside d) k"
    have "steps_keep ?T ?T 0 sts" using sts(2) by (intro steps_keep_all) (simp add: compensated_keeps)
    from execution_keeps [OF assms(1) _ sts(1) this] f assms(2) show ?thesis by fastforce
  qed (use unchanged in blast)
qed

section \<open>Dangerous operations\<close>

lemma bridge_tools_other: "\<forall>df \<in> set dfs. df_tool_key df \<noteq> k \<Longrightarrow> bridge_tools e fl pu su defs dfs reg k = reg k"
  by (induction dfs arbitrary: reg) auto

definition one_queued :: "'w op_definition \<Rightarrow> uuid \<Rightarrow> 'w jobs_db \<Rightarrow> 'w jobs_db \<Rightarrow> bool" where
  "one_queued df org d d' \<longleftrightarrow> d' = d \<or>
     (\<exists>row. jobs d' = jobs d @ [row] \<and> jr_operation row = Some (df_name df) \<and> jr_status row = StatusQueued \<and> jr_org row = org)"

lemma op_row_fields:
  "jr_operation (op_row e ac df inp p) = Some (df_name df)" "jr_status (op_row e ac df inp p) = StatusQueued"
  "jr_org (op_row e ac df inp p) = org_id ac"
  by (simp_all add: op_row_def blank_row_def)

lemma submit_common_queues: "one_queued df (org_id ac) d (snd (submit_common e fl ac df inp d))"
proof (cases "flag_off fl (org_id ac) (df_flag df)")
  case False
  show ?thesis
  proof (cases "si_payload inp")
    case (Some p)
    show ?thesis
    proof (cases "df_factory df (org_id ac) (si_project inp) (normal_payload p)")
      case (Inr op)
      show ?thesis
      proof (cases "op_validate op (outside d)")
        case None
        show ?thesis
          by (simp add: submit_common_def False Some Inr None Let_def one_queued_def op_row_fields split: option.split)
      qed (simp add: submit_common_def False Some Inr one_queued_def)
    qed (simp add: submit_common_def False Some one_queued_def)
  qed (simp add: submit_common_def False one_queued_def)
qed (simp add: submit_common_def one_queued_def)

lemma bridge_handler_queues:
  assumes "defs (df_name df) = Some df"
  shows "one_queued df (org_id ac) d (snd (bridge_handler e fl pu su defs df ac rt rid params d))"
proof -
  have t: "one_queued df (org_id ac) d (snd (submit_trusted e fl defs ac
      \<lparr>si_operation = df_name df, si_project = p, si_payload = Some (JObj f), si_key = []\<rparr> d))" for p f
    using submit_common_queues by (simp add: submit_trusted_def assms)
  define target where "target = (if rt = ''project''
             then (case pu rid of
                     None \<Rightarrow> Inl (Validation ''resource_id must be a project id'')
                   | Some p \<Rightarrow> Inr (p, obj_fields params))
             else
               (let flds = obj_set ''resource_id'' (JStr rid) (obj_set ''resource_type'' (JStr rt) (obj_fields params));
                    project = (case obj_get ''project_id'' params of
                                 Some (JStr s) \<Rightarrow> coalesce (pu s) uuid_nil
                               | _ \<Rightarrow> uuid_nil)
                in Inr (project, flds)))"
  show ?thesis
  proof (cases target)
    case (Inl x)
    then show ?thesis unfolding bridge_handler_def target_def [symmetric] by (simp add: one_queued_def)
  next
    case (Inr pf)
    obtain p f where pf: "pf = (p, f)" by force
    obtain r d' where s: "submit_trusted e fl defs ac
      \<lparr>si_operation = df_name df, si_project = p, si_payload = Some (JObj f), si_key = []\<rparr> d = (r, d')" by force
    show ?thesis
      using t [of p f] unfolding bridge_handler_def target_def [symmetric]
      by (cases r) (simp_all add: Inr pf s)
  qed
qed

text \<open>
  C29: a dangerous operation never starts without an approval. \<open>Submit\<close> refuses every operation
  that names a tool, changing nothing; and as long as that tool's risk tier requires approval, no
  \<open>Execute\<close> of it through the gateway touches the operations database, whoever calls and whatever
  handlers are registered.
\<close>

theorem dangerous_operations_need_approval:
  assumes "defs (si_operation si) = Some df" "df_tool_key df \<noteq> []"
    and "\<And>t. t \<in> set (tools_tbl g) \<Longrightarrow> t_key t = df_tool_key df \<Longrightarrow> requires_approval (t_risk t)"
  shows "(\<exists>x. submit e flags defs ac si d = (Inl x, d))
    \<and> world (snd (execute e hs ac (df_tool_key df) inp g)) = (world g :: 'w jobs_db)"
proof
  show "\<exists>x. submit e flags defs ac si d = (Inl x, d)"
    using assms(2) by (cases "Require ac (df_permission df)") (simp_all add: submit_def assms(1) del: Require_None)
  show "world (snd (execute e hs ac (df_tool_key df) inp g)) = world g"
  proof (rule ccontr)
    assume "world (snd (execute e hs ac (df_tool_key df) inp g)) \<noteq> world g"
    from execute_reaches_handler [OF this] obtain t where
      t: "find (\<lambda>t. t_key t = df_tool_key df) (tools_tbl g) = Some t" "\<not> requires_approval (t_risk t)" by blast
    from find_SomeD [OF t(1)] assms(3) [of t] t(2) show False by simp
  qed
qed

text \<open>
  and approving it enqueues it once: when the bridged handler of an operation is reached by
  deciding an approval, either nothing happened in the operations database, or exactly one job was
  added, queued, for that operation, in the approver's organization.
\<close>

theorem approved_operation_is_enqueued:
  assumes "pk ap_id (approvals g)" "a \<in> set (approvals g)" "ap_id a = i" "ap_action a = df_tool_key df"
    and "hs (df_tool_key df) = Some (bridge_handler e' fl pu su defs df)" "defs (df_name df) = Some df"
  shows "world (snd (decide_approval e hs ac i ok why g)) = world g
    \<or> (\<exists>row. jobs (world (snd (decide_approval e hs ac i ok why g))) = jobs (world g) @ [row]
          \<and> jr_operation row = Some (df_name df) \<and> jr_status row = StatusQueued \<and> jr_org row = ap_org a)"
proof (cases "world (snd (decide_approval e hs ac i ok why g)) = world g")
  case False
  from decide_reaches_handler [OF assms(1) False] obtain b t where b: "b \<in> set (approvals g)" "ap_id b = i" "ap_org b = org_id ac"
    "ap_status b = Pending" "\<not> stale (db_now e) b" "ok" "authorised ac ''approvals.decide''"
    "find (\<lambda>t. t_key t = ap_action b) (tools_tbl g) = Some t"
    "world (snd (decide_approval e hs ac i ok why g)) =
       snd (run_handler hs ac t \<lparr>in_rtype = ap_rtype b, in_rid = ap_rid b,
              in_params = decode_params (ap_params b)\<rparr> (world g))" .
  have ba: "b = a" using pk_unique [OF assms(1) b(1) assms(2)] b(2) assms(3) by simp
  have k: "t_key t = df_tool_key df" using find_SomeD [OF b(8)] ba assms(4) by simp
  have "world (snd (decide_approval e hs ac i ok why g)) = world g \<or> world (snd (decide_approval e hs ac i ok why g))
      = snd (bridge_handler e' fl pu su defs df ac (ap_rtype a) (ap_rid a) (decode_params (ap_params a)) (world g))"
    using b(9) k assms(5) by (simp add: run_handler_def ba)
  with False have w: "world (snd (decide_approval e hs ac i ok why g))
      = snd (bridge_handler e' fl pu su defs df ac (ap_rtype a) (ap_rid a) (decode_params (ap_params a)) (world g))" by simp
  have "one_queued df (ap_org a) (world g) (world (snd (decide_approval e hs ac i ok why g)))"
    unfolding w using bridge_handler_queues [of defs df ac "world g" e' fl pu su "ap_rtype a" "ap_rid a" "decode_params (ap_params a)", OF assms(6)]
      b(3) ba by simp
  with False show ?thesis by (auto simp: one_queued_def)
qed simp

section \<open>A concrete queue\<close>

definition demo_dev :: auth_context where
  "demo_dev = \<lparr>actor_type = ActorUser, actor_id = 7, actor_label = ''ada'', org_id = 1,
     permissions = {''jobs.manage'', ''operations.read'', ''deploy.run'', ''approvals.decide''}, session_id = 0, correlation_id = []\<rparr>"

text \<open>A step-wise operation on a counter: add 1, then fail; each step takes back what it added.\<close>

definition add_step :: "nat op_step" where
  "add_step = \<lparr>os_name = ''add'', os_run = Some (\<lambda>poll rs w. (StepOk, rs, w + 1)),
               os_undo = Some (\<lambda>poll rs w. (StepOk, rs, w - 1))\<rparr>"

definition bad_step :: "nat op_step" where
  "bad_step = \<lparr>os_name = ''bad'', os_run = Some (\<lambda>poll rs w. (StepPanic ''boom'', rs, w + 5)),
               os_undo = Some (\<lambda>poll rs w. (StepOk, rs, w - 5))\<rparr>"

definition demo_op :: "nat operation" where
  "demo_op = \<lparr>op_validate = (\<lambda>w. None), op_body = StepperOp [add_step, bad_step]\<rparr>"

definition demo_def :: "nat op_definition" where
  "demo_def = \<lparr>df_name = ''deploy'', df_permission = ''deploy.run'', df_tool_key = [], df_notify_kind = [],
     df_timeout_seconds = 900, df_flag = [], df_factory = (\<lambda>org p pl. Inr demo_op)\<rparr>"

definition demo_table :: "nat op_table" where
  "demo_table = register_op demo_def (\<lambda>_. None)"

definition demo_db :: "nat jobs_db" where
  "demo_db = \<lparr>jobs = [], job_steps = [], notices = [], jobs_audit = [], outside = 40\<rparr>"

definition demo_cancel :: cancel_env where
  "demo_cancel = \<lparr>ce_before = (\<lambda>_. False), ce_during = (\<lambda>_ _. False)\<rparr>"

definition demo_submit :: submit_input where
  "demo_submit = \<lparr>si_operation = ''deploy'', si_project = 0, si_payload = Some JNull, si_key = ''k1''\<rparr>"

definition demo_job_ops :: "job_op list" where
  "demo_job_ops = [JSubmit (calm 1 50) demo_dev demo_submit,
     JEnqueue (calm 2 51) demo_dev \<lparr>ei_type = ''other'', ei_payload = None, ei_priority = 3, ei_max_attempts = 0,
        ei_timeout_seconds = 0, ei_key = []\<rparr>,
     JWork (calm 3 0) (calm 3 0) demo_cancel (\<lambda>_. False), JWork (calm 4 0) (calm 4 0) demo_cancel (\<lambda>_. False)]"

definition demo_after :: "nat jobs_db" where
  "demo_after = run_ops (job_step None demo_table) demo_job_ops demo_db"

lemma demo_queue_ok: "queue_ok (jobs demo_db)"
  by (simp add: queue_ok_def demo_db_def)

lemma demo_job_fresh: "job_fresh_run None demo_table demo_job_ops demo_db"
  by code_simp

lemma demo_after_statuses: "map jr_status (jobs demo_after) = [StatusFailed, StatusFailed]"
  by code_simp

text \<open>Both jobs are started once; the first, retried and started again, once since then.\<close>

definition demo_retried :: "job_op list" where
  "demo_retried = demo_job_ops @ [JRetry (calm 5 0) demo_dev 50, JWork (calm 6 0) (calm 6 0) demo_cancel (\<lambda>_. False)]"

lemma demo_retried_fresh: "job_fresh_run None demo_table demo_retried demo_db"
  by code_simp

lemma demo_retried_starts:
  "map (\<lambda>r. (jr_id r, jr_max_attempts r, jr_status r)) (jobs (run_ops (job_step None demo_table) demo_retried demo_db)) =
     [(50, 1, StatusFailed), (51, 1, StatusFailed)]"
  "started None demo_table 50 (attempts_of 50 (jobs demo_db)) (take 4 demo_retried) demo_db = 1"
  "started None demo_table 50 (attempts_of 50 (jobs demo_db)) (take 5 demo_retried) demo_db = 0"
  by code_simp+


definition demo_queued :: "nat jobs_db" where
  "demo_queued = run_ops (job_step None demo_table) (take 2 demo_job_ops) demo_db"

theorem drain_ends_with_empty_queue_witness:
  "\<exists>d'. drain 3 (\<lambda>k. calm 5 0) (\<lambda>_. False) (engine_handlers (calm 5 0) demo_cancel demo_table) demo_queued = Some d'
    \<and> (\<forall>r \<in> set (jobs d'). jr_status r \<noteq> StatusQueued)"
proof -
  have "queue_ok (jobs demo_queued)"
    unfolding demo_queued_def by (rule job_run_queue_ok [OF demo_queue_ok]) code_simp
  moreover have "queue_budget (jobs demo_queued) < 3" by code_simp
  ultimately show ?thesis
    using drain_ends_with_empty_queue [of demo_queued 3 "\<lambda>k. calm 5 0" "\<lambda>_. False" "calm 5 0" demo_cancel demo_table] by simp
qed

theorem claim_takes_first_in_line_witness:
  "\<exists>j d'. claim_job (calm 5 0) (\<lambda>_. False) demo_queued = (Inr (Some j), d') \<and> j_id j = 51 \<and> j_attempts j = 1
     \<and> (\<exists>r \<in> set (jobs demo_queued). j_id j = jr_id r \<and> jr_status r = StatusQueued)"
proof -
  have "case fst (claim_job (calm 5 0) (\<lambda>_. False) demo_queued) of Inr (Some j) \<Rightarrow> j_id j = 51 \<and> j_attempts j = 1 | _ \<Rightarrow> False"
    by code_simp
  then obtain j d' where c: "claim_job (calm 5 0) (\<lambda>_. False) demo_queued = (Inr (Some j), d')" "j_id j = 51" "j_attempts j = 1"
    by (cases "claim_job (calm 5 0) (\<lambda>_. False) demo_queued") (auto split: sum.splits option.splits)
  from claim_takes_first_in_line [OF c(1)] c show ?thesis by blast
qed

theorem finished_jobs_are_final_witness:
  "hd (jobs demo_after) \<in> set (jobs (run_ops (job_step None demo_table)
     [JRecover (calm 9 0), JCancel (calm 9 0) demo_dev 50, JWork (calm 9 0) (calm 9 0) demo_cancel (\<lambda>_. False)] demo_after))"
proof (rule finished_jobs_are_final)
  show "queue_ok (jobs demo_after)"
    unfolding demo_after_def by (rule job_run_queue_ok [OF demo_queue_ok demo_job_fresh])
  have n: "jobs demo_after \<noteq> []" using demo_after_statuses by auto
  then show "hd (jobs demo_after) \<in> set (jobs demo_after)" by simp
  show "finished_status (jr_status (hd (jobs demo_after)))"
    using demo_after_statuses n by (cases "jobs demo_after") (auto simp: finished_status_def)
qed simp_all

lemma demo_queued_row: "\<exists>r \<in> set (jobs demo_queued). jr_org r = 1 \<and> jr_key r = Some ''k1'' \<and> jr_id r = 50"
  by code_simp

theorem resubmission_is_idempotent_witness:
  "submit_common (calm 8 99) None demo_dev demo_def demo_submit demo_queued
     = (Inr \<lparr>jf_job = 50, jf_created = False\<rparr>, demo_queued)"
proof -
  obtain r where r: "r \<in> set (jobs demo_queued)" "jr_org r = 1" "jr_key r = Some ''k1''" "jr_id r = 50"
    using demo_queued_row by blast
  have q: "queue_ok (jobs demo_queued)"
    unfolding demo_queued_def by (rule job_run_queue_ok [OF demo_queue_ok]) code_simp
  from resubmission_is_idempotent [OF q r(1), of demo_dev "''k1''" "calm 8 99" undefined None demo_def demo_submit JNull demo_op]
    r(2-4) show ?thesis
    by (simp add: demo_dev_def demo_submit_def demo_def_def demo_op_def flag_off_def int4_def)
qed

theorem request_cancel_effect_witness:
  "\<exists>d'. request_cancel (calm 6 0) demo_table demo_dev 50 demo_queued = (Inr (), d')
     \<and> (\<exists>r' \<in> set (jobs d'). jr_cancel_requested r' \<and> jr_status r' = StatusCancelled)"
proof -
  let ?x = "request_cancel (calm 6 0) demo_table demo_dev 50 demo_queued"
  have "fst ?x = Inr ()" by code_simp
  then obtain d' where d: "?x = (Inr (), d')" by (metis prod.collapse)
  have q: "queue_ok (jobs demo_queued)"
    unfolding demo_queued_def by (rule job_run_queue_ok [OF demo_queue_ok]) code_simp
  have pk: "pk jr_id (jobs demo_queued)" using q by (simp add: queue_ok_def)
  have st: "\<forall>r \<in> set (jobs demo_queued). jr_status r = StatusQueued" by code_simp
  from request_cancel_effect [OF d pk] st d show ?thesis by (metis (no_types, lifting))
qed

theorem failed_operation_is_undone_witness:
  "outside (snd (engine_execute (calm 7 0) demo_cancel demo_def (scan_job 900 (hd (jobs demo_queued))) demo_queued)) = outside demo_queued"
proof -
  let ?x = "engine_execute (calm 7 0) demo_cancel demo_def (scan_job 900 (hd (jobs demo_queued))) demo_queued"
  have r: "case fst ?x of JobError s \<Rightarrow> True | _ \<Rightarrow> False" by code_simp
  have "compensated add_step" "compensated bad_step"
    by (auto simp: compensated_def add_step_def bad_step_def safe_run_def)
  then have c: "df_factory demo_def org p pl = Inr op \<Longrightarrow> \<exists>sts. op_body op = StepperOp sts \<and> (\<forall>st \<in> set sts. compensated st)" for org p pl op
    by (auto simp: demo_def_def demo_op_def)
  show ?thesis
    by (rule failed_operation_is_undone [of "calm 7 0" demo_cancel demo_def "scan_job 900 (hd (jobs demo_queued))" demo_queued "fst ?x"])
      (use r c in auto)
qed

definition demo_danger :: "nat op_definition" where
  "demo_danger = demo_def\<lparr>df_name := ''wipe'', df_tool_key := ''disk.wipe''\<rparr>"

definition demo_ops_gateway :: "nat jobs_db gateway" where
  "demo_ops_gateway = \<lparr>
     tools_tbl = [\<lparr>t_key = ''disk.wipe'', t_description = [], t_risk = ''critical'', t_permission = ''deploy.run'', t_implemented = True\<rparr>],
     settings = [],
     approvals = [\<lparr>ap_id = 11, ap_org = 1, ap_action = ''disk.wipe'', ap_risk = ''critical'', ap_rtype = ''node'', ap_rid = ''n1'',
        ap_params = JObj [], ap_status = Pending, ap_user = Some 7, ap_agent = None, ap_created_at = 0,
        ap_expires_at = Some 100, ap_decided_by = None, ap_decided_at = None, ap_reason = [], ap_result = JNull\<rparr>],
     audit_log = [], world = demo_db\<rparr>"

theorem dangerous_operations_need_approval_witness:
  "world (snd (execute (calm 1 0) (\<lambda>_. None) demo_dev ''disk.wipe'' \<lparr>in_rtype = [], in_rid = [], in_params = JNull\<rparr> demo_ops_gateway)) = demo_db"
proof -
  have "world (snd (execute (calm 1 0) (\<lambda>_. None) demo_dev (df_tool_key demo_danger) \<lparr>in_rtype = [], in_rid = [], in_params = JNull\<rparr> demo_ops_gateway))
      = world demo_ops_gateway"
    by (rule dangerous_operations_need_approval [where defs = "register_op demo_danger demo_table" and si = "demo_submit\<lparr>si_operation := ''wipe''\<rparr>", THEN conjunct2])
      (auto simp: register_op_def demo_submit_def demo_danger_def demo_def_def demo_ops_gateway_def requires_approval_def)
  then show ?thesis by (simp add: demo_danger_def demo_ops_gateway_def)
qed

theorem approved_operation_is_enqueued_witness:
  "\<exists>row. jobs (world (snd (decide_approval (calm 5 0)
        [''disk.wipe'' \<mapsto> bridge_handler (calm 5 60) None (\<lambda>_. None) (\<lambda>_. []) (register_op demo_danger demo_table) demo_danger]
        demo_dev 11 True [] demo_ops_gateway))) = [row] \<and> jr_operation row = Some ''wipe'' \<and> jr_status row = StatusQueued"
proof -
  let ?hs = "[''disk.wipe'' \<mapsto> bridge_handler (calm 5 60) None (\<lambda>_. None) (\<lambda>_. []) (register_op demo_danger demo_table) demo_danger]"
  let ?g = "snd (decide_approval (calm 5 0) ?hs demo_dev 11 True [] demo_ops_gateway)"
  have ch: "jobs (world ?g) \<noteq> []" by code_simp
  have "world ?g = world demo_ops_gateway
    \<or> (\<exists>row. jobs (world ?g) = jobs (world demo_ops_gateway) @ [row]
          \<and> jr_operation row = Some (df_name demo_danger) \<and> jr_status row = StatusQueued \<and> jr_org row = ap_org (hd (approvals demo_ops_gateway)))"
    by (rule approved_operation_is_enqueued [where df = demo_danger and defs = "register_op demo_danger demo_table" and e' = "calm 5 60"
          and fl = None and pu = "\<lambda>_. None" and su = "\<lambda>_. []"])
      (simp_all add: demo_ops_gateway_def demo_danger_def demo_def_def register_op_def pk_def)
  then show ?thesis using ch by (auto simp: demo_ops_gateway_def demo_db_def demo_danger_def)
qed

end
