(* ===== verification/Go_Encoding.thy ===== *)
theory Go_Encoding
  imports Go_Strings "HOL-Library.AList"
begin

text \<open>
  More of Go's library as the node agent uses it: \<open>encoding/base64\<close>, \<open>fmt.Sscanf\<close> and \<open>Sprintf\<close> with
  \<open>%d\<close>, \<open>path/filepath.Clean\<close>, and \<open>encoding/json\<close> (decoding into \<open>any\<close> and into structs, and the text
  \<open>Marshal\<close> writes), with their round trips.
\<close>

section \<open>strings.ToUpper\<close>

text \<open>On ASCII text, which HTTP methods are.\<close>

definition to_upper :: "string \<Rightarrow> string" where
  "to_upper s = map (\<lambda>c. if is_lower c then char_of (code c - 32) else c) s"

section \<open>strings.Join is injective on parts without the separator\<close>

lemma split_on_append_no_sep:
  "c \<notin> set p \<Longrightarrow> split_on c (p @ c # s) = p # split_on c s"
  by (induction p) auto

lemma split_join:
  "xs \<noteq> [] \<Longrightarrow> (\<And>p. p \<in> set xs \<Longrightarrow> c \<notin> set p) \<Longrightarrow> split_on c (join_with [c] xs) = xs"
proof (induction "[c]" xs rule: join_with.induct)
  case (3 p q ps)
  then show ?case by (simp add: split_on_append_no_sep)
qed (auto simp: split_on_single)

lemma length_split_on: "length (split_on c s) = Suc (length (filter (\<lambda>x. x = c) s))"
  by (induction s) (auto split: list.splits)

lemma length_split_join:
  "xs \<noteq> [] \<Longrightarrow> length (split_on c (join_with [c] xs)) = length xs + length (filter (\<lambda>x. x = c) (concat xs))"
proof (induction "[c]" xs rule: join_with.induct)
  case (3 p q ps)
  then show ?case by (simp add: length_split_on)
qed (auto simp: length_split_on)

lemma join_with_inj:
  assumes eq: "join_with [c] xs = join_with [c] ys" and len: "length xs = length ys"
    and clean: "\<And>p. p \<in> set ys \<Longrightarrow> c \<notin> set p"
  shows "xs = ys"
proof (cases "ys = []")
  case True
  then show ?thesis using len by simp
next
  case False
  then have ne: "xs \<noteq> []" using len by auto
  have "length (split_on c (join_with [c] xs)) = length ys"
    using eq split_join [OF False clean] by simp
  then have "filter (\<lambda>x. x = c) (concat xs) = []"
    using length_split_join [OF ne, of c] len by simp
  then have "\<And>p. p \<in> set xs \<Longrightarrow> c \<notin> set p" by (auto simp: filter_empty_conv)
  then show ?thesis using split_join [OF ne] split_join [OF False] clean eq by metis
qed

section \<open>encoding/base64: StdEncoding\<close>

definition b64_alphabet :: string where
  "b64_alphabet = ''ABCDEFGHIJKLMNOPQRSTUVWXYZabcdefghijklmnopqrstuvwxyz0123456789+/''"

definition b64_char :: "nat \<Rightarrow> char" where
  "b64_char i = b64_alphabet ! i"

definition b64_val :: "char \<Rightarrow> nat option" where
  "b64_val c = index_of c b64_alphabet"

definition byte_of :: "nat \<Rightarrow> char" where
  "byte_of n = char_of n"

text \<open>The four sextets of three bytes, and the three bytes of four sextets.\<close>

definition sext1 :: "nat \<Rightarrow> nat" where "sext1 a = a div 4"
definition sext2 :: "nat \<Rightarrow> nat \<Rightarrow> nat" where "sext2 a b = a mod 4 * 16 + b div 16"
definition sext3 :: "nat \<Rightarrow> nat \<Rightarrow> nat" where "sext3 b c = b mod 16 * 4 + c div 64"
definition sext4 :: "nat \<Rightarrow> nat" where "sext4 c = c mod 64"
definition oct1 :: "nat \<Rightarrow> nat \<Rightarrow> nat" where "oct1 i j = i * 4 + j div 16"
definition oct2 :: "nat \<Rightarrow> nat \<Rightarrow> nat" where "oct2 j k = j mod 16 * 16 + k div 4"
definition oct3 :: "nat \<Rightarrow> nat \<Rightarrow> nat" where "oct3 k l = k mod 4 * 64 + l"

lemma div_small_sum: "(y::nat) < k \<Longrightarrow> (x * k + y) div k = x"
  by simp

lemma mod_small_sum: "(y::nat) < k \<Longrightarrow> (x * k + y) mod k = y"
  by simp

lemma sext_range [simp]:
  "a < 256 \<Longrightarrow> sext1 a < 64" "b < 256 \<Longrightarrow> sext2 a b < 64" "c < 256 \<Longrightarrow> sext3 b c < 64" "sext4 c < 64"
proof -
  show "sext1 a < 64" if "a < 256" using that by (simp add: sext1_def)
  have "a mod 4 \<le> 3" by (simp flip: less_Suc_eq_le)
  moreover have "b div 16 \<le> 15" if "b < 256" using that by (simp add: less_mult_imp_div_less flip: less_Suc_eq_le)
  ultimately show "sext2 a b < 64" if "b < 256" using that by (fastforce simp: sext2_def)
  have "b mod 16 \<le> 15" by (simp flip: less_Suc_eq_le)
  moreover have "c div 64 \<le> 3" if "c < 256" using that by (simp add: less_mult_imp_div_less flip: less_Suc_eq_le)
  ultimately show "sext3 b c < 64" if "c < 256" using that by (fastforce simp: sext3_def)
  show "sext4 c < 64" by (simp add: sext4_def)
qed

lemma oct1_sext [simp]: "b < 256 \<Longrightarrow> oct1 (sext1 a) (sext2 a b) = a"
proof -
  assume "b < 256"
  then have "sext2 a b div 16 = a mod 4"
    unfolding sext2_def by (intro div_small_sum) (simp add: less_mult_imp_div_less)
  then show ?thesis by (simp add: oct1_def sext1_def div_mult_mod_eq)
qed

lemma oct2_sext [simp]: "b < 256 \<Longrightarrow> c < 256 \<Longrightarrow> oct2 (sext2 a b) (sext3 b c) = b"
proof -
  assume "b < 256" "c < 256"
  then have "sext2 a b mod 16 = b div 16" "sext3 b c div 4 = b mod 16"
    unfolding sext2_def sext3_def
    by (intro mod_small_sum div_small_sum; simp add: less_mult_imp_div_less)+
  then show ?thesis by (simp add: oct2_def div_mult_mod_eq)
qed

lemma oct3_sext [simp]: "c < 256 \<Longrightarrow> oct3 (sext3 b c) (sext4 c) = c"
proof -
  assume "c < 256"
  then have "sext3 b c mod 4 = c div 64"
    unfolding sext3_def by (intro mod_small_sum) (simp add: less_mult_imp_div_less)
  then show ?thesis by (simp add: oct3_def sext4_def div_mult_mod_eq)
qed

fun b64_encode :: "string \<Rightarrow> string" where
  "b64_encode [] = []"
| "b64_encode [a] = [b64_char (sext1 (code a)), b64_char (sext2 (code a) 0), CHR ''='', CHR ''='']"
| "b64_encode [a, b] =
     [b64_char (sext1 (code a)), b64_char (sext2 (code a) (code b)), b64_char (sext3 (code b) 0), CHR ''='']"
| "b64_encode (a # b # c # r) =
     b64_char (sext1 (code a)) # b64_char (sext2 (code a) (code b)) #
     b64_char (sext3 (code b) (code c)) # b64_char (sext4 (code c)) # b64_encode r"

text \<open>
  \<open>DecodeString\<close> ignores carriage returns and newlines wherever they stand, wants whole quantums,
  accepts padding in the last one only, and (not being \<open>Strict\<close>) ignores the unused low bits.
\<close>

fun b64_quantums :: "string \<Rightarrow> string option" where
  "b64_quantums [] = Some []"
| "b64_quantums (w # x # y # z # r) =
     (case (b64_val w, b64_val x, b64_val y, b64_val z) of
        (Some i, Some j, Some k, Some l) \<Rightarrow>
          map_option (\<lambda>t. byte_of (oct1 i j) # byte_of (oct2 j k) # byte_of (oct3 k l) # t) (b64_quantums r)
      | (Some i, Some j, Some k, None) \<Rightarrow>
          if z = CHR ''='' \<and> r = [] then Some [byte_of (oct1 i j), byte_of (oct2 j k)]
          else None
      | (Some i, Some j, None, None) \<Rightarrow>
          if y = CHR ''='' \<and> z = CHR ''='' \<and> r = [] then Some [byte_of (oct1 i j)] else None
      | _ \<Rightarrow> None)"
| "b64_quantums _ = None"

definition b64_decode :: "string \<Rightarrow> string option" where
  "b64_decode s = b64_quantums (filter (\<lambda>c. c \<noteq> CHR 0x0D \<and> c \<noteq> CHR 0x0A) s)"

lemma b64_table: "list_all (\<lambda>i. b64_val (b64_char i) = Some i \<and> b64_char i \<noteq> CHR 0x0A \<and> b64_char i \<noteq> CHR 0x0D) [0..<64]"
  by code_simp

lemma b64_val_char [simp]: "i < 64 \<Longrightarrow> b64_val (b64_char i) = Some i"
  using b64_table by (auto simp: list_all_iff)

lemma b64_char_visible [simp]: "i < 64 \<Longrightarrow> b64_char i \<noteq> CHR 0x0A \<and> b64_char i \<noteq> CHR 0x0D"
  using b64_table by (auto simp: list_all_iff)

lemma b64_val_pad [simp]: "b64_val (CHR ''='') = None"
  by code_simp

lemma code_less [simp]: "code c < 256"
  unfolding code_def by (rule nat_of_char_less_256)

lemma byte_of_code [simp]: "n = code c \<Longrightarrow> byte_of n = c"
  by (simp add: byte_of_def code_def)

lemma b64_quantums_encode [simp]: "b64_quantums (b64_encode s) = Some s"
  by (induction s rule: b64_encode.induct) simp_all

lemma b64_encode_visible: "list_all (\<lambda>x. x \<noteq> CHR 0x0D \<and> x \<noteq> CHR 0x0A) (b64_encode s)"
  by (induction s rule: b64_encode.induct) simp_all

lemma b64_decode_encode [simp]: "b64_decode (b64_encode s) = Some s"
proof -
  have "filter (\<lambda>c. c \<noteq> CHR 0x0D \<and> c \<noteq> CHR 0x0A) (b64_encode s) = b64_encode s"
    using b64_encode_visible [of s] by (simp add: filter_id_conv list_all_iff)
  then show ?thesis by (simp add: b64_decode_def)
qed

section \<open>fmt.Sscanf with a single \<open>%d\<close> into an int64\<close>

text \<open>
  Leading blanks are skipped, but a newline is an error; then an optional sign and as many digits as
  follow. Text after the number is not looked at. \<open>None\<close> is a scan error, the range error of
  \<open>strconv.ParseInt\<close> included.
\<close>

function skip_blanks :: "string \<Rightarrow> string option" where
  "skip_blanks s =
     (if s = [] then Some []
      else if hd s = CHR 0x0A \<or> take 2 s = [CHR 0x0D, CHR 0x0A] then None
      else (let n = space_len (map code s) in if n = 0 then Some s else skip_blanks (drop n s)))"
  by pat_completeness auto
termination by (relation "measure length") auto

declare skip_blanks.simps [simp del]

definition int64_range :: "int \<Rightarrow> bool" where
  "int64_range i \<longleftrightarrow> - (2 ^ 63) \<le> i \<and> i < 2 ^ 63"

definition parse_signed :: "string \<Rightarrow> int option" where
  "parse_signed t =
     (let neg = (t \<noteq> [] \<and> hd t = CHR ''-'');
          t' = (if t \<noteq> [] \<and> (hd t = CHR ''-'' \<or> hd t = CHR ''+'') then tl t else t);
          ds = takeWhile is_digit t';
          v = int (digits_value ds 0);
          i = (if neg then - v else v)
      in if ds = [] \<or> \<not> int64_range i then None else Some i)"

definition sscan_d :: "string \<Rightarrow> int option" where
  "sscan_d s = (case skip_blanks s of None \<Rightarrow> None | Some t \<Rightarrow> parse_signed t)"

text \<open>\<open>fmt.Sprintf("%d", i)\<close>.\<close>

definition sprint_d :: "int \<Rightarrow> string" where
  "sprint_d i = (if i < 0 then CHR ''-'' # itoa (nat (- i)) else itoa (nat i))"

lemma digit_not_blank: "is_digit c \<Longrightarrow> \<not> ascii_space (code c) \<and> code c < 128 \<and> c \<noteq> CHR 0x0A \<and> c \<noteq> CHR 0x0D"
  by (auto simp: is_digit_def ascii_space_def code_def)

lemma skip_blanks_visible:
  "\<not> ascii_space (code c) \<Longrightarrow> code c < 128 \<Longrightarrow> skip_blanks (c # s) = Some (c # s)"
  by (subst skip_blanks.simps) (auto simp: Let_def ascii_space_def code_def split: list.split)

lemma takeWhile_itoa [simp]: "takeWhile is_digit (itoa n) = itoa n"
  by (simp add: takeWhile_eq_all_conv itoa_digits)

lemma itoa_hd_digit: "is_digit (hd (itoa n))"
  by (rule itoa_digits [of _ n]) simp

lemma itoa_no_sign: "hd (itoa n) \<noteq> CHR ''-'' \<and> hd (itoa n) \<noteq> CHR ''+''"
  using itoa_hd_digit [of n] by (auto simp: is_digit_def code_def)

lemma parse_signed_sprint: "int64_range i \<Longrightarrow> parse_signed (sprint_d i) = Some i"
  using itoa_no_sign [of "nat i"] by (auto simp: parse_signed_def sprint_d_def Let_def)

lemma skip_blanks_sprint: "skip_blanks (sprint_d i) = Some (sprint_d i)"
proof (cases "i < 0")
  case True
  then show ?thesis by (simp add: sprint_d_def skip_blanks_visible ascii_space_def code_def)
next
  case False
  obtain c cs where c: "itoa (nat i) = c # cs" by (cases "itoa (nat i)") auto
  then have "is_digit c" using itoa_hd_digit [of "nat i"] by simp
  with c False show ?thesis by (simp add: sprint_d_def skip_blanks_visible digit_not_blank)
qed

lemma sscan_sprint [simp]: "int64_range i \<Longrightarrow> sscan_d (sprint_d i) = Some i"
  by (simp add: sscan_d_def skip_blanks_sprint parse_signed_sprint)

lemma sprint_d_no_newline: "CHR 0x0A \<notin> set (sprint_d i)"
  using itoa_digits [of "CHR 0x0A"] by (auto simp: sprint_d_def is_digit_def code_def)

section \<open>path and filepath on Unix\<close>

definition path_is_abs :: "string \<Rightarrow> bool" where
  "path_is_abs s \<longleftrightarrow> has_prefix ''/'' s"

text \<open>
  \<open>filepath.Clean\<close> walks the segments left to right: empty ones and \<open>.\<close> vanish, \<open>..\<close> drops the last
  kept name, and where there is none it is kept on a relative path and dropped at the root.
  The kept segments are in reverse.
\<close>

definition clean_seg :: "bool \<Rightarrow> string \<Rightarrow> string list \<Rightarrow> string list" where
  "clean_seg rooted seg kept =
     (if seg = [] \<or> seg = ''.'' then kept
      else if seg = ''..'' then
        (if kept \<noteq> [] \<and> hd kept \<noteq> ''..'' then tl kept
         else if rooted then kept else ''..'' # kept)
      else seg # kept)"

definition clean_segs :: "string \<Rightarrow> string list" where
  "clean_segs s = rev (fold (clean_seg (path_is_abs s)) (split_on (CHR ''/'') s) [])"

definition clean_path :: "string \<Rightarrow> string" where
  "clean_path s =
     (let body = join_with ''/'' (clean_segs s)
      in if path_is_abs s then CHR ''/'' # body else if body = [] then ''.'' else body)"

definition plain_seg :: "string \<Rightarrow> bool" where
  "plain_seg seg \<longleftrightarrow> seg \<noteq> [] \<and> seg \<noteq> ''.'' \<and> seg \<noteq> ''..'' \<and> CHR ''/'' \<notin> set seg"

lemma clean_fold_plain:
  "list_all plain_seg kept \<Longrightarrow> list_all (\<lambda>p. CHR ''/'' \<notin> set p) segs \<Longrightarrow>
   list_all plain_seg (fold (clean_seg True) segs kept)"
proof (induction segs arbitrary: kept)
  case (Cons seg segs)
  have "list_all plain_seg (clean_seg True seg kept)"
    using Cons.prems by (auto simp: clean_seg_def plain_seg_def list_all_iff dest: list.set_sel(2))
  with Cons show ?case by simp
qed simp

text \<open>A cleaned absolute path has no \<open>..\<close> left in it.\<close>

lemma clean_segs_plain: "path_is_abs s \<Longrightarrow> list_all plain_seg (clean_segs s)"
  unfolding clean_segs_def list_all_rev
  by (simp, rule clean_fold_plain) (auto simp: list_all_iff dest: split_on_no_sep)

text \<open>A segment list without \<open>..\<close> never shortens what is kept.\<close>

lemma clean_fold_grows:
  "''..'' \<notin> set segs \<Longrightarrow> \<exists>more. fold (clean_seg r) segs kept = more @ kept"
proof (induction segs arbitrary: kept)
  case (Cons seg segs)
  have "\<exists>m. clean_seg r seg kept = m @ kept"
    using Cons.prems by (auto simp: clean_seg_def)
  then obtain m where m: "clean_seg r seg kept = m @ kept" by blast
  from Cons.IH [of "clean_seg r seg kept"] Cons.prems
  obtain more where "fold (clean_seg r) segs (clean_seg r seg kept) = more @ clean_seg r seg kept" by auto
  then show ?case by (simp add: m)
qed simp

lemma split_on_append: "split_on c (s @ c # t) = split_on c s @ split_on c t"
  by (induction s) (auto split: list.splits)

lemma clean_segs_append:
  "root \<noteq> [] \<Longrightarrow> ''..'' \<notin> set (split_on (CHR ''/'') rel) \<Longrightarrow>
   \<exists>more. clean_segs (root @ CHR ''/'' # rel) = clean_segs root @ more"
proof -
  assume ne: "root \<noteq> []" and rel: "''..'' \<notin> set (split_on (CHR ''/'') rel)"
  let ?r = "path_is_abs root"
  have abs: "path_is_abs (root @ CHR ''/'' # rel) = ?r"
    using ne by (cases root) (simp_all add: path_is_abs_def has_prefix_def)
  obtain more where m: "fold (clean_seg ?r) (split_on (CHR ''/'') rel)
      (fold (clean_seg ?r) (split_on (CHR ''/'') root) []) =
      more @ fold (clean_seg ?r) (split_on (CHR ''/'') root) []"
    using clean_fold_grows [OF rel] by blast
  then show ?thesis by (simp add: clean_segs_def abs split_on_append)
qed

text \<open>The prefix test on cleaned paths is the prefix test on their segments.\<close>

lemma split_join_clean:
  "list_all plain_seg xs \<Longrightarrow> xs \<noteq> [] \<Longrightarrow> split_on (CHR ''/'') (join_with ''/'' xs) = xs"
  by (rule split_join) (auto simp: list_all_iff plain_seg_def)

lemma clean_prefix_segs:
  assumes root: "path_is_abs root" "clean_segs root \<noteq> []" and src: "path_is_abs src"
    and p: "clean_path src = clean_path root \<or> has_prefix (clean_path root @ ''/'') (clean_path src)"
  shows "\<exists>more. clean_segs src = clean_segs root @ more"
proof -
  let ?R = "clean_segs root" and ?S = "clean_segs src"
  have R: "list_all plain_seg ?R" and S: "list_all plain_seg ?S" using root src by (simp_all add: clean_segs_plain)
  have split_R: "split_on (CHR ''/'') (join_with ''/'' ?R) = ?R" using R root by (simp add: split_join_clean)
  from p consider (same) "join_with ''/'' ?S = join_with ''/'' ?R"
    | (below) t where "join_with ''/'' ?S = join_with ''/'' ?R @ CHR ''/'' # t"
  proof
    assume "clean_path src = clean_path root"
    then show thesis using same root src by (simp add: clean_path_def Let_def)
  next
    assume "has_prefix (clean_path root @ ''/'') (clean_path src)"
    then have "take (length (join_with ''/'' ?R) + 1) (join_with ''/'' ?S) = join_with ''/'' ?R @ ''/''"
      using root src by (simp add: clean_path_def Let_def has_prefix_def)
    then show thesis using below by (metis append.assoc append_Cons append_Nil append_take_drop_id)
  qed
  then show ?thesis
  proof cases
    case same
    have "?S \<noteq> []"
    proof
      assume "?S = []"
      then have "join_with ''/'' ?R = []" using same by simp
      then have "?R = [[]]" using split_R by simp
      then show False using R by (simp add: plain_seg_def)
    qed
    then have "?S = ?R" using split_join_clean [OF S] split_R same by metis
    then show ?thesis by simp
  next
    case below
    then have "?S \<noteq> []" by auto
    then have "?S = split_on (CHR ''/'') (join_with ''/'' ?R @ CHR ''/'' # t)"
      using split_join_clean [OF S] below by metis
    then show ?thesis using split_R by (simp add: split_on_append)
  qed
qed

section \<open>encoding/json\<close>

text \<open>
  A \<open>json.RawMessage\<close> is the text of one JSON value. \<open>Doc\<close> is a well-formed one, as its value with
  the members of every object in the order and spelling of the text (repetitions included) and the
  text of every number; \<open>Blank\<close> is empty or all white space, \<open>Garbage\<close> is anything that does not parse.
\<close>

datatype raw_json = Blank | Garbage string | Doc json

text \<open>
  Decoding into an \<open>any\<close> with \<open>UseNumber\<close> makes objects maps: the last of several members of one name
  wins. \<open>json.Marshal\<close> writes a map in the byte order of its keys.
\<close>

fun put_member :: "string \<Rightarrow> json \<Rightarrow> (string \<times> json) list \<Rightarrow> (string \<times> json) list" where
  "put_member k v [] = [(k, v)]"
| "put_member k v ((k', v') # r) =
     (if k = k' then (k, v) # r
      else if k < k' then (k, v) # (k', v') # r
      else (k', v') # put_member k v r)"

definition as_map :: "(string \<times> json) list \<Rightarrow> (string \<times> json) list" where
  "as_map kvs = fold (\<lambda>(k, v). put_member k v) kvs []"

fun decode_any :: "json \<Rightarrow> json" where
  "decode_any (JArr xs) = JArr (map decode_any xs)"
| "decode_any (JObj kvs) = JObj (as_map (map (\<lambda>(k, v). (k, decode_any v)) kvs))"
| "decode_any v = v"

definition hex_digit :: "nat \<Rightarrow> char" where
  "hex_digit n = (if n < 10 then char_of (48 + n) else char_of (87 + n))"

text \<open>The text of a string: HTML-escaped, with the two line separators U+2028 and U+2029 spelled out.\<close>

fun json_chars :: "string \<Rightarrow> string" where
  "json_chars [] = []"
| "json_chars (c # cs) =
     (let n = code c in
      if c = CHR 0x22 \<or> c = CHR 0x5C then CHR 0x5C # c # json_chars cs
      else if n = 8 then CHR 0x5C # CHR ''b'' # json_chars cs
      else if n = 9 then CHR 0x5C # CHR ''t'' # json_chars cs
      else if n = 10 then CHR 0x5C # CHR ''n'' # json_chars cs
      else if n = 12 then CHR 0x5C # CHR ''f'' # json_chars cs
      else if n = 13 then CHR 0x5C # CHR ''r'' # json_chars cs
      else if n < 32 \<or> c = CHR ''<'' \<or> c = CHR ''>'' \<or> c = CHR ''&'' then
        CHR 0x5C # ''u00'' @ [hex_digit (n div 16), hex_digit (n mod 16)] @ json_chars cs
      else if n = 0xE2 \<and> take 1 cs = [CHR 0x80] \<and> (take 1 (tl cs) = [CHR 0xA8] \<or> take 1 (tl cs) = [CHR 0xA9]) then
        CHR 0x5C # ''u202'' @ [if take 1 (tl cs) = [CHR 0xA8] then CHR ''8'' else CHR ''9''] @ json_chars (tl (tl cs))
      else c # json_chars cs)"

definition json_string :: "string \<Rightarrow> string" where
  "json_string s = CHR 0x22 # json_chars s @ [CHR 0x22]"

fun json_text :: "json \<Rightarrow> string" where
  "json_text JNull = ''null''"
| "json_text (JBool b) = (if b then ''true'' else ''false'')"
| "json_text (JNum t) = t"
| "json_text (JStr s) = json_string s"
| "json_text (JArr xs) = ''['' @ join_with '','' (map json_text xs) @ '']''"
| "json_text (JObj kvs) = ''{'' @ join_with '','' (map (\<lambda>(k, v). json_string k @ '':'' @ json_text v) kvs) @ ''}''"

text \<open>Looking a name up in the decoded map.\<close>

definition json_member :: "(string \<times> json) list \<Rightarrow> string \<Rightarrow> json option" where
  "json_member kvs k = map_of (rev kvs) k"

lemma map_of_put_member: "map_of (put_member k v kvs) = (map_of kvs)(k \<mapsto> v)"
  by (induction kvs) auto

lemma map_of_fold_put:
  "map_of (fold (\<lambda>(k, v). put_member k v) kvs acc) = map_of acc ++ map_of (rev kvs)"
  by (induction kvs arbitrary: acc) (auto simp: map_of_put_member map_add_assoc [symmetric])

lemma map_of_as_map: "map_of (as_map kvs) = json_member kvs"
  by (rule ext) (simp add: as_map_def map_of_fold_put json_member_def)

lemma json_member_map_snd: "json_member (map (\<lambda>(k, v). (k, f v)) kvs) k = map_option f (json_member kvs k)"
  by (simp add: json_member_def rev_map map_of_map)

text \<open>
  Decoding into a struct matches the names without regard to case, after \<open>foldName\<close>: ASCII letters
  fold to upper case, and so do the only two other runes whose case orbit has an ASCII letter,
  U+017F (long s) and U+212A (the Kelvin sign).
\<close>

fun fold_name :: "string \<Rightarrow> string" where
  "fold_name [] = []"
| "fold_name (c # cs) =
     (if c = CHR 0xC5 \<and> take 1 cs = [CHR 0xBF] then CHR ''S'' # fold_name (tl cs)
      else if c = CHR 0xE2 \<and> take 2 cs = [CHR 0x84, CHR 0xAA] then CHR ''K'' # fold_name (drop 2 cs)
      else (if is_lower c then char_of (code c - 32) else c) # fold_name cs)"

definition names_field :: "string \<Rightarrow> string \<Rightarrow> bool" where
  "names_field key name \<longleftrightarrow> fold_name key = fold_name name"

text \<open>
  The value a scalar field ends with: the members that name it are assigned in order, a \<open>null\<close> leaves
  it as it is, and a value of another type is an error of the whole decode.
\<close>

fun decode_string :: "json \<Rightarrow> string \<Rightarrow> string option" where
  "decode_string (JStr s) old = Some s"
| "decode_string JNull old = Some old"
| "decode_string _ old = None"

definition is_integer_text :: "string \<Rightarrow> bool" where
  "is_integer_text t \<longleftrightarrow>
     (let ds = (if t \<noteq> [] \<and> hd t = CHR ''-'' then tl t else t) in ds \<noteq> [] \<and> list_all is_digit ds)"

fun decode_int :: "json \<Rightarrow> int \<Rightarrow> int option" where
  "decode_int (JNum t) old = (if is_integer_text t then parse_signed t else None)"
| "decode_int JNull old = Some old"
| "decode_int _ old = None"

fun decode_bool :: "json \<Rightarrow> bool \<Rightarrow> bool option" where
  "decode_bool (JBool b) old = Some b"
| "decode_bool JNull old = Some old"
| "decode_bool _ old = None"

fun decode_members :: "('a \<Rightarrow> string \<Rightarrow> json \<Rightarrow> 'a option) \<Rightarrow> (string \<times> json) list \<Rightarrow> 'a \<Rightarrow> 'a option" where
  "decode_members assign [] acc = Some acc"
| "decode_members assign ((k, v) # r) acc =
     (case assign acc k v of None \<Rightarrow> None | Some acc' \<Rightarrow> decode_members assign r acc')"

definition decode_struct :: "('a \<Rightarrow> string \<Rightarrow> json \<Rightarrow> 'a option) \<Rightarrow> json \<Rightarrow> 'a \<Rightarrow> 'a option" where
  "decode_struct assign v old =
     (case v of JObj kvs \<Rightarrow> decode_members assign kvs old | JNull \<Rightarrow> Some old | _ \<Rightarrow> None)"

text \<open>A \<open>map[string]string\<close>, as an association list: members are added to the map there is, \<open>null\<close> clears it, a \<open>null\<close> value is the empty string.\<close>

type_synonym string_map = "(string \<times> string) list"

definition decode_string_map :: "json \<Rightarrow> string_map \<Rightarrow> string_map option" where
  "decode_string_map v old =
     (case v of
        JNull \<Rightarrow> Some []
      | JObj kvs \<Rightarrow> decode_members (\<lambda>m k x. map_option (\<lambda>s. AList.update k s m) (decode_string x [])) kvs old
      | _ \<Rightarrow> None)"

text \<open>A slice: the elements are decoded over the ones that are there, and the rest is cut off.\<close>

fun decode_elems :: "(json \<Rightarrow> 'a \<Rightarrow> 'a option) \<Rightarrow> 'a \<Rightarrow> json list \<Rightarrow> 'a list \<Rightarrow> 'a list option" where
  "decode_elems el zero [] old = Some []"
| "decode_elems el zero (x # xs) old =
     (case el x (case old of [] \<Rightarrow> zero | o1 # _ \<Rightarrow> o1) of
        None \<Rightarrow> None
      | Some y \<Rightarrow> map_option ((#) y) (decode_elems el zero xs (tl old)))"

definition decode_slice :: "(json \<Rightarrow> 'a \<Rightarrow> 'a option) \<Rightarrow> 'a \<Rightarrow> json \<Rightarrow> 'a list \<Rightarrow> 'a list option" where
  "decode_slice el zero v old =
     (case v of JNull \<Rightarrow> Some [] | JArr xs \<Rightarrow> decode_elems el zero xs old | _ \<Rightarrow> None)"

end
