(* ===== verification/Agent_Protocol.thy ===== *)
theory Agent_Protocol
  imports Go_Encoding Authz
begin

text \<open>
  internal/nodeagent/protocol: the signed requests of an agent, the signed commands of the server and
  the allowlist of operations with their parameter validators. Validators return the error message,
  \<open>None\<close> for nil.
\<close>

section \<open>Code from elsewhere\<close>

text \<open>
  The primitives the protocol is built on: Ed25519 (\<open>crypto/ed25519\<close>), the lower-case hex text of a
  SHA-256 digest (\<open>crypto/sha256\<close>, \<open>encoding/hex\<close>), the parts \<open>url.Parse\<close> finds, the reading and
  writing of UUIDs (github.com/google/uuid) and what a JSON value is after a round trip through a
  PostgreSQL \<open>jsonb\<close> column. They are parameters; what a theorem relies on is a hypothesis of it.
\<close>

record url_parts =
  url_scheme :: string
  url_host :: string
  url_hostname :: string
  url_path :: string

record golib =
  ed_public :: "string \<Rightarrow> string"
  ed_sign :: "string \<Rightarrow> string \<Rightarrow> string"
  ed_verify :: "string \<Rightarrow> string \<Rightarrow> string \<Rightarrow> bool"
  sha_hex :: "string \<Rightarrow> string"
  url_parse :: "string \<Rightarrow> url_parts option"
  uuid_parse :: "string \<Rightarrow> uuid option"
  uuid_text :: "uuid \<Rightarrow> string"
  jsonb :: "json \<Rightarrow> json"

definition signature_size :: nat where "signature_size = 64"
definition public_key_size :: nat where "public_key_size = 32"

text \<open>What \<open>crypto/ed25519\<close> documents of the keys it makes.\<close>

definition ed_correct :: "golib \<Rightarrow> bool" where
  "ed_correct g \<longleftrightarrow> (\<forall>priv m. length (ed_sign g priv m) = signature_size \<and> ed_verify g (ed_public g priv) m (ed_sign g priv m))"

definition sha_is_hex :: "golib \<Rightarrow> bool" where
  "sha_is_hex g \<longleftrightarrow> (\<forall>m. list_all is_hex_lower (sha_hex g m))"

section \<open>Request signing (agent to API)\<close>

definition max_clock_skew :: duration where "max_clock_skew = 60 * second"

definition unix :: "time \<Rightarrow> int" where
  "unix t = t div second"

definition newline :: char where "newline = CHR 0x0A"

definition requestMessage :: "string \<Rightarrow> string \<Rightarrow> string \<Rightarrow> string \<Rightarrow> string \<Rightarrow> string \<Rightarrow> string" where
  "requestMessage agent ts nonce method p body_hash =
     join_with [newline] [''NODERA-AGENT-V1'', agent, ts, nonce, to_upper method, p, body_hash]"

text \<open>The four headers of a signed request; an absent header reads as the empty string.\<close>

record signed_headers =
  h_agent :: string
  h_timestamp :: string
  h_nonce :: string
  h_signature :: string

definition SignRequest :: "golib \<Rightarrow> string \<Rightarrow> string \<Rightarrow> string \<Rightarrow> string \<Rightarrow> string \<Rightarrow> time \<Rightarrow> string \<Rightarrow> signed_headers" where
  "SignRequest g priv agent method p body now nonce =
     (let ts = sprint_d (unix now);
          sig = ed_sign g priv (requestMessage agent ts nonce method p (sha_hex g body))
      in \<lparr>h_agent = agent, h_timestamp = ts, h_nonce = nonce, h_signature = b64_encode sig\<rparr>)"

definition is_alnum :: "char \<Rightarrow> bool" where
  "is_alnum c \<longleftrightarrow> is_lower c \<or> is_upper c \<or> is_digit c"

definition nonce_ok :: "string \<Rightarrow> bool" where
  "nonce_ok s \<longleftrightarrow> 16 \<le> length s \<and> length s \<le> 64 \<and>
     list_all (\<lambda>c. is_alnum c \<or> c = CHR ''_'' \<or> c = CHR ''-'') s"

definition VerifyRequest :: "golib \<Rightarrow> string \<Rightarrow> signed_headers \<Rightarrow> string \<Rightarrow> string \<Rightarrow> string \<Rightarrow> time \<Rightarrow> string option" where
  "VerifyRequest g pub h method p body now =
     (if h_agent h = [] \<or> h_timestamp h = [] \<or> h_nonce h = [] \<or> h_signature h = [] then
        Some ''missing signature headers''
      else if \<not> nonce_ok (h_nonce h) then Some ''malformed nonce''
      else (case sscan_d (h_timestamp h) of
          None \<Rightarrow> Some ''malformed timestamp''
        | Some sec \<Rightarrow>
            let d = now - sec * second in
            if d < - max_clock_skew \<or> max_clock_skew < d then Some ''timestamp outside the allowed window''
            else (case b64_decode (h_signature h) of
                None \<Rightarrow> Some ''malformed signature''
              | Some sig \<Rightarrow>
                  if length sig \<noteq> signature_size then Some ''malformed signature''
                  else if \<not> ed_verify g pub
                       (requestMessage (h_agent h) (h_timestamp h) (h_nonce h) method p (sha_hex g body)) sig
                    then Some ''invalid signature''
                  else None)))"

section \<open>The allowlist\<close>

text \<open>The decoded parameters of a command: a map, here the members of the object.\<close>

type_synonym params = "(string \<times> json) list"

definition str :: "params \<Rightarrow> string \<Rightarrow> string" where
  "str p k = (case json_member p k of Some (JStr s) \<Rightarrow> s | _ \<Rightarrow> [])"

definition name_ok :: "string \<Rightarrow> bool" where
  "name_ok s \<longleftrightarrow> s \<noteq> [] \<and> is_alnum (hd s) \<and> length (tl s) \<le> 127 \<and>
     list_all (\<lambda>c. is_alnum c \<or> c = CHR ''_'' \<or> c = CHR ''.'' \<or> c = CHR ''-'') (tl s)"

text \<open>
  \<open>imageRe\<close> as its automaton: runs of letters and digits, the first of lower case only, with single
  separators between them. The flag says that the current run still needs a first character.
\<close>

definition image_sep :: "char \<Rightarrow> bool" where
  "image_sep c \<longleftrightarrow> c \<in> set ''._/:@-''"

fun image_rest :: "bool \<Rightarrow> bool \<Rightarrow> string \<Rightarrow> bool" where
  "image_rest first need [] = (\<not> need)"
| "image_rest first need (c # cs) =
     (if is_lower c \<or> is_digit c \<or> (is_upper c \<and> \<not> first) then image_rest first False cs
      else image_sep c \<and> \<not> need \<and> image_rest False True cs)"

definition image_ok :: "string \<Rightarrow> bool" where
  "image_ok s = image_rest True True s"

definition needName :: "params \<Rightarrow> string option" where
  "needName p = (if \<not> name_ok (str p ''name'') then Some ''invalid or missing name'' else None)"

definition reservedPrefix :: string where "reservedPrefix = ''nodera-cp-''"

definition refused_text :: string where "refused_text = ''refused: protected control-plane resource''"

definition needMutableName :: "params \<Rightarrow> string option" where
  "needMutableName p =
     (case needName p of
        Some x \<Rightarrow> Some x
      | None \<Rightarrow> if has_prefix reservedPrefix (str p ''name'') then Some refused_text else None)"

definition uid_digits :: "nat \<Rightarrow> string \<Rightarrow> bool" where
  "uid_digits n s \<longleftrightarrow> 1 \<le> length s \<and> length s \<le> n \<and> list_all is_digit s"

definition workload_user_ok :: "string \<Rightarrow> bool" where
  "workload_user_ok s =
     (let t = dropWhile (\<lambda>c. c = CHR ''0'') s; uid = takeWhile is_digit t; rest = dropWhile is_digit t
      in uid_digits 10 uid \<and> (rest = [] \<or> (hd rest = CHR '':'' \<and> uid_digits 10 (tl rest))))"

definition db_ident_ok :: "string \<Rightarrow> bool" where
  "db_ident_ok s \<longleftrightarrow> 1 \<le> length s \<and> length s \<le> 48 \<and> list_all (\<lambda>c. is_alnum c \<or> c = CHR ''_'') s"

definition db_pass_ok :: "string \<Rightarrow> bool" where
  "db_pass_ok s \<longleftrightarrow> 16 \<le> length s \<and> length s \<le> 128 \<and>
     list_all (\<lambda>c. is_alnum c \<or> c = CHR ''_'' \<or> c = CHR ''-'') s"

definition needDBName :: "params \<Rightarrow> string option" where
  "needDBName p = (if \<not> db_ident_ok (str p ''name'') then Some ''invalid database name'' else None)"

definition validDBDrop :: "params \<Rightarrow> string option" where
  "validDBDrop p =
     (case needDBName p of
        Some x \<Rightarrow> Some x
      | None \<Rightarrow> if \<not> db_ident_ok (str p ''user'') then Some ''invalid database user'' else None)"

definition validDBEnsure :: "params \<Rightarrow> string option" where
  "validDBEnsure p =
     (case validDBDrop p of
        Some x \<Rightarrow> Some x
      | None \<Rightarrow> if \<not> db_pass_ok (str p ''password'') then Some ''invalid database password'' else None)"

definition SafeRelPath :: "string \<Rightarrow> string option" where
  "SafeRelPath s =
     (if s = [] \<or> path_is_abs s \<or> CHR 0x00 \<in> set s then Some ''path must be a non-empty relative path''
      else if list_ex (\<lambda>seg. seg = ''..'') (split_on (CHR ''/'') s) then Some ''path must not contain ..''
      else None)"

definition validDBFile :: "params \<Rightarrow> string option" where
  "validDBFile p = (case needDBName p of Some x \<Rightarrow> Some x | None \<Rightarrow> SafeRelPath (str p ''path''))"

definition needPath :: "params \<Rightarrow> string option" where
  "needPath p = SafeRelPath (str p ''path'')"

definition validFSWrite :: "params \<Rightarrow> string option" where
  "validFSWrite p =
     (case SafeRelPath (str p ''path'') of
        Some x \<Rightarrow> Some x
      | None \<Rightarrow> if int (length (str p ''content_b64'')) > 8 * 2 ^ 20 then Some ''content too large (max 8 MiB)'' else None)"

definition validDockerCreate :: "params \<Rightarrow> string option" where
  "validDockerCreate p =
     (case needName p of
        Some x \<Rightarrow> Some x
      | None \<Rightarrow>
          if has_prefix reservedPrefix (str p ''name'') then Some refused_text
          else let img = str p ''image''; u = str p ''user'' in
            if int (length img) > 255 \<or> \<not> image_ok img \<or> has_prefix ''-'' img then Some ''invalid image''
            else if u \<noteq> [] \<and> \<not> workload_user_ok u then Some ''user must be a non-root numeric uid[:gid]''
            else None)"

definition validHealth :: "golib \<Rightarrow> params \<Rightarrow> string option" where
  "validHealth g p =
     (let kind = str p ''kind''; target = str p ''target'' in
      if kind = ''http'' then
        (case url_parse g target of
           None \<Rightarrow> Some ''invalid http target''
         | Some u \<Rightarrow>
             if (url_scheme u \<noteq> ''http'' \<and> url_scheme u \<noteq> ''https'') \<or> url_host u = [] then Some ''invalid http target''
             else None)
      else if kind = ''tcp'' then
        (if CHR '':'' \<notin> set target then Some ''tcp target must be host:port'' else None)
      else Some ''kind must be http or tcp'')"

definition Allowed :: "golib \<Rightarrow> (string \<times> (params \<Rightarrow> string option)) list" where
  "Allowed g =
     [(''docker.create'', validDockerCreate),
      (''docker.start'', needMutableName),
      (''docker.stop'', needMutableName),
      (''docker.restart'', needMutableName),
      (''docker.remove'', needMutableName),
      (''docker.inspect'', needName),
      (''docker.list'', \<lambda>_. None),
      (''docker.logs'', needName),
      (''database.ensure'', validDBEnsure),
      (''database.drop'', validDBDrop),
      (''database.exists'', needDBName),
      (''database.dump'', validDBFile),
      (''database.load'', validDBFile),
      (''filesystem.read'', needPath),
      (''filesystem.write'', validFSWrite),
      (''filesystem.mkdir'', needPath),
      (''filesystem.remove'', needPath),
      (''service.health'', validHealth g),
      (''metrics.collect'', \<lambda>_. None)]"

text \<open>\<open>%q\<close>, for text without characters that \<open>strconv.Quote\<close> escapes.\<close>

definition double_quoted :: "string \<Rightarrow> string" where
  "double_quoted s = CHR 0x22 # s @ [CHR 0x22]"

definition ValidateParams :: "golib \<Rightarrow> string \<Rightarrow> raw_json \<Rightarrow> string option" where
  "ValidateParams g opn raw =
     (case map_of (Allowed g) opn of
        None \<Rightarrow> Some (''operation '' @ double_quoted opn @ '' is not in the allowlist'')
      | Some v \<Rightarrow>
          (case raw of
             Blank \<Rightarrow> v []
           | Doc JNull \<Rightarrow> v []
           | Doc (JObj p) \<Rightarrow> v p
           | _ \<Rightarrow> Some ''params must be a JSON object''))"

section \<open>Command signing (API to agent)\<close>

record command =
  c_id :: string
  c_agent :: string
  c_request :: string
  c_op :: string
  c_params :: raw_json
  c_expires :: int
  c_signature :: string

definition Canonical :: "raw_json \<Rightarrow> string option" where
  "Canonical raw =
     (case raw of
        Blank \<Rightarrow> Some ''{}''
      | Garbage _ \<Rightarrow> None
      | Doc v \<Rightarrow> Some (json_text (decode_any v)))"

definition commandMessage :: "golib \<Rightarrow> command \<Rightarrow> string \<Rightarrow> string" where
  "commandMessage g c canon =
     join_with [newline]
       [''NODERA-CMD-V1'', c_id c, c_agent c, c_request c, c_op c, sprint_d (c_expires c), sha_hex g canon]"

definition SignCommand :: "golib \<Rightarrow> string \<Rightarrow> command \<Rightarrow> string + command" where
  "SignCommand g priv c =
     (case Canonical (c_params c) of
        None \<Rightarrow> Inl ''malformed params''
      | Some canon \<Rightarrow> Inr (c\<lparr>c_signature := b64_encode (ed_sign g priv (commandMessage g c canon))\<rparr>))"

definition VerifyCommand :: "golib \<Rightarrow> string \<Rightarrow> string \<Rightarrow> command \<Rightarrow> time \<Rightarrow> string option" where
  "VerifyCommand g pub expect c now =
     (if c_agent c \<noteq> expect then Some ''command addressed to a different agent''
      else if unix now > c_expires c then Some ''command expired''
      else (case Canonical (c_params c) of
          None \<Rightarrow> Some ''malformed params''
        | Some canon \<Rightarrow>
            (case b64_decode (c_signature c) of
               None \<Rightarrow> Some ''invalid command signature''
             | Some sig \<Rightarrow>
                 if \<not> ed_verify g pub (commandMessage g c canon) sig then Some ''invalid command signature''
                 else ValidateParams g (c_op c) (c_params c))))"

section \<open>Lemmas\<close>

lemma VerifyRequest_NoneD:
  "VerifyRequest g pub h method p body now = None \<Longrightarrow>
   nonce_ok (h_nonce h) \<and>
   (\<exists>sec sig. sscan_d (h_timestamp h) = Some sec \<and> \<bar>now - sec * second\<bar> \<le> max_clock_skew \<and>
      b64_decode (h_signature h) = Some sig \<and> length sig = signature_size \<and>
      ed_verify g pub (requestMessage (h_agent h) (h_timestamp h) (h_nonce h) method p (sha_hex g body)) sig)"
  by (auto simp: VerifyRequest_def Let_def abs_le_iff split: if_splits option.splits)

lemma VerifyCommand_NoneD:
  "VerifyCommand g pub expect c now = None \<Longrightarrow>
   c_agent c = expect \<and> unix now \<le> c_expires c \<and> ValidateParams g (c_op c) (c_params c) = None \<and>
   (\<exists>canon sig. Canonical (c_params c) = Some canon \<and> b64_decode (c_signature c) = Some sig \<and>
      ed_verify g pub (commandMessage g c canon) sig)"
  by (auto simp: VerifyCommand_def split: if_splits option.splits)

lemma ValidateParams_unknown:
  "map_of (Allowed g) opn = None \<Longrightarrow> ValidateParams g opn raw \<noteq> None"
  unfolding ValidateParams_def by simp

lemma ValidateParams_NoneD: "ValidateParams g opn raw = None \<Longrightarrow> map_of (Allowed g) opn \<noteq> None"
  using ValidateParams_unknown by blast

lemma hex_no_newline: "list_all is_hex_lower s \<Longrightarrow> newline \<notin> set s"
  by (auto simp: list_all_iff newline_def is_hex_lower_def is_digit_def code_def)

lemma nonce_no_newline: "nonce_ok s \<Longrightarrow> newline \<notin> set s"
  by (auto simp: nonce_ok_def list_all_iff newline_def is_alnum_def is_lower_def is_upper_def is_digit_def code_def)

lemma sprint_d_clean: "newline \<notin> set (sprint_d i)"
  by (simp add: newline_def sprint_d_no_newline)

lemma itoa_inj: "itoa m = itoa n \<Longrightarrow> m = n"
  using digits_value_itoa [of m] by simp

lemma sprint_d_inj: "sprint_d i = sprint_d j \<Longrightarrow> i = j"
  using itoa_no_sign [of "nat i"] itoa_no_sign [of "nat j"]
  by (auto simp: sprint_d_def split: if_splits dest: itoa_inj) (metis list.sel(1))+

text \<open>The signed message determines every field of the command, when the signed fields hold no newline.\<close>

lemma commandMessage_inj:
  assumes "commandMessage g c a = commandMessage g d b" "sha_is_hex g"
    and "newline \<notin> set (c_id d)" "newline \<notin> set (c_agent d)" "newline \<notin> set (c_request d)" "newline \<notin> set (c_op d)"
  shows "c_id c = c_id d \<and> c_agent c = c_agent d \<and> c_request c = c_request d \<and> c_op c = c_op d \<and>
    c_expires c = c_expires d \<and> sha_hex g a = sha_hex g b"
proof -
  have "newline \<notin> set (sha_hex g b)" using assms(2) by (simp add: sha_is_hex_def hex_no_newline)
  moreover have "newline \<notin> set ''NODERA-CMD-V1''" by (simp add: newline_def)
  ultimately have "[''NODERA-CMD-V1'', c_id c, c_agent c, c_request c, c_op c, sprint_d (c_expires c), sha_hex g a] =
      [''NODERA-CMD-V1'', c_id d, c_agent d, c_request d, c_op d, sprint_d (c_expires d), sha_hex g b]"
    using assms(1, 3-6) sprint_d_clean unfolding commandMessage_def
    by (intro join_with_inj [where c = newline]) auto
  then show ?thesis by (simp add: sprint_d_inj)
qed

lemma requestMessage_inj:
  assumes "requestMessage a1 t1 n1 m1 p1 b1 = requestMessage a2 t2 n2 m2 p2 b2"
    and "newline \<notin> set a2" "newline \<notin> set t2" "newline \<notin> set n2" "newline \<notin> set (to_upper m2)"
    "newline \<notin> set p2" "newline \<notin> set b2"
  shows "a1 = a2 \<and> t1 = t2 \<and> n1 = n2 \<and> to_upper m1 = to_upper m2 \<and> p1 = p2 \<and> b1 = b2"
proof -
  have "newline \<notin> set ''NODERA-AGENT-V1''" by (simp add: newline_def)
  then have "[''NODERA-AGENT-V1'', a1, t1, n1, to_upper m1, p1, b1] = [''NODERA-AGENT-V1'', a2, t2, n2, to_upper m2, p2, b2]"
    using assms unfolding requestMessage_def by (intro join_with_inj [where c = newline]) auto
  then show ?thesis by simp
qed

lemma SafeRelPath_NoneD:
  "SafeRelPath s = None \<Longrightarrow> s \<noteq> [] \<and> \<not> path_is_abs s \<and> ''..'' \<notin> set (split_on (CHR ''/'') s)"
  by (auto simp: SafeRelPath_def list_ex_iff split: if_splits)

text \<open>A path that passes stays below whatever directory it is appended to.\<close>

lemma SafeRelPath_contained:
  "SafeRelPath s = None \<Longrightarrow> root \<noteq> [] \<Longrightarrow> \<exists>more. clean_segs (root @ CHR ''/'' # s) = clean_segs root @ more"
  by (drule SafeRelPath_NoneD) (simp add: clean_segs_append)

section \<open>An instance of the parameters\<close>

text \<open>A hash that is the hex text of its input, and signatures that are the padded message.\<close>

definition demo_sha :: "string \<Rightarrow> string" where
  "demo_sha m = concat (map (\<lambda>c. [hex_digit (code c div 16), hex_digit (code c mod 16)]) m)"

definition demo_sign :: "string \<Rightarrow> string \<Rightarrow> string" where
  "demo_sign priv m = take signature_size (priv @ m @ replicate signature_size CHR 0x00)"

definition demo_golib :: golib where
  "demo_golib = \<lparr>ed_public = (\<lambda>priv. priv), ed_sign = demo_sign, ed_verify = (\<lambda>pub m sig. sig = demo_sign pub m),
     sha_hex = demo_sha, url_parse = (\<lambda>_. None),
     uuid_parse = (\<lambda>s. if s \<noteq> [] \<and> list_all is_digit s then Some (digits_value s 0) else None),
     uuid_text = itoa, jsonb = (\<lambda>v. v)\<rparr>"

end
