(* ===== verification/Go_Text.thy ===== *)
theory Go_Text
  imports Go_Strings
begin

text \<open>
  The searching and replacing functions of Go's \<open>strings\<close> package. Only the empty pattern looks at
  runes; every other pattern is matched on bytes.
\<close>

section \<open>Runes\<close>

text \<open>
  How many bytes \<open>utf8.DecodeRune\<close> takes from the head of a byte string: an invalid encoding counts
  as one byte.
\<close>

definition cont_byte :: "nat \<Rightarrow> bool" where
  "cont_byte b \<longleftrightarrow> 0x80 \<le> b \<and> b \<le> 0xBF"

definition second_byte :: "nat \<Rightarrow> nat \<Rightarrow> bool" where
  "second_byte a b \<longleftrightarrow>
     (if a = 0xE0 then 0xA0 \<le> b \<and> b \<le> 0xBF
      else if a = 0xED then 0x80 \<le> b \<and> b \<le> 0x9F
      else if a = 0xF0 then 0x90 \<le> b \<and> b \<le> 0xBF
      else if a = 0xF4 then 0x80 \<le> b \<and> b \<le> 0x8F
      else cont_byte b)"

fun rune_len :: "nat list \<Rightarrow> nat" where
  "rune_len [] = 0"
| "rune_len (a # r) =
     (case r of
        [] \<Rightarrow> 1
      | b # r' \<Rightarrow>
          if 0xC2 \<le> a \<and> a \<le> 0xDF then (if cont_byte b then 2 else 1)
          else if 0xE0 \<le> a \<and> a \<le> 0xEF then
            (case r' of [] \<Rightarrow> 1 | c # _ \<Rightarrow> if second_byte a b \<and> cont_byte c then 3 else 1)
          else if 0xF0 \<le> a \<and> a \<le> 0xF4 then
            (case r' of
               c # d # _ \<Rightarrow> if second_byte a b \<and> cont_byte c \<and> cont_byte d then 4 else 1
             | _ \<Rightarrow> 1)
          else 1)"

lemma rune_len_pos [simp]: "s \<noteq> [] \<Longrightarrow> 0 < rune_len s"
  by (cases s) (auto split: list.splits)

function runes :: "string \<Rightarrow> string list" where
  "runes s = (if s = [] then []
     else take (rune_len (map code s)) s # runes (drop (rune_len (map code s)) s))"
  by pat_completeness auto
termination by (relation "measure length") auto

declare runes.simps [simp del]

section \<open>Searching\<close>

text \<open>\<open>strings.Contains\<close>, and \<open>strings.Index\<close> as the bytes before and after the first occurrence.\<close>

fun contains_text :: "string \<Rightarrow> string \<Rightarrow> bool" where
  "contains_text sub [] = (sub = [])"
| "contains_text sub (c # cs) = (has_prefix sub (c # cs) \<or> contains_text sub cs)"

fun cut_at :: "string \<Rightarrow> string \<Rightarrow> (string \<times> string) option" where
  "cut_at sub [] = (if sub = [] then Some ([], []) else None)"
| "cut_at sub (c # cs) =
     (if has_prefix sub (c # cs) then Some ([], drop (length sub) (c # cs))
      else map_option (\<lambda>(a, b). (c # a, b)) (cut_at sub cs))"

lemma has_prefix_iff: "has_prefix p s \<longleftrightarrow> (\<exists>r. s = p @ r)"
proof
  assume "has_prefix p s"
  then have "s = p @ drop (length p) s" unfolding has_prefix_def by (metis append_take_drop_id)
  then show "\<exists>r. s = p @ r" ..
qed (auto simp: has_prefix_def)

lemma has_prefix_append [simp]: "has_prefix p (p @ r)"
  by (simp add: has_prefix_def)

lemma contains_text_iff: "contains_text sub s \<longleftrightarrow> (\<exists>a b. s = a @ sub @ b)"
proof (induction s)
  case (Cons c cs)
  have "(\<exists>a b. c # cs = a @ sub @ b) \<longleftrightarrow> (\<exists>b. c # cs = sub @ b) \<or> (\<exists>a b. cs = a @ sub @ b)"
    by (simp add: Cons_eq_append_conv) blast
  then show ?case using Cons by (simp add: has_prefix_iff)
qed auto

lemma contains_text_char: "contains_text sub s \<Longrightarrow> c \<in> set sub \<Longrightarrow> c \<in> set s"
  by (auto simp: contains_text_iff)

lemma cut_at_Some: "cut_at sub s = Some (a, b) \<Longrightarrow> s = a @ sub @ b"
  by (induction s arbitrary: a) (auto split: if_splits simp: has_prefix_iff)

lemma cut_at_None: "cut_at sub s = None \<longleftrightarrow> \<not> contains_text sub s"
  by (induction s) (auto simp: has_prefix_def)

section \<open>Replacing and counting\<close>

text \<open>
  \<open>strings.ReplaceAll\<close> and \<open>strings.Count\<close>: occurrences are taken from the left and do not overlap.
  The empty pattern stands before every rune and at the end.
\<close>

function replace_nonempty :: "string \<Rightarrow> string \<Rightarrow> string \<Rightarrow> string" where
  "replace_nonempty old new s =
     (if s = [] then []
      else if has_prefix old s \<and> old \<noteq> [] then new @ replace_nonempty old new (drop (length old) s)
      else hd s # replace_nonempty old new (tl s))"
  by pat_completeness auto
termination by (relation "measure (\<lambda>(old, new, s). length s)") auto

declare replace_nonempty.simps [simp del]

definition replace_all :: "string \<Rightarrow> string \<Rightarrow> string \<Rightarrow> string" where
  "replace_all old new s =
     (if old = [] then concat (map (\<lambda>r. new @ r) (runes s)) @ new else replace_nonempty old new s)"

function count_nonempty :: "string \<Rightarrow> string \<Rightarrow> nat" where
  "count_nonempty old s =
     (if s = [] then 0
      else if has_prefix old s \<and> old \<noteq> [] then Suc (count_nonempty old (drop (length old) s))
      else count_nonempty old (tl s))"
  by pat_completeness auto
termination by (relation "measure (\<lambda>(old, s). length s)") auto

declare count_nonempty.simps [simp del]

definition count_text :: "string \<Rightarrow> string \<Rightarrow> nat" where
  "count_text sub s = (if sub = [] then length (runes s) + 1 else count_nonempty sub s)"

lemma replace_nonempty_absent: "\<not> contains_text old s \<Longrightarrow> replace_nonempty old new s = s"
  by (induction s) (simp_all add: replace_nonempty.simps)

lemma replace_all_absent [simp]: "old \<noteq> [] \<Longrightarrow> \<not> contains_text old s \<Longrightarrow> replace_all old new s = s"
  by (simp add: replace_all_def replace_nonempty_absent)

lemma count_nonempty_0: "old \<noteq> [] \<Longrightarrow> count_nonempty old s = 0 \<longleftrightarrow> \<not> contains_text old s"
proof (induction old s rule: count_nonempty.induct)
  case (1 old s)
  then show ?case
    by (cases s) (simp_all add: count_nonempty.simps [of old "_ # _"] count_nonempty.simps [of old "[]"])
qed

lemma count_text_0: "sub \<noteq> [] \<Longrightarrow> count_text sub s = 0 \<longleftrightarrow> \<not> contains_text sub s"
  by (simp add: count_text_def count_nonempty_0)

text \<open>\<open>strings.TrimRight(s, c)\<close> for a one-byte cutset, \<open>TrimSuffix\<close> and \<open>TrimPrefix\<close>.\<close>

definition trim_right_char :: "char \<Rightarrow> string \<Rightarrow> string" where
  "trim_right_char c s = rev (dropWhile (\<lambda>x. x = c) (rev s))"

definition trim_suffix :: "string \<Rightarrow> string \<Rightarrow> string" where
  "trim_suffix p s = (if has_suffix p s then take (length s - length p) s else s)"

definition trim_prefix :: "string \<Rightarrow> string \<Rightarrow> string" where
  "trim_prefix p s = (if has_prefix p s then drop (length p) s else s)"

text \<open>\<open>strings.ToLower\<close> on ASCII letters; other bytes are kept.\<close>

definition lower_ascii :: "string \<Rightarrow> string" where
  "lower_ascii = map (\<lambda>c. if is_upper c then char_of (code c + 32) else c)"

section \<open>Machine integers\<close>

definition max_int :: int where "max_int = 2 ^ 63 - 1"

text \<open>Arithmetic on 64-bit \<open>int\<close>s wraps around.\<close>

definition wrap64 :: "int \<Rightarrow> int" where
  "wrap64 i = (i + 2 ^ 63) mod 2 ^ 64 - 2 ^ 63"

end
