(* ===== verification/Agent_Executor.thy ===== *)
theory Agent_Executor
  imports Agent_Protocol Go_Text
begin

text \<open>
  internal/nodeagent/guard (the policy on protected containers) and internal/nodeagent/executor (the
  mapping of allowlisted commands onto provider calls). The providers are a parameter; a node keeps
  the log of the calls made.
\<close>

section \<open>guard.Policy\<close>

definition RoleLabel :: string where "RoleLabel = ''nodera.role''"
definition RoleControl :: string where "RoleControl = ''control-plane''"

record policy =
  DataRoot :: string
  ProtectedNames :: "string list"

definition protectedName :: "policy \<Rightarrow> string \<Rightarrow> bool" where
  "protectedName p name \<longleftrightarrow>
     has_prefix reservedPrefix name \<or> list_ex (\<lambda>n. n \<noteq> [] \<and> n = name) (ProtectedNames p)"

definition CheckMutation :: "policy \<Rightarrow> string \<Rightarrow> string_map \<Rightarrow> string option" where
  "CheckMutation p name labels =
     (if protectedName p name \<or> map_of labels RoleLabel = Some RoleControl
      then Some (refused_text @ '': container '' @ double_quoted name) else None)"

definition check_volume :: "string \<Rightarrow> string \<Rightarrow> string option" where
  "check_volume root src =
     (if \<not> path_is_abs src then
        Some (''refused: volume source '' @ double_quoted src @ '' must be an absolute host path under the data root'')
      else let s = clean_path src in
        if root = [] \<or> root = ''.'' \<or> (s \<noteq> root \<and> \<not> has_prefix (root @ ''/'') s) then
          Some (''refused: volume source '' @ double_quoted s @ '' is outside the data root'')
        else if contains_text ''docker.sock'' s then
          Some ''refused: the Docker socket cannot be mounted into managed workloads''
        else None)"

fun check_volumes :: "string \<Rightarrow> (string \<times> string) list \<Rightarrow> string option" where
  "check_volumes root [] = None"
| "check_volumes root (v # vs) =
     (case check_volume root (fst v) of Some x \<Rightarrow> Some x | None \<Rightarrow> check_volumes root vs)"

definition CheckCreate ::
  "policy \<Rightarrow> string \<Rightarrow> string_map \<Rightarrow> string list \<Rightarrow> (string \<times> string) list \<Rightarrow> string option" where
  "CheckCreate p name labels networks volumes =
     (case CheckMutation p name [] of
        Some x \<Rightarrow> Some x
      | None \<Rightarrow>
          if map_of labels RoleLabel = Some RoleControl then
            Some (refused_text @ '': label '' @ RoleLabel @ ''='' @ RoleControl @ '' is reserved'')
          else if list_ex (\<lambda>n. n = ''host'') networks then
            Some ''refused: host networking is not allowed for managed workloads''
          else check_volumes (clean_path (DataRoot p)) volumes)"

section \<open>The providers\<close>

record volume_mount =
  vm_source :: string
  vm_target :: string
  vm_read_only :: bool

record container_spec =
  cs_name :: string
  cs_image :: string
  cs_env :: string_map
  cs_labels :: string_map
  cs_ports :: "(int \<times> int) list"
  cs_networks :: "string list"
  cs_volumes :: "volume_mount list"
  cs_cmd :: "string list"
  cs_user :: string

text \<open>The calls the executor makes: of the provider interfaces, and of package \<open>os\<close> for dump files.\<close>

datatype call =
    CreateContainer container_spec
  | StartContainer string
  | StopContainer string
  | RestartContainer string
  | RemoveContainer string
  | InspectContainer string
  | ListContainers
  | ContainerLogs string int
  | EnsureDatabase string string string
  | DropDatabase string string
  | DatabaseExists string
  | DumpDatabase string string
  | LoadDatabase string string
  | AbsPath string
  | ReadFile string
  | WriteFile string string
  | MkdirAll string
  | RemovePath string
  | CheckHTTP string int
  | CheckTCP string
  | CollectNodeMetrics string
  | OpenExclusive string
  | OpenForReading string
  | CloseFile string
  | OsRemove string
  | StatFile string

text \<open>
  A reply: the error if there is one, the returned value as JSON, and the parts the executor looks
  at (whether an inspected container was found and its labels, text, a flag).
\<close>

record reply =
  r_err :: "string option"
  r_value :: json
  r_flag :: bool
  r_labels :: string_map
  r_text :: string

text \<open>
  A node is two histories that no operation reads, the provider calls made with their replies and the
  commands \<open>Execute\<close> was called with, and the world behind them. The providers are a parameter: which of
  them are configured, and how a call with a time limit answers and changes the world.
\<close>

record 'w node =
  n_log :: "(call \<times> reply) list"
  n_ran :: "command list"
  n_world :: 'w

record 'w providers =
  has_containers :: bool
  has_fs :: bool
  has_monitoring :: bool
  has_db :: bool
  serve :: "duration \<Rightarrow> call \<Rightarrow> 'w \<Rightarrow> reply \<times> 'w"

definition calls_made :: "'w node \<Rightarrow> call list" where
  "calls_made n = map fst (n_log n)"

definition ask :: "'w providers \<Rightarrow> duration \<Rightarrow> call \<Rightarrow> 'w node \<Rightarrow> reply \<times> 'w node" where
  "ask P limit c n =
     (let (r, w) = serve P limit c (n_world n) in (r, n\<lparr>n_log := n_log n @ [(c, r)], n_world := w\<rparr>))"

section \<open>The decoded parameters\<close>

record exec_params =
  p_name :: string
  p_image :: string
  p_env :: string_map
  p_labels :: string_map
  p_ports :: "(int \<times> int) list"
  p_networks :: "string list"
  p_volumes :: "volume_mount list"
  p_cmd :: "string list"
  p_tail :: int
  p_path :: string
  p_content_b64 :: string
  p_kind :: string
  p_target :: string
  p_expect :: int
  p_user :: string
  p_password :: string

definition zero_params :: exec_params where
  "zero_params = \<lparr>p_name = [], p_image = [], p_env = [], p_labels = [], p_ports = [],
     p_networks = [], p_volumes = [], p_cmd = [], p_tail = 0, p_path = [], p_content_b64 = [],
     p_kind = [], p_target = [], p_expect = 0, p_user = [], p_password = []\<rparr>"

definition assign_port :: "int \<times> int \<Rightarrow> string \<Rightarrow> json \<Rightarrow> (int \<times> int) option" where
  "assign_port p k v =
     (if names_field k ''host'' then map_option (\<lambda>i. (i, snd p)) (decode_int v (fst p))
      else if names_field k ''container'' then map_option (\<lambda>i. (fst p, i)) (decode_int v (snd p))
      else Some p)"

definition assign_volume :: "volume_mount \<Rightarrow> string \<Rightarrow> json \<Rightarrow> volume_mount option" where
  "assign_volume m k v =
     (if names_field k ''source'' then map_option (\<lambda>s. m\<lparr>vm_source := s\<rparr>) (decode_string v (vm_source m))
      else if names_field k ''target'' then map_option (\<lambda>s. m\<lparr>vm_target := s\<rparr>) (decode_string v (vm_target m))
      else if names_field k ''read_only'' then map_option (\<lambda>b. m\<lparr>vm_read_only := b\<rparr>) (decode_bool v (vm_read_only m))
      else Some m)"

definition zero_volume :: volume_mount where
  "zero_volume = \<lparr>vm_source = [], vm_target = [], vm_read_only = False\<rparr>"

definition assign_param :: "exec_params \<Rightarrow> string \<Rightarrow> json \<Rightarrow> exec_params option" where
  "assign_param p k v =
     (if names_field k ''name'' then map_option (\<lambda>s. p\<lparr>p_name := s\<rparr>) (decode_string v (p_name p))
      else if names_field k ''image'' then map_option (\<lambda>s. p\<lparr>p_image := s\<rparr>) (decode_string v (p_image p))
      else if names_field k ''env'' then map_option (\<lambda>m. p\<lparr>p_env := m\<rparr>) (decode_string_map v (p_env p))
      else if names_field k ''labels'' then map_option (\<lambda>m. p\<lparr>p_labels := m\<rparr>) (decode_string_map v (p_labels p))
      else if names_field k ''ports'' then
        map_option (\<lambda>xs. p\<lparr>p_ports := xs\<rparr>) (decode_slice (decode_struct assign_port) (0, 0) v (p_ports p))
      else if names_field k ''networks'' then
        map_option (\<lambda>xs. p\<lparr>p_networks := xs\<rparr>) (decode_slice decode_string [] v (p_networks p))
      else if names_field k ''volumes'' then
        map_option (\<lambda>xs. p\<lparr>p_volumes := xs\<rparr>) (decode_slice (decode_struct assign_volume) zero_volume v (p_volumes p))
      else if names_field k ''cmd'' then
        map_option (\<lambda>xs. p\<lparr>p_cmd := xs\<rparr>) (decode_slice decode_string [] v (p_cmd p))
      else if names_field k ''tail'' then map_option (\<lambda>i. p\<lparr>p_tail := i\<rparr>) (decode_int v (p_tail p))
      else if names_field k ''path'' then map_option (\<lambda>s. p\<lparr>p_path := s\<rparr>) (decode_string v (p_path p))
      else if names_field k ''content_b64'' then
        map_option (\<lambda>s. p\<lparr>p_content_b64 := s\<rparr>) (decode_string v (p_content_b64 p))
      else if names_field k ''kind'' then map_option (\<lambda>s. p\<lparr>p_kind := s\<rparr>) (decode_string v (p_kind p))
      else if names_field k ''target'' then map_option (\<lambda>s. p\<lparr>p_target := s\<rparr>) (decode_string v (p_target p))
      else if names_field k ''expect_status'' then map_option (\<lambda>i. p\<lparr>p_expect := i\<rparr>) (decode_int v (p_expect p))
      else if names_field k ''user'' then map_option (\<lambda>s. p\<lparr>p_user := s\<rparr>) (decode_string v (p_user p))
      else if names_field k ''password'' then map_option (\<lambda>s. p\<lparr>p_password := s\<rparr>) (decode_string v (p_password p))
      else Some p)"

definition decode_params :: "raw_json \<Rightarrow> exec_params option" where
  "decode_params raw = (case raw of Doc v \<Rightarrow> decode_struct assign_param v zero_params | _ \<Rightarrow> None)"

section \<open>Execute\<close>

definition timeoutFor :: "string \<Rightarrow> duration" where
  "timeoutFor opn = (if opn = ''database.dump'' \<or> opn = ''database.load'' then 2 * hour else 5 * minute)"

text \<open>The outcome of a command: the error, or the JSON of the result; and the node after it.\<close>

type_synonym 'w outcome = "(string + json) \<times> 'w node"

definition marshal :: "json \<Rightarrow> string option \<Rightarrow> string + json" where
  "marshal v x = (case x of Some m \<Rightarrow> Inl m | None \<Rightarrow> Inr v)"

definition ok_json :: json where "ok_json = JObj [(''ok'', JBool True)]"

definition unavailable :: "string \<Rightarrow> string" where
  "unavailable what = what @ '' provider is not available on this node''"

definition checkMutable :: "'w providers \<Rightarrow> duration \<Rightarrow> policy \<Rightarrow> string \<Rightarrow> 'w node \<Rightarrow> string option \<times> 'w node" where
  "checkMutable P limit pol name n =
     (let (r, n1) = ask P limit (InspectContainer name) n;
          labels = (if r_err r = None \<and> r_flag r then r_labels r else [])
      in (CheckMutation pol name labels, n1))"

definition exec_create :: "'w providers \<Rightarrow> duration \<Rightarrow> policy \<Rightarrow> exec_params \<Rightarrow> 'w node \<Rightarrow> 'w outcome" where
  "exec_create P limit pol p n =
     (case CheckCreate pol (p_name p) (p_labels p) (p_networks p)
             (map (\<lambda>v. (vm_source v, vm_target v)) (p_volumes p)) of
        Some x \<Rightarrow> (Inl x, n)
      | None \<Rightarrow>
          let (r, n1) = ask P limit (CreateContainer
                \<lparr>cs_name = p_name p, cs_image = p_image p, cs_env = p_env p, cs_labels = p_labels p,
                 cs_ports = p_ports p, cs_networks = p_networks p, cs_volumes = p_volumes p,
                 cs_cmd = p_cmd p, cs_user = p_user p\<rparr>) n
          in (marshal (JObj [(''container'', r_value r), (''created'', JBool (r_flag r))]) (r_err r), n1))"

definition lifecycle_call :: "string \<Rightarrow> string \<Rightarrow> call" where
  "lifecycle_call opn name =
     (if opn = ''docker.start'' then StartContainer name
      else if opn = ''docker.stop'' then StopContainer name
      else if opn = ''docker.restart'' then RestartContainer name
      else RemoveContainer name)"

definition exec_lifecycle :: "'w providers \<Rightarrow> duration \<Rightarrow> policy \<Rightarrow> string \<Rightarrow> string \<Rightarrow> 'w node \<Rightarrow> 'w outcome" where
  "exec_lifecycle P limit pol opn name n =
     (case checkMutable P limit pol name n of
        (Some x, n1) \<Rightarrow> (Inl x, n1)
      | (None, n1) \<Rightarrow>
          let (r, n2) = ask P limit (lifecycle_call opn name) n1
          in (marshal ok_json (r_err r), n2))"

definition exec_dump :: "'w providers \<Rightarrow> duration \<Rightarrow> string \<Rightarrow> string \<Rightarrow> 'w node \<Rightarrow> 'w outcome" where
  "exec_dump P limit name full n =
     (let (r1, n1) = ask P limit (OpenExclusive full) n in
      case r_err r1 of
        Some x \<Rightarrow> (Inl x, n1)
      | None \<Rightarrow>
        let (r2, n2) = ask P limit (DumpDatabase name full) n1;
            (r3, n3) = ask P limit (CloseFile full) n2;
            derr = (case r_err r2 of Some x \<Rightarrow> Some x | None \<Rightarrow> r_err r3)
        in case derr of
             Some x \<Rightarrow> (Inl x, snd (ask P limit (OsRemove full) n3))
           | None \<Rightarrow>
               let (r4, n4) = ask P limit (StatFile full) n3
               in (marshal (JObj [(''bytes'', r_value r4)]) (r_err r4), n4))"

definition exec_load :: "'w providers \<Rightarrow> duration \<Rightarrow> string \<Rightarrow> string \<Rightarrow> 'w node \<Rightarrow> 'w outcome" where
  "exec_load P limit name full n =
     (let (r1, n1) = ask P limit (OpenForReading full) n in
      case r_err r1 of
        Some x \<Rightarrow> (Inl x, n1)
      | None \<Rightarrow>
        let (r2, n2) = ask P limit (LoadDatabase name full) n1;
            (_, n3) = ask P limit (CloseFile full) n2
        in (marshal ok_json (r_err r2), n3))"

definition exec_database :: "'w providers \<Rightarrow> duration \<Rightarrow> string \<Rightarrow> exec_params \<Rightarrow> 'w node \<Rightarrow> 'w outcome" where
  "exec_database P limit opn p n =
     (if opn = ''database.ensure'' then
        (let (r, n1) = ask P limit (EnsureDatabase (p_name p) (p_user p) (p_password p)) n
         in (marshal (JObj [(''created'', JBool (r_flag r))]) (r_err r), n1))
      else if opn = ''database.drop'' then
        (let (r, n1) = ask P limit (DropDatabase (p_name p) (p_user p)) n in (marshal ok_json (r_err r), n1))
      else if opn = ''database.exists'' then
        (let (r, n1) = ask P limit (DatabaseExists (p_name p)) n
         in (marshal (JObj [(''exists'', JBool (r_flag r))]) (r_err r), n1))
      else if \<not> has_fs P then (Inl (unavailable ''filesystem''), n)
      else
        (let (r, n1) = ask P limit (AbsPath (p_path p)) n in
         case r_err r of
           Some x \<Rightarrow> (Inl x, n1)
         | None \<Rightarrow> if opn = ''database.dump'' then exec_dump P limit (p_name p) (r_text r) n1
                   else exec_load P limit (p_name p) (r_text r) n1))"

definition max_read :: int where "max_read = 4 * 2 ^ 20"

definition exec_fs :: "'w providers \<Rightarrow> duration \<Rightarrow> string \<Rightarrow> exec_params \<Rightarrow> 'w node \<Rightarrow> 'w outcome" where
  "exec_fs P limit opn p n =
     (if \<not> has_fs P then (Inl (unavailable ''filesystem''), n)
      else if opn = ''filesystem.read'' then
        (let (r, n1) = ask P limit (ReadFile (p_path p)) n in
         if r_err r = None \<and> int (length (r_text r)) > max_read then
           (Inl ''file too large to read through the agent'', n1)
         else (marshal (JObj [(''content_b64'', JStr (b64_encode (r_text r)))]) (r_err r), n1))
      else if opn = ''filesystem.write'' then
        (case b64_decode (p_content_b64 p) of
           None \<Rightarrow> (Inl ''content_b64 is not valid base64'', n)
         | Some d \<Rightarrow>
             let (r, n1) = ask P limit (WriteFile (p_path p) d) n in (marshal ok_json (r_err r), n1))
      else if opn = ''filesystem.mkdir'' then
        (let (r, n1) = ask P limit (MkdirAll (p_path p)) n in (marshal ok_json (r_err r), n1))
      else (let (r, n1) = ask P limit (RemovePath (p_path p)) n in (marshal ok_json (r_err r), n1)))"

definition exec_monitoring :: "'w providers \<Rightarrow> duration \<Rightarrow> string \<Rightarrow> exec_params \<Rightarrow> 'w node \<Rightarrow> 'w outcome" where
  "exec_monitoring P limit opn p n =
     (if \<not> has_monitoring P then (Inl (unavailable ''monitoring''), n)
      else
        let c = (if opn = ''service.health'' then
                   (if p_kind p = ''http'' then CheckHTTP (p_target p) (p_expect p) else CheckTCP (p_target p))
                 else CollectNodeMetrics ''self'');
            (r, n1) = ask P limit c n
        in (marshal (r_value r) (r_err r), n1))"

definition exec_docker :: "'w providers \<Rightarrow> duration \<Rightarrow> policy \<Rightarrow> string \<Rightarrow> exec_params \<Rightarrow> 'w node \<Rightarrow> 'w outcome" where
  "exec_docker P limit pol opn p n =
     (if \<not> has_containers P then (Inl (unavailable ''container''), n)
      else if opn = ''docker.create'' then exec_create P limit pol p n
      else if opn \<in> {''docker.start'', ''docker.stop'', ''docker.restart'', ''docker.remove''} then
        exec_lifecycle P limit pol opn (p_name p) n
      else if opn = ''docker.inspect'' then
        (let (r, n1) = ask P limit (InspectContainer (p_name p)) n
         in (marshal (JObj [(''container'', r_value r), (''found'', JBool (r_flag r))]) (r_err r), n1))
      else if opn = ''docker.list'' then
        (let (r, n1) = ask P limit ListContainers n in (marshal (JObj [(''containers'', r_value r)]) (r_err r), n1))
      else (let (r, n1) = ask P limit (ContainerLogs (p_name p) (p_tail p)) n
            in (marshal (JObj [(''lines'', r_value r)]) (r_err r), n1)))"

definition docker_ops :: "string list" where
  "docker_ops = [''docker.create'', ''docker.start'', ''docker.stop'', ''docker.restart'', ''docker.remove'',
     ''docker.inspect'', ''docker.list'', ''docker.logs'']"

definition database_ops :: "string list" where
  "database_ops = [''database.ensure'', ''database.drop'', ''database.exists'', ''database.dump'', ''database.load'']"

definition fs_ops :: "string list" where
  "fs_ops = [''filesystem.read'', ''filesystem.write'', ''filesystem.mkdir'', ''filesystem.remove'']"

text \<open>Every call of \<open>Execute\<close> is noted in the node's history.\<close>

definition noted :: "command \<Rightarrow> 'w node \<Rightarrow> 'w node" where
  "noted c n = n\<lparr>n_ran := n_ran n @ [c]\<rparr>"

definition Execute :: "golib \<Rightarrow> 'w providers \<Rightarrow> policy \<Rightarrow> command \<Rightarrow> 'w node \<Rightarrow> 'w outcome" where
  "Execute g P pol c n0 =
     (let n = noted c n0 in
      case ValidateParams g (c_op c) (c_params c) of
        Some x \<Rightarrow> (Inl x, n)
      | None \<Rightarrow>
          (case decode_params (c_params c) of
             None \<Rightarrow> (Inl ''malformed params'', n)
           | Some p \<Rightarrow>
               let limit = timeoutFor (c_op c) in
               if c_op c \<in> set docker_ops then exec_docker P limit pol (c_op c) p n
               else if c_op c \<in> set database_ops then
                 (if \<not> has_db P then (Inl (unavailable ''database''), n) else exec_database P limit (c_op c) p n)
               else if c_op c \<in> set fs_ops then exec_fs P limit (c_op c) p n
               else if c_op c = ''service.health'' \<or> c_op c = ''metrics.collect'' then exec_monitoring P limit (c_op c) p n
               else (Inl (''operation '' @ double_quoted (c_op c) @ '' is not implemented by this agent''), n)))"

end
