(* ===== verification/Agent_Exec_Safety.thy ===== *)
theory Agent_Exec_Safety
  imports Agent_Executor
begin

text \<open>
  Which provider calls \<open>Execute\<close> can make: the guard policy and the validated parameters, as predicates
  on the calls a command adds to the log.
\<close>

section \<open>Where the calls of a command may go\<close>

definition below_root :: "policy \<Rightarrow> string \<Rightarrow> bool" where
  "below_root pol src \<longleftrightarrow> path_is_abs src \<and> path_is_abs (DataRoot pol) \<and>
     take (length (clean_segs (DataRoot pol))) (clean_segs src) = clean_segs (DataRoot pol) \<and>
     ''..'' \<notin> set (clean_segs src) \<and> \<not> contains_text ''docker.sock'' (clean_path src)"

text \<open>
  The policy as the package comment of guard.go states it, for a call and for a log of calls. A name is off
  limits if it starts with the reserved prefix or is listed by the operator. A container is marked if its
  inspection found it with the label \<open>nodera.role=control-plane\<close>. A call that starts, stops, restarts or
  removes a container comes directly after an inspection of that container that did not show it as marked.
\<close>

definition off_limits :: "policy \<Rightarrow> string \<Rightarrow> bool" where
  "off_limits pol name \<longleftrightarrow> (\<exists>rest. name = ''nodera-cp-'' @ rest) \<or> name \<noteq> [] \<and> name \<in> set (ProtectedNames pol)"

fun permitted :: "policy \<Rightarrow> call \<Rightarrow> bool" where
  "permitted pol (CreateContainer s) =
     (\<not> off_limits pol (cs_name s) \<and> map_of (cs_labels s) ''nodera.role'' \<noteq> Some ''control-plane'' \<and>
      ''host'' \<notin> set (cs_networks s) \<and> list_all (\<lambda>v. below_root pol (vm_source v)) (cs_volumes s))"
| "permitted pol (StartContainer name) = (\<not> off_limits pol name)"
| "permitted pol (StopContainer name) = (\<not> off_limits pol name)"
| "permitted pol (RestartContainer name) = (\<not> off_limits pol name)"
| "permitted pol (RemoveContainer name) = (\<not> off_limits pol name)"
| "permitted pol _ = True"

fun mutated :: "call \<Rightarrow> string option" where
  "mutated (StartContainer name) = Some name"
| "mutated (StopContainer name) = Some name"
| "mutated (RestartContainer name) = Some name"
| "mutated (RemoveContainer name) = Some name"
| "mutated _ = None"

definition marked :: "reply \<Rightarrow> bool" where
  "marked r \<longleftrightarrow> r_err r = None \<and> r_flag r \<and> map_of (r_labels r) ''nodera.role'' = Some ''control-plane''"

definition inspected_first :: "(call \<times> reply) list \<Rightarrow> bool" where
  "inspected_first log \<longleftrightarrow> (\<forall>i < length log. case mutated (fst (log ! i)) of
     None \<Rightarrow> True
   | Some name \<Rightarrow> 0 < i \<and> fst (log ! (i - 1)) = InspectContainer name \<and> \<not> marked (snd (log ! (i - 1))))"

lemma off_limits_protected: "off_limits pol name = protectedName pol name"
  by (auto simp: off_limits_def protectedName_def reservedPrefix_def has_prefix_iff list_ex_iff)

lemma clean_fold_no_slash:
  "list_all (\<lambda>p. p \<noteq> [] \<and> CHR ''/'' \<notin> set p) kept \<Longrightarrow> list_all (\<lambda>p. CHR ''/'' \<notin> set p) segs \<Longrightarrow>
   list_all (\<lambda>p. p \<noteq> [] \<and> CHR ''/'' \<notin> set p) (fold (clean_seg r) segs kept)"
proof (induction segs arbitrary: kept)
  case (Cons seg segs)
  have "list_all (\<lambda>p. p \<noteq> [] \<and> CHR ''/'' \<notin> set p) (clean_seg r seg kept)"
    using Cons.prems by (auto simp: clean_seg_def list_all_iff dest: list.set_sel(2))
  with Cons show ?case by simp
qed simp

lemma clean_segs_no_slash: "list_all (\<lambda>p. p \<noteq> [] \<and> CHR ''/'' \<notin> set p) (clean_segs s)"
  unfolding clean_segs_def list_all_rev
  by (rule clean_fold_no_slash) (auto simp: list_all_iff dest: split_on_no_sep)

lemma join_not_abs: "list_all (\<lambda>p. p \<noteq> [] \<and> CHR ''/'' \<notin> set p) xs \<Longrightarrow> \<not> path_is_abs (join_with ''/'' xs)"
proof (induction "''/''" xs rule: join_with.induct)
  case (2 p)
  then show ?case by (cases p) (auto simp: path_is_abs_def has_prefix_def)
next
  case (3 p q ps)
  then show ?case by (cases p) (auto simp: path_is_abs_def has_prefix_def)
qed (simp add: path_is_abs_def has_prefix_def)

lemma clean_path_abs [simp]: "path_is_abs (clean_path s) = path_is_abs s"
  using join_not_abs [OF clean_segs_no_slash, of s]
  by (auto simp: clean_path_def Let_def path_is_abs_def has_prefix_def)

lemma clean_rooted: "path_is_abs s \<Longrightarrow> ''..'' \<notin> set (clean_segs s)"
  using clean_segs_plain [of s] by (auto simp: list_all_iff plain_seg_def)

lemma has_prefix_abs: "has_prefix (p @ q) s \<Longrightarrow> p \<noteq> [] \<Longrightarrow> path_is_abs p = path_is_abs s"
  by (cases p; cases s) (auto simp: has_prefix_def path_is_abs_def)

lemma check_volume_NoneD:
  assumes "check_volume (clean_path (DataRoot pol)) src = None"
  shows "below_root pol src"
proof -
  let ?root = "DataRoot pol"
  from assms have abs: "path_is_abs src" and ne: "clean_path ?root \<noteq> []"
    and p: "clean_path src = clean_path ?root \<or> has_prefix (clean_path ?root @ ''/'') (clean_path src)"
    and sock: "\<not> contains_text ''docker.sock'' (clean_path src)"
    by (auto simp: check_volume_def Let_def split: if_splits)
  have root: "path_is_abs ?root"
    using p abs ne has_prefix_abs [of "clean_path ?root" "''/''" "clean_path src"] clean_path_abs by metis
  have "take (length (clean_segs ?root)) (clean_segs src) = clean_segs ?root"
  proof (cases "clean_segs ?root = []")
    case False
    then show ?thesis using clean_prefix_segs [OF root False abs p] by auto
  qed simp
  then show ?thesis using abs root sock clean_rooted [OF abs] by (simp add: below_root_def)
qed

lemma check_volumes_NoneD:
  "check_volumes (clean_path (DataRoot pol)) vs = None \<Longrightarrow> v \<in> set vs \<Longrightarrow> below_root pol (fst v)"
  by (induction vs) (auto split: option.splits dest: check_volume_NoneD)

lemma CheckMutation_NoneD: "CheckMutation pol name labels = None \<Longrightarrow> \<not> protectedName pol name \<and> map_of labels RoleLabel \<noteq> Some RoleControl"
  by (auto simp: CheckMutation_def split: if_splits)

lemma CheckCreate_NoneD:
  assumes "CheckCreate pol name labels nets vols = None"
  shows "\<not> protectedName pol name \<and> map_of labels RoleLabel \<noteq> Some RoleControl \<and> ''host'' \<notin> set nets \<and>
    (\<forall>v \<in> set vols. below_root pol (fst v))"
proof -
  have m: "CheckMutation pol name [] = None"
    using assms by (cases "CheckMutation pol name []") (simp_all add: CheckCreate_def)
  then have "map_of labels RoleLabel \<noteq> Some RoleControl" "\<not> list_ex (\<lambda>n. n = ''host'') nets"
    and "check_volumes (clean_path (DataRoot pol)) vols = None"
    using assms by (simp_all add: CheckCreate_def split: if_splits)
  then show ?thesis using CheckMutation_NoneD [OF m] check_volumes_NoneD by (auto simp: list_ex_iff)
qed

section \<open>The calls a command adds\<close>

text \<open>\<open>adds ok n n'\<close>: the node \<open>n'\<close> is \<open>n\<close> after some calls, all of them \<open>ok\<close>.\<close>

definition adds :: "(call \<Rightarrow> bool) \<Rightarrow> 'w node \<Rightarrow> 'w node \<Rightarrow> bool" where
  "adds ok n n' \<longleftrightarrow> (\<exists>more. n_log n' = n_log n @ more \<and> list_all (\<lambda>x. ok (fst x)) more)"

lemma adds_refl [simp, intro]: "adds ok n n"
  by (simp add: adds_def)

lemma adds_trans: "adds ok a b \<Longrightarrow> adds ok b c \<Longrightarrow> adds ok a c"
  by (force simp: adds_def)

lemma n_log_ask: "n_log (snd (ask P limit c n)) = n_log n @ [(c, fst (ask P limit c n))]"
  by (simp add: ask_def case_prod_beta Let_def)

lemma calls_made_ask: "calls_made (snd (ask P limit c n)) = calls_made n @ [c]"
  by (simp add: calls_made_def n_log_ask)

lemma adds_ask [simp, intro]: "adds ok n0 n \<Longrightarrow> ok c \<Longrightarrow> adds ok n0 (snd (ask P limit c n))"
  by (auto simp: adds_def n_log_ask)

lemma adds_calls: "adds ok n n' \<Longrightarrow> \<exists>more. calls_made n' = calls_made n @ more \<and> list_all ok more"
  by (auto simp: adds_def calls_made_def list_all_iff)

lemma adds_create:
  assumes "CheckCreate pol (p_name p) (p_labels p) (p_networks p)
             (map (\<lambda>v. (vm_source v, vm_target v)) (p_volumes p)) = None \<Longrightarrow>
    ok (CreateContainer \<lparr>cs_name = p_name p, cs_image = p_image p, cs_env = p_env p, cs_labels = p_labels p,
                 cs_ports = p_ports p, cs_networks = p_networks p, cs_volumes = p_volumes p,
                 cs_cmd = p_cmd p, cs_user = p_user p\<rparr>)"
  shows "adds ok n (snd (exec_create P limit pol p n))"
  unfolding exec_create_def using assms
  by (cases "CheckCreate pol (p_name p) (p_labels p) (p_networks p) (map (\<lambda>v. (vm_source v, vm_target v)) (p_volumes p))")
    (simp_all add: case_prod_beta Let_def)

lemma checkMutable_snd: "snd (checkMutable P limit pol name n) = snd (ask P limit (InspectContainer name) n)"
  by (simp add: checkMutable_def case_prod_beta Let_def)

lemma checkMutable_None: "fst (checkMutable P limit pol name n) = None \<Longrightarrow> \<not> protectedName pol name"
  by (auto simp: checkMutable_def case_prod_beta Let_def dest: CheckMutation_NoneD)

lemma adds_lifecycle:
  assumes "ok (InspectContainer name)" "\<not> protectedName pol name \<Longrightarrow> ok (lifecycle_call opn name)"
  shows "adds ok n (snd (exec_lifecycle P limit pol opn name n))"
proof (cases "checkMutable P limit pol name n")
  case (Pair x n1)
  then have n1: "n1 = snd (ask P limit (InspectContainer name) n)" using checkMutable_snd by (metis snd_conv)
  show ?thesis
  proof (cases x)
    case None
    then have "ok (lifecycle_call opn name)" using assms(2) checkMutable_None Pair by (metis fst_conv)
    then show ?thesis using assms(1) n1 by (simp add: exec_lifecycle_def Pair None case_prod_beta Let_def)
  qed (simp add: exec_lifecycle_def Pair n1 assms(1))
qed

lemma adds_dump:
  assumes "ok (OpenExclusive f)" "ok (DumpDatabase name f)" "ok (CloseFile f)" "ok (OsRemove f)" "ok (StatFile f)"
  shows "adds ok n (snd (exec_dump P limit name f n))"
  using assms by (simp add: exec_dump_def case_prod_beta Let_def split: option.split)

lemma adds_load:
  assumes "ok (OpenForReading f)" "ok (LoadDatabase name f)" "ok (CloseFile f)"
  shows "adds ok n (snd (exec_load P limit name f n))"
  using assms by (simp add: exec_load_def case_prod_beta Let_def split: option.split)

lemma adds_database:
  assumes "ok (EnsureDatabase (p_name p) (p_user p) (p_password p))" "ok (DropDatabase (p_name p) (p_user p))"
    "ok (DatabaseExists (p_name p))" "ok (AbsPath (p_path p))"
    "\<And>f. ok (OpenExclusive f) \<and> ok (DumpDatabase (p_name p) f) \<and> ok (CloseFile f) \<and> ok (OsRemove f) \<and>
       ok (StatFile f) \<and> ok (OpenForReading f) \<and> ok (LoadDatabase (p_name p) f)"
  shows "adds ok n (snd (exec_database P limit opn p n))"
proof -
  have "adds ok n (snd (exec_dump P limit (p_name p) f m))" "adds ok n (snd (exec_load P limit (p_name p) f m))"
    if "adds ok n m" for f m
    using that assms(5) [of f] adds_dump [of ok f "p_name p" m P limit] adds_load [of ok f "p_name p" m P limit]
    by (auto intro: adds_trans)
  then show ?thesis using assms(1-4)
    by (simp add: exec_database_def case_prod_beta Let_def split: option.split)
qed

lemma adds_fs:
  assumes "ok (ReadFile (p_path p))" "\<And>d. ok (WriteFile (p_path p) d)" "ok (MkdirAll (p_path p))" "ok (RemovePath (p_path p))"
  shows "adds ok n (snd (exec_fs P limit opn p n))"
  using assms by (simp add: exec_fs_def case_prod_beta Let_def split: option.split)

lemma adds_monitoring:
  assumes "ok (CheckHTTP (p_target p) (p_expect p))" "ok (CheckTCP (p_target p))" "ok (CollectNodeMetrics ''self'')"
  shows "adds ok n (snd (exec_monitoring P limit opn p n))"
  using assms by (simp add: exec_monitoring_def case_prod_beta Let_def)

lemma adds_docker:
  assumes "adds ok n (snd (exec_create P limit pol p n))" "adds ok n (snd (exec_lifecycle P limit pol opn (p_name p) n))"
    "ok (InspectContainer (p_name p))" "ok ListContainers" "ok (ContainerLogs (p_name p) (p_tail p))"
  shows "adds ok n (snd (exec_docker P limit pol opn p n))"
  using assms by (simp add: exec_docker_def case_prod_beta Let_def)

text \<open>Every call of a command is one of its group's.\<close>

lemma noted_sel [simp]:
  "n_log (noted c n) = n_log n" "n_ran (noted c n) = n_ran n @ [c]" "n_world (noted c n) = n_world n"
  by (simp_all add: noted_def)

lemma noted_calls [simp]: "calls_made (noted c n) = calls_made n"
  by (simp add: calls_made_def)

lemma noted_adds: "adds ok (noted c n) n' \<Longrightarrow> adds ok n n'"
  by (simp add: adds_def)

lemma Execute_group:
  assumes none: "R (noted c n)"
    and docker: "\<And>p. decode_params (c_params c) = Some p \<Longrightarrow> ValidateParams g (c_op c) (c_params c) = None \<Longrightarrow>
      c_op c \<in> set docker_ops \<Longrightarrow> R (snd (exec_docker P (timeoutFor (c_op c)) pol (c_op c) p (noted c n)))"
    and database: "\<And>p. decode_params (c_params c) = Some p \<Longrightarrow> ValidateParams g (c_op c) (c_params c) = None \<Longrightarrow>
      c_op c \<in> set database_ops \<Longrightarrow> R (snd (exec_database P (timeoutFor (c_op c)) (c_op c) p (noted c n)))"
    and fs: "\<And>p. decode_params (c_params c) = Some p \<Longrightarrow> ValidateParams g (c_op c) (c_params c) = None \<Longrightarrow>
      c_op c \<in> set fs_ops \<Longrightarrow> R (snd (exec_fs P (timeoutFor (c_op c)) (c_op c) p (noted c n)))"
    and monitoring: "\<And>p. R (snd (exec_monitoring P (timeoutFor (c_op c)) (c_op c) p (noted c n)))"
  shows "R (snd (Execute g P pol c n))"
proof (cases "ValidateParams g (c_op c) (c_params c)")
  case None
  show ?thesis
  proof (cases "decode_params (c_params c)")
    case (Some p)
    show ?thesis
      using none docker [OF Some None] database [OF Some None] fs [OF Some None] monitoring [of p]
      unfolding Execute_def None Some Let_def option.case
      by (simp split: if_split)
  qed (simp add: Execute_def None none)
qed (simp add: Execute_def none)

lemmas Execute_adds = Execute_group [where R = "adds ok (noted c n)" and n = n and c = c for ok c n, OF adds_refl, THEN noted_adds]

text \<open>\<open>Execute\<close> is noted once, whatever the command does.\<close>

lemma n_ran_ask [simp]: "n_ran (snd (ask P limit c n)) = n_ran n"
  by (simp add: ask_def case_prod_beta Let_def)

lemma n_ran_docker [simp]: "n_ran (snd (exec_docker P limit pol opn p n)) = n_ran n"
  by (simp add: exec_docker_def exec_create_def exec_lifecycle_def checkMutable_def case_prod_beta Let_def split: option.split)

lemma n_ran_database [simp]: "n_ran (snd (exec_database P limit opn p n)) = n_ran n"
  by (simp add: exec_database_def exec_dump_def exec_load_def case_prod_beta Let_def split: option.split)

lemma n_ran_fs [simp]: "n_ran (snd (exec_fs P limit opn p n)) = n_ran n"
  by (simp add: exec_fs_def case_prod_beta Let_def split: option.split)

lemma n_ran_monitoring [simp]: "n_ran (snd (exec_monitoring P limit opn p n)) = n_ran n"
  by (simp add: exec_monitoring_def case_prod_beta Let_def)

lemma n_ran_Execute [simp]: "n_ran (snd (Execute g P pol c n)) = n_ran n @ [c]"
  by (rule Execute_group [where R = "\<lambda>m. n_ran m = n_ran n @ [c]"]) simp_all

text \<open>What a lifecycle command adds to the log: the inspection, and the call unless it is refused.\<close>

lemma lifecycle_log:
  obtains "n_log (snd (exec_lifecycle P limit pol opn name n)) = n_log n @ [(InspectContainer name, fst (ask P limit (InspectContainer name) n))]"
  | r where "n_log (snd (exec_lifecycle P limit pol opn name n)) =
        n_log n @ [(InspectContainer name, fst (ask P limit (InspectContainer name) n)), (lifecycle_call opn name, r)]"
      "\<not> marked (fst (ask P limit (InspectContainer name) n))"
proof -
  obtain r1 n1 where a: "ask P limit (InspectContainer name) n = (r1, n1)" by fastforce
  have n1: "n_log n1 = n_log n @ [(InspectContainer name, r1)]" using n_log_ask [of P limit "InspectContainer name" n] a by simp
  define labels where "labels = (if r_err r1 = None \<and> r_flag r1 then r_labels r1 else [])"
  have m: "checkMutable P limit pol name n = (CheckMutation pol name labels, n1)"
    by (simp only: checkMutable_def a Let_def prod.case labels_def)
  show ?thesis
  proof (cases "CheckMutation pol name labels")
    case None
    then have "\<not> marked r1"
      using CheckMutation_NoneD [OF None] by (auto simp: marked_def labels_def RoleLabel_def RoleControl_def)
    moreover have "n_log (snd (exec_lifecycle P limit pol opn name n)) =
        n_log n @ [(InspectContainer name, r1), (lifecycle_call opn name, fst (ask P limit (lifecycle_call opn name) n1))]"
      using n1 None n_log_ask [of P limit "lifecycle_call opn name" n1]
      by (simp add: exec_lifecycle_def m case_prod_beta)
    ultimately show ?thesis using that(2) a by simp
  next
    case (Some x)
    then have "snd (exec_lifecycle P limit pol opn name n) = n1" by (simp add: exec_lifecycle_def m)
    then show ?thesis using that(1) n1 a by simp
  qed
qed

definition inspects :: "'w node \<Rightarrow> 'w node \<Rightarrow> bool" where
  "inspects n n' \<longleftrightarrow> (\<exists>more. n_log n' = n_log n @ more \<and> inspected_first more)"

lemma inspects_noted: "inspects (noted c n) = inspects n"
  by (simp add: inspects_def fun_eq_iff)

lemma quiet_inspects: "adds (\<lambda>c. mutated c = None) n n' \<Longrightarrow> inspects n n'"
  by (auto simp: adds_def inspects_def inspected_first_def list_all_iff split: option.splits)

lemma lifecycle_inspects: "inspects n (snd (exec_lifecycle P limit pol opn name n))"
proof -
  have "mutated (lifecycle_call opn name) = Some name" by (simp add: lifecycle_call_def)
  then show ?thesis
    by (rule_tac lifecycle_log [of P limit pol opn name n])
       (auto simp: inspects_def inspected_first_def less_Suc_eq)
qed

lemma docker_inspects: "inspects n (snd (exec_docker P limit pol opn p n))"
proof (cases "has_containers P \<and> opn \<noteq> ''docker.create'' \<and> opn \<in> {''docker.start'', ''docker.stop'', ''docker.restart'', ''docker.remove''}")
  case True
  then have "exec_docker P limit pol opn p n = exec_lifecycle P limit pol opn (p_name p) n"
    by (auto simp: exec_docker_def)
  then show ?thesis by (simp add: lifecycle_inspects)
next
  case False
  have create: "adds (\<lambda>c. mutated c = None) n (snd (exec_create P limit pol p n))" by (rule adds_create) simp
  from False consider "\<not> has_containers P" | "opn = ''docker.create''"
    | "opn \<notin> {''docker.create'', ''docker.start'', ''docker.stop'', ''docker.restart'', ''docker.remove''}" by blast
  then have "adds (\<lambda>c. mutated c = None) n (snd (exec_docker P limit pol opn p n))"
    by cases (use create in \<open>simp_all add: exec_docker_def case_prod_beta Let_def\<close>)
  then show ?thesis by (rule quiet_inspects)
qed

section \<open>Reading the parameters twice\<close>

text \<open>
  \<open>ValidateParams\<close> looks the parameters up in a map, by exact name; \<open>Execute\<close> decodes them into a
  struct, whose names match without regard to case. The two readings agree on an object in which
  no name is repeated and every name that could mean a field is spelled as the field is.
\<close>

definition param_fields :: "string list" where
  "param_fields = [''name'', ''image'', ''env'', ''labels'', ''ports'', ''networks'', ''volumes'', ''cmd'', ''tail'',
     ''path'', ''content_b64'', ''kind'', ''target'', ''expect_status'', ''user'', ''password'']"

definition well_spelled :: "(string \<times> json) list \<Rightarrow> bool" where
  "well_spelled kvs \<longleftrightarrow> distinct (map fst kvs) \<and>
     list_all (\<lambda>kv. list_all (\<lambda>f. names_field (fst kv) f \<longrightarrow> fst kv = f) param_fields) kvs"

lemma names_field_simps:
  "names_field k ''name'' \<longleftrightarrow> fold_name k = ''NAME''"
  "names_field k ''image'' \<longleftrightarrow> fold_name k = ''IMAGE''"
  "names_field k ''env'' \<longleftrightarrow> fold_name k = ''ENV''"
  "names_field k ''labels'' \<longleftrightarrow> fold_name k = ''LABELS''"
  "names_field k ''ports'' \<longleftrightarrow> fold_name k = ''PORTS''"
  "names_field k ''networks'' \<longleftrightarrow> fold_name k = ''NETWORKS''"
  "names_field k ''volumes'' \<longleftrightarrow> fold_name k = ''VOLUMES''"
  "names_field k ''cmd'' \<longleftrightarrow> fold_name k = ''CMD''"
  "names_field k ''tail'' \<longleftrightarrow> fold_name k = ''TAIL''"
  "names_field k ''path'' \<longleftrightarrow> fold_name k = ''PATH''"
  "names_field k ''content_b64'' \<longleftrightarrow> fold_name k = ''CONTENT_B64''"
  "names_field k ''kind'' \<longleftrightarrow> fold_name k = ''KIND''"
  "names_field k ''target'' \<longleftrightarrow> fold_name k = ''TARGET''"
  "names_field k ''expect_status'' \<longleftrightarrow> fold_name k = ''EXPECT_STATUS''"
  "names_field k ''user'' \<longleftrightarrow> fold_name k = ''USER''"
  "names_field k ''password'' \<longleftrightarrow> fold_name k = ''PASSWORD''"
  unfolding names_field_def by (rule arg_cong [where f = "\<lambda>x. fold_name k = x"], code_simp)+

definition reads :: "(exec_params \<Rightarrow> string) \<Rightarrow> string \<Rightarrow> bool" where
  "reads get f \<longleftrightarrow> f \<in> set param_fields \<and> get zero_params = [] \<and>
     (\<forall>p k v p'. assign_param p k v = Some p' \<longrightarrow>
        (if names_field k f then decode_string v (get p) = Some (get p') else get p' = get p))"

lemma reads_fields:
  "reads p_name ''name''" "reads p_image ''image''" "reads p_path ''path''" "reads p_user ''user''" "reads p_password ''password''"
  unfolding reads_def
  by (auto simp: assign_param_def names_field_simps param_fields_def zero_params_def split: if_splits)

lemma decode_string_str: "decode_string v [] = Some s \<Longrightarrow> s = (case v of JStr t \<Rightarrow> t | _ \<Rightarrow> [])"
  by (cases v) simp_all

lemma decode_string_Some: "decode_string v old = Some s \<Longrightarrow> s = (case v of JStr t \<Rightarrow> t | _ \<Rightarrow> old)"
  by (cases v) simp_all

lemma decode_members_get:
  assumes "reads get f"
  shows "decode_members assign_param kvs p = Some p' \<Longrightarrow> well_spelled kvs \<Longrightarrow>
    get p' = (case map_of kvs f of Some (JStr t) \<Rightarrow> t | _ \<Rightarrow> get p)"
proof (induction kvs arbitrary: p)
  case (Cons kv r)
  obtain k v where kv: "kv = (k, v)" by (cases kv)
  then obtain q where q: "assign_param p k v = Some q" and rest: "decode_members assign_param r q = Some p'"
    using Cons.prems(1) by (auto split: option.splits)
  have ws: "well_spelled r" and k: "names_field k f \<longrightarrow> k = f" and new: "k \<notin> fst ` set r"
    using Cons.prems(2) assms by (auto simp: well_spelled_def kv reads_def list_all_iff)
  have ih: "get p' = (case map_of r f of Some (JStr t) \<Rightarrow> t | _ \<Rightarrow> get q)" by (rule Cons.IH [OF rest ws])
  show ?case
  proof (cases "k = f")
    case True
    then have "map_of r f = None" using new by (simp add: map_of_eq_None_iff)
    moreover have "decode_string v (get p) = Some (get q)"
      using assms q True by (auto simp: reads_def names_field_def split: if_splits)
    ultimately show ?thesis using ih kv True by (simp add: decode_string_Some split: json.split)
  next
    case False
    then have qp: "get q = get p" using assms q k by (auto simp: reads_def split: if_splits)
    show ?thesis using ih [unfolded qp] kv False by simp
  qed
qed simp

lemma decoded_field:
  assumes "reads get f" "decode_params (Doc (JObj kvs)) = Some p" "well_spelled kvs"
  shows "get p = str kvs f"
proof -
  have "get p = (case map_of kvs f of Some (JStr t) \<Rightarrow> t | _ \<Rightarrow> get zero_params)"
    using assms by (intro decode_members_get) (simp_all add: decode_params_def decode_struct_def)
  moreover have "map_of (rev kvs) = map_of kvs"
    using assms(3) by (intro map_of_inject_set [THEN iffD2]) (auto simp: well_spelled_def rev_map [symmetric])
  ultimately show ?thesis using assms(1) by (simp add: str_def json_member_def reads_def split: option.split json.split)
qed

section \<open>Calls with validated arguments\<close>

fun validated :: "call \<Rightarrow> bool" where
  "validated (CreateContainer s) =
     (name_ok (cs_name s) \<and> image_ok (cs_image s) \<and> (cs_user s = [] \<or> workload_user_ok (cs_user s)))"
| "validated (StartContainer n) = name_ok n"
| "validated (StopContainer n) = name_ok n"
| "validated (RestartContainer n) = name_ok n"
| "validated (RemoveContainer n) = name_ok n"
| "validated (ContainerLogs n _) = name_ok n"
| "validated (InspectContainer n) = name_ok n"
| "validated (EnsureDatabase d u w) = (db_ident_ok d \<and> db_ident_ok u \<and> db_pass_ok w)"
| "validated (DropDatabase d u) = (db_ident_ok d \<and> db_ident_ok u)"
| "validated (DatabaseExists d) = db_ident_ok d"
| "validated (DumpDatabase d _) = db_ident_ok d"
| "validated (LoadDatabase d _) = db_ident_ok d"
| "validated (AbsPath s) = (SafeRelPath s = None)"
| "validated (ReadFile s) = (SafeRelPath s = None)"
| "validated (WriteFile s _) = (SafeRelPath s = None)"
| "validated (MkdirAll s) = (SafeRelPath s = None)"
| "validated (RemovePath s) = (SafeRelPath s = None)"
| "validated _ = True"


lemma Allowed_simps:
  "map_of (Allowed g) ''docker.create'' = Some validDockerCreate"
  "map_of (Allowed g) ''docker.start'' = Some needMutableName"
  "map_of (Allowed g) ''docker.stop'' = Some needMutableName"
  "map_of (Allowed g) ''docker.restart'' = Some needMutableName"
  "map_of (Allowed g) ''docker.remove'' = Some needMutableName"
  "map_of (Allowed g) ''docker.inspect'' = Some needName"
  "map_of (Allowed g) ''docker.logs'' = Some needName"
  "map_of (Allowed g) ''database.ensure'' = Some validDBEnsure"
  "map_of (Allowed g) ''database.drop'' = Some validDBDrop"
  "map_of (Allowed g) ''database.exists'' = Some needDBName"
  "map_of (Allowed g) ''database.dump'' = Some validDBFile"
  "map_of (Allowed g) ''database.load'' = Some validDBFile"
  "map_of (Allowed g) ''filesystem.read'' = Some needPath"
  "map_of (Allowed g) ''filesystem.write'' = Some validFSWrite"
  "map_of (Allowed g) ''filesystem.mkdir'' = Some needPath"
  "map_of (Allowed g) ''filesystem.remove'' = Some needPath"
  by (simp_all add: Allowed_def)

lemma ValidateParams_obj:
  "map_of (Allowed g) opn = Some v \<Longrightarrow> ValidateParams g opn (Doc (JObj kvs)) = v kvs"
  by (simp add: ValidateParams_def)

lemma needName_NoneD: "needName p = None \<Longrightarrow> name_ok (str p ''name'')"
  by (simp add: needName_def split: if_splits)

lemma needMutableName_NoneD: "needMutableName p = None \<Longrightarrow> name_ok (str p ''name'')"
  by (auto simp: needMutableName_def dest: needName_NoneD split: option.splits)

lemma validDockerCreate_NoneD:
  "validDockerCreate p = None \<Longrightarrow> name_ok (str p ''name'') \<and> image_ok (str p ''image'') \<and>
    (str p ''user'' = [] \<or> workload_user_ok (str p ''user''))"
  by (auto simp: validDockerCreate_def Let_def dest: needName_NoneD split: option.splits if_splits)

lemma needDBName_NoneD: "needDBName p = None \<Longrightarrow> db_ident_ok (str p ''name'')"
  by (simp add: needDBName_def split: if_splits)

lemma validDBDrop_NoneD: "validDBDrop p = None \<Longrightarrow> db_ident_ok (str p ''name'') \<and> db_ident_ok (str p ''user'')"
  by (auto simp: validDBDrop_def dest: needDBName_NoneD split: option.splits if_splits)

lemma validDBEnsure_NoneD:
  "validDBEnsure p = None \<Longrightarrow> db_ident_ok (str p ''name'') \<and> db_ident_ok (str p ''user'') \<and> db_pass_ok (str p ''password'')"
  by (auto simp: validDBEnsure_def dest: validDBDrop_NoneD split: option.splits if_splits)

lemma validDBFile_NoneD: "validDBFile p = None \<Longrightarrow> db_ident_ok (str p ''name'') \<and> SafeRelPath (str p ''path'') = None"
  by (auto simp: validDBFile_def dest: needDBName_NoneD split: option.splits)

lemma validFSWrite_NoneD: "validFSWrite p = None \<Longrightarrow> SafeRelPath (str p ''path'') = None"
  by (simp add: validFSWrite_def split: option.splits)

text \<open>Case distinctions over a list of names, stated for arbitrary names.\<close>

lemma in_docker_list:
  "x \<in> set [a, b1, b2, b3, b4, c, d, e] \<Longrightarrow> x = a \<or> x \<in> {b1, b2, b3, b4} \<or> x = c \<or> x = d \<or> x = e"
  by auto

lemma in_database_list: "x \<in> set [a, b, c, d, e] \<Longrightarrow> x = a \<or> x = b \<or> x = c \<or> x = d \<or> x = e"
  by auto

lemma in_fs_list: "x \<in> set [a, b, c, d] \<Longrightarrow> x = b \<or> x \<in> {a, c, d}"
  by auto

lemma docker_cases:
  assumes "opn \<in> set docker_ops"
  obtains "opn = ''docker.create''" | "opn \<in> {''docker.start'', ''docker.stop'', ''docker.restart'', ''docker.remove''}"
    | "opn = ''docker.inspect''" | "opn = ''docker.list''" | "opn = ''docker.logs''"
  using in_docker_list [OF assms [unfolded docker_ops_def]] by (elim disjE)

lemma database_cases:
  assumes "opn \<in> set database_ops"
  obtains "opn = ''database.ensure''" | "opn = ''database.drop''" | "opn = ''database.exists''"
    | "opn = ''database.dump''" | "opn = ''database.load''"
  using in_database_list [OF assms [unfolded database_ops_def]] by (elim disjE)

lemma fs_cases:
  assumes "opn \<in> set fs_ops"
  obtains "opn = ''filesystem.write''" | "opn \<in> {''filesystem.read'', ''filesystem.mkdir'', ''filesystem.remove''}"
  using in_fs_list [OF assms [unfolded fs_ops_def]] by (elim disjE)

lemma docker_group:
  assumes v: "ValidateParams g opn (Doc (JObj kvs)) = None" and o: "opn \<in> set docker_ops"
    and n: "p_name p = str kvs ''name''" and i: "p_image p = str kvs ''image''" and u: "p_user p = str kvs ''user''"
  shows "adds validated n0 (snd (exec_docker P limit pol opn p n0))"
proof -
  have life: "adds validated n0 (snd (exec_lifecycle P limit pol opn (p_name p) n0))" if "needMutableName kvs = None"
    using needMutableName_NoneD [OF that] n by (intro adds_lifecycle) (simp_all add: lifecycle_call_def)
  show ?thesis
    using o
  proof (cases rule: docker_cases)
    case 1
    then have "adds validated n0 (snd (exec_create P limit pol p n0))"
      using v n i u validDockerCreate_NoneD [of kvs]
      by (intro adds_create) (simp add: ValidateParams_obj Allowed_simps)
    then show ?thesis using 1 by (simp add: exec_docker_def)
  next
    case 2
    then have "needMutableName kvs = None" using v by (elim insertE emptyE) (simp_all add: ValidateParams_obj Allowed_simps)
    then have "adds validated n0 (snd (exec_lifecycle P limit pol opn (p_name p) n0))" by (rule life)
    then show ?thesis using 2 by (elim insertE emptyE) (simp_all add: exec_docker_def)
  next
    case 3
    then show ?thesis using v n needName_NoneD [of kvs]
      by (simp add: exec_docker_def case_prod_beta Let_def ValidateParams_obj Allowed_simps)
  next
    case 4
    then show ?thesis by (simp add: exec_docker_def case_prod_beta Let_def)
  next
    case 5
    then show ?thesis using v n needName_NoneD [of kvs]
      by (simp add: exec_docker_def case_prod_beta Let_def ValidateParams_obj Allowed_simps)
  qed
qed

lemma database_group:
  assumes v: "ValidateParams g opn (Doc (JObj kvs)) = None" and o: "opn \<in> set database_ops"
    and n: "p_name p = str kvs ''name''" and u: "p_user p = str kvs ''user''"
    and w: "p_password p = str kvs ''password''" and f: "p_path p = str kvs ''path''"
  shows "adds validated n0 (snd (exec_database P limit opn p n0))"
proof -
  show ?thesis
    using o
  proof (cases rule: database_cases)
    case 1
    then show ?thesis using v n u w validDBEnsure_NoneD [of kvs]
      by (simp add: exec_database_def case_prod_beta Let_def ValidateParams_obj Allowed_simps)
  next
    case 2
    then show ?thesis using v n u validDBDrop_NoneD [of kvs]
      by (simp add: exec_database_def case_prod_beta Let_def ValidateParams_obj Allowed_simps)
  next
    case 3
    then show ?thesis using v n needDBName_NoneD [of kvs]
      by (simp add: exec_database_def case_prod_beta Let_def ValidateParams_obj Allowed_simps)
  next
    case 4
    then show ?thesis using v n f validDBFile_NoneD [of kvs]
      by (simp add: exec_database_def exec_dump_def case_prod_beta Let_def ValidateParams_obj Allowed_simps
          split: option.split)
  next
    case 5
    then show ?thesis using v n f validDBFile_NoneD [of kvs]
      by (simp add: exec_database_def exec_load_def case_prod_beta Let_def ValidateParams_obj Allowed_simps
          split: option.split)
  qed
qed

lemma fs_group:
  assumes v: "ValidateParams g opn (Doc (JObj kvs)) = None" and o: "opn \<in> set fs_ops"
    and f: "p_path p = str kvs ''path''"
  shows "adds validated n0 (snd (exec_fs P limit opn p n0))"
proof -
  have "SafeRelPath (str kvs ''path'') = None"
    using o
  proof (cases rule: fs_cases)
    case 1
    then show ?thesis using v validFSWrite_NoneD [of kvs] by (simp add: ValidateParams_obj Allowed_simps)
  next
    case 2
    then show ?thesis using v by (elim insertE emptyE) (simp_all add: ValidateParams_obj Allowed_simps needPath_def)
  qed
  then show ?thesis using f by (intro adds_fs) simp_all
qed

text \<open>
  when the names in a command's parameters are spelled as documented and not repeated, every
  provider call the executor makes has the arguments the allowlist validated: safe relative paths,
  well-formed container and database names, an image reference, and a non-root user.
\<close>

theorem executed_calls_are_validated:
  assumes "c_params c = Doc (JObj kvs)" "well_spelled kvs"
  shows "\<exists>more. calls_made (snd (Execute g P pol c n)) = calls_made n @ more \<and> list_all validated more"
proof -
  note fields = reads_fields [THEN decoded_field, where kvs = kvs, OF _ assms(2)]
  have "adds validated n (snd (Execute g P pol c n))"
    using assms fields by (intro Execute_adds docker_group database_group fs_group adds_monitoring) simp_all
  then show ?thesis by (rule adds_calls)
qed

lemma docker_permitted: "adds (permitted pol) n (snd (exec_docker P limit pol opn p n))"
proof (rule adds_docker)
  show "adds (permitted pol) n (snd (exec_create P limit pol p n))"
    by (rule adds_create) (drule CheckCreate_NoneD, auto simp: list_all_iff off_limits_protected RoleLabel_def RoleControl_def)
  show "adds (permitted pol) n (snd (exec_lifecycle P limit pol opn (p_name p) n))"
    by (rule adds_lifecycle) (simp_all add: lifecycle_call_def off_limits_protected)
qed simp_all

text \<open>
  C30: whatever the command and its parameters are, and whatever the providers answer, every provider
  call made by \<open>Execute\<close> respects the guard policy: no container whose name is reserved or listed is
  created, started, stopped, restarted or removed; a created container has no control-plane label, no
  host network and only volumes below the data root, without the Docker socket; and a container is
  started, stopped, restarted or removed only directly after an inspection of it, in the same command,
  that did not show it with the control-plane label. (An inspection that fails shows no label, and the
  code then goes on.)
\<close>

theorem executed_calls_respect_guard:
  "\<exists>more. n_log (snd (Execute g P pol c n)) = n_log n @ more \<and> list_all (\<lambda>x. permitted pol (fst x)) more \<and> inspected_first more"
proof -
  have "adds (permitted pol) n (snd (Execute g P pol c n))"
    by (intro Execute_adds docker_permitted adds_database adds_fs adds_monitoring) simp_all
  moreover have "inspects n (snd (Execute g P pol c n))"
    unfolding inspects_noted [of c n, symmetric]
    by (rule Execute_group)
       (intro quiet_inspects docker_inspects adds_refl adds_database adds_fs adds_monitoring; simp)+
  ultimately show ?thesis by (auto simp: adds_def inspects_def)
qed

section \<open>Containers protected by their label\<close>

definition lifecycle_ops :: "string list" where
  "lifecycle_ops = [''docker.start'', ''docker.stop'', ''docker.restart'', ''docker.remove'']"

lemma lifecycle_in_docker: "x \<in> set [b1, b2, b3, b4] \<Longrightarrow> x \<in> set [a, b1, b2, b3, b4, c, d, e]"
  by auto

lemma exec_docker_lifecycle:
  assumes "opn \<in> set lifecycle_ops" "has_containers P"
  shows "exec_docker P limit pol opn p n = exec_lifecycle P limit pol opn (p_name p) n"
  using assms unfolding lifecycle_ops_def by (auto simp: exec_docker_def)

lemma Execute_docker:
  assumes "ValidateParams g (c_op c) (c_params c) = None" "decode_params (c_params c) = Some p" "c_op c \<in> set docker_ops"
  shows "Execute g P pol c n = exec_docker P (timeoutFor (c_op c)) pol (c_op c) p (noted c n)"
  using assms by (simp add: Execute_def Let_def)

text \<open>
  a lifecycle command on a container whose inspection shows the control-plane label fails, and makes
  no call besides that inspection.
\<close>

theorem labelled_container_is_refused:
  assumes "c_op c \<in> set lifecycle_ops" "decode_params (c_params c) = Some p" "has_containers P"
    and "fst (serve P (timeoutFor (c_op c)) (InspectContainer (p_name p)) (n_world n)) =
      \<lparr>r_err = None, r_value = v, r_flag = True, r_labels = labels, r_text = t\<rparr>"
    and "map_of labels RoleLabel = Some RoleControl"
  shows "(\<exists>msg. fst (Execute g P pol c n) = Inl msg) \<and>
    calls_made (snd (Execute g P pol c n)) \<in> {calls_made n, calls_made n @ [InspectContainer (p_name p)]}"
proof (cases "ValidateParams g (c_op c) (c_params c)")
  case None
  have "c_op c \<in> set docker_ops"
    using assms(1) unfolding lifecycle_ops_def docker_ops_def by (rule lifecycle_in_docker)
  then have e: "Execute g P pol c n = exec_lifecycle P (timeoutFor (c_op c)) pol (c_op c) (p_name p) (noted c n)"
    by (simp add: Execute_docker [OF None assms(2)] exec_docker_lifecycle [OF assms(1, 3)])
  obtain w where s: "serve P (timeoutFor (c_op c)) (InspectContainer (p_name p)) (n_world n) =
      (\<lparr>r_err = None, r_value = v, r_flag = True, r_labels = labels, r_text = t\<rparr>, w)"
    using assms(4) by (metis prod.collapse)
  show ?thesis
    by (simp add: e exec_lifecycle_def checkMutable_def ask_def s Let_def CheckMutation_def assms(5) calls_made_def)
qed (simp add: Execute_def)

section \<open>Examples\<close>

definition demo_reply :: reply where
  "demo_reply = \<lparr>r_err = None, r_value = JNull, r_flag = True, r_labels = [], r_text = []\<rparr>"

definition demo_providers :: "unit providers" where
  "demo_providers = \<lparr>has_containers = True, has_fs = True, has_monitoring = True, has_db = True,
     serve = (\<lambda>_ _ w. (demo_reply, w))\<rparr>"

definition demo_policy :: policy where
  "demo_policy = \<lparr>DataRoot = ''/srv/data'', ProtectedNames = [''traefik'']\<rparr>"

definition demo_node :: "unit node" where
  "demo_node = \<lparr>n_log = [], n_ran = [], n_world = ()\<rparr>"

definition demo_command :: "string \<Rightarrow> (string \<times> json) list \<Rightarrow> command" where
  "demo_command opn kvs = \<lparr>c_id = ''1'', c_agent = ''7'', c_request = ''r'', c_op = opn, c_params = Doc (JObj kvs),
     c_expires = 100, c_signature = []\<rparr>"

text \<open>
  The object \<open>{"name":"w","image":"nginx","User":"0"}\<close>: the map has no \<open>user\<close>, the struct has one.
\<close>

definition root_params :: "(string \<times> json) list" where
  "root_params = [(''name'', JStr ''w''), (''image'', JStr ''nginx''), (''User'', JStr ''0'')]"

lemma root_params_valid: "validDockerCreate root_params = None"
  by code_simp

lemma root_params_decoded:
  "decode_params (Doc (JObj root_params)) = Some (zero_params\<lparr>p_name := ''w'', p_image := ''nginx'', p_user := ''0''\<rparr>)"
proof -
  have "fold_name ''name'' = ''NAME''" "fold_name ''image'' = ''IMAGE''" "fold_name ''User'' = ''USER''"
    by code_simp+
  then show ?thesis
    by (simp add: decode_params_def decode_struct_def root_params_def assign_param_def names_field_simps zero_params_def)
qed

lemma uid_zero_refused: "\<not> workload_user_ok ''0''"
  by code_simp

text \<open>
  the allowlist looks parameters up by exact name and the executor by case-insensitive name, so a
  signed \<open>docker.create\<close> with the member \<open>User\<close> passes validation and asks the container provider for
  user 0, which the allowlist means to refuse.
\<close>

theorem respelled_user_reaches_provider:
  assumes "c_op c = ''docker.create''" "c_params c = Doc (JObj root_params)" "has_containers P" "\<not> protectedName pol ''w''"
  shows "\<exists>s. calls_made (snd (Execute g P pol c n)) = calls_made n @ [CreateContainer s] \<and>
    cs_user s = ''0'' \<and> \<not> workload_user_ok (cs_user s)"
proof -
  have v: "ValidateParams g (c_op c) (c_params c) = None"
    by (simp add: assms(1, 2) ValidateParams_obj Allowed_simps root_params_valid)
  have d: "decode_params (c_params c) = Some (zero_params\<lparr>p_name := ''w'', p_image := ''nginx'', p_user := ''0''\<rparr>)"
    by (simp add: assms(2) root_params_decoded)
  have "c_op c \<in> set docker_ops" by (simp add: assms(1) docker_ops_def)
  then have "Execute g P pol c n = exec_create P (timeoutFor (c_op c)) pol
      (zero_params\<lparr>p_name := ''w'', p_image := ''nginx'', p_user := ''0''\<rparr>) (noted c n)"
    by (simp add: Execute_docker [OF v d] exec_docker_def assms(1, 3))
  then show ?thesis
    using assms(4) uid_zero_refused
    by (simp add: exec_create_def zero_params_def CheckCreate_def CheckMutation_def case_prod_beta Let_def calls_made_ask)
qed

lemma demo_node_calls [simp]: "calls_made demo_node = []"
  by (simp add: demo_node_def calls_made_def)

lemma demo_read:
  "calls_made (snd (Execute demo_golib demo_providers demo_policy
     (demo_command ''filesystem.read'' [(''path'', JStr ''sites/a'')]) demo_node)) = [ReadFile ''sites/a'']"
  by code_simp

lemma demo_well_spelled: "well_spelled [(''path'', JStr ''sites/a'')]"
  by code_simp

theorem executed_calls_are_validated_witness:
  "SafeRelPath ''sites/a'' = None"
proof -
  have "c_params (demo_command opn kvs) = Doc (JObj kvs)" for opn kvs by (simp add: demo_command_def)
  then have "list_all validated [ReadFile ''sites/a'']"
    using executed_calls_are_validated [OF _ demo_well_spelled, where g = demo_golib and P = demo_providers
        and pol = demo_policy and n = demo_node and c = "demo_command ''filesystem.read'' [(''path'', JStr ''sites/a'')]"]
    by (simp add: demo_read)
  then show ?thesis by simp
qed

text \<open>A provider whose only container carries the control-plane label.\<close>

definition labelled_providers :: "unit providers" where
  "labelled_providers = demo_providers\<lparr>serve := (\<lambda>_ _ w. (demo_reply\<lparr>r_labels := [(RoleLabel, RoleControl)]\<rparr>, w))\<rparr>"

theorem labelled_container_is_refused_witness:
  "calls_made (snd (Execute demo_golib labelled_providers demo_policy (demo_command ''docker.stop'' [(''name'', JStr ''web1'')]) demo_node))
     \<in> {[], [InspectContainer ''web1'']}"
proof -
  let ?c = "demo_command ''docker.stop'' [(''name'', JStr ''web1'')]"
  have "decode_params (c_params ?c) = Some (zero_params\<lparr>p_name := ''web1''\<rparr>)" by code_simp
  from labelled_container_is_refused [OF _ this, where P = labelled_providers and n = demo_node and g = demo_golib
      and pol = demo_policy and labels = "[(RoleLabel, RoleControl)]" and v = JNull and t = "[]"]
  show ?thesis
    by (simp add: demo_command_def lifecycle_ops_def labelled_providers_def demo_providers_def demo_reply_def demo_node_def calls_made_def)
qed

theorem respelled_user_reaches_provider_witness:
  "\<exists>s. calls_made (snd (Execute demo_golib demo_providers demo_policy (demo_command ''docker.create'' root_params) demo_node)) =
     [CreateContainer s] \<and> cs_user s = ''0''"
proof -
  have "\<not> protectedName demo_policy ''w''" by code_simp
  then show ?thesis
    using respelled_user_reaches_provider [of "demo_command ''docker.create'' root_params" demo_providers demo_policy
        demo_golib demo_node]
    by (auto simp: demo_command_def demo_providers_def)
qed

end
