(* ===== verification/Node_Agents.thy ===== *)
theory Node_Agents
  imports Agent_Protocol
begin

text \<open>
  internal/nodeagent/service.go, the control-plane side of the node agent: enrolment, authentication
  of signed requests, heartbeats, the signed command queue, results, revocation and the sweep, over
  the tables of migration 0022. PostgreSQL keeps microseconds; the comparisons here are on the
  nanoseconds of the Go values.
\<close>

section \<open>Rows\<close>

datatype agent_status = AgOnline | AgOffline | AgDegraded | AgUnknown | AgRevoked

datatype command_status = CmPending | CmDelivered | CmSucceeded | CmFailed | CmExpired

record registration =
  en_org :: uuid
  en_node :: uuid
  en_hash :: string
  en_expires :: time
  en_used :: "time option"
  en_creator :: "uuid option"

record node_row =
  nd_id :: uuid
  nd_org :: uuid
  nd_hostname :: string
  nd_status :: string
  nd_seen :: "time option"
  nd_updated :: time

record agent_row =
  na_id :: uuid
  na_org :: uuid
  na_node :: uuid
  na_status :: agent_status
  na_version :: string
  na_caps :: "string list"
  na_key :: string
  na_seen :: "time option"
  na_heartbeat :: json
  na_registered :: time
  na_revoked :: "time option"

record nonce_row =
  nn_agent :: uuid
  nn_nonce :: string
  nn_seen :: time

record command_row =
  nc_id :: uuid
  nc_org :: uuid
  nc_agent :: uuid
  nc_request :: string
  nc_job :: "uuid option"
  nc_op :: string
  nc_params :: json
  nc_status :: command_status
  nc_result :: "json option"
  nc_error :: "string option"
  nc_signature :: string
  nc_created :: time
  nc_expires :: time
  nc_delivered :: "time option"
  nc_completed :: "time option"

record metric_row =
  mt_org :: uuid
  mt_node :: uuid
  mt_metric :: string
  mt_value :: string

text \<open>
  \<open>na_retired\<close> and \<open>nc_retired\<close> are the ids of agents and commands that were deleted;
  \<open>gen_random_uuid()\<close> and \<open>uuid.New()\<close> never hand out an id twice, so an id among them is not offered
  again (a colliding INSERT is a driver error, as on the primary key).
\<close>

record agents_db =
  registrations :: "registration list"
  node_rows :: "node_row list"
  agent_rows :: "agent_row list"
  nonce_rows :: "nonce_row list"
  command_rows :: "command_row list"
  metric_rows :: "metric_row list"
  agents_audit :: "audit_entry list"
  na_retired :: "uuid list"
  nc_retired :: "uuid list"

section \<open>Shared helpers\<close>

definition perm_manage :: string where "perm_manage = ''infrastructure.manage''"
definition perm_read :: string where "perm_read = ''infrastructure.read''"

definition offline_after :: duration where "offline_after = 90 * second"
definition command_ttl :: duration where "command_ttl = 5 * minute"

definition sys_ctx :: "uuid \<Rightarrow> string \<Rightarrow> auth_context" where
  "sys_ctx org label = (System_ctx org)\<lparr>actor_label := label\<rparr>"

definition agents_rec ::
  "bool \<Rightarrow> auth_context \<Rightarrow> string \<Rightarrow> string \<Rightarrow> uuid \<Rightarrow> bool \<Rightarrow> agents_db \<Rightarrow> agents_db" where
  "agents_rec failed ac action rtype rid ok s =
     s\<lparr>agents_audit := Record failed ac action rtype (IdRef rid) [] ok (agents_audit s)\<rparr>"

definition hash_token :: "golib \<Rightarrow> string \<Rightarrow> string" where
  "hash_token g t = sha_hex g t"

definition truncate_text :: "string \<Rightarrow> nat \<Rightarrow> string" where
  "truncate_text s n = (if length s > n then take n s else s)"

text \<open>The join on \<open>nodes\<close> keeps agents of existing nodes only; \<open>uuid.Nil\<close> skips the organization filter.\<close>

definition load_agent :: "bool \<Rightarrow> uuid \<Rightarrow> uuid \<Rightarrow> agents_db \<Rightarrow> api_error + agent_row" where
  "load_agent failed org i s =
     (if failed then Inl (Wrap CodeInternal ''failed to load agent'')
      else case find (\<lambda>a. na_id a = i \<and> (org = uuid_nil \<or> na_org a = org) \<and>
                        list_ex (\<lambda>n. nd_id n = na_node a) (node_rows s)) (agent_rows s) of
        None \<Rightarrow> Inl (NotFound ''agent'')
      | Some a \<Rightarrow> Inr a)"

section \<open>Enrolment\<close>

text \<open>
  \<open>token\<close> is the text of the random token. Statements: the node lookup, the INSERT (whose
  \<open>token_hash\<close> is unique), the audit row.
\<close>

definition create_registration ::
  "golib \<Rightarrow> env \<Rightarrow> string \<Rightarrow> auth_context \<Rightarrow> uuid \<Rightarrow> agents_db \<Rightarrow> (api_error + string \<times> time \<times> uuid) \<times> agents_db" where
  "create_registration g e token ac node s =
     (case Require ac perm_manage of Some x \<Rightarrow> (Inl x, s)
      | None \<Rightarrow>
        if fault e 0 then (Inl (Wrap CodeInternal ''failed to look up node''), s)
        else if \<not> list_ex (\<lambda>n. nd_id n = node \<and> nd_org n = org_id ac \<and> nd_status n \<noteq> ''decommissioned'') (node_rows s)
        then (Inl (NotFound ''node''), s)
        else let expiry = go_now e + 30 * minute; h = hash_token g token in
          if fault e 1 \<or> list_ex (\<lambda>r. en_hash r = h) (registrations s)
          then (Inl (Wrap CodeInternal ''failed to store registration''), s)
          else (Inr (token, expiry, node),
                agents_rec (fault e 2) ac ''nodeagent.registration.created'' ''node'' node True
                  (s\<lparr>registrations := registrations s @
                      [\<lparr>en_org = org_id ac, en_node = node, en_hash = h, en_expires = expiry, en_used = None,
                        en_creator = actor_user ac\<rparr>]\<rparr>)))"

record enroll_request =
  er_token :: string
  er_public_key :: string
  er_version :: string
  er_caps :: "string list"

definition token_usable :: "string \<Rightarrow> time \<Rightarrow> registration \<Rightarrow> bool" where
  "token_usable h now r \<longleftrightarrow> en_hash r = h \<and> en_used r = None \<and> now < en_expires r"

text \<open>Deleting an agent deletes its nonces and commands with it (ON DELETE CASCADE).\<close>

definition drop_agents_of :: "uuid \<Rightarrow> agents_db \<Rightarrow> agents_db" where
  "drop_agents_of node s =
     (let gone = map na_id (filter (\<lambda>a. na_node a = node) (agent_rows s)) in
      s\<lparr>agent_rows := delete_where (\<lambda>a. na_node a = node) (agent_rows s),
        nonce_rows := delete_where (\<lambda>n. nn_agent n \<in> set gone) (nonce_rows s),
        command_rows := delete_where (\<lambda>c. nc_agent c \<in> set gone) (command_rows s),
        na_retired := na_retired s @ gone,
        nc_retired := nc_retired s @ map nc_id (filter (\<lambda>c. nc_agent c \<in> set gone) (command_rows s))\<rparr>)"

text \<open>
  The transaction of \<open>Enroll\<close>: an error before the commit rolls all of it back. Statements: BEGIN,
  the token UPDATE, the agent of the node, the DELETE, the INSERT (one agent per node), COMMIT, audit.
\<close>

definition enrolled_row :: "env \<Rightarrow> registration \<Rightarrow> enroll_request \<Rightarrow> string \<Rightarrow> agent_row" where
  "enrolled_row e r req pub =
     \<lparr>na_id = new_id e, na_org = en_org r, na_node = en_node r, na_status = AgUnknown,
      na_version = er_version req, na_caps = er_caps req, na_key = pub, na_seen = None,
      na_heartbeat = JObj [], na_registered = db_now e, na_revoked = None\<rparr>"

definition enroll_tx ::
  "golib \<Rightarrow> env \<Rightarrow> enroll_request \<Rightarrow> string \<Rightarrow> agents_db \<Rightarrow> api_error + uuid \<times> uuid \<times> agents_db" where
  "enroll_tx g e req pub s =
     (let h = hash_token g (er_token req) in
      if fault e 0 then Inl (Wrap CodeInternal ''failed to begin'')
      else if fault e 1 then Inl (Wrap CodeInternal ''failed to consume token'')
      else case find (token_usable h (db_now e)) (registrations s) of
        None \<Rightarrow> Inl (Unauthenticated ''invalid, expired or already used enrolment token'')
      | Some r \<Rightarrow>
          if fault e 2 then Inl (Wrap CodeInternal ''failed to check existing agent'')
          else let old = find (\<lambda>a. na_node a = en_node r) (agent_rows s) in
            if (case old of Some a \<Rightarrow> na_status a \<noteq> AgRevoked | None \<Rightarrow> False)
            then Inl (Conflict ''an agent is already enrolled for this node; revoke it first'')
            else if old \<noteq> None \<and> fault e 3 then Inl (Wrap CodeInternal ''failed to replace revoked agent'')
            else let s1 = (if old = None then s else drop_agents_of (en_node r) s);
                     s2 = s1\<lparr>registrations := update_where (token_usable h (db_now e))
                              (\<lambda>r. r\<lparr>en_used := Some (db_now e)\<rparr>) (registrations s1)\<rparr> in
              if fault e 4 \<or> new_id e \<in> na_id ` set (agent_rows s2) \<union> set (na_retired s2)
              then Inl (Wrap CodeInternal ''failed to create agent'')
              else if fault e 5 then Inl (Wrap CodeInternal ''failed to commit'')
              else Inr (new_id e, en_org r, s2\<lparr>agent_rows := agent_rows s2 @ [enrolled_row e r req pub]\<rparr>))"

definition enroll ::
  "golib \<Rightarrow> env \<Rightarrow> string \<Rightarrow> enroll_request \<Rightarrow> agents_db \<Rightarrow> (api_error + string \<times> string) \<times> agents_db" where
  "enroll g e sign_key req s =
     (case b64_decode (er_public_key req) of
        None \<Rightarrow> (Inl (Validation ''public_key must be a base64 Ed25519 public key''), s)
      | Some pub \<Rightarrow>
          if length pub \<noteq> public_key_size then (Inl (Validation ''public_key must be a base64 Ed25519 public key''), s)
          else if length (er_version req) > 64 then (Inl (Validation ''version too long''), s)
          else case enroll_tx g e req pub s of
            Inl x \<Rightarrow> (Inl x, s)
          | Inr (i, org, s') \<Rightarrow>
              (Inr (uuid_text g i, b64_encode (ed_public g sign_key)),
               agents_rec (fault e 6) (sys_ctx org ''node-agent'') ''nodeagent.agent.enrolled'' ''node_agent'' i True s'))"

section \<open>Authentication\<close>

definition err_bad_creds :: api_error where
  "err_bad_creds = Unauthenticated ''invalid agent credentials''"

text \<open>Statements: the lookup and the nonce INSERT \<open>ON CONFLICT DO NOTHING\<close>.\<close>

definition authenticate ::
  "golib \<Rightarrow> env \<Rightarrow> signed_headers \<Rightarrow> string \<Rightarrow> string \<Rightarrow> string \<Rightarrow> agents_db \<Rightarrow> (api_error + agent_row) \<times> agents_db" where
  "authenticate g e h method p body s =
     (case uuid_parse g (h_agent h) of
        None \<Rightarrow> (Inl err_bad_creds, s)
      | Some i \<Rightarrow>
          (case load_agent (fault e 0) uuid_nil i s of
             Inl x \<Rightarrow> (Inl (if err_code x = CodeNotFound then err_bad_creds else x), s)
           | Inr a \<Rightarrow>
               if na_status a = AgRevoked then (Inl err_bad_creds, s)
               else if VerifyRequest g (na_key a) h method p body (go_now e) \<noteq> None then (Inl err_bad_creds, s)
               else if fault e 1 then (Inl (Wrap CodeInternal ''failed to record nonce''), s)
               else if list_ex (\<lambda>n. nn_agent n = i \<and> nn_nonce n = h_nonce h) (nonce_rows s)
               then (Inl err_bad_creds, s)
               else (Inr a, s\<lparr>nonce_rows := nonce_rows s @
                       [\<lparr>nn_agent = i, nn_nonce = h_nonce h, nn_seen = db_now e\<rparr>]\<rparr>)))"

section \<open>Heartbeat\<close>

text \<open>A reported metric: the text of its value, and whether the value is at least 0.\<close>

record heartbeat =
  hb_version :: string
  hb_caps :: "string list"
  hb_status :: string
  hb_metrics :: "(string \<times> string \<times> bool) list"
  hb_json :: json

definition metric_names :: "string list" where
  "metric_names = [''cpu'', ''ram'', ''disk'', ''network_up'', ''network_down'']"

text \<open>
  One INSERT per known metric, in the order of the literal (Go's map order is not fixed; each INSERT
  stands alone). A failed INSERT is only logged.
\<close>

fun store_metrics :: "env \<Rightarrow> nat \<Rightarrow> agent_row \<Rightarrow> heartbeat \<Rightarrow> string list \<Rightarrow> metric_row list \<Rightarrow> metric_row list" where
  "store_metrics e k a hb [] tbl = tbl"
| "store_metrics e k a hb (m # ms) tbl =
     (case map_of (hb_metrics hb) m of
        Some (v, True) \<Rightarrow>
          store_metrics e (Suc k) a hb ms
            (if fault e k then tbl
             else tbl @ [\<lparr>mt_org = na_org a, mt_node = na_node a, mt_metric = m, mt_value = v\<rparr>])
      | _ \<Rightarrow> store_metrics e k a hb ms tbl)"

definition heartbeat_agent :: "env \<Rightarrow> agent_row \<Rightarrow> heartbeat \<Rightarrow> agents_db \<Rightarrow> (api_error + unit) \<times> agents_db" where
  "heartbeat_agent e a hb s =
     (let degraded = (hb_status hb = ''degraded'') in
      if int (length (json_text (hb_json hb))) > 16 * 2 ^ 10 then (Inl (Validation ''heartbeat too large''), s)
      else if fault e 0 then (Inl (Wrap CodeInternal ''failed to record heartbeat''), s)
      else
        let s1 = s\<lparr>agent_rows := update_where (\<lambda>r. na_id r = na_id a)
                (\<lambda>r. r\<lparr>na_status := (if degraded then AgDegraded else AgOnline),
                       na_version := truncate_text (hb_version hb) 64, na_caps := hb_caps hb,
                       na_seen := Some (db_now e), na_heartbeat := hb_json hb\<rparr>) (agent_rows s)\<rparr> in
        if fault e 1 then (Inl (Wrap CodeInternal ''failed to update node status''), s1)
        else
          (Inr (),
           s1\<lparr>node_rows := update_where (\<lambda>n. nd_id n = na_node a \<and> nd_status n \<noteq> ''decommissioned'')
                 (\<lambda>n. n\<lparr>nd_status := (if degraded then ''degraded'' else ''online''), nd_seen := Some (db_now e),
                        nd_updated := db_now e\<rparr>) (node_rows s1),
              metric_rows := store_metrics e 2 a hb metric_names (metric_rows s1)\<rparr>))"

section \<open>Queueing commands\<close>

record queued_command =
  qc_id :: uuid
  qc_request :: string
  qc_op :: string
  qc_status :: string

text \<open>
  \<open>params\<close> is what \<open>json.Marshal\<close> makes of the argument, \<open>None\<close> when it fails. \<open>fresh\<close> is the request id
  used when the caller has none. The canonical text is what the column stores; a UUID collision is an
  error of the INSERT. Statements: the lookup and the INSERT.
\<close>

definition signed_row ::
  "golib \<Rightarrow> env \<Rightarrow> string \<Rightarrow> uuid \<Rightarrow> uuid \<Rightarrow> string \<Rightarrow> json \<Rightarrow> uuid option \<Rightarrow> string \<Rightarrow> command_row" where
  "signed_row g e sign_key org agent opn v job request =
     (let expiry = go_now e + command_ttl;
          c = \<lparr>c_id = uuid_text g (new_id e), c_agent = uuid_text g agent, c_request = request, c_op = opn,
               c_params = Doc v, c_expires = unix expiry, c_signature = []\<rparr>;
          sig = ed_sign g sign_key (commandMessage g c (json_text (decode_any v)))
      in \<lparr>nc_id = new_id e, nc_org = org, nc_agent = agent, nc_request = request, nc_job = job, nc_op = opn,
          nc_params = decode_any v, nc_status = CmPending, nc_result = None, nc_error = None,
          nc_signature = sig, nc_created = db_now e, nc_expires = expiry, nc_delivered = None, nc_completed = None\<rparr>)"

definition enqueue_command ::
  "golib \<Rightarrow> env \<Rightarrow> string \<Rightarrow> uuid \<Rightarrow> uuid \<Rightarrow> string \<Rightarrow> json option \<Rightarrow> uuid option \<Rightarrow> string \<Rightarrow> string \<Rightarrow> agents_db \<Rightarrow>
   (api_error + queued_command) \<times> agents_db" where
  "enqueue_command g e sign_key org agent opn params job request fresh s =
     (case params of
        None \<Rightarrow> (Inl (Validation ''params are not valid JSON''), s)
      | Some v0 \<Rightarrow>
          let v = (if v0 = JNull then JObj [] else v0) in
          (case ValidateParams g opn (Doc v) of
             Some x \<Rightarrow> (Inl (Validation x), s)
           | None \<Rightarrow>
               (case load_agent (fault e 0) org agent s of
                  Inl x \<Rightarrow> (Inl x, s)
                | Inr a \<Rightarrow>
                    if na_status a = AgRevoked then (Inl (Conflict ''agent is revoked''), s)
                    else
                      let rid = (if request = [] then fresh else request);
                          row = signed_row g e sign_key org agent opn v job rid in
                      if fault e 1 \<or> new_id e \<in> nc_id ` set (command_rows s) \<union> set (nc_retired s)
                      then (Inl (Wrap CodeInternal ''failed to queue command''), s)
                      else (Inr \<lparr>qc_id = new_id e, qc_request = rid, qc_op = opn, qc_status = ''pending''\<rparr>,
                            s\<lparr>command_rows := command_rows s @ [row]\<rparr>))))"

definition enqueue_as ::
  "golib \<Rightarrow> env \<Rightarrow> string \<Rightarrow> auth_context \<Rightarrow> uuid \<Rightarrow> string \<Rightarrow> json option \<Rightarrow> string \<Rightarrow> agents_db \<Rightarrow>
   (api_error + queued_command) \<times> agents_db" where
  "enqueue_as g e sign_key ac agent opn params fresh s =
     (case Require ac perm_manage of Some x \<Rightarrow> (Inl x, s)
      | None \<Rightarrow>
        (case enqueue_command g e sign_key (org_id ac) agent opn params None (correlation_id ac) fresh s of
           (Inl x, s1) \<Rightarrow> (Inl x, s1)
         | (Inr q, s1) \<Rightarrow>
             (Inr q, agents_rec (fault e 2) ac ''nodeagent.command.queued'' ''node_agent'' agent True s1)))"

text \<open>
  \<open>WaitResult\<close> reads the command every 150 ms until the timeout: one entry per reading, \<open>None\<close> for a
  driver error or a missing row. A deadline and a cancelled context both end the list.
\<close>

record command_result =
  cr_ok :: bool
  cr_result :: json
  cr_error :: string

datatype wait_error = WaitApi api_error | WaitExpired | WaitTimedOut

fun wait_result :: "(command_status \<times> json option \<times> string option) option list \<Rightarrow> wait_error + command_result" where
  "wait_result [] = Inl WaitTimedOut"
| "wait_result (None # _) = Inl (WaitApi (Wrap CodeInternal ''failed to read command''))"
| "wait_result (Some (st, result, msg) # rest) =
     (case st of
        CmSucceeded \<Rightarrow> Inr \<lparr>cr_ok = True, cr_result = (case result of None \<Rightarrow> JNull | Some v \<Rightarrow> v), cr_error = []\<rparr>
      | CmFailed \<Rightarrow> Inr \<lparr>cr_ok = False, cr_result = JNull, cr_error = (case msg of None \<Rightarrow> [] | Some m \<Rightarrow> m)\<rparr>
      | CmExpired \<Rightarrow> Inl WaitExpired
      | _ \<Rightarrow> wait_result rest)"

definition read_command :: "bool \<Rightarrow> uuid \<Rightarrow> uuid \<Rightarrow> agents_db \<Rightarrow> (command_status \<times> json option \<times> string option) option" where
  "read_command failed org i s =
     (if failed then None
      else case find (\<lambda>c. nc_id c = i \<and> nc_org c = org) (command_rows s) of
        None \<Rightarrow> None
      | Some c \<Rightarrow> Some (nc_status c, nc_result c, nc_error c))"

text \<open>\<open>Dispatch\<close>: what the readings of \<open>WaitResult\<close> will show is given by \<open>readings\<close>.\<close>

definition dispatch ::
  "golib \<Rightarrow> env \<Rightarrow> string \<Rightarrow> uuid \<Rightarrow> uuid \<Rightarrow> uuid option \<Rightarrow> string \<Rightarrow> string \<Rightarrow> json option \<Rightarrow> string \<Rightarrow>
   (command_status \<times> json option \<times> string option) option list \<Rightarrow> agents_db \<Rightarrow> (wait_error + command_result) \<times> agents_db" where
  "dispatch g e sign_key org agent job request opn params fresh readings s =
     (case enqueue_command g e sign_key org agent opn params job request fresh s of
        (Inl x, s1) \<Rightarrow> (Inl (WaitApi x), s1)
      | (Inr q, s1) \<Rightarrow>
          (wait_result readings,
           agents_rec (fault e 2) (sys_ctx org ''operation'') ''nodeagent.command.queued'' ''node_agent'' agent True s1))"

section \<open>Poll and results\<close>

text \<open>
  The commands one poll takes: the ten oldest pending, unexpired ones of the agent. \<open>RETURNING\<close> hands
  them back in no promised order; here it is the order of the table.
\<close>

definition poll_candidates :: "time \<Rightarrow> uuid \<Rightarrow> agents_db \<Rightarrow> uuid list" where
  "poll_candidates now agent s =
     map nc_id (take 10 (sort_key nc_created
       (filter (\<lambda>c. nc_agent c = agent \<and> nc_status c = CmPending \<and> now < nc_expires c) (command_rows s))))"

definition wire_command :: "golib \<Rightarrow> command_row \<Rightarrow> command" where
  "wire_command g r =
     \<lparr>c_id = uuid_text g (nc_id r), c_agent = uuid_text g (nc_agent r), c_request = nc_request r, c_op = nc_op r,
      c_params = Doc (jsonb g (nc_params r)), c_expires = unix (nc_expires r), c_signature = b64_encode (nc_signature r)\<rparr>"

definition poll :: "golib \<Rightarrow> env \<Rightarrow> agent_row \<Rightarrow> agents_db \<Rightarrow> (api_error + command list) \<times> agents_db" where
  "poll g e a s =
     (if fault e 0 then (Inl (Wrap CodeInternal ''failed to poll commands''), s)
      else
        let ids = poll_candidates (db_now e) (na_id a) s;
            f = (\<lambda>r. r\<lparr>nc_status := CmDelivered, nc_delivered := Some (db_now e)\<rparr>);
            s1 = s\<lparr>command_rows := update_where (\<lambda>r. nc_id r \<in> set ids) f (command_rows s)\<rparr>
        in (Inr (map (wire_command g) (hit_rows (\<lambda>r. nc_id r \<in> set ids) f (command_rows s))), s1))"

definition secret_param_ops :: "string list" where
  "secret_param_ops = [''docker.create'', ''database.ensure'']"

definition redacted_params :: json where
  "redacted_params = JObj [(''redacted'', JBool True)]"

definition scrub_secrets :: "bool \<Rightarrow> uuid \<Rightarrow> agents_db \<Rightarrow> agents_db" where
  "scrub_secrets failed i s =
     (if failed then s
      else s\<lparr>command_rows := update_where (\<lambda>r. nc_id r = i \<and> nc_op r \<in> set secret_param_ops)
               (\<lambda>r. r\<lparr>nc_params := redacted_params\<rparr>) (command_rows s)\<rparr>)"

text \<open>\<open>result\<close> is \<open>None\<close> when the agent sent none. Statements: the UPDATE, the scrubbing, the audit row.\<close>

definition report_result ::
  "env \<Rightarrow> agent_row \<Rightarrow> uuid \<Rightarrow> bool \<Rightarrow> json option \<Rightarrow> string \<Rightarrow> agents_db \<Rightarrow> (api_error + unit) \<times> agents_db" where
  "report_result e a i ok result msg s =
     (if (case result of None \<Rightarrow> False | Some v \<Rightarrow> int (length (json_text v)) > 256 * 2 ^ 10)
      then (Inl (Validation ''result too large''), s)
      else if fault e 0 then (Inl (Wrap CodeInternal ''failed to record result''), s)
      else
        let p = (\<lambda>r. nc_id r = i \<and> nc_agent r = na_id a \<and> nc_status r = CmDelivered) in
        if \<not> list_ex p (command_rows s)
        then (Inl (Conflict ''command is not awaiting a result from this agent''), s)
        else
          let s1 = s\<lparr>command_rows := update_where p
                (\<lambda>r. r\<lparr>nc_status := (if ok then CmSucceeded else CmFailed),
                       nc_result := Some (case result of None \<Rightarrow> JNull | Some v \<Rightarrow> v),
                       nc_error := null_string (truncate_text msg 2000), nc_completed := Some (db_now e)\<rparr>)
                (command_rows s)\<rparr>
          in (Inr (), agents_rec (fault e 2) (sys_ctx (na_org a) ''node-agent'') ''nodeagent.command.completed''
                ''node_agent'' (na_id a) ok (scrub_secrets (fault e 1) i s1)))"

section \<open>Management\<close>

definition hostname_of :: "agents_db \<Rightarrow> agent_row \<Rightarrow> string" where
  "hostname_of s a = (case find (\<lambda>n. nd_id n = na_node a) (node_rows s) of None \<Rightarrow> [] | Some n \<Rightarrow> nd_hostname n)"

definition list_agents :: "env \<Rightarrow> auth_context \<Rightarrow> agents_db \<Rightarrow> api_error + agent_row list" where
  "list_agents e ac s =
     (case Require ac perm_read of Some x \<Rightarrow> Inl x
      | None \<Rightarrow>
        if fault e 0 then Inl (Wrap CodeInternal ''failed to list agents'')
        else Inr (sort_key (hostname_of s)
               (filter (\<lambda>a. na_org a = org_id ac \<and> list_ex (\<lambda>n. nd_id n = na_node a) (node_rows s)) (agent_rows s))))"

definition revoke_agent :: "env \<Rightarrow> auth_context \<Rightarrow> uuid \<Rightarrow> agents_db \<Rightarrow> (api_error + unit) \<times> agents_db" where
  "revoke_agent e ac i s =
     (case Require ac perm_manage of Some x \<Rightarrow> (Inl x, s)
      | None \<Rightarrow>
        let p = (\<lambda>a. na_id a = i \<and> na_org a = org_id ac \<and> na_status a \<noteq> AgRevoked) in
        if fault e 0 then (Inl (Wrap CodeInternal ''failed to revoke agent''), s)
        else if \<not> list_ex p (agent_rows s) then (Inl (NotFound ''agent''), s)
        else
          let s1 = s\<lparr>agent_rows := update_where p (\<lambda>a. a\<lparr>na_status := AgRevoked, na_revoked := Some (db_now e)\<rparr>) (agent_rows s)\<rparr>;
              s2 = (if fault e 1 then s1
                    else s1\<lparr>command_rows := update_where (\<lambda>c. nc_agent c = i \<and> nc_status c \<in> {CmPending, CmDelivered})
                             (\<lambda>c. c\<lparr>nc_status := CmExpired\<rparr>) (command_rows s1)\<rparr>)
          in (Inr (), agents_rec (fault e 2) ac ''nodeagent.agent.revoked'' ''node_agent'' i True s2))"

definition org_of_agent :: "bool \<Rightarrow> uuid \<Rightarrow> agents_db \<Rightarrow> api_error + uuid" where
  "org_of_agent failed i s =
     (case load_agent failed uuid_nil i s of
        Inl x \<Rightarrow> Inl x
      | Inr a \<Rightarrow> if na_status a = AgRevoked then Inl (Conflict ''the configured local agent is revoked'') else Inr (na_org a))"

text \<open>
  Statements of \<open>Sweep\<close>: silent agents, then one UPDATE per node of them, expired commands, their
  secrets, the nonces. An error ends the sweep; what ran before stays.
\<close>

definition silent :: "time \<Rightarrow> agent_row \<Rightarrow> bool" where
  "silent cutoff a \<longleftrightarrow> na_status a \<in> {AgOnline, AgDegraded} \<and>
     (case na_seen a of None \<Rightarrow> True | Some t \<Rightarrow> t < cutoff)"

fun nodes_offline :: "env \<Rightarrow> nat \<Rightarrow> uuid list \<Rightarrow> node_row list \<Rightarrow> node_row list" where
  "nodes_offline e k [] tbl = tbl"
| "nodes_offline e k (n # ns) tbl =
     nodes_offline e (Suc k) ns
       (if fault e k then tbl
        else update_where (\<lambda>r. nd_id r = n \<and> nd_status r \<noteq> ''decommissioned'')
               (\<lambda>r. r\<lparr>nd_status := ''offline'', nd_updated := db_now e\<rparr>) tbl)"

definition expire_commands :: "time \<Rightarrow> command_row list \<Rightarrow> command_row list" where
  "expire_commands now tbl =
     update_where (\<lambda>c. nc_status c \<in> {CmPending, CmDelivered} \<and> nc_expires c < now) (\<lambda>c. c\<lparr>nc_status := CmExpired\<rparr>) tbl"

definition scrub_finished :: "command_row list \<Rightarrow> command_row list" where
  "scrub_finished tbl =
     update_where (\<lambda>c. nc_op c \<in> set secret_param_ops \<and> nc_status c \<in> {CmSucceeded, CmFailed, CmExpired} \<and>
                       nc_params c \<noteq> redacted_params)
       (\<lambda>c. c\<lparr>nc_params := redacted_params\<rparr>) tbl"

definition sweep_agents :: "env \<Rightarrow> agents_db \<Rightarrow> bool \<times> agents_db" where
  "sweep_agents e s =
     (let cutoff = go_now e - offline_after in
      if fault e 0 then (False, s)
      else
        let quiet = map na_node (filter (silent cutoff) (agent_rows s));
            k = Suc (length quiet);
            s1 = s\<lparr>agent_rows := update_where (silent cutoff) (\<lambda>a. a\<lparr>na_status := AgOffline\<rparr>) (agent_rows s),
                   node_rows := nodes_offline e 1 quiet (node_rows s)\<rparr>
        in if fault e k then (False, s1)
           else let s2 = s1\<lparr>command_rows := expire_commands (db_now e) (command_rows s1)\<rparr> in
             if fault e (k + 1) then (False, s2)
             else let s3 = s2\<lparr>command_rows := scrub_finished (command_rows s2)\<rparr> in
               if fault e (k + 2) then (False, s3)
               else (True, s3\<lparr>nonce_rows := delete_where (\<lambda>n. nn_seen n < db_now e - 10 * minute) (nonce_rows s3)\<rparr>))"

end
