(* ===== verification/One_Shot.thy ===== *)
theory One_Shot
  imports Nodera_Prelude
begin

text \<open>
  The contract of a token that can be taken once (an enrolment token, a queued command, a request
  nonce, a signed command at the agent, a pending approval): the locale \<open>one_shot\<close> and the counting
  lemma it gives.
\<close>

section \<open>Counting claims in a run\<close>

text \<open>
  \<open>claims x s k\<close>: the operation \<open>x\<close>, run in \<open>s\<close>, takes the token \<open>k\<close>. \<open>claim_count\<close> counts the operations
  of a run that take it; \<open>all_good\<close> is the side condition of each operation, in the state it runs in.
\<close>

fun claim_count :: "('op \<Rightarrow> 's \<Rightarrow> 's) \<Rightarrow> ('op \<Rightarrow> 's \<Rightarrow> 'k \<Rightarrow> bool) \<Rightarrow> 'k \<Rightarrow> 'op list \<Rightarrow> 's \<Rightarrow> nat" where
  "claim_count step claims k [] s = 0"
| "claim_count step claims k (x # xs) s =
     (if claims x s k then 1 else 0) + claim_count step claims k xs (step x s)"

fun all_good :: "('op \<Rightarrow> 's \<Rightarrow> 's) \<Rightarrow> ('op \<Rightarrow> 's \<Rightarrow> bool) \<Rightarrow> 'op list \<Rightarrow> 's \<Rightarrow> bool" where
  "all_good step good [] s = True"
| "all_good step good (x # xs) s = (good x s \<and> all_good step good xs (step x s))"

lemma all_good_trivial: "(\<And>x s. good x s) \<Longrightarrow> all_good step good xs s"
  by (induction xs arbitrary: s) auto

text \<open>
  What makes a token one-shot: taking it needs it unspent and spends it, and nothing unspends it.
\<close>

locale one_shot =
  fixes step :: "'op \<Rightarrow> 's \<Rightarrow> 's"
    and claims :: "'op \<Rightarrow> 's \<Rightarrow> 'k \<Rightarrow> bool"
    and spent :: "'s \<Rightarrow> 'k \<Rightarrow> bool"
    and good :: "'op \<Rightarrow> 's \<Rightarrow> bool"
    and ok :: "'s \<Rightarrow> bool"
  assumes ok_step: "ok s \<Longrightarrow> good x s \<Longrightarrow> ok (step x s)"
    and claim_unspent: "ok s \<Longrightarrow> good x s \<Longrightarrow> claims x s k \<Longrightarrow> \<not> spent s k"
    and claim_spends: "ok s \<Longrightarrow> good x s \<Longrightarrow> claims x s k \<Longrightarrow> spent (step x s) k"
    and spent_stays: "ok s \<Longrightarrow> good x s \<Longrightarrow> spent s k \<Longrightarrow> spent (step x s) k"
begin

lemma spent_never_claimed:
  "ok s \<Longrightarrow> spent s k \<Longrightarrow> all_good step good xs s \<Longrightarrow> claim_count step claims k xs s = 0"
proof (induction xs arbitrary: s)
  case (Cons x xs)
  then have "\<not> claims x s k" using claim_unspent by auto
  then show ?case using Cons spent_stays ok_step by simp
qed simp

lemma claimed_once:
  "ok s \<Longrightarrow> all_good step good xs s \<Longrightarrow> claim_count step claims k xs s \<le> 1"
proof (induction xs arbitrary: s)
  case (Cons x xs)
  have rest: "ok (step x s)" "all_good step good xs (step x s)" using Cons.prems ok_step by auto
  show ?case
  proof (cases "claims x s k")
    case True
    then have "claim_count step claims k xs (step x s) = 0"
      using Cons.prems claim_spends by (intro spent_never_claimed rest) auto
    then show ?thesis using True by simp
  next
    case False
    then show ?thesis using Cons.IH [OF rest] by simp
  qed
qed simp

end

end
