(* ===== verification/Agent_Runtime.thy ===== *)
theory Agent_Runtime
  imports Agent_Exec_Safety Node_Agents One_Shot
begin

text \<open>
  internal/nodeagent/agent: the runtime on the node. A poll's commands are handled one by one; what was
  executed is remembered until it expires. The HTTP transport and the files of the state are not modelled.
\<close>

section \<open>The agent's state\<close>

record agent_state =
  st_agent :: string
  st_seed :: string
  st_server_key :: string
  st_api_url :: string

text \<open>\<open>ag_done\<close> is the map of executed command ids to their expiry; it lives in memory only.\<close>

record 'w agent =
  ag_state :: agent_state
  ag_server_key :: string
  ag_guard :: policy
  ag_caps :: "string list"
  ag_done :: "string \<rightharpoonup> int"
  ag_node :: "'w node"

definition seed_size :: nat where "seed_size = 32"

text \<open>The default guard allows bind mounts from the filesystem provider's own root only.\<close>

definition new_agent :: "'w providers \<Rightarrow> agent_state \<Rightarrow> 'w node \<Rightarrow> string + 'w agent" where
  "new_agent P st n =
     (case b64_decode (st_seed st) of
        None \<Rightarrow> Inl ''invalid private key in state''
      | Some seed \<Rightarrow>
          if length seed \<noteq> seed_size then Inl ''invalid private key in state''
          else (case b64_decode (st_server_key st) of
              None \<Rightarrow> Inl ''invalid server public key in state''
            | Some spk \<Rightarrow>
                if length spk \<noteq> public_key_size then Inl ''invalid server public key in state''
                else
                  let caps = (if has_containers P then [''docker''] else []) @ (if has_fs P then [''filesystem''] else []) @
                             (if has_monitoring P then [''metrics''] else []) @ (if has_db P then [''database''] else []);
                      (r, n1) = (if has_fs P then ask P 0 (AbsPath ''.'') n
                                 else (\<lparr>r_err = Some [], r_value = JNull, r_flag = False, r_labels = [], r_text = []\<rparr>, n));
                      root = (if r_err r = None then r_text r else [])
                  in Inr \<lparr>ag_state = st, ag_server_key = spk, ag_guard = \<lparr>DataRoot = root, ProtectedNames = []\<rparr>,
                          ag_caps = caps, ag_done = Map.empty, ag_node = n1\<rparr>))"

definition set_guard :: "string list \<Rightarrow> 'w agent \<Rightarrow> 'w agent" where
  "set_guard names a = a\<lparr>ag_guard := (ag_guard a)\<lparr>ProtectedNames := names\<rparr>\<rparr>"

section \<open>Handling a command\<close>

definition forget_expired :: "int \<Rightarrow> (string \<rightharpoonup> int) \<Rightarrow> (string \<rightharpoonup> int)" where
  "forget_expired now m = (\<lambda>i. case m i of None \<Rightarrow> None | Some x \<Rightarrow> if x < now then None else Some x)"

definition mark_executed :: "time \<Rightarrow> command \<Rightarrow> (string \<rightharpoonup> int) \<Rightarrow> bool \<times> (string \<rightharpoonup> int)" where
  "mark_executed now c m =
     (let m1 = forget_expired (unix now) m in
      if m1 (c_id c) \<noteq> None then (False, m1) else (True, m1(c_id c \<mapsto> c_expires c)))"

definition rejected :: "string \<Rightarrow> command_result" where
  "rejected msg = \<lparr>cr_ok = False, cr_result = JNull, cr_error = ''rejected: '' @ msg\<rparr>"

text \<open>The clock is read twice: \<open>t1\<close> by the verification, \<open>t2\<close> by \<open>markExecuted\<close>.\<close>

definition handle :: "golib \<Rightarrow> 'w providers \<Rightarrow> time \<Rightarrow> time \<Rightarrow> command \<Rightarrow> 'w agent \<Rightarrow> command_result \<times> 'w agent" where
  "handle g P t1 t2 c a =
     (case VerifyCommand g (ag_server_key a) (st_agent (ag_state a)) c t1 of
        Some msg \<Rightarrow> (rejected msg, a)
      | None \<Rightarrow>
          let (new, m) = mark_executed t2 c (ag_done a); a1 = a\<lparr>ag_done := m\<rparr> in
          if \<not> new then (rejected ''command already executed (replay)'', a1)
          else (case Execute g P (ag_guard a1) c (ag_node a1) of
              (Inl msg, n) \<Rightarrow> (\<lparr>cr_ok = False, cr_result = JNull, cr_error = msg\<rparr>, a1\<lparr>ag_node := n\<rparr>)
            | (Inr v, n) \<Rightarrow> (\<lparr>cr_ok = True, cr_result = v, cr_error = []\<rparr>, a1\<lparr>ag_node := n\<rparr>)))"

text \<open>
  The command loop of \<open>Step\<close>: each command of a poll is handled and its result reported; \<open>reports\<close> says
  whether the report of each goes through, and the first that does not ends the step.
\<close>

fun step_commands ::
  "golib \<Rightarrow> 'w providers \<Rightarrow> (command \<times> time \<times> time \<times> bool) list \<Rightarrow> 'w agent \<Rightarrow> bool \<times> command_result list \<times> 'w agent" where
  "step_commands g P [] a = (True, [], a)"
| "step_commands g P ((c, t1, t2, sent) # rest) a =
     (let (r, a1) = handle g P t1 t2 c a in
      if \<not> sent then (False, [r], a1)
      else let (ok, rs, a2) = step_commands g P rest a1 in (ok, r # rs, a2))"

definition ValidateAPIURL :: "golib \<Rightarrow> string \<Rightarrow> string option" where
  "ValidateAPIURL g raw =
     (case url_parse g raw of
        None \<Rightarrow> Some ''API URL must look like https://host[:port] with no path''
      | Some u \<Rightarrow>
          if url_host u = [] \<or> (url_path u \<noteq> [] \<and> url_path u \<noteq> ''/'') then
            Some ''API URL must look like https://host[:port] with no path''
          else if url_scheme u = ''https'' then None
          else if url_scheme u = ''http'' then
            (let h = url_hostname u in
             if h = ''localhost'' \<or> has_prefix ''127.'' h \<or> h = ''::1'' \<or> (CHR ''.'' \<notin> set h \<and> CHR '':'' \<notin> set h) then None
             else Some ''plain http is only allowed for loopback or an internal single-label service name; use https'')
          else Some ''API URL must use https'')"

section \<open>A signed command runs once\<close>

text \<open>Runs of \<open>handle\<close> on any commands; the state is the agent and the time of the last reading.\<close>

definition handle_step :: "golib \<Rightarrow> 'w providers \<Rightarrow> command \<times> time \<times> time \<Rightarrow> 'w agent \<times> time \<Rightarrow> 'w agent \<times> time" where
  "handle_step g P x st = (case x of (c, t1, t2) \<Rightarrow> (snd (handle g P t1 t2 c (fst st)), t2))"

text \<open>\<open>executes\<close>: the step calls \<open>Execute\<close> with the command, as the node's history shows.\<close>

definition executes :: "golib \<Rightarrow> 'w providers \<Rightarrow> command \<times> time \<times> time \<Rightarrow> 'w agent \<times> time \<Rightarrow> command \<Rightarrow> bool" where
  "executes g P x st k \<longleftrightarrow> n_ran (ag_node (fst (handle_step g P x st))) = n_ran (ag_node (fst st)) @ [k]"

definition ran_with :: "'w agent \<Rightarrow> command \<Rightarrow> nat" where
  "ran_with a k = count_list (n_ran (ag_node a)) k"

text \<open>
  Time does not run backwards, and no command expires between the two readings of the clock.
\<close>

definition steady :: "command \<times> time \<times> time \<Rightarrow> 'w agent \<times> time \<Rightarrow> bool" where
  "steady x st \<longleftrightarrow>
     (case x of (c, t1, t2) \<Rightarrow> snd st \<le> t1 \<and> t1 \<le> t2 \<and> (unix t1 \<le> c_expires c \<longrightarrow> unix t2 \<le> c_expires c))"

definition done_with :: "'w agent \<times> time \<Rightarrow> command \<Rightarrow> bool" where
  "done_with st k \<longleftrightarrow> c_expires k < unix (snd st) \<or> (\<exists>x. ag_done (fst st) (c_id k) = Some x \<and> c_expires k \<le> x)"

lemma unix_mono: "s \<le> t \<Longrightarrow> unix s \<le> unix t"
  by (simp add: unix_def second_def zdiv_mono1)

lemma handle_done:
  "ag_done (snd (handle g P t1 t2 c a)) =
     (if VerifyCommand g (ag_server_key a) (st_agent (ag_state a)) c t1 = None
      then snd (mark_executed t2 c (ag_done a)) else ag_done a)"
proof (cases "VerifyCommand g (ag_server_key a) (st_agent (ag_state a)) c t1")
  case None
  obtain new m where m: "mark_executed t2 c (ag_done a) = (new, m)" by fastforce
  obtain r n where "Execute g P (ag_guard a) c (ag_node a) = (r, n)" by fastforce
  then show ?thesis by (cases r) (simp_all add: handle_def None m Let_def)
qed (simp add: handle_def)

lemma handle_ran:
  "n_ran (ag_node (snd (handle g P t1 t2 c a))) = n_ran (ag_node a) @
     (if VerifyCommand g (ag_server_key a) (st_agent (ag_state a)) c t1 = None \<and> fst (mark_executed t2 c (ag_done a)) then [c] else [])"
proof (cases "VerifyCommand g (ag_server_key a) (st_agent (ag_state a)) c t1")
  case None
  obtain new m where m: "mark_executed t2 c (ag_done a) = (new, m)" by fastforce
  obtain r n where e: "Execute g P (ag_guard a) c (ag_node a) = (r, n)" by fastforce
  then have "n_ran n = n_ran (ag_node a) @ [c]" using n_ran_Execute [of g P "ag_guard a" c "ag_node a"] by simp
  then show ?thesis using e by (cases r) (simp_all add: handle_def None m Let_def)
qed (simp add: handle_def)

lemma executesD:
  assumes "executes g P (c, t1, t2) (a, t) k"
  shows "c = k" "VerifyCommand g (ag_server_key a) (st_agent (ag_state a)) k t1 = None" "fst (mark_executed t2 k (ag_done a))"
  using assms by (auto simp: executes_def handle_step_def handle_ran split: if_splits)

lemma ran_with_run:
  "ran_with (fst (fold (handle_step g P) xs st)) k = ran_with (fst st) k + claim_count (handle_step g P) (executes g P) k xs st"
proof (induction xs arbitrary: st)
  case (Cons x xs)
  obtain c t1 t2 where x: "x = (c, t1, t2)" by (cases x)
  have "ran_with (fst (handle_step g P x st)) k = ran_with (fst st) k + (if executes g P x st k then 1 else 0)"
    by (simp add: ran_with_def executes_def handle_step_def x handle_ran)
  then show ?case using Cons by simp
qed simp

interpretation executions: one_shot "handle_step g P" "executes g P" done_with steady "\<lambda>_. True" for g and P :: "'w providers"
proof
  fix x :: "command \<times> time \<times> time" and st :: "'w agent \<times> time" and k
  obtain c t1 t2 where x: "x = (c, t1, t2)" by (cases x)
  obtain a t where st: "st = (a, t)" by (cases st)
  show "\<not> done_with st k" if "steady x st" "executes g P x st k"
  proof -
    note c = executesD(1) [OF that(2) [unfolded x st]] and v = executesD(2) [OF that(2) [unfolded x st]]
      and m = executesD(3) [OF that(2) [unfolded x st]]
    have live: "unix t1 \<le> c_expires k" using VerifyCommand_NoneD [OF v] by simp
    then have "unix t2 \<le> c_expires k" "unix t \<le> c_expires k"
      using that(1) unix_mono [of t t1] by (auto simp: steady_def x st c)
    moreover from this m have "\<not> (\<exists>x. ag_done a (c_id k) = Some x \<and> c_expires k \<le> x)"
      by (auto simp: mark_executed_def forget_expired_def Let_def split: if_splits)
    ultimately show ?thesis by (simp add: done_with_def st)
  qed
  show "done_with (handle_step g P x st) k" if "executes g P x st k"
  proof -
    note c = executesD(1) [OF that [unfolded x st]] and v = executesD(2) [OF that [unfolded x st]]
      and m = executesD(3) [OF that [unfolded x st]]
    from v m have "ag_done (snd (handle g P t1 t2 k a)) (c_id k) = Some (c_expires k)"
      by (auto simp: handle_done mark_executed_def Let_def split: if_splits)
    then show ?thesis by (simp add: done_with_def handle_step_def x st c)
  qed
  show "done_with (handle_step g P x st) k" if good: "steady x st" and d: "done_with st k"
  proof -
    have le: "unix t \<le> unix t2" using good unix_mono [of t t2] by (simp add: steady_def x st)
    from d have "c_expires k < unix t \<or> (\<exists>y. ag_done a (c_id k) = Some y \<and> c_expires k \<le> y)" by (simp add: done_with_def st)
    then have "c_expires k < unix t2 \<or> (\<exists>y. ag_done (snd (handle g P t1 t2 c a)) (c_id k) = Some y \<and> c_expires k \<le> y)"
    proof (elim disjE exE conjE)
      fix y assume y: "ag_done a (c_id k) = Some y" "c_expires k \<le> y"
      show ?thesis
      proof (cases "y < unix t2")
        case False
        then have "ag_done (snd (handle g P t1 t2 c a)) (c_id k) = Some y"
          using y(1) by (auto simp: handle_done mark_executed_def forget_expired_def Let_def)
        then show ?thesis using y(2) by blast
      qed (use y(2) in simp)
    qed (use le in simp)
    then show ?thesis by (simp add: done_with_def handle_step_def x st)
  qed
qed simp

text \<open>
  C32: over any sequence of deliveries, \<open>handle\<close> calls \<open>Execute\<close> at most once with the same signed
  command, however often it is delivered, when the agent's clock does not run backwards and no command
  expires between the two clock readings of a delivery.
\<close>

theorem signed_command_runs_once:
  assumes "all_good (handle_step g P) steady xs st"
  shows "ran_with (fst (fold (handle_step g P) xs st)) k \<le> ran_with (fst st) k + 1"
  using executions.claimed_once [where k = k, OF _ assms] by (simp add: ran_with_run)

text \<open>
  a command that was executed is executed again when its expiry second passes between the
  verification of a second delivery and \<open>markExecuted\<close>, which forgets the command first.
\<close>

theorem replay_across_expiry_runs_again:
  assumes "VerifyCommand g (ag_server_key a) (st_agent (ag_state a)) c t1 = None"
    and "ag_done a (c_id c) = Some (c_expires c)" "c_expires c < unix t2"
  shows "ag_node (snd (handle g P t1 t2 c a)) = snd (Execute g P (ag_guard a) c (ag_node a))"
proof -
  have m: "mark_executed t2 c (ag_done a) =
      (True, (forget_expired (unix t2) (ag_done a))(c_id c \<mapsto> c_expires c))"
    using assms(2, 3) by (simp add: mark_executed_def forget_expired_def Let_def)
  obtain r n where "Execute g P (ag_guard a) c (ag_node a) = (r, n)" by fastforce
  then show ?thesis by (cases r) (simp_all add: handle_def assms(1) m Let_def)
qed

end
