(* ===== verification/Agent_Ops.thy ===== *)
theory Agent_Ops
  imports Node_Agents One_Shot
begin

text \<open>
  The operations of internal/nodeagent/service.go as one type with its step function, and what each
  of them can do to each table.
\<close>

section \<open>Operations as one type\<close>

datatype agents_op =
    OpRegister env string auth_context uuid
  | OpEnroll env string enroll_request
  | OpAuthenticate env signed_headers string string string
  | OpHeartbeat env agent_row heartbeat
  | OpEnqueue env string auth_context uuid string "json option" string
  | OpDispatch env string uuid uuid "uuid option" string string "json option" string
  | OpPoll env agent_row
  | OpReport env agent_row uuid bool "json option" string
  | OpRevoke env auth_context uuid
  | OpSweep env

primrec op_env :: "agents_op \<Rightarrow> env" where
  "op_env (OpRegister e _ _ _) = e"
| "op_env (OpEnroll e _ _) = e"
| "op_env (OpAuthenticate e _ _ _ _) = e"
| "op_env (OpHeartbeat e _ _) = e"
| "op_env (OpEnqueue e _ _ _ _ _ _) = e"
| "op_env (OpDispatch e _ _ _ _ _ _ _ _) = e"
| "op_env (OpPoll e _) = e"
| "op_env (OpReport e _ _ _ _ _) = e"
| "op_env (OpRevoke e _ _) = e"
| "op_env (OpSweep e) = e"

primrec agents_step :: "golib \<Rightarrow> agents_op \<Rightarrow> agents_db \<Rightarrow> agents_db" where
  "agents_step g (OpRegister e token ac node) s = snd (create_registration g e token ac node s)"
| "agents_step g (OpEnroll e key req) s = snd (enroll g e key req s)"
| "agents_step g (OpAuthenticate e h meth p body) s = snd (authenticate g e h meth p body s)"
| "agents_step g (OpHeartbeat e a hb) s = snd (heartbeat_agent e a hb s)"
| "agents_step g (OpEnqueue e key ac agent opn params fresh) s = snd (enqueue_as g e key ac agent opn params fresh s)"
| "agents_step g (OpDispatch e key org agent job request opn params fresh) s =
     snd (dispatch g e key org agent job request opn params fresh [] s)"
| "agents_step g (OpPoll e a) s = snd (poll g e a s)"
| "agents_step g (OpReport e a i ok result msg) s = snd (report_result e a i ok result msg s)"
| "agents_step g (OpRevoke e ac i) s = snd (revoke_agent e ac i s)"
| "agents_step g (OpSweep e) s = snd (sweep_agents e s)"

section \<open>What an operation does to each table\<close>

text \<open>
  One outcome lemma per operation: either the state is the old one or the tables changed as the
  successful path changes them. The audit log plays no part in the lemmas below.
\<close>

definition tables :: "agents_db \<Rightarrow> agents_db" where
  "tables s = s\<lparr>agents_audit := [], metric_rows := [], node_rows := []\<rparr>"

lemma tables_sel [simp]:
  "registrations (tables s) = registrations s" "agent_rows (tables s) = agent_rows s"
  "nonce_rows (tables s) = nonce_rows s" "command_rows (tables s) = command_rows s"
  "na_retired (tables s) = na_retired s" "nc_retired (tables s) = nc_retired s"
  by (simp_all add: tables_def)

lemma agents_rec_sel [simp]:
  "registrations (agents_rec f ac a t i ok s) = registrations s" "agent_rows (agents_rec f ac a t i ok s) = agent_rows s"
  "nonce_rows (agents_rec f ac a t i ok s) = nonce_rows s" "command_rows (agents_rec f ac a t i ok s) = command_rows s"
  "na_retired (agents_rec f ac a t i ok s) = na_retired s" "nc_retired (agents_rec f ac a t i ok s) = nc_retired s"
  "node_rows (agents_rec f ac a t i ok s) = node_rows s"
  by (simp_all add: agents_rec_def)

text \<open>The changes an operation can make to one table.\<close>

definition same_commands :: "agents_db \<Rightarrow> agents_db \<Rightarrow> bool" where
  "same_commands s s' \<longleftrightarrow> command_rows s' = command_rows s \<and> nc_retired s' = nc_retired s"

definition same_agents :: "agents_db \<Rightarrow> agents_db \<Rightarrow> bool" where
  "same_agents s s' \<longleftrightarrow> agent_rows s' = agent_rows s \<and> na_retired s' = na_retired s"

definition same_rest :: "agents_db \<Rightarrow> agents_db \<Rightarrow> bool" where
  "same_rest s s' \<longleftrightarrow> registrations s' = registrations s \<and> nonce_rows s' = nonce_rows s"

lemma create_registration_outcome:
  "same_commands s (snd (create_registration g e token ac node s)) \<and>
   same_agents s (snd (create_registration g e token ac node s)) \<and>
   nonce_rows (snd (create_registration g e token ac node s)) = nonce_rows s \<and>
   (registrations (snd (create_registration g e token ac node s)) = registrations s \<or>
    (\<exists>r. registrations (snd (create_registration g e token ac node s)) = registrations s @ [r] \<and>
       en_used r = None \<and> en_hash r \<notin> en_hash ` set (registrations s)))"
  by (auto simp: create_registration_def Let_def same_commands_def same_agents_def list_ex_iff split: option.splits)

text \<open>An enrolment that goes through.\<close>

definition consume_token :: "string \<Rightarrow> time \<Rightarrow> registration list \<Rightarrow> registration list" where
  "consume_token h now tbl = update_where (token_usable h now) (\<lambda>r. r\<lparr>en_used := Some now\<rparr>) tbl"

lemma drop_agents_registrations [simp]: "registrations (drop_agents_of node s) = registrations s"
  by (simp add: drop_agents_of_def Let_def)

lemma enroll_tx_InrD:
  assumes "enroll_tx g e req pub s = Inr (i, org, s')"
  obtains r s1 where "find (token_usable (hash_token g (er_token req)) (db_now e)) (registrations s) = Some r"
    and "s1 = s \<or> s1 = drop_agents_of (en_node r) s" and "i = new_id e"
    and "new_id e \<notin> na_id ` set (agent_rows s1)" and "new_id e \<notin> set (na_retired s1)"
    and "s' = s1\<lparr>registrations := consume_token (hash_token g (er_token req)) (db_now e) (registrations s),
                 agent_rows := agent_rows s1 @ [enrolled_row e r req pub]\<rparr>"
proof -
  let ?h = "hash_token g (er_token req)"
  from assms obtain r where r: "find (token_usable ?h (db_now e)) (registrations s) = Some r"
    by (auto simp: enroll_tx_def Let_def split: if_splits option.splits)
  let ?s1 = "if find (\<lambda>a. na_node a = en_node r) (agent_rows s) = None then s else drop_agents_of (en_node r) s"
  have regs: "registrations ?s1 = registrations s" by simp
  show thesis
    using assms regs by (intro that [OF r, of ?s1]) (auto simp: enroll_tx_def r Let_def consume_token_def split: if_splits)
qed

lemma enroll_outcome:
  "snd (enroll g e key req s) = s \<or>
   (\<exists>pub i org s'. enroll_tx g e req pub s = Inr (i, org, s') \<and> fst (enroll g e key req s) = Inr (uuid_text g i, b64_encode (ed_public g key)) \<and>
      tables (snd (enroll g e key req s)) = tables s')"
  by (auto simp: enroll_def tables_def agents_rec_def split: option.splits sum.splits)

lemma enroll_InlD: "fst (enroll g e key req s) = Inl x \<Longrightarrow> snd (enroll g e key req s) = s"
  by (auto simp: enroll_def split: option.splits sum.splits if_splits prod.splits)

text \<open>An accepted request.\<close>

lemma authenticate_outcome:
  "(\<exists>x. authenticate g e h meth p body s = (Inl x, s)) \<or>
   (\<exists>i a. authenticate g e h meth p body s =
        (Inr a, s\<lparr>nonce_rows := nonce_rows s @ [\<lparr>nn_agent = i, nn_nonce = h_nonce h, nn_seen = db_now e\<rparr>]\<rparr>) \<and>
      uuid_parse g (h_agent h) = Some i \<and> load_agent (fault e 0) uuid_nil i s = Inr a \<and> na_status a \<noteq> AgRevoked \<and>
      VerifyRequest g (na_key a) h meth p body (go_now e) = None \<and>
      \<not> list_ex (\<lambda>n. nn_agent n = i \<and> nn_nonce n = h_nonce h) (nonce_rows s))"
  by (simp add: authenticate_def split: option.split sum.split)

lemma load_agent_InrD:
  "load_agent f org i s = Inr a \<Longrightarrow> a \<in> set (agent_rows s) \<and> na_id a = i \<and> (org \<noteq> uuid_nil \<longrightarrow> na_org a = org)"
  by (auto simp: load_agent_def dest!: find_SomeD split: if_splits option.splits)

text \<open>The operations on commands.\<close>

lemma heartbeat_outcome:
  "same_commands s (snd (heartbeat_agent e a hb s)) \<and> same_rest s (snd (heartbeat_agent e a hb s)) \<and>
   na_retired (snd (heartbeat_agent e a hb s)) = na_retired s \<and>
   (\<exists>f. (\<forall>r. na_id (f r) = na_id r) \<and>
      agent_rows (snd (heartbeat_agent e a hb s)) = update_where (\<lambda>r. na_id r = na_id a) f (agent_rows s))"
proof -
  have "update_where (\<lambda>r. na_id r = na_id a) (\<lambda>r. r) (agent_rows s) = agent_rows s"
    by (simp add: update_where_def)
  then show ?thesis
    by (auto simp: heartbeat_agent_def Let_def same_commands_def same_rest_def
        intro: exI [where x = "\<lambda>r. r"] exI [where x = "\<lambda>r. r\<lparr>na_status := s1, na_version := v, na_caps := c, na_seen := n, na_heartbeat := j\<rparr>" for s1 v c n j])
qed

lemma signed_row_sel [simp]:
  "nc_id (signed_row g e key org agent opn v job rid) = new_id e"
  "nc_org (signed_row g e key org agent opn v job rid) = org"
  "nc_agent (signed_row g e key org agent opn v job rid) = agent"
  "nc_status (signed_row g e key org agent opn v job rid) = CmPending"
  "nc_op (signed_row g e key org agent opn v job rid) = opn"
  "nc_params (signed_row g e key org agent opn v job rid) = decode_any v"
  by (simp_all add: signed_row_def Let_def)

text \<open>The parameters a call of \<open>EnqueueAs\<close> or \<open>Dispatch\<close> asks for: an absent value is the empty object.\<close>

definition asked_params :: "json option \<Rightarrow> json" where
  "asked_params params = (case params of None \<Rightarrow> JNull | Some v \<Rightarrow> if v = JNull then JObj [] else v)"

lemma enqueue_command_outcome:
  "(\<exists>x. enqueue_command g e key org agent opn params job request fresh s = (Inl x, s)) \<or>
   (\<exists>v a q rid. enqueue_command g e key org agent opn params job request fresh s =
        (Inr q, s\<lparr>command_rows := command_rows s @ [signed_row g e key org agent opn v job rid]\<rparr>) \<and>
      qc_id q = new_id e \<and> v \<noteq> JNull \<and> v = asked_params params \<and> ValidateParams g opn (Doc v) = None \<and> load_agent (fault e 0) org agent s = Inr a \<and> na_status a \<noteq> AgRevoked \<and>
      new_id e \<notin> nc_id ` set (command_rows s) \<and> new_id e \<notin> set (nc_retired s))"
proof (cases params)
  case None
  then show ?thesis by (simp add: enqueue_command_def)
next
  case (Some v0)
  define v where "v = (if v0 = JNull then JObj [] else v0)"
  define rid where "rid = (if request = [] then fresh else request)"
  have nn: "v \<noteq> JNull" "v = asked_params params" by (simp_all add: v_def asked_params_def Some)
  note unfold = enqueue_command_def nn(2) [symmetric] Some option.case v_def [symmetric] rid_def [symmetric] Let_def
  show ?thesis
  proof (cases "ValidateParams g opn (Doc v)")
    case None
    show ?thesis
    proof (cases "load_agent (fault e 0) org agent s")
      case (Inr a)
      show ?thesis
        by (cases "na_status a = AgRevoked \<or> fault e 1 \<or> new_id e \<in> nc_id ` set (command_rows s) \<union> set (nc_retired s)")
          (use None Inr nn in \<open>auto simp: unfold\<close>)
    qed (simp add: unfold None)
  qed (simp add: unfold)
qed

lemma poll_outcome:
  "(\<exists>x. poll g e a s = (Inl x, s)) \<or>
   (\<exists>ids. ids = poll_candidates (db_now e) (na_id a) s \<and>
     snd (poll g e a s) = s\<lparr>command_rows := update_where (\<lambda>r. nc_id r \<in> set ids)
        (\<lambda>r. r\<lparr>nc_status := CmDelivered, nc_delivered := Some (db_now e)\<rparr>) (command_rows s)\<rparr> \<and>
     fst (poll g e a s) = Inr (map (wire_command g) (hit_rows (\<lambda>r. nc_id r \<in> set ids)
        (\<lambda>r. r\<lparr>nc_status := CmDelivered, nc_delivered := Some (db_now e)\<rparr>) (command_rows s))))"
  by (simp add: poll_def Let_def)

lemma poll_candidatesD:
  "i \<in> set (poll_candidates now agent s) \<Longrightarrow>
   \<exists>c \<in> set (command_rows s). nc_id c = i \<and> nc_agent c = agent \<and> nc_status c = CmPending \<and> now < nc_expires c"
  by (auto simp: poll_candidates_def dest!: in_set_takeD)

section \<open>Commands only move forward\<close>

text \<open>
  A change of the command table that keeps ids, agents and operations, and never makes a command
  pending again; it may append pending commands with fresh ids and drop commands whose ids retire.
\<close>

definition forward :: "command_row \<Rightarrow> command_row \<Rightarrow> bool" where
  "forward c d \<longleftrightarrow> nc_id d = nc_id c \<and> nc_agent d = nc_agent c \<and> nc_op d = nc_op c \<and> nc_org d = nc_org c \<and>
     (nc_status d = CmPending \<longrightarrow> nc_status c = CmPending)"

lemma forward_refl [simp]: "forward c c"
  by (simp add: forward_def)

lemma forward_trans: "forward a b \<Longrightarrow> forward b c \<Longrightarrow> forward a c"
  by (auto simp: forward_def)

definition advances :: "agents_db \<Rightarrow> agents_db \<Rightarrow> bool" where
  "advances s s' \<longleftrightarrow> nc_retired s' = nc_retired s \<and> list_all2 forward (command_rows s) (command_rows s')"

lemma advances_same: "same_commands s s' \<Longrightarrow> advances s s'"
  by (simp add: advances_def same_commands_def list_all2_refl)

lemma advances_trans: "advances a b \<Longrightarrow> advances b c \<Longrightarrow> advances a c"
  by (auto simp: advances_def intro: list_all2_trans [OF forward_trans])

lemma forward_update: "(\<And>c. p c \<Longrightarrow> forward c (f c)) \<Longrightarrow> list_all2 forward tbl (update_where p f tbl)"
  by (induction tbl) auto

lemma advances_update:
  "(\<And>c. p c \<Longrightarrow> forward c (f c)) \<Longrightarrow> nc_retired s' = nc_retired s \<Longrightarrow>
   command_rows s' = update_where p f (command_rows s) \<Longrightarrow> advances s s'"
  by (simp add: advances_def forward_update)

lemma advances_rec [simp]: "advances s (agents_rec f ac a t i ok s1) = advances s s1"
  by (simp add: advances_def)

lemma advances_scrub: "advances s (scrub_secrets failed i s)"
proof (cases failed)
  case False
  then show ?thesis
    by (intro advances_update [where p = "\<lambda>r. nc_id r = i \<and> nc_op r \<in> set secret_param_ops" and
          f = "\<lambda>r. r\<lparr>nc_params := redacted_params\<rparr>"]) (simp_all add: scrub_secrets_def forward_def)
qed (simp add: scrub_secrets_def advances_same same_commands_def)

lemma advances_report: "advances s (snd (report_result e a i ok result msg s))"
proof -
  let ?p = "\<lambda>r. nc_id r = i \<and> nc_agent r = na_id a \<and> nc_status r = CmDelivered"
  let ?f = "\<lambda>r. r\<lparr>nc_status := (if ok then CmSucceeded else CmFailed),
                   nc_result := Some (case result of None \<Rightarrow> JNull | Some v \<Rightarrow> v),
                   nc_error := null_string (truncate_text msg 2000), nc_completed := Some (db_now e)\<rparr>"
  have "advances s (s\<lparr>command_rows := update_where ?p ?f (command_rows s)\<rparr>)"
    by (rule advances_update [where p = ?p and f = ?f]) (simp_all add: forward_def)
  then have "advances s (scrub_secrets (fault e 1) i (s\<lparr>command_rows := update_where ?p ?f (command_rows s)\<rparr>))"
    by (rule advances_trans [OF _ advances_scrub])
  moreover have "advances s s" by (simp add: advances_same same_commands_def)
  ultimately show ?thesis by (simp add: report_result_def Let_def)
qed

lemma advances_revoke: "advances s (snd (revoke_agent e ac i s))"
proof -
  let ?p = "\<lambda>c. nc_agent c = i \<and> nc_status c \<in> {CmPending, CmDelivered}"
  let ?rows = "update_where ?p (\<lambda>c. c\<lparr>nc_status := CmExpired\<rparr>) (command_rows s)"
  have u: "list_all2 forward (command_rows s) ?rows" by (rule forward_update) (simp add: forward_def)
  have "list_all2 forward (command_rows s) (command_rows s)" by (simp add: list_all2_refl)
  with u show ?thesis by (simp add: revoke_agent_def Let_def advances_def split: option.split)
qed

lemma advances_sweep: "advances s (snd (sweep_agents e s))"
proof -
  have x: "list_all2 forward tbl (expire_commands t tbl)" for t tbl
    unfolding expire_commands_def by (rule forward_update) (simp add: forward_def)
  have y: "list_all2 forward tbl (scrub_finished tbl)" for tbl
    unfolding scrub_finished_def by (rule forward_update) (simp add: forward_def)
  have xy: "list_all2 forward tbl (scrub_finished (expire_commands t tbl))" for t tbl
    by (rule list_all2_trans [OF forward_trans x y])
  have "list_all2 forward (command_rows s) (command_rows s)" by (simp add: list_all2_refl)
  with x y xy show ?thesis by (simp add: sweep_agents_def Let_def advances_def)
qed

lemma advances_poll: "advances s (snd (poll g e a s))"
proof -
  have "list_all2 forward (command_rows s) (update_where p (\<lambda>r. r\<lparr>nc_status := CmDelivered, nc_delivered := d\<rparr>) (command_rows s))" for p d
    by (rule forward_update) (simp add: forward_def)
  moreover have "list_all2 forward (command_rows s) (command_rows s)" by (simp add: list_all2_refl)
  ultimately show ?thesis by (simp add: poll_def Let_def advances_def)
qed

end
