(* ===== verification/Agent_Safety.thy ===== *)
theory Agent_Safety
  imports Agent_Ops
begin

text \<open>
  Invariants of the node agent service over any sequence of its operations, and the three one-shot
  contracts of it: a queued command, an enrolment token, a signed request.
\<close>

section \<open>Table by table\<close>

definition drops_commands :: "agents_db \<Rightarrow> agents_db \<Rightarrow> bool" where
  "drops_commands s s' \<longleftrightarrow> (\<exists>q. command_rows s' = delete_where q (command_rows s) \<and>
     nc_retired s' = nc_retired s @ map nc_id (filter q (command_rows s)))"

definition adds_command :: "agents_db \<Rightarrow> agents_db \<Rightarrow> bool" where
  "adds_command s s' \<longleftrightarrow> (\<exists>c. command_rows s' = command_rows s @ [c] \<and> nc_retired s' = nc_retired s \<and>
     nc_status c = CmPending \<and> nc_id c \<notin> nc_id ` set (command_rows s) \<union> set (nc_retired s))"

lemma drops_drop_agents: "drops_commands s (drop_agents_of node s)"
  unfolding drops_commands_def
  by (intro exI [of _ "\<lambda>c. nc_agent c \<in> set (map na_id (filter (\<lambda>a. na_node a = node) (agent_rows s)))"])
    (simp add: drop_agents_of_def Let_def)

lemma advances_tables: "tables s' = tables s'' \<Longrightarrow> advances s s' = advances s s''"
  unfolding advances_def using tables_sel by metis

lemma same_tables:
  assumes "tables a = tables b"
  shows "command_rows a = command_rows b" "nc_retired a = nc_retired b" "agent_rows a = agent_rows b"
    "na_retired a = na_retired b" "nonce_rows a = nonce_rows b" "registrations a = registrations b"
  using assms tables_sel by metis+

lemma commands_enroll: "advances s (snd (enroll g e key req s)) \<or> drops_commands s (snd (enroll g e key req s))"
  using enroll_outcome [of g e key req s]
proof
  assume "snd (enroll g e key req s) = s"
  then show ?thesis by (simp add: advances_same same_commands_def)
next
  assume "\<exists>pub i org s'. enroll_tx g e req pub s = Inr (i, org, s') \<and> fst (enroll g e key req s) = Inr (uuid_text g i, b64_encode (ed_public g key)) \<and>
      tables (snd (enroll g e key req s)) = tables s'"
  then obtain pub i org s' where tx: "enroll_tx g e req pub s = Inr (i, org, s')"
    and t: "tables (snd (enroll g e key req s)) = tables s'" by blast
  from tx obtain r s1 where
    "find (token_usable (hash_token g (er_token req)) (db_now e)) (registrations s) = Some r"
    and s1: "s1 = s \<or> s1 = drop_agents_of (en_node r) s" and "i = new_id e"
    and "new_id e \<notin> na_id ` set (agent_rows s1)" and "new_id e \<notin> set (na_retired s1)"
    and s': "s' = s1\<lparr>registrations := consume_token (hash_token g (er_token req)) (db_now e) (registrations s),
               agent_rows := agent_rows s1 @ [enrolled_row e r req pub]\<rparr>"
    by (rule enroll_tx_InrD)
  have c: "command_rows s' = command_rows s1" "nc_retired s' = nc_retired s1" using s' by simp_all
  from s1 show ?thesis
  proof
    assume "s1 = s"
    then show ?thesis using c same_tables [OF t] by (simp add: advances_same same_commands_def)
  next
    assume "s1 = drop_agents_of (en_node r) s"
    then show ?thesis using c same_tables [OF t] drops_drop_agents [of s "en_node r"] by (simp add: drops_commands_def)
  qed
qed

lemma commands_enqueue:
  "advances s (snd (enqueue_command g e key org agent opn params job request fresh s)) \<or>
   adds_command s (snd (enqueue_command g e key org agent opn params job request fresh s))"
  using enqueue_command_outcome [of g e key org agent opn params job request fresh s]
  by (elim disjE exE conjE) (simp_all add: advances_same same_commands_def adds_command_def)

lemma commands_enqueue_as:
  "advances s (snd (enqueue_as g e key ac agent opn params fresh s)) \<or> adds_command s (snd (enqueue_as g e key ac agent opn params fresh s))"
proof (cases "Require ac perm_manage")
  case None
  obtain r s1 where r: "enqueue_command g e key (org_id ac) agent opn params None (correlation_id ac) fresh s = (r, s1)" by fastforce
  then have "advances s s1 \<or> adds_command s s1" using commands_enqueue by (metis snd_conv)
  then show ?thesis by (cases r) (simp_all add: enqueue_as_def None r adds_command_def del: Require_None)
qed (simp add: enqueue_as_def advances_same same_commands_def)

lemma commands_dispatch:
  "advances s (snd (dispatch g e key org agent job request opn params fresh readings s)) \<or>
   adds_command s (snd (dispatch g e key org agent job request opn params fresh readings s))"
proof -
  obtain r s1 where r: "enqueue_command g e key org agent opn params job request fresh s = (r, s1)" by fastforce
  then have "advances s s1 \<or> adds_command s s1" using commands_enqueue by (metis snd_conv)
  then show ?thesis by (cases r) (simp_all add: dispatch_def r adds_command_def)
qed

lemma commands_authenticate: "same_commands s (snd (authenticate g e h meth p body s))"
  using authenticate_outcome [of g e h meth p body s] by (elim disjE exE conjE) (simp_all add: same_commands_def)

theorem commands_step:
  "advances s (agents_step g x s) \<or> adds_command s (agents_step g x s) \<or> drops_commands s (agents_step g x s)"
proof (cases x)
  case (OpEnroll e key req)
  then show ?thesis using commands_enroll [of s g e key req] by auto
next
  case (OpEnqueue e key ac agent opn params fresh)
  then show ?thesis using commands_enqueue_as [of s g e key ac agent opn params fresh] by auto
next
  case (OpDispatch e key org agent job request opn params fresh)
  then show ?thesis using commands_dispatch [of s g e key org agent job request opn params fresh "[]"] by auto
qed (use create_registration_outcome heartbeat_outcome commands_authenticate advances_report advances_revoke
    advances_sweep advances_poll in \<open>simp_all add: advances_same\<close>)

section \<open>The invariant\<close>

definition commands_ok :: "agents_db \<Rightarrow> bool" where
  "commands_ok s \<longleftrightarrow> pk nc_id (command_rows s) \<and> nc_id ` set (command_rows s) \<inter> set (nc_retired s) = {}"

lemma forward_ids: "list_all2 forward a b \<Longrightarrow> map nc_id b = map nc_id a"
  by (induction rule: list_all2_induct) (auto simp: forward_def)

lemma commands_ok_advances: "commands_ok s \<Longrightarrow> advances s s' \<Longrightarrow> commands_ok s'"
  using forward_ids [of "command_rows s" "command_rows s'"]
  by (metis advances_def commands_ok_def list.set_map pk_def)

lemma commands_ok_adds: "commands_ok s \<Longrightarrow> adds_command s s' \<Longrightarrow> commands_ok s'"
  by (auto simp: commands_ok_def adds_command_def pk_append disjoint_iff)

lemma commands_ok_drops: "commands_ok s \<Longrightarrow> drops_commands s s' \<Longrightarrow> commands_ok s'"
  unfolding commands_ok_def drops_commands_def disjoint_iff
  by (auto simp: pk_delete_where) (metis pk_unique)

lemma commands_ok_step: "commands_ok s \<Longrightarrow> commands_ok (agents_step g x s)"
  using commands_step [of s g x] commands_ok_advances commands_ok_adds commands_ok_drops by blast

section \<open>A command is handed out once\<close>

definition hands_out :: "golib \<Rightarrow> agents_op \<Rightarrow> agents_db \<Rightarrow> string \<Rightarrow> bool" where
  "hands_out g x s k \<longleftrightarrow>
     (case x of
        OpPoll e a \<Rightarrow> (case fst (poll g e a s) of Inl _ \<Rightarrow> False | Inr cs \<Rightarrow> k \<in> c_id ` set cs)
      | _ \<Rightarrow> False)"

definition taken :: "golib \<Rightarrow> agents_db \<Rightarrow> string \<Rightarrow> bool" where
  "taken g s k \<longleftrightarrow> (\<exists>i. k = uuid_text g i \<and>
     (i \<in> set (nc_retired s) \<or> (\<exists>c \<in> set (command_rows s). nc_id c = i \<and> nc_status c \<noteq> CmPending)))"

lemma taken_advances: "advances s s' \<Longrightarrow> taken g s k \<Longrightarrow> taken g s' k"
proof -
  assume adv: "advances s s'" and "taken g s k"
  then obtain i where k: "k = uuid_text g i"
    and i: "i \<in> set (nc_retired s) \<or> (\<exists>c \<in> set (command_rows s). nc_id c = i \<and> nc_status c \<noteq> CmPending)"
    by (auto simp: taken_def)
  from i show ?thesis
  proof
    assume "i \<in> set (nc_retired s)"
    then show ?thesis using adv k by (auto simp: advances_def taken_def)
  next
    assume "\<exists>c \<in> set (command_rows s). nc_id c = i \<and> nc_status c \<noteq> CmPending"
    then obtain n where n: "n < length (command_rows s)" "nc_id (command_rows s ! n) = i" "nc_status (command_rows s ! n) \<noteq> CmPending"
      by (auto simp: in_set_conv_nth)
    have "forward (command_rows s ! n) (command_rows s' ! n)" "n < length (command_rows s')"
      using adv n(1) by (auto simp: advances_def list_all2_conv_all_nth)
    then show ?thesis using n k by (fastforce simp: forward_def taken_def)
  qed
qed

lemma taken_step: "taken g s k \<Longrightarrow> taken g (agents_step g x s) k"
  using commands_step [of s g x]
proof (elim disjE)
  assume "taken g s k" "adds_command s (agents_step g x s)"
  then show ?thesis by (auto simp: adds_command_def taken_def)
next
  assume "taken g s k" "drops_commands s (agents_step g x s)"
  then show ?thesis unfolding drops_commands_def taken_def
    by (elim exE conjE disjE bexE) (simp, blast, force)
qed (rule taken_advances)

lemma hands_outD:
  assumes "hands_out g x s k"
  obtains e a c where "x = OpPoll e a" "k = uuid_text g (nc_id c)" "c \<in> set (command_rows s)" "nc_status c = CmPending"
    "\<exists>d \<in> set (command_rows (agents_step g x s)). nc_id d = nc_id c \<and> nc_status d = CmDelivered"
proof -
  from assms obtain e a cs where x: "x = OpPoll e a" and cs: "fst (poll g e a s) = Inr cs" and k: "k \<in> c_id ` set cs"
    by (auto simp: hands_out_def split: agents_op.splits sum.splits)
  let ?ids = "poll_candidates (db_now e) (na_id a) s"
  let ?f = "\<lambda>r. r\<lparr>nc_status := CmDelivered, nc_delivered := Some (db_now e)\<rparr>"
  have s': "snd (poll g e a s) = s\<lparr>command_rows := update_where (\<lambda>r. nc_id r \<in> set ?ids) ?f (command_rows s)\<rparr>"
    and out: "cs = map (wire_command g) (hit_rows (\<lambda>r. nc_id r \<in> set ?ids) ?f (command_rows s))"
    using poll_outcome [of g e a s] cs by auto
  from k out obtain r where r: "r \<in> set (command_rows s)" "nc_id r \<in> set ?ids" "k = uuid_text g (nc_id r)"
    by (auto simp: hit_rows_def wire_command_def)
  from poll_candidatesD [OF r(2)] obtain c where c: "c \<in> set (command_rows s)" "nc_id c = nc_id r" "nc_status c = CmPending" by auto
  have "?f r \<in> set (command_rows (agents_step g x s))" using r x s' by (auto simp: set_update_where)
  then have d: "\<exists>d \<in> set (command_rows (agents_step g x s)). nc_id d = nc_id c \<and> nc_status d = CmDelivered"
    using c(2) by (intro bexI) simp_all
  show thesis by (rule that [OF x _ c(1, 3) d]) (simp add: c(2) r(3))
qed

interpretation delivery: one_shot "agents_step g" "hands_out g" "taken g" "\<lambda>_ _. inj (uuid_text g)" commands_ok for g
proof
  show "commands_ok (agents_step g x s)" if "commands_ok s" for x s
    using that by (rule commands_ok_step)
  show "\<not> taken g s k" if ok: "commands_ok s" "inj (uuid_text g)" and h: "hands_out g x s k" for s x k
  proof
    from h obtain e a c where "x = OpPoll e a"
      and c: "k = uuid_text g (nc_id c)" "c \<in> set (command_rows s)" "nc_status c = CmPending"
      and "\<exists>d \<in> set (command_rows (agents_step g x s)). nc_id d = nc_id c \<and> nc_status d = CmDelivered"
      by (rule hands_outD)
    assume "taken g s k"
    then obtain i where i: "k = uuid_text g i"
      and t: "i \<in> set (nc_retired s) \<or> (\<exists>d \<in> set (command_rows s). nc_id d = i \<and> nc_status d \<noteq> CmPending)"
      by (auto simp: taken_def)
    have "i = nc_id c" using i c(1) ok(2) by (simp add: inj_eq)
    then show False using t c ok(1) pk_unique [of nc_id "command_rows s"] by (auto simp: commands_ok_def disjoint_iff)
  qed
  show "taken g (agents_step g x s) k" if "hands_out g x s k" for s x k
  proof -
    from that obtain e a c where "x = OpPoll e a" and k: "k = uuid_text g (nc_id c)"
      and "c \<in> set (command_rows s)" "nc_status c = CmPending"
      and "\<exists>d \<in> set (command_rows (agents_step g x s)). nc_id d = nc_id c \<and> nc_status d = CmDelivered"
      by (rule hands_outD)
    then show ?thesis by (fastforce simp: taken_def)
  qed
  show "taken g (agents_step g x s) k" if "taken g s k" for s x k
    using that by (rule taken_step)
qed

text \<open>
  in any run of the service's operations a queued command is handed to an agent by at most one poll,
  when command ids print to distinct texts.
\<close>

theorem command_handed_out_once:
  assumes "commands_ok s" "inj (uuid_text g)"
  shows "claim_count (agents_step g) (hands_out g) k ops s \<le> 1"
  using assms by (intro delivery.claimed_once all_good_trivial) simp_all

section \<open>What the other operations leave alone\<close>

lemma poll_keeps [simp]:
  "registrations (snd (poll g e a s)) = registrations s" "agent_rows (snd (poll g e a s)) = agent_rows s"
  "nonce_rows (snd (poll g e a s)) = nonce_rows s" "na_retired (snd (poll g e a s)) = na_retired s"
  by (simp_all add: poll_def Let_def)

lemma scrub_keeps [simp]:
  "registrations (scrub_secrets f i s) = registrations s" "agent_rows (scrub_secrets f i s) = agent_rows s"
  "nonce_rows (scrub_secrets f i s) = nonce_rows s" "na_retired (scrub_secrets f i s) = na_retired s"
  by (simp_all add: scrub_secrets_def)

lemma report_keeps [simp]:
  "registrations (snd (report_result e a i ok r m s)) = registrations s"
  "agent_rows (snd (report_result e a i ok r m s)) = agent_rows s"
  "nonce_rows (snd (report_result e a i ok r m s)) = nonce_rows s"
  "na_retired (snd (report_result e a i ok r m s)) = na_retired s"
  by (simp_all add: report_result_def Let_def)

lemma enqueue_command_keeps:
  "registrations (snd (enqueue_command g e key org agent opn params job request fresh s)) = registrations s \<and>
   agent_rows (snd (enqueue_command g e key org agent opn params job request fresh s)) = agent_rows s \<and>
   nonce_rows (snd (enqueue_command g e key org agent opn params job request fresh s)) = nonce_rows s \<and>
   na_retired (snd (enqueue_command g e key org agent opn params job request fresh s)) = na_retired s"
  using enqueue_command_outcome [of g e key org agent opn params job request fresh s]
  by (elim disjE exE conjE) simp_all

lemma enqueue_as_keeps [simp]:
  "registrations (snd (enqueue_as g e key ac agent opn params fresh s)) = registrations s"
  "agent_rows (snd (enqueue_as g e key ac agent opn params fresh s)) = agent_rows s"
  "nonce_rows (snd (enqueue_as g e key ac agent opn params fresh s)) = nonce_rows s"
  "na_retired (snd (enqueue_as g e key ac agent opn params fresh s)) = na_retired s"
  using enqueue_command_keeps [of g e key "org_id ac" agent opn params None "correlation_id ac" fresh s]
  by (auto simp: enqueue_as_def split: option.split prod.split sum.split)

lemma dispatch_keeps [simp]:
  "registrations (snd (dispatch g e key org agent job request opn params fresh rs s)) = registrations s"
  "agent_rows (snd (dispatch g e key org agent job request opn params fresh rs s)) = agent_rows s"
  "nonce_rows (snd (dispatch g e key org agent job request opn params fresh rs s)) = nonce_rows s"
  "na_retired (snd (dispatch g e key org agent job request opn params fresh rs s)) = na_retired s"
  using enqueue_command_keeps [of g e key org agent opn params job request fresh s]
  by (auto simp: dispatch_def split: prod.split sum.split)

lemma revoke_keeps [simp]:
  "registrations (snd (revoke_agent e ac i s)) = registrations s" "nonce_rows (snd (revoke_agent e ac i s)) = nonce_rows s"
  "na_retired (snd (revoke_agent e ac i s)) = na_retired s"
  by (simp_all add: revoke_agent_def Let_def split: option.split)

lemma sweep_keeps [simp]:
  "registrations (snd (sweep_agents e s)) = registrations s" "na_retired (snd (sweep_agents e s)) = na_retired s"
  by (simp_all add: sweep_agents_def Let_def)

section \<open>An enrolment token is used once\<close>

definition enrols :: "golib \<Rightarrow> agents_op \<Rightarrow> agents_db \<Rightarrow> string \<Rightarrow> bool" where
  "enrols g x s h \<longleftrightarrow>
     (case x of
        OpEnroll e key req \<Rightarrow> h = hash_token g (er_token req) \<and> (case fst (enroll g e key req s) of Inl _ \<Rightarrow> False | Inr _ \<Rightarrow> True)
      | _ \<Rightarrow> False)"

definition token_used :: "agents_db \<Rightarrow> string \<Rightarrow> bool" where
  "token_used s h \<longleftrightarrow> (\<exists>r \<in> set (registrations s). en_hash r = h \<and> en_used r \<noteq> None)"

definition tokens_ok :: "agents_db \<Rightarrow> bool" where
  "tokens_ok s \<longleftrightarrow> pk en_hash (registrations s)"

lemma consume_token_hash: "map en_hash (consume_token h now tbl) = map en_hash tbl"
  unfolding consume_token_def by (rule map_update_where) simp

lemma consume_token_used: "r \<in> set tbl \<Longrightarrow> en_used r \<noteq> None \<Longrightarrow> r \<in> set (consume_token h now tbl)"
  unfolding consume_token_def set_update_where by (rule image_eqI [of _ _ r]) (auto simp: token_usable_def)

lemma consume_token_marks:
  "r \<in> set tbl \<Longrightarrow> token_usable h now r \<Longrightarrow> r\<lparr>en_used := Some now\<rparr> \<in> set (consume_token h now tbl)"
  unfolding consume_token_def set_update_where by (rule image_eqI [of _ _ r]) auto

lemma enroll_InrD:
  assumes "fst (enroll g e key req s) = Inr res"
  shows "\<exists>pub i org s'. enroll_tx g e req pub s = Inr (i, org, s') \<and> tables (snd (enroll g e key req s)) = tables s'"
proof -
  from assms obtain pub where pub: "b64_decode (er_public_key req) = Some pub"
    by (cases "b64_decode (er_public_key req)") (simp_all add: enroll_def)
  from assms pub obtain i org s' where "enroll_tx g e req pub s = Inr (i, org, s')"
    by (cases "enroll_tx g e req pub s") (auto simp: enroll_def split: if_splits)
  then show ?thesis using assms pub by (auto simp: enroll_def tables_def agents_rec_def split: if_splits)
qed

lemma enroll_registrations:
  assumes "fst (enroll g e key req s) = Inr res"
  shows "\<exists>r \<in> set (registrations s). token_usable (hash_token g (er_token req)) (db_now e) r \<and>
    registrations (snd (enroll g e key req s)) = consume_token (hash_token g (er_token req)) (db_now e) (registrations s)"
proof -
  from enroll_InrD [OF assms] obtain pub i org s' where tx: "enroll_tx g e req pub s = Inr (i, org, s')"
    and t: "tables (snd (enroll g e key req s)) = tables s'" by blast
  from tx obtain r s1 where
    f: "find (token_usable (hash_token g (er_token req)) (db_now e)) (registrations s) = Some r"
    and s1: "s1 = s \<or> s1 = drop_agents_of (en_node r) s" and "i = new_id e"
    and "new_id e \<notin> na_id ` set (agent_rows s1)" and "new_id e \<notin> set (na_retired s1)"
    and s': "s' = s1\<lparr>registrations := consume_token (hash_token g (er_token req)) (db_now e) (registrations s),
               agent_rows := agent_rows s1 @ [enrolled_row e r req pub]\<rparr>"
    by (rule enroll_tx_InrD)
  show ?thesis using find_SomeD [OF f] same_tables(6) [OF t] s' by auto
qed

lemma registrations_step:
  "registrations (agents_step g x s) = registrations s \<or>
   (\<exists>r. registrations (agents_step g x s) = registrations s @ [r] \<and> en_used r = None \<and> en_hash r \<notin> en_hash ` set (registrations s)) \<or>
   (\<exists>h now. registrations (agents_step g x s) = consume_token h now (registrations s))"
proof (cases x)
  case (OpRegister e token ac node)
  then show ?thesis using create_registration_outcome [of s g e token ac node] by auto
next
  case (OpEnroll e key req)
  show ?thesis
  proof (cases "fst (enroll g e key req s)")
    case (Inl y)
    then show ?thesis using OpEnroll enroll_InlD by simp
  next
    case (Inr res)
    then show ?thesis using OpEnroll enroll_registrations by fastforce
  qed
next
  case (OpAuthenticate e h meth p body)
  then show ?thesis using authenticate_outcome [of g e h meth p body s] by (elim disjE exE conjE) simp_all
next
  case (OpHeartbeat e a hb)
  then show ?thesis using heartbeat_outcome [of s e a hb] by (simp add: same_rest_def)
qed simp_all

lemma tokens_ok_step: "tokens_ok s \<Longrightarrow> tokens_ok (agents_step g x s)"
  using registrations_step [of g x s] consume_token_hash
  by (elim disjE exE conjE) (simp_all add: tokens_ok_def pk_append, simp add: pk_def)

lemma token_used_step: "token_used s h \<Longrightarrow> token_used (agents_step g x s) h"
  using registrations_step [of g x s] consume_token_used
  by (elim disjE exE conjE) (fastforce simp: token_used_def)+

interpretation enrolment: one_shot "agents_step g" "enrols g" token_used "\<lambda>_ _. True" tokens_ok for g
proof
  show "tokens_ok (agents_step g x s)" if "tokens_ok s" for x s
    using that by (rule tokens_ok_step)
  show "\<not> token_used s h" if ok: "tokens_ok s" and c: "enrols g x s h" for s x h
  proof
    from c obtain e key req res where h: "h = hash_token g (er_token req)" and r: "fst (enroll g e key req s) = Inr res"
      by (auto simp: enrols_def split: agents_op.splits sum.splits)
    assume "token_used s h"
    then obtain u where u: "u \<in> set (registrations s)" "en_hash u = h" "en_used u \<noteq> None" by (auto simp: token_used_def)
    from enroll_registrations [OF r] h obtain v where "v \<in> set (registrations s)" "token_usable h (db_now e) v" by blast
    then show False using u ok pk_unique [of en_hash "registrations s" u v] by (auto simp: tokens_ok_def token_usable_def)
  qed
  show "token_used (agents_step g x s) h" if c: "enrols g x s h" for s x h
  proof -
    from c obtain e key req res where x: "x = OpEnroll e key req" and h: "h = hash_token g (er_token req)"
      and r: "fst (enroll g e key req s) = Inr res"
      by (auto simp: enrols_def split: agents_op.splits sum.splits)
    from enroll_registrations [OF r] h obtain v where v: "v \<in> set (registrations s)" "token_usable h (db_now e) v"
      and s': "registrations (snd (enroll g e key req s)) = consume_token h (db_now e) (registrations s)" by blast
    have "v\<lparr>en_used := Some (db_now e)\<rparr> \<in> set (registrations (agents_step g x s))"
      using consume_token_marks [OF v] s' x by simp
    then show ?thesis using v(2) by (auto simp: token_used_def token_usable_def intro: bexI [rotated])
  qed
  show "token_used (agents_step g x s) h" if "token_used s h" for s x h
    using that by (rule token_used_step)
qed

text \<open>
  in any run of the service's operations at most one enrolment succeeds with a given token.
\<close>

theorem enrolment_token_used_once:
  assumes "tokens_ok s"
  shows "claim_count (agents_step g) (enrols g) h ops s \<le> 1"
  using assms by (intro enrolment.claimed_once all_good_trivial) simp_all

section \<open>Agents and their nonces\<close>

definition agents_ok :: "agents_db \<Rightarrow> bool" where
  "agents_ok s \<longleftrightarrow> pk na_id (agent_rows s) \<and> na_id ` set (agent_rows s) \<inter> set (na_retired s) = {}"

text \<open>An operation keeps the agents' ids, or enrols one under a fresh id, possibly in place of those of its node.\<close>

definition enrols_agent :: "agents_db \<Rightarrow> agents_db \<Rightarrow> agents_db \<Rightarrow> bool" where
  "enrols_agent s s1 s' \<longleftrightarrow> (\<exists>node. s1 = s \<or> s1 = drop_agents_of node s) \<and>
     (\<exists>a. agent_rows s' = agent_rows s1 @ [a] \<and> na_status a \<noteq> AgRevoked \<and>
        na_id a \<notin> na_id ` set (agent_rows s1) \<and> na_id a \<notin> set (na_retired s1)) \<and>
     na_retired s' = na_retired s1 \<and> nonce_rows s' = nonce_rows s1"

lemma enrols_agent_enroll:
  "snd (enroll g e key req s) = s \<or> (\<exists>s1. enrols_agent s s1 (snd (enroll g e key req s)))"
proof (cases "fst (enroll g e key req s)")
  case (Inr res)
  from enroll_InrD [OF Inr] obtain pub i org s' where tx: "enroll_tx g e req pub s = Inr (i, org, s')"
    and t: "tables (snd (enroll g e key req s)) = tables s'" by blast
  from tx obtain r s1 where
    f: "find (token_usable (hash_token g (er_token req)) (db_now e)) (registrations s) = Some r"
    and s1: "s1 = s \<or> s1 = drop_agents_of (en_node r) s" and "i = new_id e"
    and new: "new_id e \<notin> na_id ` set (agent_rows s1)" "new_id e \<notin> set (na_retired s1)"
    and s': "s' = s1\<lparr>registrations := consume_token (hash_token g (er_token req)) (db_now e) (registrations s),
               agent_rows := agent_rows s1 @ [enrolled_row e r req pub]\<rparr>"
    by (rule enroll_tx_InrD)
  have "enrols_agent s s1 (snd (enroll g e key req s))"
    using s1 new same_tables [OF t] s' by (auto simp: enrols_agent_def enrolled_row_def)
  then show ?thesis by blast
qed (simp add: enroll_InlD)

definition agents_kept :: "agents_db \<Rightarrow> agents_db \<Rightarrow> bool" where
  "agents_kept s s' \<longleftrightarrow> map na_id (agent_rows s') = map na_id (agent_rows s) \<and> na_retired s' = na_retired s"

lemma agents_kept_update:
  "(\<And>a. p a \<Longrightarrow> na_id (f a) = na_id a) \<Longrightarrow> agent_rows s' = update_where p f (agent_rows s) \<Longrightarrow>
   na_retired s' = na_retired s \<Longrightarrow> agents_kept s s'"
  by (simp add: agents_kept_def map_update_where)

lemma agents_kept_rec [simp]: "agents_kept s (agents_rec f ac a t i ok s1) = agents_kept s s1"
  by (simp add: agents_kept_def)

lemma agents_kept_revoke: "agents_kept s (snd (revoke_agent e ac i s))"
proof -
  have "map na_id (update_where p (\<lambda>a. a\<lparr>na_status := AgRevoked, na_revoked := t\<rparr>) (agent_rows s)) = map na_id (agent_rows s)" for p t
    by (rule map_update_where) simp
  then show ?thesis by (simp add: revoke_agent_def Let_def agents_kept_def split: option.split)
qed

lemma agents_kept_sweep: "agents_kept s (snd (sweep_agents e s))"
proof -
  have "map na_id (update_where p (\<lambda>a. a\<lparr>na_status := AgOffline\<rparr>) (agent_rows s)) = map na_id (agent_rows s)" for p
    by (rule map_update_where) simp
  then show ?thesis by (simp add: sweep_agents_def Let_def agents_kept_def)
qed

lemma agents_step_cases:
  obtains (kept) "agents_kept s (agents_step g x s)" | (enrolled) s1 where "enrols_agent s s1 (agents_step g x s)"
proof -
  have "agents_kept s (agents_step g x s) \<or> (\<exists>s1. enrols_agent s s1 (agents_step g x s))"
  proof (cases x)
    case (OpEnroll e key req)
    have "agents_kept s s" by (simp add: agents_kept_def)
    then show ?thesis using OpEnroll enrols_agent_enroll [of g e key req s] by auto
  next
    case (OpHeartbeat e a hb)
    from heartbeat_outcome [of s e a hb] obtain f where f: "\<forall>r. na_id (f r) = na_id r"
      and r: "agent_rows (snd (heartbeat_agent e a hb s)) = update_where (\<lambda>r. na_id r = na_id a) f (agent_rows s)"
      and n: "na_retired (snd (heartbeat_agent e a hb s)) = na_retired s" by blast
    then have "agents_kept s (snd (heartbeat_agent e a hb s))" by (intro agents_kept_update [OF _ r n]) simp
    then show ?thesis using OpHeartbeat by simp
  next
    case (OpAuthenticate e h meth p body)
    then show ?thesis using authenticate_outcome [of g e h meth p body s]
      by (elim disjE exE conjE) (simp_all add: agents_kept_def)
  next
    case (OpRegister e token ac node)
    then show ?thesis using create_registration_outcome [of s g e token ac node] by (simp add: same_agents_def agents_kept_def)
  qed (use agents_kept_revoke agents_kept_sweep in \<open>simp_all add: agents_kept_def\<close>)
  then show thesis using that by blast
qed

lemma drop_agents_sel:
  "agent_rows (drop_agents_of node s) = delete_where (\<lambda>a. na_node a = node) (agent_rows s)"
  "na_retired (drop_agents_of node s) = na_retired s @ map na_id (filter (\<lambda>a. na_node a = node) (agent_rows s))"
  "nonce_rows (drop_agents_of node s) =
     delete_where (\<lambda>n. nn_agent n \<in> set (map na_id (filter (\<lambda>a. na_node a = node) (agent_rows s)))) (nonce_rows s)"
  by (simp_all add: drop_agents_of_def Let_def)

lemma agents_ok_drop: "agents_ok s \<Longrightarrow> agents_ok (drop_agents_of node s)"
  unfolding agents_ok_def drop_agents_sel disjoint_iff
  by (auto simp: pk_delete_where) (metis pk_unique)

lemma agents_ok_step: "agents_ok s \<Longrightarrow> agents_ok (agents_step g x s)"
proof (cases rule: agents_step_cases [of s g x])
  case kept
  assume "agents_ok s"
  with kept show ?thesis unfolding agents_ok_def agents_kept_def pk_def by (metis list.set_map)
next
  case (enrolled s1)
  assume "agents_ok s"
  with enrolled have "agents_ok s1" using agents_ok_drop by (auto simp: enrols_agent_def)
  with enrolled show ?thesis by (auto simp: enrols_agent_def agents_ok_def pk_append disjoint_iff)
qed

lemma retired_step: "i \<in> set (na_retired s) \<Longrightarrow> i \<in> set (na_retired (agents_step g x s))"
  by (cases rule: agents_step_cases [of s g x]) (auto simp: agents_kept_def enrols_agent_def drop_agents_sel)

text \<open>A nonce row goes with its agent, or because the sweep finds it more than ten minutes old.\<close>

lemma nonce_sweep:
  "r \<in> set (nonce_rows s) \<Longrightarrow> r \<notin> set (nonce_rows (snd (sweep_agents e s))) \<Longrightarrow> nn_seen r < db_now e - 10 * minute"
  by (auto simp: sweep_agents_def Let_def split: if_splits)

lemma nonce_step:
  assumes "r \<in> set (nonce_rows s)"
  shows "r \<in> set (nonce_rows (agents_step g x s)) \<or> nn_agent r \<in> set (na_retired (agents_step g x s)) \<or>
    nn_seen r < db_now (op_env x) - 10 * minute"
proof (cases x)
  case (OpEnroll e key req)
  show ?thesis using enrols_agent_enroll [of g e key req s]
  proof
    assume "snd (enroll g e key req s) = s"
    then show ?thesis using assms OpEnroll by simp
  next
    assume "\<exists>s1. enrols_agent s s1 (snd (enroll g e key req s))"
    then obtain s1 where s1: "enrols_agent s s1 (snd (enroll g e key req s))" by blast
    then have "r \<in> set (nonce_rows s1) \<or> nn_agent r \<in> set (na_retired s1)"
      using assms by (auto simp: enrols_agent_def drop_agents_sel)
    then show ?thesis using s1 OpEnroll by (auto simp: enrols_agent_def)
  qed
next
  case (OpSweep e)
  then show ?thesis using nonce_sweep [OF assms, of e] by auto
next
  case (OpAuthenticate e h meth p body)
  then show ?thesis using assms authenticate_outcome [of g e h meth p body s] by (elim disjE exE conjE) simp_all
next
  case (OpRegister e token ac node)
  then show ?thesis using assms create_registration_outcome [of s g e token ac node] by simp
next
  case (OpHeartbeat e a hb)
  then show ?thesis using assms heartbeat_outcome [of s e a hb] by (simp add: same_rest_def)
qed (use assms in simp_all)

section \<open>A signed request is accepted once\<close>

text \<open>
  The state of a run is the database and the time of the last operation on the database's clock, which
  does not run backwards; the API's clock may differ from it by up to \<open>max_drift\<close>. With a window of one
  minute either way and nonces kept for ten, four minutes of drift are harmless.
\<close>

definition max_drift :: duration where "max_drift = 4 * minute"

definition timed_step :: "golib \<Rightarrow> agents_op \<Rightarrow> agents_db \<times> time \<Rightarrow> agents_db \<times> time" where
  "timed_step g x st = (agents_step g x (fst st), db_now (op_env x))"

definition in_time :: "agents_op \<Rightarrow> agents_db \<times> time \<Rightarrow> bool" where
  "in_time x st \<longleftrightarrow> snd st \<le> db_now (op_env x) \<and> \<bar>go_now (op_env x) - db_now (op_env x)\<bar> \<le> max_drift"

definition accepts :: "golib \<Rightarrow> agents_op \<Rightarrow> agents_db \<times> time \<Rightarrow> uuid \<times> int \<times> string \<Rightarrow> bool" where
  "accepts g x st k \<longleftrightarrow>
     (case x of
        OpAuthenticate e h meth p body \<Rightarrow>
          (case fst (authenticate g e h meth p body (fst st)) of Inl _ \<Rightarrow> False | Inr _ \<Rightarrow> True) \<and>
          uuid_parse g (h_agent h) = Some (fst k) \<and> sscan_d (h_timestamp h) = Some (fst (snd k)) \<and> h_nonce h = snd (snd k)
      | _ \<Rightarrow> False)"

fun request_spent :: "agents_db \<times> time \<Rightarrow> uuid \<times> int \<times> string \<Rightarrow> bool" where
  "request_spent (s, t) (i, sec, n) \<longleftrightarrow>
     i \<in> set (na_retired s) \<or> sec * second + max_clock_skew < t - max_drift \<or>
     (\<exists>r \<in> set (nonce_rows s). nn_agent r = i \<and> nn_nonce r = n \<and>
        sec * second + max_clock_skew \<le> nn_seen r + 2 * max_clock_skew + max_drift)"

lemma acceptsD:
  assumes "accepts g x (s, t) (i, sec, n)"
  obtains e h meth p body a where "x = OpAuthenticate e h meth p body" "h_nonce h = n"
    "load_agent (fault e 0) uuid_nil i s = Inr a" "\<bar>go_now e - sec * second\<bar> \<le> max_clock_skew"
    "\<not> list_ex (\<lambda>r. nn_agent r = i \<and> nn_nonce r = n) (nonce_rows s)"
    "agents_step g x s = s\<lparr>nonce_rows := nonce_rows s @ [\<lparr>nn_agent = i, nn_nonce = n, nn_seen = db_now e\<rparr>]\<rparr>"
proof -
  from assms obtain e h meth p body a0 where x: "x = OpAuthenticate e h meth p body"
    and r: "fst (authenticate g e h meth p body s) = Inr a0" and i: "uuid_parse g (h_agent h) = Some i"
    and sec: "sscan_d (h_timestamp h) = Some sec" and n: "h_nonce h = n"
    by (auto simp: accepts_def split: agents_op.splits sum.splits)
  from authenticate_outcome [of g e h meth p body s] r i obtain a
    where a: "authenticate g e h meth p body s =
        (Inr a, s\<lparr>nonce_rows := nonce_rows s @ [\<lparr>nn_agent = i, nn_nonce = h_nonce h, nn_seen = db_now e\<rparr>]\<rparr>)"
      "load_agent (fault e 0) uuid_nil i s = Inr a" "VerifyRequest g (na_key a) h meth p body (go_now e) = None"
      "\<not> list_ex (\<lambda>n. nn_agent n = i \<and> nn_nonce n = h_nonce h) (nonce_rows s)"
    by auto
  have "\<bar>go_now e - sec * second\<bar> \<le> max_clock_skew" using VerifyRequest_NoneD [OF a(3)] sec by auto
  then show thesis using that [OF x n a(2)] a(1, 4) n x by simp
qed

interpretation requests: one_shot "timed_step g" "accepts g" request_spent in_time "\<lambda>st. agents_ok (fst st)" for g
proof
  show "agents_ok (fst (timed_step g x st))" if "agents_ok (fst st)" for x st
    using that by (simp add: timed_step_def agents_ok_step)
  show "\<not> request_spent st k" if ok: "agents_ok (fst st)" and time: "in_time x st" and acc: "accepts g x st k" for st x k
  proof -
    obtain s t i sec n where st: "st = (s, t)" and k: "k = (i, sec, n)" by (cases st; cases k) auto
    from acc [unfolded st k] obtain e h meth p body a where x: "x = OpAuthenticate e h meth p body" and "h_nonce h = n"
      and a: "load_agent (fault e 0) uuid_nil i s = Inr a" and skew: "\<bar>go_now e - sec * second\<bar> \<le> max_clock_skew"
      and fresh: "\<not> list_ex (\<lambda>r. nn_agent r = i \<and> nn_nonce r = n) (nonce_rows s)"
      and "agents_step g x s = s\<lparr>nonce_rows := nonce_rows s @ [\<lparr>nn_agent = i, nn_nonce = n, nn_seen = db_now e\<rparr>]\<rparr>"
      by (rule acceptsD)
    have "i \<notin> set (na_retired s)" using load_agent_InrD [OF a] ok by (auto simp: st agents_ok_def)
    moreover have "\<not> sec * second + max_clock_skew < t - max_drift" using skew time by (auto simp: in_time_def st x)
    ultimately show ?thesis using fresh by (auto simp: st k list_ex_iff)
  qed
  show "request_spent (timed_step g x st) k" if time: "in_time x st" and acc: "accepts g x st k" for st x k
  proof -
    obtain s t i sec n where st: "st = (s, t)" and k: "k = (i, sec, n)" by (cases st; cases k) auto
    from acc [unfolded st k] obtain e h meth p body a where x: "x = OpAuthenticate e h meth p body" and "h_nonce h = n"
      and "load_agent (fault e 0) uuid_nil i s = Inr a" and skew: "\<bar>go_now e - sec * second\<bar> \<le> max_clock_skew"
      and "\<not> list_ex (\<lambda>r. nn_agent r = i \<and> nn_nonce r = n) (nonce_rows s)"
      and s': "agents_step g x s = s\<lparr>nonce_rows := nonce_rows s @ [\<lparr>nn_agent = i, nn_nonce = n, nn_seen = db_now e\<rparr>]\<rparr>"
      by (rule acceptsD)
    have "sec * second + max_clock_skew \<le> db_now e + 2 * max_clock_skew + max_drift"
      using skew time by (auto simp: in_time_def st x)
    then show ?thesis by (simp add: timed_step_def st k s')
  qed
  show "request_spent (timed_step g x st) k" if time: "in_time x st" and spent: "request_spent st k" for st x k
  proof -
    obtain s t i sec n where st: "st = (s, t)" and k: "k = (i, sec, n)" by (cases st; cases k) auto
    let ?s = "agents_step g x s" and ?t = "db_now (op_env x)"
    from spent [unfolded st k request_spent.simps]
    consider "i \<in> set (na_retired s)" | "sec * second + max_clock_skew < t - max_drift"
      | r where "r \<in> set (nonce_rows s)" "nn_agent r = i" "nn_nonce r = n"
          "sec * second + max_clock_skew \<le> nn_seen r + 2 * max_clock_skew + max_drift" by blast
    then have "request_spent (?s, ?t) k"
    proof cases
      case 1
      then show ?thesis using retired_step by (simp add: k)
    next
      case 2
      then show ?thesis using time by (simp add: k in_time_def st)
    next
      case 3
      then show ?thesis using nonce_step [OF 3(1), of g x]
        by (auto simp: k max_drift_def max_clock_skew_def minute_def second_def)
    qed
    then show ?thesis by (simp add: timed_step_def st)
  qed
qed

text \<open>
  C33: a signed request (an agent, a timestamp and a nonce) is accepted at most once in any run in which the
  database's clock does not run backwards and the API's clock stays within four minutes of it: the
  ten-minute retention of nonces outlives every window in which the timestamp is fresh.
\<close>

theorem signed_request_accepted_once:
  assumes "agents_ok s" "all_good (timed_step g) in_time ops (s, t)"
  shows "claim_count (timed_step g) (accepts g) k ops (s, t) \<le> 1"
  using assms by (intro requests.claimed_once) simp_all

end
