(* ===== verification/Agent_Signatures.thy ===== *)
theory Agent_Signatures
  imports Agent_Protocol
begin

text \<open>
  What the signatures of internal/nodeagent/protocol give: round trips of signing and verifying, and
  authenticity of what verifies, up to a forged signature or a colliding digest.
\<close>

section \<open>Canonical text survives decoding\<close>

definition sorted_keys :: "(string \<times> 'a) list \<Rightarrow> bool" where
  "sorted_keys kvs \<longleftrightarrow> sorted_wrt (<) (map fst kvs)"

lemma set_put_member: "fst ` set (put_member k v kvs) = insert k (fst ` set kvs)"
proof (induction kvs)
  case (Cons kv r)
  then show ?case by (cases kv) (simp add: insert_commute)
qed simp

lemma sorted_put_member: "sorted_keys kvs \<Longrightarrow> sorted_keys (put_member k v kvs)"
proof (induction kvs)
  case (Cons kv r)
  obtain k' v' where kv: "kv = (k', v')" by (cases kv)
  have r: "sorted_keys r" and lt: "\<forall>x \<in> fst ` set r. k' < x" using Cons.prems by (auto simp: sorted_keys_def kv)
  have "sorted_keys (put_member k v r)" by (rule Cons.IH [OF r])
  moreover have "k' < k \<Longrightarrow> \<forall>x \<in> fst ` set (put_member k v r). k' < x" using lt by (simp add: set_put_member)
  ultimately show ?case using r lt
    by (auto simp: kv sorted_keys_def intro: less_trans)
qed (simp add: sorted_keys_def)

lemma sorted_fold_put: "sorted_keys acc \<Longrightarrow> sorted_keys (fold (\<lambda>(k, v). put_member k v) kvs acc)"
  by (induction kvs arbitrary: acc) (auto simp: sorted_put_member)

lemma sorted_as_map: "sorted_keys (as_map kvs)"
  unfolding as_map_def by (rule sorted_fold_put) (simp add: sorted_keys_def)

lemma put_member_last: "\<forall>x \<in> fst ` set kvs. x < k \<Longrightarrow> put_member k v kvs = kvs @ [(k, v)]"
  by (induction kvs) auto

lemma fold_put_sorted:
  "sorted_keys (acc @ kvs) \<Longrightarrow> fold (\<lambda>(k, v). put_member k v) kvs acc = acc @ kvs"
proof (induction kvs arbitrary: acc)
  case (Cons kv r)
  obtain k v where kv: "kv = (k, v)" by (cases kv)
  have "\<forall>x \<in> fst ` set acc. x < k" using Cons.prems by (auto simp: sorted_keys_def sorted_wrt_append kv)
  then have "put_member k v acc = acc @ [(k, v)]" by (rule put_member_last)
  then show ?case using Cons.IH [of "acc @ [(k, v)]"] Cons.prems by (simp add: kv)
qed simp

lemma as_map_sorted: "sorted_keys kvs \<Longrightarrow> as_map kvs = kvs"
  using fold_put_sorted [of "[]" kvs] by (simp add: as_map_def)

definition map_vals :: "('a \<Rightarrow> 'b) \<Rightarrow> (string \<times> 'a) list \<Rightarrow> (string \<times> 'b) list" where
  "map_vals f kvs = map (\<lambda>(k, v). (k, f v)) kvs"

lemma put_member_vals: "put_member k (f v) (map_vals f kvs) = map_vals f (put_member k v kvs)"
  by (induction kvs) (auto simp: map_vals_def)

lemma fold_put_vals:
  "fold (\<lambda>(k, v). put_member k v) (map_vals f kvs) (map_vals f acc) = map_vals f (fold (\<lambda>(k, v). put_member k v) kvs acc)"
proof (induction kvs arbitrary: acc)
  case (Cons kv r)
  obtain k v where kv: "kv = (k, v)" by (cases kv)
  have "fold (\<lambda>(k, v). put_member k v) (map_vals f (kv # r)) (map_vals f acc) =
      fold (\<lambda>(k, v). put_member k v) (map_vals f r) (put_member k (f v) (map_vals f acc))"
    by (simp add: kv map_vals_def)
  then show ?case using Cons.IH [of "put_member k v acc"] by (simp add: put_member_vals kv)
qed (simp add: map_vals_def)

lemma as_map_vals: "as_map (map_vals f kvs) = map_vals f (as_map kvs)"
  using fold_put_vals [of f kvs "[]"] by (simp add: as_map_def map_vals_def)

lemma as_map_idem: "as_map (as_map kvs) = as_map kvs"
  by (simp add: as_map_sorted sorted_as_map)

lemma decode_any_obj: "decode_any (JObj kvs) = JObj (as_map (map_vals decode_any kvs))"
  by (simp add: map_vals_def)

lemma decode_any_idem: "decode_any (decode_any v) = decode_any v"
proof (induction v)
  case (JArr xs)
  then show ?case by simp
next
  case (JObj kvs)
  have vals: "map_vals decode_any (map_vals decode_any kvs) = map_vals decode_any kvs"
    using JObj by (fastforce simp: map_vals_def)
  have "decode_any (JObj (as_map (map_vals decode_any kvs))) =
      JObj (as_map (as_map (map_vals decode_any (map_vals decode_any kvs))))"
    by (simp only: decode_any_obj as_map_vals)
  then show ?case by (simp only: vals as_map_idem decode_any_obj)
qed simp_all

lemma Canonical_canonical: "Canonical (Doc (decode_any v)) = Canonical (Doc v)"
  by (simp add: Canonical_def decode_any_idem)

section \<open>Signed commands\<close>

text \<open>
  a command the server signs verifies at the agent it is addressed to until it expires, unless the
  allowlist refuses its parameters.
\<close>

theorem signed_command_verifies:
  assumes "ed_correct g" "SignCommand g priv c = Inr c'" "unix now \<le> c_expires c"
  shows "VerifyCommand g (ed_public g priv) (c_agent c) c' now = ValidateParams g (c_op c) (c_params c)"
proof -
  obtain canon where canon: "Canonical (c_params c) = Some canon"
    and c': "c' = c\<lparr>c_signature := b64_encode (ed_sign g priv (commandMessage g c canon))\<rparr>"
    using assms(2) by (auto simp: SignCommand_def split: option.splits)
  have "commandMessage g c' canon = commandMessage g c canon" by (simp add: commandMessage_def c')
  then show ?thesis using assms(1, 3) by (simp add: VerifyCommand_def c' canon ed_correct_def)
qed

text \<open>
  Nothing is assumed about the strength of the primitives. What an attacker would need is named instead, for
  the very command that was accepted: \<open>forged\<close>, its own signature verifies for a message that is
  that of no command the server issued; \<open>same_digest\<close>, its parameters and those of an issued command are
  different texts with the same digest.
\<close>

definition clean_command :: "command \<Rightarrow> bool" where
  "clean_command c \<longleftrightarrow> newline \<notin> set (c_id c) \<and> newline \<notin> set (c_agent c) \<and>
     newline \<notin> set (c_request c) \<and> newline \<notin> set (c_op c)"

definition signed_messages :: "golib \<Rightarrow> command list \<Rightarrow> string list" where
  "signed_messages g issued =
     concat (map (\<lambda>d. case Canonical (c_params d) of None \<Rightarrow> [] | Some canon \<Rightarrow> [commandMessage g d canon]) issued)"

definition forged :: "golib \<Rightarrow> string \<Rightarrow> command list \<Rightarrow> command \<Rightarrow> bool" where
  "forged g pub issued c \<longleftrightarrow>
     (case (Canonical (c_params c), b64_decode (c_signature c)) of
        (Some canon, Some sig) \<Rightarrow>
          ed_verify g pub (commandMessage g c canon) sig \<and> commandMessage g c canon \<notin> set (signed_messages g issued)
      | _ \<Rightarrow> False)"

definition same_digest :: "golib \<Rightarrow> command \<Rightarrow> command \<Rightarrow> bool" where
  "same_digest g c d \<longleftrightarrow>
     (case (Canonical (c_params c), Canonical (c_params d)) of
        (Some x, Some y) \<Rightarrow> x \<noteq> y \<and> sha_hex g x = sha_hex g y
      | _ \<Rightarrow> False)"

lemma signed_messagesE:
  assumes "m \<in> set (signed_messages g issued)"
  obtains d canon where "d \<in> set issued" "Canonical (c_params d) = Some canon" "m = commandMessage g d canon"
  using assms by (auto simp: signed_messages_def split: option.splits intro: that [OF _ sym])

text \<open>
  C31: a command that the agent accepts is addressed to it and alive, passes the allowlist, and is, field by
  field and up to canonical JSON, one that the server issued: no field can be altered or shifted into
  another. The only other ways in are a forged Ed25519 signature on this very command, or parameters whose
  SHA-256 digest collides with that of the issued command with the same fields. The issued commands have no
  newline in their text fields.
\<close>

theorem accepted_command_was_issued:
  assumes "VerifyCommand g pub me c now = None" "list_all clean_command issued" "sha_is_hex g"
  shows "c_agent c = me \<and> unix now \<le> c_expires c \<and> ValidateParams g (c_op c) (c_params c) = None \<and>
    (forged g pub issued c \<or>
     (\<exists>d \<in> set issued. c_id c = c_id d \<and> c_agent c = c_agent d \<and> c_request c = c_request d \<and> c_op c = c_op d \<and>
        c_expires c = c_expires d \<and> (Canonical (c_params c) = Canonical (c_params d) \<or> same_digest g c d)))"
proof -
  obtain canon sig where c: "Canonical (c_params c) = Some canon" "b64_decode (c_signature c) = Some sig"
      "ed_verify g pub (commandMessage g c canon) sig"
    and fields: "c_agent c = me" "unix now \<le> c_expires c" "ValidateParams g (c_op c) (c_params c) = None"
    using VerifyCommand_NoneD [OF assms(1)] by blast
  show ?thesis
  proof (cases "commandMessage g c canon \<in> set (signed_messages g issued)")
    case False
    then have "forged g pub issued c" using c by (simp add: forged_def)
    then show ?thesis using fields by blast
  next
    case True
    then obtain d canon' where d: "d \<in> set issued" "Canonical (c_params d) = Some canon'"
      and m: "commandMessage g c canon = commandMessage g d canon'"
      by (rule signed_messagesE)
    have "clean_command d" using assms(2) d(1) by (simp add: list_all_iff)
    then have same: "c_id c = c_id d \<and> c_agent c = c_agent d \<and> c_request c = c_request d \<and> c_op c = c_op d \<and>
        c_expires c = c_expires d \<and> sha_hex g canon = sha_hex g canon'"
      unfolding clean_command_def by (elim conjE) (rule commandMessage_inj [OF m assms(3)])
    then have "Canonical (c_params c) = Canonical (c_params d) \<or> same_digest g c d"
      using c(1) d(2) by (auto simp: same_digest_def)
    then show ?thesis using same d(1) fields by blast
  qed
qed

section \<open>Signed requests\<close>

text \<open>
  a request signed by an agent verifies within a minute of its timestamp.
\<close>

theorem signed_request_verifies:
  assumes "ed_correct g" "agent \<noteq> []" "nonce_ok nonce" "int64_range (unix now)"
    and "\<bar>now' - unix now * second\<bar> \<le> max_clock_skew"
  shows "VerifyRequest g (ed_public g priv) (SignRequest g priv agent method p body now nonce) method p body now' = None"
proof -
  have "nonce \<noteq> []" using assms(3) by (auto simp: nonce_ok_def)
  moreover have "sprint_d i \<noteq> []" for i by (simp add: sprint_d_def)
  moreover have "b64_encode s \<noteq> []" if "s \<noteq> []" for s
    using that by (cases s rule: b64_encode.cases) simp_all
  moreover have "length (ed_sign g priv m) = signature_size \<and> ed_sign g priv m \<noteq> []" for m
    using assms(1) by (metis ed_correct_def list.size(3) signature_size_def zero_neq_numeral)
  ultimately show ?thesis
    using assms unfolding ed_correct_def abs_le_iff
    by (simp add: VerifyRequest_def SignRequest_def Let_def)
qed


text \<open>The requests an agent signs, and a signature that verifies for another message.\<close>

record request =
  rq_agent :: string
  rq_timestamp :: string
  rq_nonce :: string
  rq_method :: string
  rq_path :: string
  rq_body :: string

definition clean_request :: "request \<Rightarrow> bool" where
  "clean_request r \<longleftrightarrow> newline \<notin> set (rq_agent r) \<and> newline \<notin> set (rq_timestamp r) \<and> newline \<notin> set (rq_nonce r) \<and>
     newline \<notin> set (to_upper (rq_method r)) \<and> newline \<notin> set (rq_path r)"

definition signed_text :: "golib \<Rightarrow> request \<Rightarrow> string" where
  "signed_text g r = requestMessage (rq_agent r) (rq_timestamp r) (rq_nonce r) (rq_method r) (rq_path r) (sha_hex g (rq_body r))"

definition forged_request :: "golib \<Rightarrow> string \<Rightarrow> request list \<Rightarrow> string \<Rightarrow> request \<Rightarrow> bool" where
  "forged_request g pub signed signature r \<longleftrightarrow>
     (case b64_decode signature of
        None \<Rightarrow> False
      | Some sig \<Rightarrow> ed_verify g pub (signed_text g r) sig \<and> signed_text g r \<notin> signed_text g ` set signed)"

text \<open>
  an accepted request has the agent, timestamp, nonce, method, path and body of one that the agent
  signed, unless its signature is forged or its body has the digest of another one.
\<close>

theorem accepted_request_was_signed:
  assumes "VerifyRequest g pub h meth p body now = None" "list_all clean_request signed" "sha_is_hex g"
  shows "forged_request g pub signed (h_signature h)
      \<lparr>rq_agent = h_agent h, rq_timestamp = h_timestamp h, rq_nonce = h_nonce h, rq_method = meth, rq_path = p, rq_body = body\<rparr> \<or>
    (\<exists>r \<in> set signed. h_agent h = rq_agent r \<and> h_timestamp h = rq_timestamp r \<and> h_nonce h = rq_nonce r \<and>
       to_upper meth = to_upper (rq_method r) \<and> p = rq_path r \<and> sha_hex g body = sha_hex g (rq_body r))"
proof -
  let ?m = "requestMessage (h_agent h) (h_timestamp h) (h_nonce h) meth p (sha_hex g body)"
  obtain sig where sig: "b64_decode (h_signature h) = Some sig" "ed_verify g pub ?m sig"
    using VerifyRequest_NoneD [OF assms(1)] by blast
  show ?thesis
  proof (cases "?m \<in> signed_text g ` set signed")
    case False
    then show ?thesis using sig by (simp add: forged_request_def signed_text_def)
  next
    case True
    then obtain r where r: "r \<in> set signed"
      and m: "?m = requestMessage (rq_agent r) (rq_timestamp r) (rq_nonce r) (rq_method r) (rq_path r) (sha_hex g (rq_body r))"
      by (auto simp: signed_text_def)
    have clean: "clean_request r" using assms(2) r by (simp add: list_all_iff)
    have hash: "newline \<notin> set (sha_hex g (rq_body r))" using assms(3) by (simp add: sha_is_hex_def hex_no_newline)
    have "h_agent h = rq_agent r \<and> h_timestamp h = rq_timestamp r \<and> h_nonce h = rq_nonce r \<and>
        to_upper meth = to_upper (rq_method r) \<and> p = rq_path r \<and> sha_hex g body = sha_hex g (rq_body r)"
      using clean hash unfolding clean_request_def by (elim conjE) (rule requestMessage_inj [OF m])
    then show ?thesis using r by blast
  qed
qed

section \<open>Instances\<close>

lemma hex_digit_hex: "n < 16 \<Longrightarrow> is_hex_lower (hex_digit n)"
  by (auto simp: hex_digit_def is_hex_lower_def is_digit_def code_def)

lemma demo_sha_hex: "sha_is_hex demo_golib"
  by (auto simp: sha_is_hex_def demo_golib_def demo_sha_def list_all_iff
      intro!: hex_digit_hex simp: less_mult_imp_div_less)

lemma demo_ed_correct: "ed_correct demo_golib"
  by (auto simp: ed_correct_def demo_golib_def demo_sign_def signature_size_def min_def)

definition demo_issued :: command where
  "demo_issued = \<lparr>c_id = ''1'', c_agent = ''7'', c_request = ''r'', c_op = ''metrics.collect'',
     c_params = Doc (JObj []), c_expires = 100, c_signature = []\<rparr>"

definition demo_signed :: command where
  "demo_signed = demo_issued\<lparr>c_signature := b64_encode (ed_sign demo_golib ''k'' (commandMessage demo_golib demo_issued ''{}''))\<rparr>"

definition demo_request :: request where
  "demo_request = \<lparr>rq_agent = ''7'', rq_timestamp = ''0'', rq_nonce = ''0123456789abcdef'', rq_method = ''POST'',
     rq_path = ''/agent/v1/poll'', rq_body = ''{}''\<rparr>"

lemma demo_signed_verifies: "VerifyCommand demo_golib ''k'' ''7'' demo_signed 0 = None"
  by code_simp

definition demo_headers :: signed_headers where
  "demo_headers = SignRequest demo_golib ''k'' ''7'' ''post'' ''/agent/v1/poll'' ''{}'' 0 ''0123456789abcdef''"

lemma b64_encode_Nil_iff: "b64_encode s = [] \<longleftrightarrow> s = []"
  by (cases s rule: b64_encode.cases) simp_all

lemma demo_headers_verify: "VerifyRequest demo_golib ''k'' demo_headers ''post'' ''/agent/v1/poll'' ''{}'' 0 = None"
  by code_simp

theorem signed_command_verifies_witness:
  "\<exists>c'. SignCommand demo_golib ''k'' demo_issued = Inr c' \<and> VerifyCommand demo_golib ''k'' ''7'' c' 0 = None"
proof -
  have s: "SignCommand demo_golib ''k'' demo_issued =
      Inr (demo_issued\<lparr>c_signature := b64_encode (ed_sign demo_golib ''k'' (commandMessage demo_golib demo_issued ''{}''))\<rparr>)"
    by (simp add: SignCommand_def demo_issued_def Canonical_def as_map_def)
  have "unix 0 \<le> c_expires demo_issued" by (simp add: unix_def demo_issued_def)
  from signed_command_verifies [OF demo_ed_correct s this]
  have "VerifyCommand demo_golib ''k'' ''7''
      (demo_issued\<lparr>c_signature := b64_encode (ed_sign demo_golib ''k'' (commandMessage demo_golib demo_issued ''{}''))\<rparr>) 0 =
      ValidateParams demo_golib ''metrics.collect'' (Doc (JObj []))"
    by (simp add: demo_golib_def demo_issued_def)
  moreover have "ValidateParams demo_golib ''metrics.collect'' (Doc (JObj [])) = None" by code_simp
  ultimately show ?thesis using s by auto
qed

theorem accepted_command_was_issued_witness:
  "VerifyCommand demo_golib ''k'' ''7'' demo_signed 0 = None \<and> \<not> forged demo_golib ''k'' [demo_issued] demo_signed \<and>
   c_id demo_signed = c_id demo_issued \<and> c_expires demo_signed = c_expires demo_issued"
proof -
  have clean: "list_all clean_command [demo_issued]" by code_simp
  have honest: "\<not> forged demo_golib ''k'' [demo_issued] demo_signed" by code_simp
  from accepted_command_was_issued [OF demo_signed_verifies clean demo_sha_hex] honest
  have "c_id demo_signed = c_id demo_issued \<and> c_expires demo_signed = c_expires demo_issued" by simp
  then show ?thesis using honest demo_signed_verifies by blast
qed

theorem accepted_request_was_signed_witness:
  "\<exists>r \<in> set [demo_request]. h_nonce demo_headers = rq_nonce r \<and> sha_hex demo_golib ''{}'' = sha_hex demo_golib (rq_body r)"
proof -
  have clean: "list_all clean_request [demo_request]" by code_simp
  have "\<not> forged_request demo_golib ''k'' [demo_request] (h_signature demo_headers)
      \<lparr>rq_agent = h_agent demo_headers, rq_timestamp = h_timestamp demo_headers, rq_nonce = h_nonce demo_headers,
        rq_method = ''post'', rq_path = ''/agent/v1/poll'', rq_body = ''{}''\<rparr>"
    by code_simp
  then show ?thesis
    using accepted_request_was_signed [OF demo_headers_verify clean demo_sha_hex] by blast
qed

theorem signed_request_verifies_witness:
  "VerifyRequest demo_golib (ed_public demo_golib ''k'')
     (SignRequest demo_golib ''k'' ''7'' ''POST'' ''/agent/v1/poll'' ''{}'' 0 ''0123456789abcdef'')
     ''POST'' ''/agent/v1/poll'' ''{}'' (30 * second) = None"
proof (rule signed_request_verifies [OF demo_ed_correct])
  show "nonce_ok ''0123456789abcdef''" by code_simp
  show "int64_range (unix 0)" by (simp add: unix_def int64_range_def)
qed (simp_all add: unix_def max_clock_skew_def second_def)

end
