(* ===== verification/Agent_Effects.thy ===== *)
theory Agent_Effects
  imports Agent_Safety Agent_Signatures
begin

text \<open>
  Effects of single operations of the node agent service: revocation, the heartbeat, scrubbing of
  secrets, and the path of a command from the queue to its verification.
\<close>

section \<open>Revocation\<close>

definition locked_out :: "agents_db \<Rightarrow> uuid \<Rightarrow> bool" where
  "locked_out s i \<longleftrightarrow> i \<in> set (na_retired s) \<or> (\<exists>a \<in> set (agent_rows s). na_id a = i \<and> na_status a = AgRevoked)"

fun beats :: "uuid \<Rightarrow> agents_op \<Rightarrow> bool" where
  "beats i (OpHeartbeat e a hb) = (na_id a = i)"
| "beats i _ = False"

lemma update_keeps_row: "a \<in> set tbl \<Longrightarrow> \<not> p a \<Longrightarrow> a \<in> set (update_where p f tbl)"
  unfolding set_update_where by (rule image_eqI [of _ _ a]) auto

lemma locked_out_sweep: "locked_out s i \<Longrightarrow> locked_out (snd (sweep_agents e s)) i"
proof -
  have "\<exists>a \<in> set (update_where (silent c) f (agent_rows s)). na_id a = i \<and> na_status a = AgRevoked"
    if "\<exists>a \<in> set (agent_rows s). na_id a = i \<and> na_status a = AgRevoked" for c f
    using that update_keeps_row [of _ "agent_rows s" "silent c" f] by (fastforce simp: silent_def)
  moreover assume "locked_out s i"
  ultimately show ?thesis unfolding locked_out_def by (auto simp: sweep_agents_def Let_def)
qed

lemma locked_out_revoke: "locked_out s i \<Longrightarrow> locked_out (snd (revoke_agent e ac j s)) i"
proof -
  let ?p = "\<lambda>a. na_id a = j \<and> na_org a = org_id ac \<and> na_status a \<noteq> AgRevoked"
  have "\<exists>a \<in> set (update_where ?p f (agent_rows s)). na_id a = i \<and> na_status a = AgRevoked"
    if "\<exists>a \<in> set (agent_rows s). na_id a = i \<and> na_status a = AgRevoked" for f
    using that update_keeps_row [of _ "agent_rows s" ?p f] by fastforce
  moreover assume "locked_out s i"
  ultimately show ?thesis unfolding locked_out_def
    by (auto simp: revoke_agent_def Let_def simp del: Require_None split: option.split)
qed

lemma locked_out_drop: "locked_out s i \<Longrightarrow> locked_out (drop_agents_of node s) i"
proof -
  assume "locked_out s i"
  then consider "i \<in> set (na_retired s)"
    | a where "a \<in> set (agent_rows s)" "na_id a = i" "na_status a = AgRevoked" by (auto simp: locked_out_def)
  then show ?thesis
  proof cases
    case 2
    then show ?thesis
      by (cases "na_node a = node") (auto simp: locked_out_def drop_agents_sel)
  qed (simp add: locked_out_def drop_agents_sel)
qed

lemma locked_out_enroll: "locked_out s i \<Longrightarrow> locked_out (snd (enroll g e key req s)) i"
  using enrols_agent_enroll [of g e key req s]
proof
  assume "locked_out s i" "\<exists>s1. enrols_agent s s1 (snd (enroll g e key req s))"
  then obtain s1 where s1: "enrols_agent s s1 (snd (enroll g e key req s))" by blast
  have "locked_out s1 i" using \<open>locked_out s i\<close> s1 locked_out_drop by (auto simp: enrols_agent_def)
  then show ?thesis using s1 by (auto simp: enrols_agent_def locked_out_def)
qed simp

lemma locked_out_heartbeat:
  assumes "locked_out s i" "na_id a \<noteq> i"
  shows "locked_out (snd (heartbeat_agent e a hb s)) i"
proof -
  from heartbeat_outcome [of s e a hb] obtain f
    where r: "agent_rows (snd (heartbeat_agent e a hb s)) = update_where (\<lambda>r. na_id r = na_id a) f (agent_rows s)"
      and n: "na_retired (snd (heartbeat_agent e a hb s)) = na_retired s" by blast
  show ?thesis using assms update_keeps_row [of _ "agent_rows s" "\<lambda>r. na_id r = na_id a" f]
    unfolding locked_out_def r n by fastforce
qed

lemma locked_out_step: "locked_out s i \<Longrightarrow> \<not> beats i x \<Longrightarrow> locked_out (agents_step g x s) i"
proof (cases x)
  case (OpAuthenticate e h meth p body)
  assume "locked_out s i"
  then show ?thesis using OpAuthenticate authenticate_outcome [of g e h meth p body s]
    by (elim disjE exE conjE) (simp_all add: locked_out_def)
next
  case (OpRegister e token ac node)
  assume "locked_out s i"
  then show ?thesis using OpRegister create_registration_outcome [of s g e token ac node]
    by (simp add: locked_out_def same_agents_def)
qed (use locked_out_sweep locked_out_revoke locked_out_enroll locked_out_heartbeat in \<open>simp_all add: locked_out_def\<close>)

lemma locked_out_run:
  "locked_out s i \<Longrightarrow> \<not> list_ex (beats i) ops \<Longrightarrow> locked_out (run_ops (agents_step g) ops s) i"
  by (induction ops arbitrary: s) (auto simp: locked_out_step)

lemma agents_ok_run: "agents_ok s \<Longrightarrow> agents_ok (run_ops (agents_step g) ops s)"
  by (rule run_ops_invariant) (simp_all add: agents_ok_step)

lemma locked_out_refused:
  assumes "locked_out s i" "agents_ok s" "uuid_parse g (h_agent h) = Some i"
  shows "\<exists>x. authenticate g e h meth p body s = (Inl x, s)"
  using authenticate_outcome [of g e h meth p body s]
proof
  assume "\<exists>i a. authenticate g e h meth p body s =
        (Inr a, s\<lparr>nonce_rows := nonce_rows s @ [\<lparr>nn_agent = i, nn_nonce = h_nonce h, nn_seen = db_now e\<rparr>]\<rparr>) \<and>
      uuid_parse g (h_agent h) = Some i \<and> load_agent (fault e 0) uuid_nil i s = Inr a \<and> na_status a \<noteq> AgRevoked \<and>
      VerifyRequest g (na_key a) h meth p body (go_now e) = None \<and>
      \<not> list_ex (\<lambda>n. nn_agent n = i \<and> nn_nonce n = h_nonce h) (nonce_rows s)"
  then obtain a where a: "load_agent (fault e 0) uuid_nil i s = Inr a" "na_status a \<noteq> AgRevoked" using assms(3) by auto
  then have "a \<in> set (agent_rows s)" "na_id a = i" using load_agent_InrD [OF a(1)] by simp_all
  moreover from this have "i \<notin> set (na_retired s)" using assms(2) by (auto simp: agents_ok_def)
  ultimately obtain b where "b \<in> set (agent_rows s)" "na_id b = na_id a" "na_status b = AgRevoked"
    using assms(1) by (auto simp: locked_out_def)
  moreover have "pk na_id (agent_rows s)" using assms(2) by (simp add: agents_ok_def)
  ultimately have "b = a" using \<open>a \<in> set (agent_rows s)\<close> pk_unique by metis
  then show ?thesis using \<open>na_status b = AgRevoked\<close> a(2) by simp
qed

text \<open>
  after a successful revocation no operation of the service lets the agent authenticate again, as long
  as no heartbeat of that agent, authenticated before the revocation, is still to run.
\<close>

theorem revocation_locks_out:
  assumes "agents_ok s" "fst (revoke_agent e ac i s) = Inr ()" "\<not> list_ex (beats i) ops" "uuid_parse g (h_agent h) = Some i"
  shows "\<exists>x. fst (authenticate g e' h meth p body (run_ops (agents_step g) ops (snd (revoke_agent e ac i s)))) = Inl x"
proof -
  let ?s = "snd (revoke_agent e ac i s)"
  let ?p = "\<lambda>a. na_id a = i \<and> na_org a = org_id ac \<and> na_status a \<noteq> AgRevoked"
  from assms(2) have hit: "list_ex ?p (agent_rows s)"
    and rows: "agent_rows ?s = update_where ?p (\<lambda>a. a\<lparr>na_status := AgRevoked, na_revoked := Some (db_now e)\<rparr>) (agent_rows s)"
    by (auto simp: revoke_agent_def Let_def simp del: Require_None split: option.splits if_splits)
  from hit obtain a where a: "a \<in> set (agent_rows s)" "?p a" by (auto simp: list_ex_iff)
  then have "a\<lparr>na_status := AgRevoked, na_revoked := Some (db_now e)\<rparr> \<in> set (agent_rows ?s)"
    unfolding rows set_update_where by (intro image_eqI [of _ _ a]) simp_all
  then have "locked_out ?s i" using a(2) by (fastforce simp: locked_out_def)
  moreover have "agents_ok ?s" using agents_ok_step [OF assms(1), of g "OpRevoke e ac i"] by simp
  ultimately show ?thesis
    using locked_out_refused [OF locked_out_run [OF _ assms(3)] agents_ok_run assms(4)] by (metis fst_conv)
qed

text \<open>The heartbeat itself does not look at the agent's status.\<close>

text \<open>
  a heartbeat that was authenticated before a revocation and runs after it makes the agent's status
  online or degraded again (the row keeps its revocation time), because the UPDATE does not look at the status.
\<close>

theorem heartbeat_revives_revoked_agent:
  assumes "r \<in> set (agent_rows s)" "na_id r = na_id a" "na_status r = AgRevoked"
    and "int (length (json_text (hb_json hb))) \<le> 16 * 2 ^ 10" "\<not> fault e 0"
  shows "\<exists>r' \<in> set (agent_rows (snd (heartbeat_agent e a hb s))).
    na_id r' = na_id r \<and> na_status r' \<in> {AgOnline, AgDegraded} \<and> na_revoked r' = na_revoked r"
proof -
  let ?f = "\<lambda>r. r\<lparr>na_status := (if hb_status hb = ''degraded'' then AgDegraded else AgOnline),
                 na_version := truncate_text (hb_version hb) 64, na_caps := hb_caps hb,
                 na_seen := Some (db_now e), na_heartbeat := hb_json hb\<rparr>"
  have "agent_rows (snd (heartbeat_agent e a hb s)) = update_where (\<lambda>r. na_id r = na_id a) ?f (agent_rows s)"
    using assms(4, 5) by (simp add: heartbeat_agent_def Let_def)
  moreover have "?f r \<in> set (update_where (\<lambda>r. na_id r = na_id a) ?f (agent_rows s))"
    unfolding set_update_where using assms(1, 2) by (intro image_eqI [of _ _ r]) simp_all
  ultimately show ?thesis by (intro bexI [of _ "?f r"]) simp_all
qed

section \<open>Secrets\<close>

lemma scrub_finished_redacts:
  assumes "c \<in> set (scrub_finished tbl)" "nc_op c \<in> set secret_param_ops" "nc_status c \<in> {CmSucceeded, CmFailed, CmExpired}"
  shows "nc_params c = redacted_params"
proof (rule ccontr)
  assume nr: "nc_params c \<noteq> redacted_params"
  let ?p = "\<lambda>c. nc_op c \<in> set secret_param_ops \<and> nc_status c \<in> {CmSucceeded, CmFailed, CmExpired} \<and> nc_params c \<noteq> redacted_params"
  from assms(1) obtain d where "d \<in> set tbl" "c = (if ?p d then d\<lparr>nc_params := redacted_params\<rparr> else d)"
    unfolding scrub_finished_def set_update_where by blast
  then show False using assms(2, 3) nr by (auto split: if_splits)
qed

text \<open>
  after a sweep that goes through, no finished command of an operation that carries credentials still
  has its parameters.
\<close>

theorem finished_secrets_are_scrubbed:
  assumes "sweep_agents e s = (True, s')" "c \<in> set (command_rows s')"
    and "nc_op c \<in> set secret_param_ops" "nc_status c \<in> {CmSucceeded, CmFailed, CmExpired}"
  shows "nc_params c = redacted_params"
proof -
  have "command_rows s' = scrub_finished (expire_commands (db_now e) (command_rows s))"
    using assms(1) by (auto simp: sweep_agents_def Let_def split: if_splits)
  then show ?thesis using scrub_finished_redacts assms(2-4) by metis
qed


section \<open>From the queue to the agent\<close>

lemma str_decode_any: "str (as_map (map_vals decode_any kvs)) = str kvs"
proof
  fix k
  have m: "json_member (as_map (map_vals decode_any kvs)) k = map_option decode_any (json_member kvs k)"
    unfolding json_member_def [of "as_map (map_vals decode_any kvs)"]
    by (metis as_map_idem json_member_def json_member_map_snd map_of_as_map map_vals_def)
  show "str (as_map (map_vals decode_any kvs)) k = str kvs k"
  proof (cases "json_member kvs k")
    case (Some v)
    then show ?thesis by (cases v) (simp_all add: str_def m)
  qed (simp add: str_def m)
qed

lemma validators_read_strings:
  "str p = str q \<Longrightarrow> list_all (\<lambda>(_, v). v p = v q) (Allowed g)"
  by (simp add: Allowed_def validDockerCreate_def needMutableName_def needName_def validDBEnsure_def validDBDrop_def
      needDBName_def validDBFile_def needPath_def validFSWrite_def validHealth_def)

lemma ValidateParams_decode:
  "ValidateParams g opn (Doc (decode_any (JObj kvs))) = ValidateParams g opn (Doc (JObj kvs))"
proof (cases "map_of (Allowed g) opn")
  case (Some v)
  have "v (as_map (map_vals decode_any kvs)) = v kvs"
    using map_of_SomeD [OF Some] validators_read_strings [OF str_decode_any [of kvs], of g] by (auto simp: list_all_iff)
  then show ?thesis unfolding decode_any_obj ValidateParams_def Some option.case raw_json.case json.case .
qed (simp add: ValidateParams_def)

lemma ValidateParams_Doc:
  assumes "ValidateParams g opn (Doc v) = None" "decode_any w = decode_any v" "v \<noteq> JNull"
  shows "ValidateParams g opn (Doc w) = None"
proof -
  obtain d where d: "map_of (Allowed g) opn = Some d" using ValidateParams_NoneD [OF assms(1)] by blast
  obtain kvs where v: "v = JObj kvs" using assms(1, 3) d by (cases v) (simp_all add: ValidateParams_def)
  obtain kws where w: "w = JObj kws" using assms(2) v by (cases w) simp_all
  have "ValidateParams g opn (Doc (JObj kws)) = ValidateParams g opn (Doc (decode_any (JObj kws)))"
    by (rule ValidateParams_decode [symmetric])
  also have "\<dots> = ValidateParams g opn (Doc (decode_any (JObj kvs)))" using assms(2) v w by simp
  also have "\<dots> = None" using assms(1) v by (simp only: ValidateParams_decode)
  finally show ?thesis by (simp only: w)
qed

lemma wire_command_verifies:
  assumes "ed_correct g" "ValidateParams g opn (Doc v) = None" "v \<noteq> JNull"
    and "decode_any (jsonb g (decode_any v)) = decode_any v" "unix now \<le> unix (go_now e + command_ttl)"
  shows "VerifyCommand g (ed_public g key) (uuid_text g agent)
    (wire_command g (signed_row g e key org agent opn v job rid)) now = None"
proof -
  let ?w = "wire_command g (signed_row g e key org agent opn v job rid)"
  have sel: "c_agent ?w = uuid_text g agent" "c_params ?w = Doc (jsonb g (decode_any v))" "c_op ?w = opn"
    "c_expires ?w = unix (go_now e + command_ttl)"
    by (simp_all add: wire_command_def signed_row_def Let_def)
  have "c_signature ?w = b64_encode (ed_sign g key (commandMessage g ?w (json_text (decode_any v))))"
    by (simp add: wire_command_def signed_row_def Let_def commandMessage_def)
  moreover have "Canonical (c_params ?w) = Some (json_text (decode_any v))"
    by (simp add: sel Canonical_def assms(4))
  ultimately show ?thesis
    using assms(1, 5) ValidateParams_Doc [OF assms(2, 4, 3)] by (simp add: VerifyCommand_def sel ed_correct_def)
qed

text \<open>A command that \<open>EnqueueAs\<close> accepts.\<close>

lemma enqueue_as_InrD:
  assumes "fst (enqueue_as g e key ac agent opn params fresh s) = Inr q"
  obtains v a rid where "authorised ac perm_manage" "ValidateParams g opn (Doc v) = None" "v \<noteq> JNull" "v = asked_params params"
    "load_agent (fault e 0) (org_id ac) agent s = Inr a" "na_status a \<noteq> AgRevoked" "qc_id q = new_id e"
    "command_rows (snd (enqueue_as g e key ac agent opn params fresh s)) =
       command_rows s @ [signed_row g e key (org_id ac) agent opn v None rid]"
proof -
  from assms have auth: "Require ac perm_manage = None"
    by (cases "Require ac perm_manage") (simp_all add: enqueue_as_def del: Require_None)
  let ?q = "enqueue_command g e key (org_id ac) agent opn params None (correlation_id ac) fresh s"
  from assms have ok: "fst ?q = Inr q" by (auto simp: enqueue_as_def auth simp del: Require_None split: prod.splits sum.splits)
  have s': "command_rows (snd (enqueue_as g e key ac agent opn params fresh s)) = command_rows (snd ?q)"
    by (auto simp: enqueue_as_def auth simp del: Require_None split: prod.splits sum.splits)
  from enqueue_command_outcome [of g e key "org_id ac" agent opn params None "correlation_id ac" fresh s] ok
  obtain v a rid where q: "?q = (Inr q, s\<lparr>command_rows := command_rows s @ [signed_row g e key (org_id ac) agent opn v None rid]\<rparr>)"
    and "qc_id q = new_id e" "ValidateParams g opn (Doc v) = None" "v \<noteq> JNull" "v = asked_params params"
    and "load_agent (fault e 0) (org_id ac) agent s = Inr a" "na_status a \<noteq> AgRevoked"
    by auto
  then show thesis using that [of v a rid] auth s' by simp
qed

text \<open>
  What PostgreSQL documents of \<open>jsonb\<close>: a value read back is the value stored, with the text of a number
  kept unless it is written with an exponent (or is a negative zero).
\<close>

definition plain_number :: "string \<Rightarrow> bool" where
  "plain_number t \<longleftrightarrow> CHR ''e'' \<notin> set t \<and> CHR ''E'' \<notin> set t \<and>
     (\<not> has_prefix ''-'' t \<or> list_ex (\<lambda>c. is_digit c \<and> c \<noteq> CHR ''0'') t)"

fun plain_json :: "json \<Rightarrow> bool" where
  "plain_json (JNum t) = plain_number t"
| "plain_json (JArr xs) = list_all plain_json xs"
| "plain_json (JObj kvs) = list_all (\<lambda>(_, v). plain_json v) kvs"
| "plain_json _ = True"

definition jsonb_documented :: "golib \<Rightarrow> bool" where
  "jsonb_documented g \<longleftrightarrow> (\<forall>v. plain_json v \<longrightarrow> decode_any (jsonb g v) = decode_any v)"

definition waiting :: "time \<Rightarrow> uuid \<Rightarrow> agents_db \<Rightarrow> command_row list" where
  "waiting now agent s = filter (\<lambda>c. nc_agent c = agent \<and> nc_status c = CmPending \<and> now < nc_expires c) (command_rows s)"

lemma poll_candidates_waiting: "poll_candidates now agent s = map nc_id (take 10 (sort_key nc_created (waiting now agent s)))"
  by (simp add: poll_candidates_def waiting_def)

lemma poll_hands_out_all:
  assumes "fst (poll g e a s) = Inr cs" "length (waiting (db_now e) (na_id a) s) \<le> 10"
    and "r \<in> set (waiting (db_now e) (na_id a) s)"
  shows "wire_command g r \<in> set cs"
proof -
  let ?p = "\<lambda>r. nc_id r \<in> set (poll_candidates (db_now e) (na_id a) s)"
  let ?f = "\<lambda>r. r\<lparr>nc_status := CmDelivered, nc_delivered := Some (db_now e)\<rparr>"
  have cs: "cs = map (wire_command g) (hit_rows ?p ?f (command_rows s))"
    using assms(1) poll_outcome [of g e a s] by auto
  have "take 10 (sort_key nc_created (waiting (db_now e) (na_id a) s)) = sort_key nc_created (waiting (db_now e) (na_id a) s)"
    using assms(2) by (intro take_all) (simp only: length_sort)
  then have "set (poll_candidates (db_now e) (na_id a) s) = nc_id ` set (waiting (db_now e) (na_id a) s)"
    by (simp add: poll_candidates_waiting)
  then have "?p r" using assms(3) by blast
  moreover have "r \<in> set (command_rows s)" using assms(3) by (simp add: waiting_def)
  ultimately have "?f r \<in> set (hit_rows ?p ?f (command_rows s))" unfolding hit_rows_def set_map set_filter by blast
  moreover have "wire_command g (?f r) = wire_command g r" by (simp add: wire_command_def)
  ultimately show ?thesis unfolding cs by (metis image_eqI set_map)
qed


text \<open>
  \<open>EnqueueAs\<close> succeeds only for a caller with the manage permission, an allowlisted operation, and an
  agent of the caller's organization that is not revoked.
\<close>

theorem enqueue_as_needs_own_agent:
  assumes "fst (enqueue_as g e key ac agent opn params fresh s) = Inr q"
  shows "authorised ac perm_manage \<and> map_of (Allowed g) opn \<noteq> None \<and>
    (\<exists>a \<in> set (agent_rows s). na_id a = agent \<and> (org_id ac \<noteq> uuid_nil \<longrightarrow> na_org a = org_id ac) \<and> na_status a \<noteq> AgRevoked)"
proof -
  from assms obtain v a rid where v: "authorised ac perm_manage" "ValidateParams g opn (Doc v) = None" "v \<noteq> JNull" "v = asked_params params"
    and a: "load_agent (fault e 0) (org_id ac) agent s = Inr a" "na_status a \<noteq> AgRevoked" and "qc_id q = new_id e"
    and "command_rows (snd (enqueue_as g e key ac agent opn params fresh s)) =
       command_rows s @ [signed_row g e key (org_id ac) agent opn v None rid]"
    by (rule enqueue_as_InrD)
  then show ?thesis using load_agent_InrD [OF a(1)] ValidateParams_NoneD by blast
qed

end
