(* ===== verification/Agent_Examples.thy ===== *)
theory Agent_Examples
  imports Agent_Runtime Agent_Effects
begin

text \<open>
  Instances of the node agent's theorems on a small database and a running agent.
\<close>

section \<open>A small database\<close>

definition demo_org :: uuid where "demo_org = 1"

definition demo_agent :: agent_row where
  "demo_agent = \<lparr>na_id = 7, na_org = 1, na_node = 3, na_status = AgOnline, na_version = [], na_caps = [],
     na_key = ''k'', na_seen = None, na_heartbeat = JNull, na_registered = 0, na_revoked = None\<rparr>"

definition demo_secret_row :: "command_status \<Rightarrow> command_row" where
  "demo_secret_row st = \<lparr>nc_id = 5, nc_org = 1, nc_agent = 7, nc_request = ''r'', nc_job = None, nc_op = ''docker.create'',
     nc_params = JObj [], nc_status = st, nc_result = None, nc_error = None, nc_signature = [], nc_created = 0,
     nc_expires = 100, nc_delivered = None, nc_completed = None\<rparr>"

definition demo_registration :: registration where
  "demo_registration = \<lparr>en_org = 1, en_node = 4, en_hash = demo_sha ''t'', en_expires = 100, en_used = None, en_creator = None\<rparr>"

definition demo_db :: "command_status \<Rightarrow> agents_db" where
  "demo_db st = \<lparr>registrations = [demo_registration],
     node_rows = [\<lparr>nd_id = 3, nd_org = 1, nd_hostname = ''h'', nd_status = ''online'', nd_seen = None, nd_updated = 0\<rparr>],
     agent_rows = [demo_agent], nonce_rows = [], command_rows = [demo_secret_row st], metric_rows = [],
     agents_audit = [], na_retired = [], nc_retired = []\<rparr>"

definition demo_admin :: auth_context where
  "demo_admin = \<lparr>actor_type = ActorSystem, actor_id = 0, actor_label = [], org_id = 1, permissions = {},
     session_id = 0, correlation_id = []\<rparr>"

lemma demo_commands_ok: "commands_ok (demo_db st)"
  by (simp add: commands_ok_def demo_db_def pk_def)

lemma demo_tokens_ok: "tokens_ok (demo_db st)"
  by (simp add: tokens_ok_def demo_db_def pk_def)

lemma demo_agents_ok: "agents_ok (demo_db st)"
  by (simp add: agents_ok_def demo_db_def pk_def)

lemma demo_uuid_inj: "inj (uuid_text demo_golib)"
  by (simp add: demo_golib_def inj_def itoa_inj)

theorem command_handed_out_once_witness:
  "hands_out demo_golib (OpPoll (calm 1 0) demo_agent) (demo_db CmPending) ''5'' \<and>
   claim_count (agents_step demo_golib) (hands_out demo_golib) ''5''
     [OpPoll (calm 1 0) demo_agent, OpPoll (calm 2 0) demo_agent] (demo_db CmPending) \<le> 1"
proof
  show "hands_out demo_golib (OpPoll (calm 1 0) demo_agent) (demo_db CmPending) ''5''" by code_simp
qed (rule command_handed_out_once [OF demo_commands_ok demo_uuid_inj])

definition demo_enroll :: enroll_request where
  "demo_enroll = \<lparr>er_token = ''t'', er_public_key = b64_encode (replicate 32 (CHR ''p'')), er_version = [], er_caps = []\<rparr>"

theorem enrolment_token_used_once_witness:
  "enrols demo_golib (OpEnroll (calm 1 8) [] demo_enroll) (demo_db CmPending) (demo_sha ''t'') \<and>
   claim_count (agents_step demo_golib) (enrols demo_golib) (demo_sha ''t'')
     [OpEnroll (calm 1 8) [] demo_enroll, OpEnroll (calm 2 9) [] demo_enroll] (demo_db CmPending) \<le> 1"
proof
  show "enrols demo_golib (OpEnroll (calm 1 8) [] demo_enroll) (demo_db CmPending) (demo_sha ''t'')" by (simp add: enrols_def enroll_def enroll_tx_def demo_enroll_def demo_db_def demo_registration_def demo_agent_def
        token_usable_def hash_token_def demo_golib_def Let_def public_key_size_def)
qed (rule enrolment_token_used_once [OF demo_tokens_ok])

definition demo_auth :: "time \<Rightarrow> agents_op" where
  "demo_auth t = OpAuthenticate (calm t 0)
     (SignRequest demo_golib ''k'' ''7'' ''POST'' ''/agent/v1/poll'' [] 0 ''0123456789abcdef'') ''POST'' ''/agent/v1/poll'' []"

theorem signed_request_accepted_once_witness:
  "accepts demo_golib (demo_auth 1) (demo_db CmPending, 0) (7, 0, ''0123456789abcdef'') \<and>
   claim_count (timed_step demo_golib) (accepts demo_golib) (7, 0, ''0123456789abcdef'')
     [demo_auth 1, demo_auth 2] (demo_db CmPending, 0) \<le> 1"
proof
  show "accepts demo_golib (demo_auth 1) (demo_db CmPending, 0) (7, 0, ''0123456789abcdef'')" by code_simp
  have "all_good (timed_step demo_golib) in_time [demo_auth 1, demo_auth 2] (demo_db CmPending, 0)"
    by (simp add: demo_auth_def in_time_def timed_step_def max_drift_def minute_def second_def)
  then show "claim_count (timed_step demo_golib) (accepts demo_golib) (7, 0, ''0123456789abcdef'')
     [demo_auth 1, demo_auth 2] (demo_db CmPending, 0) \<le> 1"
    by (rule signed_request_accepted_once [OF demo_agents_ok])
qed

lemma demo_revoke: "fst (revoke_agent (calm 1 0) demo_admin 7 (demo_db CmPending)) = Inr ()"
  by code_simp

theorem revocation_locks_out_witness:
  "\<exists>x. fst (authenticate demo_golib (calm 2 0)
     (SignRequest demo_golib ''k'' ''7'' ''POST'' ''/agent/v1/poll'' [] 0 ''0123456789abcdef'') ''POST'' ''/agent/v1/poll'' []
     (snd (revoke_agent (calm 1 0) demo_admin 7 (demo_db CmPending)))) = Inl x"
proof -
  have p: "uuid_parse demo_golib (h_agent (SignRequest demo_golib ''k'' ''7'' ''POST'' ''/agent/v1/poll'' [] 0 ''0123456789abcdef'')) = Some 7"
    by code_simp
  have b: "\<not> list_ex (beats 7) []" by simp
  show ?thesis
    using revocation_locks_out [OF demo_agents_ok demo_revoke b p, where e' = "calm 2 0"] by simp
qed

definition demo_beat :: heartbeat where
  "demo_beat = \<lparr>hb_version = [], hb_caps = [], hb_status = ''online'', hb_metrics = [], hb_json = JNull\<rparr>"

theorem heartbeat_revives_revoked_agent_witness:
  "\<exists>r' \<in> set (agent_rows (snd (heartbeat_agent (calm 2 0) demo_agent demo_beat
       (snd (revoke_agent (calm 1 0) demo_admin 7 (demo_db CmPending)))))).
     na_id r' = 7 \<and> na_status r' \<in> {AgOnline, AgDegraded} \<and> na_revoked r' = Some 1"
proof -
  let ?r = "demo_agent\<lparr>na_status := AgRevoked, na_revoked := Some 1\<rparr>"
  have rows: "agent_rows (snd (revoke_agent (calm 1 0) demo_admin 7 (demo_db CmPending))) = [?r]" by code_simp
  have "int (length (json_text (hb_json demo_beat))) \<le> 16 * 2 ^ 10" by (simp add: demo_beat_def)
  then show ?thesis
    using heartbeat_revives_revoked_agent [of ?r "snd (revoke_agent (calm 1 0) demo_admin 7 (demo_db CmPending))" demo_agent
        demo_beat "calm 2 0"] rows
    by (simp add: demo_agent_def)
qed

theorem finished_secrets_are_scrubbed_witness:
  "\<exists>c \<in> set (command_rows (snd (sweep_agents (calm 1 0) (demo_db CmFailed)))).
     nc_op c = ''docker.create'' \<and> nc_status c = CmFailed \<and> nc_params c = redacted_params"
proof -
  let ?c = "(demo_secret_row CmFailed)\<lparr>nc_params := redacted_params\<rparr>"
  have ok: "sweep_agents (calm 1 0) (demo_db CmFailed) = (True, snd (sweep_agents (calm 1 0) (demo_db CmFailed)))" by code_simp
  have rows: "command_rows (snd (sweep_agents (calm 1 0) (demo_db CmFailed))) = [?c]" by code_simp
  have "nc_params ?c = redacted_params"
    by (rule finished_secrets_are_scrubbed [OF ok]) (simp_all add: rows demo_secret_row_def secret_param_ops_def)
  then show ?thesis by (simp add: rows demo_secret_row_def)
qed

definition demo_queue :: "(api_error + queued_command) \<times> agents_db" where
  "demo_queue = enqueue_as demo_golib (calm 1 9) ''k'' demo_admin 7 ''metrics.collect'' (Some (JObj [])) ''r'' (demo_db CmPending)"

lemma demo_enqueued:
  "fst (enqueue_as demo_golib (calm 1 9) ''k'' demo_admin 7 ''metrics.collect'' (Some (JObj [])) ''r'' (demo_db CmPending)) =
    Inr \<lparr>qc_id = 9, qc_request = ''r'', qc_op = ''metrics.collect'', qc_status = ''pending''\<rparr>"
  by code_simp

lemma demo_jsonb: "jsonb_documented demo_golib"
  by (simp add: jsonb_documented_def demo_golib_def)

lemma demo_polled:
  "fst (poll demo_golib (calm 2 0) demo_agent (snd demo_queue)) =
     Inr [wire_command demo_golib (demo_secret_row CmPending),
          wire_command demo_golib (signed_row demo_golib (calm 1 9) ''k'' 1 7 ''metrics.collect'' (JObj []) None ''r'')]"
  by code_simp


theorem enqueue_as_needs_own_agent_witness:
  "\<exists>a \<in> set (agent_rows (demo_db CmPending)). na_id a = 7 \<and> na_org a = 1 \<and> na_status a \<noteq> AgRevoked"
  using enqueue_as_needs_own_agent [OF demo_enqueued] by (simp add: demo_admin_def)

section \<open>A running agent\<close>

definition demo_runtime :: "(string \<rightharpoonup> int) \<Rightarrow> unit agent" where
  "demo_runtime m = \<lparr>ag_state = \<lparr>st_agent = ''7'', st_seed = [], st_server_key = [], st_api_url = []\<rparr>, ag_server_key = ''k'',
     ag_guard = demo_policy, ag_caps = [], ag_done = m, ag_node = demo_node\<rparr>"

theorem signed_command_runs_once_witness:
  "ran_with (fst (fold (handle_step demo_golib demo_providers) [(demo_signed, 0, 0), (demo_signed, 1, 2)] (demo_runtime Map.empty, 0)))
     demo_signed = 1"
proof (rule antisym)
  have "all_good (handle_step demo_golib demo_providers) steady [(demo_signed, 0, 0), (demo_signed, 1, 2)] (demo_runtime Map.empty, 0)"
    by (simp add: steady_def handle_step_def unix_def second_def demo_signed_def demo_issued_def)
  from signed_command_runs_once [OF this, of demo_signed]
  show "ran_with (fst (fold (handle_step demo_golib demo_providers) [(demo_signed, 0, 0), (demo_signed, 1, 2)] (demo_runtime Map.empty, 0)))
     demo_signed \<le> 1"
    by (simp add: ran_with_def demo_runtime_def demo_node_def)
  have "executes demo_golib demo_providers (demo_signed, 0, 0) (demo_runtime Map.empty, 0) demo_signed"
    using demo_signed_verifies
    by (simp add: executes_def handle_step_def handle_ran demo_runtime_def mark_executed_def forget_expired_def Let_def)
  then show "1 \<le> ran_with (fst (fold (handle_step demo_golib demo_providers) [(demo_signed, 0, 0), (demo_signed, 1, 2)] (demo_runtime Map.empty, 0)))
     demo_signed"
    by (simp only: ran_with_run claim_count.simps if_True)
qed

theorem replay_across_expiry_runs_again_witness:
  "calls_made (ag_node (snd (handle demo_golib demo_providers 0 (101 * second) demo_signed (demo_runtime [''1'' \<mapsto> 100])))) =
     [CollectNodeMetrics ''self'']"
proof -
  have "ag_node (snd (handle demo_golib demo_providers 0 (101 * second) demo_signed (demo_runtime [''1'' \<mapsto> 100]))) =
      snd (Execute demo_golib demo_providers demo_policy demo_signed demo_node)"
    using replay_across_expiry_runs_again [of demo_golib "demo_runtime [''1'' \<mapsto> 100]" demo_signed 0 "101 * second" demo_providers]
      demo_signed_verifies
    by (simp add: demo_runtime_def demo_signed_def demo_issued_def unix_def second_def)
  moreover have "calls_made (snd (Execute demo_golib demo_providers demo_policy demo_signed demo_node)) = [CollectNodeMetrics ''self'']"
    by code_simp
  ultimately show ?thesis by simp
qed

end
