(* ===== verification/Projects.thy ===== *)
theory Projects
  imports Jobs Go_Text
begin

text \<open>
  internal/projects/projects.go: clients and projects, the rows everything an organization hosts hangs
  off. \<open>LOWER\<close> and the collation of PostgreSQL are the parameters \<open>sql_lower\<close> and \<open>collate\<close>. The same record
  carries the infrastructure the operations act on: the log of provider calls and the state behind it.
\<close>

section \<open>State\<close>

record client_row =
  cl_id :: uuid
  cl_org :: uuid
  cl_name :: string
  cl_email :: string
  cl_notes :: string
  cl_created :: time
  cl_updated :: time
  cl_deleted :: "time option"

type_synonym config = "(string \<times> json) list"

record project_row =
  pj_id :: uuid
  pj_org :: uuid
  pj_client :: "uuid option"
  pj_node :: "uuid option"
  pj_name :: string
  pj_slug :: string
  pj_kind :: string
  pj_status :: string
  pj_description :: string
  pj_config :: config
  pj_creator :: "uuid option"
  pj_created :: time
  pj_updated :: time
  pj_deleted :: "time option"

record database_row =
  pd_id :: uuid
  pd_org :: uuid
  pd_project :: uuid
  pd_name :: string
  pd_engine :: string
  pd_user :: string
  pd_secret_key :: string
  pd_status :: string
  pd_created :: time

record app_row =
  pa_id :: uuid
  pa_org :: uuid
  pa_project :: "uuid option"
  pa_name :: string
  pa_kind :: string
  pa_node :: "uuid option"
  pa_environment :: string
  pa_status :: string

text \<open>\<open>nodes\<close> is kept as pairs of a node's id and its organization.\<close>

record projects_db =
  clients :: "client_row list"
  projects :: "project_row list"
  project_dbs :: "database_row list"
  apps :: "app_row list"
  nodes :: "(uuid \<times> uuid) list"
  projects_audit :: "audit_entry list"

definition live_client :: "uuid \<Rightarrow> uuid \<Rightarrow> client_row \<Rightarrow> bool" where
  "live_client org i c \<longleftrightarrow> cl_id c = i \<and> cl_org c = org \<and> cl_deleted c = None"

definition live_project :: "uuid \<Rightarrow> uuid \<Rightarrow> project_row \<Rightarrow> bool" where
  "live_project org i p \<longleftrightarrow> pj_id p = i \<and> pj_org p = org \<and> pj_deleted p = None"

definition rec_audit ::
  "bool \<Rightarrow> auth_context \<Rightarrow> string \<Rightarrow> string \<Rightarrow> uuid \<Rightarrow> ('z) projects_db_scheme \<Rightarrow> 'z projects_db_scheme" where
  "rec_audit failed ac action typ i s =
     s\<lparr>projects_audit := Record failed ac action typ (IdRef i) [] True (projects_audit s)\<rparr>"

definition clampLimit :: "int \<Rightarrow> int" where
  "clampLimit n = (if n \<le> 0 then 50 else if n > 200 then 200 else n)"

text \<open>The driver hands a NULL config back as no map, which becomes the empty one.\<close>

definition internal :: "string \<Rightarrow> api_error" where
  "internal m = Wrap CodeInternal m"

section \<open>Clients\<close>

record client_input =
  ci_name :: string
  ci_email :: string
  ci_notes :: string

record client_view =
  cv_row :: client_row
  cv_projects :: nat

definition validate_client :: "client_input \<Rightarrow> api_error + client_input" where
  "validate_client inp =
     (let n = trim_space (ci_name inp)
      in if n = [] \<or> 120 < length n then Inl (Validation ''name is required (max 120 characters)'')
         else if 4000 < length (ci_notes inp) then Inl (Validation ''notes too long'')
         else if ci_email inp \<noteq> [] \<and> (CHR 0x40 \<notin> set (ci_email inp) \<or> 200 < length (ci_email inp))
         then Inl (Validation ''contact_email is not a valid email address'')
         else Inr (inp\<lparr>ci_name := n\<rparr>))"

definition scan_client :: "'z projects_db_scheme \<Rightarrow> client_row \<Rightarrow> client_view" where
  "scan_client s c =
     \<lparr>cv_row = c,
      cv_projects = row_count (\<lambda>p. pj_client p = Some (cl_id c) \<and> pj_deleted p = None) (projects s)\<rparr>"

definition get_client :: "bool \<Rightarrow> auth_context \<Rightarrow> uuid \<Rightarrow> 'z projects_db_scheme \<Rightarrow> api_error + client_view" where
  "get_client failed ac i s =
     (case Require ac ''clients.read'' of Some x \<Rightarrow> Inl x
      | None \<Rightarrow>
        if failed then Inl (internal ''failed to load client'')
        else case find (live_client (org_id ac) i) (clients s) of
          None \<Rightarrow> Inl (NotFound ''client'')
        | Some c \<Rightarrow> Inr (scan_client s c))"

text \<open>The partial unique index on the organization and the lower-cased name of live clients.\<close>

definition client_name_taken :: "(string \<Rightarrow> string) \<Rightarrow> uuid \<Rightarrow> uuid \<Rightarrow> string \<Rightarrow> client_row list \<Rightarrow> bool" where
  "client_name_taken sql_lower org self name tbl \<longleftrightarrow>
     list_ex (\<lambda>c. cl_org c = org \<and> cl_deleted c = None \<and> cl_id c \<noteq> self \<and> sql_lower (cl_name c) = sql_lower name) tbl"

definition create_client ::
  "(string \<Rightarrow> string) \<Rightarrow> env \<Rightarrow> auth_context \<Rightarrow> client_input \<Rightarrow> 'z projects_db_scheme
     \<Rightarrow> (api_error + client_view) \<times> 'z projects_db_scheme" where
  "create_client sql_lower e ac inp0 s =
     (case Require ac ''clients.manage'' of Some x \<Rightarrow> (Inl x, s)
      | None \<Rightarrow>
     (case validate_client inp0 of Inl x \<Rightarrow> (Inl x, s)
      | Inr inp \<Rightarrow>
        if fault e 0 then (Inl (internal ''failed to create client''), s)
        else if client_name_taken sql_lower (org_id ac) (new_id e) (ci_name inp) (clients s)
        then (Inl (Conflict ''a client with this name already exists''), s)
        else
          (let s1 = s\<lparr>clients := clients s @
                 [\<lparr>cl_id = new_id e, cl_org = org_id ac, cl_name = ci_name inp, cl_email = ci_email inp,
                   cl_notes = ci_notes inp, cl_created = db_now e, cl_updated = db_now e, cl_deleted = None\<rparr>]\<rparr>
           in case get_client (fault e 1) ac (new_id e) s1 of
                Inl x \<Rightarrow> (Inl x, s1)
              | Inr v \<Rightarrow> (Inr v, rec_audit (fault e 2) ac ''clients.client.created'' ''client'' (new_id e) s1))))"

definition list_clients ::
  "(string \<Rightarrow> string) \<Rightarrow> (string \<Rightarrow> string) \<Rightarrow> bool \<Rightarrow> auth_context \<Rightarrow> string \<Rightarrow> int \<Rightarrow> int
     \<Rightarrow> 'z projects_db_scheme \<Rightarrow> api_error + client_view list" where
  "list_clients sql_lower collate failed ac search limit offset s =
     (case Require ac ''clients.read'' of Some x \<Rightarrow> Inl x
      | None \<Rightarrow>
        if failed \<or> offset < 0 then Inl (internal ''failed to list clients'')
        else Inr (map (scan_client s) (page (clampLimit limit) offset
               (sort_key (\<lambda>c. collate (sql_lower (cl_name c)))
                 (filter (\<lambda>c. cl_org c = org_id ac \<and> cl_deleted c = None \<and>
                    (search = [] \<or> contains_text (sql_lower search) (sql_lower (cl_name c)))) (clients s))))))"

definition update_client ::
  "(string \<Rightarrow> string) \<Rightarrow> env \<Rightarrow> auth_context \<Rightarrow> uuid \<Rightarrow> client_input \<Rightarrow> 'z projects_db_scheme
     \<Rightarrow> (api_error + client_view) \<times> 'z projects_db_scheme" where
  "update_client sql_lower e ac i inp0 s =
     (case Require ac ''clients.manage'' of Some x \<Rightarrow> (Inl x, s)
      | None \<Rightarrow>
     (case validate_client inp0 of Inl x \<Rightarrow> (Inl x, s)
      | Inr inp \<Rightarrow>
        if fault e 0 then (Inl (internal ''failed to update client''), s)
        else if \<not> list_ex (live_client (org_id ac) i) (clients s) then (Inl (NotFound ''client''), s)
        else if client_name_taken sql_lower (org_id ac) i (ci_name inp) (clients s)
        then (Inl (Conflict ''a client with this name already exists''), s)
        else
          (let s1 = s\<lparr>clients := update_where (live_client (org_id ac) i)
                 (\<lambda>c. c\<lparr>cl_name := ci_name inp, cl_email := ci_email inp, cl_notes := ci_notes inp,
                       cl_updated := db_now e\<rparr>) (clients s)\<rparr>
           in case get_client (fault e 1) ac i s1 of
                Inl x \<Rightarrow> (Inl x, s1)
              | Inr v \<Rightarrow> (Inr v, rec_audit (fault e 2) ac ''clients.client.updated'' ''client'' i s1))))"

text \<open>Statements: BEGIN, the client, its projects, COMMIT, the audit row.\<close>

definition delete_client ::
  "env \<Rightarrow> auth_context \<Rightarrow> uuid \<Rightarrow> 'z projects_db_scheme \<Rightarrow> (api_error + unit) \<times> 'z projects_db_scheme" where
  "delete_client e ac i s =
     (case Require ac ''clients.manage'' of Some x \<Rightarrow> (Inl x, s)
      | None \<Rightarrow>
        if fault e 0 \<or> fault e 1 then (Inl (internal ''failed to delete client''), s)
        else if \<not> list_ex (live_client (org_id ac) i) (clients s) then (Inl (NotFound ''client''), s)
        else if fault e 2 then (Inl (internal ''failed to detach projects''), s)
        else if fault e 3 then (Inl (internal ''failed to delete client''), s)
        else
          (Inr (),
           rec_audit (fault e 4) ac ''clients.client.deleted'' ''client'' i
             (s\<lparr>clients := update_where (live_client (org_id ac) i) (\<lambda>c. c\<lparr>cl_deleted := Some (db_now e)\<rparr>) (clients s),
                projects := update_where (\<lambda>p. pj_client p = Some i \<and> pj_org p = org_id ac)
                  (\<lambda>p. p\<lparr>pj_client := None, pj_updated := db_now e\<rparr>) (projects s)\<rparr>)))"

section \<open>Slugs\<close>

text \<open>
  \<open>strings.ToLower\<close> as \<open>Slugify\<close> sees it: besides the ASCII letters only the Kelvin sign and the dotted
  capital I have an ASCII lower-case form; every other rune stays a separator.
\<close>

fun lower_slug :: "string \<Rightarrow> string" where
  "lower_slug (a # b # c # r) =
     (if code a = 0xE2 \<and> code b = 0x84 \<and> code c = 0xAA then CHR ''k'' # lower_slug r
      else if code a = 0xC4 \<and> code b = 0xB0 then CHR ''i'' # lower_slug (c # r)
      else (if is_upper a then char_of (code a + 32) else a) # lower_slug (b # c # r))"
| "lower_slug [a, b] =
     (if code a = 0xC4 \<and> code b = 0xB0 then [CHR ''i''] else lower_ascii [a, b])"
| "lower_slug s = lower_ascii s"

definition slug_alnum :: "char \<Rightarrow> bool" where
  "slug_alnum c \<longleftrightarrow> is_lower c \<or> is_digit c"

fun slug_chars :: "bool \<Rightarrow> bool \<Rightarrow> string \<Rightarrow> string" where
  "slug_chars started dash [] = []"
| "slug_chars started dash (c # cs) =
     (if slug_alnum c then c # slug_chars True False cs
      else if started \<and> \<not> dash then CHR ''-'' # slug_chars started True cs
      else slug_chars started dash cs)"

definition trim_dashes :: "string \<Rightarrow> string" where
  "trim_dashes s = trim_right_char (CHR ''-'') (dropWhile (\<lambda>c. c = CHR ''-'') s)"

definition Slugify :: "string \<Rightarrow> string" where
  "Slugify name =
     (let out = trim_dashes (slug_chars False False (lower_slug name))
      in if 50 < length out then trim_dashes (take 50 out) else out)"

text \<open>\<open>slugRe\<close>: one to fifty letters, digits and hyphens with a letter or digit at both ends.\<close>

definition slug_ok :: "string \<Rightarrow> bool" where
  "slug_ok s \<longleftrightarrow> s \<noteq> [] \<and> length s \<le> 50 \<and> list_all (\<lambda>c. slug_alnum c \<or> c = CHR ''-'') s \<and>
     slug_alnum (hd s) \<and> slug_alnum (last s)"

section \<open>Projects\<close>

record project_input =
  pi_name :: string
  pi_slug :: string
  pi_kind :: string
  pi_client :: "uuid option"
  pi_node :: "uuid option"
  pi_description :: string
  pi_config :: config

record project_view =
  pv_row :: project_row
  pv_client :: string

definition validate_project :: "project_input \<Rightarrow> api_error + project_input" where
  "validate_project inp =
     (let n = trim_space (pi_name inp); slug = (if pi_slug inp = [] then Slugify n else pi_slug inp)
      in if n = [] \<or> 120 < length n then Inl (Validation ''name is required (max 120 characters)'')
         else if \<not> slug_ok slug
         then Inl (Validation ''slug must be 1-50 lowercase letters, digits or hyphens'')
         else if has_prefix ''cp-'' slug
         then Inl (Validation (''the '' @ [CHR 0x22] @ ''cp-'' @ [CHR 0x22] @ '' prefix is reserved for the Nodera control plane''))
         else if pi_kind inp \<noteq> ''wordpress'' \<and> pi_kind inp \<noteq> ''application''
         then Inl (Validation (''kind must be '' @ quoted ''wordpress'' @ '' or '' @ quoted ''application''))
         else if 2000 < length (pi_description inp) then Inl (Validation ''description too long'')
         else Inr (inp\<lparr>pi_name := n, pi_slug := slug\<rparr>))"

definition scan_project :: "'z projects_db_scheme \<Rightarrow> project_row \<Rightarrow> project_view" where
  "scan_project s p =
     \<lparr>pv_row = p,
      pv_client = (case find (\<lambda>c. Some (cl_id c) = pj_client p) (clients s) of None \<Rightarrow> [] | Some c \<Rightarrow> cl_name c)\<rparr>"

definition load_project :: "bool \<Rightarrow> uuid \<Rightarrow> uuid \<Rightarrow> 'z projects_db_scheme \<Rightarrow> api_error + project_view" where
  "load_project failed org i s =
     (if failed then Inl (internal ''failed to load project'')
      else case find (live_project org i) (projects s) of
        None \<Rightarrow> Inl (NotFound ''project'')
      | Some p \<Rightarrow> Inr (scan_project s p))"

definition get_project :: "bool \<Rightarrow> auth_context \<Rightarrow> uuid \<Rightarrow> 'z projects_db_scheme \<Rightarrow> api_error + project_view" where
  "get_project failed ac i s =
     (case Require ac ''projects.read'' of Some x \<Rightarrow> Inl x | None \<Rightarrow> load_project failed (org_id ac) i s)"

text \<open>The partial unique index: a slug is unique among the live projects of one organization.\<close>

definition slug_taken :: "uuid \<Rightarrow> string \<Rightarrow> project_row list \<Rightarrow> bool" where
  "slug_taken org slug tbl \<longleftrightarrow> list_ex (\<lambda>p. pj_org p = org \<and> pj_deleted p = None \<and> pj_slug p = slug) tbl"

definition project_row_of :: "env \<Rightarrow> auth_context \<Rightarrow> project_input \<Rightarrow> project_row" where
  "project_row_of e ac inp =
     \<lparr>pj_id = new_id e, pj_org = org_id ac, pj_client = pi_client inp, pj_node = pi_node inp,
      pj_name = pi_name inp, pj_slug = pi_slug inp, pj_kind = pi_kind inp, pj_status = ''provisioning'',
      pj_description = pi_description inp, pj_config = pi_config inp, pj_creator = actor_user ac,
      pj_created = db_now e, pj_updated = db_now e, pj_deleted = None\<rparr>"

text \<open>
  Statements: the INSERT (0), its foreign keys to tables kept elsewhere (1), the row read back (2), the
  audit row (3).
\<close>

definition create_project ::
  "env \<Rightarrow> auth_context \<Rightarrow> project_input \<Rightarrow> 'z projects_db_scheme \<Rightarrow> (api_error + project_view) \<times> 'z projects_db_scheme" where
  "create_project e ac inp0 s =
     (case Require ac ''projects.create'' of Some x \<Rightarrow> (Inl x, s)
      | None \<Rightarrow>
     (case validate_project inp0 of Inl x \<Rightarrow> (Inl x, s)
      | Inr inp \<Rightarrow>
        if fault e 0 then (Inl (internal ''failed to create project''), s)
        else if (case pi_client inp of None \<Rightarrow> False
                 | Some c \<Rightarrow> \<not> list_ex (live_client (org_id ac) c) (clients s)) \<or>
                (case pi_node inp of None \<Rightarrow> False | Some n \<Rightarrow> (n, org_id ac) \<notin> set (nodes s))
        then (Inl (Validation ''client_id or node_id does not refer to a resource in this organization''), s)
        else if slug_taken (org_id ac) (pi_slug inp) (projects s)
        then (Inl (Conflict ''a project with this slug already exists''), s)
        else if fault e 1 then (Inl (Validation ''referenced resource does not exist''), s)
        else
          (let s1 = s\<lparr>projects := projects s @ [project_row_of e ac inp]\<rparr>
           in case get_project (fault e 2) ac (new_id e) s1 of
                Inl x \<Rightarrow> (Inl x, s1)
              | Inr v \<Rightarrow> (Inr v, rec_audit (fault e 3) ac ''projects.project.created'' ''project'' (new_id e) s1))))"

record list_filter =
  lf_search :: string
  lf_status :: string
  lf_kind :: string
  lf_client :: "uuid option"
  lf_limit :: int
  lf_offset :: int

definition list_projects ::
  "(string \<Rightarrow> string) \<Rightarrow> bool \<Rightarrow> auth_context \<Rightarrow> list_filter \<Rightarrow> 'z projects_db_scheme \<Rightarrow> api_error + project_view list" where
  "list_projects sql_lower failed ac f s =
     (case Require ac ''projects.read'' of Some x \<Rightarrow> Inl x
      | None \<Rightarrow>
        if failed \<or> lf_offset f < 0 then Inl (internal ''failed to list projects'')
        else Inr (map (scan_project s) (page (clampLimit (lf_limit f)) (lf_offset f)
               (sort_key (\<lambda>p. - pj_created p) (sort_key pj_id
                 (filter (\<lambda>p. pj_org p = org_id ac \<and> pj_deleted p = None \<and>
                    (lf_search f = [] \<or> contains_text (sql_lower (lf_search f)) (sql_lower (pj_name p)) \<or>
                     contains_text (sql_lower (lf_search f)) (sql_lower (pj_slug p))) \<and>
                    (lf_status f = [] \<or> pj_status p = lf_status f) \<and> (lf_kind f = [] \<or> pj_kind p = lf_kind f) \<and>
                    (lf_client f = None \<or> pj_client p = lf_client f)) (projects s)))))))"

record update_input =
  ui_name :: "string option"
  ui_description :: "string option"
  ui_client :: "uuid option"
  ui_config :: "config option"

definition update_project ::
  "env \<Rightarrow> auth_context \<Rightarrow> uuid \<Rightarrow> update_input \<Rightarrow> 'z projects_db_scheme
     \<Rightarrow> (api_error + project_view) \<times> 'z projects_db_scheme" where
  "update_project e ac i inp s =
     (case Require ac ''projects.update'' of Some x \<Rightarrow> (Inl x, s)
      | None \<Rightarrow>
     (let name = map_option trim_space (ui_name inp)
      in if (case name of None \<Rightarrow> False | Some n \<Rightarrow> n = [] \<or> 120 < length n)
         then (Inl (Validation ''name must be 1-120 characters''), s)
         else if (case ui_description inp of None \<Rightarrow> False | Some t \<Rightarrow> 2000 < length t)
         then (Inl (Validation ''description too long''), s)
         else if fault e 0 then (Inl (internal ''failed to update project''), s)
         else if \<not> list_ex (live_project (org_id ac) i) (projects s) \<or>
            (case ui_client inp of None \<Rightarrow> False | Some c \<Rightarrow> \<not> list_ex (live_client (org_id ac) c) (clients s))
         then (Inl (NotFound ''project''), s)
         else
           (let s1 = s\<lparr>projects := update_where (live_project (org_id ac) i)
                  (\<lambda>p. p\<lparr>pj_name := coalesce name (pj_name p),
                        pj_description := coalesce (ui_description inp) (pj_description p),
                        pj_client := (case ui_client inp of None \<Rightarrow> pj_client p | Some c \<Rightarrow> Some c),
                        pj_config := coalesce (ui_config inp) (pj_config p), pj_updated := db_now e\<rparr>) (projects s)\<rparr>
            in case load_project (fault e 1) (org_id ac) i s1 of
                 Inl x \<Rightarrow> (Inl x, s1)
               | Inr v \<Rightarrow> (Inr v, rec_audit (fault e 2) ac ''projects.project.updated'' ''project'' i s1))))"

text \<open>\<open>SetStatus\<close> and \<open>MarkDeleted\<close>, used by operations; the flag is the statement's driver error.\<close>

definition set_status ::
  "bool \<Rightarrow> time \<Rightarrow> uuid \<Rightarrow> uuid \<Rightarrow> string \<Rightarrow> 'z projects_db_scheme \<Rightarrow> 'z projects_db_scheme" where
  "set_status failed now org i st s =
     (if failed then s
      else s\<lparr>projects := update_where (live_project org i) (\<lambda>p. p\<lparr>pj_status := st, pj_updated := now\<rparr>) (projects s)\<rparr>)"

definition mark_deleted :: "bool \<Rightarrow> time \<Rightarrow> uuid \<Rightarrow> uuid \<Rightarrow> 'z projects_db_scheme \<Rightarrow> 'z projects_db_scheme" where
  "mark_deleted failed now org i s =
     (if failed then s
      else s\<lparr>projects := update_where (\<lambda>p. pj_id p = i \<and> pj_org p = org)
               (\<lambda>p. p\<lparr>pj_status := ''deleted'', pj_deleted := Some now, pj_updated := now\<rparr>) (projects s)\<rparr>)"

definition list_databases :: "env \<Rightarrow> auth_context \<Rightarrow> uuid \<Rightarrow> 'z projects_db_scheme \<Rightarrow> api_error + database_row list" where
  "list_databases e ac i s =
     (case get_project (fault e 0) ac i s of Inl x \<Rightarrow> Inl x
      | Inr _ \<Rightarrow>
        if fault e 1 then Inl (internal ''failed to list databases'')
        else Inr (sort_key pd_created (filter (\<lambda>d. pd_org d = org_id ac \<and> pd_project d = i \<and>
                pd_status d \<noteq> ''deleted'') (project_dbs s))))"

definition list_applications ::
  "(string \<Rightarrow> string) \<Rightarrow> env \<Rightarrow> auth_context \<Rightarrow> uuid \<Rightarrow> 'z projects_db_scheme \<Rightarrow> api_error + app_row list" where
  "list_applications collate e ac i s =
     (case get_project (fault e 0) ac i s of Inl x \<Rightarrow> Inl x
      | Inr _ \<Rightarrow>
        if fault e 1 then Inl (internal ''failed to list applications'')
        else Inr (sort_key (\<lambda>a. collate (pa_name a))
               (filter (\<lambda>a. pa_org a = org_id ac \<and> pa_project a = Some i) (apps s))))"

definition WorkspacePath :: "string \<Rightarrow> string" where
  "WorkspacePath slug = ''projects/'' @ slug"

definition ContainerName :: "string \<Rightarrow> string" where
  "ContainerName slug = ''nodera-'' @ slug"

end
