(* ===== verification/Hosting.thy ===== *)
theory Hosting
  imports Projects Saga_Rules Agent_Executor
begin

text \<open>
  The infrastructure side of the operations: the calls the services make on the provider interfaces
  (internal/providers) and on the secrets service, logged in order with their answers, and the state behind them. What
  a call answers is a parameter.
\<close>

datatype pcall =
    FsMkdirAll string
  | FsWriteFile string string
  | FsReadFile string
  | FsRemove string
  | FsList string
  | FsExists string
  | FsAbsPath string
  | DbEnsure string string string
  | DbDrop string string
  | DbDump string
  | DbLoad string string
  | CtCreate container_spec
  | CtStart string
  | CtStop string
  | CtRestart string
  | CtRemove string
  | CtInspect string
  | BkCreate uuid "string list" "string option"
  | BkVerify string string
  | BkRestore string "string option"
  | BkDelete string
  | SecretSet uuid string string
  | SecretReveal uuid string
  | SecretDelete uuid string
  | ConnDiscover string uuid
  | ConnPull string uuid string
  | GitFetch string string string
  | HttpCheck string int

text \<open>\<open>providers.ErrNotFound\<close> is told apart from other errors.\<close>

datatype perror = ErrNotFound | OtherError string

definition perror_text :: "perror \<Rightarrow> string" where
  "perror_text x = (case x of ErrNotFound \<Rightarrow> ''providers: resource not found'' | OtherError s \<Rightarrow> s)"

record preply =
  rp_err :: "perror option"
  rp_flag :: bool
  rp_text :: string
  rp_state :: string
  rp_ref :: string
  rp_sum :: string
  rp_size :: int
  rp_files :: "(string \<times> bool) list"

definition ok_reply :: preply where
  "ok_reply = \<lparr>rp_err = None, rp_flag = True, rp_text = [], rp_state = [], rp_ref = [], rp_sum = [],
     rp_size = 0, rp_files = []\<rparr>"

text \<open>
  \<open>h_loaded\<close> is the project a running operation has loaded into its receiver.
\<close>

record 'p hosting = projects_db +
  h_calls :: "(pcall \<times> preply) list"
  h_prov :: 'p
  h_loaded :: "project_row option"

text \<open>
  The deployment: which providers are configured, how calls are answered, the settings of
  \<open>provisioning.Deps\<close>, the UUID library's \<open>String\<close> and \<open>Parse\<close>, the JSON text of a project's settings (whose
  numbers pass through \<open>float64\<close>), and what the random generator yields (\<open>None\<close>: it failed).
\<close>

record 'p infra =
  in_containers :: bool
  in_fs :: bool
  in_db :: bool
  in_backups :: bool
  in_secrets :: bool
  in_serve :: "pcall \<Rightarrow> 'p \<Rightarrow> preply \<times> 'p"
  in_network :: string
  in_db_host :: string
  in_base_domain :: string
  in_workload_user :: string
  in_uuid_text :: "uuid \<Rightarrow> string"
  in_parse_uuid :: "string \<Rightarrow> uuid option"
  in_config_text :: "project_row \<Rightarrow> string"
  in_random :: "string option"

definition hcall :: "'p infra \<Rightarrow> pcall \<Rightarrow> ('p, 'z) hosting_scheme \<Rightarrow> preply \<times> ('p, 'z) hosting_scheme" where
  "hcall P c w =
     (let (r, p) = in_serve P c (h_prov w) in (r, w\<lparr>h_calls := h_calls w @ [(c, r)], h_prov := p\<rparr>))"

text \<open>A call outside a step: the text of its error, if any, and its answer.\<close>

definition ask_infra :: "'p infra \<Rightarrow> pcall \<Rightarrow> ('p, 'z) hosting_scheme \<Rightarrow> string option \<times> preply \<times> ('p, 'z) hosting_scheme" where
  "ask_infra P c w = (case hcall P c w of (r, w') \<Rightarrow> (map_option perror_text (rp_err r), r, w'))"

text \<open>Pieces of step functions: fail, call and go on, call and be done.\<close>

definition fail_step :: "string \<Rightarrow> run_state \<Rightarrow> 'w \<Rightarrow> step_end \<times> run_state \<times> 'w" where
  "fail_step t rs w = (StepErr (OpError t), rs, w)"

definition done_step :: "run_state \<Rightarrow> 'w \<Rightarrow> step_end \<times> run_state \<times> 'w" where
  "done_step rs w = (StepOk, rs, w)"

definition with_call ::
  "'p infra \<Rightarrow> pcall \<Rightarrow> (preply \<Rightarrow> run_state \<Rightarrow> ('p, 'z) hosting_scheme \<Rightarrow> step_end \<times> run_state \<times> ('p, 'z) hosting_scheme)
     \<Rightarrow> run_state \<Rightarrow> ('p, 'z) hosting_scheme \<Rightarrow> step_end \<times> run_state \<times> ('p, 'z) hosting_scheme" where
  "with_call P c k rs w =
     (case hcall P c w of (r, w') \<Rightarrow>
        (case rp_err r of Some x \<Rightarrow> fail_step (perror_text x) rs w' | None \<Rightarrow> k r rs w'))"

definition just_call ::
  "'p infra \<Rightarrow> pcall \<Rightarrow> run_state \<Rightarrow> ('p, 'z) hosting_scheme \<Rightarrow> step_end \<times> run_state \<times> ('p, 'z) hosting_scheme" where
  "just_call P c = with_call P c (\<lambda>_. done_step)"

text \<open>A call whose \<open>ErrNotFound\<close> is no failure.\<close>

definition call_unless_missing ::
  "'p infra \<Rightarrow> pcall \<Rightarrow> run_state \<Rightarrow> ('p, 'z) hosting_scheme \<Rightarrow> step_end \<times> run_state \<times> ('p, 'z) hosting_scheme" where
  "call_unless_missing P c rs w =
     (case hcall P c w of (r, w') \<Rightarrow>
        (case rp_err r of Some (OtherError t) \<Rightarrow> fail_step t rs w' | _ \<Rightarrow> done_step rs w'))"

definition rs_put :: "string \<Rightarrow> json \<Rightarrow> run_state \<Rightarrow> run_state" where
  "rs_put k v rs = rs\<lparr>rs_state := (k, v) # rs_state rs\<rparr>"

definition rs_get :: "string \<Rightarrow> run_state \<Rightarrow> json option" where
  "rs_get k rs = map_of (rs_state rs) k"

lemma rs_get_put [simp]: "rs_get k (rs_put k v rs) = Some v"
  by (simp add: rs_get_def rs_put_def)

lemma rs_get_other [simp]: "k \<noteq> l \<Longrightarrow> rs_get k (rs_put l v rs) = rs_get k rs"
  by (simp add: rs_get_def rs_put_def)

text \<open>Every call is one more entry of the log.\<close>

lemma h_calls_hcall [simp]: "h_calls (snd (hcall P c w)) = h_calls w @ [(c, fst (hcall P c w))]"
  by (simp add: hcall_def split: prod.split)

lemma hcall_frame [simp]:
  "projects (snd (hcall P c w)) = projects w" "project_dbs (snd (hcall P c w)) = project_dbs w"
  "apps (snd (hcall P c w)) = apps w" "clients (snd (hcall P c w)) = clients w" "nodes (snd (hcall P c w)) = nodes w"
  "h_loaded (snd (hcall P c w)) = h_loaded w" "projects_audit (snd (hcall P c w)) = projects_audit w"
  by (simp_all add: hcall_def split: prod.split)

section \<open>How the pieces end\<close>

definition logged_call :: "pcall \<Rightarrow> preply \<Rightarrow> 'p \<Rightarrow> ('p, 'z) hosting_scheme \<Rightarrow> ('p, 'z) hosting_scheme" where
  "logged_call c r p w = w\<lparr>h_calls := h_calls w @ [(c, r)], h_prov := p\<rparr>"

lemma logged_call_sel [simp]:
  "h_calls (logged_call c r p w) = h_calls w @ [(c, r)]" "projects (logged_call c r p w) = projects w"
  "project_dbs (logged_call c r p w) = project_dbs w" "apps (logged_call c r p w) = apps w"
  "clients (logged_call c r p w) = clients w" "nodes (logged_call c r p w) = nodes w"
  "h_loaded (logged_call c r p w) = h_loaded w" "projects_audit (logged_call c r p w) = projects_audit w"
  by (simp_all add: logged_call_def)

lemma hcall_logged: "\<exists>r p. hcall P c w = (r, logged_call c r p w)"
  by (auto simp: hcall_def logged_call_def split: prod.split)

lemma ends_done [simp]: "ends (done_step rs w) Ok Err = Ok rs w"
  by (simp add: done_step_def)

lemma ends_fail [simp]: "ends (fail_step t rs w) Ok Err = Err rs w"
  by (simp add: fail_step_def)

lemma ends_with_call [ends]:
  assumes "\<And>r p. rp_err r \<noteq> None \<Longrightarrow> Err rs (logged_call c r p w)"
    and "\<And>r p. rp_err r = None \<Longrightarrow> ends (k r rs (logged_call c r p w)) Ok Err"
  shows "ends (with_call P c k rs w) Ok Err"
proof -
  obtain r p where "hcall P c w = (r, logged_call c r p w)" using hcall_logged [of P c w] by auto
  then show ?thesis using assms [of r] by (cases "rp_err r") (simp_all add: with_call_def)
qed

lemma ends_just_call [ends]:
  assumes "\<And>r p. rp_err r \<noteq> None \<Longrightarrow> Err rs (logged_call c r p w)" and "\<And>r p. rp_err r = None \<Longrightarrow> Ok rs (logged_call c r p w)"
  shows "ends (just_call P c rs w) Ok Err"
  unfolding just_call_def using assms by (auto intro: ends_with_call)

lemma ends_call_unless_missing [ends]:
  assumes "\<And>r p. Err rs (logged_call c r p w)" and "\<And>r p. Ok rs (logged_call c r p w)"
  shows "ends (call_unless_missing P c rs w) Ok Err"
proof -
  obtain r p where "hcall P c w = (r, logged_call c r p w)" using hcall_logged [of P c w] by auto
  then show ?thesis using assms [of r p] by (auto simp: call_unless_missing_def split: option.split perror.split)
qed

text \<open>A call and its answer, without naming the answer.\<close>

definition answer :: "'p infra \<Rightarrow> pcall \<Rightarrow> ('p, 'z) hosting_scheme \<Rightarrow> preply" where
  "answer P c w = fst (in_serve P c (h_prov w))"

definition asked :: "'p infra \<Rightarrow> pcall \<Rightarrow> ('p, 'z) hosting_scheme \<Rightarrow> ('p, 'z) hosting_scheme" where
  "asked P c w = logged_call c (answer P c w) (snd (in_serve P c (h_prov w))) w"

lemma hcall_asked: "hcall P c w = (answer P c w, asked P c w)"
  by (simp add: hcall_def answer_def asked_def logged_call_def case_prod_beta Let_def)

lemma ask_infra_asked: "ask_infra P c w = (map_option perror_text (rp_err (answer P c w)), answer P c w, asked P c w)"
  by (simp add: ask_infra_def hcall_asked)

lemma asked_sel [simp]:
  "h_calls (asked P c w) = h_calls w @ [(c, answer P c w)]" "projects (asked P c w) = projects w"
  "project_dbs (asked P c w) = project_dbs w" "h_loaded (asked P c w) = h_loaded w"
  by (simp_all add: asked_def)

section \<open>Copying\<close>

text \<open>How a recursive copy ends; the model bounds the nesting of directories. \<open>join_path\<close> is \<open>path.Join\<close> of a path and a relative one.\<close>

datatype copy_end = CopyDone | CopyFailed string | CopyTooDeep

definition join_path :: "string \<Rightarrow> string \<Rightarrow> string" where
  "join_path dst rel = clean_path (if rel = [] then dst else dst @ ''/'' @ rel)"

definition relative_to :: "string \<Rightarrow> string \<Rightarrow> string" where
  "relative_to src p = trim_prefix ''/'' (trim_prefix src p)"

end
