(* ===== verification/Provisioning.thy ===== *)
theory Provisioning
  imports Hosting
begin

text \<open>
  internal/provisioning/provisioning.go: the operations that build and delete a project's runtime
  (workspace directory, database, container, application row). Closure variables that outlive a step
  are the loaded project in the world and the key/value state of the run.
\<close>

section \<open>Names\<close>

definition short_id :: "'p infra \<Rightarrow> uuid \<Rightarrow> string" where
  "short_id P i = take 8 (filter (\<lambda>c. c \<noteq> CHR ''-'') (in_uuid_text P i))"

definition db_name :: "'p infra \<Rightarrow> uuid \<Rightarrow> string \<Rightarrow> string" where
  "db_name P i slug =
     ''wp_'' @ map (\<lambda>c. if c = CHR ''-'' then CHR ''_'' else c) slug @ ''_'' @ take 4 (short_id P i)"

definition db_user :: "'p infra \<Rightarrow> uuid \<Rightarrow> string" where
  "db_user P i = ''u_'' @ short_id P i"

definition db_secret_key :: "string \<Rightarrow> string" where
  "db_secret_key slug = ''project/'' @ slug @ ''/db-password''"

definition loaded_slug :: "('p, 'z) hosting_scheme \<Rightarrow> string" where
  "loaded_slug w = (case h_loaded w of None \<Rightarrow> [] | Some p \<Rightarrow> pj_slug p)"

definition loaded_kind :: "('p, 'z) hosting_scheme \<Rightarrow> string" where
  "loaded_kind w = (case h_loaded w of None \<Rightarrow> [] | Some p \<Rightarrow> pj_kind p)"

definition api_text :: "api_error \<Rightarrow> string" where
  "api_text x = exec_error_text (ApiFailure x)"

section \<open>project.provision\<close>

text \<open>
  The operation's own SQL statements: 0 and 1 load the project, 2 and 3 set its status at the start and
  in the undo, 4 and 5 insert and delete the database row, 6 and 7 the application row, 8 and 9 set the
  status at the end and in the undo.
\<close>

definition provision_validate :: "'p infra \<Rightarrow> env \<Rightarrow> uuid \<Rightarrow> uuid \<Rightarrow> ('p, 'z) hosting_scheme \<Rightarrow> exec_error option" where
  "provision_validate P e org i w =
     (case get_project (fault e 0) (System_ctx org) i w of
        Inl x \<Rightarrow> Some (ApiFailure x)
      | Inr v \<Rightarrow>
     (let p = pv_row v
      in if pj_status p \<noteq> ''provisioning'' \<and> pj_status p \<noteq> ''failed''
         then Some (ApiFailure (Conflict (''project is '' @ pj_status p @ ''; only provisioning or failed projects can be provisioned'')))
         else if \<not> in_containers P
         then Some (ApiFailure (Validation ''container provider is not configured on this deployment''))
         else if \<not> in_fs P
         then Some (ApiFailure (Validation ''filesystem provider is not configured on this deployment''))
         else if pj_kind p = ''wordpress'' \<and> \<not> in_db P
         then Some (ApiFailure (Validation ''database provider is not configured; WordPress projects need one''))
         else if \<not> in_secrets P
         then Some (ApiFailure (Validation ''secrets service is not configured; credentials cannot be stored''))
         else None))"

text \<open>A status write that reports its driver error.\<close>

definition status_step ::
  "bool \<Rightarrow> env \<Rightarrow> uuid \<Rightarrow> uuid \<Rightarrow> string \<Rightarrow> run_state \<Rightarrow> ('p, 'z) hosting_scheme
     \<Rightarrow> step_end \<times> run_state \<times> ('p, 'z) hosting_scheme" where
  "status_step failed e org i st rs w =
     (if failed then fail_step ''database error'' rs w else done_step rs (set_status False (db_now e) org i st w))"

definition validate_project_step :: "'p infra \<Rightarrow> env \<Rightarrow> uuid \<Rightarrow> uuid \<Rightarrow> ('p, 'z) hosting_scheme op_step" where
  "validate_project_step P e org i =
     \<lparr>os_name = ''validate-project'',
      os_run = Some (\<lambda>poll rs w.
        (case get_project (fault e 1) (System_ctx org) i w of
           Inl x \<Rightarrow> fail_step (api_text x) rs w
         | Inr v \<Rightarrow> status_step (fault e 2) e org i ''provisioning'' rs (w\<lparr>h_loaded := Some (pv_row v)\<rparr>))),
      os_undo = Some (\<lambda>poll rs w. status_step (fault e 3) e org i ''failed'' rs w)\<rparr>"

definition prepare_workspace_step :: "'p infra \<Rightarrow> ('p, 'z) hosting_scheme op_step" where
  "prepare_workspace_step P =
     \<lparr>os_name = ''prepare-workspace'',
      os_run = Some (\<lambda>poll rs w.
        (let ws = WorkspacePath (loaded_slug w)
         in with_call P (FsMkdirAll (ws @ ''/data'')) (\<lambda>_.
            with_call P (FsMkdirAll (ws @ ''/backups'')) (\<lambda>_. just_call P (FsMkdirAll (ws @ ''/logs'')))) rs w)),
      os_undo = Some (\<lambda>poll rs w. just_call P (FsRemove (WorkspacePath (loaded_slug w))) rs w)\<rparr>"

definition add_database_row :: "env \<Rightarrow> uuid \<Rightarrow> uuid \<Rightarrow> string \<Rightarrow> string \<Rightarrow> string \<Rightarrow> ('p, 'z) hosting_scheme \<Rightarrow> ('p, 'z) hosting_scheme" where
  "add_database_row e org i db user key w =
     (let hit = (\<lambda>d. pd_org d = org \<and> pd_name d = db)
      in w\<lparr>project_dbs := (if list_ex hit (project_dbs w)
            then update_where hit (\<lambda>d. d\<lparr>pd_status := ''ready''\<rparr>) (project_dbs w)
            else project_dbs w @ [\<lparr>pd_id = new_id e, pd_org = org, pd_project = i, pd_name = db,
                   pd_engine = ''mariadb'', pd_user = user, pd_secret_key = key, pd_status = ''ready'',
                   pd_created = db_now e\<rparr>])\<rparr>)"

definition create_database_step :: "'p infra \<Rightarrow> env \<Rightarrow> uuid \<Rightarrow> uuid \<Rightarrow> ('p, 'z) hosting_scheme op_step" where
  "create_database_step P e org i =
     \<lparr>os_name = ''create-database'',
      os_run = Some (\<lambda>poll rs w.
        (let db = db_name P i (loaded_slug w); user = db_user P i; key = db_secret_key (loaded_slug w)
         in if loaded_kind w \<noteq> ''wordpress'' then done_step rs w
            else case in_random P of
                None \<Rightarrow> fail_step ''random source failed'' rs w
              | Some pw \<Rightarrow>
                  with_call P (DbEnsure db user pw) (\<lambda>r rs w.
                    (let rs = rs_put ''db_created'' (JBool (rp_flag r)) rs
                     in if \<not> rp_flag r then done_step rs w
                        else with_call P (SecretSet org key pw) (\<lambda>_ rs w.
                          if fault e 4 then fail_step ''database error'' rs w
                          else done_step (rs_put ''db_password'' (JStr pw) rs) (add_database_row e org i db user key w)) rs w)) rs w)),
      os_undo = Some (\<lambda>poll rs w.
        (if loaded_kind w \<noteq> ''wordpress'' \<or> rs_get ''db_created'' rs \<noteq> Some (JBool True) then done_step rs w
         else let db = db_name P i (loaded_slug w); key = db_secret_key (loaded_slug w)
           in with_call P (DbDrop db (db_user P i)) (\<lambda>_ rs w.
                just_call P (SecretDelete org key) rs
                  (if fault e 5 then w
                   else w\<lparr>project_dbs := delete_where (\<lambda>d. pd_org d = org \<and> pd_name d = db) (project_dbs w)\<rparr>)) rs w))\<rparr>"

definition config_text :: "config \<Rightarrow> string \<Rightarrow> string" where
  "config_text cfg k = (case json_member cfg k of Some (JStr s) \<Rightarrow> s | _ \<Rightarrow> [])"

definition base_spec :: "'p infra \<Rightarrow> uuid \<Rightarrow> uuid \<Rightarrow> string \<Rightarrow> container_spec" where
  "base_spec P org i slug =
     (let c = ContainerName slug
      in \<lparr>cs_name = c, cs_image = [], cs_env = [],
          cs_labels = [(''nodera.managed'', ''true''), (''nodera.project'', in_uuid_text P i), (''nodera.org'', in_uuid_text P org)]
            @ (if in_base_domain P \<noteq> [] then
                 [(''traefik.enable'', ''true''),
                  (''traefik.http.routers.'' @ c @ ''.rule'', ''Host(`'' @ slug @ ''.'' @ in_base_domain P @ ''`)'')] else []),
          cs_ports = [], cs_networks = (if in_network P \<noteq> [] then [in_network P] else []),
          cs_volumes = [], cs_cmd = [], cs_user = []\<rparr>)"

text \<open>\<open>containerSpec\<close>, with the continuation that receives the spec.\<close>

definition with_spec ::
  "'p infra \<Rightarrow> uuid \<Rightarrow> uuid
     \<Rightarrow> (container_spec \<Rightarrow> run_state \<Rightarrow> ('p, 'z) hosting_scheme \<Rightarrow> step_end \<times> run_state \<times> ('p, 'z) hosting_scheme)
     \<Rightarrow> run_state \<Rightarrow> ('p, 'z) hosting_scheme \<Rightarrow> step_end \<times> run_state \<times> ('p, 'z) hosting_scheme" where
  "with_spec P org i k rs w =
     (let slug = loaded_slug w; spec = base_spec P org i slug;
          cfg = (case h_loaded w of None \<Rightarrow> [] | Some p \<Rightarrow> pj_config p);
          image = config_text cfg ''wordpress_image'';
          mount = (\<lambda>pw. with_call P (FsAbsPath (WorkspacePath slug @ ''/data'')) (\<lambda>r.
            k (spec\<lparr>cs_image := (if image \<noteq> [] then image else ''wordpress:6-php8.3-apache''),
                 cs_env := [(''WORDPRESS_DB_HOST'', if in_db_host P \<noteq> [] then in_db_host P else ''db''),
                            (''WORDPRESS_DB_NAME'', db_name P i slug), (''WORDPRESS_DB_USER'', db_user P i),
                            (''WORDPRESS_DB_PASSWORD'', pw)],
                 cs_volumes := [\<lparr>vm_source = rp_text r, vm_target = ''/var/www/html'', vm_read_only = False\<rparr>],
                 cs_user := in_workload_user P\<rparr>)))
      in if loaded_kind w = ''wordpress'' then
           (case rs_get ''db_password'' rs of
              Some (JStr (c # cs)) \<Rightarrow> mount (c # cs) rs w
            | _ \<Rightarrow> with_call P (SecretReveal org (db_secret_key slug)) (\<lambda>r. mount (rp_text r)) rs w)
         else if config_text cfg ''image'' = []
         then fail_step (api_text (Validation ''application projects require config.image'')) rs w
         else k (spec\<lparr>cs_image := config_text cfg ''image''\<rparr>) rs w)"

definition create_container_step :: "'p infra \<Rightarrow> uuid \<Rightarrow> uuid \<Rightarrow> ('p, 'z) hosting_scheme op_step" where
  "create_container_step P org i =
     \<lparr>os_name = ''create-container'',
      os_run = Some (\<lambda>poll. with_spec P org i (\<lambda>spec.
        with_call P (CtCreate spec) (\<lambda>r rs. done_step (rs_put ''container_created'' (JBool (rp_flag r)) rs)))),
      os_undo = Some (\<lambda>poll rs w.
        (if rs_get ''container_created'' rs \<noteq> Some (JBool True) then done_step rs w
         else call_unless_missing P (CtRemove (ContainerName (loaded_slug w))) rs w))\<rparr>"

definition start_container_step :: "'p infra \<Rightarrow> ('p, 'z) hosting_scheme op_step" where
  "start_container_step P =
     \<lparr>os_name = ''start-container'',
      os_run = Some (\<lambda>poll rs w. just_call P (CtStart (ContainerName (loaded_slug w))) rs w),
      os_undo = Some (\<lambda>poll rs w. call_unless_missing P (CtStop (ContainerName (loaded_slug w))) rs w)\<rparr>"

definition health_check_step :: "'p infra \<Rightarrow> ('p, 'z) hosting_scheme op_step" where
  "health_check_step P =
     \<lparr>os_name = ''health-check'',
      os_run = Some (\<lambda>poll rs w. with_call P (CtInspect (ContainerName (loaded_slug w))) (\<lambda>r rs w.
        if \<not> rp_flag r \<or> rp_state r \<noteq> ''running''
        then fail_step (''container is not running (state='' @ [CHR 0x22] @ rp_state r @ [CHR 0x22] @ '')'') rs w
        else done_step rs w) rs w),
      os_undo = None\<rparr>"

definition appKind :: "string \<Rightarrow> string" where
  "appKind k = (if k = ''wordpress'' then ''wordpress'' else ''service'')"

definition register_application_step :: "'p infra \<Rightarrow> env \<Rightarrow> uuid \<Rightarrow> uuid \<Rightarrow> ('p, 'z) hosting_scheme op_step" where
  "register_application_step P e org i =
     \<lparr>os_name = ''register-application'',
      os_run = Some (\<lambda>poll rs w.
        (let c = ContainerName (loaded_slug w); hit = (\<lambda>a. pa_org a = org \<and> pa_name a = c)
         in if fault e 6 then fail_step ''database error'' rs w
            else case find hit (apps w) of
                Some a \<Rightarrow> done_step (rs_put ''application_id'' (JStr (in_uuid_text P (pa_id a))) rs)
                  (w\<lparr>apps := update_where hit (\<lambda>a. a\<lparr>pa_status := ''running'', pa_project := Some i\<rparr>) (apps w)\<rparr>)
              | None \<Rightarrow> done_step (rs_put ''application_id'' (JStr (in_uuid_text P (new_id e))) rs)
                  (w\<lparr>apps := apps w @ [\<lparr>pa_id = new_id e, pa_org = org, pa_project = Some i, pa_name = c,
                      pa_kind = appKind (loaded_kind w),
                      pa_node = (case h_loaded w of None \<Rightarrow> None | Some p \<Rightarrow> pj_node p),
                      pa_environment = ''production'', pa_status = ''running''\<rparr>]\<rparr>))),
      os_undo = Some (\<lambda>poll rs w.
        (if fault e 7 then fail_step ''database error'' rs w
         else done_step rs (w\<lparr>apps := delete_where (\<lambda>a. pa_org a = org \<and>
                pa_name a = ContainerName (loaded_slug w) \<and> pa_project a = Some i) (apps w)\<rparr>)))\<rparr>"

definition activate_project_step :: "'p infra \<Rightarrow> env \<Rightarrow> uuid \<Rightarrow> uuid \<Rightarrow> ('p, 'z) hosting_scheme op_step" where
  "activate_project_step P e org i =
     \<lparr>os_name = ''activate-project'',
      os_run = Some (\<lambda>poll rs w. status_step (fault e 8) e org i ''active''
        (if fault e 8 then rs else rs\<lparr>rs_result := Some (JObj [(''project_id'', JStr (in_uuid_text P i)),
            (''slug'', JStr (loaded_slug w)), (''status'', JStr ''active'')])\<rparr>) w),
      os_undo = Some (\<lambda>poll rs w. status_step (fault e 9) e org i ''failed'' rs w)\<rparr>"

definition provision_steps :: "'p infra \<Rightarrow> env \<Rightarrow> uuid \<Rightarrow> uuid \<Rightarrow> ('p, 'z) hosting_scheme op_step list" where
  "provision_steps P e org i =
     [validate_project_step P e org i, prepare_workspace_step P, create_database_step P e org i,
      create_container_step P org i, start_container_step P, health_check_step P,
      register_application_step P e org i, activate_project_step P e org i]"

definition provision_definition :: "'p infra \<Rightarrow> env \<Rightarrow> ('p, 'z) hosting_scheme op_definition" where
  "provision_definition P e =
     \<lparr>df_name = ''project.provision'', df_permission = ''projects.create'', df_tool_key = [],
      df_notify_kind = ''project.provisioned'', df_timeout_seconds = 600, df_flag = [],
      df_factory = (\<lambda>org project payload.
        if project = uuid_nil then Inl (ApiFailure (Validation ''project_id is required''))
        else Inr \<lparr>op_validate = provision_validate P e org project, op_body = StepperOp (provision_steps P e org project)\<rparr>)\<rparr>"

section \<open>project.delete\<close>

text \<open>
  Statements: 10 and 11 load the project, 12 sets its status, 13 reads its config, 14 its
  applications, 15 its databases, \<open>20 + k\<close> marks the \<open>k\<close>-th database deleted, 16 deletes the
  application rows, 17 marks the project deleted.
\<close>

definition delete_validate :: "env \<Rightarrow> uuid \<Rightarrow> uuid \<Rightarrow> ('p, 'z) hosting_scheme \<Rightarrow> exec_error option" where
  "delete_validate e org i w =
     (case get_project (fault e 10) (System_ctx org) i w of
        Inl x \<Rightarrow> Some (ApiFailure x)
      | Inr v \<Rightarrow>
          if pj_status (pv_row v) = ''deleting''
          then Some (ApiFailure (Conflict ''project is already being deleted'')) else None)"

definition mark_deleting_step :: "env \<Rightarrow> uuid \<Rightarrow> uuid \<Rightarrow> ('p, 'z) hosting_scheme op_step" where
  "mark_deleting_step e org i =
     \<lparr>os_name = ''mark-deleting'',
      os_run = Some (\<lambda>poll rs w.
        (case get_project (fault e 11) (System_ctx org) i w of
           Inl x \<Rightarrow> fail_step (api_text x) rs w
         | Inr v \<Rightarrow> status_step (fault e 12) e org i ''deleting'' rs (w\<lparr>h_loaded := Some (pv_row v)\<rparr>))),
      os_undo = None\<rparr>"

text \<open>
  The container names an adopted or provisioned project may have: the one in its config, those of its
  application rows, the derived one; each is removed once.
\<close>

definition container_names :: "env \<Rightarrow> uuid \<Rightarrow> uuid \<Rightarrow> ('p, 'z) hosting_scheme \<Rightarrow> string list" where
  "container_names e org i w =
     (let cfg = (if fault e 13 then [] else case find (\<lambda>p. pj_org p = org \<and> pj_id p = i) (projects w) of
                   None \<Rightarrow> [] | Some p \<Rightarrow> pj_config p);
          configured = config_text cfg ''container_name''
      in (if configured \<noteq> [] then [configured] else [])
         @ filter (\<lambda>n. n \<noteq> []) (map pa_name (filter (\<lambda>a. pa_org a = org \<and> pa_project a = Some i) (apps w)))
         @ [ContainerName (loaded_slug w)])"

fun first_seen :: "string list \<Rightarrow> string list \<Rightarrow> string list" where
  "first_seen seen [] = []"
| "first_seen seen (n # ns) = (if n \<in> set seen then first_seen seen ns else n # first_seen (n # seen) ns)"

fun remove_containers ::
  "'p infra \<Rightarrow> string list \<Rightarrow> run_state \<Rightarrow> ('p, 'z) hosting_scheme \<Rightarrow> step_end \<times> run_state \<times> ('p, 'z) hosting_scheme" where
  "remove_containers P [] rs w = done_step rs w"
| "remove_containers P (n # ns) rs w =
     (case call_unless_missing P (CtRemove n) rs w of
        (StepOk, rs', w') \<Rightarrow> remove_containers P ns rs' w'
      | r \<Rightarrow> r)"

definition remove_container_step :: "'p infra \<Rightarrow> env \<Rightarrow> uuid \<Rightarrow> uuid \<Rightarrow> ('p, 'z) hosting_scheme op_step" where
  "remove_container_step P e org i =
     \<lparr>os_name = ''remove-container'',
      os_run = Some (\<lambda>poll rs w.
        (if \<not> in_containers P then done_step rs w
         else if fault e 14 then fail_step ''database error'' rs w
         else remove_containers P (first_seen [] (container_names e org i w)) rs w)),
      os_undo = None\<rparr>"

fun drop_databases ::
  "'p infra \<Rightarrow> env \<Rightarrow> uuid \<Rightarrow> nat \<Rightarrow> database_row list \<Rightarrow> run_state \<Rightarrow> ('p, 'z) hosting_scheme
     \<Rightarrow> step_end \<times> run_state \<times> ('p, 'z) hosting_scheme" where
  "drop_databases P e org k [] rs w = done_step rs w"
| "drop_databases P e org k (d # ds) rs w =
     (if \<not> in_db P then fail_step (''database provider is not configured; cannot drop '' @ pd_name d) rs w
      else
        (case just_call P (DbDrop (pd_name d) (pd_user d)) rs w of
           (StepOk, rs1, w1) \<Rightarrow>
             (let w2 = (if in_secrets P then snd (hcall P (SecretDelete org (pd_secret_key d)) w1) else w1)
              in if fault e (20 + k) then fail_step ''database error'' rs1 w2
                 else drop_databases P e org (Suc k) ds rs1
                   (w2\<lparr>project_dbs := update_where (\<lambda>x. pd_org x = org \<and> pd_name x = pd_name d)
                       (\<lambda>x. x\<lparr>pd_status := ''deleted''\<rparr>) (project_dbs w2)\<rparr>))
         | r \<Rightarrow> r))"

definition drop_database_step :: "'p infra \<Rightarrow> env \<Rightarrow> uuid \<Rightarrow> uuid \<Rightarrow> ('p, 'z) hosting_scheme op_step" where
  "drop_database_step P e org i =
     \<lparr>os_name = ''drop-database'',
      os_run = Some (\<lambda>poll rs w.
        (if fault e 15 then fail_step ''database error'' rs w
         else drop_databases P e org 0 (filter (\<lambda>d. pd_org d = org \<and> pd_project d = i \<and> pd_status d \<noteq> ''deleted'')
                (project_dbs w)) rs w)),
      os_undo = None\<rparr>"

definition remove_workspace_step :: "'p infra \<Rightarrow> ('p, 'z) hosting_scheme op_step" where
  "remove_workspace_step P =
     \<lparr>os_name = ''remove-workspace'',
      os_run = Some (\<lambda>poll rs w.
        (if \<not> in_fs P then done_step rs w else just_call P (FsRemove (WorkspacePath (loaded_slug w))) rs w)),
      os_undo = None\<rparr>"

definition remove_records_step :: "env \<Rightarrow> uuid \<Rightarrow> uuid \<Rightarrow> ('p, 'z) hosting_scheme op_step" where
  "remove_records_step e org i =
     \<lparr>os_name = ''remove-records'',
      os_run = Some (\<lambda>poll rs w.
        (if fault e 16 then fail_step ''database error'' rs w
         else
           (let w1 = w\<lparr>apps := delete_where (\<lambda>a. pa_org a = org \<and> pa_project a = Some i) (apps w)\<rparr>
            in if fault e 17 then fail_step ''database error'' rs w1
               else done_step rs (mark_deleted False (db_now e) org i w1)))),
      os_undo = None\<rparr>"

definition delete_steps :: "'p infra \<Rightarrow> env \<Rightarrow> uuid \<Rightarrow> uuid \<Rightarrow> ('p, 'z) hosting_scheme op_step list" where
  "delete_steps P e org i =
     [mark_deleting_step e org i, remove_container_step P e org i, drop_database_step P e org i,
      remove_workspace_step P, remove_records_step e org i]"

definition delete_definition :: "'p infra \<Rightarrow> env \<Rightarrow> ('p, 'z) hosting_scheme op_definition" where
  "delete_definition P e =
     \<lparr>df_name = ''project.delete'', df_permission = ''projects.delete'', df_tool_key = ''project.delete'',
      df_notify_kind = ''project.deleted'', df_timeout_seconds = 600, df_flag = [],
      df_factory = (\<lambda>org project payload.
        if project = uuid_nil then Inl (ApiFailure (Validation ''project_id is required''))
        else Inr \<lparr>op_validate = delete_validate e org project, op_body = StepperOp (delete_steps P e org project)\<rparr>)\<rparr>"

end
