(* ===== verification/Provision_Safety.thy ===== *)
theory Provision_Safety
  imports Provisioning
begin

text \<open>
  What a provisioning run guarantees, over \<open>execution_keeps\<close>: it destroys only what it created itself, it
  sets the project's status, and it wipes a workspace that other organizations may share.
\<close>

section \<open>What a provisioning run may destroy\<close>

text \<open>
  A log is justified when every database dropped was created by a call of the same log, and every
  container removed likewise.
\<close>

definition created_db :: "(pcall \<times> preply) list \<Rightarrow> string \<Rightarrow> bool" where
  "created_db log n \<longleftrightarrow> (\<exists>u pw r. (DbEnsure n u pw, r) \<in> set log \<and> rp_err r = None \<and> rp_flag r)"

definition created_container :: "(pcall \<times> preply) list \<Rightarrow> string \<Rightarrow> bool" where
  "created_container log n \<longleftrightarrow> (\<exists>spec r. (CtCreate spec, r) \<in> set log \<and> cs_name spec = n \<and> rp_err r = None \<and> rp_flag r)"

definition justified :: "(pcall \<times> preply) list \<Rightarrow> bool" where
  "justified log \<longleftrightarrow> (\<forall>c r. (c, r) \<in> set log \<longrightarrow>
     (case c of DbDrop n u \<Rightarrow> created_db log n | CtRemove n \<Rightarrow> created_container log n | _ \<Rightarrow> True))"

definition harmless :: "pcall \<Rightarrow> bool" where
  "harmless c \<longleftrightarrow> (case c of DbDrop n u \<Rightarrow> False | CtRemove n \<Rightarrow> False | _ \<Rightarrow> True)"

lemma created_snoc:
  "created_db log n \<Longrightarrow> created_db (log @ [x]) n" "created_container log n \<Longrightarrow> created_container (log @ [x]) n"
  by (auto simp: created_db_def created_container_def)

lemma justified_Nil [simp]: "justified []"
  by (simp add: justified_def)

lemma justified_snoc:
  assumes "justified log"
    and "case c of DbDrop n u \<Rightarrow> created_db log n | CtRemove n \<Rightarrow> created_container log n | _ \<Rightarrow> True"
  shows "justified (log @ [(c, r)])"
  unfolding justified_def
proof (intro allI impI)
  fix c' r' assume "(c', r') \<in> set (log @ [(c, r)])"
  then have "case c' of DbDrop n u \<Rightarrow> created_db log n | CtRemove n \<Rightarrow> created_container log n | _ \<Rightarrow> True"
    using assms unfolding justified_def by (cases "(c', r') \<in> set log") auto
  then show "case c' of DbDrop n u \<Rightarrow> created_db (log @ [(c, r)]) n | CtRemove n \<Rightarrow> created_container (log @ [(c, r)]) n | _ \<Rightarrow> True"
    by (auto simp: created_snoc split: pcall.splits)
qed

definition grounded :: "'p infra \<Rightarrow> uuid \<Rightarrow> run_state \<Rightarrow> ('p, 'z) hosting_scheme \<Rightarrow> bool" where
  "grounded P i rs w \<longleftrightarrow> justified (h_calls w) \<and>
     (rs_get ''db_created'' rs = Some (JBool True) \<longrightarrow> created_db (h_calls w) (db_name P i (loaded_slug w))) \<and>
     (rs_get ''container_created'' rs = Some (JBool True) \<longrightarrow> created_container (h_calls w) (ContainerName (loaded_slug w)))"

definition before :: "'p infra \<Rightarrow> uuid \<Rightarrow> nat \<Rightarrow> run_state \<Rightarrow> ('p, 'z) hosting_scheme \<Rightarrow> bool" where
  "before P i k rs w \<longleftrightarrow> grounded P i rs w \<and> (k = 0 \<longrightarrow> rs_state rs = [])"

lemma loaded_slug_frame [simp]:
  "loaded_slug (logged_call c r p w) = loaded_slug w" "loaded_kind (logged_call c r p w) = loaded_kind w"
  "loaded_slug (set_status f t org j st w) = loaded_slug w" "loaded_slug (add_database_row e org j db u key w) = loaded_slug w"
  "loaded_slug (w\<lparr>apps := x\<rparr>) = loaded_slug w" "loaded_slug (w\<lparr>project_dbs := y\<rparr>) = loaded_slug w"
  "h_calls (set_status f t org j st w) = h_calls w" "h_calls (add_database_row e org j db u key w) = h_calls w"
  by (simp_all add: loaded_slug_def loaded_kind_def set_status_def add_database_row_def Let_def)

lemma grounded_call: "grounded P i rs w \<Longrightarrow> harmless c \<Longrightarrow> grounded P i rs (logged_call c r p w)"
  unfolding grounded_def
  by (auto intro!: justified_snoc created_snoc simp: harmless_def split: pcall.splits)

lemma grounded_frame [simp]:
  "grounded P i rs (set_status f t org j st w) = grounded P i rs w"
  "grounded P i rs (add_database_row e org j db u key w) = grounded P i rs w"
  "grounded P i rs (w\<lparr>apps := x\<rparr>) = grounded P i rs w" "grounded P i rs (w\<lparr>project_dbs := y\<rparr>) = grounded P i rs w"
  by (simp_all add: grounded_def)

lemma grounded_put_other:
  "k \<noteq> ''db_created'' \<Longrightarrow> k \<noteq> ''container_created'' \<Longrightarrow> grounded P i (rs_put k v rs) w = grounded P i rs w"
  by (simp add: grounded_def)

lemma grounded_result [simp]: "grounded P i (rs\<lparr>rs_result := x\<rparr>) w = grounded P i rs w"
  by (simp add: grounded_def rs_get_def)

lemma ends_status_step [ends]:
  assumes "Err rs w" "Ok rs (set_status False (db_now e) org i st w)"
  shows "ends (status_step failed e org i st rs w) Ok Err"
  using assms by (simp add: status_step_def)

lemma ends_with_spec:
  assumes "J w" and "\<And>c r p w. J w \<Longrightarrow> c = FsAbsPath (WorkspacePath (loaded_slug w) @ ''/data'') \<or> (\<exists>key. c = SecretReveal org key) \<Longrightarrow> J (logged_call c r p w)"
    and "\<And>w'. J w' \<Longrightarrow> Err rs w'"
    and "\<And>spec w'. cs_name spec = ContainerName (loaded_slug w') \<Longrightarrow> J w' \<Longrightarrow> ends (k spec rs w') Ok Err"
  shows "ends (with_spec P org i k rs w) Ok Err"
proof -
  have mount: "ends (with_call P (FsAbsPath (WorkspacePath (loaded_slug w') @ ''/data'')) (\<lambda>r. k ((base_spec P org i (loaded_slug w'))
      \<lparr>cs_image := im, cs_env := en, cs_volumes := [\<lparr>vm_source = rp_text r, vm_target = ''/var/www/html'', vm_read_only = False\<rparr>],
       cs_user := us\<rparr>)) rs w') Ok Err" if "J w'" for w' im en us
    using assms(2,3,4) that by (intro ends_with_call) (auto simp: base_spec_def Let_def)
  show ?thesis
  proof (cases "loaded_kind w = ''wordpress''")
    case False
    then show ?thesis using assms by (auto simp: with_spec_def Let_def base_spec_def)
  next
    case True
    have reveal: "ends (with_call P (SecretReveal org key) (\<lambda>r. with_call P (FsAbsPath (WorkspacePath (loaded_slug w) @ ''/data''))
        (\<lambda>r'. k ((base_spec P org i (loaded_slug w))\<lparr>cs_image := im, cs_env := en r,
         cs_volumes := [\<lparr>vm_source = rp_text r', vm_target = ''/var/www/html'', vm_read_only = False\<rparr>], cs_user := us\<rparr>))) rs w) Ok Err"
      for key im en us
    proof (rule ends_with_call)
      fix r p
      have j: "J (logged_call (SecretReveal org key) r p w)" using assms(1,2) by auto
      then show "Err rs (logged_call (SecretReveal org key) r p w)" by (rule assms(3))
      show "ends (with_call P (FsAbsPath (WorkspacePath (loaded_slug w) @ ''/data''))
        (\<lambda>r'. k ((base_spec P org i (loaded_slug w))\<lparr>cs_image := im, cs_env := en r,
         cs_volumes := [\<lparr>vm_source = rp_text r', vm_target = ''/var/www/html'', vm_read_only = False\<rparr>], cs_user := us\<rparr>)) rs
        (logged_call (SecretReveal org key) r p w)) Ok Err"
        using mount [OF j, where im = im and en = "en r" and us = us] by simp
    qed
    show ?thesis
      unfolding with_spec_def Let_def using True mount [OF assms(1)] reveal
      by (auto split: option.split json.split list.split)
  qed
qed

text \<open>The steps of a provisioning keep their logs justified.\<close>

lemmas provision_step_defs = validate_project_step_def prepare_workspace_step_def create_database_step_def
  create_container_step_def start_container_step_def health_check_step_def register_application_step_def
  activate_project_step_def

lemma harmless_simps [simp]:
  "harmless (FsMkdirAll x)" "harmless (FsRemove x)" "harmless (FsAbsPath x)" "harmless (DbEnsure x y z)"
  "harmless (CtCreate s)" "harmless (CtStart x)" "harmless (CtStop x)" "harmless (CtInspect x)"
  "harmless (SecretSet o' k v)" "harmless (SecretReveal o' k)" "harmless (SecretDelete o' k)"
  by (simp_all add: harmless_def)

lemma validate_project_keeps: "step_keeps (before P i) (\<lambda>k. grounded P i) 0 (validate_project_step P e org i)"
  by (rule step_keeps_ends)
     (auto simp: validate_project_step_def before_def grounded_def rs_get_def split: sum.split intro!: ends_status_step)

lemma prepare_workspace_keeps: "step_keeps (before P i) (\<lambda>k. grounded P i) 1 (prepare_workspace_step P)"
  by (rule step_keeps_ends)
     (auto simp: prepare_workspace_step_def before_def Let_def intro!: ends_with_call ends_just_call grounded_call)

lemma grounded_db_created:
  "grounded P i rs w \<Longrightarrow> rp_err r = None \<Longrightarrow>
   grounded P i (rs_put ''db_created'' (JBool (rp_flag r)) rs) (logged_call (DbEnsure (db_name P i (loaded_slug w)) u pw) r p w)"
  unfolding grounded_def by (auto intro!: justified_snoc created_snoc simp: created_db_def)

lemma create_database_keeps: "step_keeps (before P i) (\<lambda>k. grounded P i) 2 (create_database_step P e org i)"
proof (rule step_keeps_ends)
  show "os_run (create_database_step P e org i) = Some (the (os_run (create_database_step P e org i)))"
    by (simp add: create_database_step_def)
  show "ends (the (os_run (create_database_step P e org i)) poll rs w) (before P i (Suc 2)) (grounded P i)" if b: "before P i 2 rs w" for poll rs w
  proof (cases "loaded_kind w = ''wordpress'' \<and> in_random P \<noteq> None")
    case False
    then show ?thesis using b by (auto simp: create_database_step_def before_def Let_def split: option.split)
  next
    case True
    then obtain pw where pw: "in_random P = Some pw" by auto
    let ?c = "DbEnsure (db_name P i (loaded_slug w)) (db_user P i) pw"
    have g: "grounded P i rs w" using b by (simp add: before_def)
    have c: "grounded P i (rs_put ''db_created'' (JBool (rp_flag r)) rs) (logged_call ?c r p w)" if "rp_err r = None" for r p
      using grounded_db_created [OF g that] .
    have cT: "grounded P i (rs_put ''db_created'' (JBool True) rs) (logged_call ?c r p w)" if "rp_err r = None" "rp_flag r" for r p
      using c [OF that(1), of p] that(2) by simp
    have cF: "grounded P i (rs_put ''db_created'' (JBool False) rs) (logged_call ?c r p w)" if "rp_err r = None" "\<not> rp_flag r" for r p
      using c [OF that(1), of p] that(2) by simp
    show ?thesis
      using True pw g
      by (auto simp: create_database_step_def before_def Let_def grounded_put_other
          intro!: ends_with_call [where c = ?c] ends_with_call [where c = "SecretSet _ _ _"] grounded_call [where c = "SecretSet _ _ _"]
          grounded_call [OF g] cT cF)
  qed
  show "case os_undo (create_database_step P e org i) of None \<Rightarrow> \<forall>rs w. grounded P i rs w \<longrightarrow> grounded P i rs w
      | Some u \<Rightarrow> \<forall>poll rs w. grounded P i rs w \<longrightarrow> ends (u poll rs w) (grounded P i) (grounded P i)"
  proof -
    have "grounded P i rs (logged_call (DbDrop (db_name P i (loaded_slug w)) (db_user P i)) r p w)"
      if "grounded P i rs w" "rs_get ''db_created'' rs = Some (JBool True)" for rs w r p
      using that unfolding grounded_def by (auto intro!: justified_snoc created_snoc)
    then show ?thesis
      by (auto simp: create_database_step_def Let_def
          intro!: ends_with_call ends_just_call grounded_call [where c = "SecretDelete _ _"])
  qed
qed

lemma create_container_keeps: "step_keeps (before P i) (\<lambda>k. grounded P i) 3 (create_container_step P org i)"
proof (rule step_keeps_ends)
  show "os_run (create_container_step P org i) = Some (the (os_run (create_container_step P org i)))"
    by (simp add: create_container_step_def)
  have created: "grounded P i (rs_put ''container_created'' (JBool (rp_flag r)) rs) (logged_call (CtCreate spec) r p w)"
    if "grounded P i rs w" "rp_err r = None" "cs_name spec = ContainerName (loaded_slug w)" for rs w r p spec
    using that unfolding grounded_def by (auto intro!: justified_snoc created_snoc simp: created_container_def)
  show "ends (the (os_run (create_container_step P org i)) poll rs w) (before P i (Suc 3)) (grounded P i)" if b: "before P i 3 rs w" for poll rs w
    using b unfolding create_container_step_def
    by (auto simp: before_def intro!: ends_with_spec [where J = "grounded P i rs"] ends_with_call created
        grounded_call [where c = "FsAbsPath _"] grounded_call [where c = "SecretReveal _ _"] grounded_call [of P i rs _ "CtCreate _"])
  have "grounded P i rs (logged_call (CtRemove (ContainerName (loaded_slug w))) r p w)"
    if "grounded P i rs w" "rs_get ''container_created'' rs = Some (JBool True)" for rs w r p
    using that unfolding grounded_def by (auto intro!: justified_snoc created_snoc)
  then show "case os_undo (create_container_step P org i) of None \<Rightarrow> \<forall>rs w. grounded P i rs w \<longrightarrow> grounded P i rs w
      | Some u \<Rightarrow> \<forall>poll rs w. grounded P i rs w \<longrightarrow> ends (u poll rs w) (grounded P i) (grounded P i)"
    by (auto simp: create_container_step_def intro!: ends_call_unless_missing)
qed

lemma start_container_keeps: "step_keeps (before P i) (\<lambda>k. grounded P i) 4 (start_container_step P)"
  by (rule step_keeps_ends)
     (auto simp: start_container_step_def before_def intro!: ends_just_call ends_call_unless_missing grounded_call)

lemma health_check_keeps: "step_keeps (before P i) (\<lambda>k. grounded P i) 5 (health_check_step P)"
  by (rule step_keeps_ends) (auto simp: health_check_step_def before_def intro!: ends_with_call grounded_call)

lemma register_application_keeps: "step_keeps (before P i) (\<lambda>k. grounded P i) 6 (register_application_step P e org i)"
  by (rule step_keeps_ends)
     (auto simp: register_application_step_def before_def Let_def grounded_put_other split: option.split)

lemma activate_project_keeps: "step_keeps (before P i) (\<lambda>k. grounded P i) 7 (activate_project_step P e org i)"
  by (rule step_keeps_ends) (auto simp: activate_project_step_def before_def intro!: ends_status_step)

lemma provision_keeps_grounded: "steps_keep (before P i) (\<lambda>k. grounded P i) 0 (provision_steps P e org i)"
  using validate_project_keeps [of P i e org] prepare_workspace_keeps [of P i] create_database_keeps [of P i e org]
    create_container_keeps [of P i org] start_container_keeps [of P i] health_check_keeps [of P i]
    register_application_keeps [of P i e org] activate_project_keeps [of P i e org]
  by (simp add: provision_steps_def numeral_eq_Suc)

section \<open>The workspace\<close>

definition prepared :: "string \<Rightarrow> ('p, 'z) hosting_scheme \<Rightarrow> bool" where
  "prepared slug w \<longleftrightarrow> (\<exists>r. (FsMkdirAll (WorkspacePath slug @ ''/data''), r) \<in> set (h_calls w))"

definition wiped :: "string \<Rightarrow> ('p, 'z) hosting_scheme \<Rightarrow> bool" where
  "wiped slug w \<longleftrightarrow> (\<exists>r. (FsRemove (WorkspacePath slug), r) \<in> set (h_calls w))"

definition wipe_inv :: "uuid \<Rightarrow> uuid \<Rightarrow> string \<Rightarrow> nat \<Rightarrow> ('p, 'z) hosting_scheme \<Rightarrow> bool" where
  "wipe_inv org i slug k w \<longleftrightarrow>
     (if k = 0 then h_calls w = [] \<and> map_option pj_slug (find (live_project org i) (projects w)) = Some slug
      else loaded_slug w = slug \<and> (k = 1 \<longrightarrow> h_calls w = []))"

definition wipe_bad :: "string \<Rightarrow> nat \<Rightarrow> ('p, 'z) hosting_scheme \<Rightarrow> bool" where
  "wipe_bad slug k w \<longleftrightarrow> (if k \<le> 1 then prepared slug w \<longrightarrow> wiped slug w else loaded_slug w = slug)"

lemma wipe_inv_bad: "wipe_inv org i slug k w \<Longrightarrow> wipe_bad slug k w"
  by (auto simp: wipe_inv_def wipe_bad_def prepared_def split: if_splits)

lemma get_project_System: "get_project f (System_ctx org) i w = load_project f org i w"
proof -
  have "Require (System_ctx org) ''projects.read'' = None" by (simp only: Require_None authorised_System)
  moreover have "org_id (System_ctx org) = org" by (simp add: System_ctx_def)
  ultimately show ?thesis unfolding get_project_def by (simp only: option.case)
qed

lemma get_project_Inr:
  "get_project f (System_ctx org) i w = Inr v \<Longrightarrow> find (live_project org i) (projects w) = Some (pv_row v)"
  by (auto simp: get_project_System load_project_def scan_project_def split: option.splits if_splits)

lemma provision_keeps_wipe:
  "steps_keep (\<lambda>k rs. wipe_inv org i slug k) (\<lambda>k rs. wipe_bad slug k) 0 (provision_steps P e org i)"
proof -
  let ?I = "\<lambda>k (rs :: run_state). wipe_inv org i slug k" and ?B = "\<lambda>k (rs :: run_state). wipe_bad slug k"
  have late: "step_keeps ?I ?B k st"
    if "1 < k" and "os_run st = Some f" and "\<And>poll rs w. loaded_slug w = slug \<Longrightarrow> ends (f poll rs w) (\<lambda>rs w. loaded_slug w = slug) (\<lambda>rs w. loaded_slug w = slug)"
      and "\<And>u poll rs w. os_undo st = Some u \<Longrightarrow> loaded_slug w = slug \<Longrightarrow> ends (u poll rs w) (\<lambda>rs w. loaded_slug w = slug) (\<lambda>rs w. loaded_slug w = slug)"
    for k st f
  proof -
    have eq: "wipe_inv org i slug (Suc k) = (\<lambda>w. loaded_slug w = slug)" "wipe_inv org i slug k = (\<lambda>w. loaded_slug w = slug)"
      "wipe_bad slug (Suc k) = (\<lambda>w. loaded_slug w = slug)" "wipe_bad slug k = (\<lambda>w. loaded_slug w = slug)"
      using that(1) by (auto simp: wipe_inv_def wipe_bad_def fun_eq_iff)
    show ?thesis
      by (rule step_keeps_ends [OF that(2)]) (use that(3,4) in \<open>auto simp: eq split: option.split\<close>)
  qed
  have 0: "step_keeps ?I ?B 0 (validate_project_step P e org i)"
    by (rule step_keeps_ends)
       (auto simp: validate_project_step_def wipe_inv_def wipe_bad_def prepared_def wiped_def loaded_slug_def set_status_def
         dest!: get_project_Inr split: sum.split intro!: ends_status_step)
  have 1: "step_keeps ?I ?B (Suc 0) (prepare_workspace_step P)"
    by (rule step_keeps_ends)
       (auto simp: prepare_workspace_step_def Let_def wipe_inv_def wipe_bad_def wiped_def intro!: ends_with_call ends_just_call)
  have 2: "step_keeps ?I ?B 2 (create_database_step P e org i)"
    by (rule late) (auto simp: create_database_step_def Let_def split: option.split intro!: ends_with_call ends_just_call)
  have 3: "step_keeps ?I ?B 3 (create_container_step P org i)"
    by (rule late) (auto simp: create_container_step_def intro!: ends_with_spec [where J = "\<lambda>w. loaded_slug w = slug"]
        ends_with_call ends_call_unless_missing)
  have 4: "step_keeps ?I ?B 4 (start_container_step P)"
    by (rule late) (auto simp: start_container_step_def intro!: ends_just_call ends_call_unless_missing)
  have 5: "step_keeps ?I ?B 5 (health_check_step P)"
    by (rule late) (auto simp: health_check_step_def intro!: ends_with_call)
  have 6: "step_keeps ?I ?B 6 (register_application_step P e org i)"
    by (rule late) (auto simp: register_application_step_def Let_def split: option.split)
  have 7: "step_keeps ?I ?B 7 (activate_project_step P e org i)"
    by (rule late) (auto simp: activate_project_step_def intro!: ends_status_step)
  show ?thesis using 0 1 2 3 4 5 6 7 by (simp add: provision_steps_def numeral_eq_Suc)
qed

section \<open>The project's status\<close>

definition project_status :: "uuid \<Rightarrow> uuid \<Rightarrow> ('p, 'z) hosting_scheme \<Rightarrow> string option" where
  "project_status org i w = map_option pj_status (find (live_project org i) (projects w))"

lemma find_update_where: "(\<And>r. q r \<Longrightarrow> q (f r)) \<Longrightarrow> find q (update_where q f tbl) = map_option f (find q tbl)"
  by (induction tbl) auto

lemma project_status_set:
  "project_status org i (set_status False t org i st w) = (if project_status org i w = None then None else Some st)"
proof -
  have "find (live_project org i) (update_where (live_project org i) (\<lambda>p. p\<lparr>pj_status := st, pj_updated := t\<rparr>) (projects w)) =
      map_option (\<lambda>p. p\<lparr>pj_status := st, pj_updated := t\<rparr>) (find (live_project org i) (projects w))"
    by (rule find_update_where) (simp add: live_project_def)
  then show ?thesis by (simp add: project_status_def set_status_def option.map_comp comp_def)
qed

lemma project_status_frame [simp]:
  "project_status org i (logged_call c r p w) = project_status org i w"
  "project_status org i (add_database_row e org' j db u key w) = project_status org i w"
  "project_status org i (w\<lparr>apps := x\<rparr>) = project_status org i w"
  "project_status org i (w\<lparr>project_dbs := y\<rparr>) = project_status org i w"
  "project_status org i (w\<lparr>h_loaded := z\<rparr>) = project_status org i w"
  by (simp_all add: project_status_def add_database_row_def Let_def)

definition running_seen :: "('p, 'z) hosting_scheme \<Rightarrow> bool" where
  "running_seen w \<longleftrightarrow> (\<exists>r. (CtInspect (ContainerName (loaded_slug w)), r) \<in> set (h_calls w) \<and> rp_flag r \<and> rp_state r = ''running'')"

definition life_inv :: "uuid \<Rightarrow> uuid \<Rightarrow> project_row list \<Rightarrow> nat \<Rightarrow> ('p, 'z) hosting_scheme \<Rightarrow> bool" where
  "life_inv org i ps k w \<longleftrightarrow>
     (if k = 0 then projects w = ps
      else project_status org i w = Some (if k = 8 then ''active'' else ''provisioning'') \<and> (6 \<le> k \<longrightarrow> running_seen w))"

definition life_bad :: "uuid \<Rightarrow> uuid \<Rightarrow> project_row list \<Rightarrow> nat \<Rightarrow> ('p, 'z) hosting_scheme \<Rightarrow> bool" where
  "life_bad org i ps k w \<longleftrightarrow> (if k = 0 then projects w = ps \<or> project_status org i w = Some ''failed''
     else project_status org i w \<noteq> None)"

lemma life_inv_bad: "life_inv org i ps k w \<Longrightarrow> life_bad org i ps k w"
  by (auto simp: life_inv_def life_bad_def split: if_splits)

lemma running_seen_frame [simp]:
  "running_seen (w\<lparr>apps := x\<rparr>) = running_seen w" "running_seen (set_status f t org i st w) = running_seen w"
  by (simp_all add: running_seen_def)

lemma get_project_status: "get_project f (System_ctx org) i w = Inr v \<Longrightarrow> project_status org i w = Some (pj_status (pv_row v))"
  by (auto simp: project_status_def dest!: get_project_Inr)

lemma provision_keeps_life:
  fixes P :: "'p infra"
  assumes "fault e = (\<lambda>_. False)" and "find (live_project org i) ps \<noteq> None"
  shows "steps_keep (\<lambda>k rs. life_inv org i ps k) (\<lambda>k rs. life_bad org i ps k) 0
      (provision_steps P e org i :: ('p, 'z) hosting_scheme op_step list)"
proof -
  let ?I = "\<lambda>k (rs :: run_state). life_inv org i ps k" and ?B = "\<lambda>k (rs :: run_state). life_bad org i ps k"
  let ?S = "\<lambda>w. project_status org i w = Some ''provisioning''" and ?N = "\<lambda>w. project_status org i w \<noteq> None"
  have mid: "step_keeps ?I ?B k st"
    if "0 < k" "k < 5" and "os_run st = Some f" and "\<And>poll rs w. ?S w \<Longrightarrow> ends (f poll rs w) (\<lambda>rs. ?S) (\<lambda>rs. ?S)"
      and "\<And>u poll rs w. os_undo st = Some u \<Longrightarrow> ?N w \<Longrightarrow> ends (u poll rs w) (\<lambda>rs. ?N) (\<lambda>rs. ?N)"
    for k st f
  proof -
    have eq: "life_inv org i ps (Suc k) = ?S" "life_inv org i ps k = ?S" "life_bad org i ps (Suc k) = ?N" "life_bad org i ps k = ?N"
      using that(1,2) by (auto simp: life_inv_def life_bad_def fun_eq_iff)
    note step = that(4)
    have run: "ends (f poll rs w) (\<lambda>rs. ?S) (\<lambda>rs. ?N)" if "?S w" for poll rs w
      by (rule ends_weaken [OF step [OF that]]) auto
    show ?thesis
      by (rule step_keeps_ends [OF that(3)]) (use run that(5) in \<open>auto simp: eq split: option.split\<close>)
  qed
  obtain p0 where p0: "find (live_project org i) ps = Some p0" using assms(2) by auto
  have known: "get_project False (System_ctx org) i w = Inr (scan_project w p0)" if "projects w = ps" for w :: "('p, 'z) hosting_scheme"
    using p0 that by (simp add: get_project_System load_project_def)
  have live: "project_status org i w = Some (pj_status p0)" if "projects w = ps" for w :: "('p, 'z) hosting_scheme"
    using p0 that by (simp add: project_status_def)
  have 0: "step_keeps ?I ?B 0 (validate_project_step P e org i :: ('p, 'z) hosting_scheme op_step)"
    using assms known live
    by (intro step_keeps_ends)
       (auto simp: validate_project_step_def life_inv_def life_bad_def status_step_def project_status_set
         dest!: get_project_status split: sum.split)
  have 1: "step_keeps ?I ?B 1 (prepare_workspace_step P)"
    by (rule mid) (auto simp: prepare_workspace_step_def Let_def intro!: ends_with_call ends_just_call)
  have 2: "step_keeps ?I ?B 2 (create_database_step P e org i)"
    by (rule mid) (auto simp: create_database_step_def Let_def split: option.split intro!: ends_with_call ends_just_call)
  have 3: "step_keeps ?I ?B 3 (create_container_step P org i)"
    by (rule mid) (auto simp: create_container_step_def intro!: ends_with_spec [where J = "?S"]
        ends_with_call ends_call_unless_missing)
  have 4: "step_keeps ?I ?B 4 (start_container_step P)"
    by (rule mid) (auto simp: start_container_step_def intro!: ends_just_call ends_call_unless_missing)
  have 5: "step_keeps ?I ?B 5 (health_check_step P)"
    by (rule step_keeps_ends)
       (auto simp: health_check_step_def life_inv_def life_bad_def running_seen_def intro!: ends_with_call)
  have 6: "step_keeps ?I ?B 6 (register_application_step P e org i)"
    using assms by (intro step_keeps_ends)
       (auto simp: register_application_step_def Let_def life_inv_def life_bad_def split: option.split)
  have 7: "step_keeps ?I ?B 7 (activate_project_step P e org i)"
    using assms by (intro step_keeps_ends)
       (auto simp: activate_project_step_def status_step_def project_status_set life_inv_def life_bad_def)
  show ?thesis using 0 1 2 3 4 5 6 7 by (simp add: provision_steps_def numeral_eq_Suc)
qed


section \<open>Properties\<close>

lemma provision_factory:
  "df_factory (provision_definition P oe) org i pl = Inr op \<Longrightarrow>
   op_body op = StepperOp (provision_steps P oe org i) \<and> op_validate op = provision_validate P oe org i"
  by (auto simp: provision_definition_def split: if_splits)

definition provision_op :: "'p infra \<Rightarrow> env \<Rightarrow> uuid \<Rightarrow> uuid \<Rightarrow> ('p, 'z) hosting_scheme operation" where
  "provision_op P oe org i =
     \<lparr>op_validate = provision_validate P oe org i, op_body = StepperOp (provision_steps P oe org i)\<rparr>"

lemma provision_op_sel [simp]:
  "op_body (provision_op P oe org i) = StepperOp (provision_steps P oe org i)"
  "op_validate (provision_op P oe org i) = provision_validate P oe org i"
  by (simp_all add: provision_op_def)

lemma provision_factory_op: "df_factory (provision_definition P oe) org i pl = Inr op \<Longrightarrow> op = provision_op P oe org i"
  by (auto simp: provision_definition_def provision_op_def split: if_splits)

definition job_of :: "'w jobs_db \<Rightarrow> job \<Rightarrow> uuid \<Rightarrow> bool" where
  "job_of d j i \<longleftrightarrow> (\<forall>row. find (\<lambda>r. jr_id r = j_id j) (jobs d) = Some row \<longrightarrow> coalesce (jr_project row) uuid_nil = i)"

lemma steps_keep_False: "steps_keep (\<lambda>k rs w. False) (\<lambda>k rs w. False) i sts"
  by (induction sts arbitrary: i) (auto simp: step_keeps_def step_tracks_def)

text \<open>
  C35: A provisioning run drops a database or removes a container only when a call of that very run
  created it, however the run ends and whatever the providers answer.
\<close>

theorem provision_destroys_only_its_own:
  assumes "engine_execute e c (provision_definition P oe) j d = (r, d')" and "h_calls (outside d) = []"
  shows "justified (h_calls (outside d'))"
proof -
  have "\<exists>i. job_of d j i" unfolding job_of_def by (cases "find (\<lambda>r. jr_id r = j_id j) (jobs d)") auto
  then obtain i where "job_of d j i" ..
  then have fac: "op' = provision_op P oe (j_org j) i"
    if "find (\<lambda>r. jr_id r = j_id j) (jobs d) = Some row"
      "df_factory (provision_definition P oe) (j_org j) (coalesce (jr_project row) uuid_nil) (j_payload j) = Inr op'" for row op'
    using that provision_factory_op by (auto simp: job_of_def)
  show ?thesis
    by (rule execution_keeps [OF assms(1) fac provision_op_sel(1) provision_keeps_grounded [of P i oe "j_org j"]])
       (use assms(2) in \<open>auto simp: before_def grounded_def rs_get_def\<close>)
qed

text \<open>
  C36: Workspaces are shared between organizations: slugs are unique within one organization only, and a
  failed provisioning that had begun to prepare its workspace removes the directory of its slug, which
  is the directory of every project with that slug in any organization.
\<close>

theorem failed_provision_wipes_shared_workspace:
  assumes "engine_execute e c (provision_definition P oe) j d = (r, d')" and "\<And>res. r \<noteq> JobDone res"
    and "h_calls (outside d) = []" and "job_of d j i"
    and "find (live_project (j_org j) i) (projects (outside d)) = Some p"
    and "prepared (pj_slug p) (outside d')"
    and "other \<in> set (projects (outside d))" and "pj_slug other = pj_slug p"
  shows "wiped (pj_slug other) (outside d')"
proof -
  have fac: "op' = provision_op P oe (j_org j) i"
    if "find (\<lambda>r. jr_id r = j_id j) (jobs d) = Some row"
      "df_factory (provision_definition P oe) (j_org j) (coalesce (jr_project row) uuid_nil) (j_payload j) = Inr op'" for row op'
    using that assms(4) provision_factory_op by (auto simp: job_of_def)
  have bad: "wipe_bad (pj_slug p) k w" if "k < length (provision_steps P oe (j_org j) i :: ('a, 'b) hosting_scheme op_step list)"
      "wipe_inv (j_org j) i (pj_slug p) k w" for k and rs :: run_state and w :: "('a, 'b) hosting_scheme"
    using that(2) by (rule wipe_inv_bad)
  show ?thesis
    by (rule execution_keeps [OF assms(1) fac provision_op_sel(1) provision_keeps_wipe bad])
       (use assms in \<open>auto simp: wipe_inv_def wipe_bad_def prepared_def\<close>)
qed

text \<open>
  With a working database a provisioning run that succeeds leaves the project active after its
  container was seen running, and one that does not leaves it failed or has touched no project at all.
\<close>

theorem provision_sets_status:
  assumes "engine_execute e c (provision_definition P oe) j d = (r, d')" and "fault oe = (\<lambda>_. False)" and "job_of d j i"
  shows "case r of
      JobDone res \<Rightarrow> project_status (j_org j) i (outside d') = Some ''active'' \<and> running_seen (outside d')
    | _ \<Rightarrow> project_status (j_org j) i (outside d') = Some ''failed'' \<or> projects (outside d') = projects (outside d)"
proof -
  have fac: "op' = provision_op P oe (j_org j) i"
    if "find (\<lambda>r. jr_id r = j_id j) (jobs d) = Some row"
      "df_factory (provision_definition P oe) (j_org j) (coalesce (jr_project row) uuid_nil) (j_payload j) = Inr op'" for row op'
    using that assms(3) provision_factory_op by (auto simp: job_of_def)
  show ?thesis
  proof (cases "find (live_project (j_org j) i) (projects (outside d)) = None")
    case True
    then obtain x where x: "provision_validate P oe (j_org j) i (outside d) = Some x"
      using assms(2) by (simp add: provision_validate_def get_project_System load_project_def)
    show ?thesis
      by (rule execution_keeps [OF assms(1) fac provision_op_sel(1) steps_keep_False]) (auto simp: x split: job_outcome.split)
  next
    case False
    show ?thesis
      by (rule execution_keeps [OF assms(1) fac provision_op_sel(1) provision_keeps_life [OF assms(2) False]])
         (auto simp: life_inv_bad life_inv_def life_bad_def provision_steps_def split: job_outcome.split)
  qed
qed

section \<open>A concrete run\<close>

definition demo_owner :: "uuid \<Rightarrow> auth_context" where
  "demo_owner org = \<lparr>actor_type = ActorUser, actor_id = 7, actor_label = ''ada'', org_id = org,
     permissions = {''projects.create'', ''projects.read''}, session_id = 0, correlation_id = []\<rparr>"

definition demo_project :: project_input where
  "demo_project = \<lparr>pi_name = ''Shop'', pi_slug = ''shop'', pi_kind = ''application'',
     pi_client = None, pi_node = None, pi_description = [], pi_config = [(''image'', JStr ''nginx'')]\<rparr>"

text \<open>Two organizations create a project with the same slug.\<close>

definition demo_world :: "unit hosting" where
  "demo_world = snd (create_project (calm 2 20) (demo_owner 2) demo_project
     (snd (create_project (calm 1 10) (demo_owner 1) demo_project
       \<lparr>clients = [], projects = [], project_dbs = [], apps = [], nodes = [], projects_audit = [],
        h_calls = [], h_prov = (), h_loaded = None\<rparr>)))"

text \<open>Providers that do what they are asked, with containers found in the given state.\<close>

definition demo_infra :: "string \<Rightarrow> unit infra" where
  "demo_infra st = \<lparr>in_containers = True, in_fs = True, in_db = True, in_backups = True, in_secrets = True,
     in_serve = (\<lambda>c p. (ok_reply\<lparr>rp_state := st\<rparr>, p)), in_network = [], in_db_host = [], in_base_domain = [],
     in_workload_user = [], in_uuid_text = (\<lambda>i. ''0-0''), in_parse_uuid = (\<lambda>_. None), in_config_text = (\<lambda>_. []), in_random = Some ''pw''\<rparr>"

definition demo_run_job :: "uuid \<Rightarrow> job_row" where
  "demo_run_job i = (blank_row (calm 3 90) 1 ''op:project.provision'' (JObj []))\<lparr>jr_project := Some i\<rparr>"

definition demo_jobs :: "unit hosting jobs_db" where
  "demo_jobs = \<lparr>jobs = [demo_run_job 10], job_steps = [], notices = [], jobs_audit = [], outside = demo_world\<rparr>"

definition demo_provision :: "string \<Rightarrow> job_outcome \<times> unit hosting jobs_db" where
  "demo_provision st = engine_execute (calm 4 91) \<lparr>ce_before = (\<lambda>_. False), ce_during = (\<lambda>_ _. False)\<rparr>
     (provision_definition (demo_infra st) (calm 5 92)) (scan_job 600 (demo_run_job 10)) demo_jobs"

lemma demo_provision_ends:
  "(case fst (demo_provision ''running'') of JobDone _ \<Rightarrow> True | _ \<Rightarrow> False)"
  "(case fst (demo_provision ''exited'') of JobError _ \<Rightarrow> True | _ \<Rightarrow> False)"
  by code_simp+

lemma demo_job_of: "job_of demo_jobs (scan_job 600 (demo_run_job 10)) 10"
  by (simp add: job_of_def demo_jobs_def demo_run_job_def blank_row_def scan_job_def coalesce_def)

lemma demo_world_facts: "h_calls demo_world = []" "map pj_slug (projects demo_world) = [''shop'', ''shop'']"
    "map pj_org (projects demo_world) = [1, 2]" "map pj_id (projects demo_world) = [10, 20]" "map pj_deleted (projects demo_world) = [None, None]"
  by code_simp+

lemma demo_org: "j_org (scan_job 600 (demo_run_job i)) = 1"
  by (simp add: demo_run_job_def scan_job_def blank_row_def)

lemma demo_outside: "outside demo_jobs = demo_world"
  by (simp add: demo_jobs_def)

lemma demo_prepared: "\<exists>x \<in> set (h_calls (outside (snd (demo_provision ''exited'')))). fst x = FsMkdirAll (WorkspacePath ''shop'' @ ''/data'')"
  by code_simp

lemma demo_run:
  "engine_execute (calm 4 91) \<lparr>ce_before = (\<lambda>_. False), ce_during = (\<lambda>_ _. False)\<rparr>
     (provision_definition (demo_infra st) (calm 5 92)) (scan_job 600 (demo_run_job 10)) demo_jobs
   = (fst (demo_provision st), snd (demo_provision st))"
  by (simp add: demo_provision_def)

theorem provision_destroys_only_its_own_witness:
  "justified (h_calls (outside (snd (demo_provision ''exited''))))"
  by (rule provision_destroys_only_its_own [OF demo_run]) (simp add: demo_outside demo_world_facts)

theorem provision_sets_status_witness:
  "project_status 1 10 (outside (snd (demo_provision ''running''))) = Some ''active''"
proof -
  show ?thesis
    using provision_sets_status [OF demo_run [of "''running''"] _ demo_job_of, unfolded demo_org] demo_provision_ends(1)
    by (simp split: job_outcome.splits)
qed

theorem failed_provision_wipes_shared_workspace_witness:
  "\<exists>other \<in> set (projects demo_world). pj_org other = 2 \<and> wiped (pj_slug other) (outside (snd (demo_provision ''exited'')))"
proof -
  obtain p q where pq: "projects demo_world = [p, q]" "pj_slug p = ''shop''" "pj_slug q = ''shop''" "pj_org p = 1" "pj_org q = 2" "pj_id p = 10"
      "pj_deleted p = None"
    using demo_world_facts by (auto simp: map_eq_Cons_conv)
  have "wiped (pj_slug q) (outside (snd (demo_provision ''exited'')))"
  proof (rule failed_provision_wipes_shared_workspace [OF demo_run _ _ demo_job_of])
    show "fst (demo_provision ''exited'') \<noteq> JobDone res" for res using demo_provision_ends(2) by auto
    show "h_calls (outside demo_jobs) = []" by (simp add: demo_outside demo_world_facts)
    show "find (live_project (j_org (scan_job 600 (demo_run_job 10))) 10) (projects (outside demo_jobs)) = Some p"
      using pq by (simp add: demo_outside live_project_def demo_org)
    show "prepared (pj_slug p) (outside (snd (demo_provision ''exited'')))"
      using demo_prepared pq by (auto simp: prepared_def)
  qed (use pq in \<open>simp_all add: demo_outside\<close>)
  then show ?thesis using pq by auto
qed

section \<open>Deleting a project\<close>

definition delete_inv :: "uuid \<Rightarrow> uuid \<Rightarrow> project_row list \<Rightarrow> nat \<Rightarrow> ('p, 'z) hosting_scheme \<Rightarrow> bool" where
  "delete_inv org i ps k w \<longleftrightarrow>
     (if k = 0 then projects w = ps else k = 5 \<or> project_status org i w = Some ''deleting'')"

definition delete_bad :: "uuid \<Rightarrow> uuid \<Rightarrow> project_row list \<Rightarrow> ('p, 'z) hosting_scheme \<Rightarrow> bool" where
  "delete_bad org i ps w \<longleftrightarrow> projects w = ps \<or> project_status org i w = Some ''deleting''"

lemma ends_remove_containers:
  assumes "J w" and "\<And>c r p w. J w \<Longrightarrow> J (logged_call c r p w)"
  shows "ends (remove_containers P ns rs w) (\<lambda>rs. J) (\<lambda>rs. J)"
  using assms(1)
proof (induction ns arbitrary: rs w)
  case (Cons n ns)
  obtain e rs' w' where c: "call_unless_missing P (CtRemove n) rs w = (e, rs', w')" by (metis prod_cases3)
  have "ends (call_unless_missing P (CtRemove n) rs w) (\<lambda>rs. J) (\<lambda>rs. J)"
    using Cons.prems assms(2) by (intro ends_call_unless_missing)
  then show ?case using Cons.IH [of w' rs'] by (cases e) (simp_all add: c)
qed simp

lemma ends_drop_databases:
  assumes "J w" and "\<And>c r p w. J w \<Longrightarrow> J (logged_call c r p w)" and "\<And>x w. J w \<Longrightarrow> J (w\<lparr>project_dbs := x\<rparr>)"
  shows "ends (drop_databases P e org k ds rs w) (\<lambda>rs. J) (\<lambda>rs. J)"
  using assms(1)
proof (induction ds arbitrary: k rs w)
  case (Cons d ds)
  obtain x rs1 w1 where c: "just_call P (DbDrop (pd_name d) (pd_user d)) rs w = (x, rs1, w1)" by (metis prod_cases3)
  have "ends (just_call P (DbDrop (pd_name d) (pd_user d)) rs w) (\<lambda>rs. J) (\<lambda>rs. J)"
    using Cons.prems assms(2) by (intro ends_just_call)
  then have w1: "J w1" by (cases x) (simp_all add: c)
  have secret: "J (snd (hcall P c w1))" for c using assms(2) [OF w1] hcall_logged [of P c w1] by auto
  have go: "ends (drop_databases P e org k' ds rs1 w') (\<lambda>rs. J) (\<lambda>rs. J)" if "J w'" for k' w'
    using Cons.IH [OF that] .
  show ?case
    using Cons.prems w1 secret [of "SecretDelete org (pd_secret_key d)"] c
    by (cases x) (auto simp: Let_def intro!: go assms(3))
qed simp

lemma get_project_live: "get_project f (System_ctx org) i w = Inr v \<Longrightarrow> project_status org i w \<noteq> None"
  by (auto dest: get_project_status)

lemma delete_keeps_mark:
  fixes P :: "'p infra"
  shows "steps_keep (\<lambda>k rs. delete_inv org i ps k) (\<lambda>k rs. delete_bad org i ps) 0
      (delete_steps P e org i :: ('p, 'z) hosting_scheme op_step list)"
proof -
  let ?I = "\<lambda>k (rs :: run_state). delete_inv org i ps k" and ?B = "\<lambda>k (rs :: run_state). delete_bad org i ps"
  let ?S = "\<lambda>w. project_status org i w = Some ''deleting''"
  have 0: "step_keeps ?I ?B 0 (mark_deleting_step e org i :: ('p, 'z) hosting_scheme op_step)"
    by (rule step_keeps_ends)
       (auto simp: mark_deleting_step_def delete_inv_def delete_bad_def status_step_def project_status_set
         dest!: get_project_live split: sum.split)
  have mid: "step_keeps ?I ?B k st"
    if "0 < k" "k < 4" and "os_run st = Some f" "os_undo st = None" and "\<And>poll rs w. ?S w \<Longrightarrow> ends (f poll rs w) (\<lambda>rs. ?S) (\<lambda>rs. ?S)"
    for k f and st :: "('p, 'z) hosting_scheme op_step"
    by (rule step_keeps_ends [OF that(3)])
       (use that in \<open>auto simp: delete_inv_def delete_bad_def intro: ends_weaken [OF that(5)]\<close>)
  have 1: "step_keeps ?I ?B 1 (remove_container_step P e org i :: ('p, 'z) hosting_scheme op_step)"
    by (rule mid) (auto simp: remove_container_step_def intro!: ends_remove_containers)
  have 2: "step_keeps ?I ?B 2 (drop_database_step P e org i :: ('p, 'z) hosting_scheme op_step)"
    by (rule mid) (auto simp: drop_database_step_def intro!: ends_drop_databases)
  have 3: "step_keeps ?I ?B 3 (remove_workspace_step P :: ('p, 'z) hosting_scheme op_step)"
    by (rule mid) (auto simp: remove_workspace_step_def intro!: ends_just_call)
  have 4: "step_keeps ?I ?B 4 (remove_records_step e org i :: ('p, 'z) hosting_scheme op_step)"
    by (rule step_keeps_ends) (auto simp: remove_records_step_def Let_def delete_inv_def delete_bad_def)
  show ?thesis using 0 1 2 3 4 by (simp add: delete_steps_def numeral_eq_Suc)
qed

lemma delete_factory_op:
  "df_factory (delete_definition P oe) org i pl = Inr op \<Longrightarrow>
   op = \<lparr>op_validate = delete_validate oe org i, op_body = StepperOp (delete_steps P oe org i)\<rparr>"
  by (auto simp: delete_definition_def split: if_splits)

lemma project_status_load:
  "project_status org i w = Some st \<Longrightarrow> \<exists>v. get_project False (System_ctx org) i w = Inr v \<and> pj_status (pv_row v) = st"
  by (auto simp: project_status_def get_project_System load_project_def scan_project_def)

text \<open>
  A deletion that failed after it had marked its project cannot be retried: the project stays in
  deleting, which the deletion refuses as already being deleted and the provisioning refuses as well.
\<close>

theorem failed_delete_cannot_be_retried:
  assumes "engine_execute e c (delete_definition P oe) j d = (r, d')" and "\<And>res. r \<noteq> JobDone res" and "job_of d j i"
    and "projects (outside d') \<noteq> projects (outside d)" and "\<not> fault oe' 0" and "\<not> fault oe' 10"
  shows "project_status (j_org j) i (outside d') = Some ''deleting'' \<and>
     delete_validate oe' (j_org j) i (outside d') = Some (ApiFailure (Conflict ''project is already being deleted'')) \<and>
     provision_validate P oe' (j_org j) i (outside d') \<noteq> None"
proof -
  have fac: "op' = \<lparr>op_validate = delete_validate oe (j_org j) i, op_body = StepperOp (delete_steps P oe (j_org j) i)\<rparr>"
    if "find (\<lambda>r. jr_id r = j_id j) (jobs d) = Some row"
      "df_factory (delete_definition P oe) (j_org j) (coalesce (jr_project row) uuid_nil) (j_payload j) = Inr op'" for row op'
    using that assms(3) delete_factory_op by (auto simp: job_of_def)
  have s: "project_status (j_org j) i (outside d') = Some ''deleting''"
    by (rule execution_keeps [OF assms(1) fac _ delete_keeps_mark [of "j_org j" i "projects (outside d)"]])
       (use assms(2,4) in \<open>auto simp: delete_inv_def delete_bad_def delete_steps_def split: if_splits\<close>)
  then obtain v where "get_project False (System_ctx (j_org j)) i (outside d') = Inr v" "pj_status (pv_row v) = ''deleting''"
    using project_status_load by blast
  then show ?thesis using s assms(5,6) by (simp add: delete_validate_def provision_validate_def Let_def)
qed

text \<open>A deletion whose file system fails.\<close>

definition broken_infra :: "unit infra" where
  "broken_infra = (demo_infra ''running'')\<lparr>in_serve := (\<lambda>c p. (case c of
     FsRemove x \<Rightarrow> ok_reply\<lparr>rp_err := Some (OtherError ''disk'')\<rparr> | _ \<Rightarrow> ok_reply, p))\<rparr>"

definition demo_delete :: "job_outcome \<times> unit hosting jobs_db" where
  "demo_delete = engine_execute (calm 4 91) \<lparr>ce_before = (\<lambda>_. False), ce_during = (\<lambda>_ _. False)\<rparr>
     (delete_definition broken_infra (calm 5 92)) (scan_job 600 (demo_run_job 10)) demo_jobs"

lemma demo_delete_fails:
  "(case fst demo_delete of JobError _ \<Rightarrow> True | _ \<Rightarrow> False)"
  "map pj_status (projects (outside (snd demo_delete))) \<noteq> map pj_status (projects (outside demo_jobs))"
  by code_simp+

theorem failed_delete_cannot_be_retried_witness:
  "project_status 1 10 (outside (snd demo_delete)) = Some ''deleting'' \<and>
   delete_validate (calm 9 93) 1 10 (outside (snd demo_delete)) = Some (ApiFailure (Conflict ''project is already being deleted''))"
proof -
  have e: "engine_execute (calm 4 91) \<lparr>ce_before = (\<lambda>_. False), ce_during = (\<lambda>_ _. False)\<rparr>
     (delete_definition broken_infra (calm 5 92)) (scan_job 600 (demo_run_job 10)) demo_jobs = (fst demo_delete, snd demo_delete)"
    by (simp add: demo_delete_def)
  have "fst demo_delete \<noteq> JobDone res" for res using demo_delete_fails(1) by auto
  moreover have "projects (outside (snd demo_delete)) \<noteq> projects (outside demo_jobs)" using demo_delete_fails(2) by metis
  ultimately show ?thesis
    using failed_delete_cannot_be_retried [OF e _ demo_job_of, of "calm 9 93", unfolded demo_org] by simp
qed

end
