(* ===== verification/Backups.thy ===== *)
theory Backups
  imports Provisioning Go_Encoding
begin

text \<open>
  internal/backups/backups.go: backups as rows and artifacts, schedules, retention, and the four
  operations. The job id of a row is not kept; targets are a list of ids, since nothing writes them.
\<close>

section \<open>State\<close>

record backup_row =
  bk_id :: uuid
  bk_org :: uuid
  bk_project :: uuid
  bk_policy :: "uuid option"
  bk_target :: "uuid option"
  bk_type :: string
  bk_status :: string
  bk_size :: int
  bk_sum :: "string option"
  bk_ref :: "string option"
  bk_retention :: "time option"
  bk_verified :: "time option"
  bk_error :: "string option"
  bk_created :: time
  bk_finished :: "time option"

record restore_row =
  rt_id :: uuid
  rt_org :: uuid
  rt_project :: uuid
  rt_backup :: uuid
  rt_safety :: "uuid option"
  rt_status :: string
  rt_finished :: "time option"

record policy_row =
  bp_id :: uuid
  bp_org :: uuid
  bp_project :: uuid
  bp_schedule :: string
  bp_type :: string
  bp_days :: int
  bp_enabled :: bool
  bp_last :: "time option"

text \<open>
  \<open>bk_loaded\<close>, \<open>bk_restore\<close> and \<open>bk_safety\<close> are what a running restore keeps in its receiver and its
  closures: the backup, the id of its row in \<open>restores\<close> and the id of its safety snapshot.
\<close>

record 'p hosted = "'p hosting" +
  backups :: "backup_row list"
  restores :: "restore_row list"
  policies :: "policy_row list"
  targets :: "uuid list"
  bk_loaded :: "backup_row option"
  bk_restore :: "uuid option"
  bk_safety :: "uuid option"

definition day :: duration where "day = 24 * hour"

definition valid_type :: "string \<Rightarrow> bool" where
  "valid_type t \<longleftrightarrow> t \<in> {''database'', ''files'', ''media'', ''full'', ''configuration''}"

section \<open>Reading\<close>

definition live_backup :: "uuid \<Rightarrow> uuid \<Rightarrow> backup_row \<Rightarrow> bool" where
  "live_backup org i b \<longleftrightarrow> bk_id b = i \<and> bk_org b = org \<and> bk_status b \<noteq> ''deleted''"

definition load_backup :: "bool \<Rightarrow> uuid \<Rightarrow> uuid \<Rightarrow> ('p, 'z) hosted_scheme \<Rightarrow> api_error + backup_row" where
  "load_backup failed org i w =
     (if failed then Inl (internal ''failed to load backup'')
      else case find (live_backup org i) (backups w) of None \<Rightarrow> Inl (NotFound ''backup'') | Some b \<Rightarrow> Inr b)"

definition get_backup :: "bool \<Rightarrow> auth_context \<Rightarrow> uuid \<Rightarrow> ('p, 'z) hosted_scheme \<Rightarrow> api_error + backup_row" where
  "get_backup failed ac i w =
     (case Require ac ''backups.read'' of Some x \<Rightarrow> Inl x | None \<Rightarrow> load_backup failed (org_id ac) i w)"

definition list_backups ::
  "bool \<Rightarrow> auth_context \<Rightarrow> uuid option \<Rightarrow> int \<Rightarrow> int \<Rightarrow> ('p, 'z) hosted_scheme \<Rightarrow> api_error + backup_row list" where
  "list_backups failed ac project limit offset w =
     (case Require ac ''backups.read'' of Some x \<Rightarrow> Inl x
      | None \<Rightarrow>
        if failed \<or> offset < 0 then Inl (internal ''failed to list backups'')
        else Inr (page (if limit \<le> 0 \<or> limit > 200 then 50 else limit) offset
               (sort_key (\<lambda>b. - bk_created b) (filter (\<lambda>b. bk_org b = org_id ac \<and> bk_status b \<noteq> ''deleted'' \<and>
                  (project = None \<or> project = Some (bk_project b))) (backups w)))))"

section \<open>Policies\<close>

record policy_input =
  pn_schedule :: string
  pn_type :: string
  pn_days :: int
  pn_enabled :: "bool option"

definition save_policy ::
  "env \<Rightarrow> auth_context \<Rightarrow> uuid \<Rightarrow> policy_input \<Rightarrow> ('p, 'z) hosted_scheme \<Rightarrow> (api_error + policy_row) \<times> ('p, 'z) hosted_scheme" where
  "save_policy e ac project inp w =
     (case Require ac ''backups.manage'' of Some x \<Rightarrow> (Inl x, w)
      | None \<Rightarrow>
     (let days = (if pn_days inp = 0 then 30 else pn_days inp); on = coalesce (pn_enabled inp) True;
          hit = (\<lambda>p. bp_project p = project \<and> bp_schedule p = pn_schedule inp \<and> bp_type p = pn_type inp);
          fresh = \<lparr>bp_id = new_id e, bp_org = org_id ac, bp_project = project, bp_schedule = pn_schedule inp,
                   bp_type = pn_type inp, bp_days = days, bp_enabled = on, bp_last = None\<rparr>
      in if pn_schedule inp \<notin> {''daily'', ''weekly'', ''monthly''}
         then (Inl (Validation ''schedule must be daily, weekly or monthly''), w)
         else if \<not> valid_type (pn_type inp) then (Inl (Validation ''invalid backup type''), w)
         else if days < 1 \<or> days > 3650 then (Inl (Validation ''retention_days must be between 1 and 3650''), w)
         else if fault e 0 then (Inl (internal ''failed to save policy''), w)
         else if \<not> list_ex (live_project (org_id ac) project) (projects w) then (Inl (NotFound ''project''), w)
         else
           (let upd = (\<lambda>p. p\<lparr>bp_days := days, bp_enabled := on\<rparr>)
            in case find hit (policies w) of
                 Some p \<Rightarrow> (Inr (upd p), rec_audit (fault e 1) ac ''backups.policy.saved'' ''backup_policy'' (bp_id p)
                     (w\<lparr>policies := update_where hit upd (policies w)\<rparr>))
               | None \<Rightarrow> (Inr fresh, rec_audit (fault e 1) ac ''backups.policy.saved'' ''backup_policy'' (new_id e)
                     (w\<lparr>policies := policies w @ [fresh]\<rparr>)))))"

definition list_policies :: "env \<Rightarrow> auth_context \<Rightarrow> uuid \<Rightarrow> ('p, 'z) hosted_scheme \<Rightarrow> api_error + policy_row list" where
  "list_policies e ac project w =
     (case Require ac ''backups.read'' of Some x \<Rightarrow> Inl x
      | None \<Rightarrow>
     (case get_project (fault e 0) ac project w of Inl x \<Rightarrow> Inl x
      | Inr _ \<Rightarrow>
        if fault e 1 then Inl (internal ''failed to list policies'')
        else Inr (sort_key bp_schedule (sort_key bp_type
               (filter (\<lambda>p. bp_org p = org_id ac \<and> bp_project p = project) (policies w))))))"

definition delete_policy :: "env \<Rightarrow> auth_context \<Rightarrow> uuid \<Rightarrow> ('p, 'z) hosted_scheme \<Rightarrow> (api_error + unit) \<times> ('p, 'z) hosted_scheme" where
  "delete_policy e ac i w =
     (case Require ac ''backups.manage'' of Some x \<Rightarrow> (Inl x, w)
      | None \<Rightarrow>
     (let hit = (\<lambda>p. bp_id p = i \<and> bp_org p = org_id ac)
      in if fault e 0 then (Inl (internal ''failed to delete policy''), w)
         else if \<not> list_ex hit (policies w) then (Inl (NotFound ''policy''), w)
         else (Inr (), rec_audit (fault e 1) ac ''backups.policy.deleted'' ''backup_policy'' i
                (w\<lparr>policies := delete_where hit (policies w),
                   backups := update_where (\<lambda>b. bk_policy b = Some i) (\<lambda>b. b\<lparr>bk_policy := None\<rparr>) (backups w)\<rparr>))))"

section \<open>Snapshots\<close>

record create_payload =
  cp_type :: string
  cp_days :: int
  cp_policy :: "uuid option"
  cp_target :: "uuid option"

definition no_payload :: create_payload where
  "no_payload = \<lparr>cp_type = [], cp_days = 0, cp_policy = None, cp_target = None\<rparr>"

text \<open>
  \<open>json.Unmarshal\<close> of a payload whose error is ignored: a member of the wrong type leaves its field alone
  (a \<open>*uuid.UUID\<close> becomes the nil id), and a text that is no uuid ends the decoding where it stands.
\<close>

definition keep_or :: "('a \<Rightarrow> 'a option) \<Rightarrow> 'a \<Rightarrow> 'a" where
  "keep_or f old = coalesce (f old) old"

fun decode_uuid :: "(string \<Rightarrow> uuid option) \<Rightarrow> json \<Rightarrow> uuid option \<times> bool" where
  "decode_uuid pu JNull = (None, True)"
| "decode_uuid pu (JStr s) = (case pu s of None \<Rightarrow> (Some uuid_nil, False) | Some i \<Rightarrow> (Some i, True))"
| "decode_uuid pu v = (Some uuid_nil, True)"

fun decode_create :: "(string \<Rightarrow> uuid option) \<Rightarrow> (string \<times> json) list \<Rightarrow> create_payload \<Rightarrow> create_payload" where
  "decode_create pu [] p = p"
| "decode_create pu ((k, v) # r) p =
     (if names_field k ''type'' then decode_create pu r (p\<lparr>cp_type := keep_or (decode_string v) (cp_type p)\<rparr>)
      else if names_field k ''retention_days'' then decode_create pu r (p\<lparr>cp_days := keep_or (decode_int v) (cp_days p)\<rparr>)
      else if names_field k ''policy_id'' then
        (case decode_uuid pu v of (x, go) \<Rightarrow> if go then decode_create pu r (p\<lparr>cp_policy := x\<rparr>) else p\<lparr>cp_policy := x\<rparr>)
      else if names_field k ''target_id'' then
        (case decode_uuid pu v of (x, go) \<Rightarrow> if go then decode_create pu r (p\<lparr>cp_target := x\<rparr>) else p\<lparr>cp_target := x\<rparr>)
      else decode_create pu r p)"

definition create_payload_of :: "'p infra \<Rightarrow> json \<Rightarrow> create_payload" where
  "create_payload_of P payload =
     (case payload of JObj kvs \<Rightarrow> decode_create (in_parse_uuid P) kvs no_payload | _ \<Rightarrow> no_payload)"

definition require_providers :: "'p infra \<Rightarrow> api_error option" where
  "require_providers P =
     (if \<not> in_backups P then Some (Validation ''backup provider is not configured on this deployment'')
      else if \<not> in_fs P then Some (Validation ''filesystem provider is not configured on this deployment'')
      else None)"

definition project_db :: "uuid \<Rightarrow> uuid \<Rightarrow> ('p, 'z) hosting_scheme \<Rightarrow> string option" where
  "project_db org i w =
     (case sort_key pd_created (filter (\<lambda>d. pd_org d = org \<and> pd_project d = i \<and> pd_status d = ''ready'') (project_dbs w)) of
        [] \<Rightarrow> None | d # _ \<Rightarrow> Some (pd_name d))"

text \<open>The directories of a snapshot; the types exclude each other.\<close>

definition snapshot_paths ::
  "'p infra \<Rightarrow> project_row \<Rightarrow> string \<Rightarrow> ('p, 'z) hosting_scheme \<Rightarrow> (string + string list) \<times> ('p, 'z) hosting_scheme" where
  "snapshot_paths P p typ w =
     (let ws = WorkspacePath (pj_slug p)
      in if typ = ''files'' \<or> typ = ''full'' then
           (case ask_infra P (FsMkdirAll (ws @ ''/data'')) w of
              (Some t, _, w1) \<Rightarrow> (Inl t, w1)
            | (None, _, w1) \<Rightarrow> (Inr [ws @ ''/data''], w1))
         else if typ = ''media'' then
           (case ask_infra P (FsMkdirAll (ws @ ''/data/wp-content/uploads'')) w of
              (_, _, w1) \<Rightarrow> (Inr [ws @ ''/data/wp-content/uploads''], w1))
         else if typ = ''configuration'' then
           (case ask_infra P (FsMkdirAll (ws @ ''/config'')) w of
              (Some t, _, w1) \<Rightarrow> (Inl t, w1)
            | (None, _, w1) \<Rightarrow>
                (case ask_infra P (FsWriteFile (ws @ ''/config/project.json'') (in_config_text P p)) w1 of
                   (Some t, _, w2) \<Rightarrow> (Inl t, w2)
                 | (None, _, w2) \<Rightarrow> (Inr [ws @ ''/config''], w2)))
         else (Inr [], w))"

definition snapshot_dump ::
  "'p infra \<Rightarrow> bool \<Rightarrow> uuid \<Rightarrow> uuid \<Rightarrow> string \<Rightarrow> ('p, 'z) hosting_scheme \<Rightarrow> string + string option" where
  "snapshot_dump P failed org i typ w =
     (if typ \<noteq> ''database'' \<and> typ \<noteq> ''full'' then Inr None
      else if failed then Inl ''database error''
      else case project_db org i w of
        None \<Rightarrow> if typ = ''database'' then Inl ''project has no database to back up'' else Inr None
      | Some n \<Rightarrow>
          if \<not> in_db P then Inl ''database provider is not configured; cannot dump the project database''
          else Inr (Some n))"

definition snapshot_row :: "env \<Rightarrow> uuid \<Rightarrow> uuid \<Rightarrow> create_payload \<Rightarrow> backup_row" where
  "snapshot_row e org i inp =
     \<lparr>bk_id = new_id e, bk_org = org, bk_project = i, bk_policy = cp_policy inp, bk_target = cp_target inp,
      bk_type = cp_type inp, bk_status = ''running'', bk_size = 0, bk_sum = None, bk_ref = None,
      bk_retention = Some (db_now e + (if cp_days inp \<le> 0 then 30 else cp_days inp) * day), bk_verified = None,
      bk_error = None, bk_created = db_now e, bk_finished = None\<rparr>"

text \<open>The closure \<open>fail\<close>: the row is marked failed if the database lets it.\<close>

definition snapshot_fail ::
  "bool \<Rightarrow> env \<Rightarrow> string \<Rightarrow> ('p, 'z) hosted_scheme \<Rightarrow> (string + uuid) \<times> ('p, 'z) hosted_scheme" where
  "snapshot_fail failed e t w =
     (Inl t, if failed then w else w\<lparr>backups := update_where (\<lambda>b. bk_id b = new_id e)
        (\<lambda>b. b\<lparr>bk_status := ''failed'', bk_error := Some (take 500 t), bk_finished := Some (db_now e)\<rparr>) (backups w)\<rparr>)"

text \<open>
  Statements, from \<open>k\<close>: the project, the INSERT (with its primary key, its CHECK on the type and its foreign keys), the
  failure UPDATE, the database lookup, the completion UPDATE.
\<close>

definition store_artifact ::
  "'p infra \<Rightarrow> env \<Rightarrow> nat \<Rightarrow> string list \<Rightarrow> string option \<Rightarrow> ('p, 'z) hosted_scheme \<Rightarrow> (string + uuid) \<times> ('p, 'z) hosted_scheme" where
  "store_artifact P e k paths dump w =
     (case ask_infra P (BkCreate (new_id e) paths dump) w of
        (Some t, _, w1) \<Rightarrow> snapshot_fail (fault e (k + 2)) e t w1
      | (None, art, w1) \<Rightarrow>
     (case ask_infra P (BkVerify (rp_ref art) (rp_sum art)) w1 of
        (Some t, _, w2) \<Rightarrow>
          (case ask_infra P (BkDelete (rp_ref art)) w2 of
             (_, _, w3) \<Rightarrow> snapshot_fail (fault e (k + 2)) e (''verification failed: '' @ t) w3)
      | (None, _, w2) \<Rightarrow>
          if fault e (k + 4) then snapshot_fail (fault e (k + 2)) e ''database error'' w2
          else (Inr (new_id e),
                w2\<lparr>backups := update_where (\<lambda>b. bk_id b = new_id e)
                     (\<lambda>b. b\<lparr>bk_status := ''completed'', bk_size := rp_size art, bk_sum := Some (rp_sum art),
                           bk_ref := Some (rp_ref art), bk_verified := Some (db_now e),
                           bk_finished := Some (db_now e)\<rparr>) (backups w2)\<rparr>)))"

definition snapshot ::
  "'p infra \<Rightarrow> env \<Rightarrow> nat \<Rightarrow> uuid \<Rightarrow> uuid \<Rightarrow> create_payload \<Rightarrow> ('p, 'z) hosted_scheme \<Rightarrow> (string + uuid) \<times> ('p, 'z) hosted_scheme" where
  "snapshot P e k org i inp w =
     (case get_project (fault e k) (System_ctx org) i w of
        Inl x \<Rightarrow> (Inl (api_text x), w)
      | Inr v \<Rightarrow>
        if fault e (k + 1) \<or> new_id e \<in> bk_id ` set (backups w) \<or> \<not> valid_type (cp_type inp) \<or>
           (case cp_policy inp of None \<Rightarrow> False | Some q \<Rightarrow> q \<notin> bp_id ` set (policies w)) \<or>
           (case cp_target inp of None \<Rightarrow> False | Some q \<Rightarrow> q \<notin> set (targets w))
        then (Inl ''database error'', w)
        else
          (let w0 = w\<lparr>backups := backups w @ [snapshot_row e org i inp]\<rparr>
           in case snapshot_paths P (pv_row v) (cp_type inp) w0 of
                (Inl t, w1) \<Rightarrow> snapshot_fail (fault e (k + 2)) e t w1
              | (Inr paths, w1) \<Rightarrow>
             (case snapshot_dump P (fault e (k + 3)) org i (cp_type inp) w1 of
                Inl t \<Rightarrow> snapshot_fail (fault e (k + 2)) e t w1
              | Inr dump \<Rightarrow>
                  if paths = [] \<and> dump = None
                  then snapshot_fail (fault e (k + 2)) e ''nothing to back up for this project and type'' w1
                  else store_artifact P e k paths dump w1)))"

section \<open>backup.create\<close>

text \<open>Statements: the project loaded by \<open>Validate\<close> (10), those of the snapshot from 0.\<close>

definition create_defaults :: "create_payload \<Rightarrow> create_payload" where
  "create_defaults inp = (if cp_type inp = [] then inp\<lparr>cp_type := ''full''\<rparr> else inp)"

definition create_validate ::
  "'p infra \<Rightarrow> env \<Rightarrow> uuid \<Rightarrow> uuid \<Rightarrow> create_payload \<Rightarrow> ('p, 'z) hosted_scheme \<Rightarrow> exec_error option" where
  "create_validate P e org i inp0 w =
     (let inp = create_defaults inp0
      in if i = uuid_nil then Some (ApiFailure (Validation ''project_id is required''))
         else if \<not> valid_type (cp_type inp) then Some (ApiFailure (Validation ''invalid backup type''))
         else if cp_days inp < 0 \<or> cp_days inp > 3650
         then Some (ApiFailure (Validation ''retention_days must be between 0 and 3650''))
         else case require_providers P of Some x \<Rightarrow> Some (ApiFailure x)
         | None \<Rightarrow>
             (case get_project (fault e 10) (System_ctx org) i w of Inl x \<Rightarrow> Some (ApiFailure x) | Inr _ \<Rightarrow> None))"

definition create_and_verify_step ::
  "'p infra \<Rightarrow> env \<Rightarrow> uuid \<Rightarrow> uuid \<Rightarrow> create_payload \<Rightarrow> ('p, 'z) hosted_scheme op_step" where
  "create_and_verify_step P e org i inp =
     \<lparr>os_name = ''create-and-verify'',
      os_run = Some (\<lambda>poll rs w.
        (case snapshot P e 0 org i inp w of
           (Inl t, w') \<Rightarrow> fail_step t rs w'
         | (Inr b, w') \<Rightarrow> done_step (rs\<lparr>rs_result := Some (JObj [(''backup_id'', JStr (in_uuid_text P b))])\<rparr>) w')),
      os_undo = None\<rparr>"

definition create_definition :: "'p infra \<Rightarrow> env \<Rightarrow> ('p, 'z) hosted_scheme op_definition" where
  "create_definition P e =
     \<lparr>df_name = ''backup.create'', df_permission = ''backups.manage'', df_tool_key = [],
      df_notify_kind = ''backup.completed'', df_timeout_seconds = 1800, df_flag = [],
      df_factory = (\<lambda>org project payload.
        Inr \<lparr>op_validate = create_validate P e org project (create_payload_of P payload),
             op_body = StepperOp [create_and_verify_step P e org project (create_defaults (create_payload_of P payload))]\<rparr>)\<rparr>"

section \<open>backup.verify\<close>

text \<open>Statements: 0 loads the backup, 1 reads its artifact, 2 and 3 record the outcome.\<close>

fun decode_id_member :: "string \<Rightarrow> (string \<Rightarrow> uuid option) \<Rightarrow> (string \<times> json) list \<Rightarrow> uuid \<Rightarrow> uuid" where
  "decode_id_member field pu [] i = i"
| "decode_id_member field pu ((k, v) # r) i =
     (if names_field k field then
        (case v of
           JStr s \<Rightarrow> (case pu s of None \<Rightarrow> i | Some j \<Rightarrow> decode_id_member field pu r j)
         | _ \<Rightarrow> decode_id_member field pu r i)
      else decode_id_member field pu r i)"

definition verify_target :: "'p infra \<Rightarrow> json \<Rightarrow> uuid" where
  "verify_target P payload =
     (let named = decode_id_member ''backup_id'' (in_parse_uuid P) (obj_fields payload) uuid_nil
      in if named \<noteq> uuid_nil then named else snd (payload_resource (in_parse_uuid P) payload))"

definition verify_validate :: "'p infra \<Rightarrow> env \<Rightarrow> uuid \<Rightarrow> uuid \<Rightarrow> ('p, 'z) hosted_scheme \<Rightarrow> exec_error option" where
  "verify_validate P e org b w =
     (case require_providers P of Some x \<Rightarrow> Some (ApiFailure x)
      | None \<Rightarrow> (case load_backup (fault e 0) org b w of Inl x \<Rightarrow> Some (ApiFailure x) | Inr _ \<Rightarrow> None))"

definition verify_checksum_step :: "'p infra \<Rightarrow> env \<Rightarrow> uuid \<Rightarrow> uuid \<Rightarrow> ('p, 'z) hosted_scheme op_step" where
  "verify_checksum_step P e org b =
     \<lparr>os_name = ''verify-checksum'',
      os_run = Some (\<lambda>poll rs w.
        (if fault e 1 then fail_step ''database error'' rs w
         else case find (\<lambda>x. bk_id x = b \<and> bk_org x = org) (backups w) of
           None \<Rightarrow> fail_step ''no rows in result set'' rs w
         | Some row \<Rightarrow>
        (let ref = coalesce (bk_ref row) []; sum = coalesce (bk_sum row) []
         in if ref = [] \<or> sum = [] then fail_step ''backup has no stored artifact to verify'' rs w
            else case ask_infra P (BkVerify ref sum) w of
              (Some t, _, w1) \<Rightarrow>
                fail_step (''backup is corrupt: '' @ t) rs
                  (if fault e 2 then w1
                   else w1\<lparr>backups := update_where (\<lambda>x. bk_id x = b)
                          (\<lambda>x. x\<lparr>bk_status := ''corrupt'', bk_error := Some (take 500 t)\<rparr>) (backups w1)\<rparr>)
            | (None, _, w1) \<Rightarrow>
                if fault e 3 then fail_step ''database error'' rs w1
                else done_step rs (w1\<lparr>backups := update_where (\<lambda>x. bk_id x = b)
                       (\<lambda>x. x\<lparr>bk_verified := Some (db_now e), bk_status := ''completed'', bk_error := None\<rparr>) (backups w1)\<rparr>)))),
      os_undo = None\<rparr>"

definition verify_definition :: "'p infra \<Rightarrow> env \<Rightarrow> ('p, 'z) hosted_scheme op_definition" where
  "verify_definition P e =
     \<lparr>df_name = ''backup.verify'', df_permission = ''backups.manage'', df_tool_key = [],
      df_notify_kind = ''backup.verified'', df_timeout_seconds = 900, df_flag = [],
      df_factory = (\<lambda>org project payload.
        (let b = verify_target P payload
         in Inr \<lparr>op_validate = verify_validate P e org b, op_body = StepperOp [verify_checksum_step P e org b]\<rparr>))\<rparr>"

section \<open>backup.restore\<close>

text \<open>
  \<open>Validate\<close> loads the backup (statement 0) into the operation, which also fixes the project; the table
  cannot change between it and the first step, which keeps the row. Statements of the steps: 1 reads the
  artifact, 2 inserts the restore, 3 its undo, 4 to 8 the snapshot, 9 links it, 10 and 11 the restore, 12
  and 13 its undo, 14 the end.
\<close>

definition restore_validate :: "'p infra \<Rightarrow> env \<Rightarrow> uuid \<Rightarrow> uuid \<Rightarrow> uuid \<Rightarrow> ('p, 'z) hosted_scheme \<Rightarrow> exec_error option" where
  "restore_validate P e org project b w =
     (case require_providers P of Some x \<Rightarrow> Some (ApiFailure x)
      | None \<Rightarrow>
     (case load_backup (fault e 0) org b w of Inl x \<Rightarrow> Some (ApiFailure x)
      | Inr row \<Rightarrow>
        if bk_status row \<noteq> ''completed''
        then Some (ApiFailure (Conflict (''only completed backups can be restored (this one is '' @ bk_status row @ '')'')))
        else if project \<noteq> uuid_nil \<and> project \<noteq> bk_project row
        then Some (ApiFailure (Validation ''backup does not belong to this project''))
        else None))"

definition restored_project :: "('p, 'z) hosted_scheme \<Rightarrow> uuid" where
  "restored_project w = (case bk_loaded w of None \<Rightarrow> uuid_nil | Some b \<Rightarrow> bk_project b)"

definition restored_type :: "('p, 'z) hosted_scheme \<Rightarrow> string" where
  "restored_type w = (case bk_loaded w of None \<Rightarrow> [] | Some b \<Rightarrow> bk_type b)"

text \<open>\<open>restoreArtifact\<close>.\<close>

definition restore_artifact ::
  "'p infra \<Rightarrow> bool \<Rightarrow> bool \<Rightarrow> uuid \<Rightarrow> uuid \<Rightarrow> uuid \<Rightarrow> ('p, 'z) hosted_scheme \<Rightarrow> string option \<times> ('p, 'z) hosted_scheme" where
  "restore_artifact P f1 f2 org project b w =
     (if f1 then (Some ''database error'', w)
      else case find (\<lambda>x. bk_id x = b \<and> bk_org x = org) (backups w) of
        None \<Rightarrow> (Some ''no rows in result set'', w)
      | Some row \<Rightarrow>
     (let ref = coalesce (bk_ref row) [];
          go = (\<lambda>db. case ask_infra P (BkRestore ref db) w of (t, _, w') \<Rightarrow> (t, w'))
      in if bk_type row \<noteq> ''database'' \<and> bk_type row \<noteq> ''full'' then go None
         else if f2 then (Some ''database error'', w)
         else case project_db org project w of
           None \<Rightarrow> go None
         | Some n \<Rightarrow>
             if \<not> in_db P then (Some ''database provider is not configured; cannot restore the database'', w)
             else go (Some n)))"

definition verify_source_step :: "'p infra \<Rightarrow> env \<Rightarrow> uuid \<Rightarrow> uuid \<Rightarrow> ('p, 'z) hosted_scheme op_step" where
  "verify_source_step P e org b =
     \<lparr>os_name = ''verify-source-backup'',
      os_run = Some (\<lambda>poll rs w0.
        (let w = w0\<lparr>bk_loaded := find (live_backup org b) (backups w0), bk_restore := None, bk_safety := None\<rparr>
         in if fault e 1 then fail_step ''database error'' rs w
            else case find (\<lambda>x. bk_id x = b) (backups w) of
              None \<Rightarrow> fail_step ''no rows in result set'' rs w
            | Some row \<Rightarrow>
           (case ask_infra P (BkVerify (coalesce (bk_ref row) []) (coalesce (bk_sum row) [])) w of
              (Some t, _, w1) \<Rightarrow> fail_step (''refusing to restore: source backup failed verification: '' @ t) rs w1
            | (None, _, w1) \<Rightarrow>
                if fault e 2 then fail_step ''database error'' rs w1
                else done_step rs (w1\<lparr>restores := restores w1 @
                       [\<lparr>rt_id = new_id e, rt_org = org, rt_project = restored_project w1, rt_backup = b, rt_safety = None,
                         rt_status = ''running'', rt_finished = None\<rparr>],
                     bk_restore := Some (new_id e)\<rparr>)))),
      os_undo = Some (\<lambda>poll rs w.
        (case bk_restore w of
           None \<Rightarrow> done_step rs w
         | Some i \<Rightarrow> done_step rs
             (if fault e 3 then w
              else w\<lparr>restores := update_where (\<lambda>r. rt_id r = i \<and> rt_status r = ''running'')
                     (\<lambda>r. r\<lparr>rt_status := ''rolled_back'', rt_finished := Some (db_now e)\<rparr>) (restores w)\<rparr>)))\<rparr>"

definition safety_payload :: "string \<Rightarrow> create_payload" where
  "safety_payload typ = no_payload\<lparr>cp_type := typ, cp_days := 7\<rparr>"

definition safety_snapshot_step :: "'p infra \<Rightarrow> env \<Rightarrow> uuid \<Rightarrow> ('p, 'z) hosted_scheme op_step" where
  "safety_snapshot_step P e org =
     \<lparr>os_name = ''safety-snapshot'',
      os_run = Some (\<lambda>poll rs w.
        (case snapshot P e 4 org (restored_project w) (safety_payload (restored_type w)) w of
           (Inl t, w1) \<Rightarrow> fail_step (''could not take a safety snapshot, restore aborted: '' @ t) rs w1
         | (Inr s, w1) \<Rightarrow>
             (let w2 = w1\<lparr>bk_safety := Some s\<rparr>
              in if fault e 9 then fail_step ''database error'' rs w2
                 else done_step rs (w2\<lparr>restores := update_where (\<lambda>r. Some (rt_id r) = bk_restore w2)
                        (\<lambda>r. r\<lparr>rt_safety := Some s\<rparr>) (restores w2)\<rparr>)))),
      os_undo = None\<rparr>"

definition restore_step :: "'p infra \<Rightarrow> env \<Rightarrow> uuid \<Rightarrow> uuid \<Rightarrow> ('p, 'z) hosted_scheme op_step" where
  "restore_step P e org b =
     \<lparr>os_name = ''restore'',
      os_run = Some (\<lambda>poll rs w.
        (case restore_artifact P (fault e 10) (fault e 11) org (restored_project w) b w of
           (Some t, w1) \<Rightarrow> fail_step t rs w1 | (None, w1) \<Rightarrow> done_step rs w1)),
      os_undo = Some (\<lambda>poll rs w.
        (case bk_safety w of
           None \<Rightarrow> done_step rs w
         | Some s \<Rightarrow>
             (case restore_artifact P (fault e 12) (fault e 13) org (restored_project w) s w of
                (Some t, w1) \<Rightarrow> fail_step (''ROLLBACK FAILED, manual recovery needed from safety backup '' @ in_uuid_text P s @ '': '' @ t) rs w1
              | (None, w1) \<Rightarrow> done_step rs w1)))\<rparr>"

definition uuid_json :: "'p infra \<Rightarrow> uuid option \<Rightarrow> json" where
  "uuid_json P x = JStr (in_uuid_text P (coalesce x uuid_nil))"

definition finalize_step :: "'p infra \<Rightarrow> env \<Rightarrow> ('p, 'z) hosted_scheme op_step" where
  "finalize_step P e =
     \<lparr>os_name = ''finalize'',
      os_run = Some (\<lambda>poll rs w.
        (let rs1 = rs\<lparr>rs_result := Some (JObj [(''restore_id'', uuid_json P (bk_restore w)), (''safety_backup_id'', uuid_json P (bk_safety w))])\<rparr>
         in if fault e 14 then fail_step ''database error'' rs1 w
            else done_step rs1 (w\<lparr>restores := update_where (\<lambda>r. Some (rt_id r) = bk_restore w)
                   (\<lambda>r. r\<lparr>rt_status := ''completed'', rt_finished := Some (db_now e)\<rparr>) (restores w)\<rparr>))),
      os_undo = None\<rparr>"

definition restore_steps :: "'p infra \<Rightarrow> env \<Rightarrow> uuid \<Rightarrow> uuid \<Rightarrow> ('p, 'z) hosted_scheme op_step list" where
  "restore_steps P e org b =
     [verify_source_step P e org b, safety_snapshot_step P e org, restore_step P e org b, finalize_step P e]"

definition restore_definition :: "'p infra \<Rightarrow> env \<Rightarrow> ('p, 'z) hosted_scheme op_definition" where
  "restore_definition P e =
     \<lparr>df_name = ''backup.restore'', df_permission = ''backups.restore'', df_tool_key = ''backup.restore'',
      df_notify_kind = ''backup.restored'', df_timeout_seconds = 3600, df_flag = [],
      df_factory = (\<lambda>org project payload.
        (let b = snd (payload_resource (in_parse_uuid P) payload)
         in Inr \<lparr>op_validate = restore_validate P e org project b, op_body = StepperOp (restore_steps P e org b)\<rparr>))\<rparr>"

section \<open>backup.delete\<close>

text \<open>Statements: 0 loads the backup, 1 counts its restores, 2 reads its artifact, 3 marks it.\<close>

definition in_running_restore :: "uuid \<Rightarrow> ('p, 'z) hosted_scheme \<Rightarrow> bool" where
  "in_running_restore b w \<longleftrightarrow> list_ex (\<lambda>r. (rt_backup r = b \<or> rt_safety r = Some b) \<and> rt_status r = ''running'') (restores w)"

definition delete_backup_validate :: "'p infra \<Rightarrow> env \<Rightarrow> uuid \<Rightarrow> uuid \<Rightarrow> ('p, 'z) hosted_scheme \<Rightarrow> exec_error option" where
  "delete_backup_validate P e org b w =
     (case require_providers P of Some x \<Rightarrow> Some (ApiFailure x)
      | None \<Rightarrow>
     (case load_backup (fault e 0) org b w of Inl x \<Rightarrow> Some (ApiFailure x)
      | Inr _ \<Rightarrow>
        if \<not> fault e 1 \<and> in_running_restore b w
        then Some (ApiFailure (Conflict ''backup is in use by a running restore'')) else None))"

text \<open>Deleting an artifact: one that is not there is no failure.\<close>

definition drop_artifact :: "'p infra \<Rightarrow> string \<Rightarrow> ('p, 'z) hosting_scheme \<Rightarrow> string option \<times> ('p, 'z) hosting_scheme" where
  "drop_artifact P ref w =
     (if ref = [] then (None, w)
      else case hcall P (BkDelete ref) w of (r, w') \<Rightarrow>
        ((case rp_err r of Some (OtherError t) \<Rightarrow> Some t | _ \<Rightarrow> None), w'))"

definition delete_backup_step :: "'p infra \<Rightarrow> env \<Rightarrow> uuid \<Rightarrow> uuid \<Rightarrow> ('p, 'z) hosted_scheme op_step" where
  "delete_backup_step P e org b =
     \<lparr>os_name = ''delete-backup'',
      os_run = Some (\<lambda>poll rs w.
        (let mine = (\<lambda>x. bk_id x = b \<and> bk_org x = org)
         in if fault e 2 then fail_step ''database error'' rs w
            else case find mine (backups w) of
              None \<Rightarrow> fail_step ''no rows in result set'' rs w
            | Some row \<Rightarrow>
           (case drop_artifact P (coalesce (bk_ref row) []) w of
              (Some t, w1) \<Rightarrow> fail_step t rs w1
            | (None, w1) \<Rightarrow>
                if fault e 3 then fail_step ''database error'' rs w1
                else done_step rs (w1\<lparr>backups := update_where mine (\<lambda>x. x\<lparr>bk_status := ''deleted''\<rparr>) (backups w1)\<rparr>)))),
      os_undo = None\<rparr>"

definition delete_backup_definition :: "'p infra \<Rightarrow> env \<Rightarrow> ('p, 'z) hosted_scheme op_definition" where
  "delete_backup_definition P e =
     \<lparr>df_name = ''backup.delete'', df_permission = ''backups.delete'', df_tool_key = ''backup.delete'',
      df_notify_kind = ''backup.deleted'', df_timeout_seconds = 0, df_flag = [],
      df_factory = (\<lambda>org project payload.
        (let b = snd (payload_resource (in_parse_uuid P) payload)
         in Inr \<lparr>op_validate = delete_backup_validate P e org b, op_body = StepperOp [delete_backup_step P e org b]\<rparr>))\<rparr>"

section \<open>For other operations\<close>

definition SnapshotNow ::
  "'p infra \<Rightarrow> env \<Rightarrow> nat \<Rightarrow> uuid \<Rightarrow> uuid \<Rightarrow> string \<Rightarrow> int \<Rightarrow> ('p, 'z) hosted_scheme \<Rightarrow> (string + uuid) \<times> ('p, 'z) hosted_scheme" where
  "SnapshotNow P e k org i typ days w =
     (case require_providers P of Some x \<Rightarrow> (Inl (api_text x), w)
      | None \<Rightarrow> snapshot P e k org i (no_payload\<lparr>cp_type := typ, cp_days := days\<rparr>) w)"

definition RestoreNow ::
  "'p infra \<Rightarrow> bool \<Rightarrow> bool \<Rightarrow> uuid \<Rightarrow> uuid \<Rightarrow> uuid \<Rightarrow> ('p, 'z) hosted_scheme \<Rightarrow> string option \<times> ('p, 'z) hosted_scheme" where
  "RestoreNow P f1 f2 org i b w =
     (case require_providers P of Some x \<Rightarrow> (Some (api_text x), w) | None \<Rightarrow> restore_artifact P f1 f2 org i b w)"

section \<open>Retention\<close>

text \<open>Statements: the SELECT (0), for the \<open>k\<close>-th expired row its UPDATE (\<open>2k + 1\<close>) and its audit row (\<open>2k + 2\<close>).\<close>

definition expired :: "time \<Rightarrow> ('p, 'z) hosted_scheme \<Rightarrow> backup_row \<Rightarrow> bool" where
  "expired now w b \<longleftrightarrow>
     bk_status b \<in> {''completed'', ''corrupt'', ''failed''} \<and> (case bk_retention b of None \<Rightarrow> False | Some t \<Rightarrow> t < now) \<and>
     \<not> list_ex (\<lambda>r. rt_safety r = Some (bk_id b) \<and> rt_status r = ''running'') (restores w)"

fun delete_expired ::
  "'p infra \<Rightarrow> env \<Rightarrow> nat \<Rightarrow> backup_row list \<Rightarrow> int \<Rightarrow> ('p, 'z) hosted_scheme \<Rightarrow> int \<times> ('p, 'z) hosted_scheme" where
  "delete_expired P e k [] n w = (n, w)"
| "delete_expired P e k (b # bs) n w =
     (case drop_artifact P (coalesce (bk_ref b) []) w of
        (Some t, w1) \<Rightarrow> delete_expired P e (Suc k) bs n w1
      | (None, w1) \<Rightarrow>
          if fault e (2 * k + 1) then delete_expired P e (Suc k) bs n w1
          else delete_expired P e (Suc k) bs (n + 1)
                 (rec_audit (fault e (2 * k + 2)) (System_ctx (bk_org b)) ''backups.backup.expired'' ''backup'' (bk_id b)
                   (w1\<lparr>backups := update_where (\<lambda>x. bk_id x = bk_id b) (\<lambda>x. x\<lparr>bk_status := ''deleted''\<rparr>) (backups w1)\<rparr>)))"

definition EnforceRetention ::
  "'p infra \<Rightarrow> env \<Rightarrow> time \<Rightarrow> ('p, 'z) hosted_scheme \<Rightarrow> (string + int) \<times> ('p, 'z) hosted_scheme" where
  "EnforceRetention P e now w =
     (if \<not> in_backups P then (Inr 0, w)
      else if fault e 0 then (Inl ''database error'', w)
      else case delete_expired P e 0 (filter (expired now w) (backups w)) 0 w of (n, w') \<Rightarrow> (Inr n, w'))"

section \<open>Schedules\<close>

definition interval :: "string \<Rightarrow> duration" where
  "interval schedule = (if schedule = ''weekly'' then 7 * day else if schedule = ''monthly'' then 30 * day else day)"

text \<open>\<open>Truncate\<close> counts from the year 1, 719162 days before the epoch.\<close>

definition truncate_time :: "time \<Rightarrow> duration \<Rightarrow> time" where
  "truncate_time t d = t - (t + 719162 * day) mod d"

definition policy_key :: "'p infra \<Rightarrow> time \<Rightarrow> policy_row \<Rightarrow> string" where
  "policy_key P now p =
     ''backup-policy:'' @ in_uuid_text P (bp_id p) @ '':'' @ sprint_d (truncate_time now (interval (bp_schedule p)) div second)"

definition policy_due :: "time \<Rightarrow> ('p, 'z) hosted_scheme \<Rightarrow> policy_row \<Rightarrow> bool" where
  "policy_due now w p \<longleftrightarrow>
     bp_enabled p \<and> list_ex (\<lambda>r. pj_id r = bp_project p \<and> pj_deleted r = None \<and> pj_status r = ''active'') (projects w) \<and>
     (case bp_last p of None \<Rightarrow> True | Some l \<Rightarrow> interval (bp_schedule p) \<le> now - l)"

definition policy_submission :: "'p infra \<Rightarrow> time \<Rightarrow> policy_row \<Rightarrow> submit_input" where
  "policy_submission P now p =
     \<lparr>si_operation = ''backup.create'', si_project = bp_project p,
      si_payload = Some (JObj [(''type'', JStr (bp_type p)), (''retention_days'', JNum (sprint_d (bp_days p))),
                               (''policy_id'', JStr (in_uuid_text P (bp_id p)))]),
      si_key = policy_key P now p\<rparr>"

text \<open>
  Each submission is a call of the engine with an environment of its own; \<open>failed k\<close> is the fault of the
  UPDATE after the \<open>k\<close>-th.
\<close>

fun submit_policies ::
  "'p infra \<Rightarrow> (nat \<Rightarrow> env) \<Rightarrow> (nat \<Rightarrow> bool) \<Rightarrow> flag_checker \<Rightarrow> ('p, 'z) hosted_scheme op_table \<Rightarrow> time \<Rightarrow> nat \<Rightarrow> policy_row list
     \<Rightarrow> int \<Rightarrow> ('p, 'z) hosted_scheme jobs_db \<Rightarrow> int \<times> ('p, 'z) hosted_scheme jobs_db" where
  "submit_policies P es failed fl defs now k [] n d = (n, d)"
| "submit_policies P es failed fl defs now k (p # ps) n d =
     (case submit_trusted (es k) fl defs (System_ctx (bp_org p)) (policy_submission P now p) d of
        (Inl x, d1) \<Rightarrow> submit_policies P es failed fl defs now (Suc k) ps n d1
      | (Inr ref, d1) \<Rightarrow>
          submit_policies P es failed fl defs now (Suc k) ps (if jf_created ref then n + 1 else n)
            (if failed k then d1
             else d1\<lparr>outside := (outside d1)\<lparr>policies := update_where (\<lambda>q. bp_id q = bp_id p)
                    (\<lambda>q. q\<lparr>bp_last := Some now\<rparr>) (policies (outside d1))\<rparr>\<rparr>))"

definition RunDuePolicies ::
  "'p infra \<Rightarrow> bool \<Rightarrow> (nat \<Rightarrow> env) \<Rightarrow> (nat \<Rightarrow> bool) \<Rightarrow> flag_checker \<Rightarrow> ('p, 'z) hosted_scheme op_table \<Rightarrow> time
     \<Rightarrow> ('p, 'z) hosted_scheme jobs_db \<Rightarrow> (string + int) \<times> ('p, 'z) hosted_scheme jobs_db" where
  "RunDuePolicies P failed0 es failed fl defs now d =
     (if failed0 then (Inl ''database error'', d)
      else case submit_policies P es failed fl defs now 0 (filter (policy_due now (outside d)) (policies (outside d))) 0 d of
        (n, d') \<Rightarrow> (Inr n, d'))"

end
