(* ===== verification/Backup_Safety.thy ===== *)
theory Backup_Safety
  imports Backups Provision_Safety
begin

text \<open>
  What the backup operations guarantee: a restore overwrites nothing before its backup is verified and a
  safety snapshot stored, completed backups are verified ones, retention spares what is not expired, and a
  schedule runs once per period. The locale \<open>snapshot_frame\<close> says what a property must allow a snapshot to
  do; it is interpreted for the source of a restore and for the honesty of the table.
\<close>

section \<open>Calls and artifacts\<close>

definition verified :: "(pcall \<times> preply) list \<Rightarrow> string \<Rightarrow> string \<Rightarrow> bool" where
  "verified log ref chk \<longleftrightarrow> (\<exists>r. (BkVerify ref chk, r) \<in> set log \<and> rp_err r = None)"

lemma verified_more [simp]: "verified log ref chk \<Longrightarrow> verified (log @ x) ref chk"
  by (auto simp: verified_def)

lemma logged_call_hosted [simp]:
  "backups (logged_call c r p w) = backups w" "restores (logged_call c r p w) = restores w"
  "policies (logged_call c r p w) = policies w" "targets (logged_call c r p w) = targets w"
  "bk_loaded (logged_call c r p w) = bk_loaded w" "bk_restore (logged_call c r p w) = bk_restore w"
  "bk_safety (logged_call c r p w) = bk_safety w"
  by (simp_all add: logged_call_def)

lemma asked_hosted [simp]:
  "backups (asked P c w) = backups w" "restores (asked P c w) = restores w" "policies (asked P c w) = policies w"
  "bk_loaded (asked P c w) = bk_loaded w" "bk_restore (asked P c w) = bk_restore w" "bk_safety (asked P c w) = bk_safety w"
  by (simp_all add: asked_def)

section \<open>What a snapshot keeps\<close>

text \<open>
  A property kept by the calls of a snapshot and by its writes to its own row is kept by the snapshot. When it
  succeeds its artifact has been created and verified, and the row says so.
\<close>

definition stored :: "'p infra \<Rightarrow> uuid \<Rightarrow> ('p, 'z) hosted_scheme \<Rightarrow> string \<Rightarrow> string \<Rightarrow> bool" where
  "stored P i w ref chk \<longleftrightarrow>
     (\<exists>paths dump art. (BkCreate i paths dump, art) \<in> set (h_calls w) \<and> rp_err art = None \<and> rp_ref art = ref \<and> rp_sum art = chk) \<and>
     verified (h_calls w) ref chk"

definition snapshot_call :: "uuid \<Rightarrow> string \<Rightarrow> pcall \<Rightarrow> bool" where
  "snapshot_call i typ c \<longleftrightarrow> (case c of FsMkdirAll x \<Rightarrow> True | FsWriteFile x y \<Rightarrow> typ = ''configuration'' | BkCreate j x y \<Rightarrow> j = i
     | BkVerify x y \<Rightarrow> True | BkDelete x \<Rightarrow> True | _ \<Rightarrow> False)"

lemma snapshot_call_simps [simp]:
  "snapshot_call i typ (FsMkdirAll x)" "snapshot_call i typ (FsWriteFile x y) \<longleftrightarrow> typ = ''configuration''"
  "snapshot_call i typ (BkCreate j x' y') \<longleftrightarrow> j = i" "snapshot_call i typ (BkVerify x y)" "snapshot_call i typ (BkDelete x)"
  by (simp_all add: snapshot_call_def)

locale snapshot_frame =
  fixes e :: env and P :: "'p infra" and ty :: string and J :: "('p, 'z) hosted_scheme \<Rightarrow> bool"
  assumes call: "J w \<Longrightarrow> snapshot_call (new_id e) ty c \<Longrightarrow> J (asked P c w)"
    and failure: "J w \<Longrightarrow> bs = backups w \<Longrightarrow> J (w\<lparr>backups := update_where (\<lambda>b. bk_id b = new_id e)
          (\<lambda>b. b\<lparr>bk_status := ''failed'', bk_error := Some t, bk_finished := Some (db_now e)\<rparr>) bs\<rparr>)"
    and completion: "J w \<Longrightarrow> verified (h_calls w) ref chk \<Longrightarrow> bs = backups w \<Longrightarrow> J (w\<lparr>backups := update_where (\<lambda>b. bk_id b = new_id e)
          (\<lambda>b. b\<lparr>bk_status := ''completed'', bk_size := n, bk_sum := Some chk, bk_ref := Some ref,
                bk_verified := Some (db_now e), bk_finished := Some (db_now e)\<rparr>) bs\<rparr>)"
begin

lemma fails: "J w \<Longrightarrow> J (snd (snapshot_fail failed e t w))"
  by (simp add: snapshot_fail_def failure)

lemma paths: "J w \<Longrightarrow> J (snd (snapshot_paths P p ty w))"
  by (simp add: snapshot_paths_def Let_def ask_infra_asked call split: option.split)

lemma stores: "J w \<Longrightarrow> J (snd (store_artifact P e k ps dump w))"
  by (auto simp: store_artifact_def ask_infra_asked call verified_def intro!: fails completion split: option.split)

lemma snapshots:
  assumes "J w" and "new_id e \<notin> bk_id ` set (backups w) \<Longrightarrow> J (w\<lparr>backups := backups w @ [snapshot_row e org i inp]\<rparr>)"
    and "cp_type inp = ty"
  shows "J (snd (snapshot P e k org i inp w))"
proof -
  have "J w1" if "new_id e \<notin> bk_id ` set (backups w)" "snapshot_paths P q ty (w\<lparr>backups := backups w @ [snapshot_row e org i inp]\<rparr>) = (x, w1)" for q x w1
    using paths [OF assms(2), of q] that by simp
  then show ?thesis
    using assms(1,3) by (auto simp: snapshot_def Let_def intro!: fails stores split: sum.split prod.split)
qed

end

section \<open>What a finished snapshot holds\<close>

lemma snapshot_paths_frame [simp]: "backups (snd (snapshot_paths P q ty w)) = backups w" "bk_loaded (snd (snapshot_paths P q ty w)) = bk_loaded w"
  by (simp_all add: snapshot_paths_def Let_def ask_infra_asked split: option.split)

lemma snapshot_paths_dbs [simp]: "project_dbs (snd (snapshot_paths P q ty w)) = project_dbs w"
  by (simp add: snapshot_paths_def Let_def ask_infra_asked split: option.split)

text \<open>\<open>safe\<close>: an artifact of the backup \<open>i\<close> was created under this reference and then verified.\<close>

definition safe :: "uuid \<Rightarrow> (pcall \<times> preply) list \<Rightarrow> string \<Rightarrow> bool" where
  "safe i log ref \<longleftrightarrow>
     (\<exists>paths dump art. (BkCreate i paths dump, art) \<in> set log \<and> rp_err art = None \<and> rp_ref art = ref \<and> verified log ref (rp_sum art))"

lemma safe_more [simp]: "safe i log ref \<Longrightarrow> safe i (log @ x) ref"
  unfolding safe_def by (auto intro: verified_more)

definition dumpable :: "'p infra \<Rightarrow> uuid \<Rightarrow> uuid \<Rightarrow> string \<Rightarrow> ('p, 'z) hosting_scheme \<Rightarrow> bool" where
  "dumpable P org i ty w \<longleftrightarrow> ty = ''database'' \<or> ty = ''full'' \<longrightarrow> project_db org i w = None \<or> in_db P"

text \<open>\<open>safety_backup\<close>: the row of the backup \<open>s\<close>, of this project and type, names a safe artifact.\<close>

definition safety_backup :: "uuid \<Rightarrow> uuid \<Rightarrow> uuid \<Rightarrow> string \<Rightarrow> ('p, 'z) hosted_scheme \<Rightarrow> string \<Rightarrow> bool" where
  "safety_backup s org i ty w ref \<longleftrightarrow>
     (\<exists>row. find (\<lambda>x. bk_id x = s \<and> bk_org x = org) (backups w) = Some row \<and> bk_project row = i \<and> bk_type row = ty \<and>
        bk_ref row = Some ref) \<and> safe s (h_calls w) ref"

definition kept_safe :: "'p infra \<Rightarrow> uuid \<Rightarrow> uuid \<Rightarrow> uuid \<Rightarrow> string \<Rightarrow> ('p, 'z) hosted_scheme \<Rightarrow> bool" where
  "kept_safe P s org i ty w \<longleftrightarrow>
     (\<exists>ref. safety_backup s org i ty w ref) \<and> dumpable P org i ty w"

lemma safety_backup_more:
  "safety_backup s org i ty w ref \<Longrightarrow> backups w' = backups w \<Longrightarrow> h_calls w' = h_calls w @ x \<Longrightarrow> safety_backup s org i ty w' ref"
  by (auto simp: safety_backup_def)

lemma safety_backup_asked [simp]: "safety_backup s org i ty w ref \<Longrightarrow> safety_backup s org i ty (asked P c w) ref"
  by (auto simp: safety_backup_def)

lemma safety_backup_same: "backups w' = backups w \<Longrightarrow> h_calls w' = h_calls w \<Longrightarrow> safety_backup s org i ty w' = safety_backup s org i ty w"
  by (rule ext) (simp add: safety_backup_def)

lemma find_append_fresh: "(\<And>x. x \<in> set xs \<Longrightarrow> \<not> q x) \<Longrightarrow> find q (xs @ [y]) = (if q y then Some y else None)"
  by (induction xs) auto

lemma find_update_if:
  "(\<And>x. q (f x) = q x) \<Longrightarrow> find q (update_where p f xs) = map_option (\<lambda>x. if p x then f x else x) (find q xs)"
  by (induction xs) auto

lemma store_artifact_Inr:
  assumes "store_artifact P e k ps dump w = (Inr s, w')" and "dumpable P org i ty w"
    and "find (\<lambda>x. bk_id x = new_id e \<and> bk_org x = org) (backups w) = Some row" and "bk_type row = ty"
    and "bk_project row = i"
  shows "s = new_id e \<and> kept_safe P s org i ty w'"
proof -
  let ?c = "BkCreate (new_id e) ps dump"
  let ?art = "answer P ?c w" and ?w1 = "asked P ?c w"
  let ?v = "BkVerify (rp_ref ?art) (rp_sum ?art)"
  have ok: "rp_err ?art = None" "rp_err (answer P ?v ?w1) = None" and s: "s = new_id e"
    and w': "backups w' = update_where (\<lambda>b. bk_id b = new_id e) (\<lambda>b. b\<lparr>bk_status := ''completed'', bk_size := rp_size ?art,
        bk_sum := Some (rp_sum ?art), bk_ref := Some (rp_ref ?art), bk_verified := Some (db_now e), bk_finished := Some (db_now e)\<rparr>) (backups w)"
      "h_calls w' = h_calls w @ [(?c, ?art), (?v, answer P ?v ?w1)]" "project_dbs w' = project_dbs w"
    using assms(1) by (auto simp: store_artifact_def ask_infra_asked snapshot_fail_def split: option.splits if_splits)
  have "verified (h_calls w') (rp_ref ?art) (rp_sum ?art)" using ok(2) unfolding verified_def w'(2) by auto
  then have "safe s (h_calls w') (rp_ref ?art)" using ok(1) s unfolding safe_def w'(2) by auto
  moreover have "dumpable P org i ty w'" using assms(2) w'(3) by (simp add: dumpable_def project_db_def)
  moreover have "bk_id row = new_id e" using find_SomeD [OF assms(3)] by simp
  ultimately show ?thesis using assms(3-5) s by (simp add: kept_safe_def safety_backup_def w'(1) find_update_if)
qed

lemma snapshot_Inr:
  assumes "snapshot P e k org i inp w = (Inr s, w')"
  shows "s = new_id e \<and> kept_safe P s org i (cp_type inp) w'"
proof -
  obtain v where v: "get_project (fault e k) (System_ctx org) i w = Inr v"
    using assms by (auto simp: snapshot_def split: sum.splits)
  let ?w0 = "w\<lparr>backups := backups w @ [snapshot_row e org i inp]\<rparr>"
  obtain x w1 where x: "snapshot_paths P (pv_row v) (cp_type inp) ?w0 = (x, w1)" by fastforce
  have w1: "backups w1 = backups w @ [snapshot_row e org i inp]"
    using snapshot_paths_frame(1) [of P "pv_row v" "cp_type inp" ?w0] unfolding x by simp
  have new: "new_id e \<notin> bk_id ` set (backups w)"
    using assms v by (auto simp: snapshot_def split: if_splits)
  obtain ps dump where d: "snapshot_dump P (fault e (k + 3)) org i (cp_type inp) w1 = Inr dump"
    and s: "store_artifact P e k ps dump w1 = (Inr s, w')"
    using assms v x by (auto simp: snapshot_def Let_def snapshot_fail_def split: if_splits sum.splits)
  have "dumpable P org i (cp_type inp) w1"
    using d by (auto simp: snapshot_dump_def dumpable_def split: if_splits option.splits)
  moreover have "find (\<lambda>x. bk_id x = new_id e \<and> bk_org x = org) (backups w1) = Some (snapshot_row e org i inp)"
    unfolding w1 using new by (subst find_append_fresh) (force simp: snapshot_row_def)+
  ultimately show ?thesis by (rule store_artifact_Inr [OF s]) (simp_all add: snapshot_row_def)
qed

section \<open>What was restored\<close>

text \<open>The restorations the provider was asked for: what was restored, and the error it answered with.\<close>

definition restores_of :: "(pcall \<times> preply) list \<Rightarrow> (string \<times> perror option) list" where
  "restores_of log = concat (map (\<lambda>(c, r). case c of BkRestore ref db \<Rightarrow> [(ref, rp_err r)] | _ \<Rightarrow> []) log)"

lemma restores_of_simps [simp]:
  "restores_of [] = []" "restores_of (log @ log') = restores_of log @ restores_of log'"
  "restores_of ((c, r) # log) = (case c of BkRestore ref db \<Rightarrow> [(ref, rp_err r)] | _ \<Rightarrow> []) @ restores_of log"
  by (simp_all add: restores_of_def)

lemma snapshot_call_restores [simp]: "snapshot_call i typ c \<Longrightarrow> (case c of BkRestore ref db \<Rightarrow> [(ref, x)] | _ \<Rightarrow> []) = []"
  by (cases c) (simp_all add: snapshot_call_def)

text \<open>
  Every restoration comes after a successful verification of what it restores and after a snapshot
  \<open>s\<close> was stored and verified.
\<close>

definition guarded :: "uuid \<Rightarrow> (pcall \<times> preply) list \<Rightarrow> bool" where
  "guarded s log \<longleftrightarrow> (\<forall>n < length log. case fst (log ! n) of
     BkRestore ref db \<Rightarrow> (\<exists>chk. verified (take n log) ref chk) \<and> (\<exists>safe_ref. safe s (take n log) safe_ref) | _ \<Rightarrow> True)"

lemma guarded_quiet: "restores_of log = [] \<Longrightarrow> guarded s log"
  unfolding guarded_def
proof (intro allI impI)
  fix n assume "restores_of log = []" "n < length log"
  then have "log ! n \<in> set log" and "(case fst (log ! n) of BkRestore ref db \<Rightarrow> [(ref, rp_err (snd (log ! n)))] | _ \<Rightarrow> []) = []"
    by (auto simp: restores_of_def case_prod_beta)
  then show "case fst (log ! n) of BkRestore ref db \<Rightarrow> (\<exists>chk. verified (take n log) ref chk) \<and> (\<exists>safe_ref. safe s (take n log) safe_ref) | _ \<Rightarrow> True"
    by (cases "fst (log ! n)") simp_all
qed

lemma guarded_snoc:
  "guarded s log \<Longrightarrow> (\<And>ref db. c = BkRestore ref db \<Longrightarrow> (\<exists>chk. verified log ref chk) \<and> (\<exists>safe_ref. safe s log safe_ref)) \<Longrightarrow>
   guarded s (log @ [(c, r)])"
  unfolding guarded_def by (auto simp: less_Suc_eq nth_append split: pcall.split)

section \<open>A restore\<close>

definition source_kept :: "env \<Rightarrow> uuid \<Rightarrow> backup_row \<Rightarrow> string \<Rightarrow> ('p, 'z) hosted_scheme \<Rightarrow> bool" where
  "source_kept e b s0 chk w \<longleftrightarrow>
     find (\<lambda>x. bk_id x = b) (backups w) = Some s0 \<and> bk_loaded w = Some s0 \<and> b \<noteq> new_id e \<and>
     verified (h_calls w) (coalesce (bk_ref s0) []) chk \<and> restores_of (h_calls w) = [] \<and> bk_safety w = None"

lemma find_id_update [simp]:
  "b \<noteq> i \<Longrightarrow> (\<And>x. bk_id (f x) = bk_id x) \<Longrightarrow>
   find (\<lambda>x. bk_id x = b) (update_where (\<lambda>x. bk_id x = i) f xs) = find (\<lambda>x. bk_id x = b) xs"
  by (induction xs) auto

interpretation source: snapshot_frame e P ty "source_kept e b s0 chk" for e and P :: "'p infra" and ty b s0 chk
  by unfold_locales (auto simp: source_kept_def)

lemma restore_artifact_cases:
  assumes "find (\<lambda>x. bk_id x = b \<and> bk_org x = org) (backups w) = Some row" and "dumpable P org i (bk_type row) w"
  shows "(f1 \<or> f2) \<and> restore_artifact P f1 f2 org i b w = (Some ''database error'', w) \<or>
    (\<exists>db. restore_artifact P f1 f2 org i b w =
        (map_option perror_text (rp_err (answer P (BkRestore (coalesce (bk_ref row) []) db) w)), asked P (BkRestore (coalesce (bk_ref row) []) db) w))"
proof (cases "f1 \<or> (bk_type row = ''database'' \<or> bk_type row = ''full'') \<and> f2")
  case True
  then show ?thesis using assms(1) by (auto simp: restore_artifact_def)
next
  case False
  then show ?thesis
    using assms by (cases "project_db org i w") (auto simp: restore_artifact_def ask_infra_asked dumpable_def Let_def)
qed

definition secured :: "'p infra \<Rightarrow> env \<Rightarrow> uuid \<Rightarrow> uuid \<Rightarrow> backup_row \<Rightarrow> ('p, 'z) hosted_scheme \<Rightarrow> bool" where
  "secured P e org b s0 w \<longleftrightarrow>
     find (\<lambda>x. bk_id x = b) (backups w) = Some s0 \<and> bk_loaded w = Some s0 \<and> bk_org s0 = org \<and> bk_safety w = Some (new_id e) \<and>
     (\<exists>chk. verified (h_calls w) (coalesce (bk_ref s0) []) chk) \<and> guarded (new_id e) (h_calls w) \<and>
     kept_safe P (new_id e) org (bk_project s0) (bk_type s0) w"

lemma secured_frame [simp]: "secured P e org b s0 (w\<lparr>restores := x\<rparr>) = secured P e org b s0 w"
  by (simp add: secured_def kept_safe_def safety_backup_def dumpable_def project_db_def)

lemma kept_safe_asked [simp]: "kept_safe P s org i ty w \<Longrightarrow> kept_safe P s org i ty (asked P c w)"
  by (auto simp: kept_safe_def dumpable_def project_db_def intro: safety_backup_asked)

lemma secured_restore:
  assumes "secured P e org b s0 w" and "verified (h_calls w) ref chk"
  shows "secured P e org b s0 (asked P (BkRestore ref db) w)"
proof -
  have "\<exists>safe_ref. safe (new_id e) (h_calls w) safe_ref" using assms(1) by (auto simp: secured_def kept_safe_def safety_backup_def)
  then have "guarded (new_id e) (h_calls (asked P (BkRestore ref db) w))"
    using assms by (auto simp: secured_def intro!: guarded_snoc)
  then show ?thesis using assms(1) unfolding secured_def by (auto intro: verified_more)
qed

lemma secured_source:
  assumes "secured P e org b s0 w"
  shows "find (\<lambda>x. bk_id x = b \<and> bk_org x = org) (backups w) = Some s0" and "dumpable P org (bk_project s0) (bk_type s0) w"
    and "restored_project w = bk_project s0"
proof -
  have f: "find (\<lambda>x. bk_id x = b) (backups w) = Some s0" and o: "bk_org s0 = org" using assms by (simp_all add: secured_def)
  have "find (\<lambda>x. bk_id x = b \<and> bk_org x = org) xs = Some s0" if "find (\<lambda>x. bk_id x = b) xs = Some s0" for xs
    using that o by (induction xs) (auto split: if_splits)
  then show "find (\<lambda>x. bk_id x = b \<and> bk_org x = org) (backups w) = Some s0" using f by simp
  show "dumpable P org (bk_project s0) (bk_type s0) w" "restored_project w = bk_project s0"
    using assms by (simp_all add: secured_def kept_safe_def restored_project_def)
qed

text \<open>
  What a failed restore leaves: the last restoration is that of the safety snapshot. If all undos went
  through (\<open>ok\<close>) the provider reported no error for it; it is asked for whenever the two reads of the
  undo succeed.
\<close>

definition put_back :: "env \<Rightarrow> uuid \<Rightarrow> backup_row \<Rightarrow> bool \<Rightarrow> ('p, 'z) hosted_scheme \<Rightarrow> bool" where
  "put_back e org s0 ok w \<longleftrightarrow> guarded (new_id e) (h_calls w) \<and>
     (restores_of (h_calls w) = [] \<or>
        (let x = last (restores_of (h_calls w))
         in (\<exists>ref. safety_backup (new_id e) org (bk_project s0) (bk_type s0) w ref) \<and>
            (ok \<longrightarrow> safety_backup (new_id e) org (bk_project s0) (bk_type s0) w (fst x) \<and> snd x = None) \<and>
            (\<not> fault e 12 \<and> \<not> fault e 13 \<longrightarrow> safety_backup (new_id e) org (bk_project s0) (bk_type s0) w (fst x))))"

lemma put_back_quiet: "restores_of (h_calls w) = [] \<Longrightarrow> put_back e org s0 ok w"
  by (simp add: put_back_def guarded_quiet)

definition restore_inv ::
  "'p infra \<Rightarrow> env \<Rightarrow> uuid \<Rightarrow> uuid \<Rightarrow> backup_row \<Rightarrow> backup_row list \<Rightarrow> nat \<Rightarrow> ('p, 'z) hosted_scheme \<Rightarrow> bool" where
  "restore_inv P e org b s0 bs k w \<longleftrightarrow>
     (if k = 0 then h_calls w = [] \<and> backups w = bs
      else if k = 1 then \<exists>chk. source_kept e b s0 chk w
      else secured P e org b s0 w \<and> restores_of (h_calls w) = (if k = 2 then [] else [(coalesce (bk_ref s0) [], None)]))"

definition restore_bad :: "'p infra \<Rightarrow> env \<Rightarrow> uuid \<Rightarrow> uuid \<Rightarrow> backup_row \<Rightarrow> bool \<Rightarrow> nat \<Rightarrow> ('p, 'z) hosted_scheme \<Rightarrow> bool" where
  "restore_bad P e org b s0 ok k w \<longleftrightarrow>
     (if k \<le> 2 then put_back e org s0 ok w
      else secured P e org b s0 w \<and> map fst (restores_of (h_calls w)) \<in> {[], [coalesce (bk_ref s0) []]})"

lemma restore_inv_bad: "restore_inv P e org b s0 bs k w \<Longrightarrow> restore_bad P e org b s0 ok k w"
  by (auto simp: restore_inv_def restore_bad_def source_kept_def intro!: put_back_quiet split: if_splits)

abbreviation restore_tracks ::
  "'p infra \<Rightarrow> env \<Rightarrow> uuid \<Rightarrow> uuid \<Rightarrow> backup_row \<Rightarrow> backup_row list \<Rightarrow> nat \<Rightarrow> ('p, 'z) hosted_scheme op_step \<Rightarrow> bool" where
  "restore_tracks P e org b s0 bs \<equiv>
     step_tracks (\<lambda>k rs. restore_inv P e org b s0 bs k) (\<lambda>ok k rs. restore_bad P e org b s0 ok k)"

lemma verify_source_keeps:
  fixes P :: "'p infra"
  assumes "find (\<lambda>x. bk_id x = b) bs = Some s0" and "find (live_backup org b) bs = Some s0" and "new_id e \<notin> bk_id ` set bs"
  shows "restore_tracks P e org b s0 bs 0 (verify_source_step P e org b :: ('p, 'z) hosted_scheme op_step)"
proof (rule step_tracks_ends)
  let ?st = "verify_source_step P e org b :: ('p, 'z) hosted_scheme op_step"
  show "os_run ?st = Some (the (os_run ?st))" by (simp add: verify_source_step_def)
  have "b \<noteq> new_id e" using assms(3) find_SomeD [OF assms(1)] by force
  then show "ends (the (os_run ?st) poll rs w)
      ((\<lambda>k rs. restore_inv P e org b s0 bs k) (Suc 0)) ((\<lambda>ok k rs. restore_bad P e org b s0 ok k) True (Suc 0))"
    if "restore_inv P e org b s0 bs 0 w" for poll rs and w :: "('p, 'z) hosted_scheme"
    using that assms
    by (auto simp: verify_source_step_def Let_def restore_inv_def restore_bad_def ask_infra_asked source_kept_def verified_def
        intro!: put_back_quiet split: option.split)
  have undo: "restore_bad P e org b s0 ok' 0 w'"
    if "restore_bad P e org b s0 ok (Suc 0) w" "h_calls w' = h_calls w" "backups w' = backups w" "ok' \<Longrightarrow> ok"
    for ok ok' and w w' :: "('p, 'z) hosted_scheme"
    using that safety_backup_same [OF that(3,2)] by (auto simp: restore_bad_def put_back_def Let_def)
  show "case os_undo ?st of
        None \<Rightarrow> \<forall>ok rs w. restore_bad P e org b s0 ok (Suc 0) w \<longrightarrow> restore_bad P e org b s0 ok 0 w
      | Some u \<Rightarrow> \<forall>ok poll rs w. restore_bad P e org b s0 ok (Suc 0) w \<longrightarrow>
          ends (u poll rs w) ((\<lambda>ok k rs. restore_bad P e org b s0 ok k) ok 0) ((\<lambda>ok k rs. restore_bad P e org b s0 ok k) False 0)"
    by (auto simp: verify_source_step_def split: option.split elim: undo)
qed

lemma safety_snapshot_keeps:
  fixes P :: "'p infra"
  assumes "bk_org s0 = org"
  shows "restore_tracks P e org b s0 bs 1 (safety_snapshot_step P e org :: ('p, 'z) hosted_scheme op_step)"
proof (rule step_tracks_ends)
  let ?st = "safety_snapshot_step P e org :: ('p, 'z) hosted_scheme op_step"
  show "os_run ?st = Some (the (os_run ?st))" by (simp add: safety_snapshot_step_def)
  show "ends (the (os_run ?st) poll rs w)
      ((\<lambda>k rs. restore_inv P e org b s0 bs k) (Suc 1)) ((\<lambda>ok k rs. restore_bad P e org b s0 ok k) True (Suc 1))"
    if inv: "restore_inv P e org b s0 bs 1 w" for poll rs and w :: "('p, 'z) hosted_scheme"
  proof -
    obtain chk where src: "source_kept e b s0 chk w"
      using inv by (auto simp: restore_inv_def)
    let ?s = "snapshot P e 4 org (restored_project w) (safety_payload (restored_type w)) w"
    obtain x w1 where s: "?s = (x, w1)" by fastforce
    have "source_kept e b s0 chk (w\<lparr>backups := backups w @ [snapshot_row e org i inp]\<rparr>)" for i inp
    proof -
      have "find (\<lambda>x. bk_id x = b) (xs @ ys) = Some s0" if "find (\<lambda>x. bk_id x = b) xs = Some s0" for xs ys
        using that by (induction xs) auto
      then show ?thesis using src by (simp add: source_kept_def)
    qed
    then have kept: "source_kept e b s0 chk w1" using source.snapshots [OF src _ refl] s by (metis snd_conv)
    show ?thesis
    proof (cases x)
      case (Inl t)
      then show ?thesis using kept s
        by (auto simp: safety_snapshot_step_def restore_bad_def source_kept_def intro!: put_back_quiet)
    next
      case (Inr i)
      have "i = new_id e \<and> kept_safe P i org (bk_project s0) (bk_type s0) w1"
        using snapshot_Inr [OF s [unfolded Inr]] src
        by (auto simp: safety_payload_def restored_project_def restored_type_def source_kept_def)
      then have "secured P e org b s0 (w1\<lparr>bk_safety := Some i\<rparr>)" and "restores_of (h_calls w1) = []"
        using kept assms unfolding secured_def source_kept_def kept_safe_def safety_backup_def dumpable_def project_db_def
        by (auto intro: guarded_quiet)
      then show ?thesis using s Inr
        by (auto simp: safety_snapshot_step_def restore_inv_def restore_bad_def Let_def intro!: put_back_quiet)
    qed
  qed
qed (simp add: safety_snapshot_step_def restore_bad_def)

lemma secured_safety: "secured P e org b s0 w \<Longrightarrow> bk_safety w \<noteq> None"
  by (simp add: secured_def)

text \<open>The undo of the restore step: it asks for the safety snapshot, unless the database fails first.\<close>

lemma safety_put_back:
  fixes w w' :: "('p, 'z) hosted_scheme"
  assumes sec: "secured P e org b s0 w" and mine: "bk_safety w = Some i"
    and call: "restore_artifact P (fault e 12) (fault e 13) org (restored_project w) i w = (x, w')"
  shows "put_back e org s0 (ok \<and> x = None) w'"
proof -
  have i: "i = new_id e" using sec mine by (simp add: secured_def)
  obtain ref where sb: "safety_backup (new_id e) org (bk_project s0) (bk_type s0) w ref" and d: "dumpable P org (bk_project s0) (bk_type s0) w"
    using sec by (auto simp: secured_def kept_safe_def)
  from sb obtain row where row: "find (\<lambda>x. bk_id x = new_id e \<and> bk_org x = org) (backups w) = Some row" "bk_ref row = Some ref"
      "bk_type row = bk_type s0" "safe (new_id e) (h_calls w) ref"
    by (auto simp: safety_backup_def)
  consider (failed) "fault e 12 \<or> fault e 13" "x \<noteq> None" "w' = w"
    | (asked) db where "w' = asked P (BkRestore ref db) w" "x = map_option perror_text (rp_err (answer P (BkRestore ref db) w))"
    using restore_artifact_cases [OF row(1), of P "bk_project s0" "fault e 12" "fault e 13"] d row(2,3) call i secured_source(3) [OF sec]
    by (auto simp: coalesce_def)
  then show ?thesis
  proof cases
    case failed
    then show ?thesis using sec by (auto simp: put_back_def secured_def kept_safe_def Let_def)
  next
    case (asked db)
    obtain chk where "verified (h_calls w) ref chk" using row(4) by (auto simp: safe_def)
    then have "secured P e org b s0 w'" unfolding asked(1) by (rule secured_restore [OF sec])
    moreover have "safety_backup (new_id e) org (bk_project s0) (bk_type s0) w' ref" using sb asked(1) by simp
    ultimately show ?thesis using asked by (auto simp: put_back_def secured_def Let_def)
  qed
qed

lemma restore_step_keeps:
  fixes P :: "'p infra"
  shows "restore_tracks P e org b s0 bs 2 (restore_step P e org b :: ('p, 'z) hosted_scheme op_step)"
proof (rule step_tracks_ends)
  let ?st = "restore_step P e org b :: ('p, 'z) hosted_scheme op_step"
  show "os_run ?st = Some (the (os_run ?st))" by (simp add: restore_step_def)
  show "ends (the (os_run ?st) poll rs w)
      ((\<lambda>k rs. restore_inv P e org b s0 bs k) (Suc 2)) ((\<lambda>ok k rs. restore_bad P e org b s0 ok k) True (Suc 2))"
    if inv: "restore_inv P e org b s0 bs 2 w" for poll rs and w :: "('p, 'z) hosted_scheme"
  proof -
    let ?R = "coalesce (bk_ref s0) []"
    have sec: "secured P e org b s0 w" and quiet: "restores_of (h_calls w) = []" using inv by (auto simp: restore_inv_def)
    obtain chk where "verified (h_calls w) ?R chk" using sec by (auto simp: secured_def)
    then have after: "secured P e org b s0 (asked P (BkRestore ?R db) w)" for db using secured_restore [OF sec] by blast
    show ?thesis
      using restore_artifact_cases [OF secured_source(1,2) [OF sec], of "fault e 10" "fault e 11"] secured_source(3) [OF sec] sec quiet after
      by (auto simp: restore_step_def restore_inv_def restore_bad_def split: option.split)
  qed
  have undo: "put_back e org s0 (ok \<and> x = None) w'" if "restore_bad P e org b s0 ok (Suc 2) w" "bk_safety w = Some i"
      "restore_artifact P (fault e 12) (fault e 13) org (restored_project w) i w = (x, w')"
    for ok x i and w w' :: "('p, 'z) hosted_scheme"
    using that safety_put_back by (auto simp: restore_bad_def)
  have "bk_safety w \<noteq> None" if "restore_bad P e org b s0 ok (Suc 2) w" for ok and w :: "('p, 'z) hosted_scheme"
    using that secured_safety by (auto simp: restore_bad_def)
  then show "case os_undo ?st of
        None \<Rightarrow> \<forall>ok rs w. restore_bad P e org b s0 ok (Suc 2) w \<longrightarrow> restore_bad P e org b s0 ok 2 w
      | Some u \<Rightarrow> \<forall>ok poll rs w. restore_bad P e org b s0 ok (Suc 2) w \<longrightarrow>
          ends (u poll rs w) ((\<lambda>ok k rs. restore_bad P e org b s0 ok k) ok 2) ((\<lambda>ok k rs. restore_bad P e org b s0 ok k) False 2)"
    using undo by (fastforce simp: restore_step_def restore_bad_def split: option.split prod.split)
qed

lemma finalize_keeps:
  fixes P :: "'p infra"
  shows "restore_tracks P e org b s0 bs 3 (finalize_step P e :: ('p, 'z) hosted_scheme op_step)"
  by (rule step_tracks_ends) (auto simp: finalize_step_def Let_def restore_inv_def restore_bad_def)

lemma restore_factory_op:
  "df_factory (restore_definition P oe) org project pl = Inr op \<Longrightarrow> b = snd (payload_resource (in_parse_uuid P) pl) \<Longrightarrow>
   op = \<lparr>op_validate = restore_validate P oe org project b, op_body = StepperOp (restore_steps P oe org b)\<rparr>"
  by (simp add: restore_definition_def Let_def)


section \<open>Completed backups are verified\<close>

definition honest_row :: "(pcall \<times> preply) list \<Rightarrow> backup_row \<Rightarrow> bool" where
  "honest_row log b \<longleftrightarrow> (bk_status b = ''completed'' \<longrightarrow>
     (\<exists>ref chk. bk_ref b = Some ref \<and> bk_sum b = Some chk \<and> verified log ref chk))"

definition honest :: "('p, 'z) hosted_scheme \<Rightarrow> bool" where
  "honest w \<longleftrightarrow> pk bk_id (backups w) \<and> (\<forall>b \<in> set (backups w). honest_row (h_calls w) b)"

lemma honest_row_more [simp]: "honest_row log b \<Longrightarrow> honest_row (log @ x) b"
  by (auto simp: honest_row_def)

lemma honest_update:
  "honest w \<Longrightarrow> bs = backups w \<Longrightarrow> (\<And>b. q b \<Longrightarrow> bk_id (f b) = bk_id b) \<Longrightarrow>
   (\<And>b. b \<in> set bs \<Longrightarrow> q b \<Longrightarrow> honest_row (h_calls w) b \<Longrightarrow> honest_row (h_calls w) (f b)) \<Longrightarrow>
   honest (w\<lparr>backups := update_where q f bs\<rparr>)"
  by (auto simp: honest_def set_update_where pk_update_where)

lemma honest_asked [simp]: "honest w \<Longrightarrow> honest (asked P c w)"
  by (simp add: honest_def)

lemma honest_frame [simp]:
  "honest (w\<lparr>restores := x\<rparr>) = honest w" "honest (w\<lparr>bk_loaded := a\<rparr>) = honest w" "honest (w\<lparr>bk_restore := i\<rparr>) = honest w"
  "honest (w\<lparr>bk_safety := s\<rparr>) = honest w" "honest (w\<lparr>policies := p\<rparr>) = honest w" "honest (w\<lparr>restores := x, bk_restore := i\<rparr>) = honest w"
  "honest (w\<lparr>bk_loaded := a, bk_restore := i, bk_safety := s\<rparr>) = honest w" "honest (rec_audit f ac act ty k w) = honest w"
  by (simp_all add: honest_def rec_audit_def)

interpretation honest: snapshot_frame e P ty honest for e and P :: "'p infra" and ty
  by unfold_locales (auto simp: honest_row_def intro!: honest_update)

lemma honest_snapshot:
  assumes "honest w" and "snapshot P e k org i inp w = (x, w')"
  shows "honest w'"
proof -
  have "honest (w\<lparr>backups := backups w @ [snapshot_row e org i inp]\<rparr>)" if "new_id e \<notin> bk_id ` set (backups w)"
    using assms(1) that by (auto simp: honest_def honest_row_def snapshot_row_def pk_def)
  then show ?thesis using honest.snapshots [OF assms(1) _ refl] assms(2) by (metis snd_conv)
qed

lemma honest_restore_artifact: "honest w \<Longrightarrow> restore_artifact P f1 f2 org i b w = (x, w') \<Longrightarrow> honest w'"
  by (auto simp: restore_artifact_def ask_infra_asked Let_def split: option.splits if_splits)

lemma honest_drop_artifact: "honest w \<Longrightarrow> drop_artifact P ref w = (x, w') \<Longrightarrow> honest w'"
  by (auto simp: drop_artifact_def hcall_asked split: if_splits)

text \<open>One execution keeps what its steps keep.\<close>

lemma keeps_honest:
  assumes "os_run st = Some f" and "\<And>poll rs w. honest w \<Longrightarrow> ends (f poll rs w) (\<lambda>_. honest) (\<lambda>_. honest)"
    and "\<And>u poll rs w. os_undo st = Some u \<Longrightarrow> honest w \<Longrightarrow> ends (u poll rs w) (\<lambda>_. honest) (\<lambda>_. honest)"
  shows "step_keeps (\<lambda>_ _. honest) (\<lambda>_ _. honest) k st"
  by (rule step_keeps_ends [OF assms(1)]) (use assms(2,3) in \<open>auto split: option.split\<close>)

lemma create_and_verify_honest: "step_keeps (\<lambda>_ _. honest) (\<lambda>_ _. honest) k (create_and_verify_step P e org i inp)"
  by (rule keeps_honest)
     (auto simp: create_and_verify_step_def split: prod.split sum.split dest: honest_snapshot)

lemma verify_checksum_honest: "step_keeps (\<lambda>_ _. honest) (\<lambda>_ _. honest) k (verify_checksum_step P e org b)"
proof (rule keeps_honest)
  show "os_run (verify_checksum_step P e org b) = Some (the (os_run (verify_checksum_step P e org b)))"
    by (simp add: verify_checksum_step_def)
  show "ends (the (os_run (verify_checksum_step P e org b)) poll rs w) (\<lambda>_. honest) (\<lambda>_. honest)" if h: "honest w" for poll rs w
  proof -
    have good: "honest ((asked P (BkVerify ref chk) w)\<lparr>backups := update_where (\<lambda>x. bk_id x = b)
        (\<lambda>x. x\<lparr>bk_verified := Some (db_now e), bk_status := ''completed'', bk_error := None\<rparr>) (backups w)\<rparr>)"
      if "rp_err (answer P (BkVerify ref chk) w) = None" "find (\<lambda>x. bk_id x = b \<and> bk_org x = org) (backups w) = Some row"
        "ref \<noteq> []" "chk \<noteq> []" "coalesce (bk_ref row) [] = ref" "coalesce (bk_sum row) [] = chk" for ref chk row
    proof (rule honest_update)
      fix x assume x: "x \<in> set (backups w)" "bk_id x = b"
      have "row \<in> set (backups w)" "bk_id row = b" using find_SomeD [OF that(2)] by simp_all
      then have "x = row" using x h by (auto simp: honest_def dest: pk_unique)
      then show "honest_row (h_calls (asked P (BkVerify ref chk) w)) (x\<lparr>bk_verified := Some (db_now e), bk_status := ''completed'', bk_error := None\<rparr>)"
        using that by (auto simp: honest_row_def verified_def coalesce_def split: option.splits)
    qed (use h in simp_all)
    have bad: "honest ((asked P c w)\<lparr>backups := update_where (\<lambda>x. bk_id x = b)
        (\<lambda>x. x\<lparr>bk_status := ''corrupt'', bk_error := t\<rparr>) (backups w)\<rparr>)" for c t
      by (rule honest_update) (use h in \<open>simp_all add: honest_row_def\<close>)
    show ?thesis
      using h by (auto simp: verify_checksum_step_def ask_infra_asked Let_def intro!: good bad split: option.split)
  qed
qed (simp add: verify_checksum_step_def)


lemma restore_steps_honest:
  "step_keeps (\<lambda>_ _. honest) (\<lambda>_ _. honest) k (verify_source_step P e org b)"
  "step_keeps (\<lambda>_ _. honest) (\<lambda>_ _. honest) k (safety_snapshot_step P e org)"
  "step_keeps (\<lambda>_ _. honest) (\<lambda>_ _. honest) k (restore_step P e org b)"
  "step_keeps (\<lambda>_ _. honest) (\<lambda>_ _. honest) k (finalize_step P e)"
proof -
  show "step_keeps (\<lambda>_ _. honest) (\<lambda>_ _. honest) k (verify_source_step P e org b)"
    by (rule keeps_honest) (auto simp: verify_source_step_def ask_infra_asked Let_def split: option.split)
  show "step_keeps (\<lambda>_ _. honest) (\<lambda>_ _. honest) k (safety_snapshot_step P e org)"
    by (rule keeps_honest) (auto simp: safety_snapshot_step_def Let_def split: prod.split sum.split dest: honest_snapshot)
  show "step_keeps (\<lambda>_ _. honest) (\<lambda>_ _. honest) k (restore_step P e org b)"
    by (rule keeps_honest) (auto simp: restore_step_def split: prod.split option.split dest: honest_restore_artifact)
  show "step_keeps (\<lambda>_ _. honest) (\<lambda>_ _. honest) k (finalize_step P e)"
    by (rule keeps_honest) (auto simp: finalize_step_def Let_def)
qed

lemma honest_mark_deleted:
  "honest w \<Longrightarrow> bs = backups w \<Longrightarrow> honest (w\<lparr>backups := update_where q (\<lambda>x. x\<lparr>bk_status := ''deleted''\<rparr>) bs\<rparr>)"
  by (rule honest_update) (simp_all add: honest_row_def)

lemma delete_backup_honest: "step_keeps (\<lambda>_ _. honest) (\<lambda>_ _. honest) k (delete_backup_step P e org b)"
  by (rule keeps_honest)
     (auto simp: delete_backup_step_def Let_def split: prod.split option.split dest: honest_drop_artifact intro!: honest_mark_deleted)

section \<open>Runs of the backup service\<close>

text \<open>The executions of the four operations, the sweeps and the policies, in any order.\<close>

datatype 'p backup_event =
    RunCreate env cancel_env env job
  | RunVerify env cancel_env env job
  | RunRestore env cancel_env env job
  | RunDelete env cancel_env env job
  | Sweep env time
  | SavePolicy env auth_context uuid policy_input
  | DeletePolicy env auth_context uuid

fun backup_step :: "'p infra \<Rightarrow> 'p backup_event \<Rightarrow> ('p, 'z) hosted_scheme jobs_db \<Rightarrow> ('p, 'z) hosted_scheme jobs_db" where
  "backup_step P (RunCreate e c oe j) d = snd (engine_execute e c (create_definition P oe) j d)"
| "backup_step P (RunVerify e c oe j) d = snd (engine_execute e c (verify_definition P oe) j d)"
| "backup_step P (RunRestore e c oe j) d = snd (engine_execute e c (restore_definition P oe) j d)"
| "backup_step P (RunDelete e c oe j) d = snd (engine_execute e c (delete_backup_definition P oe) j d)"
| "backup_step P (Sweep e now) d = on_outside (EnforceRetention P e now) d"
| "backup_step P (SavePolicy e ac i inp) d = on_outside (save_policy e ac i inp) d"
| "backup_step P (DeletePolicy e ac i) d = on_outside (delete_policy e ac i) d"

lemma honest_delete_expired: "honest w \<Longrightarrow> delete_expired P e k bs n w = (m, w') \<Longrightarrow> honest w'"
proof (induction bs arbitrary: k n w)
  case (Cons b bs)
  obtain x w1 where d: "drop_artifact P (coalesce (bk_ref b) []) w = (x, w1)" by fastforce
  have "honest w1" using honest_drop_artifact [OF Cons.prems(1) d] .
  moreover have IH: "delete_expired P e k bs n w = (m, w') \<Longrightarrow> honest w \<Longrightarrow> honest w'" for k n w by (rule Cons.IH)
  ultimately show ?case using Cons.prems(2) d
    by (auto simp: honest_mark_deleted split: option.splits if_splits dest: IH)
qed simp

lemma honest_policies:
  "honest w \<Longrightarrow> honest (snd (save_policy e ac i inp w))" "honest w \<Longrightarrow> honest (snd (delete_policy e ac i w))"
proof -
  show "honest w \<Longrightarrow> honest (snd (save_policy e ac i inp w))"
    by (auto simp: save_policy_def Let_def split: option.split)
  have "honest (w\<lparr>policies := x, backups := update_where q (\<lambda>b. b\<lparr>bk_policy := None\<rparr>) (backups w)\<rparr>)" if "honest w" for x q
    using honest_update [of w "backups w" q "\<lambda>b. b\<lparr>bk_policy := None\<rparr>"] that by (simp add: honest_def honest_row_def)
  then show "honest w \<Longrightarrow> honest (snd (delete_policy e ac i w))"
    by (auto simp: delete_policy_def Let_def split: option.split)
qed

lemma backup_step_honest:
  assumes "honest (outside d)"
  shows "honest (outside (backup_step P ev d))"
proof -
  have run: "honest (outside (snd (engine_execute e c df j d)))"
    if "\<And>org i pl op. df_factory df org i pl = Inr op \<Longrightarrow>
      \<exists>sts. op_body op = StepperOp sts \<and> (\<forall>st \<in> set sts. \<forall>k. step_keeps (\<lambda>_ _. honest) (\<lambda>_ _. honest) k st)" for e c df j
    using execution_invariant [OF prod.collapse [symmetric] assms that] .
  show ?thesis
  proof (cases ev)
    case (Sweep e now)
    then show ?thesis using assms
      by (auto simp: on_outside_def EnforceRetention_def split: prod.split dest: honest_delete_expired)
  qed (use assms in \<open>auto intro!: run honest_policies simp: create_definition_def verify_definition_def restore_definition_def
      delete_backup_definition_def restore_steps_def on_outside_def Let_def create_and_verify_honest verify_checksum_honest
      restore_steps_honest delete_backup_honest\<close>)
qed

text \<open>
  C13: A backup that counts as completed has been verified: along any sequence of backups, verifications,
  restores, deletions, retention sweeps and policy changes, with any provider answers, driver errors and
  cancellations, its row names an artifact that the provider verified with the recorded checksum.
\<close>

theorem completed_backups_are_verified:
  assumes "honest (outside d)" and "b \<in> set (backups (outside (run_ops (backup_step P) evs d)))" and "bk_status b = ''completed''"
  shows "\<exists>ref chk. bk_ref b = Some ref \<and> bk_sum b = Some chk \<and> verified (h_calls (outside (run_ops (backup_step P) evs d))) ref chk"
proof -
  have "honest (outside (run_ops (backup_step P) evs d))"
    by (rule run_ops_invariant [where I = "\<lambda>d. honest (outside d)"]) (use assms(1) in \<open>simp_all add: backup_step_honest\<close>)
  then show ?thesis using assms(2,3) by (auto simp: honest_def honest_row_def)
qed

section \<open>Retention\<close>

definition gone :: "(pcall \<times> preply) list \<Rightarrow> backup_row \<Rightarrow> bool" where
  "gone log b \<longleftrightarrow> coalesce (bk_ref b) [] = [] \<or>
     (\<exists>r. (BkDelete (coalesce (bk_ref b) []), r) \<in> set log \<and> (rp_err r = None \<or> rp_err r = Some ErrNotFound))"

lemma gone_more [simp]: "gone log b \<Longrightarrow> gone (log @ x) b"
  by (auto simp: gone_def)

abbreviation mark_gone :: "backup_row set \<Rightarrow> backup_row list \<Rightarrow> backup_row list" where
  "mark_gone D tbl \<equiv> update_where (\<lambda>b. b \<in> D) (\<lambda>b. b\<lparr>bk_status := ''deleted''\<rparr>) tbl"

lemma update_where_False [simp]: "update_where (\<lambda>b. False) f tbl = tbl"
  by (simp add: update_where_def)

lemma mark_gone_insert:
  "pk bk_id tbl \<Longrightarrow> b \<in> set tbl \<Longrightarrow>
   update_where (\<lambda>x. bk_id x = bk_id b) (\<lambda>x. x\<lparr>bk_status := ''deleted''\<rparr>) (mark_gone D tbl) = mark_gone (insert b D) tbl"
proof -
  assume "pk bk_id tbl" "b \<in> set tbl"
  then have "bk_id x = bk_id b \<longleftrightarrow> x = b" if "x \<in> set tbl" for x using that pk_unique by metis
  then show ?thesis by (auto simp: update_where_def)
qed

definition refused :: "(pcall \<times> preply) list \<Rightarrow> backup_row \<Rightarrow> bool" where
  "refused log b \<longleftrightarrow> (\<exists>r t. (BkDelete (coalesce (bk_ref b) []), r) \<in> set log \<and> rp_err r = Some (OtherError t))"

lemma gone_refused_append [simp]:
  "gone log' b \<Longrightarrow> gone (log @ log') b" "refused log b \<Longrightarrow> refused (log @ log') b" "refused log' b \<Longrightarrow> refused (log @ log') b"
  by (auto simp: gone_def refused_def)

definition deletes_of :: "backup_row set \<Rightarrow> (pcall \<times> preply) list \<Rightarrow> bool" where
  "deletes_of B log \<longleftrightarrow> (\<forall>x \<in> set log. \<exists>b \<in> B. fst x = BkDelete (coalesce (bk_ref b) []))"

lemma deletes_of_append: "deletes_of {b} log \<Longrightarrow> deletes_of B log' \<Longrightarrow> deletes_of (insert b B) (log @ log')"
  by (auto simp: deletes_of_def)

lemma drop_artifact_gone:
  assumes "drop_artifact P (coalesce (bk_ref b) []) w = (x, w')"
  obtains new where "backups w' = backups w" "restores w' = restores w" "h_calls w' = h_calls w @ new"
    "deletes_of {b} new" "x = None \<Longrightarrow> gone new b" "x \<noteq> None \<Longrightarrow> refused new b"
proof -
  have "backups w' = backups w \<and> restores w' = restores w \<and>
    (\<exists>new. h_calls w' = h_calls w @ new \<and> deletes_of {b} new \<and> (x = None \<longrightarrow> gone new b) \<and> (x \<noteq> None \<longrightarrow> refused new b))"
    using assms unfolding drop_artifact_def hcall_asked gone_def refused_def deletes_of_def
    by (auto split: if_splits option.splits perror.splits)
  then show ?thesis using that by blast
qed

lemma delete_expired_effect:
  assumes "delete_expired P e k bs n w = (m, w')" and "pk bk_id tbl" and "set bs \<subseteq> set tbl" and "distinct bs"
    and "backups w = mark_gone D tbl" and "D \<inter> set bs = {}" and "D \<subseteq> set tbl"
  shows "\<exists>E new. E \<subseteq> set bs \<and> backups w' = mark_gone (D \<union> E) tbl \<and> restores w' = restores w \<and>
     h_calls w' = h_calls w @ new \<and> deletes_of (set bs) new \<and> (\<forall>b \<in> E. gone new b) \<and>
     (\<forall>b \<in> set bs - E. (\<exists>i. fault e i) \<or> refused new b) \<and> m = n + int (card E)"
  using assms
proof (induction bs arbitrary: k n w D)
  case Nil
  then show ?case by (auto simp: deletes_of_def)
next
  case (Cons b bs)
  obtain x w1 where d: "drop_artifact P (coalesce (bk_ref b) []) w = (x, w1)" by fastforce
  from drop_artifact_gone [OF d] obtain new1 where g: "backups w1 = backups w" "restores w1 = restores w"
    "h_calls w1 = h_calls w @ new1" "deletes_of {b} new1" "x = None \<Longrightarrow> gone new1 b" "x \<noteq> None \<Longrightarrow> refused new1 b" by blast
  show ?case
  proof (cases "x = None \<and> \<not> fault e (2 * k + 1)")
    case False
    then have "delete_expired P e (Suc k) bs n w1 = (m, w')" using Cons.prems(1) d by (cases x) simp_all
    then have "\<exists>E new. E \<subseteq> set bs \<and> backups w' = mark_gone (D \<union> E) tbl \<and> restores w' = restores w1 \<and>
        h_calls w' = h_calls w1 @ new \<and> deletes_of (set bs) new \<and> (\<forall>b \<in> E. gone new b) \<and>
        (\<forall>b \<in> set bs - E. (\<exists>i. fault e i) \<or> refused new b) \<and> m = n + int (card E)"
      by (rule Cons.IH) (use Cons.prems g(1) in auto)
    then obtain E new where E: "E \<subseteq> set bs" "backups w' = mark_gone (D \<union> E) tbl" "restores w' = restores w1"
        "h_calls w' = h_calls w1 @ new" "deletes_of (set bs) new" "\<forall>b \<in> E. gone new b"
        "\<forall>b \<in> set bs - E. (\<exists>i. fault e i) \<or> refused new b" "m = n + int (card E)" by blast
    have "(\<exists>i. fault e i) \<or> refused new1 b" using False g(6) by blast
    then show ?thesis using E g(2,3) deletes_of_append [OF g(4) E(5)]
      by (intro exI [of _ E] exI [of _ "new1 @ new"]) auto
  next
    case True
    let ?w2 = "rec_audit (fault e (2 * k + 2)) (System_ctx (bk_org b)) ''backups.backup.expired'' ''backup'' (bk_id b)
        (w1\<lparr>backups := update_where (\<lambda>x. bk_id x = bk_id b) (\<lambda>x. x\<lparr>bk_status := ''deleted''\<rparr>) (backups w1)\<rparr>)"
    have next_run: "delete_expired P e (Suc k) bs (n + 1) ?w2 = (m, w')" using True Cons.prems(1) d by simp
    have sel: "backups ?w2 = mark_gone (insert b D) tbl" "restores ?w2 = restores w" "h_calls ?w2 = h_calls w @ new1"
      using g(1-3) Cons.prems mark_gone_insert by (simp_all add: rec_audit_def)
    have "\<exists>E new. E \<subseteq> set bs \<and> backups w' = mark_gone (insert b D \<union> E) tbl \<and> restores w' = restores ?w2 \<and>
        h_calls w' = h_calls ?w2 @ new \<and> deletes_of (set bs) new \<and> (\<forall>b \<in> E. gone new b) \<and>
        (\<forall>b \<in> set bs - E. (\<exists>i. fault e i) \<or> refused new b) \<and> m = n + 1 + int (card E)"
      by (rule Cons.IH [OF next_run]) (use Cons.prems sel in auto)
    then obtain E new where E: "E \<subseteq> set bs" "backups w' = mark_gone (insert b D \<union> E) tbl" "restores w' = restores w"
        "h_calls w' = h_calls w @ new1 @ new" "deletes_of (set bs) new" "\<forall>b \<in> E. gone new b"
        "\<forall>b \<in> set bs - E. (\<exists>i. fault e i) \<or> refused new b" "m = n + 1 + int (card E)" unfolding sel(2,3) by auto
    have "b \<notin> E" "finite E" using E(1) Cons.prems(4) finite_subset by auto
    then have "m = n + int (card (insert b E))" using E(8) by simp
    moreover have "gone (new1 @ new) b" using g(5) True by simp
    ultimately show ?thesis using E deletes_of_append [OF g(4) E(5)]
      by (intro exI [of _ "insert b E"] exI [of _ "new1 @ new"]) auto
  qed
qed

text \<open>
  A backup is due when it is in no intermediate state and not yet deleted, has a retention date, the date
  lies in the past, and no restore that is still running would need it as its safety snapshot.
\<close>

definition due :: "time \<Rightarrow> ('p, 'z) hosted_scheme \<Rightarrow> backup_row \<Rightarrow> bool" where
  "due now w b \<longleftrightarrow> bk_status b \<in> {''completed'', ''corrupt'', ''failed''} \<and> (\<exists>t. bk_retention b = Some t \<and> t < now) \<and>
     (\<forall>r \<in> set (restores w). rt_status r = ''running'' \<longrightarrow> rt_safety r \<noteq> Some (bk_id b))"

lemma expired_due: "expired now w b = due now w b"
  by (auto simp: expired_def due_def list_ex_iff split: option.splits)

text \<open>
  C15: A retention sweep marks deleted exactly a set of backups whose retention date has passed, that are
  neither running nor deleted already and not the safety snapshot of a running restore, each after the
  provider deleted its artifact or did not know it; it asks for the deletion of no other artifact,
  everything else in the table stays as it was, and the count returned is the size of the set. A due
  backup stays only if the provider refused to delete its artifact or a statement of the sweep failed.
\<close>

theorem retention_deletes_expired_only:
  assumes "EnforceRetention P e now w = (x, w')" and "pk bk_id (backups w)"
  shows "\<exists>D new. D \<subseteq> {b \<in> set (backups w). due now w b} \<and> backups w' = mark_gone D (backups w) \<and> restores w' = restores w \<and>
     h_calls w' = h_calls w @ new \<and> deletes_of {b \<in> set (backups w). due now w b} new \<and> (\<forall>b \<in> D. gone new b) \<and>
     (case x of Inl t \<Rightarrow> D = {} | Inr n \<Rightarrow> n = int (card D)) \<and>
     (in_backups P \<longrightarrow> (\<forall>b \<in> set (backups w). due now w b \<longrightarrow> b \<in> D \<or> (\<exists>i. fault e i) \<or> refused new b))"
proof (cases "in_backups P \<and> \<not> fault e 0")
  case False
  then show ?thesis using assms(1)
    by (intro exI [of _ "{}"] exI [of _ "[]"]) (auto simp: EnforceRetention_def deletes_of_def split: if_splits)
next
  case True
  let ?bs = "filter (expired now w) (backups w)"
  obtain m where m: "delete_expired P e 0 ?bs 0 w = (m, w')" "x = Inr m"
    using assms(1) True by (auto simp: EnforceRetention_def split: prod.splits)
  have "distinct ?bs" using assms(2) by (simp add: pk_def distinct_map)
  then obtain D new where D: "D \<subseteq> set ?bs" "backups w' = mark_gone ({} \<union> D) (backups w)" "restores w' = restores w"
      "h_calls w' = h_calls w @ new" "deletes_of (set ?bs) new" "\<forall>b \<in> D. gone new b"
      "\<forall>b \<in> set ?bs - D. (\<exists>i. fault e i) \<or> refused new b" "m = 0 + int (card D)"
    using delete_expired_effect [OF m(1) assms(2), of "{}"] by auto
  have "set ?bs = {b \<in> set (backups w). due now w b}" by (simp add: expired_due)
  then show ?thesis using D m(2) by (intro exI [of _ D] exI [of _ new]) auto
qed

section \<open>Schedules\<close>

definition scheduled :: "'p infra \<Rightarrow> time \<Rightarrow> policy_row \<Rightarrow> job_row \<Rightarrow> bool" where
  "scheduled P now p r \<longleftrightarrow> jr_operation r = Some ''backup.create'' \<and> jr_org r = bp_org p \<and> jr_status r = StatusQueued \<and>
     jr_project r = (if bp_project p \<noteq> uuid_nil then Some (bp_project p) else None) \<and> jr_key r = Some (policy_key P now p)"

definition same_key :: "job_row \<Rightarrow> job_row \<Rightarrow> bool" where
  "same_key q r \<longleftrightarrow> jr_org q = jr_org r \<and> jr_key q = jr_key r"

lemma submit_policy:
  assumes "submit_trusted e fl defs (System_ctx (bp_org p)) (policy_submission P now p) d = (x, d1)"
    and "defs ''backup.create'' = Some df" and "df_name df = ''backup.create''"
  shows "outside d1 = outside d \<and>
    (jobs d1 = jobs d \<and> (\<forall>ref. x = Inr ref \<longrightarrow> \<not> jf_created ref) \<or>
     (\<exists>row ref. jobs d1 = jobs d @ [row] \<and> x = Inr ref \<and> jf_created ref \<and> scheduled P now p row \<and> (\<forall>q \<in> set (jobs d). \<not> same_key q row)))"
proof -
  have key: "policy_key P now p \<noteq> []" by (simp add: policy_key_def)
  have "submit_common e fl (System_ctx (bp_org p)) df (policy_submission P now p) d = (x, d1)"
    using assms by (simp add: submit_trusted_def policy_submission_def)
  note run = this [unfolded submit_common_def Let_def]
  let ?row = "\<lambda>payload. op_row e (System_ctx (bp_org p)) df (policy_submission P now p) payload"
  have row: "scheduled P now p (?row payload)" "jr_key (?row payload) = Some (policy_key P now p)" "jr_org (?row payload) = bp_org p" for payload
    using assms(3) key by (simp_all add: scheduled_def op_row_def blank_row_def policy_submission_def System_ctx_def null_string_def)
  have fresh: "\<forall>q \<in> set (jobs d). \<not> same_key q (?row payload)"
    if "find (\<lambda>r. jr_org r = bp_org p \<and> jr_key r = Some (policy_key P now p)) (jobs d) = None" for payload
    using that row by (auto simp: find_None_iff same_key_def)
  show ?thesis
  proof (cases "find (\<lambda>r. jr_org r = bp_org p \<and> jr_key r = Some (policy_key P now p)) (jobs d)")
    case None
    then show ?thesis using run row fresh [OF None]
      by (auto simp: policy_submission_def System_ctx_def split: if_splits sum.splits option.splits)
  next
    case (Some old)
    then show ?thesis using run row
      by (auto simp: policy_submission_def System_ctx_def split: if_splits sum.splits option.splits)
  qed
qed

lemma submit_policies_effect:
  assumes "submit_policies P es failed fl defs now k ps n d = (m, d')"
    and "defs ''backup.create'' = Some df" and "df_name df = ''backup.create''"
  shows "\<exists>new. jobs d' = jobs d @ new \<and> m = n + int (length new) \<and>
     (\<forall>r \<in> set new. (\<exists>p \<in> set ps. scheduled P now p r) \<and> (\<forall>q \<in> set (jobs d). \<not> same_key q r)) \<and>
     distinct (map (\<lambda>r. (jr_org r, jr_key r)) new)"
  using assms(1)
proof (induction ps arbitrary: k n d)
  case (Cons p ps)
  obtain x d1 where s: "submit_trusted (es k) fl defs (System_ctx (bp_org p)) (policy_submission P now p) d = (x, d1)" by fastforce
  obtain n2 d2 where next_run: "submit_policies P es failed fl defs now (Suc k) ps n2 d2 = (m, d')" and d2: "jobs d2 = jobs d1"
    and n2: "n2 = (case x of Inl _ \<Rightarrow> n | Inr ref \<Rightarrow> if jf_created ref then n + 1 else n)"
  proof (cases x)
    case (Inl y)
    then show ?thesis using that [of n d1] Cons.prems s by simp
  next
    case (Inr ref)
    let ?d2 = "if failed k then d1 else d1\<lparr>outside := (outside d1)\<lparr>policies := update_where (\<lambda>q. bp_id q = bp_id p)
        (\<lambda>q. q\<lparr>bp_last := Some now\<rparr>) (policies (outside d1))\<rparr>\<rparr>"
    show ?thesis using Inr Cons.prems s by (intro that [of "if jf_created ref then n + 1 else n" ?d2]) simp_all
  qed
  from Cons.IH [OF next_run] obtain new where new: "jobs d' = jobs d1 @ new" "m = n2 + int (length new)"
      "\<forall>r \<in> set new. (\<exists>p \<in> set ps. scheduled P now p r) \<and> (\<forall>q \<in> set (jobs d1). \<not> same_key q r)"
      "distinct (map (\<lambda>r. (jr_org r, jr_key r)) new)"
    unfolding d2 by blast
  from submit_policy [OF s assms(2,3)] show ?case
  proof (elim conjE disjE exE)
    assume "jobs d1 = jobs d" "\<forall>ref. x = Inr ref \<longrightarrow> \<not> jf_created ref"
    then show ?case using new n2 by (intro exI [of _ new]) (auto split: sum.splits)
  next
    fix row ref assume row: "jobs d1 = jobs d @ [row]" "x = Inr ref" "jf_created ref" "scheduled P now p row" "\<forall>q \<in> set (jobs d). \<not> same_key q row"
    then show ?case using new n2 by (intro exI [of _ "row # new"]) (auto simp: same_key_def)
  qed
qed simp

text \<open>
  The scheduler adds one queued backup job for a policy only if the policy is due, and never a second
  one for the same policy and period: a key already in the queue, from an earlier run, another scheduler
  or before a restart, adds nothing. It returns the number of jobs it added.
\<close>

theorem scheduled_backups_run_once_per_period:
  assumes "RunDuePolicies P failed0 es failed fl defs now d = (Inr n, d')"
    and "defs ''backup.create'' = Some df" and "df_name df = ''backup.create''"
  shows "\<exists>new. jobs d' = jobs d @ new \<and> n = int (length new) \<and>
     (\<forall>r \<in> set new. (\<exists>p \<in> set (policies (outside d)). policy_due now (outside d) p \<and> scheduled P now p r) \<and>
        (\<forall>q \<in> set (jobs d). \<not> same_key q r)) \<and>
     distinct (map (\<lambda>r. (jr_org r, jr_key r)) new)"
proof -
  obtain m where "submit_policies P es failed fl defs now 0 (filter (policy_due now (outside d)) (policies (outside d))) 0 d = (m, d')" "m = n"
    using assms(1) by (auto simp: RunDuePolicies_def split: if_splits prod.splits)
  from submit_policies_effect [OF this(1) assms(2,3)] this(2) show ?thesis by fastforce
qed

section \<open>A concrete history\<close>

text \<open>A provider that stores every backup under its id and fails to restore the backup 70.\<close>

definition backup_answers :: "pcall \<Rightarrow> preply" where
  "backup_answers c = (case c of
     BkCreate i paths dump \<Rightarrow> ok_reply\<lparr>rp_ref := (if i = 70 then ''r70'' else ''r71''), rp_sum := ''abc''\<rparr>
   | BkRestore ref db \<Rightarrow> if ref = ''r70'' then ok_reply\<lparr>rp_err := Some (OtherError ''io'')\<rparr> else ok_reply
   | _ \<Rightarrow> ok_reply)"

definition backup_infra :: "unit infra" where
  "backup_infra = (demo_infra ''running'')\<lparr>in_serve := (\<lambda>c p. (backup_answers c, p)),
     in_parse_uuid := (\<lambda>s. if s = ''b70'' then Some 70 else None)\<rparr>"

definition demo_hosted :: "unit hosted" where
  "demo_hosted = \<lparr>clients = [], projects = map (\<lambda>p. p\<lparr>pj_status := ''active''\<rparr>) (projects demo_world), project_dbs = [], apps = [], nodes = [],
     projects_audit = [], h_calls = [], h_prov = (), h_loaded = None, backups = [], restores = [],
     policies = [\<lparr>bp_id = 60, bp_org = 1, bp_project = 10, bp_schedule = ''daily'', bp_type = ''files'', bp_days = 7, bp_enabled = True, bp_last = None\<rparr>],
     targets = [], bk_loaded = None, bk_restore = None, bk_safety = None\<rparr>"

definition demo_backup_jobs :: "unit hosted jobs_db" where
  "demo_backup_jobs = \<lparr>jobs = [demo_run_job 10], job_steps = [], notices = [], jobs_audit = [], outside = demo_hosted\<rparr>"

definition demo_backed_up :: "unit hosted jobs_db" where
  "demo_backed_up = run_ops (backup_step backup_infra) [RunCreate (calm 4 91) no_cancel (calm 5 70) (scan_job 600 (demo_run_job 10))] demo_backup_jobs"

lemma demo_backed_up_row:
  "map (\<lambda>b. (bk_id b, bk_status b, bk_ref b, bk_org b)) (backups (outside demo_backed_up)) = [(70, ''completed'', Some ''r70'', 1)]"
  by code_simp

theorem completed_backups_are_verified_witness:
  "\<exists>b ref chk. backups (outside demo_backed_up) = [b] \<and> bk_ref b = Some ref \<and> verified (h_calls (outside demo_backed_up)) ref chk"
proof -
  obtain b where b: "backups (outside demo_backed_up) = [b]" "bk_status b = ''completed''"
    using demo_backed_up_row by (auto simp: map_eq_Cons_conv)
  have "honest (outside demo_backup_jobs)" by (simp add: honest_def demo_backup_jobs_def demo_hosted_def)
  from completed_backups_are_verified [OF this, of b backup_infra "[RunCreate (calm 4 91) no_cancel (calm 5 70) (scan_job 600 (demo_run_job 10))]",
      folded demo_backed_up_def] b
  show ?thesis by auto
qed

text \<open>Restoring it fails; the safety snapshot 71 is put back.\<close>

definition demo_restore_job :: job where
  "demo_restore_job = scan_job 600 ((demo_run_job 10)\<lparr>jr_payload := JObj [(''resource_id'', JStr ''b70'')]\<rparr>)"

definition demo_before_restore :: "unit hosted jobs_db" where
  "demo_before_restore = demo_backed_up\<lparr>outside := (outside demo_backed_up)\<lparr>h_calls := []\<rparr>\<rparr>"

definition demo_restore :: "job_outcome \<times> unit hosted jobs_db" where
  "demo_restore = engine_execute (calm 6 92) no_cancel (restore_definition backup_infra (calm 7 71)) demo_restore_job demo_before_restore"

lemma demo_restore_ends:
  "(case fst demo_restore of JobError _ \<Rightarrow> True | _ \<Rightarrow> False)"
  "restores_of (h_calls (outside (snd demo_restore))) = [(''r70'', Some (OtherError ''io'')), (''r71'', None)]"
  "rolled_back (j_id demo_restore_job) (snd demo_restore)" "\<not> rolled_back (j_id demo_restore_job) demo_before_restore"
  by code_simp+


theorem retention_deletes_expired_only_witness:
  "map bk_status (backups (snd (EnforceRetention backup_infra (calm 9 0) (40 * day) (outside demo_backed_up)))) = [''deleted'']"
proof -
  let ?x = "EnforceRetention backup_infra (calm 9 0) (40 * day) (outside demo_backed_up)"
  obtain b where b: "backups (outside demo_backed_up) = [b]" using demo_backed_up_row by (auto simp: map_eq_Cons_conv)
  have n: "fst ?x = Inr 1" by code_simp
  have e: "?x = (Inr 1, snd ?x)" using n by (simp add: prod_eq_iff)
  have "pk bk_id (backups (outside demo_backed_up))" by (simp add: b pk_def)
  from retention_deletes_expired_only [OF e this] obtain D where D: "D \<subseteq> {b}" "backups (snd ?x) = mark_gone D [b]" "int (card D) = 1"
    unfolding b by auto
  then have "D = {b}" by (auto simp: subset_singleton_iff)
  then show ?thesis using D(2) by simp
qed

definition demo_schedule :: "(string + int) \<times> unit hosted jobs_db" where
  "demo_schedule = RunDuePolicies backup_infra False (\<lambda>k. calm (8 + int k) 95) (\<lambda>_. False) None
     (register_op (create_definition backup_infra (calm 8 96)) (\<lambda>_. None)) 5 demo_backup_jobs"

lemma demo_schedule_adds: "fst demo_schedule = Inr 1"
  by code_simp

theorem scheduled_backups_run_once_per_period_witness:
  "\<exists>r. jobs (snd demo_schedule) = jobs demo_backup_jobs @ [r] \<and> jr_operation r = Some ''backup.create'' \<and> jr_project r = Some 10"
proof -
  have e: "RunDuePolicies backup_infra False (\<lambda>k. calm (8 + int k) 95) (\<lambda>_. False) None
     (register_op (create_definition backup_infra (calm 8 96)) (\<lambda>_. None)) 5 demo_backup_jobs = (Inr 1, snd demo_schedule)"
    using demo_schedule_adds by (simp add: demo_schedule_def prod_eq_iff)
  have df: "register_op (create_definition backup_infra (calm 8 96)) (\<lambda>_. None) ''backup.create'' = Some (create_definition backup_infra (calm 8 96))"
    "df_name (create_definition backup_infra (calm 8 96)) = ''backup.create''"
    by (simp_all add: register_op_def create_definition_def)
  from scheduled_backups_run_once_per_period [OF e df] obtain new where
    new: "jobs (snd demo_schedule) = jobs demo_backup_jobs @ new" "1 = int (length new)"
      "\<forall>r \<in> set new. \<exists>p \<in> set (policies (outside demo_backup_jobs)). scheduled backup_infra 5 p r"
    by blast
  then obtain r where "new = [r]" by (cases new) auto
  then show ?thesis using new by (auto simp: scheduled_def demo_backup_jobs_def demo_hosted_def)
qed

end
