(* ===== verification/Site_Archive.thy ===== *)
theory Site_Archive
  imports Go_Encoding Go_Text "HOL-Library.Word"
begin

text \<open>
  internal/sitemig/archive.go: finding the WordPress root in an uploaded zip archive, describing the
  site in it, and extracting it into a staging directory. What \<open>archive/zip\<close> parses out of the bytes
  is an argument; the file system is a write function on its own state.
\<close>

unbundle bit_operations_syntax

section \<open>Archive entries\<close>

text \<open>
  A parsed entry: the header fields the code reads, the error of opening it, the bytes it decompresses
  to and the error at their end.
\<close>

record zip_file =
  zf_name :: string
  zf_creator :: "16 word"
  zf_attrs :: "32 word"
  zf_size :: "64 word"
  zf_open_error :: "string option"
  zf_data :: string
  zf_read_error :: "string option"

text \<open>\<open>FileHeader.Mode\<close> of the standard library: Go's mode bits, not those of Unix.\<close>

definition ModeDir :: "32 word" where "ModeDir = 0x80000000"
definition ModeSymlink :: "32 word" where "ModeSymlink = 0x08000000"

definition kind_bits :: "32 word \<Rightarrow> 32 word" where
  "kind_bits k =
     (if k = 0x6000 then 0x04000000
      else if k = 0x2000 then 0x04200000
      else if k = 0x4000 then ModeDir
      else if k = 0x1000 then 0x02000000
      else if k = 0xA000 then ModeSymlink
      else if k = 0xC000 then 0x01000000
      else 0)"

definition unix_mode :: "32 word \<Rightarrow> 32 word" where
  "unix_mode m = (m AND 0x1FF) OR kind_bits (m AND 0xF000)
     OR (if m AND 0x400 \<noteq> 0 then 0x00400000 else 0)
     OR (if m AND 0x800 \<noteq> 0 then 0x00800000 else 0)
     OR (if m AND 0x200 \<noteq> 0 then 0x00100000 else 0)"

definition msdos_mode :: "32 word \<Rightarrow> 32 word" where
  "msdos_mode m =
     (let mode = (if m AND 0x10 \<noteq> 0 then ModeDir OR 0x1FF else 0x1B6)
      in if m AND 0x01 \<noteq> 0 then mode AND NOT 0x92 else mode)"

definition file_mode :: "zip_file \<Rightarrow> 32 word" where
  "file_mode f =
     (let c = drop_bit 8 (zf_creator f);
          mode = (if c = 3 \<or> c = 19 then unix_mode (drop_bit 16 (zf_attrs f))
                  else if c = 11 \<or> c = 14 \<or> c = 0 then msdos_mode (zf_attrs f)
                  else 0)
      in if has_suffix ''/'' (zf_name f) then mode OR ModeDir else mode)"

definition is_dir :: "zip_file \<Rightarrow> bool" where
  "is_dir f \<longleftrightarrow> file_mode f AND ModeDir \<noteq> 0"

text \<open>The symbolic-link test of \<open>entries\<close>, as it is written: with the bits of Unix.\<close>

definition symlink_test :: "zip_file \<Rightarrow> bool" where
  "symlink_test f \<longleftrightarrow> file_mode f AND 0xF000 = 0xA000"

definition is_symlink :: "zip_file \<Rightarrow> bool" where
  "is_symlink f \<longleftrightarrow> file_mode f AND ModeSymlink \<noteq> 0"

section \<open>Names\<close>

datatype archive_error =
    NotZip
  | TooManyEntries
  | ExpandsTooFar
  | UnsafePath string
  | PathTraversal string
  | EntryTooLarge
  | EntryError string
  | AtEntry string archive_error
  | Interrupted string
  | WriteError string

definition cleanEntry :: "string \<Rightarrow> archive_error + string" where
  "cleanEntry name =
     (if name = [] then Inr []
      else if CHR 0x00 \<in> set name \<or> CHR 0x5C \<in> set name \<or> has_prefix ''/'' name then Inl (UnsafePath name)
      else let n = trim_suffix ''/'' name
        in if ''..'' \<in> set (split_on (CHR ''/'') n) then Inl (PathTraversal n)
           else Inr (clean_path n))"

text \<open>\<open>path.Base\<close> and \<open>path.Dir\<close>.\<close>

definition path_base :: "string \<Rightarrow> string" where
  "path_base p =
     (if p = [] then ''.''
      else let b = last (split_on (CHR ''/'') (trim_right_char (CHR ''/'') p)) in if b = [] then ''/'' else b)"

definition path_dir :: "string \<Rightarrow> string" where
  "path_dir p = clean_path (concat (map (\<lambda>seg. seg @ ''/'') (butlast (split_on (CHR ''/'') p))))"

definition maxExtracted :: int where "maxExtracted = 512 * 2 ^ 20"
definition maxEntries :: int where "maxEntries = 100000"

definition version_php :: string where "version_php = ''wp-includes/version.php''"

definition marks_root :: "string \<Rightarrow> bool" where
  "marks_root name \<longleftrightarrow> path_base name = ''wp-config.php'' \<or> name = version_php \<or> has_suffix (CHR ''/'' # version_php) name"

definition root_of :: "string \<Rightarrow> string" where
  "root_of name =
     (let dir = (if has_suffix version_php name then path_dir (path_dir name) else path_dir name)
      in if dir = ''.'' then [] else dir)"

text \<open>
  The loop of \<open>openArchive\<close>: declared sizes are summed in 64 bits, the first shallowest marker gives the
  root.
\<close>

fun scan_entries :: "zip_file list \<Rightarrow> 64 word \<Rightarrow> string \<Rightarrow> int \<Rightarrow> archive_error + string" where
  "scan_entries [] acc root depth = Inr root"
| "scan_entries (f # fs) acc root depth =
     (let acc' = acc + zf_size f
      in if word_of_int maxExtracted < acc' then Inl ExpandsTooFar
         else case cleanEntry (zf_name f) of
             Inl x \<Rightarrow> Inl x
           | Inr name \<Rightarrow>
               (let dir = root_of name; d = int (count_text ''/'' dir)
                in if marks_root name \<and> \<not> is_dir f \<and> d < depth then scan_entries fs acc' dir d
                   else scan_entries fs acc' root depth))"

definition openArchive :: "(string \<Rightarrow> zip_file list option) \<Rightarrow> string \<Rightarrow> archive_error + zip_file list \<times> string" where
  "openArchive unzip data =
     (case unzip data of
        None \<Rightarrow> Inl NotZip
      | Some fs \<Rightarrow>
          if maxEntries < int (length fs) then Inl TooManyEntries
          else case scan_entries fs 0 [] 1073741824 of
              Inl x \<Rightarrow> Inl x
            | Inr root \<Rightarrow> Inr (fs, root))"

definition is_sql_name :: "string \<Rightarrow> bool" where
  "is_sql_name name \<longleftrightarrow> has_suffix ''.sql'' (lower_ascii name)"

definition entry_of :: "string \<Rightarrow> zip_file \<Rightarrow> (string \<times> zip_file) option" where
  "entry_of root f =
     (if is_dir f \<or> symlink_test f then None
      else case cleanEntry (zf_name f) of
          Inl _ \<Rightarrow> None
        | Inr name \<Rightarrow>
            if name = [] then None
            else if root \<noteq> [] then
              (if has_prefix (root @ ''/'') name then Some (drop (length root + 1) name, f)
               else if is_sql_name name \<and> CHR ''/'' \<notin> set name then Some (name, f)
               else None)
            else Some (name, f))"

definition entries :: "zip_file list \<Rightarrow> string \<Rightarrow> (string \<times> zip_file) list" where
  "entries fs root = List.map_filter (entry_of root) fs"

text \<open>\<open>readAll\<close>: the limited reader stops one byte behind the limit.\<close>

definition readAll :: "zip_file \<Rightarrow> int \<Rightarrow> archive_error + string" where
  "readAll f limit =
     (case zf_open_error f of
        Some x \<Rightarrow> Inl (EntryError x)
      | None \<Rightarrow>
          if limit < int (length (zf_data f)) then Inl EntryTooLarge
          else case zf_read_error f of Some x \<Rightarrow> Inl (EntryError x) | None \<Rightarrow> Inr (zf_data f))"

definition isSQL :: "string \<Rightarrow> bool" where
  "isSQL name \<longleftrightarrow> is_sql_name name \<and> count_text ''/'' (lower_ascii name) \<le> 1"

section \<open>Inspection\<close>

record source_info =
  IsWordPress :: bool
  WPVersion :: string
  PHPVersion :: string
  Multisite :: bool
  Plugins :: "string list"
  Themes :: "string list"
  Files :: int
  SizeBytes :: int
  HasDatabase :: bool
  DBBytes :: int
  SiteURL :: string

definition no_info :: source_info where
  "no_info = \<lparr>IsWordPress = False, WPVersion = [], PHPVersion = [], Multisite = False, Plugins = [],
     Themes = [], Files = 0, SizeBytes = 0, HasDatabase = False, DBBytes = 0, SiteURL = []\<rparr>"

text \<open>The leftmost match of a pattern without alternatives over overlapping classes.\<close>

fun search :: "(string \<Rightarrow> 'a option) \<Rightarrow> string \<Rightarrow> 'a option" where
  "search m [] = m []"
| "search m (c # cs) = (case m (c # cs) of Some x \<Rightarrow> Some x | None \<Rightarrow> search m cs)"

definition re_space :: "char \<Rightarrow> bool" where
  "re_space c \<longleftrightarrow> c = CHR '' '' \<or> c = CHR 0x09 \<or> c = CHR 0x0A \<or> c = CHR 0x0C \<or> c = CHR 0x0D"

definition expect :: "string \<Rightarrow> string \<Rightarrow> string option" where
  "expect p s = (if has_prefix p s then Some (drop (length p) s) else None)"

definition skip_spaces :: "string \<Rightarrow> string" where
  "skip_spaces s = dropWhile re_space s"

definition until_quote :: "string \<Rightarrow> string option" where
  "until_quote s =
     (let v = takeWhile (\<lambda>c. c \<noteq> CHR 0x27) s
      in if v \<noteq> [] \<and> has_prefix [CHR 0x27] (drop (length v) s) then Some v else None)"

definition wpVersionRe :: "string \<Rightarrow> string option" where
  "wpVersionRe s = Option.bind (expect ''$wp_version'' s) (\<lambda>r.
     Option.bind (expect ''='' (skip_spaces r)) (\<lambda>r.
     Option.bind (expect [CHR 0x27] (skip_spaces r)) until_quote))"

definition siteURLRe :: "string \<Rightarrow> string option" where
  "siteURLRe s = Option.bind (expect (CHR 0x27 # ''siteurl'' @ [CHR 0x27, CHR '','']) s) (\<lambda>r.
     Option.bind (expect [CHR 0x27] (skip_spaces r)) (\<lambda>r.
       case (case expect ''https://'' r of Some x \<Rightarrow> Some (''https://'', x) | None \<Rightarrow>
               map_option (\<lambda>x. (''http://'', x)) (expect ''http://'' r)) of
         None \<Rightarrow> None
       | Some (scheme, x) \<Rightarrow> map_option (\<lambda>v. scheme @ v) (until_quote x)))"

definition multisiteRe :: "string \<Rightarrow> unit option" where
  "multisiteRe s = Option.bind (expect ''MULTISITE'' s) (\<lambda>r.
     if r = [] \<or> hd r \<noteq> CHR 0x27 \<and> hd r \<noteq> CHR 0x22 then None
     else Option.bind (expect '','' (skip_spaces (tl r))) (\<lambda>r.
       map_option (\<lambda>_. ()) (expect ''true'' (skip_spaces r))))"

text \<open>\<open>strings.SplitN(s, "/", 2)\<close> has two parts when there is a slash.\<close>

definition dir_below :: "string \<Rightarrow> string \<Rightarrow> string list" where
  "dir_below pre name =
     (let r = trim_prefix pre name
      in if CHR ''/'' \<in> set r then [takeWhile (\<lambda>c. c \<noteq> CHR ''/'') r] else [])"

definition inspect_entry ::
  "string \<times> zip_file \<Rightarrow> source_info \<times> zip_file option \<Rightarrow> source_info \<times> zip_file option" where
  "inspect_entry en st =
     (let (name, f) = en; (i, dump) = st;
          counted = (\<lambda>i. i\<lparr>Files := Files i + 1, SizeBytes := wrap64 (SizeBytes i + sint (zf_size f))\<rparr>)
      in if isSQL name then (i, if dump = None \<or> name = ''database.sql'' then Some f else dump)
         else if name = ''wp-config.php'' then
           (case readAll f (2 ^ 20) of
              Inl _ \<Rightarrow> i\<lparr>IsWordPress := True\<rparr>
            | Inr b \<Rightarrow> i\<lparr>IsWordPress := True,
                Multisite := contains_text ''MULTISITE'' b \<and> search multisiteRe b \<noteq> None\<rparr>, dump)
         else if name = version_php then
           (counted (case readAll f (2 ^ 20) of
              Inl _ \<Rightarrow> i\<lparr>IsWordPress := True\<rparr>
            | Inr b \<Rightarrow> (case search wpVersionRe b of
                None \<Rightarrow> i\<lparr>IsWordPress := True\<rparr>
              | Some v \<Rightarrow> i\<lparr>IsWordPress := True, WPVersion := v\<rparr>)), dump)
         else if has_prefix ''wp-content/plugins/'' name then
           (counted (i\<lparr>Plugins := Plugins i @ dir_below ''wp-content/plugins/'' name\<rparr>), dump)
         else if has_prefix ''wp-content/themes/'' name then
           (counted (i\<lparr>Themes := Themes i @ dir_below ''wp-content/themes/'' name\<rparr>), dump)
         else (counted i, dump))"

text \<open>\<open>keys\<close>: the names collected, each once, sorted as byte strings.\<close>

definition keys :: "string list \<Rightarrow> string list" where
  "keys xs = sort (remdups xs)"

definition with_dump :: "source_info \<Rightarrow> zip_file option \<Rightarrow> source_info" where
  "with_dump i dump =
     (case dump of
        None \<Rightarrow> i
      | Some f \<Rightarrow>
          let i = i\<lparr>HasDatabase := True, DBBytes := sint (zf_size f)\<rparr>
          in if zf_size f \<le> 0x10000000 then
               (case readAll f (256 * 2 ^ 20) of
                  Inl _ \<Rightarrow> i
                | Inr b \<Rightarrow> (case search siteURLRe b of None \<Rightarrow> i | Some u \<Rightarrow> i\<lparr>SiteURL := u\<rparr>))
             else i)"

definition inspectArchive :: "(string \<Rightarrow> zip_file list option) \<Rightarrow> string \<Rightarrow> archive_error + source_info" where
  "inspectArchive unzip data =
     (case openArchive unzip data of
        Inl x \<Rightarrow> Inl x
      | Inr (fs, root) \<Rightarrow>
          (case fold inspect_entry (entries fs root) (no_info, None) of
             (i, dump) \<Rightarrow>
               let i = with_dump i dump in Inr (i\<lparr>Plugins := keys (Plugins i), Themes := keys (Themes i)\<rparr>)))"

section \<open>Extraction\<close>

definition not_copied :: "string \<Rightarrow> bool" where
  "not_copied name \<longleftrightarrow> name = ''wp-config.php'' \<or> has_prefix ''wp-content/cache/'' name"

definition later_dump :: "bool \<Rightarrow> string \<Rightarrow> bool" where
  "later_dump wrote name \<longleftrightarrow> wrote \<and> name \<noteq> ''database.sql''"

definition dump_path :: "string \<Rightarrow> string" where "dump_path stage = stage @ ''/database.sql''"
definition file_path :: "string \<Rightarrow> string \<Rightarrow> string" where "file_path stage name = stage @ ''/files/'' @ name"

text \<open>
  \<open>write path bytes\<close> is \<open>WriteFile\<close> of the file system provider, \<open>ctx k\<close> what \<open>ctx.Err()\<close> says before the
  \<open>k\<close>-th entry.
\<close>

fun extract_entries ::
  "(string \<Rightarrow> string \<Rightarrow> 'f \<Rightarrow> string option \<times> 'f) \<Rightarrow> (nat \<Rightarrow> string option) \<Rightarrow> string
     \<Rightarrow> (string \<times> zip_file) list \<Rightarrow> nat \<Rightarrow> int \<Rightarrow> bool \<Rightarrow> 'f \<Rightarrow> archive_error option \<times> 'f" where
  "extract_entries write ctx stage [] k written wrote s = (None, s)"
| "extract_entries write ctx stage ((name, f) # es) k written wrote s =
     (case ctx k of
        Some x \<Rightarrow> (Some (Interrupted x), s)
      | None \<Rightarrow>
     if not_copied name then
       extract_entries write ctx stage es (Suc k) written wrote s
     else
     (case readAll f (maxExtracted - written) of
        Inl x \<Rightarrow> (Some (AtEntry name x), s)
      | Inr b \<Rightarrow>
     (let written' = written + int (length b)
      in if maxExtracted < written' then (Some ExpandsTooFar, s)
         else if isSQL name then
           (if later_dump wrote name then extract_entries write ctx stage es (Suc k) written' wrote s
            else (case write (dump_path stage) b s of
                    (Some x, s') \<Rightarrow> (Some (WriteError x), s')
                  | (None, s') \<Rightarrow> extract_entries write ctx stage es (Suc k) written' True s'))
         else (case write (file_path stage name) b s of
                 (Some x, s') \<Rightarrow> (Some (WriteError x), s')
               | (None, s') \<Rightarrow> extract_entries write ctx stage es (Suc k) written' wrote s'))))"

definition extractArchive ::
  "(string \<Rightarrow> zip_file list option) \<Rightarrow> (string \<Rightarrow> string \<Rightarrow> 'f \<Rightarrow> string option \<times> 'f) \<Rightarrow> (nat \<Rightarrow> string option)
     \<Rightarrow> string \<Rightarrow> string \<Rightarrow> 'f \<Rightarrow> (archive_error + source_info) \<times> 'f" where
  "extractArchive unzip write ctx data stage s =
     (case inspectArchive unzip data of
        Inl x \<Rightarrow> (Inl x, s)
      | Inr i \<Rightarrow>
          (case openArchive unzip data of
             Inl x \<Rightarrow> (Inl x, s)
           | Inr (fs, root) \<Rightarrow>
               (case extract_entries write ctx stage (entries fs root) 0 0 False s of
                  (Some x, s') \<Rightarrow> (Inl x, s')
                | (None, s') \<Rightarrow> (Inr i, s'))))"


section \<open>What extraction may write\<close>

text \<open>A write function that also keeps the list of the writes it was asked for.\<close>

definition logged ::
  "(string \<Rightarrow> string \<Rightarrow> 'f \<Rightarrow> string option \<times> 'f) \<Rightarrow> string \<Rightarrow> string \<Rightarrow> 'f \<times> (string \<times> string) list
     \<Rightarrow> string option \<times> ('f \<times> (string \<times> string) list)" where
  "logged write p b st = (case write p b (fst st) of (r, s') \<Rightarrow> (r, (s', snd st @ [(p, b)])))"

definition below :: "string \<Rightarrow> string \<Rightarrow> bool" where
  "below dir p \<longleftrightarrow> (\<exists>more. clean_segs p = clean_segs dir @ more)"

definition written_bytes :: "(string \<times> string) list \<Rightarrow> int" where
  "written_bytes log = (\<Sum>w \<leftarrow> log. int (length (snd w)))"

lemma written_bytes_snoc [simp]: "written_bytes (log @ [(p, b)]) = written_bytes log + int (length b)"
  by (simp add: written_bytes_def)

definition tame :: "string \<Rightarrow> bool" where
  "tame name \<longleftrightarrow> ''..'' \<notin> set (split_on (CHR ''/'') name)"

lemma clean_fold_subset: "set (fold (clean_seg r) segs kept) \<subseteq> set segs \<union> set kept" if "''..'' \<notin> set segs"
  using that
proof (induction segs arbitrary: kept)
  case (Cons seg segs)
  have "set (clean_seg r seg kept) \<subseteq> insert seg (set kept)"
    using Cons.prems by (auto simp: clean_seg_def)
  then show ?case using Cons.IH [of "clean_seg r seg kept"] Cons.prems by auto
qed simp

lemma tame_clean: "tame n \<Longrightarrow> \<not> path_is_abs n \<Longrightarrow> tame (clean_path n)"
proof -
  assume t: "tame n" and rel: "\<not> path_is_abs n"
  let ?ss = "clean_segs n"
  have sub: "set ?ss \<subseteq> set (split_on (CHR ''/'') n)"
    using clean_fold_subset [of "split_on (CHR ''/'') n" "path_is_abs n" "[]"] t by (simp add: clean_segs_def tame_def)
  show "tame (clean_path n)"
  proof (cases "?ss = [] \<or> join_with ''/'' ?ss = []")
    case True
    then show ?thesis using rel by (auto simp: clean_path_def Let_def tame_def)
  next
    case False
    then have "split_on (CHR ''/'') (join_with ''/'' ?ss) = ?ss"
      using sub by (intro split_join) (auto simp: list_all_iff dest: split_on_no_sep)
    then show ?thesis using rel False sub t by (auto simp: clean_path_def Let_def tame_def)
  qed
qed

lemma clean_entry_tame: "cleanEntry name = Inr n \<Longrightarrow> n \<noteq> [] \<Longrightarrow> tame n"
proof -
  assume c: "cleanEntry name = Inr n" and ne: "n \<noteq> []"
  let ?m = "trim_suffix ''/'' name"
  have n: "n = clean_path ?m" and t: "tame ?m" and rel: "\<not> has_prefix ''/'' name"
    using c ne by (auto simp: cleanEntry_def Let_def tame_def split: if_splits)
  have "\<not> path_is_abs ?m"
    using rel by (cases name) (auto simp: path_is_abs_def trim_suffix_def has_prefix_def take_Cons')
  then show "tame n" unfolding n by (rule tame_clean [OF t])
qed

lemma tame_below_root: "tame (root @ CHR ''/'' # rel) \<Longrightarrow> tame rel"
  by (simp add: tame_def split_on_append)

lemma entry_of_tame: "entry_of root f = Some (name, g) \<Longrightarrow> tame name"
proof -
  assume e: "entry_of root f = Some (name, g)"
  obtain n where c: "cleanEntry (zf_name f) = Inr n" and ne: "n \<noteq> []"
    using e by (auto simp: entry_of_def split: if_splits sum.splits)
  have "n = name \<or> n = root @ CHR ''/'' # name"
    using e c by (auto simp: entry_of_def has_prefix_iff split: if_splits)
  then show "tame name" using clean_entry_tame [OF c ne] tame_below_root by blast
qed

lemma entries_tame: "list_all (\<lambda>en. tame (fst en)) (entries fs root)"
  unfolding entries_def
  by (induction fs) (auto simp: List.map_filter_simps entry_of_tame split: option.split)

lemma tame_below: "dir \<noteq> [] \<Longrightarrow> tame rel \<Longrightarrow> below dir (dir @ CHR ''/'' # rel)"
  unfolding below_def tame_def by (rule clean_segs_append)

lemma tame_files: "tame rel \<Longrightarrow> tame (''files/'' @ rel)"
  using split_on_append [of "CHR ''/''" "''files''" rel] by (simp add: tame_def)

definition log_ok :: "string \<Rightarrow> int \<Rightarrow> (string \<times> string) list \<Rightarrow> bool" where
  "log_ok stage written log \<longleftrightarrow> written_bytes log \<le> written \<and> list_all (\<lambda>w. below stage (fst w)) log"

lemma log_ok_snoc: "log_ok stage n log \<Longrightarrow> below stage p \<Longrightarrow> log_ok stage (n + int (length b)) (log @ [(p, b)])"
  by (auto simp: log_ok_def)

lemma log_ok_more: "log_ok stage n log \<Longrightarrow> n \<le> m \<Longrightarrow> log_ok stage m log"
  by (auto simp: log_ok_def)

lemma extract_entries_log:
  assumes "list_all (\<lambda>en. tame (fst en)) es" "stage \<noteq> []" "log_ok stage written (snd st)" "written \<le> maxExtracted"
  shows "log_ok stage maxExtracted (snd (snd (extract_entries (logged write) ctx stage es k written wrote st)))"
  using assms
proof (induction es arbitrary: k written wrote st)
  case Nil
  then show ?case by (auto intro: log_ok_more)
next
  case (Cons e es)
  obtain name f where e: "e = (name, f)" by (cases e)
  have tame: "tame name" and rest: "list_all (\<lambda>en. tame (fst en)) es" using Cons.prems e by auto
  note IH = Cons.IH [OF rest Cons.prems(2)]
  note top = log_ok_more [OF Cons.prems(3,4)]
  have db: "below stage (dump_path stage)"
    using tame_below [of stage "''database.sql''"] Cons.prems(2) by (simp add: tame_def dump_path_def)
  have fl: "below stage (file_path stage name)"
    using tame_below [of stage "''files/'' @ name"] tame_files [OF tame] Cons.prems(2) by (simp add: file_path_def)
  have kept: "log_ok stage (written + int (length b)) (snd st)" for b
    using log_ok_more [OF Cons.prems(3)] by simp
  have step: "log_ok stage maxExtracted (snd (snd (case logged write p b st of
      (Some x, s') \<Rightarrow> (Some (WriteError x), s')
    | (None, s') \<Rightarrow> extract_entries (logged write) ctx stage es (Suc k) (written + int (length b)) wr s')))"
    if "below stage p" "written + int (length b) \<le> maxExtracted" for p b wr
  proof -
    obtain r st' where Pair: "logged write p b st = (r, st')" by (cases "logged write p b st")
    then have "log_ok stage (written + int (length b)) (snd st')"
      using log_ok_snoc [OF Cons.prems(3) that(1)] by (auto simp: logged_def split: prod.splits)
    then show ?thesis using IH [of "written + int (length b)" st'] log_ok_more that(2) Pair by (cases r) auto
  qed
  show ?case
  proof (cases "ctx k = None \<and> \<not> not_copied name")
    case False
    then show ?thesis unfolding e using IH [OF Cons.prems(3,4)] top by (auto split: option.split)
  next
    case True
    show ?thesis
    proof (cases "readAll f (maxExtracted - written)")
      case (Inr b)
      then show ?thesis unfolding e
        using True IH [OF kept] top step [OF db] step [OF fl] by (auto simp: Let_def not_less)
    qed (use True top in \<open>simp add: e\<close>)
  qed
qed

text \<open>What every write below the stage keeps is kept by the extraction.\<close>

lemma extract_entries_keeps:
  assumes "list_all (\<lambda>en. tame (fst en)) es" "stage \<noteq> []" "J s"
    and wr: "\<And>p b s. J s \<Longrightarrow> below stage p \<Longrightarrow> J (snd (write p b s))"
  shows "J (snd (extract_entries write ctx stage es k written wrote s))"
  using assms(1,3)
proof (induction es arbitrary: k written wrote s)
  case (Cons e es)
  obtain name f where e: "e = (name, f)" by (cases e)
  have tame: "tame name" and rest: "list_all (\<lambda>en. tame (fst en)) es" using Cons.prems e by auto
  have db: "below stage (dump_path stage)"
    using tame_below [of stage "''database.sql''"] assms(2) by (simp add: tame_def dump_path_def)
  have fl: "below stage (file_path stage name)"
    using tame_below [of stage "''files/'' @ name"] tame_files [OF tame] assms(2) by (simp add: file_path_def)
  show ?case unfolding e using Cons.IH [OF rest] Cons.prems(2) wr [OF Cons.prems(2) db] wr [OF Cons.prems(2) fl]
    by (auto simp: Let_def split: option.split sum.split prod.split) (metis snd_conv)+
qed simp

lemma extraction_keeps:
  assumes "stage \<noteq> []" "J s" and "\<And>p b s. J s \<Longrightarrow> below stage p \<Longrightarrow> J (snd (write p b s))"
  shows "J (snd (extractArchive unzip write ctx data stage s))"
proof -
  have "J (snd (extract_entries write ctx stage (entries fs root) 0 0 False s))" for fs root
    by (rule extract_entries_keeps [OF entries_tame assms])
  then show ?thesis using assms(2) unfolding extractArchive_def by (simp split: sum.split prod.split option.split) (metis snd_conv)
qed

text \<open>
  C12: Whatever an uploaded archive holds, the extraction asks the file system to write at most
  \<open>maxExtracted\<close> bytes in all, and only to paths below the staging directory: no entry name leads out of
  it and no declared size is trusted. This holds when it fails half-way, too.
\<close>

theorem extraction_is_confined:
  assumes "stage \<noteq> []"
  shows "(case extractArchive unzip (logged write) ctx data stage (s, []) of (_, (_, log)) \<Rightarrow>
    written_bytes log \<le> maxExtracted \<and> list_all (\<lambda>w. below stage (fst w)) log)"
proof -
  have start: "log_ok stage maxExtracted (snd (s, [] :: (string \<times> string) list))" and "log_ok stage 0 (snd (s, [] :: (string \<times> string) list))"
    by (simp_all add: log_ok_def written_bytes_def maxExtracted_def)
  then have "log_ok stage maxExtracted
      (snd (snd (extract_entries (logged write) ctx stage (entries fs root) 0 0 False (s, []))))" for fs root
    using extract_entries_log [OF entries_tame assms, of 0 "(s, [])"] by (simp add: maxExtracted_def)
  then have "log_ok stage maxExtracted (snd (snd (extractArchive unzip (logged write) ctx data stage (s, []))))"
    using start unfolding extractArchive_def by (simp split: sum.split prod.split option.split) (metis snd_conv)
  then show ?thesis by (simp add: log_ok_def case_prod_beta)
qed

definition demo_zip :: "zip_file list" where
  "demo_zip = [\<lparr>zf_name = ''wp-load.php'', zf_creator = 0x031E, zf_attrs = 0x81A40000, zf_size = 3,
     zf_open_error = None, zf_data = ''abc'', zf_read_error = None\<rparr>]"

theorem extraction_is_confined_witness:
  "extractArchive (\<lambda>_. Some demo_zip) (logged (\<lambda>p b s. (None, s))) (\<lambda>_. None) [] ''m/stage'' ((), []) =
     (Inr (no_info\<lparr>Files := 1, SizeBytes := 3\<rparr>), ((), [(''m/stage/files/wp-load.php'', ''abc'')])) \<and>
   below ''m/stage'' ''m/stage/files/wp-load.php''"
proof
  show run: "extractArchive (\<lambda>_. Some demo_zip) (logged (\<lambda>p b s. (None, s))) (\<lambda>_. None) [] ''m/stage'' ((), []) =
     (Inr (no_info\<lparr>Files := 1, SizeBytes := 3\<rparr>), ((), [(''m/stage/files/wp-load.php'', ''abc'')]))"
    by code_simp
  show "below ''m/stage'' ''m/stage/files/wp-load.php''"
    using extraction_is_confined [of "''m/stage''" "\<lambda>_. Some demo_zip" "\<lambda>p b s. (None, s)" "\<lambda>_. None" "[]" "()"]
    unfolding run by simp
qed

section \<open>Symbolic links\<close>

text \<open>
  \<open>entries\<close> means to skip symbolic links, but tests Go's mode with the bits of Unix, and those positions
  are always clear.
\<close>

lemma and_high_0: "(m AND 0x1FF) AND 0xF000 = (0 :: 32 word)"
  by (simp add: and.assoc)

lemma unix_mode_high: "unix_mode m AND 0xF000 = 0"
  unfolding unix_mode_def kind_bits_def ModeDir_def ModeSymlink_def
  by (simp add: bit.conj_disj_distrib2 and_high_0 split: if_split)

lemma msdos_mode_high: "msdos_mode m AND 0xF000 = 0"
  unfolding msdos_mode_def ModeDir_def Let_def by (simp split: if_split)

lemma file_mode_high: "file_mode f AND 0xF000 = 0"
  unfolding file_mode_def Let_def
  by (simp add: bit.conj_disj_distrib2 unix_mode_high msdos_mode_high ModeDir_def split: if_split)

text \<open>
  A symbolic link in an archive is kept as an entry of the site like any other file, although
  \<open>entries\<close> means to skip it.
\<close>

theorem symlinks_are_not_skipped:
  assumes "is_symlink f" and "\<not> is_dir f" and "cleanEntry (zf_name f) = Inr name" and "name \<noteq> []"
  shows "entries [f] [] = [(name, f)]"
  using assms by (simp add: entries_def List.map_filter_simps symlink_test_def file_mode_high entry_of_def)

definition demo_link :: zip_file where
  "demo_link = \<lparr>zf_name = ''a/b'', zf_creator = 0x031E, zf_attrs = 0xA1FF0000, zf_size = 4,
     zf_open_error = None, zf_data = ''/etc'', zf_read_error = None\<rparr>"

theorem symlinks_are_not_skipped_witness: "is_symlink demo_link \<and> entries [demo_link] [] = [(''a/b'', demo_link)]"
proof -
  have l: "is_symlink demo_link" "\<not> is_dir demo_link" "cleanEntry (zf_name demo_link) = Inr ''a/b''"
    by code_simp+
  then show ?thesis using symlinks_are_not_skipped [OF l] by simp
qed

end
