(* ===== verification/Site_Rewrite.thy ===== *)
theory Site_Rewrite
  imports Go_Text
begin

text \<open>
  internal/sitemig/rewrite.go: replacing a site's address throughout a MySQL dump while keeping the
  length prefixes of PHP-serialized strings right. A slice expression out of range panics; the model
  then returns \<open>None\<close>.
\<close>

section \<open>SQL string literals\<close>

text \<open>
  \<open>readLiteral\<close> on the bytes after the opening quote: the decoded content and the bytes after the
  closing quote.
\<close>

definition bs :: char where "bs = CHR 0x5C"
definition sq :: char where "sq = CHR 0x27"
definition dq :: char where "dq = CHR 0x22"
definition nl :: char where "nl = CHR 0x0A"
definition cr :: char where "cr = CHR 0x0D"
definition sub26 :: char where "sub26 = CHR 0x1A"
definition nul :: char where "nul = CHR 0x00"

lemmas byte_defs = bs_def sq_def dq_def nl_def cr_def sub26_def nul_def

definition unescape :: "char \<Rightarrow> string" where
  "unescape n =
     (if n = CHR ''n'' then [nl]
      else if n = CHR ''r'' then [cr]
      else if n = CHR ''t'' then [CHR 0x09]
      else if n = CHR ''0'' then [nul]
      else if n = CHR ''Z'' then [sub26]
      else if n = CHR ''b'' then [CHR 0x08]
      else if n = CHR ''%'' \<or> n = CHR ''_'' then [bs, n]
      else [n])"

definition prepend :: "string \<Rightarrow> (string \<times> string) option \<Rightarrow> (string \<times> string) option" where
  "prepend p = map_option (\<lambda>(s, r). (p @ s, r))"

fun readLiteral :: "string \<Rightarrow> (string \<times> string) option" where
  "readLiteral [] = None"
| "readLiteral [c] = (if c = sq then Some ([], []) else None)"
| "readLiteral (c # d # r) =
     (if c = bs then prepend (unescape d) (readLiteral r)
      else if c = sq then (if d = sq then prepend [sq] (readLiteral r) else Some ([], d # r))
      else prepend [c] (readLiteral (d # r)))"

definition escape :: "char \<Rightarrow> string" where
  "escape c =
     (if c = bs then [bs, bs]
      else if c = sq then [bs, sq]
      else if c = nl then [bs, CHR ''n'']
      else if c = cr then [bs, CHR ''r'']
      else if c = nul then [bs, CHR ''0'']
      else if c = sub26 then [bs, CHR ''Z'']
      else [c])"

definition encodeLiteral :: "string \<Rightarrow> string" where
  "encodeLiteral s = concat (map escape s)"

section \<open>Serialized values\<close>

definition isAlnum :: "char \<Rightarrow> bool" where
  "isAlnum b \<longleftrightarrow> is_digit b \<or> is_lower b \<or> is_upper b"

definition jsonEsc :: "string \<Rightarrow> string" where
  "jsonEsc s = replace_all ''/'' [bs, CHR ''/''] s"

definition replacePlain :: "string \<Rightarrow> string \<Rightarrow> string \<Rightarrow> string" where
  "replacePlain old new s = replace_all (jsonEsc old) (jsonEsc new) (replace_all old new s)"

text \<open>
  \<open>serialTok\<close>, the leftmost match of \<open>s:(\d+):"\<close>: the bytes before it, its digits, the bytes after
  it. A digit run is followed by a colon or the match fails, so the greedy reading is the only one.
\<close>

definition match_tok :: "string \<Rightarrow> (string \<times> string) option" where
  "match_tok s =
     (let d = takeWhile is_digit (drop 2 s); r = dropWhile is_digit (drop 2 s)
      in if has_prefix ''s:'' s \<and> d \<noteq> [] \<and> has_prefix [CHR '':'', dq] r then Some (d, drop 2 r) else None)"

fun find_tok :: "string \<Rightarrow> (string \<times> string \<times> string) option" where
  "find_tok [] = None"
| "find_tok (c # cs) =
     (case match_tok (c # cs) of
        Some (d, r) \<Rightarrow> Some ([], d, r)
      | None \<Rightarrow> map_option (\<lambda>(p, d, r). (c # p, d, r)) (find_tok cs))"

definition tok_text :: "string \<Rightarrow> string" where
  "tok_text d = ''s:'' @ d @ [CHR '':'', dq]"

text \<open>\<open>strconv.Atoi\<close> on digits with its error ignored: out of range it yields the largest \<open>int\<close>.\<close>

definition atoi_digits :: "string \<Rightarrow> int" where
  "atoi_digits d = min (int (digits_value d 0)) max_int"

definition go_slice :: "string \<Rightarrow> int \<Rightarrow> int \<Rightarrow> string option" where
  "go_slice s a b =
     (if 0 \<le> a \<and> a \<le> b \<and> b \<le> int (length s) then Some (take (nat (b - a)) (drop (nat a) s)) else None)"

text \<open>\<open>text[pos:to]\<close> where the bounds are known to be in range.\<close>

definition span :: "string \<Rightarrow> nat \<Rightarrow> nat \<Rightarrow> string" where
  "span s a b = take (b - a) (drop a s)"

definition mentions :: "string \<Rightarrow> string \<Rightarrow> bool" where
  "mentions old s \<longleftrightarrow> contains_text old s \<or> contains_text (jsonEsc old) s"

lemma length_match_tok: "match_tok s = Some (d, r) \<Longrightarrow> s = tok_text d @ r"
proof -
  assume m: "match_tok s = Some (d, r)"
  let ?r = "dropWhile is_digit (drop 2 s)"
  have d: "d = takeWhile is_digit (drop 2 s)" and p: "has_prefix ''s:'' s"
    and q: "has_prefix [CHR '':'', dq] ?r" and r: "r = drop 2 ?r"
    using m by (auto simp: match_tok_def Let_def split: if_splits)
  have "s = ''s:'' @ drop 2 s" using p by (auto simp: has_prefix_iff)
  also have "drop 2 s = d @ ?r" unfolding d by simp
  also have "?r = [CHR '':'', dq] @ r" using q r by (auto simp: has_prefix_iff)
  finally show ?thesis by (simp add: tok_text_def)
qed

lemma find_tok_text: "find_tok s = Some (p, d, r) \<Longrightarrow> s = p @ tok_text d @ r"
  by (induction s arbitrary: p) (auto split: option.splits dest: length_match_tok)

lemma go_slice_Some:
  "go_slice s a b = Some t \<Longrightarrow> 0 \<le> a \<and> a \<le> b \<and> b \<le> int (length s) \<and> length t = nat (b - a)"
  by (auto simp: go_slice_def split: if_splits)

text \<open>
  The loop of \<open>rewriteSerialized\<close> from byte \<open>pos\<close> on. A token is accepted when its announced number
  of bytes is there and ends with a quote and a semicolon; its content is rewritten first, its length
  recomputed.
\<close>

function rewrite_loop :: "string \<Rightarrow> string \<Rightarrow> string \<Rightarrow> nat \<Rightarrow> string option" where
  "rewrite_loop old new txt pos =
     (if length txt \<le> pos then Some []
      else (case find_tok (drop pos txt) of
          None \<Rightarrow> Some (replacePlain old new (drop pos txt))
        | Some (p, d, r) \<Rightarrow>
            let tok = pos + length p;
                content = tok + length (tok_text d);
                stop = wrap64 (int content + atoi_digits d);
                nxt = wrap64 (int content + atoi_digits d + 2);
                plain = map_option (\<lambda>out. replacePlain old new (span txt pos content) @ out)
                          (rewrite_loop old new txt content)
            in if nxt \<le> int (length txt) then
                 (case go_slice txt stop nxt of
                    None \<Rightarrow> None
                  | Some q \<Rightarrow>
                      if q = [dq, CHR '';''] \<and> (tok = 0 \<or> \<not> isAlnum (txt ! (tok - 1))) then
                        (case go_slice txt (int content) stop of
                           None \<Rightarrow> None
                         | Some c \<Rightarrow>
                             (case (if mentions old c then rewrite_loop old new c 0 else Some c) of
                                None \<Rightarrow> None
                              | Some inn \<Rightarrow>
                                  map_option (\<lambda>out. replacePlain old new (span txt pos tok)
                                      @ tok_text (itoa (length inn)) @ inn @ [dq, CHR '';''] @ out)
                                    (rewrite_loop old new txt (nat nxt))))
                      else plain)
               else plain))"
  by pat_completeness auto
termination
  by (relation "measure (\<lambda>(old, new, txt, pos). length txt - pos)")
     (auto dest!: find_tok_text go_slice_Some arg_cong [where f = length and x = "drop _ _"] simp: tok_text_def)

declare rewrite_loop.simps [simp del]

definition rewriteSerialized :: "string \<Rightarrow> string \<Rightarrow> string \<Rightarrow> string option" where
  "rewriteSerialized old new txt =
     (if mentions old txt then rewrite_loop old new txt 0 else Some txt)"


lemma rewriteSerialized_inner:
  "(if mentions old c then rewrite_loop old new c 0 else Some c) = rewriteSerialized old new c"
  by (simp add: rewriteSerialized_def)

section \<open>The dump\<close>

text \<open>
  \<open>RewriteURLs\<close> from the first unread byte on: the rewritten rest and the number of literals changed.
  A line comment ends before its newline, an unfinished comment or literal is copied to the end.
\<close>

definition line_of :: "string \<Rightarrow> string" where
  "line_of s = takeWhile (\<lambda>c. c \<noteq> nl) s"

definition emit :: "string \<Rightarrow> nat \<Rightarrow> (string \<times> nat) option \<Rightarrow> (string \<times> nat) option" where
  "emit s k = map_option (\<lambda>(out, n). (s @ out, k + n))"

lemma prepend_Some: "prepend p x = Some (s, r) \<longleftrightarrow> (\<exists>s'. x = Some (s', r) \<and> s = p @ s')"
  by (auto simp: prepend_def)

lemma length_readLiteral: "readLiteral s = Some (t, r) \<Longrightarrow> length r < length s"
proof (induction s arbitrary: t rule: readLiteral.induct)
  case (3 c d r)
  then show ?case by (auto simp: prepend_Some split: if_splits)
qed (auto split: if_splits)

function rewrite_dump :: "string \<Rightarrow> string \<Rightarrow> string \<Rightarrow> (string \<times> nat) option" where
  "rewrite_dump old new [] = Some ([], 0)"
| "rewrite_dump old new (c # cs) =
     (if has_prefix ''-- '' (c # cs) \<or> c = CHR ''#'' then
        emit (c # line_of cs) 0 (rewrite_dump old new (drop (length (line_of cs)) cs))
      else if has_prefix ''/*'' (c # cs) then
        (case cut_at ''*/'' (drop 1 cs) of
           None \<Rightarrow> Some (c # cs, 0)
         | Some (body, r) \<Rightarrow> emit (''/*'' @ body @ ''*/'') 0 (rewrite_dump old new r))
      else if c = sq then
        (case readLiteral cs of
           None \<Rightarrow> Some (c # cs, 0)
         | Some (decoded, r) \<Rightarrow>
             (case rewriteSerialized old new decoded of
                None \<Rightarrow> None
              | Some rewritten \<Rightarrow>
                  if rewritten = decoded then
                    emit (c # take (length cs - length r) cs) 0 (rewrite_dump old new r)
                  else emit (sq # encodeLiteral rewritten @ [sq]) 1 (rewrite_dump old new r)))
      else emit [c] 0 (rewrite_dump old new cs))"
  by pat_completeness auto

termination
  by (relation "measure (\<lambda>(old, new, s). length s)")
     (auto dest!: length_readLiteral cut_at_Some arg_cong [where f = length and x = "drop _ _"])

declare rewrite_dump.simps [simp del]

definition RewriteURLs :: "string \<Rightarrow> string \<Rightarrow> string \<Rightarrow> (string \<times> nat) option" where
  "RewriteURLs sql oldURL newURL =
     (let old = trim_right_char (CHR ''/'') oldURL; new = trim_right_char (CHR ''/'') newURL
      in if old = [] \<or> old = new then Some (sql, 0) else rewrite_dump old new sql)"

definition CountOccurrences :: "string \<Rightarrow> string \<Rightarrow> nat" where
  "CountOccurrences sql url =
     (let u = trim_right_char (CHR ''/'') url in count_text u sql + count_text (jsonEsc u) sql)"

end
