(* ===== verification/Go_Net.thy ===== *)
theory Go_Net
  imports Go_Text
begin

text \<open>
  \<open>net.ParseIP\<close> of the standard library. An address is a list of bytes: sixteen, an IPv4 address in the
  mapped form, or, as a resolver may answer, just the four of an IPv4 address.
\<close>

section \<open>Addresses\<close>

type_synonym ip = "nat list"

definition v4_prefix :: "nat list" where "v4_prefix = replicate 10 0 @ [255, 255]"

definition To4 :: "ip \<Rightarrow> nat list option" where
  "To4 a =
     (if length a = 4 then Some a
      else if length a = 16 \<and> take 12 a = v4_prefix then Some (drop 12 a)
      else None)"

text \<open>One decimal field: no leading zero, at most 255.\<close>

definition v4_field :: "string \<Rightarrow> nat option" where
  "v4_field s =
     (if s \<noteq> [] \<and> list_all is_digit s \<and> (hd s = CHR ''0'' \<longrightarrow> length s = 1) \<and> digits_value s 0 \<le> 255
      then Some (digits_value s 0) else None)"

definition parse_v4 :: "string \<Rightarrow> nat list option" where
  "parse_v4 s =
     (case map v4_field (split_on (CHR ''.'') s) of
        [Some a, Some b, Some c, Some d] \<Rightarrow> Some [a, b, c, d]
      | _ \<Rightarrow> None)"

definition hex_val :: "char \<Rightarrow> nat option" where
  "hex_val c =
     (if is_digit c then Some (code c - 48)
      else if 97 \<le> code c \<and> code c \<le> 102 then Some (code c - 87)
      else if 65 \<le> code c \<and> code c \<le> 70 then Some (code c - 55)
      else None)"

definition hex_or0 :: "char \<Rightarrow> nat" where
  "hex_or0 c = (case hex_val c of None \<Rightarrow> 0 | Some v \<Rightarrow> v)"

definition hex_run :: "string \<Rightarrow> string" where
  "hex_run s = takeWhile (\<lambda>c. hex_val c \<noteq> None) s"

definition hex_num :: "string \<Rightarrow> nat" where
  "hex_num s = foldl (\<lambda>n c. n * 16 + hex_or0 c) 0 s"

text \<open>
  The loop of \<open>parseIPv6\<close>: the bytes read so far and where the ellipsis stood; the result is the rest of
  the text, the bytes and the ellipsis.
\<close>

function v6_groups :: "string \<Rightarrow> nat list \<Rightarrow> nat option \<Rightarrow> (string \<times> nat list \<times> nat option) option" where
  "v6_groups s ip gap =
     (if 16 \<le> length ip then Some (s, ip, gap)
      else
        (let d = hex_run s; r = drop (length d) s
         in if d = [] \<or> 4 < length d then None
            else if r \<noteq> [] \<and> hd r = CHR ''.'' then
              (if gap = None \<and> length ip \<noteq> 12 \<or> 12 < length ip then None
               else map_option (\<lambda>b. ([], ip @ b, gap)) (parse_v4 s))
            else
              (let ip' = ip @ [hex_num d div 256, hex_num d mod 256]
               in if r = [] then Some ([], ip', gap)
                  else if hd r \<noteq> CHR '':'' \<or> tl r = [] then None
                  else if hd (tl r) = CHR '':'' then
                    (if gap \<noteq> None then None
                     else if tl (tl r) = [] then Some ([], ip', Some (length ip'))
                     else v6_groups (tl (tl r)) ip' (Some (length ip')))
                  else v6_groups (tl r) ip' gap)))"
  by pat_completeness auto
termination by (relation "measure (\<lambda>(s, ip, gap). length s)") (auto simp: Let_def hex_run_def)

declare v6_groups.simps [simp del]

definition parse_v6 :: "string \<Rightarrow> ip option" where
  "parse_v6 s =
     (let lead = has_prefix ''::'' s; r = (if lead then drop 2 s else s)
      in if lead \<and> r = [] then Some (replicate 16 0)
         else case v6_groups r [] (if lead then Some 0 else None) of
           None \<Rightarrow> None
         | Some (rest, ip, gap) \<Rightarrow>
             if rest \<noteq> [] then None
             else if length ip < 16 then
               map_option (\<lambda>g. take g ip @ replicate (16 - length ip) 0 @ drop g ip) gap
             else if gap \<noteq> None then None
             else Some ip)"

definition ParseIP :: "string \<Rightarrow> ip option" where
  "ParseIP s =
     (if CHR ''%'' \<in> set s then None
      else case find (\<lambda>c. c = CHR ''.'' \<or> c = CHR '':'') s of
        None \<Rightarrow> None
      | Some c \<Rightarrow> if c = CHR ''.'' then map_option (\<lambda>b. v4_prefix @ b) (parse_v4 s) else parse_v6 s)"

text \<open>A parsed address has sixteen bytes.\<close>

lemma parse_v4_bytes: "parse_v4 s = Some b \<Longrightarrow> length b = 4 \<and> list_all (\<lambda>x. x < 256) b"
proof -
  have le: "v4_field t = Some x \<Longrightarrow> x < 256" for t x
    by (auto simp: v4_field_def split: if_splits)
  assume "parse_v4 s = Some b"
  then show ?thesis by (auto simp: parse_v4_def dest!: le split: list.splits option.splits)
qed

lemma hex_num_bound: "hex_num s < 16 ^ length s"
proof -
  have v: "hex_or0 c < 16" for c
    by (auto simp: hex_or0_def hex_val_def is_digit_def)
  have "foldl (\<lambda>n c. n * 16 + hex_or0 c) n s < (n + 1) * 16 ^ length s" for n
  proof (induction s arbitrary: n)
    case (Cons c s)
    have "foldl (\<lambda>n c. n * 16 + hex_or0 c) n (c # s) < (n * 16 + hex_or0 c + 1) * 16 ^ length s"
      using Cons by simp
    also have "\<dots> \<le> ((n + 1) * 16) * 16 ^ length s" using v [of c] by (intro mult_right_mono) auto
    finally show ?case by (simp only: power_Suc length_Cons mult.assoc)
  qed simp
  from this [of 0] show ?thesis by (simp add: hex_num_def)
qed

lemma hex_num_byte: "length s \<le> 4 \<Longrightarrow> hex_num s div 256 < 256"
proof -
  assume "length s \<le> 4"
  then have "(16 :: nat) ^ length s \<le> 16 ^ 4" by (intro power_increasing) auto
  then have "hex_num s < 256 * 256" using hex_num_bound [of s] by simp
  then show ?thesis by (rule less_mult_imp_div_less)
qed

definition bytes_ok :: "nat list \<Rightarrow> bool" where
  "bytes_ok b \<longleftrightarrow> length b \<le> 16 \<and> even (length b) \<and> list_all (\<lambda>x. x < 256) b"

lemma bytes_ok_v4: "bytes_ok ip \<Longrightarrow> length ip \<le> 12 \<Longrightarrow> parse_v4 s = Some b \<Longrightarrow> bytes_ok (ip @ b)"
  by (auto simp: bytes_ok_def dest: parse_v4_bytes)

lemma bytes_ok_group: "bytes_ok ip \<Longrightarrow> length ip < 16 \<Longrightarrow> length d \<le> 4 \<Longrightarrow> bytes_ok (ip @ [hex_num d div 256, hex_num d mod 256])"
  by (auto simp: bytes_ok_def hex_num_byte elim!: evenE)

text \<open>One round of the loop behind a group that another one follows.\<close>

lemma v6_step:
  assumes "length ip < 16" "hex_run s \<noteq> []" "length (hex_run s) \<le> 4" "drop (length (hex_run s)) s = CHR '':'' # c # t"
  shows "v6_groups s ip gap =
    (let ip' = ip @ [hex_num (hex_run s) div 256, hex_num (hex_run s) mod 256]
     in if c \<noteq> CHR '':'' then v6_groups (c # t) ip' gap
        else if gap \<noteq> None then None
        else if t = [] then Some ([], ip', Some (length ip')) else v6_groups t ip' (Some (length ip')))"
  using assms by (subst v6_groups.simps) (simp add: Let_def)

lemma v6_last:
  assumes "v6_groups s ip gap = Some (rest, ip', gap')" "\<nexists>c t. drop (length (hex_run s)) s = CHR '':'' # c # t" "bytes_ok ip"
  shows "bytes_ok ip'"
proof (cases "16 \<le> length ip")
  case True
  then show ?thesis using assms by (subst (asm) v6_groups.simps) simp
next
  case False
  let ?d = "hex_run s"
  let ?r = "drop (length ?d) s"
  have d: "?d \<noteq> []" "length ?d \<le> 4" using assms(1) False by (subst (asm) v6_groups.simps, simp add: Let_def split: if_splits)+
  show ?thesis
  proof (cases "?r \<noteq> [] \<and> hd ?r = CHR ''.''")
    case True
    then show ?thesis using assms(1,3) False d by (subst (asm) v6_groups.simps) (auto simp: Let_def bytes_ok_v4 split: if_splits)
  next
    case dot: False
    then have "?r = []" using assms(1,2) False d
      by (subst (asm) v6_groups.simps) (cases ?r; cases "tl ?r"; simp add: Let_def split: if_splits)
    then have "ip' = ip @ [hex_num ?d div 256, hex_num ?d mod 256]"
      using assms(1) False d by (subst (asm) v6_groups.simps) (simp add: Let_def)
    then show ?thesis using bytes_ok_group assms(3) False d by simp
  qed
qed

lemma v6_groups_bytes:
  "v6_groups s ip gap = Some (rest, ip', gap') \<Longrightarrow> bytes_ok ip \<Longrightarrow> bytes_ok ip'"
proof (induction s arbitrary: ip gap rule: measure_induct_rule [of length])
  case (less s)
  let ?d = "hex_run s"
  show ?case
  proof (cases "\<exists>c t. drop (length ?d) s = CHR '':'' # c # t")
    case False
    then show ?thesis using v6_last less.prems by blast
  next
    case True
    then obtain c t where r: "drop (length ?d) s = CHR '':'' # c # t" by blast
    then have "length (drop (length ?d) s) = length t + 2" by simp
    then have len: "length (c # t) < length s" "length t < length s" by auto
    show ?thesis
    proof (cases "16 \<le> length ip")
      case True
      then show ?thesis using less.prems by (subst (asm) v6_groups.simps) simp
    next
      case False
      have d: "?d \<noteq> []" "length ?d \<le> 4" using less.prems(1) False by (subst (asm) v6_groups.simps, simp add: Let_def split: if_splits)+
      have ok: "bytes_ok (ip @ [hex_num ?d div 256, hex_num ?d mod 256])" using bytes_ok_group less.prems(2) False d by simp
      show ?thesis using less.prems(1) ok less.IH [OF len(1) _ ok] less.IH [OF len(2) _ ok] False
        by (subst (asm) v6_step [OF _ d r]) (auto simp: Let_def split: if_splits)
    qed
  qed
qed

lemma ParseIP_bytes: "ParseIP s = Some a \<Longrightarrow> length a = 16 \<and> list_all (\<lambda>x. x < 256) a"
proof -
  have v6: "length a = 16 \<and> list_all (\<lambda>x. x < 256) a" if "parse_v6 s = Some a"
  proof -
    have "bytes_ok ip" if "v6_groups r [] g = Some (rest, ip, gap)" for r g rest ip gap
      using v6_groups_bytes [OF that] by (simp add: bytes_ok_def)
    then show ?thesis using that
      by (fastforce simp: parse_v6_def Let_def bytes_ok_def list_all_iff dest: in_set_takeD in_set_dropD split: if_splits option.splits)
  qed
  assume "ParseIP s = Some a"
  then show ?thesis using v6 by (auto simp: ParseIP_def v4_prefix_def list_all_iff dest!: parse_v4_bytes split: if_splits option.splits)
qed

end
