(* ===== verification/Domain_Names.thy ===== *)
theory Domain_Names
  imports Go_Net Projects Go_Encoding
begin

text \<open>
  internal/network/validate.go: domain names and DNS records as they may be stored. Letters outside ASCII
  are lowered as \<open>lower_slug\<close> says; a name that keeps one is refused either way.
\<close>

section \<open>Labels\<close>

text \<open>One to 63 bytes of a class, with both ends in a smaller class.\<close>

definition label_of :: "(char \<Rightarrow> bool) \<Rightarrow> (char \<Rightarrow> bool) \<Rightarrow> string \<Rightarrow> bool" where
  "label_of ends_in inner s \<longleftrightarrow> s \<noteq> [] \<and> length s \<le> 63 \<and> ends_in (hd s) \<and> ends_in (last s) \<and> list_all inner s"

definition labelRe :: "string \<Rightarrow> bool" where
  "labelRe = label_of slug_alnum (\<lambda>c. slug_alnum c \<or> c = CHR ''-'')"

definition record_label :: "string \<Rightarrow> bool" where
  "record_label = label_of (\<lambda>c. slug_alnum c \<or> c = CHR ''_'') (\<lambda>c. slug_alnum c \<or> c = CHR ''_'' \<or> c = CHR ''-'')"

definition recNameRe :: "string \<Rightarrow> bool" where
  "recNameRe s \<longleftrightarrow> s = ''@'' \<or> s = ''*'' \<or> list_all record_label (split_on (CHR ''.'') s)"

definition hostRe :: "string \<Rightarrow> bool" where
  "hostRe s \<longleftrightarrow>
     (let ls = split_on (CHR ''.'') s
      in 2 \<le> length ls \<and> list_all record_label (butlast ls) \<and> 2 \<le> length (last ls) \<and> length (last ls) \<le> 63 \<and>
         list_all is_lower (last ls)) \<or> labelRe s"

section \<open>Domains\<close>

fun bad_label :: "string list \<Rightarrow> string option" where
  "bad_label [] = None"
| "bad_label (l # ls) = (if labelRe l then bad_label ls else Some l)"

definition NormalizeDomain :: "string \<Rightarrow> api_error + string" where
  "NormalizeDomain s =
     (let d = lower_slug (trim_space (trim_suffix ''.'' (trim_space s))); labels = split_on (CHR ''.'') d
      in if d = [] \<or> 253 < length d then Inl (Validation ''domain name is required (max 253 characters)'')
         else if ParseIP d \<noteq> None then Inl (Validation ''an IP address is not a domain name'')
         else if length labels < 2 then Inl (Validation ''domain must have at least two labels, e.g. example.com'')
         else case bad_label labels of
           Some l \<Rightarrow> Inl (Validation (''domain contains an invalid label: '' @ l))
         | None \<Rightarrow> Inr d)"

lemma bad_label_None: "bad_label ls = None \<longleftrightarrow> list_all labelRe ls"
  by (induction ls) auto

text \<open>A normalised name is its own normal form.\<close>

definition domain_char :: "char \<Rightarrow> bool" where
  "domain_char c \<longleftrightarrow> slug_alnum c \<or> c = CHR ''-'' \<or> c = CHR ''.''"

lemma domain_char_plain:
  assumes "domain_char c"
  shows "code c < 128" "\<not> ascii_space (code c)" "\<not> is_upper c"
proof -
  have "code (CHR ''-'') = 45" "code (CHR ''.'') = 46" by (simp_all add: code_def)
  then show "code c < 128" "\<not> ascii_space (code c)" "\<not> is_upper c"
    using assms by (auto simp: domain_char_def slug_alnum_def is_lower_def is_digit_def is_upper_def ascii_space_def)
qed

lemma lower_slug_domain: "list_all domain_char s \<Longrightarrow> lower_slug s = s"
  by (induction s rule: lower_slug.induct)
     (auto simp: lower_ascii_def dest: domain_char_plain)

lemma trim_right_id: "\<not> ascii_space (code (last s)) \<Longrightarrow> code (last s) < 128 \<Longrightarrow> list_all (\<lambda>c. code c < 128) s \<Longrightarrow> trim_right s = s"
proof (induction s)
  case (Cons c cs)
  have no: "\<not> all_space t" if "t \<noteq> []" "\<not> ascii_space (code (last t))" "list_all (\<lambda>c. code c < 128) t" for t
    using that
  proof (induction t)
    case (Cons x xs)
    show ?case
    proof (cases "ascii_space (code x)")
      case True
      then have "xs \<noteq> []" using Cons.prems by auto
      then have "\<not> all_space xs" using Cons by simp
      moreover have "trim_left (x # xs) = trim_left xs" using True by (subst trim_left.simps) simp
      ultimately show ?thesis by (simp add: all_space_def)
    next
      case False
      then show ?thesis using Cons.prems by (simp add: all_space_def trim_left_nonspace)
    qed
  qed simp
  show ?case using Cons no [of "c # cs"] by (cases cs) auto
qed simp

lemma trim_space_domain:
  assumes "list_all domain_char s"
  shows "trim_space s = s"
proof (cases s)
  case (Cons c cs)
  have "trim_left s = s" using assms Cons domain_char_plain [of c] by (simp add: trim_left_nonspace)
  moreover have "domain_char (last s)" using assms Cons by (auto simp: list_all_iff)
  moreover have "list_all (\<lambda>c. code c < 128) s" using assms by (auto simp: list_all_iff dest: domain_char_plain)
  ultimately show ?thesis by (simp add: trim_space_def trim_right_id domain_char_plain)
qed (simp add: trim_space_def)

lemma NormalizeDomain_Inr:
  assumes "NormalizeDomain s = Inr d"
  shows "d \<noteq> [] \<and> length d \<le> 253 \<and> ParseIP d = None \<and> 2 \<le> length (split_on (CHR ''.'') d) \<and> list_all labelRe (split_on (CHR ''.'') d)"
  using assms by (auto simp: NormalizeDomain_def Let_def bad_label_None split: if_splits option.splits)

lemma labels_chars:
  assumes "list_all labelRe (split_on (CHR ''.'') d)"
  shows "list_all domain_char d"
proof -
  have "list_all domain_char (join_with ''.'' ls)" if "list_all labelRe ls" for ls
    using that
    by (induction "''.''" ls rule: join_with.induct)
       (auto simp: labelRe_def label_of_def domain_char_def list_all_iff)
  from this [OF assms] show ?thesis by (simp add: join_split)
qed

lemma labels_no_dot_end:
  assumes "list_all labelRe (split_on (CHR ''.'') d)"
  shows "\<not> has_suffix ''.'' d"
proof
  assume "has_suffix ''.'' d"
  then have "last d = CHR ''.''" "d \<noteq> []" by (auto simp: has_suffix_def) (metis last_appendR last.simps append_take_drop_id not_Cons_self2)
  then obtain p where "d = p @ [CHR ''.'']" by (metis append_butlast_last_id)
  then have "[] \<in> set (split_on (CHR ''.'') d)" using split_on_append [of "CHR ''.''" p "[]"] by simp
  then show False using assms by (auto simp: list_all_iff labelRe_def label_of_def)
qed

lemma NormalizeDomain_idem: "NormalizeDomain s = Inr d \<Longrightarrow> NormalizeDomain d = Inr d"
proof -
  assume "NormalizeDomain s = Inr d"
  note d = NormalizeDomain_Inr [OF this]
  have c: "list_all domain_char d" using d labels_chars by blast
  have "trim_suffix ''.'' d = d" using labels_no_dot_end d by (simp add: trim_suffix_def)
  then have "lower_slug (trim_space (trim_suffix ''.'' (trim_space d))) = d"
    using c by (simp add: trim_space_domain lower_slug_domain)
  then show ?thesis using d bad_label_None [of "split_on (CHR ''.'') d"] by (simp add: NormalizeDomain_def Let_def)
qed

text \<open>
  C37: A domain name that is accepted is a proper one, and its own normal form: at most 253 bytes of
  lower-case letters, digits, hyphens and dots, in at least two labels that fit \<open>labelRe\<close>, and not an
  address.
\<close>

theorem accepted_domains:
  assumes "NormalizeDomain s = Inr d"
  shows "1 \<le> length d \<and> length d \<le> 253 \<and> list_all domain_char d \<and> ParseIP d = None \<and>
     2 \<le> length (split_on (CHR ''.'') d) \<and> list_all labelRe (split_on (CHR ''.'') d) \<and> NormalizeDomain d = Inr d"
proof -
  note d = NormalizeDomain_Inr [OF assms]
  moreover have "list_all domain_char d" using d labels_chars by blast
  moreover have "1 \<le> length d" using d by (simp add: Suc_leI)
  ultimately show ?thesis using NormalizeDomain_idem [OF assms] by blast
qed

theorem accepted_domains_witness:
  "NormalizeDomain '' New.ORG.'' = Inr ''new.org'' \<and> list_all labelRe (split_on (CHR ''.'') ''new.org'') \<and> NormalizeDomain ''new.org'' = Inr ''new.org''"
proof -
  have "NormalizeDomain '' New.ORG.'' = Inr ''new.org''" by code_simp
  from accepted_domains [OF this] this show ?thesis by blast
qed

section \<open>Records\<close>

record record_input =
  ri_type :: string
  ri_name :: string
  ri_value :: string
  ri_ttl :: int
  ri_priority :: int

text \<open>\<open>strings.Fields\<close>.\<close>

fun take_word :: "string \<Rightarrow> string" where
  "take_word [] = []"
| "take_word (c # cs) = (if 0 < space_len (map code (c # cs)) then [] else c # take_word cs)"

function go_fields :: "string \<Rightarrow> string list" where
  "go_fields s =
     (let w = take_word (trim_left s)
      in if w = [] then [] else w # go_fields (drop (length w) (trim_left s)))"
  by pat_completeness auto
termination
proof (relation "measure length", simp)
  fix s w assume w: "w = take_word (trim_left s)" "w \<noteq> []"
  obtain pre where "s = pre @ trim_left s" using trim_left_suffix by blast
  then have "length (trim_left s) \<le> length s" by (metis length_append le_add2)
  moreover have "trim_left s \<noteq> []" using w by auto
  ultimately show "(drop (length w) (trim_left s), s) \<in> measure length" using w(2) by (cases w; cases "trim_left s") auto
qed

declare go_fields.simps [simp del]

definition record_value_error :: "record_input \<Rightarrow> string option" where
  "record_value_error r =
     (let host = trim_suffix ''.'' (lower_slug (ri_value r))
      in if ri_type r = ''A'' then
           (case ParseIP (ri_value r) of
              Some a \<Rightarrow> if To4 a = None then Some ''A record value must be an IPv4 address'' else None
            | None \<Rightarrow> Some ''A record value must be an IPv4 address'')
         else if ri_type r = ''AAAA'' then
           (case ParseIP (ri_value r) of
              Some a \<Rightarrow> if To4 a = None then None else Some ''AAAA record value must be an IPv6 address''
            | None \<Rightarrow> Some ''AAAA record value must be an IPv6 address'')
         else if ri_type r = ''CNAME'' then
           (if ri_name r = ''@'' then Some ''a CNAME cannot be set at the zone apex''
            else if ParseIP host \<noteq> None \<or> \<not> hostRe host then Some ''CNAME value must be a hostname'' else None)
         else if ri_type r = ''MX'' then
           (if \<not> hostRe host then Some ''MX value must be a hostname''
            else if ri_priority r < 0 \<or> ri_priority r > 65535 then Some ''MX priority must be 0-65535'' else None)
         else if ri_type r = ''TXT'' then
           (if 1024 < length (ri_value r) \<or> CHR 0x0D \<in> set (ri_value r) \<or> CHR 0x0A \<in> set (ri_value r) \<or> CHR 0x00 \<in> set (ri_value r)
            then Some ''TXT value is too long or contains control characters'' else None)
         else if ri_type r = ''CAA'' then
           (case go_fields (ri_value r) of
              [a, b, c] \<Rightarrow>
                if b \<noteq> ''issue'' \<and> b \<noteq> ''issuewild'' \<and> b \<noteq> ''iodef''
                then Some (''CAA value must look like: 0 issue '' @ CHR 0x22 # ''letsencrypt.org'' @ [CHR 0x22]) else None
            | _ \<Rightarrow> Some (''CAA value must look like: 0 issue '' @ CHR 0x22 # ''letsencrypt.org'' @ [CHR 0x22]))
         else Some ''unsupported record type (A, AAAA, CNAME, MX, TXT, CAA)'')"

text \<open>\<open>Validate\<close> normalises its receiver; \<open>ToUpper\<close> matters on ASCII only, as the types do.\<close>

definition upper_ascii :: "string \<Rightarrow> string" where
  "upper_ascii = map (\<lambda>c. if is_lower c then char_of (code c - 32) else c)"

definition normal_record :: "record_input \<Rightarrow> record_input" where
  "normal_record r =
     (let name = lower_slug (trim_space (ri_name r))
      in r\<lparr>ri_type := upper_ascii (trim_space (ri_type r)), ri_name := (if name = [] then ''@'' else name),
           ri_value := trim_space (ri_value r), ri_ttl := (if ri_ttl r = 0 then 300 else ri_ttl r)\<rparr>)"

definition validate_record :: "record_input \<Rightarrow> api_error + record_input" where
  "validate_record r0 =
     (let r = normal_record r0
      in if \<not> recNameRe (ri_name r) then Inl (Validation ''invalid record name'')
         else if ri_ttl r < 30 \<or> ri_ttl r > 86400 then Inl (Validation ''ttl must be between 30 and 86400 seconds'')
         else if ri_value r = [] \<or> 2048 < length (ri_value r) then Inl (Validation ''value is required'')
         else case record_value_error r of Some t \<Rightarrow> Inl (Validation t) | None \<Rightarrow> Inr r)"

end
