(* ===== verification/Site_Migration.thy ===== *)
theory Site_Migration
  imports Backups Site_Archive Site_Rewrite Domain_Names
begin

text \<open>
  internal/sitemig/sitemig.go: the rows of migrations, the reports, and the four operations. What a
  connector finds out about a site and the zip library are parameters.
\<close>

section \<open>Reports\<close>

record check_item =
  ck_id :: string
  ck_title :: string
  ck_status :: string
  ck_detail :: string

record report =
  Checks :: "check_item list"
  Pass :: int
  Warnings :: int
  Blockers :: int
  CanProceed :: bool

definition no_report :: report where
  "no_report = \<lparr>Checks = [], Pass = 0, Warnings = 0, Blockers = 0, CanProceed = False\<rparr>"

definition report_add :: "string \<Rightarrow> string \<Rightarrow> string \<Rightarrow> string \<Rightarrow> report \<Rightarrow> report" where
  "report_add i title status detail r =
     (let r1 = r\<lparr>Checks := Checks r @ [\<lparr>ck_id = i, ck_title = title, ck_status = status, ck_detail = detail\<rparr>]\<rparr>;
          r2 = (if status = ''PASS'' then r1\<lparr>Pass := Pass r1 + 1\<rparr>
                else if status = ''WARNING'' then r1\<lparr>Warnings := Warnings r1 + 1\<rparr>
                else if status = ''BLOCKER'' then r1\<lparr>Blockers := Blockers r1 + 1\<rparr>
                else r1)
      in r2\<lparr>CanProceed := (Blockers r2 = 0)\<rparr>)"

section \<open>State\<close>

record migration_row =
  mg_id :: uuid
  mg_org :: uuid
  mg_project :: "uuid option"
  mg_kind :: string
  mg_config :: config
  mg_domain :: string
  mg_url :: "string option"
  mg_status :: string
  mg_phase :: string
  mg_source :: "string option"
  mg_cred :: "string option"
  mg_preflight :: "(report \<times> source_info) option"
  mg_validation :: "report option"
  mg_score :: "int option"
  mg_safety :: "uuid option"
  mg_staging :: "string option"
  mg_error :: "string option"
  mg_creator :: "uuid option"
  mg_created :: time
  mg_updated :: time
  mg_finished :: "time option"

text \<open>
  Behind the table: what a running operation keeps in its receiver (\<open>mg_loaded\<close>) and in the closures of its
  steps.
\<close>

record 'p migrating = "'p hosted" +
  migrations :: "migration_row list"
  mg_loaded :: "migration_row option"
  mg_info :: source_info
  mg_discover :: "string option"
  mg_rewrites :: nat
  mg_old_url :: string
  mg_backup :: "uuid option"
  mg_live :: "project_row option"
  mg_target :: string

text \<open>
  The rest of the service: the zip library, \<open>ctx.Err()\<close> before each entry, \<open>strconv.Quote\<close>, the connectors
  that are registered, what a connector's answer says of the site, whether there is a backup service, and
  how deep a directory tree on the file system can be.
\<close>

record migrator =
  mi_unzip :: "string \<Rightarrow> zip_file list option"
  mi_ctx :: "nat \<Rightarrow> string option"
  mi_quote :: "string \<Rightarrow> string"
  mi_connectors :: "string list"
  mi_info :: "preply \<Rightarrow> source_info"
  mi_backups :: bool
  mi_depth :: nat

definition source_kind :: "string \<Rightarrow> bool" where
  "source_kind k \<longleftrightarrow> k \<in> {''cpanel'', ''ftp'', ''sftp'', ''ssh'', ''updraftplus'', ''zip'', ''wordpress'', ''manual''}"

definition archive_kind :: "string \<Rightarrow> bool" where
  "archive_kind k \<longleftrightarrow> k \<in> {''zip'', ''updraftplus'', ''manual''}"

definition secretLikeKey :: "string \<Rightarrow> bool" where
  "secretLikeKey k \<longleftrightarrow> list_ex (\<lambda>t. contains_text t (fold_name k)) [''PASS'', ''SECRET'', ''TOKEN'', ''KEY'', ''CREDENTIAL'']"

text \<open>The unique index on the organization and the target of migrations that are under way.\<close>

definition under_way :: "migration_row \<Rightarrow> bool" where
  "under_way m \<longleftrightarrow> mg_status m \<notin> {''completed'', ''failed'', ''rolled_back'', ''preflight_failed''}"

definition target_taken :: "migration_row list \<Rightarrow> migration_row \<Rightarrow> bool" where
  "target_taken ms m \<longleftrightarrow> under_way m \<and>
     list_ex (\<lambda>n. mg_id n \<noteq> mg_id m \<and> under_way n \<and> mg_org n = mg_org m \<and> lower_ascii (mg_domain n) = lower_ascii (mg_domain m)) ms"

text \<open>An UPDATE of the row \<open>i\<close>; \<open>None\<close> is a driver error, of which a violated index is one.\<close>

definition write_migration ::
  "bool \<Rightarrow> uuid \<Rightarrow> (migration_row \<Rightarrow> migration_row) \<Rightarrow> ('p, 'z) migrating_scheme \<Rightarrow> ('p, 'z) migrating_scheme option" where
  "write_migration failed i f w =
     (let ms = update_where (\<lambda>m. mg_id m = i) f (migrations w)
      in if failed \<or> list_ex (\<lambda>m. mg_id m = i \<and> target_taken ms m) ms then None else Some (w\<lparr>migrations := ms\<rparr>))"

text \<open>\<open>setStatus\<close>: its error is ignored.\<close>

definition with_status :: "time \<Rightarrow> string \<Rightarrow> string \<Rightarrow> string \<Rightarrow> migration_row \<Rightarrow> migration_row" where
  "with_status now status phase err m =
     m\<lparr>mg_status := status, mg_phase := (if phase = [] then mg_phase m else phase),
       mg_error := (if err = [] then None else Some err), mg_updated := now,
       mg_finished := (if status \<in> {''completed'', ''failed'', ''rolled_back'', ''preflight_failed''} then Some now else None)\<rparr>"

definition set_migration ::
  "bool \<Rightarrow> time \<Rightarrow> uuid \<Rightarrow> string \<Rightarrow> string \<Rightarrow> string \<Rightarrow> ('p, 'z) migrating_scheme \<Rightarrow> ('p, 'z) migrating_scheme" where
  "set_migration failed now i status phase err w =
     coalesce (write_migration failed i (with_status now status phase err) w) w"

section \<open>Reading and creating\<close>

definition load_migration :: "bool \<Rightarrow> uuid \<Rightarrow> uuid \<Rightarrow> ('p, 'z) migrating_scheme \<Rightarrow> api_error + migration_row" where
  "load_migration failed org i w =
     (if failed then Inl (internal ''failed to load migration'')
      else case find (\<lambda>m. mg_id m = i \<and> mg_org m = org) (migrations w) of
        None \<Rightarrow> Inl (NotFound ''migration'') | Some m \<Rightarrow> Inr m)"

definition get_migration :: "bool \<Rightarrow> auth_context \<Rightarrow> uuid \<Rightarrow> ('p, 'z) migrating_scheme \<Rightarrow> api_error + migration_row" where
  "get_migration failed ac i w =
     (case Require ac ''migrations.read'' of Some x \<Rightarrow> Inl x | None \<Rightarrow> load_migration failed (org_id ac) i w)"

definition list_migrations ::
  "bool \<Rightarrow> auth_context \<Rightarrow> uuid option \<Rightarrow> int \<Rightarrow> int \<Rightarrow> ('p, 'z) migrating_scheme \<Rightarrow> api_error + migration_row list" where
  "list_migrations failed ac project limit offset w =
     (case Require ac ''migrations.read'' of Some x \<Rightarrow> Inl x
      | None \<Rightarrow>
        if failed \<or> offset < 0 then Inl (internal ''failed to list migrations'')
        else Inr (page (if limit \<le> 0 \<or> limit > 200 then 50 else limit) offset
               (sort_key (\<lambda>m. - mg_created m) (filter (\<lambda>m. mg_org m = org_id ac \<and>
                  (project = None \<or> project = mg_project m)) (migrations w)))))"

record migration_input =
  mn_project :: "uuid option"
  mn_kind :: string
  mn_config :: config
  mn_credentials :: string_map
  mn_domain :: string
  mn_url :: string

definition credentials_key :: "'p infra \<Rightarrow> uuid \<Rightarrow> string" where
  "credentials_key P i = ''migration/'' @ in_uuid_text P i @ ''/credentials''"

definition new_migration :: "'p infra \<Rightarrow> env \<Rightarrow> auth_context \<Rightarrow> migration_input \<Rightarrow> string \<Rightarrow> string \<Rightarrow> migration_row" where
  "new_migration P e ac inp target url =
     \<lparr>mg_id = new_id e, mg_org = org_id ac, mg_project = mn_project inp, mg_kind = mn_kind inp, mg_config = mn_config inp,
      mg_domain = target, mg_url = (if url = [] then None else Some url), mg_status = ''discovering'', mg_phase = ''discovery'',
      mg_source = None, mg_cred = (if mn_credentials inp = [] then None else Some (credentials_key P (new_id e))),
      mg_preflight = None, mg_validation = None, mg_score = None, mg_safety = None, mg_staging = None, mg_error = None,
      mg_creator = (if actor_type ac = ActorUser then Some (actor_id ac) else None),
      mg_created = db_now e, mg_updated = db_now e, mg_finished = None\<rparr>"

text \<open>
  Statements: the INSERT (0), the DELETE after credentials that could not be stored (1), the row read back
  (2), the audit row (3). An error of the secrets service is kept as its text.
\<close>

definition create_migration ::
  "'p infra \<Rightarrow> env \<Rightarrow> auth_context \<Rightarrow> migration_input \<Rightarrow> ('p, 'z) migrating_scheme
     \<Rightarrow> (api_error + migration_row) \<times> ('p, 'z) migrating_scheme" where
  "create_migration P e ac inp w =
     (case Require ac ''migrations.create'' of Some x \<Rightarrow> (Inl x, w)
      | None \<Rightarrow>
     if \<not> source_kind (mn_kind inp) then (Inl (Validation ''unsupported source_kind''), w)
     else case NormalizeDomain (mn_domain inp) of Inl x \<Rightarrow> (Inl x, w)
     | Inr target \<Rightarrow>
     (case find (\<lambda>kv. secretLikeKey (fst kv)) (mn_config inp) of
        Some kv \<Rightarrow> (Inl (Validation (''source_config must not contain secrets ('' @ fst kv @ ''); send them in `credentials`'')), w)
      | None \<Rightarrow>
     (let url = trim_right_char (CHR ''/'') (mn_url inp); new = new_migration P e ac inp target url
      in if mn_url inp \<noteq> [] \<and> (\<not> has_prefix ''http://'' url \<and> \<not> has_prefix ''https://'' url \<or> 300 < length url)
         then (Inl (Validation ''source_url must be an http(s) URL''), w)
         else if mn_credentials inp \<noteq> [] \<and> \<not> in_secrets P
         then (Inl (Validation ''secrets service is not configured; credentials cannot be stored''), w)
         else if fault e 0 then (Inl (internal ''failed to create migration''), w)
         else if (case mn_project inp of None \<Rightarrow> False | Some i \<Rightarrow> \<not> list_ex (live_project (org_id ac) i) (projects w))
         then (Inl (Validation ''project_id does not refer to a project in this organization''), w)
         else if new_id e \<in> mg_id ` set (migrations w) \<or> target_taken (migrations w) new
         then (Inl (Conflict ''a migration to this domain is already in progress''), w)
         else
           (let w1 = w\<lparr>migrations := migrations w @ [new]\<rparr>;
                read_back = (\<lambda>w. case get_migration (fault e 2) ac (new_id e) w of
                   Inl x \<Rightarrow> (Inl x, w)
                 | Inr m \<Rightarrow> (Inr m, rec_audit (fault e 3) ac ''migrations.migration.created'' ''migration'' (new_id e) w))
            in if mn_credentials inp = [] then read_back w1
               else case ask_infra P (SecretSet (org_id ac) (credentials_key P (new_id e))
                       (json_text (JObj (map (\<lambda>(k, v). (k, JStr v)) (sort_key fst (mn_credentials inp)))))) w1 of
                 (Some t, _, w2) \<Rightarrow> (Inl (internal t), if fault e 1 then w2
                     else w2\<lparr>migrations := delete_where (\<lambda>m. mg_id m = new_id e) (migrations w2)\<rparr>)
               | (None, _, w2) \<Rightarrow> read_back w2))))"

definition archivePath :: "'p infra \<Rightarrow> uuid \<Rightarrow> uuid \<Rightarrow> string" where
  "archivePath P org i = ''migrations/'' @ in_uuid_text P org @ ''/'' @ in_uuid_text P i @ ''/source.zip''"

definition stagePath :: "'p infra \<Rightarrow> uuid \<Rightarrow> uuid \<Rightarrow> string" where
  "stagePath P org i = ''migrations/'' @ in_uuid_text P org @ ''/'' @ in_uuid_text P i @ ''/stage''"

definition MaxArchiveBytes :: int where "MaxArchiveBytes = 64 * 2 ^ 20"

text \<open>\<open>upload\<close> is what the body of the request holds, \<open>None\<close> when reading it up to the limit fails.\<close>

definition upload_source ::
  "'p infra \<Rightarrow> env \<Rightarrow> auth_context \<Rightarrow> uuid \<Rightarrow> string option \<Rightarrow> ('p, 'z) migrating_scheme
     \<Rightarrow> (api_error + migration_row) \<times> ('p, 'z) migrating_scheme" where
  "upload_source P e ac i upload w =
     (case Require ac ''migrations.create'' of Some x \<Rightarrow> (Inl x, w)
      | None \<Rightarrow>
     if \<not> in_fs P then (Inl (Validation ''filesystem provider is not configured on this deployment''), w)
     else case load_migration (fault e 0) (org_id ac) i w of Inl x \<Rightarrow> (Inl x, w)
     | Inr m \<Rightarrow>
     if \<not> archive_kind (mg_kind m) then (Inl (Validation (''this migration'' @ CHR 0x27 # ''s source is not an archive'')), w)
     else if mg_status m \<notin> {''discovering'', ''planned'', ''preflight_failed''}
     then (Inl (Conflict ''the source can only be replaced before the migration runs''), w)
     else case upload of None \<Rightarrow> (Inl (Validation ''could not read upload''), w)
     | Some data \<Rightarrow>
     if MaxArchiveBytes < int (length data)
     then (Inl (Validation (''archive exceeds the '' @ sprint_d (MaxArchiveBytes div 2 ^ 20) @ '' MiB upload limit'')), w)
     else if length data < 4 \<or> \<not> has_prefix [CHR ''P'', CHR ''K'', CHR 0x03, CHR 0x04] data
     then (Inl (Validation ''file is not a zip archive''), w)
     else case ask_infra P (FsWriteFile (archivePath P (org_id ac) i) data) w of
       (Some t, _, w1) \<Rightarrow> (Inl (internal ''failed to store archive''), w1)
     | (None, _, w1) \<Rightarrow>
     (case write_migration (fault e 1) i (\<lambda>m. m\<lparr>mg_source := Some (archivePath P (org_id ac) i), mg_status := ''discovering'',
            mg_phase := ''discovery'', mg_preflight := None, mg_updated := db_now e\<rparr>) w1 of
        None \<Rightarrow> (Inl (internal ''failed to record archive''), w1)
      | Some w2 \<Rightarrow>
          (let w3 = rec_audit (fault e 2) ac ''migrations.migration.source_uploaded'' ''migration'' i w2
           in (load_migration (fault e 3) (org_id ac) i w3, w3))))"

section \<open>Planning\<close>

text \<open>The text of an error of the archive functions.\<close>

primrec archive_text :: "(string \<Rightarrow> string) \<Rightarrow> archive_error \<Rightarrow> string" where
  "archive_text q NotZip = ''not a valid zip archive''"
| "archive_text q TooManyEntries = ''archive has too many entries''"
| "archive_text q ExpandsTooFar = ''archive expands beyond the size limit''"
| "archive_text q (UnsafePath n) = ''unsafe path in archive: '' @ q n"
| "archive_text q (PathTraversal n) = ''path traversal in archive: '' @ q n"
| "archive_text q EntryTooLarge = ''entry exceeds the size limit''"
| "archive_text q (EntryError t) = t"
| "archive_text q (AtEntry n x) = n @ '': '' @ archive_text q x"
| "archive_text q (Interrupted t) = t"
| "archive_text q (WriteError t) = t"

text \<open>\<open>credentials\<close>: the call it makes; what it returns only goes to the connector.\<close>

definition with_credentials :: "'p infra \<Rightarrow> uuid \<Rightarrow> uuid \<Rightarrow> ('p, 'z) hosting_scheme \<Rightarrow> ('p, 'z) hosting_scheme" where
  "with_credentials P org i w = (if in_secrets P then snd (hcall P (SecretReveal org (credentials_key P i)) w) else w)"

definition discover ::
  "migrator \<Rightarrow> 'p infra \<Rightarrow> migration_row \<Rightarrow> ('p, 'z) hosting_scheme \<Rightarrow> source_info \<times> string option \<times> ('p, 'z) hosting_scheme" where
  "discover M P m w =
     (if archive_kind (mg_kind m) then
        (if \<not> in_fs P then (no_info, Some ''filesystem provider is not configured'', w)
         else if mg_source m = None then (no_info, Some ''no archive has been uploaded yet'', w)
         else case ask_infra P (FsReadFile (archivePath P (mg_org m) (mg_id m))) w of
             (Some t, _, w1) \<Rightarrow> (no_info, Some t, w1)
           | (None, r, w1) \<Rightarrow>
               (case inspectArchive (mi_unzip M) (rp_text r) of
                  Inl x \<Rightarrow> (no_info, Some (archive_text (mi_quote M) x), w1)
                | Inr i \<Rightarrow> (i, None, w1)))
      else if mg_kind m \<notin> set (mi_connectors M)
      then (no_info, Some (''no connector is available for '' @ CHR 0x22 # mg_kind m @ CHR 0x22 # '' sources in this deployment''), w)
      else case ask_infra P (ConnDiscover (mg_kind m) (mg_id m)) (with_credentials P (mg_org m) (mg_id m) w) of
          (t, r, w1) \<Rightarrow> (mi_info M r, t, w1))"

definition orDash :: "string \<Rightarrow> string" where
  "orDash s = (if s = [] then ''-'' else s)"

definition firstNonEmpty :: "string list \<Rightarrow> string" where
  "firstNonEmpty xs = coalesce (find (\<lambda>s. s \<noteq> []) xs) []"

definition plugin_check :: "string \<Rightarrow> report \<Rightarrow> report" where
  "plugin_check p r =
     (if p \<in> {''wp-rocket'', ''w3-total-cache'', ''wp-super-cache''} then
        report_add (''plugin-'' @ p) (''Cache plugin '' @ p) ''WARNING''
          ''server-level cache configuration is not migrated; purge and reconfigure after cutover'' r
      else if p = ''wordfence'' then
        report_add ''plugin-wordfence'' ''Security plugin wordfence'' ''WARNING''
          ''its firewall auto-prepend file references the old path; reinstall after cutover'' r
      else r)"

text \<open>The checks of the source, once it has been read.\<close>

definition source_checks :: "migration_row \<Rightarrow> source_info \<Rightarrow> report \<Rightarrow> report" where
  "source_checks m i r0 =
     (let r1 = (if IsWordPress i
            then report_add ''wp_config'' ''Custom wp-config.php settings'' ''WARNING''
                ''wp-config.php is not migrated (it holds the old server's database credentials); re-add any custom constants after cutover''
                (report_add ''wordpress'' ''WordPress installation detected'' ''PASS'' (''version '' @ orDash (WPVersion i)) r0)
            else report_add ''wordpress'' ''WordPress installation detected'' ''BLOCKER''
                ''no wp-config.php / wp-includes found; only WordPress sites are supported'' r0);
          r2 = (if Multisite i
            then report_add ''multisite'' ''Single-site installation'' ''BLOCKER'' ''WordPress multisite is not supported'' r1
            else report_add ''multisite'' ''Single-site installation'' ''PASS'' [] r1);
          r3 = (if HasDatabase i
            then report_add ''database'' ''Database dump present'' ''PASS'' (sprint_d (DBBytes i) @ '' bytes'') r2
            else report_add ''database'' ''Database dump present'' ''BLOCKER'' ''no .sql dump found in the source'' r2);
          url = coalesce (mg_url m) [];
          r4 = (if SiteURL i = [] \<and> url = []
            then report_add ''source_url'' ''Original site URL known'' ''WARNING''
                ''could not detect siteurl; set source_url so URLs can be rewritten'' r3
            else report_add ''source_url'' ''Original site URL known'' ''PASS'' (orDash (firstNonEmpty [url, SiteURL i])) r3);
          mib = sprint_d (SizeBytes i div 2 ^ 20);
          r5 = (if SizeBytes i > 400 * 2 ^ 20
            then report_add ''size'' ''Site size within limits'' ''WARNING'' (mib @ '' MiB; transfer will be slow'') r4
            else report_add ''size'' ''Site size within limits'' ''PASS'' (mib @ '' MiB'') r4);
          v = PHPVersion i;
          r6 = (if v \<noteq> [] \<and> \<not> has_prefix ''7.4'' v \<and> \<not> has_prefix ''8.'' v
            then report_add ''php'' ''PHP version compatible'' ''WARNING''
                (''source runs PHP '' @ v @ ''; target uses PHP 8.3 and old plugins may break'') r5
            else r5)
      in fold plugin_check (Plugins i) r6)"

definition target_checks ::
  "migrator \<Rightarrow> 'p infra \<Rightarrow> bool \<Rightarrow> migration_row \<Rightarrow> ('p, 'z) hosting_scheme \<Rightarrow> report \<Rightarrow> report" where
  "target_checks M P failed m w r0 =
     (let active = ''Target project is an active WordPress project'';
          r1 = (case NormalizeDomain (mg_domain m) of
              Inl x \<Rightarrow> report_add ''target_domain'' ''Target domain is valid'' ''BLOCKER'' (api_text x) r0
            | Inr _ \<Rightarrow> report_add ''target_domain'' ''Target domain is valid'' ''PASS'' (mg_domain m) r0);
          r2 = (case mg_project m of
              None \<Rightarrow> report_add ''target_project'' ''Target project selected'' ''BLOCKER''
                ''create and provision a WordPress project first, then attach it to this migration'' r1
            | Some i \<Rightarrow> (case get_project failed (System_ctx (mg_org m)) i w of
                Inl _ \<Rightarrow> report_add ''target_project'' ''Target project selected'' ''BLOCKER'' ''project not found'' r1
              | Inr v \<Rightarrow>
                  if pj_status (pv_row v) \<noteq> ''active'' \<or> pj_kind (pv_row v) \<noteq> ''wordpress''
                  then report_add ''target_project'' active ''BLOCKER''
                    (''project is '' @ pj_kind (pv_row v) @ ''/'' @ pj_status (pv_row v)) r1
                  else report_add ''target_project'' active ''PASS'' (pj_slug (pv_row v)) r1));
          r3 = (if in_fs P then r2 else report_add ''provider_fs'' ''Filesystem provider available'' ''BLOCKER'' ''not configured'' r2);
          r4 = (if in_db P then report_add ''provider_db'' ''Database provider available'' ''PASS'' [] r3
            else report_add ''provider_db'' ''Database provider available'' ''BLOCKER''
              ''not configured on this deployment; databases cannot be imported'' r3)
      in if mi_backups M
         then report_add ''safety_backup'' ''Safety backup available'' ''PASS'' ''a full backup is taken before cutover'' r4
         else report_add ''safety_backup'' ''Safety backup available'' ''BLOCKER''
              ''backup service not configured; cutover would be unsafe'' r4)"

definition preflight ::
  "migrator \<Rightarrow> 'p infra \<Rightarrow> bool \<Rightarrow> migration_row \<Rightarrow> source_info \<Rightarrow> string option \<Rightarrow> ('p, 'z) hosting_scheme \<Rightarrow> report" where
  "preflight M P failed m i derr w =
     target_checks M P failed m w
       (case derr of
          Some t \<Rightarrow> report_add ''source'' ''Source is reachable and readable'' ''BLOCKER'' t no_report
        | None \<Rightarrow> source_checks m i (report_add ''source'' ''Source is reachable and readable'' ''PASS'' [] no_report))"

definition report_json :: "report \<Rightarrow> json" where
  "report_json r = JObj
     [(''checks'', JArr (map (\<lambda>c. JObj ([(''id'', JStr (ck_id c)), (''title'', JStr (ck_title c)), (''status'', JStr (ck_status c))] @
         (if ck_detail c = [] then [] else [(''detail'', JStr (ck_detail c))]))) (Checks r))),
      (''pass'', JNum (sprint_d (Pass r))), (''warnings'', JNum (sprint_d (Warnings r))),
      (''blockers'', JNum (sprint_d (Blockers r))), (''can_proceed'', JBool (CanProceed r))]"

text \<open>
  \<open>Validate\<close> of every operation loads the migration into its receiver (statement 0); the table cannot change
  between it and the first step, which keeps the row. Statements of a plan: 1 reads the project, 2 records
  the report.
\<close>

definition opened :: "uuid \<Rightarrow> uuid \<Rightarrow> ('p, 'z) migrating_scheme \<Rightarrow> ('p, 'z) migrating_scheme" where
  "opened org i w = w\<lparr>mg_loaded := find (\<lambda>m. mg_id m = i \<and> mg_org m = org) (migrations w)\<rparr>"

definition no_migration :: migration_row where
  "no_migration = \<lparr>mg_id = uuid_nil, mg_org = uuid_nil, mg_project = None, mg_kind = [], mg_config = [], mg_domain = [],
     mg_url = None, mg_status = [], mg_phase = [], mg_source = None, mg_cred = None, mg_preflight = None, mg_validation = None,
     mg_score = None, mg_safety = None, mg_staging = None, mg_error = None, mg_creator = None, mg_created = 0, mg_updated = 0,
     mg_finished = None\<rparr>"

definition current :: "('p, 'z) migrating_scheme \<Rightarrow> migration_row" where
  "current w = coalesce (mg_loaded w) no_migration"

definition plan_validate :: "env \<Rightarrow> uuid \<Rightarrow> uuid \<Rightarrow> ('p, 'z) migrating_scheme \<Rightarrow> exec_error option" where
  "plan_validate e org i w =
     (case load_migration (fault e 0) org i w of Inl x \<Rightarrow> Some (ApiFailure x)
      | Inr m \<Rightarrow>
          if mg_status m \<in> {''discovering'', ''planned'', ''preflight_failed''} then None
          else Some (ApiFailure (Conflict (''migration is '' @ mg_status m @ ''; it can only be planned before it runs''))))"

definition discovery_step :: "migrator \<Rightarrow> 'p infra \<Rightarrow> env \<Rightarrow> uuid \<Rightarrow> uuid \<Rightarrow> ('p, 'z) migrating_scheme op_step" where
  "discovery_step M P e org i =
     \<lparr>os_name = ''discovery'',
      os_run = Some (\<lambda>poll rs w.
        (case discover M P (current (opened org i w)) (opened org i w) of
           (info, err, w1) \<Rightarrow> done_step rs (w1\<lparr>mg_info := info, mg_discover := err\<rparr>))),
      os_undo = None\<rparr>"

definition preflight_step :: "migrator \<Rightarrow> 'p infra \<Rightarrow> env \<Rightarrow> uuid \<Rightarrow> ('p, 'z) migrating_scheme op_step" where
  "preflight_step M P e i =
     \<lparr>os_name = ''preflight'',
      os_run = Some (\<lambda>poll rs w.
        (let rep = preflight M P (fault e 1) (current w) (mg_info w) (mg_discover w) w;
             url = trim_right_char (CHR ''/'') (SiteURL (mg_info w))
         in case write_migration (fault e 2) i (\<lambda>m. m\<lparr>mg_preflight := Some (rep, mg_info w),
                mg_url := (case mg_url m of Some u \<Rightarrow> Some u | None \<Rightarrow> if url = [] then None else Some url),
                mg_status := (if CanProceed rep then ''planned'' else ''preflight_failed''),
                mg_phase := ''preflight'', mg_error := None, mg_updated := db_now e\<rparr>) w of
              None \<Rightarrow> fail_step ''database error'' rs w
            | Some w1 \<Rightarrow> done_step (rs\<lparr>rs_result := Some (report_json rep)\<rparr>) w1)),
      os_undo = None\<rparr>"

section \<open>The run\<close>

text \<open>
  Statements: 0 loads the migration, 1 marks it running and 2 undoes that, 3 and 5 advance it, 4 records the
  staging database, 6 advances it, 7 records the validation, 8 makes it ready.
\<close>

definition run_validate :: "'p infra \<Rightarrow> env \<Rightarrow> uuid \<Rightarrow> uuid \<Rightarrow> ('p, 'z) migrating_scheme \<Rightarrow> exec_error option" where
  "run_validate P e org i w =
     (case load_migration (fault e 0) org i w of Inl x \<Rightarrow> Some (ApiFailure x)
      | Inr m \<Rightarrow>
          if mg_status m \<noteq> ''planned''
          then Some (ApiFailure (Conflict (''migration is '' @ mg_status m @ ''; run it only after a plan with no blockers'')))
          else if \<not> in_fs P \<or> \<not> in_db P
          then Some (ApiFailure (Validation ''filesystem and database providers are required''))
          else None)"

definition stagingDB :: "'p infra \<Rightarrow> uuid \<Rightarrow> string" where
  "stagingDB P i = ''mig_'' @ take 16 (filter (\<lambda>c. c \<noteq> CHR ''-'') (in_uuid_text P i))"

definition stagingUser :: "'p infra \<Rightarrow> uuid \<Rightarrow> string" where
  "stagingUser P i = ''u_'' @ drop 4 (stagingDB P i)"

definition mark_running_step :: "env \<Rightarrow> uuid \<Rightarrow> uuid \<Rightarrow> ('p, 'z) migrating_scheme op_step" where
  "mark_running_step e org i =
     \<lparr>os_name = ''mark-running'',
      os_run = Some (\<lambda>poll rs w. done_step rs (set_migration (fault e 1) (db_now e) i ''transferring'' ''transfer'' []
        ((opened org i w)\<lparr>mg_info := no_info, mg_rewrites := 0, mg_old_url := []\<rparr>))),
      os_undo = Some (\<lambda>poll rs w. done_step rs (set_migration (fault e 2) (db_now e) i ''failed'' []
        ''migration run failed and was rolled back; the live site was not touched'' w))\<rparr>"

definition stage_write :: "'p infra \<Rightarrow> string \<Rightarrow> string \<Rightarrow> ('p, 'z) hosting_scheme \<Rightarrow> string option \<times> ('p, 'z) hosting_scheme" where
  "stage_write P p b w = (case ask_infra P (FsWriteFile p b) w of (t, _, w1) \<Rightarrow> (t, w1))"

definition pull_source ::
  "migrator \<Rightarrow> 'p infra \<Rightarrow> uuid \<Rightarrow> uuid \<Rightarrow> migration_row \<Rightarrow> ('p, 'z) hosting_scheme \<Rightarrow> (string + source_info) \<times> ('p, 'z) hosting_scheme" where
  "pull_source M P org i m w =
     (if mg_kind m \<notin> set (mi_connectors M) then (Inl (''no connector for '' @ CHR 0x22 # mg_kind m @ [CHR 0x22]), w)
      else case ask_infra P (ConnPull (mg_kind m) i (stagePath P org i)) (with_credentials P org i w) of
        (Some t, _, w1) \<Rightarrow> (Inl t, w1)
      | (None, _, w1) \<Rightarrow>
          (case ask_infra P (ConnDiscover (mg_kind m) i) (with_credentials P org i w1) of
             (Some t, _, w2) \<Rightarrow> (Inl t, w2)
           | (None, r, w2) \<Rightarrow> (Inr (mi_info M r), w2)))"

definition transfer_source ::
  "migrator \<Rightarrow> 'p infra \<Rightarrow> uuid \<Rightarrow> uuid \<Rightarrow> migration_row \<Rightarrow> ('p, 'z) hosting_scheme \<Rightarrow> (string + source_info) \<times> ('p, 'z) hosting_scheme" where
  "transfer_source M P org i m w =
     (if archive_kind (mg_kind m) then
        (case ask_infra P (FsReadFile (archivePath P org i)) w of
           (Some t, _, w1) \<Rightarrow> (Inl t, w1)
         | (None, r, w1) \<Rightarrow>
             (case extractArchive (mi_unzip M) (stage_write P) (mi_ctx M) (rp_text r) (stagePath P org i) w1 of
                (Inl x, w2) \<Rightarrow> (Inl (archive_text (mi_quote M) x), w2)
              | (Inr info, w2) \<Rightarrow> (Inr info, w2)))
      else pull_source M P org i m w)"

definition transfer_step :: "migrator \<Rightarrow> 'p infra \<Rightarrow> env \<Rightarrow> uuid \<Rightarrow> uuid \<Rightarrow> ('p, 'z) migrating_scheme op_step" where
  "transfer_step M P e org i =
     \<lparr>os_name = ''transfer-files'',
      os_run = Some (\<lambda>poll rs w.
        (case transfer_source M P org i (current w) w of
           (Inl t, w1) \<Rightarrow> fail_step t rs w1
         | (Inr info, w1) \<Rightarrow>
             done_step rs (set_migration (fault e 3) (db_now e) i ''importing'' ''database'' [] (w1\<lparr>mg_info := info\<rparr>)))),
      os_undo = Some (\<lambda>poll. just_call P (FsRemove (stagePath P org i)))\<rparr>"

definition staging_database_step :: "'p infra \<Rightarrow> env \<Rightarrow> uuid \<Rightarrow> ('p, 'z) migrating_scheme op_step" where
  "staging_database_step P e i =
     \<lparr>os_name = ''create-staging-database'',
      os_run = Some (\<lambda>poll. with_call P (DbEnsure (stagingDB P i) (stagingUser P i) (coalesce (in_random P) []))
        (\<lambda>_ rs w. (case write_migration (fault e 4) i (\<lambda>m. m\<lparr>mg_staging := Some (stagingDB P i)\<rparr>) w of
           None \<Rightarrow> fail_step ''database error'' rs w | Some w1 \<Rightarrow> done_step rs w1))),
      os_undo = Some (\<lambda>poll. just_call P (DbDrop (stagingDB P i) (stagingUser P i)))\<rparr>"

definition flipScheme :: "string \<Rightarrow> string" where
  "flipScheme u =
     (if has_prefix ''http://'' u then ''https://'' @ trim_prefix ''http://'' u
      else if has_prefix ''https://'' u then ''http://'' @ trim_prefix ''https://'' u
      else [])"

text \<open>
  The dump with the address and its other scheme rewritten, and how many values the first pass changed;
  \<open>None\<close> is a panic of the rewriter.
\<close>

definition rewrite_staged :: "string \<Rightarrow> string \<Rightarrow> string \<Rightarrow> (string \<times> nat) option" where
  "rewrite_staged old new dump =
     (if old = [] \<or> old = new then Some (dump, 0)
      else case RewriteURLs dump old new of
        None \<Rightarrow> None
      | Some (t, n) \<Rightarrow>
          if flipScheme old = [] then Some (t, n)
          else map_option (\<lambda>(t', _). (t', n)) (RewriteURLs t (flipScheme old) new))"

definition import_step :: "'p infra \<Rightarrow> env \<Rightarrow> uuid \<Rightarrow> uuid \<Rightarrow> ('p, 'z) migrating_scheme op_step" where
  "import_step P e org i =
     \<lparr>os_name = ''import-database'',
      os_run = Some (\<lambda>poll rs w.
        (case ask_infra P (FsReadFile (stagePath P org i @ ''/database.sql'')) w of
           (Some t, _, w1) \<Rightarrow> fail_step (''no database dump in the staged source: '' @ t) rs w1
         | (None, r, w1) \<Rightarrow>
        (let old = trim_right_char (CHR ''/'') (firstNonEmpty [coalesce (mg_url (current w1)) [], SiteURL (mg_info w1)])
         in case rewrite_staged old (''https://'' @ mg_domain (current w1)) (rp_text r) of
              None \<Rightarrow> (StepPanic ''runtime error: slice bounds out of range'', rs, w1\<lparr>mg_old_url := old\<rparr>)
            | Some (text, n) \<Rightarrow>
                just_call P (DbLoad (stagingDB P i) text) rs
                  (set_migration (fault e 5) (db_now e) i ''importing'' ''url_rewrite'' [] (w1\<lparr>mg_old_url := old, mg_rewrites := n\<rparr>))))),
      os_undo = None\<rparr>"

text \<open>The checks that can block, those that only score, and the caps.\<close>

definition required_checks :: "source_info \<Rightarrow> string \<Rightarrow> report \<times> int" where
  "required_checks info dump =
     (let (r1, s1) = (if Files info > 0
            then (report_add ''files'' ''Files transferred'' ''PASS'' (sprint_d (Files info) @ '' files'') no_report, 30)
            else (report_add ''files'' ''Files transferred'' ''BLOCKER'' ''no files were transferred'' no_report, 0 :: int))
      in if dump \<noteq> []
         then (report_add ''database'' ''Database imported'' ''PASS'' (sprint_d (int (length dump)) @ '' bytes'') r1, s1 + 25)
         else (report_add ''database'' ''Database imported'' ''BLOCKER'' ''database is empty'' r1, s1))"

definition url_check :: "string \<Rightarrow> string \<Rightarrow> nat \<Rightarrow> report \<times> int \<Rightarrow> report \<times> int" where
  "url_check dump oldURL rewrites = (\<lambda>(r, s).
     (let urls = ''No references to the old URL remain''
      in if oldURL = [] then (report_add ''urls'' urls ''WARNING'' ''original URL unknown; nothing was rewritten'' r, s + 5)
         else if CountOccurrences dump oldURL = 0
         then (report_add ''urls'' urls ''PASS'' (sprint_d (int rewrites) @ '' values rewritten'') r, s + 20)
         else (report_add ''urls'' urls ''WARNING''
             (sprint_d (int (CountOccurrences dump oldURL)) @ '' references remain (e.g. inside uncommon contexts)'') r, s + 8)))"

definition content_checks :: "source_info \<Rightarrow> report \<times> int \<Rightarrow> report \<times> int" where
  "content_checks info = (\<lambda>(r, s).
     (let (r1, s1) = (if IsWordPress info
            then (report_add ''wordpress'' ''WordPress core present'' ''PASS'' [] r, s + 10) else (r, s))
      in if Plugins info \<noteq> [] \<or> Themes info \<noteq> []
         then (report_add ''content'' ''Plugins/themes present'' ''PASS''
             (sprint_d (int (length (Plugins info))) @ '' plugins, '' @ sprint_d (int (length (Themes info))) @ '' themes'') r1, s1 + 10)
         else (report_add ''content'' ''Plugins/themes present'' ''WARNING'' ''no plugins or themes found'' r1, s1 + 5)))"

definition target_url_check :: "string \<Rightarrow> string \<Rightarrow> report \<times> int \<Rightarrow> report \<times> int" where
  "target_url_check dump newURL = (\<lambda>(r, s).
     if contains_text newURL dump
     then (report_add ''target_url'' ''Database references the new URL'' ''PASS'' [] r, s + 5)
     else (report_add ''target_url'' ''Database references the new URL'' ''WARNING''
         ''the new URL does not appear in the database'' r, s))"

definition scoreMigration :: "source_info \<Rightarrow> string \<Rightarrow> string \<Rightarrow> string \<Rightarrow> nat \<Rightarrow> report \<times> int" where
  "scoreMigration info dump oldURL newURL rewrites =
     (let (r, s) = target_url_check dump newURL (content_checks info (url_check dump oldURL rewrites (required_checks info dump)));
          s' = (if s > 100 then 100 else s)
      in (r, if Blockers r > 0 \<and> s' > 40 then 40 else s'))"

definition validate_step :: "'p infra \<Rightarrow> env \<Rightarrow> uuid \<Rightarrow> ('p, 'z) migrating_scheme op_step" where
  "validate_step P e i =
     \<lparr>os_name = ''validate'',
      os_run = Some (\<lambda>poll rs w0.
        (case ask_infra P (DbDump (stagingDB P i)) (set_migration (fault e 6) (db_now e) i ''validating'' ''validation'' [] w0) of
           (Some t, _, w) \<Rightarrow> fail_step t rs w
         | (None, r, w) \<Rightarrow>
        (case scoreMigration (mg_info w) (rp_text r) (mg_old_url w) (''https://'' @ mg_domain (current w)) (mg_rewrites w) of
           (rep, score) \<Rightarrow>
             (case write_migration (fault e 7) i (\<lambda>m. m\<lparr>mg_validation := Some rep, mg_score := Some score, mg_updated := db_now e\<rparr>) w of
                None \<Rightarrow> fail_step ''database error'' rs w
              | Some w1 \<Rightarrow>
                  if Blockers rep > 0 then fail_step ''validation found blocking problems; staging was discarded'' rs w1
                  else done_step rs w1)))),
      os_undo = None\<rparr>"

definition ready_step :: "env \<Rightarrow> uuid \<Rightarrow> ('p, 'z) migrating_scheme op_step" where
  "ready_step e i =
     \<lparr>os_name = ''ready'',
      os_run = Some (\<lambda>poll rs w. done_step rs (set_migration (fault e 8) (db_now e) i ''ready_for_cutover'' ''validation'' [] w)),
      os_undo = None\<rparr>"

definition migration_run_steps :: "migrator \<Rightarrow> 'p infra \<Rightarrow> env \<Rightarrow> uuid \<Rightarrow> uuid \<Rightarrow> ('p, 'z) migrating_scheme op_step list" where
  "migration_run_steps M P e org i =
     [mark_running_step e org i, transfer_step M P e org i, staging_database_step P e i, import_step P e org i,
      validate_step P e i, ready_step e i]"

section \<open>Copying a directory\<close>

text \<open>
  \<open>copyDir\<close> descends as deep as the listings go; \<open>mi_depth\<close> bounds the nesting, and \<open>CopyTooDeep\<close> is what is
  left open beyond it.
\<close>

fun copy_entries ::
  "'p infra \<Rightarrow> (string \<Rightarrow> string \<Rightarrow> ('p, 'z) hosting_scheme \<Rightarrow> copy_end \<times> ('p, 'z) hosting_scheme) \<Rightarrow> string \<Rightarrow> string
     \<Rightarrow> (string \<times> bool) list \<Rightarrow> ('p, 'z) hosting_scheme \<Rightarrow> copy_end \<times> ('p, 'z) hosting_scheme" where
  "copy_entries P down src dst [] w = (CopyDone, w)"
| "copy_entries P down src dst ((p, dir) # es) w =
     (if dir then
        (case down p (join_path dst (relative_to src p)) w of
           (CopyDone, w1) \<Rightarrow> copy_entries P down src dst es w1
         | (x, w1) \<Rightarrow> (x, w1))
      else case ask_infra P (FsReadFile p) w of
          (Some t, _, w1) \<Rightarrow> (CopyFailed t, w1)
        | (None, r, w1) \<Rightarrow>
            (case ask_infra P (FsWriteFile (join_path dst (relative_to src p)) (rp_text r)) w1 of
               (Some t, _, w2) \<Rightarrow> (CopyFailed t, w2)
             | (None, _, w2) \<Rightarrow> copy_entries P down src dst es w2))"

fun copyDir :: "'p infra \<Rightarrow> nat \<Rightarrow> string \<Rightarrow> string \<Rightarrow> ('p, 'z) hosting_scheme \<Rightarrow> copy_end \<times> ('p, 'z) hosting_scheme" where
  "copyDir P 0 src dst w = (CopyTooDeep, w)"
| "copyDir P (Suc n) src dst w =
     (case ask_infra P (FsList src) w of
        (Some t, _, w1) \<Rightarrow> (CopyFailed t, w1)
      | (None, r, w1) \<Rightarrow> copy_entries P (copyDir P n) src dst (rp_files r) w1)"

section \<open>The cutover\<close>

text \<open>
  Statements: 0 loads the migration, 1 and 2 its project and database, 3 marks it and 4 undoes that, 5 to 9
  are the snapshot's, 10 records it, 11 and 12 put it back, 13 to 15 are those of the project's update, 16
  completes the migration.
\<close>

definition cutover_validate :: "migrator \<Rightarrow> env \<Rightarrow> uuid \<Rightarrow> uuid \<Rightarrow> ('p, 'z) migrating_scheme \<Rightarrow> exec_error option" where
  "cutover_validate M e org i w =
     (case load_migration (fault e 0) org i w of Inl x \<Rightarrow> Some (ApiFailure x)
      | Inr m \<Rightarrow>
          if mg_status m \<noteq> ''ready_for_cutover''
          then Some (ApiFailure (Conflict (''migration is '' @ mg_status m @ ''; only a migration that is ready_for_cutover can be cut over'')))
          else if mg_project m = None then Some (ApiFailure (Validation ''no target project''))
          else if (case mg_score m of None \<Rightarrow> False | Some s \<Rightarrow> s < 50)
          then Some (ApiFailure (Conflict (''health score '' @ sprint_d (coalesce (mg_score m) 0) @
                 '' is below the 50 threshold; fix the issues before cutover'')))
          else if \<not> mi_backups M then Some (ApiFailure (Validation ''backup service is required for a safe cutover''))
          else None)"

definition target_project :: "('p, 'z) migrating_scheme \<Rightarrow> uuid" where
  "target_project w = coalesce (mg_project (current w)) uuid_nil"

definition live_row :: "('p, 'z) migrating_scheme \<Rightarrow> uuid" where
  "live_row w = (case mg_live w of None \<Rightarrow> uuid_nil | Some p \<Rightarrow> pj_id p)"

definition live_slug :: "('p, 'z) migrating_scheme \<Rightarrow> string" where
  "live_slug w = (case mg_live w of None \<Rightarrow> [] | Some p \<Rightarrow> pj_slug p)"

definition begin_cutover_step :: "env \<Rightarrow> uuid \<Rightarrow> uuid \<Rightarrow> ('p, 'z) migrating_scheme op_step" where
  "begin_cutover_step e org i =
     \<lparr>os_name = ''begin'',
      os_run = Some (\<lambda>poll rs w0.
        (let w = (opened org i w0)\<lparr>mg_backup := None, mg_live := None, mg_target := []\<rparr>
         in case get_project (fault e 1) (System_ctx org) (target_project w) w of
              Inl x \<Rightarrow> fail_step (api_text x) rs w
            | Inr v \<Rightarrow>
           (let w1 = w\<lparr>mg_live := Some (pv_row v)\<rparr>
            in case (if fault e 2 then None else project_db org (pj_id (pv_row v)) w1) of
                 None \<Rightarrow> fail_step ''target project has no ready database'' rs w1
               | Some n \<Rightarrow> done_step rs (set_migration (fault e 3) (db_now e) i ''cutting_over'' ''cutover'' [] (w1\<lparr>mg_target := n\<rparr>))))),
      os_undo = Some (\<lambda>poll rs w. done_step rs (set_migration (fault e 4) (db_now e) i ''ready_for_cutover'' ''validation''
        ''cutover failed and was rolled back; the previous site is restored'' w))\<rparr>"

definition safety_backup_step :: "'p infra \<Rightarrow> env \<Rightarrow> uuid \<Rightarrow> uuid \<Rightarrow> ('p, 'z) migrating_scheme op_step" where
  "safety_backup_step P e org i =
     \<lparr>os_name = ''safety-backup'',
      os_run = Some (\<lambda>poll rs w.
        (case SnapshotNow P e 5 org (live_row w) ''full'' 30 w of
           (Inl t, w1) \<Rightarrow> fail_step (''cannot cut over without a verified safety backup: '' @ t) rs w1
         | (Inr s, w1) \<Rightarrow>
             (case write_migration (fault e 10) i (\<lambda>m. m\<lparr>mg_safety := Some s\<rparr>) (w1\<lparr>mg_backup := Some s\<rparr>) of
                None \<Rightarrow> fail_step ''database error'' rs (w1\<lparr>mg_backup := Some s\<rparr>)
              | Some w2 \<Rightarrow> done_step rs w2))),
      os_undo = None\<rparr>"

text \<open>The closure \<open>restore\<close>.\<close>

definition restore_live ::
  "'p infra \<Rightarrow> env \<Rightarrow> uuid \<Rightarrow> run_state \<Rightarrow> ('p, 'z) migrating_scheme \<Rightarrow> step_end \<times> run_state \<times> ('p, 'z) migrating_scheme" where
  "restore_live P e org rs w =
     (case mg_backup w of
        None \<Rightarrow> done_step rs w
      | Some s \<Rightarrow>
          (case RestoreNow P (fault e 11) (fault e 12) org (target_project w) s w of
             (Some t, w1) \<Rightarrow> fail_step (''ROLLBACK FAILED; recover manually from safety backup '' @ in_uuid_text P s @ '': '' @ t) rs w1
           | (None, w1) \<Rightarrow> done_step rs w1))"

definition swap_files_step :: "migrator \<Rightarrow> 'p infra \<Rightarrow> env \<Rightarrow> uuid \<Rightarrow> uuid \<Rightarrow> ('p, 'z) migrating_scheme op_step" where
  "swap_files_step M P e org i =
     \<lparr>os_name = ''swap-files'',
      os_run = Some (\<lambda>poll rs w.
        (let live = WorkspacePath (live_slug w) @ ''/data''
         in case ask_infra P (FsRemove live) w of
              (Some t, _, w1) \<Rightarrow> fail_step t rs w1
            | (None, _, w1) \<Rightarrow>
                (case copyDir P (mi_depth M) (stagePath P org i @ ''/files'') live w1 of
                   (CopyDone, w2) \<Rightarrow> done_step rs w2
                 | (CopyFailed t, w2) \<Rightarrow> fail_step t rs w2
                 | (CopyTooDeep, w2) \<Rightarrow> fail_step ''directory nesting exceeds the bound'' rs w2))),
      os_undo = Some (\<lambda>poll. restore_live P e org)\<rparr>"

definition swap_database_step :: "'p infra \<Rightarrow> uuid \<Rightarrow> ('p, 'z) migrating_scheme op_step" where
  "swap_database_step P i =
     \<lparr>os_name = ''swap-database'',
      os_run = Some (\<lambda>poll. with_call P (DbDump (stagingDB P i)) (\<lambda>r rs w. just_call P (DbLoad (mg_target w) (rp_text r)) rs w)),
      os_undo = None\<rparr>"

definition restart_step :: "'p infra \<Rightarrow> ('p, 'z) migrating_scheme op_step" where
  "restart_step P =
     \<lparr>os_name = ''restart-and-verify'',
      os_run = Some (\<lambda>poll rs w.
        (let name = ContainerName (live_slug w);
             look = with_call P (CtInspect name) (\<lambda>r rs w.
               if rp_flag r \<and> rp_state r \<noteq> ''running''
               then fail_step (''site container is '' @ CHR 0x22 # rp_state r @ CHR 0x22 # '' after cutover'') rs w
               else done_step rs w)
         in if \<not> in_containers P then done_step rs w
            else case hcall P (CtRestart name) w of (r, w1) \<Rightarrow>
              (case rp_err r of Some (OtherError t) \<Rightarrow> fail_step t rs w1 | _ \<Rightarrow> look rs w1))),
      os_undo = None\<rparr>"

definition shifted :: "nat \<Rightarrow> env \<Rightarrow> env" where
  "shifted k e = e\<lparr>fault := (\<lambda>n. fault e (n + k))\<rparr>"

definition finish_cutover_step :: "'p infra \<Rightarrow> env \<Rightarrow> uuid \<Rightarrow> uuid \<Rightarrow> ('p, 'z) migrating_scheme op_step" where
  "finish_cutover_step P e org i =
     \<lparr>os_name = ''finalize'',
      os_run = Some (\<lambda>poll rs w.
        (let cfg = put_member ''primary_domain'' (JStr (mg_domain (current w))) (case mg_live w of None \<Rightarrow> [] | Some p \<Rightarrow> pj_config p)
         in case update_project (shifted 13 e) (System_ctx org) (live_row w)
                \<lparr>ui_name = None, ui_description = None, ui_client = None, ui_config = Some cfg\<rparr> w of
              (Inl x, w1) \<Rightarrow> fail_step (api_text x) rs w1
            | (Inr _, w1) \<Rightarrow>
           (let w2 = set_migration (fault e 16) (db_now e) i ''completed'' ''complete'' [] w1;
                w3 = snd (hcall P (DbDrop (stagingDB P i) (stagingUser P i)) w2);
                w4 = snd (hcall P (FsRemove (stagePath P org i)) w3)
            in done_step (rs\<lparr>rs_result := Some (JObj [(''safety_backup_id'', uuid_json P (mg_backup w4)), (''domain'', JStr (mg_domain (current w4)))])\<rparr>) w4))),
      os_undo = None\<rparr>"

definition cutover_steps :: "migrator \<Rightarrow> 'p infra \<Rightarrow> env \<Rightarrow> uuid \<Rightarrow> uuid \<Rightarrow> ('p, 'z) migrating_scheme op_step list" where
  "cutover_steps M P e org i =
     [begin_cutover_step e org i, safety_backup_step P e org i, swap_files_step M P e org i, swap_database_step P i,
      restart_step P, finish_cutover_step P e org i]"

section \<open>The rollback of a completed migration\<close>

text \<open>Statements: 0 loads the migration, 1 and 2 restore, 3 records it.\<close>

definition rollback_validate :: "env \<Rightarrow> uuid \<Rightarrow> uuid \<Rightarrow> ('p, 'z) migrating_scheme \<Rightarrow> exec_error option" where
  "rollback_validate e org i w =
     (case load_migration (fault e 0) org i w of Inl x \<Rightarrow> Some (ApiFailure x)
      | Inr m \<Rightarrow>
          if mg_status m \<noteq> ''completed'' then Some (ApiFailure (Conflict ''only a completed migration can be rolled back''))
          else if mg_safety m = None \<or> mg_project m = None
          then Some (ApiFailure (Conflict ''this migration has no safety backup to restore''))
          else None)"

definition rollback_step :: "'p infra \<Rightarrow> env \<Rightarrow> uuid \<Rightarrow> uuid \<Rightarrow> ('p, 'z) migrating_scheme op_step" where
  "rollback_step P e org i =
     \<lparr>os_name = ''restore-safety-backup'',
      os_run = Some (\<lambda>poll rs w0.
        (let w = opened org i w0
         in case RestoreNow P (fault e 1) (fault e 2) org (target_project w) (coalesce (mg_safety (current w)) uuid_nil) w of
              (Some t, w1) \<Rightarrow> fail_step t rs w1
            | (None, w1) \<Rightarrow> done_step rs (set_migration (fault e 3) (db_now e) i ''rolled_back'' ''cutover'' [] w1))),
      os_undo = None\<rparr>"

section \<open>Registration\<close>

definition migration_target :: "'p infra \<Rightarrow> json \<Rightarrow> uuid" where
  "migration_target P payload =
     (let named = snd (payload_resource (in_parse_uuid P) payload)
      in if named \<noteq> uuid_nil then named
         else decode_id_member ''migration_id'' (in_parse_uuid P) (obj_fields payload) uuid_nil)"

definition migration_definition ::
  "string \<Rightarrow> string \<Rightarrow> string \<Rightarrow> string \<Rightarrow> int \<Rightarrow> 'p infra \<Rightarrow> (uuid \<Rightarrow> uuid \<Rightarrow> ('p, 'z) migrating_scheme operation)
     \<Rightarrow> ('p, 'z) migrating_scheme op_definition" where
  "migration_definition name perm tool kind timeout P mk =
     \<lparr>df_name = name, df_permission = perm, df_tool_key = tool, df_notify_kind = kind, df_timeout_seconds = timeout,
      df_flag = ''migration_engine'', df_factory = (\<lambda>org project payload. Inr (mk org (migration_target P payload)))\<rparr>"

definition plan_definition :: "migrator \<Rightarrow> 'p infra \<Rightarrow> env \<Rightarrow> ('p, 'z) migrating_scheme op_definition" where
  "plan_definition M P e = migration_definition ''migration.plan'' ''migrations.create'' [] ''migration.planned'' 600 P
     (\<lambda>org i. \<lparr>op_validate = plan_validate e org i, op_body = StepperOp [discovery_step M P e org i, preflight_step M P e i]\<rparr>)"

definition run_definition :: "migrator \<Rightarrow> 'p infra \<Rightarrow> env \<Rightarrow> ('p, 'z) migrating_scheme op_definition" where
  "run_definition M P e = migration_definition ''migration.run'' ''migrations.create'' [] ''migration.ready'' 3600 P
     (\<lambda>org i. \<lparr>op_validate = run_validate P e org i, op_body = StepperOp (migration_run_steps M P e org i)\<rparr>)"

definition cutover_definition :: "migrator \<Rightarrow> 'p infra \<Rightarrow> env \<Rightarrow> ('p, 'z) migrating_scheme op_definition" where
  "cutover_definition M P e = migration_definition ''migration.cutover'' ''migrations.cutover'' ''migration.cutover'' ''migration.completed'' 3600 P
     (\<lambda>org i. \<lparr>op_validate = cutover_validate M e org i, op_body = StepperOp (cutover_steps M P e org i)\<rparr>)"

definition rollback_definition :: "'p infra \<Rightarrow> env \<Rightarrow> ('p, 'z) migrating_scheme op_definition" where
  "rollback_definition P e = migration_definition ''migration.rollback'' ''migrations.cutover'' [] ''migration.rolled_back'' 3600 P
     (\<lambda>org i. \<lparr>op_validate = rollback_validate e org i, op_body = StepperOp [rollback_step P e org i]\<rparr>)"

end
