(* ===== verification/Migration_Safety.thy ===== *)
theory Migration_Safety
  imports Site_Migration Backup_Safety
begin

text \<open>
  internal/sitemig/sitemig.go, what its operations guarantee: the reports, the live site before the cutover,
  and the safety backup of the cutover.
\<close>

section \<open>Reports\<close>

lemma report_add_sel [simp]:
  "Blockers (report_add i t st d r) = Blockers r + (if st = ''BLOCKER'' then 1 else 0)"
  "CanProceed (report_add i t st d r) \<longleftrightarrow> Blockers (report_add i t st d r) = 0"
  by (simp_all add: report_add_def Let_def)

text \<open>A check that cannot block adds between \<open>lo\<close> and \<open>hi\<close> to the score.\<close>

definition adds_score :: "int \<Rightarrow> int \<Rightarrow> report \<times> int \<Rightarrow> report \<times> int \<Rightarrow> bool" where
  "adds_score lo hi x y \<longleftrightarrow> Blockers (fst y) = Blockers (fst x) \<and> snd x + lo \<le> snd y \<and> snd y \<le> snd x + hi"

lemma optional_checks:
  "adds_score 5 20 x (url_check dump old n x)" "adds_score 5 20 x (content_checks info x)"
  "adds_score 0 5 x (target_url_check dump new x)"
  by (cases x, simp add: adds_score_def url_check_def content_checks_def target_url_check_def Let_def)+

lemma required_checks_facts:
  "Blockers (fst (required_checks info dump)) = (if 0 < Files info then 0 else 1) + (if dump \<noteq> [] then 0 else 1)"
  "snd (required_checks info dump) = (if 0 < Files info then 30 else 0) + (if dump \<noteq> [] then 25 else 0)"
  by (simp_all add: required_checks_def no_report_def)

lemma score_facts:
  "case scoreMigration info dump old new n of (rep, score) \<Rightarrow>
     0 \<le> score \<and> score \<le> 100 \<and> (50 \<le> score \<longleftrightarrow> CanProceed rep) \<and>
     (CanProceed rep \<longleftrightarrow> 0 < Files info \<and> dump \<noteq> []) \<and> (Blockers rep \<le> 0 \<longleftrightarrow> CanProceed rep)"
proof -
  let ?x = "required_checks info dump" and ?y = "url_check dump old n (required_checks info dump)"
  let ?z = "target_url_check dump new (content_checks info ?y)"
  have c: "CanProceed (fst ?z) \<longleftrightarrow> Blockers (fst ?z) = 0" by (simp add: target_url_check_def case_prod_beta)
  have "adds_score 10 45 ?x ?z"
    using optional_checks(1) [of ?x dump old n] optional_checks(2) [of ?y info] optional_checks(3) [of "content_checks info ?y" dump new]
    by (simp add: adds_score_def)
  then show ?thesis using c required_checks_facts [of info dump]
    by (auto simp: scoreMigration_def Let_def case_prod_beta adds_score_def split: if_splits)
qed

text \<open>
  The health score of a migration is between 0 and 100, which the table's CHECK demands, and it reaches
  the threshold of the cutover exactly when the validation found no blocker, that is when files were
  transferred and the database is not empty.
\<close>

theorem health_score_bounds:
  "case scoreMigration info dump old new n of (rep, score) \<Rightarrow>
     0 \<le> score \<and> score \<le> 100 \<and> (50 \<le> score \<longleftrightarrow> CanProceed rep) \<and> (CanProceed rep \<longleftrightarrow> 0 < Files info \<and> dump \<noteq> [])"
  using score_facts [of info dump old new n] by (simp add: case_prod_beta)

section \<open>The preflight\<close>

definition acceptable_source :: "source_info \<Rightarrow> bool" where
  "acceptable_source i \<longleftrightarrow> IsWordPress i \<and> \<not> Multisite i \<and> HasDatabase i"

lemma plugin_checks_blockers [simp]: "Blockers (fold plugin_check ps r) = Blockers r"
  by (induction ps arbitrary: r) (simp_all add: plugin_check_def)

lemma source_checks_blockers:
  "Blockers (source_checks m i r) = Blockers r + (if IsWordPress i then 0 else 1) + (if Multisite i then 1 else 0) + (if HasDatabase i then 0 else 1)"
  by (simp add: source_checks_def Let_def)

definition acceptable_target :: "bool \<Rightarrow> migration_row \<Rightarrow> ('p, 'z) hosting_scheme \<Rightarrow> bool" where
  "acceptable_target failed m w \<longleftrightarrow> (\<exists>d. NormalizeDomain (mg_domain m) = Inr d) \<and> \<not> failed \<and>
     (\<exists>i p. mg_project m = Some i \<and> find (live_project (mg_org m) i) (projects w) = Some p \<and>
        pj_status p = ''active'' \<and> pj_kind p = ''wordpress'')"

lemma get_project_as_System: "get_project failed (System_ctx org) i w =
   (if failed then Inl (internal ''failed to load project'')
    else case find (live_project org i) (projects w) of None \<Rightarrow> Inl (NotFound ''project'') | Some p \<Rightarrow> Inr (scan_project w p))"
proof -
  have "org_id (System_ctx org) = org" by (simp add: System_ctx_def)
  moreover have "Require (System_ctx org) ''projects.read'' = None" by simp
  ultimately show ?thesis by (simp only: get_project_def load_project_def option.case)
qed

lemma target_checks_blockers:
  assumes "0 \<le> Blockers r"
  shows "0 \<le> Blockers (target_checks M P failed m w r)"
    "Blockers (target_checks M P failed m w r) = 0 \<longleftrightarrow>
     Blockers r = 0 \<and> acceptable_target failed m w \<and> in_fs P \<and> in_db P \<and> mi_backups M"
    "CanProceed (target_checks M P failed m w r) \<longleftrightarrow> Blockers (target_checks M P failed m w r) = 0"
  using assms
  by (auto simp: target_checks_def Let_def acceptable_target_def get_project_as_System scan_project_def
      split: sum.split option.split)

text \<open>
  The preflight lets a migration proceed exactly when the source could be read and is a single
  WordPress installation with a database dump, the target domain is valid, the target project is an active
  WordPress project of the same organization, and the deployment has a file system, databases and backups.
\<close>

theorem preflight_passes_iff:
  "CanProceed (preflight M P failed m i derr w) \<longleftrightarrow>
     derr = None \<and> acceptable_source i \<and> acceptable_target failed m w \<and> in_fs P \<and> in_db P \<and> mi_backups M"
proof -
  have n: "Blockers no_report = 0" by (simp add: no_report_def)
  have "0 \<le> Blockers (source_checks m i (report_add a b ''PASS'' c no_report))" for a b c
    by (simp add: source_checks_blockers n)
  moreover have "0 \<le> Blockers (report_add a b st c no_report)" for a b c st by (simp add: n)
  ultimately show ?thesis
    by (cases derr) (auto simp: preflight_def target_checks_blockers source_checks_blockers n acceptable_source_def)
qed

section \<open>What the calls of the helpers keep\<close>

text \<open>
  A property that a class of provider calls keeps is kept by every helper that makes only such calls.
\<close>

locale call_frame =
  fixes P :: "'p infra" and allowed :: "pcall \<Rightarrow> bool" and J :: "('p, 'z) hosting_scheme \<Rightarrow> bool"
  assumes logged: "J w \<Longrightarrow> allowed c \<Longrightarrow> J (logged_call c r p w)"
begin

lemma call: "J w \<Longrightarrow> allowed c \<Longrightarrow> J (asked P c w)"
  by (simp add: asked_def logged)

lemma credentials: "J w \<Longrightarrow> allowed (SecretReveal org (credentials_key P i)) \<Longrightarrow> J (with_credentials P org i w)"
  by (simp add: with_credentials_def hcall_asked call)

lemma discovers:
  assumes "J w" and "archive_kind (mg_kind m) \<Longrightarrow> allowed (FsReadFile (archivePath P (mg_org m) (mg_id m)))"
    and "allowed (SecretReveal (mg_org m) (credentials_key P (mg_id m)))" and "allowed (ConnDiscover (mg_kind m) (mg_id m))"
  shows "J (snd (snd (discover M P m w)))"
  using assms by (auto simp: discover_def ask_infra_asked intro!: call credentials split: option.split sum.split)

lemma stage_writes: "J w \<Longrightarrow> allowed (FsWriteFile p b) \<Longrightarrow> J (snd (stage_write P p b w))"
  by (simp add: stage_write_def ask_infra_asked call)

lemma transfers:
  assumes "J w" and "stagePath P org i \<noteq> []" and "allowed (FsReadFile (archivePath P org i))"
    and "\<And>p b. below (stagePath P org i) p \<Longrightarrow> allowed (FsWriteFile p b)"
    and "allowed (SecretReveal org (credentials_key P i))" and "\<And>k. allowed (ConnDiscover k i)"
    and "\<And>k. allowed (ConnPull k i (stagePath P org i))"
  shows "J (snd (transfer_source M P org i m w))"
proof -
  have "J (snd (extractArchive un (stage_write P) ctx data (stagePath P org i) w))" if "J w" for un ctx data w
    by (rule extraction_keeps [where J = J, OF assms(2) that]) (simp add: stage_writes assms(4))
  then have x: "extractArchive un (stage_write P) ctx data (stagePath P org i) w = (r, w') \<Longrightarrow> J w \<Longrightarrow> J w'" for un ctx data w r w'
    by (metis snd_conv)
  show ?thesis
    using assms by (auto simp: transfer_source_def pull_source_def ask_infra_asked intro!: call credentials split: option.split prod.split sum.split
        dest!: x)
qed

lemma copies_entries:
  assumes "\<And>p. allowed (FsReadFile p)" and "\<And>p b. allowed (FsWriteFile p b)" and down: "\<And>s t w. J w \<Longrightarrow> J (snd (down s t w))"
  shows "J w \<Longrightarrow> J (snd (copy_entries P down src dst es w))"
proof (induction es arbitrary: w)
  case (Cons e es)
  obtain p dir where e: "e = (p, dir)" by (cases e)
  show ?case
  proof (cases dir)
    case True
    obtain x w1 where d: "down p (join_path dst (relative_to src p)) w = (x, w1)" by fastforce
    then have "J w1" using down [OF Cons.prems, of p "join_path dst (relative_to src p)"] by simp
    then show ?thesis using Cons.IH e True d by (simp split: copy_end.split)
  next
    case False
    then show ?thesis using Cons by (simp add: e ask_infra_asked call assms split: option.split)
  qed
qed simp

lemma copies:
  assumes "\<And>p. allowed (FsList p)" and "\<And>p. allowed (FsReadFile p)" and "\<And>p b. allowed (FsWriteFile p b)"
  shows "J w \<Longrightarrow> J (snd (copyDir P n src dst w))"
proof (induction n arbitrary: src dst w)
  case (Suc n)
  then show ?case using copies_entries [OF assms(2,3), of "copyDir P n"] assms(1) by (simp add: ask_infra_asked call split: option.split)
qed simp

lemma with_calls [ends]:
  assumes "J w" "allowed c" "\<And>r w. J w \<Longrightarrow> ends (k r rs w) (\<lambda>_. J) (\<lambda>_. J)"
  shows "ends (with_call P c k rs w) (\<lambda>_. J) (\<lambda>_. J)"
  by (rule ends_with_call) (simp_all add: assms logged)

lemma just_calls: "J w \<Longrightarrow> allowed c \<Longrightarrow> ends (just_call P c rs w) (\<lambda>_. J) (\<lambda>_. J)"
  by (rule ends_just_call) (simp_all add: logged)

end

text \<open>The same with the helpers of the backups.\<close>

locale hosted_call_frame = call_frame P allowed J
  for P :: "'p infra" and allowed :: "pcall \<Rightarrow> bool" and J :: "('p, 'z) hosted_scheme \<Rightarrow> bool"
begin

lemma restores:
  assumes "\<And>ref db. allowed (BkRestore ref db)" and "J w"
  shows "J (snd (restore_artifact P f1 f2 org i b w))" "J (snd (RestoreNow P f1 f2 org i b w))"
  using assms by (auto simp: restore_artifact_def RestoreNow_def ask_infra_asked Let_def call split: option.split)

end

section \<open>Before the cutover\<close>

text \<open>The calls a plan and a run may make for the migration \<open>i\<close>.\<close>

definition staging_call :: "'p infra \<Rightarrow> uuid \<Rightarrow> uuid \<Rightarrow> pcall \<Rightarrow> bool" where
  "staging_call P org i c \<longleftrightarrow>
     (case c of
        FsReadFile p \<Rightarrow> p = archivePath P org i \<or> p = stagePath P org i @ ''/database.sql''
      | FsWriteFile p b \<Rightarrow> below (stagePath P org i) p
      | FsRemove p \<Rightarrow> p = stagePath P org i
      | DbEnsure n u pw \<Rightarrow> n = stagingDB P i \<and> u = stagingUser P i
      | DbDrop n u \<Rightarrow> n = stagingDB P i \<and> u = stagingUser P i
      | DbDump n \<Rightarrow> n = stagingDB P i
      | DbLoad n t \<Rightarrow> n = stagingDB P i
      | ConnPull k j dest \<Rightarrow> j = i \<and> dest = stagePath P org i
      | ConnDiscover k j \<Rightarrow> True
      | SecretReveal o' k \<Rightarrow> True
      | _ \<Rightarrow> False)"

lemma staging_call_simps [simp]:
  "staging_call P org i (FsReadFile p) \<longleftrightarrow> p = archivePath P org i \<or> p = stagePath P org i @ ''/database.sql''"
  "staging_call P org i (FsWriteFile p b) \<longleftrightarrow> below (stagePath P org i) p"
  "staging_call P org i (FsRemove p) \<longleftrightarrow> p = stagePath P org i"
  "staging_call P org i (DbEnsure n u pw) \<longleftrightarrow> n = stagingDB P i \<and> u = stagingUser P i"
  "staging_call P org i (DbDrop n u) \<longleftrightarrow> n = stagingDB P i \<and> u = stagingUser P i"
  "staging_call P org i (DbDump n) \<longleftrightarrow> n = stagingDB P i" "staging_call P org i (DbLoad n t) \<longleftrightarrow> n = stagingDB P i"
  "staging_call P org i (ConnPull k j dest) \<longleftrightarrow> j = i \<and> dest = stagePath P org i"
  "staging_call P org i (ConnDiscover k j)" "staging_call P org i (SecretReveal o' k)"
  by (simp_all add: staging_call_def)

text \<open>What a plan or a run leaves of the world \<open>w0\<close> it started from.\<close>

definition staged_only :: "'p infra \<Rightarrow> uuid \<Rightarrow> uuid \<Rightarrow> ('p, 'z) migrating_scheme \<Rightarrow> ('p, 'z) migrating_scheme \<Rightarrow> bool" where
  "staged_only P org i w0 w \<longleftrightarrow>
     (\<exists>new. h_calls w = h_calls w0 @ new \<and> list_all (\<lambda>x. staging_call P org i (fst x)) new) \<and>
     projects w = projects w0 \<and> project_dbs w = project_dbs w0 \<and> apps w = apps w0 \<and> backups w = backups w0 \<and> restores w = restores w0 \<and>
     filter (\<lambda>m. mg_id m \<noteq> i) (migrations w) = filter (\<lambda>m. mg_id m \<noteq> i) (migrations w0)"

lemma logged_call_migrating [simp]:
  "migrations (logged_call c r p w) = migrations w" "mg_loaded (logged_call c r p w) = mg_loaded w"
  "mg_info (logged_call c r p w) = mg_info w" "mg_discover (logged_call c r p w) = mg_discover w"
  "mg_rewrites (logged_call c r p w) = mg_rewrites w" "mg_old_url (logged_call c r p w) = mg_old_url w"
  "mg_backup (logged_call c r p w) = mg_backup w" "mg_live (logged_call c r p w) = mg_live w"
  "mg_target (logged_call c r p w) = mg_target w"
  by (simp_all add: logged_call_def)

interpretation staging: call_frame P "staging_call P org i" "staged_only P org i w0"
  for P :: "'p infra" and org i and w0 :: "('p, 'z) migrating_scheme"
  by unfold_locales (auto simp: staged_only_def)

lemma staged_only_refl [simp]: "staged_only P org i w w"
  by (simp add: staged_only_def)

lemma staged_only_frame [simp]:
  "staged_only P org i w0 (w\<lparr>mg_loaded := a\<rparr>) = staged_only P org i w0 w" "staged_only P org i w0 (w\<lparr>mg_info := x\<rparr>) = staged_only P org i w0 w"
  "staged_only P org i w0 (w\<lparr>mg_discover := y\<rparr>) = staged_only P org i w0 w" "staged_only P org i w0 (w\<lparr>mg_rewrites := n\<rparr>) = staged_only P org i w0 w"
  "staged_only P org i w0 (w\<lparr>mg_old_url := u\<rparr>) = staged_only P org i w0 w" "staged_only P org i w0 (opened org i w) = staged_only P org i w0 w"
  "staged_only P org i w0 (w\<lparr>mg_info := x, mg_discover := y\<rparr>) = staged_only P org i w0 w"
  "staged_only P org i w0 (w\<lparr>mg_info := x, mg_rewrites := n, mg_old_url := u\<rparr>) = staged_only P org i w0 w"
  "staged_only P org i w0 (w\<lparr>mg_old_url := u, mg_rewrites := n\<rparr>) = staged_only P org i w0 w"
  by (simp_all add: staged_only_def opened_def)

lemma write_migration_Some:
  "write_migration failed i f w = Some w' \<Longrightarrow> w' = w\<lparr>migrations := update_where (\<lambda>m. mg_id m = i) f (migrations w)\<rparr>"
  by (simp add: write_migration_def Let_def split: if_splits)

lemma staged_only_write:
  assumes "staged_only P org i w0 w" and "\<And>m. mg_id (f m) = mg_id m" and "write_migration failed i f w = Some w'"
  shows "staged_only P org i w0 w'"
proof -
  have "filter (\<lambda>m. mg_id m \<noteq> i) (update_where (\<lambda>m. mg_id m = i) f ms) = filter (\<lambda>m. mg_id m \<noteq> i) ms" for ms
    by (rule filter_update_where_other) (simp_all add: assms(2))
  then show ?thesis using assms(1) unfolding write_migration_Some [OF assms(3)] by (simp add: staged_only_def)
qed

text \<open>\<open>setStatus\<close> either writes the row or does nothing.\<close>

lemma with_status_sel [simp]:
  "mg_id (with_status now st ph er m) = mg_id m" "mg_org (with_status now st ph er m) = mg_org m"
  "mg_status (with_status now st ph er m) = st" "mg_preflight (with_status now st ph er m) = mg_preflight m"
  "mg_validation (with_status now st ph er m) = mg_validation m" "mg_score (with_status now st ph er m) = mg_score m"
  "mg_safety (with_status now st ph er m) = mg_safety m"
  by (simp_all add: with_status_def)

lemma set_migration_cases:
  obtains (same) "set_migration failed now i st ph err w = w"
  | (written) w' where "set_migration failed now i st ph err w = w'"
      "write_migration failed i (with_status now st ph err) w = Some w'"
proof (cases "write_migration failed i (with_status now st ph err) w")
  case None
  then show ?thesis using same unfolding set_migration_def coalesce_def by simp
next
  case (Some w')
  then show ?thesis using written unfolding set_migration_def coalesce_def by simp
qed

lemma staged_only_set: "staged_only P org i w0 w \<Longrightarrow> staged_only P org i w0 (set_migration failed now i st ph err w)"
proof (cases rule: set_migration_cases [of failed now i st ph err w])
  case (written w')
  then show "staged_only P org i w0 w \<Longrightarrow> ?thesis" using staged_only_write [OF _ _ written(2)] by simp
qed simp

lemma plan_steps_staged:
  "step_keeps (\<lambda>_ _. staged_only P org i w0) (\<lambda>_ _. staged_only P org i w0) k (discovery_step M P e org i)"
  "step_keeps (\<lambda>_ _. staged_only P org i w0) (\<lambda>_ _. staged_only P org i w0) k (preflight_step M P e i)"
proof -
  show "step_keeps (\<lambda>_ _. staged_only P org i w0) (\<lambda>_ _. staged_only P org i w0) k (discovery_step M P e org i)"
  proof (rule step_keeps_const)
    show "os_run (discovery_step M P e org i) = Some (the (os_run (discovery_step M P e org i)))" by (simp add: discovery_step_def)
    fix poll rs w assume s: "staged_only P org i w0 w"
    let ?m = "current (opened org i w)"
    have m: "archive_kind (mg_kind ?m) \<Longrightarrow> mg_org ?m = org \<and> mg_id ?m = i"
      by (auto simp: current_def opened_def coalesce_def no_migration_def archive_kind_def split: option.splits dest: find_SomeD)
    have "staged_only P org i w0 (snd (snd (discover M P ?m (opened org i w))))"
      by (rule staging.discovers) (use s m in simp_all)
    then show "ends (the (os_run (discovery_step M P e org i)) poll rs w) (\<lambda>_. staged_only P org i w0) (\<lambda>_. staged_only P org i w0)"
      by (cases "discover M P ?m (opened org i w)") (simp add: discovery_step_def)
  qed (simp add: discovery_step_def)
  show "step_keeps (\<lambda>_ _. staged_only P org i w0) (\<lambda>_ _. staged_only P org i w0) k (preflight_step M P e i)"
  proof (rule step_keeps_const)
    show "os_run (preflight_step M P e i) = Some (the (os_run (preflight_step M P e i)))" by (simp add: preflight_step_def)
    fix poll rs w assume "staged_only P org i w0 w"
    then show "ends (the (os_run (preflight_step M P e i)) poll rs w) (\<lambda>_. staged_only P org i w0) (\<lambda>_. staged_only P org i w0)"
      by (auto simp: preflight_step_def Let_def split: option.split elim: staged_only_write [rotated 2])
  qed (simp add: preflight_step_def)
qed

lemma run_steps_staged:
  assumes "st \<in> set (migration_run_steps M P e org i :: ('p, 'z) migrating_scheme op_step list)"
  shows "step_keeps (\<lambda>_ _. staged_only P org i w0) (\<lambda>_ _. staged_only P org i w0) k st"
proof -
  let ?J = "staged_only P org i w0 :: ('p, 'z) migrating_scheme \<Rightarrow> bool"
  have ne: "stagePath P org i \<noteq> []" by (simp add: stagePath_def)
  have "step_keeps (\<lambda>_ _. ?J) (\<lambda>_ _. ?J) k (mark_running_step e org i)"
    by (rule step_keeps_const) (auto simp: mark_running_step_def intro!: staged_only_set)
  moreover have "step_keeps (\<lambda>_ _. ?J) (\<lambda>_ _. ?J) k (transfer_step M P e org i)"
  proof (rule step_keeps_const)
    show "os_run (transfer_step M P e org i) = Some (the (os_run (transfer_step M P e org i)))" by (simp add: transfer_step_def)
    fix poll rs and w :: "('p, 'z) migrating_scheme" assume s: "?J w"
    have "?J (snd (transfer_source M P org i (current w) w))"
      by (rule staging.transfers) (use s ne in simp_all)
    then show "ends (the (os_run (transfer_step M P e org i)) poll rs w) (\<lambda>_. ?J) (\<lambda>_. ?J)"
      by (cases "transfer_source M P org i (current w) w") (auto simp: transfer_step_def intro!: staged_only_set split: sum.split)
  qed (auto simp: transfer_step_def intro: staging.just_calls)
  moreover have "step_keeps (\<lambda>_ _. ?J) (\<lambda>_ _. ?J) k (staging_database_step P e i)"
  proof -
    have "?J w'" if "?J w" "write_migration failed i (mg_staging_update (\<lambda>_. x)) w = Some w'" for failed x w w'
      by (rule staged_only_write [OF that(1) _ that(2)]) simp
    then show ?thesis
      by (intro step_keeps_const) (auto simp: staging_database_step_def intro!: staging.just_calls staging.with_calls split: option.split)
  qed
  moreover have "step_keeps (\<lambda>_ _. ?J) (\<lambda>_ _. ?J) k (import_step P e org i)"
    by (rule step_keeps_const)
       (auto simp: import_step_def ask_infra_asked Let_def intro!: staging.just_calls staging.call staged_only_set split: option.split prod.split)
  moreover have "step_keeps (\<lambda>_ _. ?J) (\<lambda>_ _. ?J) k (validate_step P e i)"
  proof (rule step_keeps_const)
    show "os_run (validate_step P e i) = Some (the (os_run (validate_step P e i)))" by (simp add: validate_step_def)
    fix poll rs and w :: "('p, 'z) migrating_scheme" assume "?J w"
    then have "?J (asked P (DbDump (stagingDB P i)) (set_migration (fault e 6) (db_now e) i ''validating'' ''validation'' [] w))"
      by (intro staging.call staged_only_set) simp_all
    then show "ends (the (os_run (validate_step P e i)) poll rs w) (\<lambda>_. ?J) (\<lambda>_. ?J)"
      by (auto simp: validate_step_def ask_infra_asked split: option.split prod.split elim: staged_only_write [rotated 2])
  qed (simp add: validate_step_def)
  moreover have "step_keeps (\<lambda>_ _. ?J) (\<lambda>_ _. ?J) k (ready_step e i)"
    by (rule step_keeps_const) (auto simp: ready_step_def intro!: staged_only_set)
  ultimately show ?thesis using assms by (auto simp: migration_run_steps_def)
qed

text \<open>
  C17: Until the cutover the live site is not touched: a plan or a run, however it ends and whatever the
  providers answer, writes and removes files only below the stage of its own migration, changes and drops
  only its own staging database, asks no container and no backup anything, and leaves every project,
  database, application, backup and other migration as it was.
\<close>

theorem live_site_untouched_before_cutover:
  fixes d d' :: "('p, 'z) migrating_scheme jobs_db"
  assumes "engine_execute e c df j d = (r, d')" and "df \<in> {plan_definition M P oe, run_definition M P oe}"
    and "i = migration_target P (j_payload j)"
  shows "staged_only P (j_org j) i (outside d) (outside d')"
proof (rule execution_invariant [OF assms(1), where J = "staged_only P (j_org j) i (outside d)"])
  fix project op assume "df_factory df (j_org j) project (j_payload j) = Inr op"
  moreover have "\<forall>st \<in> set (migration_run_steps M P oe (j_org j) i). \<forall>k.
      step_keeps (\<lambda>_ _. staged_only P (j_org j) i (outside d)) (\<lambda>_ _. staged_only P (j_org j) i (outside d)) k st"
    using run_steps_staged by blast
  ultimately show "\<exists>sts. op_body op = StepperOp sts \<and> (\<forall>st \<in> set sts. \<forall>k.
      step_keeps (\<lambda>_ _. staged_only P (j_org j) i (outside d)) (\<lambda>_ _. staged_only P (j_org j) i (outside d)) k st)"
    using assms(2,3) by (auto simp: plan_definition_def run_definition_def migration_definition_def plan_steps_staged)
qed simp

section \<open>The cutover\<close>

text \<open>Calls that change the live site: removing or writing files outside the stage, loading a database, restoring.\<close>

definition live_change :: "string \<Rightarrow> pcall \<Rightarrow> bool" where
  "live_change stage c \<longleftrightarrow>
     (case c of FsRemove p \<Rightarrow> p \<noteq> stage | FsWriteFile p b \<Rightarrow> True | DbLoad n t \<Rightarrow> True | BkRestore ref db \<Rightarrow> True | _ \<Rightarrow> False)"

definition changes :: "string \<Rightarrow> (pcall \<times> preply) list \<Rightarrow> (pcall \<times> preply) list" where
  "changes stage log = filter (\<lambda>x. live_change stage (fst x)) log"

text \<open>Every change comes after an artifact of the backup \<open>s\<close> was stored and verified.\<close>

definition changes_guarded :: "uuid \<Rightarrow> string \<Rightarrow> (pcall \<times> preply) list \<Rightarrow> bool" where
  "changes_guarded s stage log \<longleftrightarrow>
     (\<forall>n < length log. live_change stage (fst (log ! n)) \<longrightarrow> (\<exists>ref. safe s (take n log) ref))"

lemma changes_snoc [simp]:
  "changes stage [] = []" "changes stage (log @ [x]) = changes stage log @ (if live_change stage (fst x) then [x] else [])"
  by (simp_all add: changes_def)

lemma changes_guarded_none: "changes stage log = [] \<Longrightarrow> changes_guarded s stage log"
  unfolding changes_guarded_def changes_def filter_empty_conv by (metis nth_mem)

lemma changes_guarded_snoc:
  "changes_guarded s stage log \<Longrightarrow> (live_change stage (fst x) \<Longrightarrow> \<exists>ref. safe s log ref) \<Longrightarrow> changes_guarded s stage (log @ [x])"
  unfolding changes_guarded_def by (auto simp: less_Suc_eq nth_append)

lemma snapshot_call_quiet: "snapshot_call s ''full'' c \<Longrightarrow> \<not> live_change stage c"
  by (cases c) (simp_all add: snapshot_call_def live_change_def)

text \<open>Before the safety backup: nothing changed. After it: the backup is there, and every change came later.\<close>

definition untouched :: "string \<Rightarrow> uuid \<Rightarrow> ('p, 'z) migrating_scheme \<Rightarrow> bool" where
  "untouched stage pid w \<longleftrightarrow> changes stage (h_calls w) = [] \<and> live_row w = pid \<and> target_project w = pid \<and> mg_backup w = None"

definition cut_secured :: "'p infra \<Rightarrow> uuid \<Rightarrow> string \<Rightarrow> uuid \<Rightarrow> uuid \<Rightarrow> ('p, 'z) migrating_scheme \<Rightarrow> bool" where
  "cut_secured P s stage org pid w \<longleftrightarrow>
     live_row w = pid \<and> target_project w = pid \<and> mg_backup w = Some s \<and> require_providers P = None \<and>
     kept_safe P s org pid ''full'' w \<and> changes_guarded s stage (h_calls w)"

text \<open>
  What a failed cutover leaves: the last change is the restoration of the safety backup. If all undos
  went through (\<open>ok\<close>) the provider reported no error for it; it is asked for whenever the two reads of
  the undo succeed.
\<close>

definition put_back_last :: "uuid \<Rightarrow> uuid \<Rightarrow> uuid \<Rightarrow> string \<Rightarrow> ('p, 'z) hosted_scheme \<Rightarrow> bool \<Rightarrow> bool" where
  "put_back_last s org pid stage w confirmed \<longleftrightarrow>
     (\<exists>ref db a. last (changes stage (h_calls w)) = (BkRestore ref db, a) \<and> safety_backup s org pid ''full'' w ref \<and>
        (confirmed \<longrightarrow> rp_err a = None))"

definition cut_put_back :: "env \<Rightarrow> string \<Rightarrow> uuid \<Rightarrow> uuid \<Rightarrow> bool \<Rightarrow> ('p, 'z) hosted_scheme \<Rightarrow> bool" where
  "cut_put_back e stage org pid ok w \<longleftrightarrow> changes_guarded (new_id e) stage (h_calls w) \<and>
     (changes stage (h_calls w) = [] \<or>
        (\<exists>ref. safety_backup (new_id e) org pid ''full'' w ref) \<and>
        (ok \<longrightarrow> put_back_last (new_id e) org pid stage w True) \<and>
        (\<not> fault e 11 \<and> \<not> fault e 12 \<longrightarrow> put_back_last (new_id e) org pid stage w False))"

lemma cut_put_back_same:
  "cut_put_back e stage org pid ok w \<Longrightarrow> backups w' = backups w \<Longrightarrow> h_calls w' = h_calls w \<Longrightarrow> (ok' \<Longrightarrow> ok) \<Longrightarrow>
   cut_put_back e stage org pid ok' w'"
  using safety_backup_same [of w' w] by (auto simp: cut_put_back_def put_back_last_def)

lemma live_row_logged [simp]:
  "live_row (logged_call c r p w) = live_row w" "target_project (logged_call c r p w) = target_project w"
  "live_slug (logged_call c r p w) = live_slug w"
  by (simp_all add: live_row_def target_project_def current_def live_slug_def)

lemma kept_safe_logged: "kept_safe P s org i ty w \<Longrightarrow> kept_safe P s org i ty (logged_call c r p w)"
  by (auto simp: kept_safe_def safety_backup_def dumpable_def project_db_def)

lemma cut_secured_logged: "cut_secured P s stage org pid w \<Longrightarrow> cut_secured P s stage org pid (logged_call c r p w)"
proof -
  assume sec: "cut_secured P s stage org pid w"
  then have "\<exists>ref. safe s (h_calls w) ref" by (auto simp: cut_secured_def kept_safe_def safety_backup_def)
  then have "changes_guarded s stage (h_calls (logged_call c r p w))"
    using sec by (auto simp: cut_secured_def intro: changes_guarded_snoc)
  then show ?thesis using sec by (simp add: cut_secured_def kept_safe_logged del: logged_call_sel(1))
qed

interpretation cut: hosted_call_frame P "\<lambda>_. True" "cut_secured P s stage org pid"
  for P :: "'p infra" and s stage org pid
  by unfold_locales (rule cut_secured_logged)

interpretation quiet: snapshot_frame e P "''full''" "untouched stage pid :: ('p, 'z) migrating_scheme \<Rightarrow> bool"
  for e and P :: "'p infra" and stage pid
proof
  fix w :: "('p, 'z) migrating_scheme" and c
  assume "untouched stage pid w" "snapshot_call (new_id e) ''full'' c"
  then show "untouched stage pid (asked P c w)" by (simp add: untouched_def asked_def snapshot_call_quiet)
qed (simp_all add: untouched_def live_row_def target_project_def current_def)

lemma cut_secured_frame:
  "kept_safe P s org pid ty (w\<lparr>mg_backup := x\<rparr>) = kept_safe P s org pid ty w"
  "kept_safe P s org pid ty (w\<lparr>migrations := ms\<rparr>) = kept_safe P s org pid ty w"
  "live_row (w\<lparr>migrations := ms\<rparr>) = live_row w" "target_project (w\<lparr>migrations := ms\<rparr>) = target_project w"
  "live_row (w\<lparr>mg_backup := x\<rparr>) = live_row w" "target_project (w\<lparr>mg_backup := x\<rparr>) = target_project w"
  by (simp_all add: kept_safe_def safety_backup_def dumpable_def project_db_def live_row_def target_project_def current_def)

lemma cut_secured_rows: "cut_secured P s stage org pid (w\<lparr>migrations := ms\<rparr>) = cut_secured P s stage org pid w"
  by (simp add: cut_secured_def cut_secured_frame)

lemma cut_secured_write: "cut_secured P s stage org pid w \<Longrightarrow> write_migration failed i f w = Some w' \<Longrightarrow> cut_secured P s stage org pid w'"
  by (drule write_migration_Some) (simp add: cut_secured_rows)

lemma set_migration_rows: "\<exists>ms. set_migration failed now i st ph err w = w\<lparr>migrations := ms\<rparr>"
proof (cases rule: set_migration_cases [of failed now i st ph err w])
  case same
  then show ?thesis by (intro exI [of _ "migrations w"]) simp
next
  case (written w')
  then show ?thesis using write_migration_Some by blast
qed

lemma set_migration_keeps:
  "(\<And>ms. J (w\<lparr>migrations := ms\<rparr>) = J w) \<Longrightarrow> J (set_migration failed now i st ph err w) = J w"
  using set_migration_rows [of failed now i st ph err w] by metis

lemma set_migration_calls [simp]:
  "h_calls (set_migration failed now i st ph err w) = h_calls w"
  "backups (set_migration failed now i st ph err w) = backups w"
  using set_migration_rows [of failed now i st ph err w] by auto

lemma cut_secured_set [simp]: "cut_secured P s stage org pid (set_migration failed now i st ph err w) = cut_secured P s stage org pid w"
  by (rule set_migration_keeps) (rule cut_secured_rows)

lemma update_project_keeps:
  assumes "J w" and "\<And>ps. J (w\<lparr>projects := ps\<rparr>)" and "\<And>ps au. J (w\<lparr>projects := ps, projects_audit := au\<rparr>)"
  shows "J (snd (update_project e ac i inp w))"
proof (cases "Require ac ''projects.update''")
  case None
  show ?thesis unfolding update_project_def None Let_def rec_audit_def option.case by (simp add: assms split: sum.split)
qed (simp add: update_project_def assms)

lemma cut_secured_project: "cut_secured P s stage org pid w \<Longrightarrow> cut_secured P s stage org pid (snd (update_project e ac i inp w))"
  by (rule update_project_keeps)
     (simp_all add: cut_secured_def kept_safe_def safety_backup_def dumpable_def project_db_def live_row_def target_project_def current_def)

text \<open>The target project the migration has in the table.\<close>

definition cutover_project :: "uuid \<Rightarrow> uuid \<Rightarrow> ('p, 'z) migrating_scheme \<Rightarrow> uuid" where
  "cutover_project org i w =
     (case find (\<lambda>m. mg_id m = i \<and> mg_org m = org) (migrations w) of None \<Rightarrow> uuid_nil | Some m \<Rightarrow> coalesce (mg_project m) uuid_nil)"

lemma target_opened: "target_project (opened org i w) = cutover_project org i w"
  by (simp add: target_project_def opened_def current_def cutover_project_def coalesce_def no_migration_def split: option.split)

text \<open>What holds before each step, and while the undos below it are still to run.\<close>

definition cut_inv :: "'p infra \<Rightarrow> env \<Rightarrow> string \<Rightarrow> uuid \<Rightarrow> uuid \<Rightarrow> uuid \<Rightarrow> nat \<Rightarrow> ('p, 'z) migrating_scheme \<Rightarrow> bool" where
  "cut_inv P e stage org i pid k w \<longleftrightarrow>
     (if k = 0 then h_calls w = [] \<and> cutover_project org i w = pid
      else if k = 1 then untouched stage pid w
      else cut_secured P (new_id e) stage org pid w \<and> (k = 2 \<longrightarrow> changes stage (h_calls w) = []))"

definition cut_bad :: "'p infra \<Rightarrow> env \<Rightarrow> string \<Rightarrow> uuid \<Rightarrow> uuid \<Rightarrow> bool \<Rightarrow> nat \<Rightarrow> ('p, 'z) migrating_scheme \<Rightarrow> bool" where
  "cut_bad P e stage org pid ok k w \<longleftrightarrow>
     (if k \<le> 2 then cut_put_back e stage org pid ok w else cut_secured P (new_id e) stage org pid w)"

lemma cut_put_back_quiet: "changes stage (h_calls w) = [] \<Longrightarrow> cut_put_back e stage org pid ok w"
  by (simp add: cut_put_back_def changes_guarded_none)

lemma cut_inv_bad: "cut_inv P e stage org i pid k w \<Longrightarrow> cut_bad P e stage org pid ok k w"
  by (auto simp: cut_inv_def cut_bad_def untouched_def intro!: cut_put_back_quiet split: if_splits)

abbreviation cut_keeps :: "'p infra \<Rightarrow> env \<Rightarrow> string \<Rightarrow> uuid \<Rightarrow> uuid \<Rightarrow> uuid \<Rightarrow> nat \<Rightarrow> ('p, 'z) migrating_scheme op_step \<Rightarrow> bool" where
  "cut_keeps P e stage org i pid \<equiv>
     step_tracks (\<lambda>k rs. cut_inv P e stage org i pid k) (\<lambda>ok k rs. cut_bad P e stage org pid ok k)"

lemma begin_cutover_keeps:
  fixes P :: "'p infra"
  shows "cut_keeps P e stage org i pid 0 (begin_cutover_step e' org i :: ('p, 'z) migrating_scheme op_step)"
proof (rule step_tracks_ends)
  let ?st = "begin_cutover_step e' org i :: ('p, 'z) migrating_scheme op_step"
  show "os_run ?st = Some (the (os_run ?st))" by (simp add: begin_cutover_step_def)
  have unt: "untouched stage pid (set_migration f now j st ph er w) = untouched stage pid w"
    for pid f now j st ph er and w :: "('p, 'z) migrating_scheme"
    by (rule set_migration_keeps) (simp add: untouched_def live_row_def target_project_def current_def)
  have found: "pj_id p = k" if "find (live_project org k) ps = Some p" for k ps p
    using find_SomeD [OF that] by (simp add: live_project_def)
  have target: "target_project (w\<lparr>mg_loaded := find (\<lambda>m. mg_id m = i \<and> mg_org m = org) (migrations w), mg_backup := x, mg_live := y, mg_target := z\<rparr>)
      = cutover_project org i w" for x y z and w :: "('p, 'z) migrating_scheme"
    using target_opened [of org i w] by (simp add: target_project_def opened_def current_def)
  show "ends (the (os_run ?st) poll rs w) ((\<lambda>k rs. cut_inv P e stage org i pid k) (Suc 0)) ((\<lambda>ok k rs. cut_bad P e stage org pid ok k) True (Suc 0))"
    if "cut_inv P e stage org i pid 0 w" for poll rs and w :: "('p, 'z) migrating_scheme"
    using that
    by (auto simp: begin_cutover_step_def Let_def cut_inv_def cut_bad_def get_project_as_System scan_project_def unt opened_def
        target intro!: cut_put_back_quiet split: option.split)
       (auto simp: untouched_def live_row_def target dest: found)
  show "case os_undo ?st of
        None \<Rightarrow> \<forall>ok rs w. cut_bad P e stage org pid ok (Suc 0) w \<longrightarrow> cut_bad P e stage org pid ok 0 w
      | Some u \<Rightarrow> \<forall>ok poll rs w. cut_bad P e stage org pid ok (Suc 0) w \<longrightarrow>
          ends (u poll rs w) ((\<lambda>ok k rs. cut_bad P e stage org pid ok k) ok 0) ((\<lambda>ok k rs. cut_bad P e stage org pid ok k) False 0)"
    by (auto simp: begin_cutover_step_def cut_bad_def elim: cut_put_back_same)
qed

lemma safety_backup_keeps:
  fixes P :: "'p infra"
  shows "cut_keeps P e stage org i pid 1 (safety_backup_step P e org i :: ('p, 'z) migrating_scheme op_step)"
proof (rule step_tracks_ends)
  let ?st = "safety_backup_step P e org i :: ('p, 'z) migrating_scheme op_step"
  show "os_run ?st = Some (the (os_run ?st))" by (simp add: safety_backup_step_def)
  show "ends (the (os_run ?st) poll rs w) ((\<lambda>k rs. cut_inv P e stage org i pid k) (Suc 1)) ((\<lambda>ok k rs. cut_bad P e stage org pid ok k) True (Suc 1))"
    if inv: "cut_inv P e stage org i pid 1 w" for poll rs and w :: "('p, 'z) migrating_scheme"
  proof -
    have unt: "untouched stage pid w" using inv by (auto simp: cut_inv_def)
    obtain x w1 where s: "SnapshotNow P e 5 org (live_row w) ''full'' 30 w = (x, w1)" by fastforce
    let ?inp = "no_payload\<lparr>cp_type := ''full'', cp_days := 30\<rparr>"
    have "untouched stage pid (w\<lparr>backups := backups w @ [r]\<rparr>)" for r
      using unt by (simp add: untouched_def live_row_def target_project_def current_def)
    then have "untouched stage pid (snd (snapshot P e 5 org (live_row w) ?inp w))"
      by (intro quiet.snapshots unt) simp_all
    then have kept: "untouched stage pid w1" using s unt by (auto simp: SnapshotNow_def split: option.splits)
    show ?thesis
    proof (cases x)
      case (Inl t)
      then show ?thesis using kept s
        by (auto simp: safety_backup_step_def cut_bad_def untouched_def intro!: cut_put_back_quiet)
    next
      case (Inr b)
      have req: "require_providers P = None" and snap: "snapshot P e 5 org (live_row w) ?inp w = (Inr b, w1)"
        using s Inr by (auto simp: SnapshotNow_def split: option.splits)
      have b: "b = new_id e" and "kept_safe P (new_id e) org (live_row w) ''full'' w1" using snapshot_Inr [OF snap] by auto
      then have sec: "cut_secured P (new_id e) stage org pid (w1\<lparr>mg_backup := Some b\<rparr>)"
        using kept unt req b by (simp add: cut_secured_def cut_secured_frame untouched_def changes_guarded_none)
      have quiet: "changes stage (h_calls (w1\<lparr>mg_backup := Some b\<rparr>)) = []" using kept by (simp add: untouched_def)
      show ?thesis
      proof (cases "write_migration (fault e 10) i (\<lambda>m. m\<lparr>mg_safety := Some b\<rparr>) (w1\<lparr>mg_backup := Some b\<rparr>)")
        case None
        then show ?thesis using s Inr quiet by (simp add: safety_backup_step_def cut_bad_def cut_put_back_quiet)
      next
        case (Some w2)
        then show ?thesis using s Inr quiet cut_secured_write [OF sec Some] write_migration_Some [OF Some]
          by (auto simp: safety_backup_step_def cut_inv_def)
      qed
    qed
  qed
qed (simp add: safety_backup_step_def cut_bad_def)

lemma cut_secured_copy: "cut_secured P s stage org pid w \<Longrightarrow> copyDir P n src dst w = (x, w') \<Longrightarrow> cut_secured P s stage org pid w'"
  using cut.copies [of P s stage org pid w n src dst] by simp

text \<open>The undo of the swap: it asks for the safety backup, unless the database fails first.\<close>

lemma restore_live_puts_back:
  fixes w :: "('p, 'z) migrating_scheme"
  assumes sec: "cut_secured P (new_id e) stage org pid w"
  shows "ends (restore_live P e org rs w) (\<lambda>rs. cut_put_back e stage org pid ok) (\<lambda>rs. cut_put_back e stage org pid False)"
proof -
  let ?s = "new_id e"
  have p: "target_project w = pid" "mg_backup w = Some ?s" "require_providers P = None" "changes_guarded ?s stage (h_calls w)"
    using sec by (simp_all add: cut_secured_def)
  obtain ref where sb: "safety_backup ?s org pid ''full'' w ref" and dm: "dumpable P org pid ''full'' w"
    using sec by (auto simp: cut_secured_def kept_safe_def)
  from sb obtain row where row: "find (\<lambda>x. bk_id x = ?s \<and> bk_org x = org) (backups w) = Some row" "bk_ref row = Some ref"
      "bk_type row = ''full''" "safe ?s (h_calls w) ref"
    by (auto simp: safety_backup_def)
  consider (failed) "fault e 11 \<or> fault e 12" "restore_artifact P (fault e 11) (fault e 12) org pid ?s w = (Some ''database error'', w)"
    | (asked) db where "restore_artifact P (fault e 11) (fault e 12) org pid ?s w =
        (map_option perror_text (rp_err (answer P (BkRestore ref db) w)), asked P (BkRestore ref db) w)"
    using restore_artifact_cases [OF row(1), of P pid "fault e 11" "fault e 12"] dm row(2,3) by (auto simp: coalesce_def)
  then show ?thesis
  proof cases
    case failed
    then show ?thesis using p sb by (auto simp: restore_live_def RestoreNow_def cut_put_back_def)
  next
    case (asked db)
    let ?c = "(BkRestore ref db, answer P (BkRestore ref db) w)"
    have live: "live_change stage (BkRestore ref db)" by (simp add: live_change_def)
    have "changes_guarded ?s stage (h_calls w @ [?c])"
      using changes_guarded_snoc [OF p(4), of ?c] row(4) by auto
    moreover have "safety_backup ?s org pid ''full'' (asked P (BkRestore ref db) w) ref" using sb by simp
    ultimately have "cut_put_back e stage org pid ok' (asked P (BkRestore ref db) w)"
      if "ok' \<Longrightarrow> rp_err (answer P (BkRestore ref db) w) = None" for ok'
      using that live by (auto simp: cut_put_back_def put_back_last_def)
    then show ?thesis using p asked
      by (cases "rp_err (answer P (BkRestore ref db) w)") (auto simp: restore_live_def RestoreNow_def)
  qed
qed

lemma swap_files_keeps:
  fixes P :: "'p infra"
  shows "cut_keeps P e stage org i pid 2 (swap_files_step M P e org j :: ('p, 'z) migrating_scheme op_step)"
proof (rule step_tracks_ends)
  let ?st = "swap_files_step M P e org j :: ('p, 'z) migrating_scheme op_step"
  show "os_run ?st = Some (the (os_run ?st))" by (simp add: swap_files_step_def)
  show "ends (the (os_run ?st) poll rs w) ((\<lambda>k rs. cut_inv P e stage org i pid k) (Suc 2)) ((\<lambda>ok k rs. cut_bad P e stage org pid ok k) True (Suc 2))"
    if inv: "cut_inv P e stage org i pid 2 w" for poll rs and w :: "('p, 'z) migrating_scheme"
  proof -
    have sec: "cut_secured P (new_id e) stage org pid w" using inv by (auto simp: cut_inv_def)
    let ?c = "FsRemove (WorkspacePath (live_slug w) @ ''/data'')"
    have sec1: "cut_secured P (new_id e) stage org pid (asked P ?c w)" by (rule cut.call [OF sec TrueI])
    obtain x w2 where c: "copyDir P (mi_depth M) (stagePath P org j @ ''/files'') (WorkspacePath (live_slug w) @ ''/data'') (asked P ?c w) = (x, w2)"
      by fastforce
    note sec2 = cut_secured_copy [OF sec1 c]
    show ?thesis using sec1 sec2 c
      by (auto simp: swap_files_step_def ask_infra_asked Let_def cut_inv_def cut_bad_def split: option.split copy_end.split)
  qed
  have "ends (restore_live P e org rs w) ((\<lambda>ok k rs. cut_bad P e stage org pid ok k) ok 2) ((\<lambda>ok k rs. cut_bad P e stage org pid ok k) False 2)"
    if "cut_bad P e stage org pid ok (Suc 2) w" for ok rs and w :: "('p, 'z) migrating_scheme"
    by (rule ends_weaken [OF restore_live_puts_back [of P e stage org pid w rs ok]]) (use that in \<open>simp_all add: cut_bad_def\<close>)
  then show "case os_undo ?st of
        None \<Rightarrow> \<forall>ok rs w. cut_bad P e stage org pid ok (Suc 2) w \<longrightarrow> cut_bad P e stage org pid ok 2 w
      | Some u \<Rightarrow> \<forall>ok poll rs w. cut_bad P e stage org pid ok (Suc 2) w \<longrightarrow>
          ends (u poll rs w) ((\<lambda>ok k rs. cut_bad P e stage org pid ok k) ok 2) ((\<lambda>ok k rs. cut_bad P e stage org pid ok k) False 2)"
    by (simp add: swap_files_step_def)
qed

text \<open>The steps after the swap keep the safety backup and are undone by it.\<close>

lemma later_step_keeps:
  fixes P :: "'p infra" and st :: "('p, 'z) migrating_scheme op_step"
  assumes "os_run st = Some f" and "os_undo st = None" and "3 \<le> k"
    and "\<And>poll rs w. cut_secured P (new_id e) stage org pid w \<Longrightarrow>
      ends (f poll rs w) (\<lambda>_. cut_secured P (new_id e) stage org pid) (\<lambda>_. cut_secured P (new_id e) stage org pid)"
  shows "cut_keeps P e stage org i pid k st"
proof (rule step_tracks_ends [OF assms(1)])
  fix poll rs and w :: "('p, 'z) migrating_scheme" assume "cut_inv P e stage org i pid k w"
  then have "cut_secured P (new_id e) stage org pid w" using assms(3) by (auto simp: cut_inv_def)
  from assms(4) [OF this] show "ends (f poll rs w) ((\<lambda>k rs. cut_inv P e stage org i pid k) (Suc k)) ((\<lambda>ok k rs. cut_bad P e stage org pid ok k) True (Suc k))"
    by (rule ends_weaken) (use assms(3) in \<open>auto simp: cut_inv_def cut_bad_def\<close>)
qed (use assms(2,3) in \<open>simp add: cut_bad_def\<close>)

lemma swap_database_keeps:
  fixes P :: "'p infra"
  shows "cut_keeps P e stage org i pid 3 (swap_database_step P j :: ('p, 'z) migrating_scheme op_step)"
  by (rule later_step_keeps) (auto simp: swap_database_step_def intro!: cut.with_calls cut.just_calls)

lemma restart_keeps:
  fixes P :: "'p infra"
  shows "cut_keeps P e stage org i pid 4 (restart_step P :: ('p, 'z) migrating_scheme op_step)"
  by (rule later_step_keeps)
     (auto simp: restart_step_def Let_def hcall_asked intro!: cut.with_calls cut.call split: option.split perror.split)

lemma finish_cutover_keeps:
  fixes P :: "'p infra"
  shows "cut_keeps P e stage org j pid 5 (finish_cutover_step P e' org i :: ('p, 'z) migrating_scheme op_step)"
proof (rule later_step_keeps)
  let ?st = "finish_cutover_step P e' org i :: ('p, 'z) migrating_scheme op_step"
  let ?sec = "cut_secured P (new_id e) stage org pid :: ('p, 'z) migrating_scheme \<Rightarrow> bool"
  show "os_run ?st = Some (the (os_run ?st))" by (simp add: finish_cutover_step_def)
  fix poll rs and w :: "('p, 'z) migrating_scheme" assume sec: "?sec w"
  let ?cfg = "put_member ''primary_domain'' (JStr (mg_domain (current w))) (case mg_live w of None \<Rightarrow> [] | Some p \<Rightarrow> pj_config p)"
  obtain x w1 where u: "update_project (shifted 13 e') (System_ctx org) (live_row w)
      \<lparr>ui_name = None, ui_description = None, ui_client = None, ui_config = Some ?cfg\<rparr> w = (x, w1)" by fastforce
  have sec1: "?sec w1"
    using cut_secured_project [OF sec, of "shifted 13 e'" "System_ctx org" "live_row w"
      "\<lparr>ui_name = None, ui_description = None, ui_client = None, ui_config = Some ?cfg\<rparr>"] unfolding u by simp
  have "?sec (asked P (FsRemove (stagePath P org i)) (asked P (DbDrop (stagingDB P i) (stagingUser P i))
      (set_migration (fault e' 16) (db_now e') i ''completed'' ''complete'' [] w1)))"
    by (intro cut.call TrueI) (simp add: sec1)
  then show "ends (the (os_run ?st) poll rs w) (\<lambda>_. ?sec) (\<lambda>_. ?sec)"
    using u sec1 by (simp add: finish_cutover_step_def Let_def hcall_asked split: sum.split)
qed (simp_all add: finish_cutover_step_def)


end
