(* ===== verification/Migration_Gates.thy ===== *)
theory Migration_Gates
  imports Migration_Safety
begin

text \<open>
  The statuses of a migration are gates: each is reached only with what the step before it has to produce.
\<close>

section \<open>The gates of a migration\<close>

definition cleared :: "migration_row \<Rightarrow> bool" where
  "cleared m \<longleftrightarrow> (\<exists>rep i. mg_preflight m = Some (rep, i) \<and> CanProceed rep)"

definition validated :: "migration_row \<Rightarrow> bool" where
  "validated m \<longleftrightarrow> (\<exists>rep s. mg_validation m = Some rep \<and> mg_score m = Some s \<and> CanProceed rep \<and> 50 \<le> s \<and> s \<le> 100)"

definition past_plan :: "string \<Rightarrow> bool" where
  "past_plan st \<longleftrightarrow> st \<in> {''planned'', ''transferring'', ''importing'', ''validating'', ''ready_for_cutover'', ''cutting_over'',
     ''completed'', ''rolled_back''}"

definition past_run :: "string \<Rightarrow> bool" where
  "past_run st \<longleftrightarrow> st \<in> {''ready_for_cutover'', ''cutting_over'', ''completed'', ''rolled_back''}"

definition past_cutover :: "string \<Rightarrow> bool" where
  "past_cutover st \<longleftrightarrow> st \<in> {''completed'', ''rolled_back''}"

definition gated :: "migration_row \<Rightarrow> bool" where
  "gated m \<longleftrightarrow> (past_plan (mg_status m) \<longrightarrow> cleared m) \<and> (past_run (mg_status m) \<longrightarrow> validated m) \<and>
     (past_cutover (mg_status m) \<longrightarrow> mg_safety m \<noteq> None)"

definition gates :: "migration_row list \<Rightarrow> bool" where
  "gates ms \<longleftrightarrow> pk mg_id ms \<and> (\<forall>m \<in> set ms. gated m)"

definition row_at :: "uuid \<Rightarrow> (migration_row \<Rightarrow> bool) \<Rightarrow> migration_row list \<Rightarrow> bool" where
  "row_at i Q ms \<longleftrightarrow> (\<forall>m \<in> set ms. mg_id m = i \<longrightarrow> Q m)"

text \<open>How far the row \<open>i\<close> of a running operation has come.\<close>

definition running :: "migration_row \<Rightarrow> bool" where
  "running m \<longleftrightarrow> cleared m \<and> \<not> past_run (mg_status m)"

definition ready :: "migration_row \<Rightarrow> bool" where
  "ready m \<longleftrightarrow> cleared m \<and> validated m"

definition secured_row :: "migration_row \<Rightarrow> bool" where
  "secured_row m \<longleftrightarrow> cleared m \<and> validated m \<and> mg_safety m \<noteq> None"

definition phase :: "uuid \<Rightarrow> (migration_row \<Rightarrow> bool) \<Rightarrow> ('p, 'z) migrating_scheme \<Rightarrow> bool" where
  "phase i Q w \<longleftrightarrow> gates (migrations w) \<and> row_at i Q (migrations w)"

lemma with_status_ready [simp]:
  "cleared (with_status now st ph er m) = cleared m" "validated (with_status now st ph er m) = validated m"
  by (simp_all add: cleared_def validated_def)

lemma phase_update:
  assumes "phase i Q w" and "\<And>m. mg_id (f m) = mg_id m"
    and "\<And>m. gated m \<Longrightarrow> Q m \<Longrightarrow> gated (f m)" and "\<And>m. gated m \<Longrightarrow> Q m \<Longrightarrow> Q' (f m)"
  shows "phase i Q' (w\<lparr>migrations := update_where (\<lambda>m. mg_id m = i) f (migrations w)\<rparr>)"
proof -
  let ?ms = "migrations w"
  have row: "gated x \<and> (mg_id x = i \<longrightarrow> Q' x)" if x: "x \<in> set (update_where (\<lambda>m. mg_id m = i) f ?ms)" for x
  proof -
    obtain m where m: "m \<in> set ?ms" "x = (if mg_id m = i then f m else m)" using x by (auto simp: set_update_where)
    then have "gated m" "mg_id m = i \<Longrightarrow> Q m" using assms(1) by (simp_all add: phase_def gates_def row_at_def)
    then show ?thesis using m(2) assms(2) assms(3) [of m] assms(4) [of m] by (cases "mg_id m = i") simp_all
  qed
  have "pk mg_id (update_where (\<lambda>m. mg_id m = i) f ?ms)"
    using assms(1) pk_update_where [of "\<lambda>m. mg_id m = i" mg_id f ?ms] assms(2) by (simp add: phase_def gates_def)
  then show ?thesis using row by (simp add: phase_def gates_def row_at_def)
qed

lemma phase_write:
  assumes "phase i Q w" and "write_migration failed i f w = Some w'" and "\<And>m. mg_id (f m) = mg_id m"
    and "\<And>m. gated m \<Longrightarrow> Q m \<Longrightarrow> gated (f m)" and "\<And>m. gated m \<Longrightarrow> Q m \<Longrightarrow> Q' (f m)"
  shows "phase i Q' w'"
  unfolding write_migration_Some [OF assms(2)] by (rule phase_update [where Q = Q]) (fact assms)+

lemma ends_phase_write:
  assumes "phase i Q w" and "\<And>m. mg_id (f m) = mg_id m"
    and "\<And>m. gated m \<Longrightarrow> Q m \<Longrightarrow> gated (f m)" and "\<And>m. gated m \<Longrightarrow> Q m \<Longrightarrow> Q' (f m)"
    and "\<And>w'. phase i Q' w' \<Longrightarrow> ends (k w') A B" and "ends n A B"
  shows "ends (case write_migration failed i f w of None \<Rightarrow> n | Some w' \<Rightarrow> k w') A B"
  using phase_write [where Q' = Q', OF assms(1) _ assms(2-4)] assms(5,6) by (auto split: option.split)

lemma phase_set:
  assumes "phase i Q w" and "\<And>m. Q m \<Longrightarrow> gated (with_status now st ph er m)" and "\<And>m. Q m \<Longrightarrow> Q (with_status now st ph er m)"
  shows "phase i Q (set_migration failed now i st ph er w)"
proof (cases rule: set_migration_cases [of failed now i st ph er w])
  case (written w')
  then show ?thesis using phase_write [OF assms(1) written(2), where Q' = Q] assms(2,3) by simp
qed (simp add: assms(1))

lemma phase_weaken: "phase i Q w \<Longrightarrow> (\<And>m. Q m \<Longrightarrow> Q' m) \<Longrightarrow> phase i Q' w"
  by (auto simp: phase_def row_at_def)

lemma phase_rows: "migrations w = migrations w' \<Longrightarrow> phase i Q w = phase i Q w'"
  by (simp add: phase_def)

lemmas statuses = gated_def running_def ready_def secured_row_def past_plan_def past_run_def past_cutover_def

text \<open>The predicates of the table are kept by every provider call and by a snapshot.\<close>

interpretation table: hosted_call_frame P "\<lambda>_. True" "phase i Q :: ('p, 'z) migrating_scheme \<Rightarrow> bool"
  for P :: "'p infra" and i Q
  by unfold_locales (simp add: phase_def)

interpretation table_snap: snapshot_frame e P ty "phase i Q :: ('p, 'z) migrating_scheme \<Rightarrow> bool"
  for e and P :: "'p infra" and ty i Q
  by unfold_locales (simp_all add: phase_def asked_def)

lemma phase_project: "phase i Q w \<Longrightarrow> phase i Q (snd (update_project e ac k inp w))"
  by (rule update_project_keeps) (simp_all add: phase_def)

lemma phase_frame [simp]:
  "phase i Q (opened org k w) = phase i Q w" "phase i Q (w\<lparr>mg_info := x\<rparr>) = phase i Q w"
  "phase i Q (w\<lparr>mg_info := x, mg_discover := y\<rparr>) = phase i Q w" "phase i Q (w\<lparr>mg_old_url := u\<rparr>) = phase i Q w"
  "phase i Q (w\<lparr>mg_old_url := u, mg_rewrites := n\<rparr>) = phase i Q w" "phase i Q (w\<lparr>mg_backup := b\<rparr>) = phase i Q w"
  "phase i Q (w\<lparr>mg_info := x, mg_rewrites := n, mg_old_url := u\<rparr>) = phase i Q w"
  "phase i Q (w\<lparr>mg_rewrites := n\<rparr>) = phase i Q w" "phase i Q (w\<lparr>mg_info := x, mg_rewrites := n\<rparr>) = phase i Q w"
  "phase i Q (w\<lparr>mg_live := l\<rparr>) = phase i Q w" "phase i Q (w\<lparr>mg_target := t\<rparr>) = phase i Q w"
  "phase i Q (w\<lparr>mg_backup := b, mg_live := l, mg_target := t\<rparr>) = phase i Q w"
  "phase i Q (w\<lparr>mg_live := l, mg_target := t\<rparr>) = phase i Q w"
  by (simp_all add: phase_def opened_def)

abbreviation any_row :: "migration_row \<Rightarrow> bool" where "any_row \<equiv> \<lambda>_. True"

lemma phase_any: "phase i Q w \<Longrightarrow> phase j any_row w"
  by (simp add: phase_def row_at_def)

lemma preflight_step_gates:
  fixes P :: "'a infra"
  shows "step_keeps (\<lambda>_ _. phase i any_row) (\<lambda>_ _. phase i any_row) k (preflight_step M P e i :: ('a, 'b) migrating_scheme op_step)"
proof (rule step_keeps_const)
  show "os_run (preflight_step M P e i) = Some (the (os_run (preflight_step M P e i)))" by (simp add: preflight_step_def)
  fix poll rs and w :: "('a, 'b) migrating_scheme" assume "phase i any_row w"
  then show "ends (the (os_run (preflight_step M P e i)) poll rs w) (\<lambda>_. phase i any_row) (\<lambda>_. phase i any_row)"
    unfolding preflight_step_def Let_def op_step.simps option.sel
    by (rule ends_phase_write [where Q' = any_row]) (auto simp: statuses cleared_def \<open>phase i any_row w\<close>)
qed (simp add: preflight_step_def)

lemma discovery_step_gates:
  fixes P :: "'a infra"
  shows "step_keeps (\<lambda>_ _. phase i any_row) (\<lambda>_ _. phase i any_row) k (discovery_step M P e org i :: ('a, 'b) migrating_scheme op_step)"
proof (rule step_keeps_const)
  show "os_run (discovery_step M P e org i) = Some (the (os_run (discovery_step M P e org i)))" by (simp add: discovery_step_def)
  fix poll rs and w :: "('a, 'b) migrating_scheme" assume p: "phase i any_row w"
  have "phase i any_row (snd (snd (discover M P (current (opened org i w)) (opened org i w))))"
    by (rule table.discovers) (use p in simp_all)
  then show "ends (the (os_run (discovery_step M P e org i)) poll rs w) (\<lambda>_. phase i any_row) (\<lambda>_. phase i any_row)"
    by (cases "discover M P (current (opened org i w)) (opened org i w)") (simp add: discovery_step_def)
qed (simp add: discovery_step_def)

section \<open>The gates of a run\<close>

definition run_phase :: "uuid \<Rightarrow> nat \<Rightarrow> ('p, 'z) migrating_scheme \<Rightarrow> bool" where
  "run_phase i k w \<longleftrightarrow> phase i (if k \<le> 4 then running else ready) w"

abbreviation run_keeps :: "uuid \<Rightarrow> nat \<Rightarrow> ('p, 'z) migrating_scheme op_step \<Rightarrow> bool" where
  "run_keeps i k st \<equiv> step_keeps (\<lambda>k rs. run_phase i k) (\<lambda>k rs. phase i any_row) k st"

lemma run_step_keeps:
  fixes st :: "('p, 'z) migrating_scheme op_step"
  assumes "os_run st = Some f" and "\<And>poll rs w. run_phase i k w \<Longrightarrow> ends (f poll rs w) (\<lambda>_. run_phase i (Suc k)) (\<lambda>_. phase i any_row)"
    and "\<And>u poll rs w. os_undo st = Some u \<Longrightarrow> phase i any_row w \<Longrightarrow> ends (u poll rs w) (\<lambda>_. phase i any_row) (\<lambda>_. phase i any_row)"
  shows "run_keeps i k st"
  by (rule step_keeps_ends [OF assms(1)]) (use assms(2,3) in \<open>auto split: option.split\<close>)

lemma running_set: "phase i running w \<Longrightarrow> st \<in> {''transferring'', ''importing'', ''validating''} \<Longrightarrow> phase i running (set_migration f now i st ph er w)"
  by (rule phase_set) (auto simp: statuses)

lemma failed_set: "phase i any_row w \<Longrightarrow> phase i any_row (set_migration f now i ''failed'' ph er w)"
  by (rule phase_set) (auto simp: statuses)

lemma mark_running_gates: "run_keeps i 0 (mark_running_step e org i)"
  by (rule run_step_keeps) (auto simp: mark_running_step_def run_phase_def intro!: running_set failed_set)

lemma transfer_gates:
  fixes P :: "'a infra"
  shows "run_keeps i 1 (transfer_step M P e org i :: ('a, 'b) migrating_scheme op_step)"
proof (rule run_step_keeps)
  let ?st = "transfer_step M P e org i :: ('a, 'b) migrating_scheme op_step"
  show "os_run ?st = Some (the (os_run ?st))" by (simp add: transfer_step_def)
  have ne: "stagePath P org i \<noteq> []" by (simp add: stagePath_def)
  fix poll rs and w :: "('a, 'b) migrating_scheme" assume p: "run_phase i 1 w"
  have "phase i running (snd (transfer_source M P org i (current w) w))"
    by (rule table.transfers) (use p ne in \<open>simp_all add: run_phase_def\<close>)
  then show "ends (the (os_run ?st) poll rs w) (\<lambda>_. run_phase i (Suc 1)) (\<lambda>_. phase i any_row)"
    by (cases "transfer_source M P org i (current w) w")
       (auto simp: transfer_step_def run_phase_def intro!: running_set elim: phase_any split: sum.split)
qed (auto simp: transfer_step_def intro: table.just_calls)

lemma staging_database_gates:
  fixes P :: "'a infra"
  shows "run_keeps i 2 (staging_database_step P e i :: ('a, 'b) migrating_scheme op_step)"
proof (rule run_step_keeps)
  let ?st = "staging_database_step P e i :: ('a, 'b) migrating_scheme op_step"
  show "os_run ?st = Some (the (os_run ?st))" by (simp add: staging_database_step_def)
  fix poll rs and w :: "('a, 'b) migrating_scheme" assume "run_phase i 2 w"
  then have p: "phase i running w" by (simp add: run_phase_def)
  have fine: "phase i running (logged_call c r q w)" for c r q using p by (simp add: phase_def)
  show "ends (the (os_run ?st) poll rs w) (\<lambda>_. run_phase i (Suc 2)) (\<lambda>_. phase i any_row)"
    unfolding staging_database_step_def op_step.simps option.sel
  proof (rule ends_with_call)
    fix r q
    show "ends (case write_migration (fault e 4) i (\<lambda>m. m\<lparr>mg_staging := Some (stagingDB P i)\<rparr>)
          (logged_call (DbEnsure (stagingDB P i) (stagingUser P i) (coalesce (in_random P) [])) r q w) of
        None \<Rightarrow> fail_step ''database error'' rs (logged_call (DbEnsure (stagingDB P i) (stagingUser P i) (coalesce (in_random P) [])) r q w)
      | Some w1 \<Rightarrow> done_step rs w1) (\<lambda>_. run_phase i (Suc 2)) (\<lambda>_. phase i any_row)"
      by (rule ends_phase_write [OF fine, where Q' = running])
         (use phase_any [OF fine] in \<open>auto simp: statuses cleared_def validated_def run_phase_def\<close>)
  qed (use phase_any [OF fine] in simp)
qed (auto simp: staging_database_step_def intro: table.just_calls)

lemma import_gates:
  fixes P :: "'a infra"
  shows "run_keeps i 3 (import_step P e org i :: ('a, 'b) migrating_scheme op_step)"
proof (rule run_step_keeps)
  let ?st = "import_step P e org i :: ('a, 'b) migrating_scheme op_step"
  show "os_run ?st = Some (the (os_run ?st))" by (simp add: import_step_def)
  fix poll rs and w :: "('a, 'b) migrating_scheme" assume "run_phase i 3 w"
  then have p: "phase i running w" by (simp add: run_phase_def)
  have a: "phase i running (asked P c w)" "phase i any_row (asked P c w)" for c using table.call [OF p TrueI] phase_any by blast+
  have fine: "phase i running (logged_call c r q (set_migration f now i ''importing'' ph er (w\<lparr>mg_old_url := u, mg_rewrites := n\<rparr>)))"
    if "phase i running w" for c r q f now ph er u n and w :: "('a, 'b) migrating_scheme"
    by (rule table.logged [OF running_set TrueI]) (use that in simp_all)
  show "ends (the (os_run ?st) poll rs w) (\<lambda>_. run_phase i (Suc 3)) (\<lambda>_. phase i any_row)"
    using a fine phase_any [OF fine]
    by (auto simp: import_step_def run_phase_def ask_infra_asked Let_def intro!: ends_just_call split: option.split prod.split)
qed (simp add: import_step_def)

lemma validate_gates:
  fixes P :: "'a infra"
  shows "run_keeps i 4 (validate_step P e i :: ('a, 'b) migrating_scheme op_step)"
proof (rule run_step_keeps)
  let ?st = "validate_step P e i :: ('a, 'b) migrating_scheme op_step"
  show "os_run ?st = Some (the (os_run ?st))" by (simp add: validate_step_def)
  fix poll rs and w0 :: "('a, 'b) migrating_scheme" assume "run_phase i 4 w0"
  then have p: "phase i running w0" by (simp add: run_phase_def)
  let ?w = "asked P (DbDump (stagingDB P i)) (set_migration (fault e 6) (db_now e) i ''validating'' ''validation'' [] w0)"
  have w: "phase i running ?w" by (rule table.call [OF running_set TrueI]) (use p in simp_all)
  have fin: "ends (case write_migration (fault e 7) i (\<lambda>m. m\<lparr>mg_validation := Some rep, mg_score := Some score, mg_updated := db_now e\<rparr>) ?w of
        None \<Rightarrow> fail_step ''database error'' rs ?w
      | Some w1 \<Rightarrow> if Blockers rep > 0 then fail_step ''validation found blocking problems; staging was discarded'' rs w1
          else done_step rs w1) (\<lambda>_. run_phase i (Suc 4)) (\<lambda>_. phase i any_row)"
    if "scoreMigration info dump old new n = (rep, score)" for info dump old new n rep score
    using score_facts [of info dump old new n] that
    by (intro ends_phase_write [OF w, where Q' = "if Blockers rep > 0 then any_row else ready"])
       (auto simp: statuses cleared_def validated_def run_phase_def phase_any [OF w])
  show "ends (the (os_run ?st) poll rs w0) (\<lambda>_. run_phase i (Suc 4)) (\<lambda>_. phase i any_row)"
    using phase_any [OF w] fin
    by (auto simp: validate_step_def ask_infra_asked split: option.split prod.split)
qed (simp add: validate_step_def)

lemma ready_gates: "run_keeps i 5 (ready_step e i)"
  by (rule run_step_keeps)
     (auto simp: ready_step_def run_phase_def intro!: phase_set [where Q = ready] simp: statuses)

section \<open>The gates of a cutover\<close>

definition cutover_phase :: "uuid \<Rightarrow> nat \<Rightarrow> ('p, 'z) migrating_scheme \<Rightarrow> bool" where
  "cutover_phase i k w \<longleftrightarrow> phase i (if k \<le> 1 then ready else secured_row) w"

abbreviation cutover_keeps :: "uuid \<Rightarrow> nat \<Rightarrow> ('p, 'z) migrating_scheme op_step \<Rightarrow> bool" where
  "cutover_keeps i k st \<equiv> step_keeps (\<lambda>k rs. cutover_phase i k) (\<lambda>k rs. phase i ready) k st"

lemma cutover_step_keeps:
  fixes st :: "('p, 'z) migrating_scheme op_step"
  assumes "os_run st = Some f" and "\<And>poll rs w. cutover_phase i k w \<Longrightarrow> ends (f poll rs w) (\<lambda>_. cutover_phase i (Suc k)) (\<lambda>_. phase i ready)"
    and "\<And>u poll rs w. os_undo st = Some u \<Longrightarrow> phase i ready w \<Longrightarrow> ends (u poll rs w) (\<lambda>_. phase i ready) (\<lambda>_. phase i ready)"
  shows "cutover_keeps i k st"
  by (rule step_keeps_ends [OF assms(1)]) (use assms(2,3) in \<open>auto split: option.split\<close>)

lemma secured_ready: "phase i secured_row w \<Longrightarrow> phase i ready w"
  by (erule phase_weaken) (simp add: statuses)

text \<open>A step after the safety backup that only makes calls.\<close>

lemma calling_step_gates:
  fixes st :: "('p, 'z) migrating_scheme op_step"
  assumes "os_run st = Some f" and "2 \<le> k" and "os_undo st = None"
    and "\<And>poll rs w. phase i secured_row w \<Longrightarrow> ends (f poll rs w) (\<lambda>_. phase i secured_row) (\<lambda>_. phase i secured_row)"
  shows "cutover_keeps i k st"
proof (rule cutover_step_keeps [OF assms(1)])
  fix poll rs and w :: "('p, 'z) migrating_scheme" assume "cutover_phase i k w"
  then have "phase i secured_row w" using assms(2) by (simp add: cutover_phase_def)
  from assms(4) [OF this] show "ends (f poll rs w) (\<lambda>_. cutover_phase i (Suc k)) (\<lambda>_. phase i ready)"
    by (rule ends_weaken) (use assms(2) in \<open>auto simp: cutover_phase_def elim: secured_ready\<close>)
qed (simp add: assms(3))

lemma ready_set: "phase i ready w \<Longrightarrow> st \<in> {''cutting_over'', ''ready_for_cutover''} \<Longrightarrow> phase i ready (set_migration f now i st ph er w)"
  by (rule phase_set) (auto simp: statuses)

lemma begin_cutover_gates: "cutover_keeps i 0 (begin_cutover_step e org i)"
  by (rule cutover_step_keeps)
     (auto simp: begin_cutover_step_def cutover_phase_def Let_def intro!: ready_set split: sum.split option.split)

lemma safety_backup_gates:
  fixes P :: "'a infra"
  shows "cutover_keeps i 1 (safety_backup_step P e org i :: ('a, 'b) migrating_scheme op_step)"
proof (rule cutover_step_keeps)
  let ?st = "safety_backup_step P e org i :: ('a, 'b) migrating_scheme op_step"
  show "os_run ?st = Some (the (os_run ?st))" by (simp add: safety_backup_step_def)
  fix poll rs and w :: "('a, 'b) migrating_scheme" assume "cutover_phase i 1 w"
  then have p: "phase i ready w" by (simp add: cutover_phase_def)
  obtain x w1 where s: "SnapshotNow P e 5 org (live_row w) ''full'' 30 w = (x, w1)" by fastforce
  have "phase i ready (snd (snapshot P e 5 org (live_row w) (no_payload\<lparr>cp_type := ''full'', cp_days := 30\<rparr>) w))"
    by (rule table_snap.snapshots [OF p _ refl]) (use p in \<open>simp add: phase_def\<close>)
  then have p1: "phase i ready w1" using s p by (auto simp: SnapshotNow_def split: option.splits)
  have written: "phase i secured_row w2"
    if "write_migration f i (\<lambda>m. m\<lparr>mg_safety := Some b\<rparr>) (w1\<lparr>mg_backup := Some b\<rparr>) = Some w2" for f b w2
    by (rule phase_write [OF _ that, where Q = ready]) (use p1 in \<open>auto simp: statuses cleared_def validated_def\<close>)
  show "ends (the (os_run ?st) poll rs w) (\<lambda>_. cutover_phase i (Suc 1)) (\<lambda>_. phase i ready)"
    using s p1 by (auto simp: safety_backup_step_def cutover_phase_def dest: written split: sum.split option.split)
qed (simp add: safety_backup_step_def)

lemma swap_files_gates:
  fixes P :: "'a infra"
  shows "cutover_keeps i 2 (swap_files_step M P e org i :: ('a, 'b) migrating_scheme op_step)"
proof (rule cutover_step_keeps)
  let ?st = "swap_files_step M P e org i :: ('a, 'b) migrating_scheme op_step"
  show "os_run ?st = Some (the (os_run ?st))" by (simp add: swap_files_step_def)
  fix poll rs and w :: "('a, 'b) migrating_scheme" assume "cutover_phase i 2 w"
  then have p: "phase i secured_row w" by (simp add: cutover_phase_def)
  let ?w = "asked P (FsRemove (WorkspacePath (live_slug w) @ ''/data'')) w"
  have p1: "phase i secured_row ?w" by (rule table.call [OF p TrueI])
  have "phase i secured_row (snd (copyDir P (mi_depth M) src dst ?w))" for src dst
    by (rule table.copies [OF TrueI TrueI TrueI p1])
  then have p2: "phase i secured_row w2" if "copyDir P (mi_depth M) src dst ?w = (x, w2)" for src dst x w2 using that by (metis snd_conv)
  show "ends (the (os_run ?st) poll rs w) (\<lambda>_. cutover_phase i (Suc 2)) (\<lambda>_. phase i ready)"
    using p1 by (auto simp: swap_files_step_def cutover_phase_def Let_def ask_infra_asked dest: p2 intro: secured_ready split: option.split prod.split copy_end.split)
next
  fix u poll rs and w :: "('a, 'b) migrating_scheme" assume "os_undo (swap_files_step M P e org i :: ('a, 'b) migrating_scheme op_step) = Some u" and p: "phase i ready w"
  then have u: "u = (\<lambda>poll. restore_live P e org)" by (simp add: swap_files_step_def)
  have "phase i ready (snd (RestoreNow P (fault e 11) (fault e 12) org (target_project w) s w))" for s
    by (rule table.restores [OF TrueI p])
  then show "ends (u poll rs w) (\<lambda>_. phase i ready) (\<lambda>_. phase i ready)"
    using p unfolding u by (auto simp: restore_live_def split: option.split prod.split) (metis snd_conv)+
qed

lemma later_steps_gates:
  "cutover_keeps i 3 (swap_database_step P j)" "cutover_keeps i 4 (restart_step P)"
proof -
  show "cutover_keeps i 3 (swap_database_step P j)"
    by (rule calling_step_gates) (auto simp: swap_database_step_def intro!: table.with_calls table.just_calls)
  show "cutover_keeps i 4 (restart_step P)"
    by (rule calling_step_gates)
       (auto simp: restart_step_def Let_def hcall_asked intro!: table.with_calls table.call split: option.split perror.split)
qed

lemma finish_cutover_gates:
  fixes P :: "'a infra"
  shows "cutover_keeps i 5 (finish_cutover_step P e org i :: ('a, 'b) migrating_scheme op_step)"
proof (rule calling_step_gates)
  let ?st = "finish_cutover_step P e org i :: ('a, 'b) migrating_scheme op_step"
  show "os_run ?st = Some (the (os_run ?st))" by (simp add: finish_cutover_step_def)
  fix poll rs and w :: "('a, 'b) migrating_scheme" assume p: "phase i secured_row w"
  obtain x w1 where u: "update_project (shifted 13 e) (System_ctx org) (live_row w)
      \<lparr>ui_name = None, ui_description = None, ui_client = None, ui_config = Some (put_member ''primary_domain''
        (JStr (mg_domain (current w))) (case mg_live w of None \<Rightarrow> [] | Some p \<Rightarrow> pj_config p))\<rparr> w = (x, w1)" by fastforce
  have p1: "phase i secured_row w1" using phase_project [OF p] u by (metis snd_conv)
  have "phase i secured_row (asked P (FsRemove (stagePath P org i)) (asked P (DbDrop (stagingDB P i) (stagingUser P i))
      (set_migration (fault e 16) (db_now e) i ''completed'' ''complete'' [] w1)))"
    by (intro table.call TrueI phase_set [OF p1]) (auto simp: statuses)
  then show "ends (the (os_run ?st) poll rs w) (\<lambda>_. phase i secured_row) (\<lambda>_. phase i secured_row)"
    using u p1 by (simp add: finish_cutover_step_def Let_def hcall_asked split: sum.split)
qed (simp_all add: finish_cutover_step_def)

lemma rollback_gates:
  fixes P :: "'a infra"
  shows "step_keeps (\<lambda>_ _. phase i secured_row) (\<lambda>_ _. phase i secured_row) k (rollback_step P e org i :: ('a, 'b) migrating_scheme op_step)"
proof (rule step_keeps_const)
  let ?st = "rollback_step P e org i :: ('a, 'b) migrating_scheme op_step"
  show "os_run ?st = Some (the (os_run ?st))" by (simp add: rollback_step_def)
  fix poll rs and w :: "('a, 'b) migrating_scheme" assume p: "phase i secured_row w"
  let ?w = "opened org i w"
  obtain x w1 where r: "RestoreNow P (fault e 1) (fault e 2) org (target_project ?w) (coalesce (mg_safety (current ?w)) uuid_nil) ?w = (x, w1)"
    by fastforce
  have "phase i secured_row w1"
    using table.restores(2) [OF TrueI, of i secured_row ?w P "fault e 1" "fault e 2" org "target_project ?w" "coalesce (mg_safety (current ?w)) uuid_nil"] p r by simp
  then show "ends (the (os_run ?st) poll rs w) (\<lambda>_. phase i secured_row) (\<lambda>_. phase i secured_row)"
    using r by (auto simp: rollback_step_def Let_def intro!: phase_set split: option.split) (auto simp: statuses)
qed (simp add: rollback_step_def)

section \<open>Runs of the migration service\<close>

datatype migration_event =
    CreateMigration env auth_context migration_input
  | UploadSource env auth_context uuid "string option"
  | RunPlan env cancel_env env job
  | RunMigration env cancel_env env job
  | RunCutover env cancel_env env job
  | RunRollback env cancel_env env job

fun migration_step :: "migrator \<Rightarrow> 'p infra \<Rightarrow> migration_event \<Rightarrow> ('p, 'z) migrating_scheme jobs_db \<Rightarrow> ('p, 'z) migrating_scheme jobs_db" where
  "migration_step M P (CreateMigration e ac inp) d = on_outside (create_migration P e ac inp) d"
| "migration_step M P (UploadSource e ac i data) d = on_outside (upload_source P e ac i data) d"
| "migration_step M P (RunPlan e c oe j) d = snd (engine_execute e c (plan_definition M P oe) j d)"
| "migration_step M P (RunMigration e c oe j) d = snd (engine_execute e c (run_definition M P oe) j d)"
| "migration_step M P (RunCutover e c oe j) d = snd (engine_execute e c (cutover_definition M P oe) j d)"
| "migration_step M P (RunRollback e c oe j) d = snd (engine_execute e c (rollback_definition P oe) j d)"

lemma gates_phase: "gates (migrations w) \<longleftrightarrow> phase i any_row w"
  by (simp add: phase_def row_at_def)

lemma phase_start:
  assumes "gates (migrations w)" and "load_migration failed org i w = Inr m" and "gated m \<Longrightarrow> Q m"
  shows "phase i Q w"
proof -
  have m: "m \<in> set (migrations w)" "mg_id m = i" using assms(2) by (auto simp: load_migration_def split: if_splits option.splits dest: find_SomeD)
  have pk: "pk mg_id (migrations w)" and "gated m" using assms(1) m by (simp_all add: gates_def)
  have "Q x" if x: "x \<in> set (migrations w)" "mg_id x = i" for x
    using pk_unique [OF pk x(1) m(1)] x(2) m(2) assms(3) \<open>gated m\<close> by simp
  then show ?thesis using assms(1) by (simp add: phase_def row_at_def)
qed

lemma gates_create:
  fixes w :: "('a, 'b) migrating_scheme"
  assumes g: "gates (migrations w)"
  shows "gates (migrations (snd (create_migration P e ac inp w)))"
proof -
  have new: "gates (migrations w @ [new_migration P e ac inp t u])" if "new_id e \<notin> mg_id ` set (migrations w)" for t u
    using g that by (auto simp: gates_def new_migration_def statuses pk_def)
  have del: "gates (delete_where q ms)" if "gates ms" for q ms using that by (auto simp: gates_def pk_delete_where)
  have [simp]: "migrations (rec_audit f ac act ty i w') = migrations w'" for f act ty i and w' :: "('a, 'b) migrating_scheme"
    by (simp add: rec_audit_def)
  show ?thesis
  proof (cases "Require ac ''migrations.create''")
    case None
    show ?thesis unfolding create_migration_def None Let_def option.case
      by (simp add: g new del ask_infra_asked asked_def split: sum.split option.split)
  qed (simp add: create_migration_def g)
qed

lemma gates_upload:
  assumes g: "gates (migrations w)"
  shows "gates (migrations (snd (upload_source P e ac i data w)))"
proof (cases "Require ac ''migrations.create''")
  case None
  have a: "gates (migrations (asked P c w))" for c using g by (simp add: asked_def)
  have read: "gates (migrations w2)" if "write_migration f i (\<lambda>m. m\<lparr>mg_source := s, mg_status := ''discovering'', mg_phase := ph, mg_preflight := None,
      mg_updated := t\<rparr>) (asked P c w) = Some w2" for f s ph t c w2
    using phase_write [OF _ that, of any_row any_row] a by (simp add: gates_phase [of _ i] statuses)
  show ?thesis unfolding upload_source_def None Let_def option.case rec_audit_def
    by (simp add: g a read ask_infra_asked split: sum.split option.split)
qed (simp add: upload_source_def g)

lemma execution_gates:
  fixes d d' :: "('p, 'z) migrating_scheme jobs_db"
  assumes "engine_execute e c (migration_definition n pm tool kd tm P mk) j d = (r, d')" and "gates (migrations (outside d))"
    and "op_body (mk (j_org j) i) = StepperOp sts" and "i = migration_target P (j_payload j)"
    and "steps_keep (\<lambda>k rs. J k) (\<lambda>k rs. phase i B) 0 sts" and "\<And>k w. J k w \<Longrightarrow> phase i B w"
    and "op_validate (mk (j_org j) i) (outside d) = None \<Longrightarrow> J 0 (outside d)"
  shows "gates (migrations (outside d'))"
proof -
  have fac: "op' = mk (j_org j) i" if "df_factory (migration_definition n pm tool kd tm P mk) (j_org j) q (j_payload j) = Inr op'" for q op'
    using that assms(4) by (simp add: migration_definition_def)
  have g: "gates (migrations w)" if "phase i B w" for w :: "('p, 'z) migrating_scheme" using that by (simp add: phase_def)
  show ?thesis
    by (rule execution_keeps [OF assms(1) fac assms(3) assms(5) assms(6) assms(7)]) (use assms(2,6) g in auto)
qed

lemma validate_starts:
  "run_validate P e org i w = None \<Longrightarrow> gates (migrations w) \<Longrightarrow> phase i running w"
  "cutover_validate M e org i w = None \<Longrightarrow> gates (migrations w) \<Longrightarrow> phase i ready w"
  "rollback_validate e org i w = None \<Longrightarrow> gates (migrations w) \<Longrightarrow> phase i secured_row w"
  by (auto simp: run_validate_def cutover_validate_def rollback_validate_def statuses elim!: phase_start split: sum.splits if_splits)

lemma plan_gates:
  fixes d d' :: "('p, 'z) migrating_scheme jobs_db"
  assumes "engine_execute e c (plan_definition M P oe) j d = (r, d')" and g: "gates (migrations (outside d))"
  shows "gates (migrations (outside d'))"
  by (rule execution_gates [OF assms(1) [unfolded plan_definition_def] g, where J = "\<lambda>k. phase (migration_target P (j_payload j)) any_row"])
     (use g in \<open>auto simp: discovery_step_gates preflight_step_gates intro: gates_phase [THEN iffD1]\<close>)

lemma run_gates:
  fixes d d' :: "('p, 'z) migrating_scheme jobs_db"
  assumes "engine_execute e c (run_definition M P oe) j d = (r, d')" and g: "gates (migrations (outside d))"
  shows "gates (migrations (outside d'))"
proof -
  let ?i = "migration_target P (j_payload j)"
  have "steps_keep (\<lambda>k rs. run_phase ?i k) (\<lambda>k rs. phase ?i any_row) 0 (migration_run_steps M P oe (j_org j) ?i :: ('p, 'z) migrating_scheme op_step list)"
    using mark_running_gates [of ?i oe "j_org j"] transfer_gates [of ?i M P oe "j_org j"] staging_database_gates [of ?i P oe]
      import_gates [of ?i P oe "j_org j"] validate_gates [of ?i P oe] ready_gates [of ?i oe]
    by (simp add: migration_run_steps_def numeral_eq_Suc)
  note keep = this
  show ?thesis
    by (rule execution_gates [OF assms(1) [unfolded run_definition_def] g _ refl keep])
       (use g in \<open>auto simp: run_phase_def validate_starts intro: phase_any split: if_splits\<close>)
qed

lemma cutover_gates:
  fixes d d' :: "('p, 'z) migrating_scheme jobs_db"
  assumes "engine_execute e c (cutover_definition M P oe) j d = (r, d')" and g: "gates (migrations (outside d))"
  shows "gates (migrations (outside d'))"
proof -
  let ?i = "migration_target P (j_payload j)"
  have "steps_keep (\<lambda>k rs. cutover_phase ?i k) (\<lambda>k rs. phase ?i ready) 0 (cutover_steps M P oe (j_org j) ?i :: ('p, 'z) migrating_scheme op_step list)"
    using begin_cutover_gates [of ?i oe "j_org j"] safety_backup_gates [of ?i P oe "j_org j"] swap_files_gates [of ?i M P oe "j_org j"]
      later_steps_gates(1) [of ?i P ?i] later_steps_gates(2) [of ?i P] finish_cutover_gates [of ?i P oe "j_org j"]
    by (simp add: cutover_steps_def numeral_eq_Suc)
  note keep = this
  show ?thesis
    by (rule execution_gates [OF assms(1) [unfolded cutover_definition_def] g _ refl keep])
       (use g in \<open>auto simp: cutover_phase_def validate_starts intro: secured_ready split: if_splits\<close>)
qed

lemma rollback_run_gates:
  fixes d d' :: "('p, 'z) migrating_scheme jobs_db"
  assumes "engine_execute e c (rollback_definition P oe) j d = (r, d')" and g: "gates (migrations (outside d))"
  shows "gates (migrations (outside d'))"
  by (rule execution_gates [OF assms(1) [unfolded rollback_definition_def] g, where J = "\<lambda>k. phase (migration_target P (j_payload j)) secured_row"])
     (use g in \<open>auto simp: rollback_gates validate_starts\<close>)

lemma migration_step_gates:
  assumes g: "gates (migrations (outside d))"
  shows "gates (migrations (outside (migration_step M P ev d)))"
proof (cases ev)
  case (CreateMigration e ac inp)
  then show ?thesis using gates_create [OF g] by (simp add: on_outside_def)
next
  case (UploadSource e ac i data)
  then show ?thesis using gates_upload [OF g] by (simp add: on_outside_def)
qed (use g in \<open>simp_all, (metis prod.collapse plan_gates run_gates cutover_gates rollback_run_gates)+\<close>)

text \<open>
  C16: No migration skips a gate. Along any sequence of creations, uploads, plans, runs, cutovers and
  rollbacks, with any provider answers, driver errors and cancellations: a migration that is planned or
  further has a preflight report without blockers; one that is ready for the cutover or further has a
  validation without blockers and a health score of at least 50; one that is completed or rolled back has
  a safety backup.
\<close>

theorem migrations_pass_their_gates:
  assumes "gates (migrations (outside d))" and "m \<in> set (migrations (outside (run_ops (migration_step M P) evs d)))"
  shows "(past_plan (mg_status m) \<longrightarrow> cleared m) \<and> (past_run (mg_status m) \<longrightarrow> validated m) \<and> (past_cutover (mg_status m) \<longrightarrow> mg_safety m \<noteq> None)"
proof -
  have "gates (migrations (outside (run_ops (migration_step M P) evs d)))"
    by (rule run_ops_invariant [where I = "\<lambda>d. gates (migrations (outside d))"]) (use assms(1) in \<open>simp_all add: migration_step_gates\<close>)
  then show ?thesis using assms(2) by (simp add: gates_def gated_def)
qed

end
