(* ===== verification/Migration_Examples.thy ===== *)
theory Migration_Examples
  imports Migration_Gates
begin

text \<open>
  A migration whose source cannot be reached, a cutover that cannot read its stage, and a rollback.
\<close>

section \<open>A concrete migration\<close>

text \<open>
  Providers that store every backup under the name r71 and cannot reach the site or list a directory;
  whatever else they are asked they do.
\<close>

definition moving_answers :: "pcall \<Rightarrow> preply" where
  "moving_answers c = (case c of
     ConnPull k i dest \<Rightarrow> ok_reply\<lparr>rp_err := Some (OtherError ''timeout'')\<rparr>
   | FsList p \<Rightarrow> ok_reply\<lparr>rp_err := Some (OtherError ''io'')\<rparr>
   | BkCreate i paths dump \<Rightarrow> ok_reply\<lparr>rp_ref := ''r71'', rp_sum := ''abc''\<rparr>
   | _ \<Rightarrow> ok_reply)"

definition moving_infra :: "unit infra" where
  "moving_infra = (demo_infra [])\<lparr>in_serve := (\<lambda>c p. (moving_answers c, p)),
     in_uuid_text := (\<lambda>i. ''00000000-0000-0000-0000-000000000000''),
     in_parse_uuid := (\<lambda>s. if s = ''m80'' then Some 80 else None)\<rparr>"

definition moving_site :: source_info where
  "moving_site = no_info\<lparr>IsWordPress := True, Plugins := [''akismet''], Files := 3, HasDatabase := True, SiteURL := ''http://old.org''\<rparr>"

definition moving_service :: migrator where
  "moving_service = \<lparr>mi_unzip = (\<lambda>_. None), mi_ctx = (\<lambda>_. None), mi_quote = id, mi_connectors = [''ssh''],
     mi_info = (\<lambda>_. moving_site), mi_backups = True, mi_depth = 3\<rparr>"

definition moving_world :: "unit migrating" where
  "moving_world = \<lparr>clients = [], projects = [\<lparr>pj_id = 10, pj_org = 1, pj_client = None, pj_node = None, pj_name = ''Shop'', pj_slug = ''shop'',
       pj_kind = ''wordpress'', pj_status = ''active'', pj_description = [], pj_config = [], pj_creator = None, pj_created = 1, pj_updated = 1,
       pj_deleted = None\<rparr>],
     project_dbs = [\<lparr>pd_id = 11, pd_org = 1, pd_project = 10, pd_name = ''p_shop'', pd_engine = ''mysql'', pd_user = ''u_shop'',
       pd_secret_key = [], pd_status = ''ready'', pd_created = 2\<rparr>],
     apps = [], nodes = [], projects_audit = [], h_calls = [], h_prov = (), h_loaded = None, backups = [], restores = [],
     policies = [], targets = [], bk_loaded = None, bk_restore = None, bk_safety = None,
     migrations = [], mg_loaded = None, mg_info = no_info, mg_discover = None, mg_rewrites = 0, mg_old_url = [], mg_backup = None,
     mg_live = None, mg_target = []\<rparr>"

definition moving_job :: job where
  "moving_job = scan_job 600 ((demo_run_job 10)\<lparr>jr_payload := JObj [(''resource_id'', JStr ''m80'')]\<rparr>)"

text \<open>A migration that a plan has cleared, and one that a run has made ready.\<close>

definition moving_row :: "string \<Rightarrow> migration_row" where
  "moving_row st = \<lparr>mg_id = 80, mg_org = 1, mg_project = Some 10, mg_kind = ''ssh'', mg_config = [], mg_domain = ''new.org'',
     mg_url = None, mg_status = st, mg_phase = ''preflight'', mg_source = None, mg_cred = None,
     mg_preflight = Some (no_report\<lparr>CanProceed := True\<rparr>, moving_site), mg_validation = Some (no_report\<lparr>CanProceed := True\<rparr>),
     mg_score = Some 100, mg_safety = (if st = ''completed'' then Some 71 else None), mg_staging = None, mg_error = None, mg_creator = None, mg_created = 1, mg_updated = 1,
     mg_finished = None\<rparr>"

definition moving_backup :: backup_row where
  "moving_backup = \<lparr>bk_id = 71, bk_org = 1, bk_project = 10, bk_policy = None, bk_target = None, bk_type = ''files'', bk_status = ''completed'',
     bk_size = 1, bk_sum = Some ''abc'', bk_ref = Some ''r71'', bk_retention = None, bk_verified = Some 1, bk_error = None, bk_created = 1,
     bk_finished = Some 1\<rparr>"

definition moving_jobs :: "string \<Rightarrow> unit migrating jobs_db" where
  "moving_jobs st = \<lparr>jobs = [demo_run_job 10], job_steps = [], notices = [], jobs_audit = [],
     outside = moving_world\<lparr>migrations := [moving_row st], backups := (if st = ''completed'' then [moving_backup] else [])\<rparr>\<rparr>"

definition moving_run :: "job_outcome \<times> unit migrating jobs_db" where
  "moving_run = engine_execute (calm 7 92) no_cancel (run_definition moving_service moving_infra (calm 8 0)) moving_job
     (moving_jobs ''planned'')"

lemma moving_run_ends:
  "(case moving_run of (r, d) \<Rightarrow> map mg_status (migrations (outside d)) = [''failed''] \<and> length (h_calls (outside d)) = 3)"
  by code_simp

theorem live_site_untouched_before_cutover_witness:
  "staged_only moving_infra 1 80 (outside (moving_jobs ''planned'')) (outside (snd moving_run)) \<and>
     map mg_status (migrations (outside (snd moving_run))) = [''failed''] \<and> length (h_calls (outside (snd moving_run))) = 3"
proof -
  have "j_org moving_job = 1" "migration_target moving_infra (j_payload moving_job) = 80" by code_simp+
  then show ?thesis
    using live_site_untouched_before_cutover [of "calm 7 92" no_cancel "run_definition moving_service moving_infra (calm 8 0)"
      moving_job "moving_jobs ''planned''" "fst moving_run" "snd moving_run" moving_service moving_infra "calm 8 0" 80]
      moving_run_ends
    by (simp add: moving_run_def case_prod_beta)
qed

text \<open>A cutover that cannot read the stage: the safety backup 71 is put back.\<close>

definition moving_cutover :: "job_outcome \<times> unit migrating jobs_db" where
  "moving_cutover = engine_execute (calm 7 92) no_cancel (cutover_definition moving_service moving_infra (calm 8 71)) moving_job
     (moving_jobs ''ready_for_cutover'')"

lemma moving_cutover_fails:
  "(case moving_cutover of (JobError _, d) \<Rightarrow> rolled_back (j_id moving_job) d \<and> changes (stagePath moving_infra 1 80) (h_calls (outside d)) \<noteq> [] | _ \<Rightarrow> False)"
  "\<not> rolled_back (j_id moving_job) (moving_jobs ''ready_for_cutover'')"
  "cutover_project 1 80 (outside (moving_jobs ''ready_for_cutover'')) = 10"
  by code_simp+


definition moving_rollback :: "unit migrating jobs_db" where
  "moving_rollback = run_ops (migration_step moving_service moving_infra) [RunRollback (calm 7 92) no_cancel (calm 8 0) moving_job] (moving_jobs ''completed'')"

lemma moving_rollback_row: "map mg_status (migrations (outside moving_rollback)) = [''rolled_back'']"
  by code_simp

theorem migrations_pass_their_gates_witness:
  "\<exists>m. migrations (outside moving_rollback) = [m] \<and> mg_status m = ''rolled_back'' \<and> cleared m \<and> validated m \<and> mg_safety m \<noteq> None"
proof -
  obtain m where m: "migrations (outside moving_rollback) = [m]" "mg_status m = ''rolled_back''"
    using moving_rollback_row by (auto simp: map_eq_Cons_conv)
  have "gates (migrations (outside (moving_jobs ''completed'')))"
    by (simp add: moving_jobs_def gates_def pk_def gated_def cleared_def validated_def moving_row_def no_report_def)
  from migrations_pass_their_gates [OF this, of m moving_service moving_infra "[RunRollback (calm 7 92) no_cancel (calm 8 0) moving_job]",
      folded moving_rollback_def] m
  show ?thesis by (simp add: past_plan_def past_run_def past_cutover_def)
qed

end
