(* ===== verification/Site_Rewrite_Props.thy ===== *)
theory Site_Rewrite_Props
  imports Site_Rewrite
begin

text \<open>
  What the address rewriting of a site migration keeps: literals survive decoding and encoding, a
  serialized PHP value is rewritten to the serialization of the value with its strings rewritten, and
  a dump is changed inside its string literals only.
\<close>

section \<open>Literals\<close>

lemma readLiteral_esc [simp]: "readLiteral (bs # d # r) = prepend (unescape d) (readLiteral r)"
  by simp

lemma readLiteral_plain: "c \<noteq> bs \<Longrightarrow> c \<noteq> sq \<Longrightarrow> readLiteral (c # s) = prepend [c] (readLiteral s)"
  by (cases s) (simp_all add: prepend_def)

lemma readLiteral_close: "rest = [] \<or> hd rest \<noteq> sq \<Longrightarrow> readLiteral (sq # rest) = Some ([], rest)"
  by (cases rest) (auto simp: byte_defs)

lemma unescape_char:
  "unescape bs = [bs]" "unescape sq = [sq]" "unescape (CHR ''n'') = [nl]" "unescape (CHR ''r'') = [cr]"
  "unescape (CHR ''0'') = [nul]" "unescape (CHR ''Z'') = [sub26]"
  by (simp_all add: unescape_def byte_defs)

lemma readLiteral_escape: "readLiteral (escape c @ s) = prepend [c] (readLiteral s)"
  by (simp add: escape_def unescape_char readLiteral_plain)

lemma readLiteral_encode:
  "rest = [] \<or> hd rest \<noteq> sq \<Longrightarrow> readLiteral (encodeLiteral s @ sq # rest) = Some (s, rest)"
  by (induction s) (simp_all add: encodeLiteral_def readLiteral_close readLiteral_escape prepend_def del: readLiteral.simps)

section \<open>Serialized PHP values\<close>

text \<open>
  The values of PHP's \<open>serialize()\<close>: scalars, strings, back references, arrays and objects. A string
  carries its length in bytes.
\<close>

datatype php =
    PNull
  | PBool bool
  | PInt int
  | PFloat string
  | PRef nat
  | PStr string
  | PArr members
  | PObj string members
and members =
    NoMember
  | Member php php members

primrec count_members :: "members \<Rightarrow> nat" where
  "count_members NoMember = 0"
| "count_members (Member k v r) = Suc (count_members r)"

definition int_text :: "int \<Rightarrow> string" where
  "int_text i = (if i < 0 then CHR ''-'' # itoa (nat (- i)) else itoa (nat i))"

definition php_string :: "string \<Rightarrow> string" where
  "php_string s = tok_text (itoa (length s)) @ s @ [dq, CHR '';'']"

definition object_head :: "string \<Rightarrow> nat \<Rightarrow> string" where
  "object_head cls n = ''O:'' @ itoa (length cls) @ [CHR '':'', dq] @ cls @ [dq, CHR '':''] @ itoa n @ '':{''"

primrec serialize :: "php \<Rightarrow> string" and serialize_members :: "members \<Rightarrow> string" where
  "serialize PNull = ''N;''"
| "serialize (PBool b) = (if b then ''b:1;'' else ''b:0;'')"
| "serialize (PInt i) = ''i:'' @ int_text i @ '';''"
| "serialize (PFloat t) = ''d:'' @ t @ '';''"
| "serialize (PRef n) = ''r:'' @ itoa n @ '';''"
| "serialize (PStr s) = php_string s"
| "serialize (PArr ms) = ''a:'' @ itoa (count_members ms) @ '':{'' @ serialize_members ms @ ''}''"
| "serialize (PObj cls ms) = object_head cls (count_members ms) @ serialize_members ms @ ''}''"
| "serialize_members NoMember = []"
| "serialize_members (Member k v r) = serialize k @ serialize v @ serialize_members r"

text \<open>Rewriting every string of a value; \<open>None\<close> when the rewriting of one of them panics.\<close>

primrec map_strings :: "(string \<Rightarrow> string option) \<Rightarrow> php \<Rightarrow> php option"
  and map_members :: "(string \<Rightarrow> string option) \<Rightarrow> members \<Rightarrow> members option" where
  "map_strings f PNull = Some PNull"
| "map_strings f (PBool b) = Some (PBool b)"
| "map_strings f (PInt i) = Some (PInt i)"
| "map_strings f (PFloat t) = Some (PFloat t)"
| "map_strings f (PRef n) = Some (PRef n)"
| "map_strings f (PStr s) = map_option PStr (f s)"
| "map_strings f (PArr ms) = map_option PArr (map_members f ms)"
| "map_strings f (PObj cls ms) = map_option (PObj cls) (map_members f ms)"
| "map_members f NoMember = Some NoMember"
| "map_members f (Member k v r) =
     Option.bind (map_strings f k) (\<lambda>k'. Option.bind (map_strings f v) (\<lambda>v'.
       map_option (Member k' v') (map_members f r)))"

text \<open>
  Floats are written without a slash or the letter s, class names without a slash or a colon.
\<close>

primrec php_ok :: "php \<Rightarrow> bool" and members_ok :: "members \<Rightarrow> bool" where
  "php_ok PNull = True"
| "php_ok (PBool b) = True"
| "php_ok (PInt i) = True"
| "php_ok (PFloat t) = (CHR ''/'' \<notin> set t \<and> CHR ''s'' \<notin> set t)"
| "php_ok (PRef n) = True"
| "php_ok (PStr s) = True"
| "php_ok (PArr ms) = members_ok ms"
| "php_ok (PObj cls ms) = (CHR ''/'' \<notin> set cls \<and> CHR '':'' \<notin> set cls \<and> members_ok ms)"
| "members_ok NoMember = True"
| "members_ok (Member k v r) = (php_ok k \<and> php_ok v \<and> members_ok r)"

section \<open>Segments\<close>

text \<open>A serialized value is a sequence of string tokens and of glue in which no token starts.\<close>

datatype seg = Glue string | Tok string

primrec seg_text :: "seg \<Rightarrow> string" where
  "seg_text (Glue g) = g"
| "seg_text (Tok s) = php_string s"

definition segs_text :: "seg list \<Rightarrow> string" where
  "segs_text ss = concat (map seg_text ss)"

lemma segs_text_simps [simp]:
  "segs_text [] = []" "segs_text (x # ss) = seg_text x @ segs_text ss"
  "segs_text (ss @ ts) = segs_text ss @ segs_text ts"
  by (simp_all add: segs_text_def)

primrec segs_of :: "php \<Rightarrow> seg list" and segs_members :: "members \<Rightarrow> seg list" where
  "segs_of PNull = [Glue (serialize PNull)]"
| "segs_of (PBool b) = [Glue (serialize (PBool b))]"
| "segs_of (PInt i) = [Glue (serialize (PInt i))]"
| "segs_of (PFloat t) = [Glue (serialize (PFloat t))]"
| "segs_of (PRef n) = [Glue (serialize (PRef n))]"
| "segs_of (PStr s) = [Tok s]"
| "segs_of (PArr ms) = Glue (''a:'' @ itoa (count_members ms) @ '':{'') # segs_members ms @ [Glue ''}'']"
| "segs_of (PObj cls ms) = Glue (object_head cls (count_members ms)) # segs_members ms @ [Glue ''}'']"
| "segs_members NoMember = []"
| "segs_members (Member k v r) = segs_of k @ segs_of v @ segs_members r"

lemma segs_of_text: "segs_text (segs_of v) = serialize v"
  and segs_members_text: "segs_text (segs_members ms) = serialize_members ms"
  by (induction v and ms) simp_all

fun sc_free :: "string \<Rightarrow> bool" where
  "sc_free (c # d # r) = (\<not> (c = CHR ''s'' \<and> d = CHR '':'') \<and> sc_free (d # r))"
| "sc_free _ = True"

lemma sc_free_append:
  "sc_free (a @ b) \<longleftrightarrow> sc_free a \<and> sc_free b \<and> (a = [] \<or> b = [] \<or> \<not> (last a = CHR ''s'' \<and> hd b = CHR '':''))"
  by (induction a rule: sc_free.induct) (auto, (cases b, auto)+)

lemma sc_free_no_s: "CHR ''s'' \<notin> set a \<Longrightarrow> sc_free a"
  by (induction a rule: sc_free.induct) auto

lemma sc_free_no_colon: "CHR '':'' \<notin> set a \<Longrightarrow> sc_free a"
  by (induction a rule: sc_free.induct) auto

definition glue_ok :: "string \<Rightarrow> bool" where
  "glue_ok g \<longleftrightarrow> sc_free g \<and> CHR ''/'' \<notin> set g \<and> (g = [] \<or> \<not> isAlnum (last g))"

primrec seg_ok :: "seg \<Rightarrow> bool" where
  "seg_ok (Glue g) = glue_ok g"
| "seg_ok (Tok s) = True"

lemma isAlnum_s: "isAlnum (CHR ''s'')"
  by (simp add: isAlnum_def is_lower_def code_def)

lemma glue_ok_append: "glue_ok a \<Longrightarrow> glue_ok b \<Longrightarrow> glue_ok (a @ b)"
  using isAlnum_s by (auto simp: glue_ok_def sc_free_append last_append)

lemma closers_not_alnum: "\<not> isAlnum (CHR '';'')" "\<not> isAlnum (CHR ''{'')" "\<not> isAlnum (CHR ''}'')"
  by (simp_all add: isAlnum_def is_digit_def is_lower_def is_upper_def code_def)

lemma itoa_chars: "c \<in> set (itoa n) \<Longrightarrow> c \<noteq> CHR ''s'' \<and> c \<noteq> CHR ''/'' \<and> c \<noteq> CHR '':''"
  using itoa_digits [of c n] by (auto simp: is_digit_def code_def)

lemma itoa_lacks [simp]: "CHR ''s'' \<notin> set (itoa n)" "CHR ''/'' \<notin> set (itoa n)" "CHR '':'' \<notin> set (itoa n)"
  using itoa_chars by blast+

lemma int_text_lacks [simp]: "CHR ''s'' \<notin> set (int_text n)" "CHR ''/'' \<notin> set (int_text n)"
  by (simp_all add: int_text_def)

lemma object_head_ok:
  assumes "CHR ''/'' \<notin> set cls" "CHR '':'' \<notin> set cls"
  shows "glue_ok (object_head cls n)"
proof -
  have "sc_free (''O:'' @ itoa (length cls) @ [CHR '':'', dq])"
    by (intro sc_free_no_s) (simp add: byte_defs)
  moreover have "sc_free (cls @ [dq])" using assms by (intro sc_free_no_colon) (simp add: byte_defs)
  moreover have "sc_free (CHR '':'' # itoa n @ '':{'')" by (intro sc_free_no_s) simp
  ultimately have "sc_free ((''O:'' @ itoa (length cls) @ [CHR '':'', dq]) @ (cls @ [dq]) @ (CHR '':'' # itoa n @ '':{''))"
    unfolding sc_free_append [of "''O:'' @ _"] sc_free_append [of "cls @ [dq]"] by (simp add: byte_defs)
  then show ?thesis using assms by (simp add: object_head_def glue_ok_def closers_not_alnum byte_defs)
qed

lemma glue_ok_no_s:
  "CHR ''s'' \<notin> set g \<Longrightarrow> CHR ''/'' \<notin> set g \<Longrightarrow> g = [] \<or> \<not> isAlnum (last g) \<Longrightarrow> glue_ok g"
  by (simp add: glue_ok_def sc_free_no_s)

lemma segs_of_ok: "php_ok v \<Longrightarrow> list_all seg_ok (segs_of v)"
  and segs_members_ok: "members_ok ms \<Longrightarrow> list_all seg_ok (segs_members ms)"
  by (induction v and ms) (simp_all add: glue_ok_no_s closers_not_alnum object_head_ok)

section \<open>The loop on segments\<close>

lemma match_tok_digits:
  "d \<noteq> [] \<Longrightarrow> list_all is_digit d \<Longrightarrow> match_tok (tok_text d @ r) = Some (d, r)"
  by (simp add: match_tok_def tok_text_def has_prefix_def list_all_iff takeWhile_append dropWhile_append
      is_digit_def code_def)

lemma match_tok_not_s: "match_tok (c # x) = None" if "\<not> (c = CHR ''s'' \<and> x \<noteq> [] \<and> hd x = CHR '':'')"
  using that by (cases x) (auto simp: match_tok_def has_prefix_def)

lemma find_tok_glue:
  assumes "sc_free g" "g = [] \<or> last g \<noteq> CHR ''s''"
  shows "find_tok (g @ r) = map_option (\<lambda>(p, d, x). (g @ p, d, x)) (find_tok r)"
  using assms
proof (induction g rule: sc_free.induct, goal_cases)
  case (1 c d g)
  have "match_tok (c # d # g @ r) = None" using 1 by (intro match_tok_not_s) auto
  then show ?case using 1 by (cases "find_tok r") (auto simp: option.map_comp comp_def case_prod_beta)
next
  case (3 c)
  then have "match_tok (c # r) = None" by (intro match_tok_not_s) auto
  then show ?case by simp
qed (simp add: option.map_id)

lemma itoa_all_digits: "list_all is_digit (itoa n)"
  by (simp add: list_all_iff itoa_digits)

lemma find_tok_itoa: "find_tok (tok_text (itoa n) @ r) = Some ([], itoa n, r)"
proof -
  obtain x where "tok_text (itoa n) @ r = CHR ''s'' # x" by (simp add: tok_text_def)
  then show ?thesis using match_tok_digits [of "itoa n" r] by (simp add: itoa_all_digits)
qed

lemma jsonEsc_eq: "jsonEsc s = concat (map (\<lambda>c. if c = CHR ''/'' then [bs, c] else [c]) s)"
  by (induction s) (simp_all add: jsonEsc_def replace_all_def replace_nonempty.simps has_prefix_def)

lemma slash_in_jsonEsc: "CHR ''/'' \<in> set old \<Longrightarrow> CHR ''/'' \<in> set (jsonEsc old)"
  by (auto simp: jsonEsc_eq)

lemma replacePlain_no_slash:
  assumes "CHR ''/'' \<in> set old" "CHR ''/'' \<notin> set g"
  shows "replacePlain old new g = g"
proof -
  have "old \<noteq> []" "jsonEsc old \<noteq> []" using assms slash_in_jsonEsc [of old] by auto
  moreover have "\<not> contains_text old g" "\<not> contains_text (jsonEsc old) g"
    using assms slash_in_jsonEsc [of old] contains_text_char by blast+
  ultimately show ?thesis by (simp add: replacePlain_def)
qed

lemma wrap64_small: "- (2 ^ 63) \<le> i \<Longrightarrow> i < 2 ^ 63 \<Longrightarrow> wrap64 i = i"
  by (simp add: wrap64_def)

lemma loop_end: "rewrite_loop old new txt (length txt) = Some []"
  by (simp add: rewrite_loop.simps)

lemma glue_last_not_s: "glue_ok g \<Longrightarrow> g = [] \<or> last g \<noteq> CHR ''s''"
  using isAlnum_s by (auto simp: glue_ok_def)

lemma loop_tail:
  assumes "CHR ''/'' \<in> set old" "glue_ok g"
  shows "rewrite_loop old new (pre @ g) (length pre) = Some g"
proof -
  have "find_tok g = None"
    using find_tok_glue [of g "[]"] assms(2) glue_last_not_s [of g] by (simp add: glue_ok_def)
  then show ?thesis using assms by (simp add: rewrite_loop.simps glue_ok_def replacePlain_no_slash)
qed

lemma loop_token:
  assumes txt_def: "txt = pre @ g @ php_string s @ rest"
    and slash: "CHR ''/'' \<in> set old" and g: "glue_ok g"
    and before: "pre = [] \<or> \<not> isAlnum (last pre)" and small: "int (length txt) \<le> max_int"
  shows "rewrite_loop old new txt (length pre) =
    (case rewriteSerialized old new s of
       None \<Rightarrow> None
     | Some t \<Rightarrow> map_option (\<lambda>out. g @ php_string t @ out)
         (rewrite_loop old new txt (length (pre @ g @ php_string s))))"
proof -
  let ?n = "length s" and ?d = "itoa (length s)"
  let ?tok = "length pre + length g" and ?content = "length pre + length g + length (tok_text (itoa (length s)))"
  have drop: "drop (length pre) txt = g @ tok_text ?d @ s @ [dq, CHR '';''] @ rest"
    by (simp add: txt_def php_string_def)
  have find: "find_tok (drop (length pre) txt) = Some (g, ?d, s @ [dq, CHR '';''] @ rest)"
    using find_tok_glue [of g] glue_last_not_s [OF g] g unfolding drop find_tok_itoa by (simp add: glue_ok_def find_tok_itoa)
  have len: "length txt = ?content + ?n + 2 + length rest"
    by (simp add: txt_def php_string_def)
  have atoi: "atoi_digits ?d = int ?n"
    using small unfolding len by (simp add: atoi_digits_def)
  have stop: "wrap64 (int ?content + atoi_digits ?d) = int (?content + ?n)"
    and nxt: "wrap64 (int ?content + atoi_digits ?d + 2) = int (?content + ?n + 2)"
    using small unfolding len atoi max_int_def by (simp_all add: wrap64_small)
  have quote: "go_slice txt (int (?content + ?n)) (int (?content + ?n + 2)) = Some [dq, CHR '';'']"
    and inner: "go_slice txt (int ?content) (int (?content + ?n)) = Some s"
    using len by (simp_all add: go_slice_def txt_def php_string_def nat_add_distrib nat_diff_distrib)
  have prev: "?tok = 0 \<or> \<not> isAlnum (txt ! (?tok - 1))"
  proof (cases "pre @ g = []")
    case False
    then have "((pre @ g) @ php_string s @ rest) ! (length (pre @ g) - 1) = last (pre @ g)"
      unfolding last_conv_nth [OF False] by (subst nth_append) simp
    then have "txt ! (?tok - 1) = last (pre @ g)" by (simp add: txt_def)
    then show ?thesis using before g by (auto simp: glue_ok_def last_append)
  qed simp
  have glue: "span txt (length pre) ?tok = g" by (simp add: span_def txt_def)
  show ?thesis
    unfolding rewrite_loop.simps [of old new "txt" "length pre"] find option.case prod.case Let_def stop nxt quote
      inner glue rewriteSerialized_inner nat_int
    using prev slash g
    by (cases "rewriteSerialized old new s")
       (simp_all add: len glue_ok_def replacePlain_no_slash php_string_def add.assoc)
qed

text \<open>The rewriting of a segment sequence, and the loop over its text.\<close>

primrec rewrite_segs :: "(string \<Rightarrow> string option) \<Rightarrow> seg list \<Rightarrow> string option" where
  "rewrite_segs f [] = Some []"
| "rewrite_segs f (x # ss) =
     (case x of
        Glue g \<Rightarrow> map_option (\<lambda>out. g @ out) (rewrite_segs f ss)
      | Tok s \<Rightarrow> Option.bind (f s) (\<lambda>t. map_option (\<lambda>out. php_string t @ out) (rewrite_segs f ss)))"

lemma loop_segs:
  assumes "CHR ''/'' \<in> set old" and "list_all seg_ok ss" and "glue_ok g"
    and "pre = [] \<or> \<not> isAlnum (last pre)" and "int (length (pre @ g @ segs_text ss)) \<le> max_int"
  shows "rewrite_loop old new (pre @ g @ segs_text ss) (length pre) =
    map_option (\<lambda>out. g @ out) (rewrite_segs (rewriteSerialized old new) ss)"
  using assms
proof (induction ss arbitrary: g pre)
  case Nil
  then show ?case using loop_tail [of old g new pre] by simp
next
  case (Cons x ss)
  show ?case
  proof (cases x)
    case (Glue h)
    then have "glue_ok (g @ h)" using Cons.prems by (simp add: glue_ok_append)
    then show ?thesis using Cons.IH [of "g @ h" pre] Cons.prems Glue by (simp add: option.map_comp comp_def)
  next
    case (Tok s)
    let ?pre = "pre @ g @ php_string s"
    have "rewrite_loop old new (?pre @ [] @ segs_text ss) (length ?pre) =
        map_option (\<lambda>out. [] @ out) (rewrite_segs (rewriteSerialized old new) ss)"
      using Cons.prems Tok by (intro Cons.IH) (simp_all add: php_string_def closers_not_alnum glue_ok_def)
    then show ?thesis
      using loop_token [of "pre @ g @ segs_text (x # ss)" pre g s "segs_text ss" old new] Cons.prems Tok
      by (simp add: option.map_comp comp_def Option.bind_def split: option.split)
  qed
qed

lemma map_members_counts:
  "map_strings f v = Some v' \<longrightarrow> True"
  "\<forall>ms'. map_members f ms = Some ms' \<longrightarrow> count_members ms' = count_members ms"
  by (induction v and ms) (auto simp: bind_eq_Some_conv)

lemmas count_map_members = map_members_counts (2) [rule_format]

lemma map_append_Nil [simp]: "map_option ((@) []) x = x"
  by (cases x) simp_all

lemma rewrite_segs_of:
  "rewrite_segs f (segs_of v @ ss) =
     Option.bind (map_strings f v) (\<lambda>v'. map_option (\<lambda>out. serialize v' @ out) (rewrite_segs f ss))"
  and rewrite_segs_members:
  "rewrite_segs f (segs_members ms @ ss) =
     Option.bind (map_members f ms) (\<lambda>ms'. map_option (\<lambda>out. serialize_members ms' @ out) (rewrite_segs f ss))"
proof (induction v and ms arbitrary: ss and ss)
  case (PStr s)
  then show ?case by (cases "f s") simp_all
next
  case (PArr ms)
  then show ?case
    by (cases "map_members f ms"; cases "rewrite_segs f ss") (simp_all add: count_map_members)
next
  case (PObj cls ms)
  then show ?case
    by (cases "map_members f ms"; cases "rewrite_segs f ss") (simp_all add: count_map_members)
next
  case (Member k v r)
  then show ?case
    by (cases "map_strings f k"; cases "map_strings f v"; cases "map_members f r"; cases "rewrite_segs f ss") simp_all
qed (simp_all add: option.map_comp comp_def)

text \<open>A value whose text does not mention the address has no string that does.\<close>

lemma mentions_part: "mentions old s \<Longrightarrow> mentions old (a @ s @ b)"
  by (auto simp: mentions_def contains_text_iff) (metis append_assoc)+

lemma rewrite_segs_untouched:
  "\<not> mentions old (a @ segs_text ss) \<Longrightarrow> rewrite_segs (rewriteSerialized old new) ss = Some (segs_text ss)"
proof (induction ss arbitrary: a)
  case (Cons x ss)
  have r: "rewrite_segs (rewriteSerialized old new) ss = Some (segs_text ss)"
    using Cons.prems by (intro Cons.IH [of "a @ seg_text x"]) simp
  show ?case
  proof (cases x)
    case (Tok s)
    then have "a @ segs_text (x # ss) = (a @ tok_text (itoa (length s))) @ s @ ([dq, CHR '';''] @ segs_text ss)"
      by (simp add: php_string_def)
    then have "\<not> mentions old s"
      using Cons.prems mentions_part [of old s "a @ tok_text (itoa (length s))" "[dq, CHR '';''] @ segs_text ss"]
      by metis
    then have "rewriteSerialized old new s = Some s" by (simp add: rewriteSerialized_def)
    then show ?thesis using r Tok by simp
  qed (use r in simp)
qed simp

lemma rewrite_serialized_segs:
  assumes "CHR ''/'' \<in> set old" and "list_all seg_ok ss" and "int (length (segs_text ss)) \<le> max_int"
  shows "rewriteSerialized old new (segs_text ss) = rewrite_segs (rewriteSerialized old new) ss"
  using loop_segs [of old ss "[]" "[]" new] rewrite_segs_untouched [of old "[]" ss new] assms
  by (simp add: rewriteSerialized_def glue_ok_def option.map_ident)

section \<open>Dumps\<close>

text \<open>
  A string literal as MySQL's manual describes it: bytes that stand for themselves, a doubled quote,
  and a backslash with the byte behind it. \<open>mysql_escapes\<close> is the manual's table of special character
  escape sequences; in any other the backslash is dropped.
\<close>

datatype lit_piece = Plain char | Doubled | Escaped char

primrec piece_text :: "lit_piece \<Rightarrow> string" where
  "piece_text (Plain c) = [c]"
| "piece_text Doubled = [CHR 0x27, CHR 0x27]"
| "piece_text (Escaped c) = [CHR 0x5C, c]"

primrec piece_ok :: "lit_piece \<Rightarrow> bool" where
  "piece_ok (Plain c) = (c \<noteq> CHR 0x27 \<and> c \<noteq> CHR 0x5C)"
| "piece_ok Doubled = True"
| "piece_ok (Escaped c) = True"

definition mysql_escapes :: "(char \<times> string) list" where
  "mysql_escapes =
     [(CHR ''0'', [CHR 0x00]), (CHR 0x27, [CHR 0x27]), (CHR 0x22, [CHR 0x22]), (CHR ''b'', [CHR 0x08]),
      (CHR ''n'', [CHR 0x0A]), (CHR ''r'', [CHR 0x0D]), (CHR ''t'', [CHR 0x09]), (CHR ''Z'', [CHR 0x1A]),
      (CHR 0x5C, [CHR 0x5C]), (CHR 0x25, [CHR 0x5C, CHR 0x25]), (CHR 0x5F, [CHR 0x5C, CHR 0x5F])]"

primrec piece_value :: "lit_piece \<Rightarrow> string" where
  "piece_value (Plain c) = [c]"
| "piece_value Doubled = [CHR 0x27]"
| "piece_value (Escaped c) = (case map_of mysql_escapes c of Some s \<Rightarrow> s | None \<Rightarrow> [c])"

definition lit_text :: "lit_piece list \<Rightarrow> string" where
  "lit_text ps = concat (map piece_text ps)"

definition lit_value :: "lit_piece list \<Rightarrow> string" where
  "lit_value ps = concat (map piece_value ps)"

text \<open>The literal written for a value: the bytes that need it escaped, nothing else.\<close>

definition piece_of :: "char \<Rightarrow> lit_piece" where
  "piece_of c =
     (if c = CHR 0x5C \<or> c = CHR 0x27 then Escaped c
      else if c = CHR 0x0A then Escaped (CHR ''n'')
      else if c = CHR 0x0D then Escaped (CHR ''r'')
      else if c = CHR 0x00 then Escaped (CHR ''0'')
      else if c = CHR 0x1A then Escaped (CHR ''Z'')
      else Plain c)"

lemma lit_simps [simp]:
  "lit_text [] = []" "lit_text (p # ps) = piece_text p @ lit_text ps"
  "lit_value [] = []" "lit_value (p # ps) = piece_value p @ lit_value ps"
  by (simp_all add: lit_text_def lit_value_def)

lemma lit_text_piece_of: "lit_text (map piece_of s) = encodeLiteral s"
  by (induction s) (simp_all add: encodeLiteral_def escape_def piece_of_def byte_defs)

lemma lit_value_piece_of: "lit_value (map piece_of s) = s"
  by (induction s) (simp_all add: piece_of_def mysql_escapes_def)

lemma unescape_mysql: "unescape c = (case map_of mysql_escapes c of Some s \<Rightarrow> s | None \<Rightarrow> [c])"
  by (simp add: unescape_def mysql_escapes_def byte_defs)

lemma readLiteral_text:
  assumes "list_all piece_ok ps" and "rest = [] \<or> hd rest \<noteq> sq"
  shows "readLiteral (lit_text ps @ sq # rest) = Some (lit_value ps, rest)"
  using assms(1)
proof (induction ps)
  case Nil
  then show ?case using readLiteral_close [OF assms(2)] by simp
next
  case (Cons p ps)
  then have IH: "readLiteral (lit_text ps @ sq # rest) = Some (lit_value ps, rest)" by simp
  show ?case
  proof (cases p)
    case (Plain c)
    then have "c \<noteq> bs" "c \<noteq> sq" using Cons.prems by (simp_all add: byte_defs)
    then show ?thesis using Plain IH by (simp add: readLiteral_plain prepend_def)
  next
    case Doubled
    then show ?thesis using IH by (simp add: byte_defs prepend_def)
  next
    case (Escaped c)
    then show ?thesis using IH by (simp add: byte_defs prepend_def unescape_mysql [symmetric])
  qed
qed

text \<open>
  A dump as a sequence of items: code outside literals and comments, line comments with their newline,
  block comments, and string literals as they are written.
\<close>

datatype item = Code string | Line_Comment string | Block_Comment string | Lit "lit_piece list"

primrec item_text :: "item \<Rightarrow> string" where
  "item_text (Code s) = s"
| "item_text (Line_Comment s) = s @ [nl]"
| "item_text (Block_Comment s) = ''/*'' @ s @ ''*/''"
| "item_text (Lit ps) = sq # lit_text ps @ [sq]"

definition dump_text :: "item list \<Rightarrow> string" where
  "dump_text xs = concat (map item_text xs)"

definition code_text :: "string \<Rightarrow> bool" where
  "code_text s \<longleftrightarrow> CHR ''#'' \<notin> set s \<and> sq \<notin> set s \<and> \<not> contains_text ''--'' s \<and> \<not> contains_text ''/*'' s \<and>
     (s = [] \<or> last s \<noteq> CHR ''-'' \<and> last s \<noteq> CHR ''/'')"

primrec item_ok :: "item \<Rightarrow> bool" where
  "item_ok (Code s) = (s \<noteq> [] \<and> code_text s)"
| "item_ok (Line_Comment s) = ((has_prefix ''-- '' s \<or> has_prefix ''#'' s) \<and> nl \<notin> set s)"
| "item_ok (Block_Comment s) = (\<not> contains_text ''*/'' (s @ ''*''))"
| "item_ok (Lit ps) = list_all piece_ok ps"

definition is_lit :: "item \<Rightarrow> bool" where
  "is_lit x = (case x of Lit _ \<Rightarrow> True | _ \<Rightarrow> False)"

text \<open>Two literals in a row would read as one with a quote inside.\<close>

fun dump_ok :: "item list \<Rightarrow> bool" where
  "dump_ok (x # y # r) = (item_ok x \<and> \<not> (is_lit x \<and> is_lit y) \<and> dump_ok (y # r))"
| "dump_ok [x] = item_ok x"
| "dump_ok [] = True"

primrec rewrite_items :: "(string \<Rightarrow> string option) \<Rightarrow> item list \<Rightarrow> (item list \<times> nat) option" where
  "rewrite_items f [] = Some ([], 0)"
| "rewrite_items f (x # xs) =
     (case x of
        Lit ps \<Rightarrow> Option.bind (f (lit_value ps)) (\<lambda>t. map_option
            (\<lambda>(ys, n). if t = lit_value ps then (x # ys, n) else (Lit (map piece_of t) # ys, n + 1)) (rewrite_items f xs))
      | _ \<Rightarrow> map_option (\<lambda>(ys, n). (x # ys, n)) (rewrite_items f xs))"

lemma dump_text_simps [simp]: "dump_text [] = []" "dump_text (x # xs) = item_text x @ dump_text xs"
  by (simp_all add: dump_text_def)

lemma code_text_Cons:
  "code_text (c # s) \<Longrightarrow> code_text s \<and> c \<noteq> CHR ''#'' \<and> c \<noteq> sq \<and> \<not> has_prefix ''-- '' (c # s @ r) \<and> \<not> has_prefix ''/*'' (c # s @ r)"
  by (cases s) (auto simp: code_text_def has_prefix_def)

lemma emit_emit [simp]: "emit a k (emit b l x) = emit (a @ b) (k + l) x"
  by (cases x) (auto simp: emit_def)

lemma emit_Nil [simp]: "emit [] 0 x = x"
  by (cases x) (auto simp: emit_def)

lemma dump_code: "code_text s \<Longrightarrow> rewrite_dump old new (s @ r) = emit s 0 (rewrite_dump old new r)"
proof (induction s)
  case (Cons c s)
  then show ?case using code_text_Cons [of c s r] by (simp add: rewrite_dump.simps)
qed simp

lemma line_of_newline: "nl \<notin> set s \<Longrightarrow> line_of (s @ nl # r) = s"
  by (simp add: line_of_def takeWhile_append)

lemma dump_newline: "rewrite_dump old new (nl # r) = emit [nl] 0 (rewrite_dump old new r)"
  by (simp add: rewrite_dump.simps byte_defs has_prefix_def)

lemma has_prefix_longer: "has_prefix p s \<Longrightarrow> has_prefix p (s @ r)"
  by (auto simp: has_prefix_iff)

lemma dump_line_comment:
  assumes "has_prefix ''-- '' s \<or> has_prefix ''#'' s" "nl \<notin> set s"
  shows "rewrite_dump old new (s @ nl # r) = emit (s @ [nl]) 0 (rewrite_dump old new r)"
proof -
  obtain c t where s: "s = c # t" using assms by (cases s) (auto simp: has_prefix_def)
  have "has_prefix ''-- '' (c # t @ nl # r) \<or> c = CHR ''#''"
    using assms(1) has_prefix_longer [of "''-- ''" s "nl # r"] by (auto simp: s has_prefix_def)
  then show ?thesis using assms(2)
    by (simp add: s rewrite_dump.simps(2) [of old new c "t @ nl # r"] line_of_newline dump_newline)
qed

lemma cut_at_first:
  assumes "sub \<noteq> []" "\<not> contains_text sub (b @ butlast sub)"
  shows "cut_at sub (b @ sub @ r) = Some (b, r)"
  using assms(2)
proof (induction b)
  case Nil
  then show ?case using assms(1) by (cases sub) (auto simp: has_prefix_def)
next
  case (Cons c b)
  have "\<not> has_prefix sub (c # b @ sub @ r)"
  proof
    assume "has_prefix sub (c # b @ sub @ r)"
    then have "sub = take (length sub) ((c # b @ butlast sub) @ [last sub] @ r)"
      using assms(1) unfolding has_prefix_def by (metis append.assoc append_Cons append_butlast_last_id)
    also have "\<dots> = take (length sub) (c # b @ butlast sub)" using assms(1) by (cases sub rule: rev_cases) simp_all
    finally have "has_prefix sub (c # b @ butlast sub)" unfolding has_prefix_def ..
    then show False using Cons.prems by (simp add: has_prefix_iff contains_text_iff) (metis append_Nil)
  qed
  then show ?case using Cons by simp
qed

lemma dump_block_comment:
  assumes "\<not> contains_text ''*/'' (s @ ''*'')"
  shows "rewrite_dump old new (''/*'' @ s @ ''*/'' @ r) = emit (''/*'' @ s @ ''*/'') 0 (rewrite_dump old new r)"
  using cut_at_first [of "''*/''" s r] assms by (simp add: rewrite_dump.simps has_prefix_def)

lemma dump_literal:
  assumes "list_all piece_ok ps" "r = [] \<or> hd r \<noteq> sq"
  shows "rewrite_dump old new (sq # lit_text ps @ sq # r) =
    (case rewriteSerialized old new (lit_value ps) of
       None \<Rightarrow> None
     | Some t \<Rightarrow>
         if t = lit_value ps then emit (sq # lit_text ps @ [sq]) 0 (rewrite_dump old new r)
         else emit (sq # lit_text (map piece_of t) @ [sq]) 1 (rewrite_dump old new r))"
  using readLiteral_text [OF assms] unfolding lit_text_piece_of
  by (simp add: rewrite_dump.simps has_prefix_def byte_defs split: option.split)

lemma starts_with_quote:
  assumes "dump_ok (x # xs)" "is_lit x"
  shows "dump_text xs = [] \<or> hd (dump_text xs) \<noteq> sq"
proof (cases xs)
  case (Cons y r)
  have "item_ok y" using assms Cons by (cases r) auto
  show ?thesis
  proof (cases y)
    case (Code s)
    with \<open>item_ok y\<close> have "s \<noteq> []" "sq \<notin> set s" by (auto simp: code_text_def)
    then have "hd s \<noteq> sq" using hd_in_set [of s] by metis
    with Code \<open>item_ok y\<close> show ?thesis by (simp add: Cons)
  next
    case (Line_Comment s)
    with \<open>item_ok y\<close> show ?thesis by (cases s) (auto simp: Cons has_prefix_def byte_defs)
  qed (use assms Cons in \<open>auto simp: is_lit_def byte_defs\<close>)
qed simp

lemma dump_ok_tl: "dump_ok (x # xs) \<Longrightarrow> item_ok x \<and> dump_ok xs"
  by (cases xs) auto

lemma rewrite_dump_items:
  "dump_ok xs \<Longrightarrow> rewrite_dump old new (dump_text xs) =
     map_option (\<lambda>(ys, n). (dump_text ys, n)) (rewrite_items (rewriteSerialized old new) xs)"
proof (induction xs)
  case Nil
  then show ?case by (simp add: rewrite_dump.simps)
next
  case (Cons x xs)
  have ok: "item_ok x" and IH: "rewrite_dump old new (dump_text xs) =
      map_option (\<lambda>(ys, n). (dump_text ys, n)) (rewrite_items (rewriteSerialized old new) xs)"
    using Cons dump_ok_tl by blast+
  show ?case
  proof (cases x)
    case (Code s)
    then show ?thesis using ok IH
      by (cases "rewrite_items (rewriteSerialized old new) xs") (auto simp: dump_code emit_def)
  next
    case (Line_Comment s)
    then show ?thesis using ok IH
      by (cases "rewrite_items (rewriteSerialized old new) xs") (auto simp: dump_line_comment emit_def)
  next
    case (Block_Comment s)
    then show ?thesis using ok IH dump_block_comment [of s old new "dump_text xs"]
      by (cases "rewrite_items (rewriteSerialized old new) xs") (auto simp: emit_def)
  next
    case (Lit ps)
    then have "dump_text xs = [] \<or> hd (dump_text xs) \<noteq> sq"
      using starts_with_quote Cons.prems by (simp add: is_lit_def)
    moreover have "list_all piece_ok ps" using ok Lit by simp
    ultimately show ?thesis using dump_literal [of ps "dump_text xs" old new] IH Lit
      by (cases "rewriteSerialized old new (lit_value ps)"; cases "rewrite_items (rewriteSerialized old new) xs")
         (auto simp: emit_def)
  qed
qed

section \<open>Properties\<close>

text \<open>
  A decoded literal written out again by \<open>encodeLiteral\<close> reads back as the same bytes and ends at
  its closing quote, whatever bytes it holds.
\<close>

theorem literals_round_trip:
  assumes "rest = [] \<or> hd rest \<noteq> sq"
  shows "readLiteral (encodeLiteral s @ sq # rest) = Some (s, rest)"
  using assms by (rule readLiteral_encode)

theorem literals_round_trip_witness:
  "readLiteral (encodeLiteral [sq, bs, nl, nul, CHR ''a''] @ sq # '', 1'') = Some ([sq, bs, nl, nul, CHR ''a''], '', 1'')"
  by (rule literals_round_trip) (simp add: byte_defs)

text \<open>
  C10: Rewriting a serialized PHP value gives the serialization of that value with every string in it
  rewritten (by the same function, so serialized data inside strings is treated likewise) and every
  length prefix correct for the new content. The address has a slash, as every one with a scheme has.
\<close>

theorem rewrites_serialized_values:
  assumes "CHR ''/'' \<in> set old" and "php_ok v" and "int (length (serialize v)) \<le> max_int"
  shows "rewriteSerialized old new (serialize v) =
    map_option serialize (map_strings (rewriteSerialized old new) v)"
  using rewrite_serialized_segs [of old "segs_of v" new] rewrite_segs_of [of "rewriteSerialized old new" v "[]"] assms
  by (simp add: segs_of_text segs_of_ok map_conv_bind_option comp_def)


theorem rewrites_serialized_values_witness:
  "rewriteSerialized ''http://a'' ''https://bb'' (serialize (PArr (Member (PInt 7) (PStr ''http://a/x'') NoMember))) =
     Some (serialize (PArr (Member (PInt 7) (PStr ''https://bb/x'') NoMember)))"
proof -
  have "map_strings (rewriteSerialized ''http://a'' ''https://bb'') (PArr (Member (PInt 7) (PStr ''http://a/x'') NoMember)) =
      Some (PArr (Member (PInt 7) (PStr ''https://bb/x'') NoMember))"
    by code_simp
  moreover have "int (length (serialize (PArr (Member (PInt 7) (PStr ''http://a/x'') NoMember)))) \<le> max_int"
    by code_simp
  ultimately show ?thesis
    using rewrites_serialized_values [of "''http://a''" "PArr (Member (PInt 7) (PStr ''http://a/x'') NoMember)" "''https://bb''"]
    by simp
qed

text \<open>
  C11: Rewriting a dump changes the string literals that mention the address and nothing else: code,
  line comments and block comments come out byte for byte, and so does every literal, however it is
  escaped, whose value (as MySQL reads it) \<open>rewriteSerialized\<close> leaves alone. A literal whose value it
  changes is replaced by one that MySQL reads as the new value, and the count is the number of those.
  The run panics exactly when the rewriting of a literal's value does.
\<close>

theorem rewrites_literals_only:
  assumes "dump_ok xs"
    and "old = trim_right_char (CHR ''/'') oldURL" and "new = trim_right_char (CHR ''/'') newURL"
    and "old \<noteq> []" and "old \<noteq> new"
  shows "RewriteURLs (dump_text xs) oldURL newURL =
      map_option (\<lambda>(ys, n). (dump_text ys, n)) (rewrite_items (rewriteSerialized old new) xs)
    \<and> lit_value (map piece_of s) = s"
  using assms by (simp add: RewriteURLs_def Let_def rewrite_dump_items lit_value_piece_of)

text \<open>A dump with a doubled quote, an escaped double quote, a tab and a wildcard in its literals.\<close>

definition shop_dump :: "item list" where
  "shop_dump =
     [Line_Comment ''-- http://a'', Code ''INSERT '',
      Lit (map Plain ''it'' @ [Doubled] @ map Plain ''s'' @ [Escaped (CHR ''t''), Escaped (CHR 0x25)]),
      Code '','',
      Lit ([Escaped (CHR 0x22)] @ map Plain ''http://a'' @ [Escaped (CHR 0x22), Doubled, Escaped (CHR ''b'')]), Code '';'']"

theorem rewrites_literals_only_witness:
  "RewriteURLs (dump_text shop_dump) ''http://a/'' ''http://b'' =
     Some (''-- http://a'' @ [nl] @ ''INSERT '' @ [sq] @ ''it'' @ [sq, sq] @ ''s'' @ [bs, CHR ''t'', bs, CHR 0x25, sq] @ '',''
       @ [sq, dq] @ ''http://b'' @ [dq, bs, sq, CHR 0x08, sq] @ '';'', 1)"
proof -
  have "dump_ok shop_dump" by code_simp
  moreover have "map_option (\<lambda>(ys, n). (dump_text ys, n)) (rewrite_items (rewriteSerialized ''http://a'' ''http://b'') shop_dump) =
      Some (''-- http://a'' @ [nl] @ ''INSERT '' @ [sq] @ ''it'' @ [sq, sq] @ ''s'' @ [bs, CHR ''t'', bs, CHR 0x25, sq] @ '',''
       @ [sq, dq] @ ''http://b'' @ [dq, bs, sq, CHR 0x08, sq] @ '';'', 1)" by code_simp
  ultimately show ?thesis
    using rewrites_literals_only [of shop_dump "''http://a''" "''http://a/''" "''http://b''" "''http://b''"]
    by (simp add: trim_right_char_def)
qed

text \<open>
  A value that mentions the address and whose first token announces at least the largest \<open>int\<close>
  makes the rewriting panic: the index behind the content wraps around below the length of the text.
\<close>

theorem huge_length_panics:
  assumes "mentions old txt" and "find_tok txt = Some (p, d, r)" and "max_int \<le> int (digits_value d 0)"
    and "int (length txt) < max_int"
  shows "rewriteSerialized old new txt = None"
proof -
  let ?content = "length p + length (tok_text d)"
  have len: "length txt = ?content + length r" using find_tok_text [OF assms(2)] by simp
  have atoi: "atoi_digits d = max_int" using assms(3) by (simp add: atoi_digits_def)
  have "(2 ^ 64 + (int ?content + 1)) mod 2 ^ 64 = int ?content + 1"
    unfolding mod_add_self1 using assms(4) len by (intro mod_pos_pos_trivial) (simp_all add: max_int_def)
  then have w: "wrap64 (int ?content + max_int + 2) = int ?content + max_int + 2 - 2 ^ 64"
    by (simp add: wrap64_def max_int_def algebra_simps)
  have "wrap64 (int ?content + max_int + 2) \<le> int (length txt)"
    and "wrap64 (int ?content + max_int + 2) < 0"
    unfolding w using assms(4) len by (simp_all add: max_int_def)
  moreover from this(2) have "go_slice txt a (wrap64 (int ?content + max_int + 2)) = None" for a
    by (simp add: go_slice_def)
  moreover have "txt \<noteq> []" using assms(2) by auto
  ultimately show ?thesis
    using assms(1,2)
    by (simp add: rewriteSerialized_def rewrite_loop.simps [of old new "txt" 0] Let_def atoi del: length_append)
qed

lemma digits_value_foldl:
  "int (digits_value cs acc) = foldl (\<lambda>a c. a * 10 + int (code c - 48)) (int acc) cs"
  by (induction cs arbitrary: acc) simp_all

theorem huge_length_panics_witness:
  "rewriteSerialized ''http://a'' ''http://b'' (''http://a s:9223372036854775807:'' @ [dq]) = None"
proof -
  have "mentions ''http://a'' (''http://a s:9223372036854775807:'' @ [dq])"
    and "find_tok (''http://a s:9223372036854775807:'' @ [dq]) = Some (''http://a '', ''9223372036854775807'', [])"
    by code_simp+
  moreover have "max_int \<le> int (digits_value ''9223372036854775807'' 0)"
    unfolding digits_value_foldl by code_simp
  moreover have "int (length (''http://a s:9223372036854775807:'' @ [dq])) < max_int"
    by (simp add: max_int_def)
  ultimately show ?thesis by (rule huge_length_panics)
qed

end
