(* ===== verification/Outbound_Policy.thy ===== *)
theory Outbound_Policy
  imports Go_Net Go_Encoding
begin

text \<open>
  internal/platform/netpolicy: which address an outbound connection may be bound to. The resolver is a parameter.
\<close>

unbundle bit_operations_syntax

section \<open>Addresses of the standard library\<close>

definition same_ip :: "ip \<Rightarrow> ip \<Rightarrow> bool" where
  "same_ip a b \<longleftrightarrow> (if length a = length b then a = b
     else if length a = 4 \<and> length b = 16 then v4_prefix @ a = b
     else if length a = 16 \<and> length b = 4 then a = v4_prefix @ b
     else False)"

definition IsLoopback :: "ip \<Rightarrow> bool" where
  "IsLoopback a = (case To4 a of Some b \<Rightarrow> b ! 0 = 127 | None \<Rightarrow> same_ip a (replicate 15 0 @ [1]))"

definition IsUnspecified :: "ip \<Rightarrow> bool" where
  "IsUnspecified a \<longleftrightarrow> same_ip a (v4_prefix @ [0, 0, 0, 0]) \<or> same_ip a (replicate 16 0)"

definition IsLinkLocalUnicast :: "ip \<Rightarrow> bool" where
  "IsLinkLocalUnicast a = (case To4 a of Some b \<Rightarrow> b ! 0 = 169 \<and> b ! 1 = 254
     | None \<Rightarrow> length a = 16 \<and> a ! 0 = 0xfe \<and> a ! 1 AND 0xc0 = 0x80)"

definition IsLinkLocalMulticast :: "ip \<Rightarrow> bool" where
  "IsLinkLocalMulticast a = (case To4 a of Some b \<Rightarrow> b ! 0 = 224 \<and> b ! 1 = 0 \<and> b ! 2 = 0
     | None \<Rightarrow> length a = 16 \<and> a ! 0 = 0xff \<and> a ! 1 AND 0x0f = 0x02)"

definition IsPrivate :: "ip \<Rightarrow> bool" where
  "IsPrivate a = (case To4 a of Some b \<Rightarrow> b ! 0 = 10 \<or> b ! 0 = 172 \<and> b ! 1 AND 0xf0 = 16 \<or> b ! 0 = 192 \<and> b ! 1 = 168
     | None \<Rightarrow> length a = 16 \<and> a ! 0 AND 0xfe = 0xfc)"

definition IsMulticast :: "ip \<Rightarrow> bool" where
  "IsMulticast a = (case To4 a of Some b \<Rightarrow> b ! 0 AND 0xf0 = 0xe0 | None \<Rightarrow> length a = 16 \<and> a ! 0 = 0xff)"

text \<open>\<open>net.SplitHostPort\<close>; \<open>None\<close> is any of its errors.\<close>

definition split_host_port :: "string \<Rightarrow> (string \<times> string) option" where
  "split_host_port s =
     (case index_of (CHR '':'') (rev s) of None \<Rightarrow> None
      | Some r \<Rightarrow>
     (let i = length s - 1 - r; port = drop (i + 1) s
      in if hd s = CHR ''['' then
           (case index_of (CHR '']'') s of None \<Rightarrow> None
            | Some q \<Rightarrow>
                if q + 1 \<noteq> i \<or> CHR ''['' \<in> set (drop 1 s) \<or> CHR '']'' \<in> set (drop (q + 1) s) then None
                else Some (drop 1 (take q s), port))
         else if CHR '':'' \<in> set (take i s) \<or> CHR ''['' \<in> set s \<or> CHR '']'' \<in> set s then None
         else Some (take i s, port)))"

definition Atoi :: "string \<Rightarrow> int option" where
  "Atoi t =
     (let ds = (if t \<noteq> [] \<and> (hd t = CHR ''-'' \<or> hd t = CHR ''+'') then tl t else t)
      in if list_all is_digit ds then parse_signed t else None)"

definition trim_brackets :: "string \<Rightarrow> string" where
  "trim_brackets s = rev (dropWhile (\<lambda>c. c = CHR ''['' \<or> c = CHR '']'') (rev (dropWhile (\<lambda>c. c = CHR ''['' \<or> c = CHR '']'') s)))"

section \<open>The policy\<close>

datatype level = PublicOnly | RegisteredResources | InternalAllowed

record outbound_policy =
  p_level :: level
  AllowedResource :: "(ip \<Rightarrow> bool) option"

record resolved_target =
  rt_host :: string
  rt_ip :: ip
  rt_port :: string

datatype resolve_error =
    EmptyHost
  | InvalidPort string
  | LookupFailed string string
  | NoAddress string
  | BlockedError string ip string

definition classify :: "ip \<Rightarrow> bool \<times> string" where
  "classify a =
     (if IsLoopback a then (True, ''loopback address'')
      else if IsUnspecified a then (True, ''unspecified address'')
      else if IsLinkLocalUnicast a \<or> IsLinkLocalMulticast a then (True, ''link-local address'')
      else if IsPrivate a then (True, ''private address'')
      else if IsMulticast a then (True, ''multicast address'')
      else (False, []))"

text \<open>Whether the loop of \<open>Resolve\<close> takes an address, and the loop.\<close>

definition takes :: "outbound_policy \<Rightarrow> ip \<Rightarrow> bool" where
  "takes pol a \<longleftrightarrow> \<not> fst (classify a) \<or> p_level pol = InternalAllowed \<or>
     (p_level pol = RegisteredResources \<and> (case AllowedResource pol of None \<Rightarrow> False | Some f \<Rightarrow> f a))"

fun pick :: "outbound_policy \<Rightarrow> ip list \<Rightarrow> string \<Rightarrow> string + ip" where
  "pick pol [] reason = Inl reason"
| "pick pol (a # as) reason = (if takes pol a then Inr a else pick pol as (snd (classify a)))"

definition Resolve :: "(string \<Rightarrow> string + ip list) \<Rightarrow> outbound_policy \<Rightarrow> string \<Rightarrow> string \<Rightarrow> resolve_error + resolved_target" where
  "Resolve lookup pol hostport default_port =
     (let (host, port) = (case split_host_port hostport of Some x \<Rightarrow> x | None \<Rightarrow> (trim_brackets hostport, default_port))
      in if host = [] then Inl EmptyHost
         else if Atoi port = None then Inl (InvalidPort port)
         else case (case ParseIP host of Some a \<Rightarrow> Inr [a] | None \<Rightarrow> lookup host) of
           Inl t \<Rightarrow> Inl (LookupFailed host t)
         | Inr ips \<Rightarrow>
             if ips = [] then Inl (NoAddress host)
             else case pick pol ips [] of
               Inl reason \<Rightarrow> Inl (BlockedError host (hd ips) reason)
             | Inr a \<Rightarrow> Inr \<lparr>rt_host = host, rt_ip = a, rt_port = port\<rparr>)"

section \<open>The classes as address ranges\<close>

text \<open>An address lies in a network when it agrees with the base on the bits of the prefix.\<close>

definition in_net :: "ip \<Rightarrow> ip \<times> nat \<Rightarrow> bool" where
  "in_net a = (\<lambda>(base, n). length a = length base \<and> take (n div 8) a = take (n div 8) base \<and>
     (n mod 8 \<noteq> 0 \<longrightarrow> a ! (n div 8) div 2 ^ (8 - n mod 8) = base ! (n div 8) div 2 ^ (8 - n mod 8)))"

definition internal_v4 :: "(ip \<times> nat) list" where
  "internal_v4 = [([0, 0, 0, 0], 32), ([10, 0, 0, 0], 8), ([127, 0, 0, 0], 8), ([169, 254, 0, 0], 16), ([172, 16, 0, 0], 12),
     ([192, 168, 0, 0], 16), ([224, 0, 0, 0], 4)]"

definition internal_v6 :: "(ip \<times> nat) list" where
  "internal_v6 = [(replicate 16 0, 128), (replicate 15 0 @ [1], 128), (0xfc # replicate 15 0, 7), ([0xfe, 0x80] @ replicate 14 0, 10),
     (0xff # replicate 15 0, 8)]"

definition internal_address :: "ip \<Rightarrow> bool" where
  "internal_address a = (case To4 a of Some b \<Rightarrow> list_ex (in_net b) internal_v4 | None \<Rightarrow> list_ex (in_net a) internal_v6)"

lemma and_mask_high: "x AND push_bit k (mask m) = push_bit k (take_bit m (drop_bit k x))" for x :: nat
  by (rule bit_eqI) (auto simp: bit_simps)

lemma byte_masks:
  assumes "x < (256 :: nat)"
  shows "x AND 0xf0 = 16 \<longleftrightarrow> x div 16 = 1" "x AND 0xf0 = 0xe0 \<longleftrightarrow> x div 16 = 14" "x AND 0xc0 = 0x80 \<longleftrightarrow> x div 64 = 2"
    "x AND 0xfe = 0xfc \<longleftrightarrow> x div 2 = 126"
proof -
  have "x div 16 < 16" "x div 64 < 4" "x div 2 < 128" using assms by auto
  then have "x AND 0xf0 = 16 * (x div 16)" "x AND 0xc0 = 64 * (x div 64)" "x AND 0xfe = 2 * (x div 2)"
    using and_mask_high [of x 4 4] and_mask_high [of x 6 2] and_mask_high [of x 1 7]
    by (simp_all add: push_bit_eq_mult drop_bit_eq_div take_bit_eq_mod mask_eq_exp_minus_1)
  then show "x AND 0xf0 = 16 \<longleftrightarrow> x div 16 = 1" "x AND 0xf0 = 0xe0 \<longleftrightarrow> x div 16 = 14" "x AND 0xc0 = 0x80 \<longleftrightarrow> x div 64 = 2"
    "x AND 0xfe = 0xfc \<longleftrightarrow> x div 2 = 126" by auto
qed

text \<open>The methods of the standard library describe exactly the listed networks.\<close>

definition bytes :: "ip \<Rightarrow> bool" where
  "bytes a \<longleftrightarrow> (length a = 4 \<or> length a = 16) \<and> list_all (\<lambda>x. x < 256) a"

lemma list_4: "length a = 4 \<Longrightarrow> \<exists>w x y z. a = [w, x, y, z]"
  by (auto simp: numeral_eq_Suc length_Suc_conv)

lemma v4_not_zero: "v4_prefix @ c \<noteq> replicate n 0"
proof
  assume e: "v4_prefix @ c = replicate n 0"
  have "255 \<in> set (v4_prefix @ c)" by (simp add: v4_prefix_def)
  then have "255 \<in> set (replicate n (0 :: nat))" by (simp only: e)
  then show False by simp
qed

lemma To4_bytes:
  assumes "bytes a" and "To4 a = Some b"
  shows "length b = 4 \<and> list_all (\<lambda>x. x < 256) b"
  using assms by (auto simp: To4_def bytes_def list_all_iff split: if_splits dest: in_set_dropD)

lemma same_ip_v4:
  assumes "bytes a" "To4 a = Some b" "length c = 4"
  shows "same_ip a (v4_prefix @ c) \<longleftrightarrow> b = c"
proof -
  have p: "length v4_prefix = 12" by (simp add: v4_prefix_def)
  show ?thesis
  proof (cases "length a = 4")
    case True
    then show ?thesis using assms p by (simp add: same_ip_def To4_def)
  next
    case False
    then have "length a = 16 \<and> take 12 a = v4_prefix \<and> b = drop 12 a" using assms by (auto simp: To4_def split: if_splits)
    then have "length a = 16" "a = v4_prefix @ b" by (metis append_take_drop_id)+
    then show ?thesis using p assms(3) by (simp add: same_ip_def)
  qed
qed

lemma classify_blocks:
  "fst (classify a) \<longleftrightarrow> IsLoopback a \<or> IsUnspecified a \<or> IsLinkLocalUnicast a \<or> IsLinkLocalMulticast a \<or> IsPrivate a \<or> IsMulticast a"
  by (simp add: classify_def)

lemma in_net_v4:
  "in_net [w, x, y, z] ([p, q, r, s], 32) \<longleftrightarrow> [w, x, y, z] = [p, q, r, s]"
  "in_net [w, x, y, z] ([p, q, r, s], 16) \<longleftrightarrow> w = p \<and> x = q"
  "in_net [w, x, y, z] ([p, q, r, s], 12) \<longleftrightarrow> w = p \<and> x div 16 = q div 16"
  "in_net [w, x, y, z] ([p, q, r, s], 8) \<longleftrightarrow> w = p"
  "in_net [w, x, y, z] ([p, q, r, s], 4) \<longleftrightarrow> w div 16 = p div 16"
  by (simp_all add: in_net_def)

lemma classify_v4:
  assumes "bytes a" and b: "To4 a = Some b"
  shows "fst (classify a) \<longleftrightarrow> list_ex (in_net b) internal_v4"
proof -
  obtain w x y z where l: "b = [w, x, y, z]" using To4_bytes [OF assms] list_4 [of b] by blast
  have bd: "w < 256" "x < 256" using To4_bytes [OF assms] by (simp_all add: l)
  have u: "IsUnspecified a \<longleftrightarrow> b = [0, 0, 0, 0]"
  proof -
    have "\<not> same_ip a (replicate 16 0)"
    proof (cases "length a = 4")
      case False
      then have "take 12 a = v4_prefix" "length a = 16" using b by (auto simp: To4_def split: if_splits)
      then have "a \<noteq> replicate 16 0" using v4_not_zero [of "drop 12 a" 16] append_take_drop_id [of 12 a] by auto
      then show ?thesis using \<open>length a = 16\<close> by (simp add: same_ip_def)
    qed (use v4_not_zero [of a 16] in \<open>simp add: same_ip_def\<close>)
    then show ?thesis using same_ip_v4 [OF assms, of "[0, 0, 0, 0]"] by (simp add: IsUnspecified_def)
  qed
  have kinds: "IsLoopback a \<longleftrightarrow> w = 127" "IsLinkLocalUnicast a \<longleftrightarrow> w = 169 \<and> x = 254" "IsLinkLocalMulticast a \<longleftrightarrow> w = 224 \<and> x = 0 \<and> y = 0"
    "IsPrivate a \<longleftrightarrow> w = 10 \<or> w = 172 \<and> x div 16 = 1 \<or> w = 192 \<and> x = 168" "IsMulticast a \<longleftrightarrow> w div 16 = 14"
    using b byte_masks [OF bd(1)] byte_masks [OF bd(2)]
    by (simp_all add: IsLoopback_def IsLinkLocalUnicast_def IsLinkLocalMulticast_def IsPrivate_def IsMulticast_def l)
  have nets: "list_ex (in_net b) internal_v4 \<longleftrightarrow> b = [0, 0, 0, 0] \<or> w = 10 \<or> w = 127 \<or> w = 169 \<and> x = 254 \<or>
      w = 172 \<and> x div 16 = 1 \<or> w = 192 \<and> x = 168 \<or> w div 16 = 14"
  proof -
    have d: "(16 :: nat) div 16 = 1" "(224 :: nat) div 16 = 14" by simp_all
    show ?thesis unfolding l internal_v4_def list_ex_Cons_iff list_ex_Nil_iff in_net_v4 d by blast
  qed
  have "w = 224 \<Longrightarrow> w div 16 = 14" by simp
  then show ?thesis unfolding classify_blocks u kinds nets by blast
qed

lemma classify_v6:
  assumes "bytes a" and b: "To4 a = None"
  shows "fst (classify a) \<longleftrightarrow> list_ex (in_net a) internal_v6"
proof -
  have len: "length a = 16" using assms by (auto simp: bytes_def To4_def)
  then obtain w x as where l: "a = w # x # as" "length as = 14" by (auto simp: numeral_eq_Suc length_Suc_conv)
  have bd: "w < 256" "x < 256" using assms(1) by (simp_all add: bytes_def l)
  have s: "same_ip a c \<longleftrightarrow> a = c" if "length c = 16" for c using len that by (simp add: same_ip_def)
  have no: "a \<noteq> v4_prefix @ c" if "length c = 4" for c using b that by (auto simp: To4_def v4_prefix_def)
  have "IsLoopback a \<longleftrightarrow> a = replicate 15 0 @ [1]" "IsUnspecified a \<longleftrightarrow> a = replicate 16 0"
    using b s no [of "[0, 0, 0, 0]"] by (simp_all add: IsLoopback_def IsUnspecified_def v4_prefix_def)
  moreover have "IsLinkLocalUnicast a \<longleftrightarrow> w = 0xfe \<and> x div 64 = 2" "IsPrivate a \<longleftrightarrow> w div 2 = 126" "IsMulticast a \<longleftrightarrow> w = 0xff"
    "IsLinkLocalMulticast a \<Longrightarrow> w = 0xff"
    using b len byte_masks [OF bd(1)] byte_masks [OF bd(2)]
    by (simp_all add: IsLinkLocalUnicast_def IsLinkLocalMulticast_def IsPrivate_def IsMulticast_def l)
  moreover have "list_ex (in_net a) internal_v6 \<longleftrightarrow> a = replicate 16 0 \<or> a = replicate 15 0 @ [1] \<or> w div 2 = 126 \<or>
      w = 0xfe \<and> x div 64 = 2 \<or> w = 0xff"
  proof -
    have "in_net a (c, 128) \<longleftrightarrow> a = c" if "length c = 16" for c using len that by (simp add: in_net_def)
    moreover have "in_net a (0xfc # replicate 15 0, 7) \<longleftrightarrow> w div 2 = 126" "in_net a ([0xfe, 0x80] @ replicate 14 0, 10) \<longleftrightarrow> w = 0xfe \<and> x div 64 = 2"
      "in_net a (0xff # replicate 15 0, 8) \<longleftrightarrow> w = 0xff"
      using len by (simp_all add: in_net_def l)
    ultimately show ?thesis by (simp add: internal_v6_def)
  qed
  ultimately show ?thesis unfolding classify_blocks by blast
qed

text \<open>
  The address classes that outbound targets are checked against are exactly the networks a control plane
  must not be pointed at: this network, loopback, link-local with the metadata endpoint 169.254.169.254,
  the private ranges, and multicast, for IPv4 (also in its mapped form) and IPv6.
\<close>

theorem classify_is_internal:
  assumes "bytes a"
  shows "fst (classify a) \<longleftrightarrow> internal_address a"
  using classify_v4 [OF assms] classify_v6 [OF assms] by (cases "To4 a") (simp_all add: internal_address_def)

theorem classify_is_internal_witness:
  "fst (classify [169, 254, 169, 254]) \<and> fst (classify (v4_prefix @ [127, 0, 0, 1])) \<and> \<not> fst (classify [9, 9, 9, 9])"
  using classify_is_internal [of "[169, 254, 169, 254]"] classify_is_internal [of "v4_prefix @ [127, 0, 0, 1]"]
    classify_is_internal [of "[9, 9, 9, 9]"]
  by (simp add: bytes_def internal_address_def To4_def v4_prefix_def internal_v4_def in_net_def list_all_iff)

lemma pick_Inr:
  "pick pol ips reason = Inr a \<Longrightarrow> \<exists>bs cs. ips = bs @ a # cs \<and> takes pol a \<and> (\<forall>b \<in> set bs. \<not> takes pol b)"
proof (induction ips arbitrary: reason)
  case (Cons x xs)
  show ?case
  proof (cases "takes pol x")
    case True
    then show ?thesis using Cons.prems by (intro exI [of _ "[]"] exI [of _ xs]) auto
  next
    case False
    then obtain bs cs where "xs = bs @ a # cs" "takes pol a" "\<forall>b \<in> set bs. \<not> takes pol b"
      using Cons.IH [of "snd (classify x)"] Cons.prems by auto
    then show ?thesis using False by (intro exI [of _ "x # bs"] exI [of _ cs]) auto
  qed
qed simp

text \<open>The addresses a target stands for: itself when it is a literal, what the one lookup answers otherwise.\<close>

definition addresses :: "(string \<Rightarrow> string + ip list) \<Rightarrow> string \<Rightarrow> ip set" where
  "addresses lookup host =
     (case ParseIP host of Some a \<Rightarrow> {a} | None \<Rightarrow> (case lookup host of Inl _ \<Rightarrow> {} | Inr ips \<Rightarrow> set ips))"

text \<open>
  C38: A target that is let through under \<open>PublicOnly\<close> is bound to an address of the host it names that lies
  in none of the internal networks; under \<open>RegisteredResources\<close> an internal one has to be registered. The
  hypothesis on the resolver is that it answers addresses of four or sixteen bytes.
\<close>

theorem resolved_target_is_permitted:
  assumes "Resolve lookup pol hostport port = Inr t" and "\<And>h ips. lookup h = Inr ips \<Longrightarrow> \<forall>a \<in> set ips. bytes a"
  shows "rt_ip t \<in> addresses lookup (rt_host t) \<and>
     (case p_level pol of
        PublicOnly \<Rightarrow> \<not> internal_address (rt_ip t)
      | RegisteredResources \<Rightarrow> internal_address (rt_ip t) \<longrightarrow> (\<exists>f. AllowedResource pol = Some f \<and> f (rt_ip t))
      | InternalAllowed \<Rightarrow> True)"
proof -
  obtain ips where ips: "(case ParseIP (rt_host t) of Some a \<Rightarrow> Inr [a] | None \<Rightarrow> lookup (rt_host t)) = Inr ips" "pick pol ips [] = Inr (rt_ip t)"
    using assms(1) by (auto simp: Resolve_def Let_def split: prod.splits if_splits sum.splits cong: option.case_cong)
  have "rt_ip t \<in> set ips" "takes pol (rt_ip t)" using pick_Inr [OF ips(2)] by auto
  moreover from this have "rt_ip t \<in> addresses lookup (rt_host t)" using ips(1) by (auto simp: addresses_def split: option.splits)
  moreover have "bytes (rt_ip t)"
    using \<open>rt_ip t \<in> set ips\<close> ips(1) assms(2) ParseIP_bytes [of "rt_host t"] by (auto simp: bytes_def split: option.splits)
  ultimately show ?thesis
    using classify_v4 [of "rt_ip t"] classify_v6 [of "rt_ip t"] by (auto simp: takes_def internal_address_def split: level.split option.splits)
qed

definition demo_lookup :: "string \<Rightarrow> string + ip list" where
  "demo_lookup h = (if h = ''mixed.example'' then Inr [[10, 0, 0, 7], [9, 9, 9, 9]] else Inl ''no such host'')"

theorem resolved_target_is_permitted_witness:
  "Resolve demo_lookup \<lparr>p_level = PublicOnly, AllowedResource = None\<rparr> ''mixed.example:443'' ''80'' =
     Inr \<lparr>rt_host = ''mixed.example'', rt_ip = [9, 9, 9, 9], rt_port = ''443''\<rparr> \<and> \<not> internal_address [9, 9, 9, 9]"
proof -
  have "Resolve demo_lookup \<lparr>p_level = PublicOnly, AllowedResource = None\<rparr> ''mixed.example:443'' ''80'' =
     Inr \<lparr>rt_host = ''mixed.example'', rt_ip = [9, 9, 9, 9], rt_port = ''443''\<rparr>" by code_simp
  moreover have "\<forall>a \<in> set ips. bytes a" if "demo_lookup h = Inr ips" for h ips
    using that by (auto simp: demo_lookup_def bytes_def split: if_splits)
  ultimately show ?thesis using resolved_target_is_permitted [of demo_lookup _ "''mixed.example:443''" "''80''"] by fastforce
qed

end
