(* ===== verification/Rate_Limits.thy ===== *)
theory Rate_Limits
  imports Nodera_Prelude
begin

text \<open>
  internal/platform/ratelimit: the two fixed-window limiters behind the interface Allower. The locale allower is
  what its callers rely on; both limiters are interpretations of it.
\<close>

section \<open>The interface\<close>

text \<open>
  A limiter answers a call under a key at a time. \<open>live s k t\<close> is the window of the key that is open at \<open>t\<close>:
  how many calls it counted and when it ends, if it ends.
\<close>

definition earlier :: "time \<Rightarrow> time option \<Rightarrow> bool" where
  "earlier t e = (case e of None \<Rightarrow> True | Some x \<Rightarrow> t < x)"

lemma earlier_mono: "earlier t' e \<Longrightarrow> t \<le> t' \<Longrightarrow> earlier t e"
  by (cases e) (auto simp: earlier_def)

lemma earlier_simps [simp]: "earlier t None" "earlier t (Some x) \<longleftrightarrow> t < x"
  by (simp_all add: earlier_def)

locale allower =
  fixes allow :: "time \<Rightarrow> 'k \<Rightarrow> 's \<Rightarrow> bool \<times> 's"
    and live :: "'s \<Rightarrow> 'k \<Rightarrow> time \<Rightarrow> (nat \<times> time option) option"
    and limit :: int and interval :: time
  assumes opens: "live s k t = None \<Longrightarrow> 0 < interval \<Longrightarrow>
      live (snd (allow t k s)) k t = Some (1, Some (t + interval)) \<and> (0 < limit \<longrightarrow> fst (allow t k s))"
    and counts: "live s k t = Some (n, e) \<Longrightarrow> int n < limit \<Longrightarrow> fst (allow t k s) \<and> live (snd (allow t k s)) k t = Some (n + 1, e)"
    and refuses: "live s k t = Some (n, e) \<Longrightarrow> limit \<le> int n \<Longrightarrow>
      \<not> fst (allow t k s) \<and> (\<exists>m. limit \<le> int m \<and> live (snd (allow t k s)) k t = Some (m, e))"
    and others: "k \<noteq> j \<Longrightarrow> live (snd (allow t j s)) k t = live s k t"
    and lasts: "live s k t = Some (n, e) \<Longrightarrow> t \<le> t' \<Longrightarrow> earlier t' e \<Longrightarrow> live s k t' = Some (n, e)"
    and passes: "t \<le> t' \<Longrightarrow> live s k t' = None \<or> live s k t' = live s k t"
    and ends: "live s k t = Some (n, Some x) \<Longrightarrow> t \<le> x"

text \<open>How many calls under the key are granted along a sequence of calls, and the state after it.\<close>

fun granted :: "(time \<Rightarrow> 'k \<Rightarrow> 's \<Rightarrow> bool \<times> 's) \<Rightarrow> ('k \<Rightarrow> bool) \<Rightarrow> (time \<times> 'k) list \<Rightarrow> 's \<Rightarrow> int" where
  "granted allow K [] s = 0"
| "granted allow K ((t, j) # cs) s = (if K j \<and> fst (allow t j s) then 1 else 0) + granted allow K cs (snd (allow t j s))"

fun after :: "(time \<Rightarrow> 'k \<Rightarrow> 's \<Rightarrow> bool \<times> 's) \<Rightarrow> (time \<times> 'k) list \<Rightarrow> 's \<Rightarrow> 's" where
  "after allow [] s = s"
| "after allow ((t, j) # cs) s = after allow cs (snd (allow t j s))"

text \<open>Calls in the order of their times, the first at \<open>t\<close> or later.\<close>

definition timed :: "time \<Rightarrow> (time \<times> 'k) list \<Rightarrow> bool" where
  "timed t cs \<longleftrightarrow> sorted (t # map fst cs)"

lemma timed_Cons: "timed t0 ((t, j) # cs) \<longleftrightarrow> t0 \<le> t \<and> timed t cs"
  by (auto simp: timed_def)

lemma timed_Nil [simp]: "timed t []"
  by (simp add: timed_def)

context allower begin

text \<open>What a call does to the window of its own key, and to another one.\<close>

lemma call_cases:
  assumes "live s k t = Some (n, e)"
  obtains (granted) "int n < limit" "fst (allow t k s)" "live (snd (allow t k s)) k t = Some (n + 1, e)"
  | (refused) m where "limit \<le> int n" "limit \<le> int m" "\<not> fst (allow t k s)" "live (snd (allow t k s)) k t = Some (m, e)"
  using counts [OF assms] refuses [OF assms] by (cases "int n < limit") auto

lemma in_window:
  assumes "live s k t0 = Some (n, e)" and "timed t0 cs" and "\<forall>c \<in> set cs. earlier (fst c) e"
  shows "granted allow ((=) k) cs s \<le> max 0 (limit - int n)"
  using assms
proof (induction cs arbitrary: s n t0)
  case (Cons c cs)
  obtain t j where c: "c = (t, j)" by (cases c)
  have t: "t0 \<le> t" "timed t cs" "earlier t e" "\<forall>c \<in> set cs. earlier (fst c) e" using Cons.prems by (auto simp: c timed_Cons)
  have l: "live s k t = Some (n, e)" by (rule lasts [OF Cons.prems(1) t(1,3)])
  show ?case
  proof (cases "k = j")
    case False
    then have "live (snd (allow t j s)) k t = Some (n, e)" using others [of k j t s] l by simp
    from Cons.IH [OF this t(2,4)] show ?thesis using False by (simp add: c)
  next
    case True
    from l show ?thesis
    proof (cases rule: call_cases)
      case granted
      from Cons.IH [OF granted(3) t(2,4)] granted(1,2) show ?thesis using True by (simp add: c)
    next
      case (refused m)
      from Cons.IH [OF refused(4) t(2,4)] refused(1-3) show ?thesis using True by (simp add: c)
    qed
  qed
qed simp

lemma from_idle:
  assumes "0 < interval" and "live s k t0 = None" and "timed t0 cs" and "\<forall>c \<in> set cs. fst c < t0 + interval"
  shows "granted allow ((=) k) cs s \<le> max 1 limit"
  using assms(2-)
proof (induction cs arbitrary: s t0)
  case (Cons c cs)
  obtain t j where c: "c = (t, j)" by (cases c)
  have t: "t0 \<le> t" "timed t cs" "\<forall>c \<in> set cs. fst c < t + interval" using Cons.prems by (auto simp: c timed_Cons)
  have l: "live s k t = None" using passes [OF t(1), of s k] Cons.prems(1) by auto
  show ?case
  proof (cases "k = j")
    case False
    then have "live (snd (allow t j s)) k t = None" using others [of k j t s] l by simp
    from Cons.IH [OF this t(2,3)] show ?thesis using False by (simp add: c)
  next
    case True
    have "live (snd (allow t k s)) k t = Some (1, Some (t + interval))" using opens [OF l assms(1)] by simp
    from in_window [OF this t(2)] t(3) show ?thesis using True by (auto simp: c max_def split: if_splits)
  qed
qed simp

lemma any_period:
  assumes "0 < interval" and "timed t0 cs" and "\<forall>c \<in> set cs. fst c < t0 + interval"
  shows "granted allow ((=) k) cs s \<le> 2 * max 1 limit"
proof (cases "live s k t0")
  case None
  then show ?thesis using from_idle [OF assms(1) None assms(2,3)] by simp
next
  case (Some w)
  have "granted allow ((=) k) cs s \<le> max 0 (limit - int (fst w)) + max 1 limit"
    using Some assms(2,3)
  proof (induction cs arbitrary: s t0 w)
    case (Cons c cs)
    obtain t j where c: "c = (t, j)" by (cases c)
    obtain n e where w: "w = (n, e)" by (cases w)
    have t: "t0 \<le> t" "timed t cs" "\<forall>c \<in> set cs. fst c < t + interval" using Cons.prems by (auto simp: c timed_Cons)
    consider (idle) "live s k t = None" | (opened) "live s k t = Some (n, e)"
      using passes [OF t(1), of s k] Cons.prems(1) by (auto simp: w)
    then show ?case
    proof cases
      case idle
      have "timed t (c # cs)" "\<forall>x \<in> set (c # cs). fst x < t + interval" using t assms(1) by (auto simp: c timed_Cons)
      from from_idle [OF assms(1) idle this] show ?thesis by simp
    next
      case opened
      show ?thesis
      proof (cases "k = j")
        case False
        then have "live (snd (allow t j s)) k t = Some w" using others [of k j t s] opened by (simp add: w)
        from Cons.IH [OF this t(2,3)] show ?thesis using False by (simp add: c)
      next
        case True
        from opened show ?thesis
        proof (cases rule: call_cases)
          case granted
          from Cons.IH [OF granted(3) t(2,3)] granted(1,2) show ?thesis using True by (simp add: c w)
        next
          case (refused m)
          from Cons.IH [OF refused(4) t(2,3)] refused(1-3) show ?thesis using True by (simp add: c w)
        qed
      qed
    qed
  qed simp
  then show ?thesis by simp
qed

lemma idle_key:
  assumes "0 < interval" and "0 < limit" and "\<And>n e. live s k t0 = Some (n, e) \<Longrightarrow> \<exists>x < T. e = Some x" and "timed t0 cs" and "t0 \<le> T"
    and "\<forall>c \<in> set cs. fst c \<le> T \<and> (snd c = k \<longrightarrow> fst c + interval < T)"
  shows "fst (allow T k (after allow cs s))"
  using assms(3-)
proof (induction cs arbitrary: s t0)
  case Nil
  have "live s k T = None"
    using passes [OF Nil(3), of s k] Nil(1) ends [of s k T] by (cases "live s k T") fastforce+
  then show ?case using opens assms(1,2) by simp
next
  case (Cons c cs)
  obtain t j where c: "c = (t, j)" by (cases c)
  have t: "t0 \<le> t" "timed t cs" "t \<le> T" using Cons.prems by (auto simp: c timed_Cons)
  have old: "\<exists>x < T. e = Some x" if "live s k t = Some (n, e)" for n e
    using passes [OF t(1), of s k] that Cons.prems(1) [of n e] by auto
  have "\<exists>x < T. e = Some x" if new: "live (snd (allow t j s)) k t = Some (n, e)" for n e
  proof (cases "k = j")
    case False
    then show ?thesis using others [of k j t s] new old [of n e] by simp
  next
    case True
    show ?thesis
    proof (cases "live s k t")
      case None
      then show ?thesis using opens [OF None assms(1)] new True Cons.prems(4) by (auto simp: c)
    next
      case (Some w)
      then obtain n' where l: "live s k t = Some (n', snd w)" by (cases w) auto
      from l show ?thesis using old [OF l] new True by (cases rule: call_cases) auto
    qed
  qed
  from Cons.IH [OF this t(2,3)] Cons.prems(4) show ?case by (simp add: c)
qed

end

section \<open>The limiter of one process\<close>

text \<open>internal/platform/ratelimit/ratelimit.go.\<close>

record window =
  w_count :: nat
  windowEnd :: time

type_synonym windows = "string \<Rightarrow> window option"

definition sweepLocked :: "time \<Rightarrow> windows \<Rightarrow> windows" where
  "sweepLocked now ws = (\<lambda>k. case ws k of None \<Rightarrow> None | Some w \<Rightarrow> if now > windowEnd w then None else Some w)"

definition Allow :: "int \<Rightarrow> time \<Rightarrow> time \<Rightarrow> string \<Rightarrow> windows \<Rightarrow> bool \<times> windows" where
  "Allow limit interval now key ws =
     (let fresh = (True, sweepLocked now (ws(key \<mapsto> \<lparr>w_count = 1, windowEnd = now + interval\<rparr>)))
      in case ws key of None \<Rightarrow> fresh
       | Some w \<Rightarrow>
           if now > windowEnd w then fresh
           else if int (w_count w) \<ge> limit then (False, ws)
           else (True, ws(key \<mapsto> w\<lparr>w_count := w_count w + 1\<rparr>)))"

definition open_window :: "windows \<Rightarrow> string \<Rightarrow> time \<Rightarrow> (nat \<times> time option) option" where
  "open_window ws k t = (case ws k of None \<Rightarrow> None | Some w \<Rightarrow> if t > windowEnd w then None else Some (w_count w, Some (windowEnd w)))"

interpretation limiter: allower "Allow limit interval" open_window limit interval
  for limit interval
  by unfold_locales
     (auto simp: Allow_def open_window_def sweepLocked_def Let_def split: option.splits if_splits)

text \<open>
  C39: In every period shorter than the interval a key is granted at most twice the limit of calls, and at
  most the limit when no window of the key is open at its start; a limit below one counts as one. Calls
  under other keys do not matter.
\<close>

theorem limiter_bounds_calls:
  assumes "0 < interval" and "timed t0 cs" and "\<forall>c \<in> set cs. fst c < t0 + interval"
  shows "granted (Allow limit interval) ((=) k) cs ws \<le> (if open_window ws k t0 = None then 1 else 2) * max 1 limit"
  using limiter.any_period [OF assms, of limit k ws] limiter.from_idle [OF assms(1) _ assms(2,3), of ws k limit] by simp

theorem limiter_bounds_calls_witness:
  "granted (Allow 2 10) ((=) ''a'') [(1, ''a''), (2, ''b''), (3, ''a''), (4, ''a''), (9, ''a'')] Map.empty \<le> 2 \<and>
   granted (Allow 2 10) ((=) ''a'') [(1, ''a''), (2, ''b''), (3, ''a''), (4, ''a''), (9, ''a'')] Map.empty = 2"
proof -
  have "granted (Allow 2 10) ((=) ''a'') [(1, ''a''), (2, ''b''), (3, ''a''), (4, ''a''), (9, ''a'')] Map.empty = 2" by code_simp
  then show ?thesis
    using limiter_bounds_calls [of 10 0 "[(1, ''a''), (2, ''b''), (3, ''a''), (4, ''a''), (9, ''a'')]" 2 "''a''" Map.empty]
    by (simp add: timed_def open_window_def)
qed

text \<open>
  C40: Nobody is locked out: a key that no call of the last interval used is granted its next call, whatever
  calls other keys make and however often the key was refused before.
\<close>

theorem limiter_lets_idle_key_in:
  assumes "0 < interval" and "0 < limit" and "timed t0 cs" and "t0 \<le> T"
    and "\<forall>c \<in> set cs. fst c \<le> T \<and> (snd c = k \<longrightarrow> fst c + interval < T)"
  shows "fst (Allow limit interval T k (after (Allow limit interval) cs Map.empty))"
  by (rule limiter.idle_key [OF assms(1,2) _ assms(3-5)]) (simp add: open_window_def)

theorem limiter_lets_idle_key_in_witness:
  "fst (Allow 1 10 20 ''a'' (after (Allow 1 10) [(1, ''a''), (2, ''a''), (15, ''b'')] Map.empty)) \<and>
   \<not> fst (Allow 1 10 2 ''a'' (after (Allow 1 10) [(1, ''a'')] Map.empty))"
proof -
  have "\<not> fst (Allow 1 10 2 ''a'' (after (Allow 1 10) [(1, ''a'')] Map.empty))" by code_simp
  then show ?thesis
    using limiter_lets_idle_key_in [of 10 1 0 "[(1, ''a''), (2, ''a''), (15, ''b'')]" 20 "''a''"] by (simp add: timed_def)
qed

section \<open>The limiter of a deployment\<close>

text \<open>
  internal/platform/ratelimit/redis.go. A key of Redis holds a counter and, once \<open>EXPIRE\<close> was called, when it
  ends. The two commands the code uses, as Redis documents them:
\<close>

record redis_entry =
  re_count :: nat
  re_expires :: "time option"

type_synonym redis = "string \<Rightarrow> redis_entry option"

definition redis_get :: "redis \<Rightarrow> string \<Rightarrow> time \<Rightarrow> redis_entry option" where
  "redis_get r k t = (case r k of None \<Rightarrow> None | Some e \<Rightarrow> if earlier t (re_expires e) then Some e else None)"

definition redis_incr :: "time \<Rightarrow> string \<Rightarrow> redis \<Rightarrow> nat \<times> redis" where
  "redis_incr t k r =
     (case redis_get r k t of
        None \<Rightarrow> (1, r(k \<mapsto> \<lparr>re_count = 1, re_expires = None\<rparr>))
      | Some e \<Rightarrow> (re_count e + 1, r(k \<mapsto> e\<lparr>re_count := re_count e + 1\<rparr>)))"

definition redis_expire :: "time \<Rightarrow> string \<Rightarrow> time \<Rightarrow> redis \<Rightarrow> redis" where
  "redis_expire t k d r =
     (case redis_get r k t of None \<Rightarrow> r | Some e \<Rightarrow> r(k \<mapsto> e\<lparr>re_expires := Some (t + d)\<rparr>))"

text \<open>What becomes of the \<open>INCR\<close>: it is served, it does not reach Redis, or only its reply is lost.\<close>

datatype delivery = Served | NotReached | ReplyLost

definition full_key :: "string \<Rightarrow> string \<Rightarrow> string" where
  "full_key prefix key = prefix @ '':'' @ key"

definition count_call :: "string \<Rightarrow> int \<Rightarrow> time \<Rightarrow> bool \<Rightarrow> time \<Rightarrow> string \<Rightarrow> redis \<Rightarrow> bool \<times> redis" where
  "count_call prefix limit interval expire_fails now key r =
     (let (n, r1) = redis_incr now (full_key prefix key) r
      in (int n \<le> limit, if n = 1 \<and> \<not> expire_fails then redis_expire now (full_key prefix key) interval r1 else r1))"

definition RedisAllow ::
  "string \<Rightarrow> int \<Rightarrow> time \<Rightarrow> (time \<Rightarrow> string \<Rightarrow> 'f \<Rightarrow> bool \<times> 'f) option \<Rightarrow> time \<Rightarrow> string \<times> delivery \<times> bool \<Rightarrow> redis \<times> 'f
     \<Rightarrow> bool \<times> redis \<times> 'f" where
  "RedisAllow prefix limit interval fallback now = (\<lambda>(key, incr, expire_fails) (r, f).
     if incr = Served then (case count_call prefix limit interval expire_fails now key r of (b, r1) \<Rightarrow> (b, r1, f))
     else (let r1 = (if incr = ReplyLost then snd (redis_incr now (full_key prefix key) r) else r)
           in case fallback of
                None \<Rightarrow> (True, r1, f)
              | Some a \<Rightarrow> (case a now key f of (b, f1) \<Rightarrow> (b, r1, f1))))"

definition redis_window :: "string \<Rightarrow> redis \<Rightarrow> string \<Rightarrow> time \<Rightarrow> (nat \<times> time option) option" where
  "redis_window prefix r k t =
     (case redis_get r (full_key prefix k) t of None \<Rightarrow> None
      | Some e \<Rightarrow> if re_count e = 0 then None else Some (re_count e, re_expires e))"

lemma full_key_inj [simp]: "full_key prefix j = full_key prefix k \<longleftrightarrow> j = k"
  by (simp add: full_key_def)

text \<open>To the code a counter at zero is as good as none.\<close>

interpretation redis: allower "count_call prefix limit interval False" "redis_window prefix" limit interval
  for prefix limit interval
proof
  fix r :: redis and k t n e
  assume "redis_window prefix r k t = Some (n, e)" "int n < limit"
  then show "fst (count_call prefix limit interval False t k r) \<and>
      redis_window prefix (snd (count_call prefix limit interval False t k r)) k t = Some (n + 1, e)"
    by (auto simp: count_call_def redis_incr_def redis_expire_def redis_window_def redis_get_def split: option.splits if_splits)
qed (auto simp: count_call_def redis_incr_def redis_expire_def redis_window_def redis_get_def Let_def dest: earlier_mono split: option.splits if_splits)

section \<open>Redis out of reach\<close>

definition reached :: "delivery \<Rightarrow> (time \<times> string \<times> delivery \<times> bool) list \<Rightarrow> (time \<times> string) list" where
  "reached d cs = map (\<lambda>(t, j, _). (t, j)) (filter (\<lambda>(_, _, i, _). i = d) cs)"

lemma timed_reached: "timed t0 cs \<Longrightarrow> timed t0 (reached d cs)"
proof (induction cs)
  case (Cons c cs)
  obtain t j i x where c: "c = (t, j, i, x)" by (metis prod_cases4)
  have "timed t0 cs" if "timed t cs" "t0 \<le> t" using that by (auto simp: timed_def)
  then show ?case using Cons by (auto simp: c reached_def timed_Cons) (auto simp: timed_def)
qed (simp add: reached_def)

lemma granted_outage:
  assumes "\<forall>(t, j, i, x) \<in> set cs. i \<noteq> ReplyLost \<and> \<not> x"
  shows "granted (RedisAllow prefix limit interval (Some a)) (\<lambda>(j, _). j = k) cs (r, f) =
     granted (count_call prefix limit interval False) ((=) k) (reached Served cs) r + granted a ((=) k) (reached NotReached cs) f"
  using assms
proof (induction cs arbitrary: r f)
  case (Cons c cs)
  obtain t j i x where c: "c = (t, j, i, x)" by (metis prod_cases4)
  have x: "\<not> x" "i \<noteq> ReplyLost" using Cons.prems by (auto simp: c)
  show ?case
  proof (cases i)
    case Served
    obtain b r1 where "count_call prefix limit interval False t j r = (b, r1)" by fastforce
    then show ?thesis using Cons.IH [of r1 f] Cons.prems Served x by (auto simp: c reached_def RedisAllow_def)
  next
    case NotReached
    obtain b f1 where "a t j f = (b, f1)" by fastforce
    then show ?thesis using Cons.IH [of r f1] Cons.prems NotReached x by (auto simp: c reached_def RedisAllow_def)
  qed (use x in simp)
qed (simp add: reached_def)

text \<open>
  A limiter on Redis with a fallback keeps a bound through an outage: whatever calls do not reach Redis,
  in every period shorter than the interval a key is granted at most twice the limit by Redis and twice the
  limit of the fallback by the process.
\<close>

theorem outage_keeps_bound:
  assumes "0 < interval" and "timed t0 cs" and "\<forall>c \<in> set cs. fst c < t0 + interval"
    and "\<forall>(t, j, i, x) \<in> set cs. i \<noteq> ReplyLost \<and> \<not> x"
  shows "granted (RedisAllow prefix limit interval (Some (Allow limit' interval))) (\<lambda>(j, _). j = k) cs (r, f)
     \<le> 2 * max 1 limit + 2 * max 1 limit'"
proof -
  have "\<forall>c \<in> set (reached d cs). fst c < t0 + interval" for d using assms(3) by (auto simp: reached_def)
  then show ?thesis
    using redis.any_period [OF assms(1) timed_reached [OF assms(2)], of Served prefix limit k r]
      limiter.any_period [OF assms(1) timed_reached [OF assms(2)], of NotReached limit' k f]
    unfolding granted_outage [OF assms(4)] by simp
qed

lemma stuck_counter:
  assumes "r (full_key prefix k) = Some \<lparr>re_count = n, re_expires = None\<rparr>" and "1 \<le> n" and "\<forall>(t, j, i, x) \<in> set cs. i = Served"
  shows "granted (RedisAllow prefix limit interval fb) (\<lambda>(j, _). j = k) cs (r, f) \<le> max 0 (limit - int n)"
  using assms
proof (induction cs arbitrary: r n)
  case (Cons c cs)
  obtain t j i x where c: "c = (t, j, i, x)" by (metis prod_cases4)
  obtain b r1 where call: "count_call prefix limit interval x t j r = (b, r1)" by fastforce
  have step: "RedisAllow prefix limit interval fb t (j, i, x) (r, f) = (b, r1, f)"
    using Cons.prems(3) call by (simp add: c RedisAllow_def)
  show ?case
  proof (cases "j = k")
    case True
    have "redis_get r (full_key prefix k) t = Some \<lparr>re_count = n, re_expires = None\<rparr>" using Cons.prems(1) by (simp add: redis_get_def)
    then have b: "b \<longleftrightarrow> int (n + 1) \<le> limit" and r1: "r1 (full_key prefix k) = Some \<lparr>re_count = n + 1, re_expires = None\<rparr>"
      using call True Cons.prems(2) by (auto simp: count_call_def redis_incr_def)
    from Cons.IH [of r1 "n + 1"] r1 Cons.prems(3) show ?thesis using True step b by (auto simp: c max_def split: if_splits)
  next
    case False
    have "full_key prefix k \<noteq> full_key prefix j" using False by simp
    then have "r1 (full_key prefix k) = r (full_key prefix k)"
      using call by (auto simp: count_call_def redis_incr_def redis_expire_def Let_def split: option.splits prod.splits if_splits)
    with Cons.prems(1) have r1: "r1 (full_key prefix k) = Some \<lparr>re_count = n, re_expires = None\<rparr>" by simp
    from Cons.IH [of r1 n] r1 Cons.prems(2,3) show ?thesis using False step by (simp add: c)
  qed
qed simp

text \<open>
  A key whose first call is counted but not given an expiry, because \<open>EXPIRE\<close> failed or the reply of
  \<open>INCR\<close> was lost, is locked out for good: from then on it is granted at most \<open>limit - 1\<close> calls that Redis
  serves, however much time passes.
\<close>

theorem lost_expiry_locks_key_out:
  assumes "redis_get r (full_key prefix k) t = None" and "incr = Served \<and> expire_fails \<or> incr = ReplyLost"
    and "RedisAllow prefix limit interval fb t (k, incr, expire_fails) (r, f) = (b, r', f')"
    and "\<forall>(t, j, i, x) \<in> set cs. i = Served"
  shows "granted (RedisAllow prefix limit interval fb) (\<lambda>(j, _). j = k) cs (r', f') \<le> max 0 (limit - 1)"
proof -
  have "r' (full_key prefix k) = Some \<lparr>re_count = 1, re_expires = None\<rparr>"
    using assms(1-3) by (auto simp: RedisAllow_def count_call_def redis_incr_def Let_def split: option.splits prod.splits)
  from stuck_counter [of r' prefix k 1 cs limit interval fb f'] this assms(4) show ?thesis by simp
qed

theorem outage_keeps_bound_witness:
  "granted (RedisAllow ''login'' 1 10 (Some (Allow 1 10))) (\<lambda>(j, _). j = ''a'')
     [(1, ''a'', Served, False), (2, ''a'', NotReached, False), (3, ''a'', Served, False)] (Map.empty, Map.empty) \<le> 4"
  using outage_keeps_bound [of 10 0 "[(1, ''a'', Served, False), (2, ''a'', NotReached, False), (3, ''a'', Served, False)]" "''login''" 1 1
      "''a''" Map.empty Map.empty]
  by (simp add: timed_def)

theorem lost_expiry_locks_key_out_witness:
  "granted (RedisAllow ''login'' 2 10 (None :: (time \<Rightarrow> string \<Rightarrow> unit \<Rightarrow> bool \<times> unit) option)) (\<lambda>(j, _). j = ''a'')
     [(100, ''a'', Served, False), (200, ''a'', Served, False), (300, ''a'', Served, False)]
     (snd (RedisAllow ''login'' 2 10 None 1 (''a'', Served, True) (Map.empty, ()))) \<le> 1"
proof -
  obtain b r' f' where "RedisAllow ''login'' 2 10 (None :: (time \<Rightarrow> string \<Rightarrow> unit \<Rightarrow> bool \<times> unit) option) 1 (''a'', Served, True) (Map.empty, ()) = (b, r', f')"
    by (metis prod_cases3)
  moreover have "redis_get Map.empty (full_key ''login'' ''a'') 1 = None" by (simp add: redis_get_def)
  ultimately show ?thesis
    using lost_expiry_locks_key_out [of Map.empty "''login''" "''a''" 1 Served True 2 10 None "()" b r' f'
      "[(100, ''a'', Served, False), (200, ''a'', Served, False), (300, ''a'', Served, False)]"]
    by simp
qed

end
