(* ===== verification/Networks.thy ===== *)
theory Networks
  imports Backups Domain_Names
begin

text \<open>
  Domains, their DNS records and certificates (internal/network/network.go; the pure part, validate.go, is in
  \<open>Domain_Names\<close>): the queries and edits, the operations \<open>ssl.issue\<close>, \<open>ssl.renew\<close>, \<open>ssl.revoke\<close> and
  \<open>domain.remove\<close> step by step, and the sweep that renews certificates. The tables are those of migrations 0023
  and 0028 (domains, dns_records, certificates, certificate_orders), with their unique indexes. The DNS provider, the
  certificate provider and the secrets service answer through \<open>nt_serve\<close>, and every call is logged with its answer.
\<close>

section \<open>State\<close>

record domain_row =
  dm_id :: uuid
  dm_org :: uuid
  dm_project :: "uuid option"
  dm_name :: string
  dm_status :: string
  dm_dns :: string
  dm_ssl :: string
  dm_provider :: string
  dm_verified :: "time option"
  dm_created :: time
  dm_updated :: time
  dm_deleted :: "time option"

text \<open>A row of \<open>dns_records\<close>; a priority of NULL is read as 0.\<close>

record dns_row =
  dr_id :: uuid
  dr_org :: uuid
  dr_domain :: uuid
  dr_rec :: record_input
  dr_provider :: "string option"
  dr_updated :: time

record certificate_row =
  ct_id :: uuid
  ct_org :: uuid
  ct_domain :: uuid
  ct_status :: string
  ct_provider :: string
  ct_issuer :: string
  ct_serial :: string
  ct_from :: "time option"
  ct_until :: "time option"
  ct_auto :: bool
  ct_key :: "string option"
  ct_pem :: "string option"
  ct_names :: "string list"
  ct_error :: "string option"
  ct_created :: time
  ct_updated :: time

record order_row =
  or_id :: uuid
  or_org :: uuid
  or_cert :: uuid
  or_kind :: string
  or_status :: string
  or_job :: uuid
  or_finished :: "time option"

text \<open>The calls on the DNS and certificate providers and on the secrets service, and their answers.\<close>

datatype ncall =
    EnsureZone string
  | UpsertDns string record_input
  | DeleteDns string string
  | CheckDns string record_input
  | IssueCert string
  | RenewCert string
  | RevokeCert string
  | InspectCert string
  | SetSecret uuid string string
  | DropSecret uuid string

record nreply =
  nr_err :: "perror option"
  nr_flag :: bool
  nr_id :: string
  nr_pem :: string
  nr_key :: string
  nr_issuer :: string
  nr_serial :: string
  nr_from :: time
  nr_until :: time
  nr_names :: "string list"

text \<open>
  Behind the tables: the log of calls, the state of the providers, and what a running operation keeps in its
  receiver and in the closures of its steps.
\<close>

record 'p networked = projects_db +
  domains :: "domain_row list"
  dns_records :: "dns_row list"
  certificates :: "certificate_row list"
  cert_orders :: "order_row list"
  n_calls :: "(ncall \<times> nreply) list"
  n_prov :: 'p
  no_domain :: "domain_row option"
  no_cert :: "uuid option"
  no_order :: "uuid option"
  no_key :: string
  no_bundle :: nreply

text \<open>
  The deployment: what is configured, how calls are answered, the collation and \<open>LOWER\<close> of PostgreSQL, which row
  an UPDATE .. FROM takes when several match (it is left open), and formats.
\<close>

record 'p net_infra =
  nt_dns :: bool
  nt_certs :: bool
  nt_secrets :: bool
  nt_serve :: "ncall \<Rightarrow> 'p \<Rightarrow> nreply \<times> 'p"
  nt_issuer :: string
  nt_collate :: "string \<Rightarrow> string"
  nt_lower :: "string \<Rightarrow> string"
  nt_choose :: "certificate_row list \<Rightarrow> certificate_row"
  nt_uuid_text :: "uuid \<Rightarrow> string"
  nt_parse_uuid :: "string \<Rightarrow> uuid option"
  nt_day :: "time \<Rightarrow> string"
  nt_time_json :: "time \<Rightarrow> json"

definition ncalls :: "'p net_infra \<Rightarrow> ncall \<Rightarrow> ('p, 'z) networked_scheme \<Rightarrow> string option \<times> nreply \<times> ('p, 'z) networked_scheme" where
  "ncalls N c w =
     (let (r, p) = nt_serve N c (n_prov w)
      in (map_option perror_text (nr_err r), r, w\<lparr>n_calls := n_calls w @ [(c, r)], n_prov := p\<rparr>))"

definition live_domain :: "uuid \<Rightarrow> uuid \<Rightarrow> domain_row \<Rightarrow> bool" where
  "live_domain org i d \<longleftrightarrow> dm_id d = i \<and> dm_org d = org \<and> dm_deleted d = None \<and> dm_status d \<noteq> ''removed''"

definition no_dns :: api_error where
  "no_dns = Validation ''DNS provider is not configured on this deployment''"

definition set_domain :: "bool \<Rightarrow> uuid \<Rightarrow> (domain_row \<Rightarrow> domain_row) \<Rightarrow> ('p, 'z) networked_scheme \<Rightarrow> ('p, 'z) networked_scheme" where
  "set_domain failed i f w =
     (if failed then w else w\<lparr>domains := update_where (\<lambda>d. dm_id d = i) f (domains w)\<rparr>)"

section \<open>Domains\<close>

definition new_domain :: "'p net_infra \<Rightarrow> env \<Rightarrow> uuid \<Rightarrow> uuid option \<Rightarrow> string \<Rightarrow> domain_row" where
  "new_domain N e org project n =
     \<lparr>dm_id = new_id e, dm_org = org, dm_project = project, dm_name = n, dm_status = ''pending'', dm_dns = ''pending'', dm_ssl = ''none'',
      dm_provider = (if nt_dns N then ''configured'' else ''none''), dm_verified = None, dm_created = db_now e, dm_updated = db_now e,
      dm_deleted = None\<rparr>"

definition domain_taken :: "domain_row list \<Rightarrow> domain_row \<Rightarrow> bool" where
  "domain_taken ds n \<longleftrightarrow>
     list_ex (\<lambda>d. dm_id d = dm_id n \<or> dm_org d = dm_org n \<and> dm_deleted d = None \<and> lower_ascii (dm_name d) = lower_ascii (dm_name n)) ds"

text \<open>Statements: the INSERT (0), the DELETE when the zone cannot be created (1), the audit row (2).\<close>

definition AddDomain ::
  "'p net_infra \<Rightarrow> env \<Rightarrow> auth_context \<Rightarrow> string \<Rightarrow> uuid option \<Rightarrow> ('p, 'z) networked_scheme
     \<Rightarrow> (api_error + domain_row) \<times> ('p, 'z) networked_scheme" where
  "AddDomain N e ac name project w =
     (case Require ac ''domains.manage'' of Some x \<Rightarrow> (Inl x, w)
      | None \<Rightarrow>
     if \<not> nt_dns N then (Inl no_dns, w)
     else case NormalizeDomain name of Inl x \<Rightarrow> (Inl x, w)
     | Inr n \<Rightarrow>
     (let d = new_domain N e (org_id ac) project n
      in if fault e 0 then (Inl (internal ''failed to add domain''), w)
         else if (case project of None \<Rightarrow> False | Some i \<Rightarrow> \<not> list_ex (live_project (org_id ac) i) (projects w))
         then (Inl (Validation ''project_id does not refer to a project in this organization''), w)
         else if domain_taken (domains w) d then (Inl (Conflict ''this domain is already registered''), w)
         else
           (let w1 = w\<lparr>domains := domains w @ [d]\<rparr>
            in case ncalls N (EnsureZone n) w1 of
                 (Some _, _, w2) \<Rightarrow> (Inl (internal ''failed to create DNS zone''),
                   if fault e 1 then w2 else w2\<lparr>domains := delete_where (\<lambda>x. dm_id x = new_id e) (domains w2)\<rparr>)
               | (None, _, w2) \<Rightarrow> (Inr d, rec_audit (fault e 2) ac ''domains.domain.added'' ''domain'' (new_id e) w2))))"

definition ListDomains ::
  "'p net_infra \<Rightarrow> bool \<Rightarrow> auth_context \<Rightarrow> uuid option \<Rightarrow> string \<Rightarrow> int \<Rightarrow> int \<Rightarrow> ('p, 'z) networked_scheme \<Rightarrow> api_error + domain_row list" where
  "ListDomains N failed ac project search limit offset w =
     (case Require ac ''domains.read'' of Some x \<Rightarrow> Inl x
      | None \<Rightarrow>
        if failed \<or> offset < 0 then Inl (internal ''failed to list domains'')
        else Inr (page (if limit \<le> 0 \<or> limit > 200 then 50 else limit) offset
               (sort_key (\<lambda>d. nt_collate N (dm_name d)) (filter (\<lambda>d. dm_org d = org_id ac \<and> dm_deleted d = None \<and> dm_status d \<noteq> ''removed'' \<and>
                  (project = None \<or> dm_project d = project) \<and>
                  (search = [] \<or> contains_text (nt_lower N search) (nt_lower N (dm_name d)))) (domains w)))))"

definition load_domain :: "bool \<Rightarrow> uuid \<Rightarrow> uuid \<Rightarrow> ('p, 'z) networked_scheme \<Rightarrow> api_error + domain_row" where
  "load_domain failed org i w =
     (if failed then Inl (internal ''failed to load domain'')
      else case find (live_domain org i) (domains w) of None \<Rightarrow> Inl (NotFound ''domain'') | Some d \<Rightarrow> Inr d)"

definition GetDomain :: "bool \<Rightarrow> auth_context \<Rightarrow> uuid \<Rightarrow> ('p, 'z) networked_scheme \<Rightarrow> api_error + domain_row" where
  "GetDomain failed ac i w =
     (case Require ac ''domains.read'' of Some x \<Rightarrow> Inl x | None \<Rightarrow> load_domain failed (org_id ac) i w)"

section \<open>DNS records\<close>

definition records_of :: "'p net_infra \<Rightarrow> uuid \<Rightarrow> uuid \<Rightarrow> dns_row list \<Rightarrow> dns_row list" where
  "records_of N org i rows =
     sort_key (\<lambda>r. nt_collate N (ri_type (dr_rec r))) (sort_key (\<lambda>r. nt_collate N (ri_name (dr_rec r)))
       (sort_key (\<lambda>r. nt_collate N (ri_value (dr_rec r))) (filter (\<lambda>r. dr_org r = org \<and> dr_domain r = i) rows)))"

text \<open>The domain (statement 0) and its records (statement 1).\<close>

definition domain_records ::
  "'p net_infra \<Rightarrow> env \<Rightarrow> uuid \<Rightarrow> uuid \<Rightarrow> ('p, 'z) networked_scheme \<Rightarrow> api_error + domain_row \<times> dns_row list" where
  "domain_records N e org i w =
     (case load_domain (fault e 0) org i w of Inl x \<Rightarrow> Inl x
      | Inr d \<Rightarrow> if fault e 1 then Inl (internal ''failed to list records'') else Inr (d, records_of N org i (dns_records w)))"

definition ListRecords :: "'p net_infra \<Rightarrow> env \<Rightarrow> auth_context \<Rightarrow> uuid \<Rightarrow> ('p, 'z) networked_scheme \<Rightarrow> api_error + dns_row list" where
  "ListRecords N e ac i w =
     (case Require ac ''domains.read'' of Some x \<Rightarrow> Inl x
      | None \<Rightarrow> (case domain_records N e (org_id ac) i w of Inl x \<Rightarrow> Inl x | Inr (_, rs) \<Rightarrow> Inr rs))"

definition maxRecords :: nat where "maxRecords = 200"

text \<open>What the records of the same name forbid.\<close>

fun cname_conflict :: "record_input \<Rightarrow> dns_row list \<Rightarrow> string option" where
  "cname_conflict inp [] = None"
| "cname_conflict inp (r # rs) =
     (let x = dr_rec r
      in if ri_name x \<noteq> ri_name inp then cname_conflict inp rs
         else if ri_type inp = ''CNAME'' \<and> ri_type x \<noteq> ''CNAME'' \<or> ri_type x = ''CNAME'' \<and> ri_type inp \<noteq> ''CNAME''
         then Some ''a CNAME cannot coexist with other records of the same name''
         else if ri_type inp = ''CNAME'' \<and> ri_type x = ''CNAME'' \<and> ri_value x \<noteq> ri_value inp
         then Some ''a name can only have one CNAME''
         else cname_conflict inp rs)"

definition same_record :: "uuid \<Rightarrow> record_input \<Rightarrow> dns_row \<Rightarrow> bool" where
  "same_record i inp r \<longleftrightarrow> dr_domain r = i \<and> ri_type (dr_rec r) = ri_type inp \<and> ri_name (dr_rec r) = ri_name inp \<and>
     ri_value (dr_rec r) = ri_value inp"

text \<open>
  INSERT .. ON CONFLICT DO UPDATE; \<open>None\<close> is a driver error, as for a priority that is no int4. A row that is
  already there keeps its id.
\<close>

definition store_record ::
  "bool \<Rightarrow> env \<Rightarrow> uuid \<Rightarrow> uuid \<Rightarrow> record_input \<Rightarrow> string \<Rightarrow> ('p, 'z) networked_scheme \<Rightarrow> (dns_row \<times> ('p, 'z) networked_scheme) option" where
  "store_record failed e org i inp pid w =
     (if failed \<or> ri_priority inp < - (2 ^ 31) \<or> 2 ^ 31 \<le> ri_priority inp then None
      else case find (same_record i inp) (dns_records w) of
        Some r \<Rightarrow>
          (let f = (\<lambda>r. r\<lparr>dr_rec := (dr_rec r)\<lparr>ri_ttl := ri_ttl inp, ri_priority := ri_priority inp\<rparr>, dr_provider := Some pid, dr_updated := db_now e\<rparr>)
           in Some (f r, w\<lparr>dns_records := update_where (same_record i inp) f (dns_records w)\<rparr>))
      | None \<Rightarrow>
          (let r = \<lparr>dr_id = new_id e, dr_org = org, dr_domain = i, dr_rec = inp, dr_provider = Some pid, dr_updated = db_now e\<rparr>
           in if new_id e \<in> dr_id ` set (dns_records w) then None else Some (r, w\<lparr>dns_records := dns_records w @ [r]\<rparr>)))"

text \<open>Statements 0 and 1 as above, the INSERT (2), the domain's status (3), the audit row (4).\<close>

definition UpsertRecord ::
  "'p net_infra \<Rightarrow> env \<Rightarrow> auth_context \<Rightarrow> uuid \<Rightarrow> record_input \<Rightarrow> ('p, 'z) networked_scheme
     \<Rightarrow> (api_error + dns_row) \<times> ('p, 'z) networked_scheme" where
  "UpsertRecord N e ac i inp0 w =
     (case Require ac ''domains.manage'' of Some x \<Rightarrow> (Inl x, w)
      | None \<Rightarrow>
     if \<not> nt_dns N then (Inl no_dns, w)
     else case validate_record inp0 of Inl x \<Rightarrow> (Inl x, w)
     | Inr inp \<Rightarrow>
     (case domain_records N e (org_id ac) i w of Inl x \<Rightarrow> (Inl x, w)
      | Inr (d, existing) \<Rightarrow>
     if maxRecords \<le> length existing
     then (Inl (Validation (''a domain can hold at most '' @ sprint_d (int maxRecords) @ '' records'')), w)
     else case cname_conflict inp existing of Some t \<Rightarrow> (Inl (Conflict t), w)
     | None \<Rightarrow>
     (case ncalls N (UpsertDns (dm_name d) inp) w of
        (Some _, _, w1) \<Rightarrow> (Inl (internal ''DNS provider rejected the record''), w1)
      | (None, pr, w1) \<Rightarrow>
     (case store_record (fault e 2) e (org_id ac) i inp (nr_id pr) w1 of
        None \<Rightarrow> (Inl (internal ''failed to store record''), w1)
      | Some (out, w2) \<Rightarrow>
          (Inr out, rec_audit (fault e 4) ac ''domains.record.upserted'' ''dns_record'' (dr_id out)
             (set_domain (fault e 3) i (\<lambda>d. d\<lparr>dm_dns := ''pending'', dm_updated := db_now e\<rparr>) w2))))))"

text \<open>Statements: the domain (0), the record (1), the DELETE (2), the audit row (3).\<close>

definition DeleteRecord ::
  "'p net_infra \<Rightarrow> env \<Rightarrow> auth_context \<Rightarrow> uuid \<Rightarrow> uuid \<Rightarrow> ('p, 'z) networked_scheme \<Rightarrow> api_error option \<times> ('p, 'z) networked_scheme" where
  "DeleteRecord N e ac i k w =
     (case Require ac ''domains.manage'' of Some x \<Rightarrow> (Some x, w)
      | None \<Rightarrow>
     if \<not> nt_dns N then (Some no_dns, w)
     else case load_domain (fault e 0) (org_id ac) i w of Inl x \<Rightarrow> (Some x, w)
     | Inr d \<Rightarrow>
     if fault e 1 then (Some (internal ''failed to load record''), w)
     else case find (\<lambda>r. dr_id r = k \<and> dr_domain r = i \<and> dr_org r = org_id ac) (dns_records w) of
       None \<Rightarrow> (Some (NotFound ''record''), w)
     | Some row \<Rightarrow>
     (let gone = (\<lambda>w1. if fault e 2 then (Some (internal ''failed to delete record''), w1)
            else (None, rec_audit (fault e 3) ac ''domains.record.deleted'' ''dns_record'' k
               (w1\<lparr>dns_records := delete_where (\<lambda>r. dr_id r = k) (dns_records w1)\<rparr>)))
      in case dr_provider row of None \<Rightarrow> gone w
         | Some pid \<Rightarrow>
             (case ncalls N (DeleteDns (dm_name d) pid) w of (_, r, w1) \<Rightarrow>
                (case nr_err r of
                   Some (OtherError _) \<Rightarrow> (Some (internal ''DNS provider failed to delete the record''), w1)
                 | _ \<Rightarrow> gone w1))))"

text \<open>The loop of \<open>Sync\<close>; \<open>failed k\<close> is the ignored error of the \<open>k\<close>-th UPDATE.\<close>

fun sync_records ::
  "'p net_infra \<Rightarrow> (nat \<Rightarrow> bool) \<Rightarrow> string \<Rightarrow> dns_row list \<Rightarrow> nat \<Rightarrow> ('p, 'z) networked_scheme \<Rightarrow> api_error option \<times> ('p, 'z) networked_scheme" where
  "sync_records N failed name [] k w = (None, w)"
| "sync_records N failed name (r # rs) k w =
     (case ncalls N (UpsertDns name (dr_rec r)) w of
        (Some _, _, w1) \<Rightarrow> (Some (internal (''sync failed on '' @ ri_type (dr_rec r) @ '' '' @ ri_name (dr_rec r))), w1)
      | (None, pr, w1) \<Rightarrow>
          sync_records N failed name rs (Suc k)
            (if failed k then w1
             else w1\<lparr>dns_records := update_where (\<lambda>x. dr_id x = dr_id r) (\<lambda>x. x\<lparr>dr_provider := Some (nr_id pr)\<rparr>) (dns_records w1)\<rparr>))"

definition Sync ::
  "'p net_infra \<Rightarrow> env \<Rightarrow> auth_context \<Rightarrow> uuid \<Rightarrow> ('p, 'z) networked_scheme \<Rightarrow> (api_error + nat) \<times> ('p, 'z) networked_scheme" where
  "Sync N e ac i w =
     (case Require ac ''domains.manage'' of Some x \<Rightarrow> (Inl x, w)
      | None \<Rightarrow>
     if \<not> nt_dns N then (Inl no_dns, w)
     else case load_domain (fault e 0) (org_id ac) i w of Inl x \<Rightarrow> (Inl x, w)
     | Inr d \<Rightarrow>
     (case ncalls N (EnsureZone (dm_name d)) w of
        (Some _, _, w1) \<Rightarrow> (Inl (internal ''failed to ensure zone''), w1)
      | (None, _, w1) \<Rightarrow>
     if fault e 1 then (Inl (internal ''failed to list records''), w1)
     else (let recs = records_of N (org_id ac) i (dns_records w1)
           in case sync_records N (\<lambda>k. fault e (k + 2)) (dm_name d) recs 0 w1 of
                (Some x, w2) \<Rightarrow> (Inl x, w2) | (None, w2) \<Rightarrow> (Inr (length recs), w2))))"

record propagation =
  pp_record :: dns_row
  pp_ok :: bool
  pp_error :: string

text \<open>The provider is asked without the priority.\<close>

fun check_records ::
  "'p net_infra \<Rightarrow> string \<Rightarrow> dns_row list \<Rightarrow> ('p, 'z) networked_scheme \<Rightarrow> propagation list \<times> ('p, 'z) networked_scheme" where
  "check_records N name [] w = ([], w)"
| "check_records N name (r # rs) w =
     (case ncalls N (CheckDns name ((dr_rec r)\<lparr>ri_priority := 0\<rparr>)) w of (t, a, w1) \<Rightarrow>
        (case check_records N name rs w1 of (ps, w2) \<Rightarrow>
           (\<lparr>pp_record = r, pp_ok = nr_flag a, pp_error = coalesce t []\<rparr> # ps, w2)))"

definition CheckPropagation ::
  "'p net_infra \<Rightarrow> env \<Rightarrow> auth_context \<Rightarrow> uuid \<Rightarrow> ('p, 'z) networked_scheme \<Rightarrow> (api_error + propagation list) \<times> ('p, 'z) networked_scheme" where
  "CheckPropagation N e ac i w =
     (case Require ac ''domains.read'' of Some x \<Rightarrow> (Inl x, w)
      | None \<Rightarrow>
     if \<not> nt_dns N then (Inl no_dns, w)
     else case domain_records N e (org_id ac) i w of Inl x \<Rightarrow> (Inl x, w)
     | Inr (d, recs) \<Rightarrow>
     (case check_records N (dm_name d) recs w of (out, w1) \<Rightarrow>
       (let ok = (recs \<noteq> [] \<and> list_all pp_ok out)
        in (Inr out, set_domain (fault e 2) i (\<lambda>d. d\<lparr>dm_dns := (if ok then ''ok'' else ''pending''),
              dm_status := (if ok then ''active'' else dm_status d),
              dm_verified := (if ok then Some (coalesce (dm_verified d) (db_now e)) else dm_verified d), dm_updated := db_now e\<rparr>) w1))))"

section \<open>Certificates\<close>

definition live_cert :: "uuid \<Rightarrow> certificate_row \<Rightarrow> bool" where
  "live_cert i c \<longleftrightarrow> ct_domain c = i \<and> ct_status c \<notin> {''revoked'', ''error'', ''expired''}"

text \<open>An UPDATE of the certificate \<open>i\<close>, under the unique index on live certificates.\<close>

definition write_cert ::
  "bool \<Rightarrow> uuid \<Rightarrow> (certificate_row \<Rightarrow> certificate_row) \<Rightarrow> ('p, 'z) networked_scheme \<Rightarrow> ('p, 'z) networked_scheme option" where
  "write_cert failed i f w =
     (let cs = update_where (\<lambda>c. ct_id c = i) f (certificates w)
      in if failed \<or> list_ex (\<lambda>c. ct_id c = i \<and> live_cert (ct_domain c) c \<and> list_ex (\<lambda>x. ct_id x \<noteq> i \<and> live_cert (ct_domain c) x) cs) cs
         then None else Some (w\<lparr>certificates := cs\<rparr>))"

text \<open>A certificate as it is read: joined with its domain. The days left are computed for display only.\<close>

record certificate_view =
  cw_row :: certificate_row
  cw_domain :: string
  cw_has_key :: bool

definition scan_cert :: "domain_row list \<Rightarrow> certificate_row \<Rightarrow> certificate_view option" where
  "scan_cert ds c =
     (case find (\<lambda>d. dm_id d = ct_domain c) ds of None \<Rightarrow> None
      | Some d \<Rightarrow> Some \<lparr>cw_row = c, cw_domain = dm_name d, cw_has_key = (ct_key c \<noteq> None)\<rparr>)"

definition ListCertificates ::
  "'p net_infra \<Rightarrow> bool \<Rightarrow> auth_context \<Rightarrow> uuid option \<Rightarrow> int \<Rightarrow> int \<Rightarrow> ('p, 'z) networked_scheme \<Rightarrow> api_error + certificate_view list" where
  "ListCertificates N failed ac project limit offset w =
     (case Require ac ''ssl.read'' of Some x \<Rightarrow> Inl x
      | None \<Rightarrow>
        if failed \<or> offset < 0 then Inl (internal ''failed to list certificates'')
        else Inr (page (if limit \<le> 0 \<or> limit > 200 then 50 else limit) offset
               (sort_key (\<lambda>v. nt_collate N (cw_domain v)) (sort_key (\<lambda>v. - ct_created (cw_row v))
                 (List.map_filter (scan_cert (domains w)) (filter (\<lambda>c. ct_org c = org_id ac \<and>
                    (project = None \<or> list_ex (\<lambda>d. dm_id d = ct_domain c \<and> dm_project d = project) (domains w))) (certificates w)))))))"

definition GetCertificate :: "bool \<Rightarrow> auth_context \<Rightarrow> uuid \<Rightarrow> ('p, 'z) networked_scheme \<Rightarrow> api_error + certificate_view" where
  "GetCertificate failed ac i w =
     (case Require ac ''ssl.read'' of Some x \<Rightarrow> Inl x
      | None \<Rightarrow>
        if failed then Inl (internal ''database error'')
        else case find (\<lambda>c. ct_id c = i \<and> ct_org c = org_id ac) (certificates w) of
          None \<Rightarrow> Inl (NotFound ''certificate'')
        | Some c \<Rightarrow> (case scan_cert (domains w) c of None \<Rightarrow> Inl (NotFound ''certificate'') | Some v \<Rightarrow> Inr v))"

definition requireSSL :: "'p net_infra \<Rightarrow> api_error option" where
  "requireSSL N =
     (if \<not> nt_certs N then Some (Validation ''certificate provider is not configured on this deployment'')
      else if \<not> nt_secrets N then Some (Validation ''secrets service is not configured; private keys cannot be stored safely'')
      else None)"

section \<open>The certificate operations\<close>

definition opened_domain :: "uuid \<Rightarrow> uuid \<Rightarrow> ('p, 'z) networked_scheme \<Rightarrow> ('p, 'z) networked_scheme" where
  "opened_domain org i w = w\<lparr>no_domain := find (live_domain org i) (domains w), no_cert := None, no_order := None, no_key := []\<rparr>"

definition op_domain :: "('p, 'z) networked_scheme \<Rightarrow> uuid" where
  "op_domain w = (case no_domain w of None \<Rightarrow> uuid_nil | Some d \<Rightarrow> dm_id d)"

definition op_domain_name :: "('p, 'z) networked_scheme \<Rightarrow> string" where
  "op_domain_name w = (case no_domain w of None \<Rightarrow> [] | Some d \<Rightarrow> dm_name d)"

definition op_cert :: "('p, 'z) networked_scheme \<Rightarrow> uuid" where
  "op_cert w = coalesce (no_cert w) uuid_nil"

text \<open>Statements: the domain (0) and its live certificate (1), of which any error means there is none.\<close>

definition cert_validate :: "'p net_infra \<Rightarrow> env \<Rightarrow> uuid \<Rightarrow> uuid \<Rightarrow> string \<Rightarrow> ('p, 'z) networked_scheme \<Rightarrow> exec_error option" where
  "cert_validate N e org i kind w =
     (case requireSSL N of Some x \<Rightarrow> Some (ApiFailure x)
      | None \<Rightarrow>
     (case load_domain (fault e 0) org i w of Inl x \<Rightarrow> Some (ApiFailure x)
      | Inr d \<Rightarrow>
     (let live = (\<not> fault e 1 \<and> list_ex (live_cert (dm_id d)) (certificates w))
      in if kind = ''issue'' then
           (if live then Some (ApiFailure (Conflict ''this domain already has a live certificate; renew it instead'')) else None)
         else if \<not> live then Some (ApiFailure (Conflict (''this domain has no live certificate to '' @ kind)))
         else None)))"

text \<open>Statements: the certificate (2), the order (3), and their undo (4 and 5). \<open>oid\<close> is the id of the order.\<close>

definition pending_cert :: "'p net_infra \<Rightarrow> env \<Rightarrow> uuid \<Rightarrow> uuid \<Rightarrow> certificate_row" where
  "pending_cert N e org i =
     \<lparr>ct_id = new_id e, ct_org = org, ct_domain = i, ct_status = ''pending'', ct_provider = nt_issuer N, ct_issuer = [], ct_serial = [],
      ct_from = None, ct_until = None, ct_auto = True, ct_key = None, ct_pem = None, ct_names = [], ct_error = None,
      ct_created = db_now e, ct_updated = db_now e\<rparr>"

definition order_cert :: "'p net_infra \<Rightarrow> env \<Rightarrow> uuid \<Rightarrow> string \<Rightarrow> ('p, 'z) networked_scheme \<Rightarrow> ('p, 'z) networked_scheme option" where
  "order_cert N e org kind w =
     (if fault e 2 then None
      else if kind = ''issue'' then
        (if list_ex (live_cert (op_domain w)) (certificates w) \<or> new_id e \<in> ct_id ` set (certificates w) then None
         else Some (w\<lparr>certificates := certificates w @ [pending_cert N e org (op_domain w)], no_cert := Some (new_id e)\<rparr>))
      else (case find (live_cert (op_domain w)) (certificates w) of
              None \<Rightarrow> None | Some c \<Rightarrow> Some (w\<lparr>no_cert := Some (ct_id c)\<rparr>)))"

definition open_order_step :: "'p net_infra \<Rightarrow> env \<Rightarrow> uuid \<Rightarrow> uuid \<Rightarrow> uuid \<Rightarrow> string \<Rightarrow> uuid \<Rightarrow> ('p, 'z) networked_scheme op_step" where
  "open_order_step N e oid org i kind job =
     \<lparr>os_name = ''open-order'',
      os_run = Some (\<lambda>poll rs w.
        (case order_cert N e org kind (opened_domain org i w) of
           None \<Rightarrow> fail_step ''database error'' rs (opened_domain org i w)
         | Some w1 \<Rightarrow>
             if fault e 3 \<or> oid \<in> or_id ` set (cert_orders w1) then fail_step ''database error'' rs w1
             else done_step rs (w1\<lparr>no_order := Some oid, cert_orders := cert_orders w1 @
                 [\<lparr>or_id = oid, or_org = org, or_cert = op_cert w1, or_kind = kind, or_status = ''running'', or_job = job, or_finished = None\<rparr>]\<rparr>))),
      os_undo = Some (\<lambda>poll rs w.
        (let w1 = (if kind = ''issue'' \<and> no_cert w \<noteq> None \<and> \<not> fault e 4
               then w\<lparr>certificates := update_where (\<lambda>c. Some (ct_id c) = no_cert w \<and> ct_status c = ''pending'')
                   (\<lambda>c. c\<lparr>ct_status := ''error'', ct_error := Some ''issuance failed'', ct_updated := db_now e\<rparr>) (certificates w)\<rparr> else w)
         in done_step rs
              (if no_order w1 \<noteq> None \<and> \<not> fault e 5
               then w1\<lparr>cert_orders := update_where (\<lambda>r. Some (or_id r) = no_order w1 \<and> or_status r = ''running'')
                   (\<lambda>r. r\<lparr>or_status := ''failed'', or_finished := Some (db_now e)\<rparr>) (cert_orders w1)\<rparr> else w1)))\<rparr>"

text \<open>Statements: the error is noted (6), the serial to revoke is read (7).\<close>

definition cert_failed :: "env \<Rightarrow> string \<Rightarrow> run_state \<Rightarrow> ('p, 'z) networked_scheme \<Rightarrow> step_end \<times> run_state \<times> ('p, 'z) networked_scheme" where
  "cert_failed e t rs w = fail_step t rs (coalesce (write_cert (fault e 6) (op_cert w) (\<lambda>c. c\<lparr>ct_error := Some (take 400 t)\<rparr>) w) w)"

definition cert_provider_step :: "'p net_infra \<Rightarrow> env \<Rightarrow> string \<Rightarrow> ('p, 'z) networked_scheme op_step" where
  "cert_provider_step N e kind =
     \<lparr>os_name = ''provider-'' @ kind,
      os_run = Some (\<lambda>poll rs w.
        (if kind = ''revoke'' then
           (case (if fault e 7 then None else find (\<lambda>c. ct_id c = op_cert w) (certificates w)) of
              None \<Rightarrow> fail_step ''database error'' rs w
            | Some c \<Rightarrow>
                (case ncalls N (RevokeCert (ct_serial c)) w of (Some t, _, w1) \<Rightarrow> fail_step t rs w1 | (None, _, w1) \<Rightarrow> done_step rs w1))
         else case ncalls N (if kind = ''issue'' then IssueCert (op_domain_name w) else RenewCert (op_domain_name w)) w of
             (Some t, b, w1) \<Rightarrow> cert_failed e t rs (w1\<lparr>no_bundle := b\<rparr>)
           | (None, b, w1) \<Rightarrow> done_step rs (w1\<lparr>no_bundle := b\<rparr>))),
      os_undo = None\<rparr>"

text \<open>Statements: revoked (8) and its domain (9), stored (10) and its domain (11).\<close>

definition revoked_step ::
  "env \<Rightarrow> run_state \<Rightarrow> ('p, 'z) networked_scheme \<Rightarrow> step_end \<times> run_state \<times> ('p, 'z) networked_scheme" where
  "revoked_step e rs w =
     (case write_cert (fault e 8) (op_cert w) (\<lambda>c. c\<lparr>ct_status := ''revoked'', ct_updated := db_now e\<rparr>) w of
        None \<Rightarrow> fail_step ''database error'' rs w
      | Some w1 \<Rightarrow>
          if fault e 9 then fail_step ''database error'' rs w1
          else done_step rs (set_domain False (op_domain w1) (\<lambda>d. d\<lparr>dm_ssl := ''none'', dm_updated := db_now e\<rparr>) w1))"

definition issued_cert :: "env \<Rightarrow> string \<Rightarrow> string \<Rightarrow> nreply \<Rightarrow> certificate_row \<Rightarrow> certificate_row" where
  "issued_cert e key pem a c =
     c\<lparr>ct_status := ''valid'', ct_issuer := nr_issuer a, ct_serial := nr_serial a, ct_from := Some (nr_from a), ct_until := Some (nr_until a),
       ct_key := Some key, ct_pem := Some pem, ct_names := nr_names a, ct_error := None, ct_updated := db_now e\<rparr>"

definition key_name :: "('p, 'z) networked_scheme \<Rightarrow> string" where
  "key_name w = ''ssl/'' @ op_domain_name w @ ''/'' @ nr_serial (no_bundle w)"

definition store_cert ::
  "'p net_infra \<Rightarrow> env \<Rightarrow> uuid \<Rightarrow> run_state \<Rightarrow> ('p, 'z) networked_scheme \<Rightarrow> step_end \<times> run_state \<times> ('p, 'z) networked_scheme" where
  "store_cert N e org rs w0 =
     (let w = w0\<lparr>no_key := key_name w0\<rparr>
      in case ncalls N (SetSecret org (no_key w) (nr_key (no_bundle w))) w of
           (Some t, _, w1) \<Rightarrow> fail_step (''could not store the private key securely: '' @ t) rs w1
         | (None, _, w1) \<Rightarrow>
        (case ncalls N (InspectCert (nr_pem (no_bundle w1))) w1 of
           (Some t, _, w2) \<Rightarrow> fail_step t rs w2
         | (None, a, w2) \<Rightarrow>
        (case write_cert (fault e 10) (op_cert w2) (issued_cert e (no_key w2) (nr_pem (no_bundle w2)) a) w2 of
           None \<Rightarrow> fail_step ''database error'' rs w2
         | Some w3 \<Rightarrow>
             (let rs' = rs\<lparr>rs_result := Some (JObj [(''certificate_id'', JStr (nt_uuid_text N (op_cert w3))), (''serial'', JStr (nr_serial a)),
                    (''not_after'', nt_time_json N (nr_until a))])\<rparr>
              in if fault e 11 then fail_step ''database error'' rs' w3
                 else done_step rs' (set_domain False (op_domain w3) (\<lambda>d. d\<lparr>dm_ssl := ''valid'', dm_updated := db_now e\<rparr>) w3)))))"

definition store_certificate_step :: "'p net_infra \<Rightarrow> env \<Rightarrow> uuid \<Rightarrow> string \<Rightarrow> ('p, 'z) networked_scheme op_step" where
  "store_certificate_step N e org kind =
     \<lparr>os_name = ''store-certificate'',
      os_run = Some (\<lambda>poll. if kind = ''revoke'' then revoked_step e else store_cert N e org),
      os_undo = Some (\<lambda>poll rs w.
        if no_key w = [] then done_step rs w
        else case ncalls N (DropSecret org (no_key w)) w of (_, _, w1) \<Rightarrow> done_step rs w1)\<rparr>"

definition finish_order_step :: "env \<Rightarrow> ('p, 'z) networked_scheme op_step" where
  "finish_order_step e =
     \<lparr>os_name = ''finish-order'',
      os_run = Some (\<lambda>poll rs w.
        if fault e 12 then fail_step ''database error'' rs w
        else done_step rs (w\<lparr>cert_orders := update_where (\<lambda>r. Some (or_id r) = no_order w)
               (\<lambda>r. r\<lparr>or_status := ''completed'', or_finished := Some (db_now e)\<rparr>) (cert_orders w)\<rparr>)),
      os_undo = None\<rparr>"

definition cert_steps :: "'p net_infra \<Rightarrow> env \<Rightarrow> uuid \<Rightarrow> uuid \<Rightarrow> uuid \<Rightarrow> string \<Rightarrow> uuid \<Rightarrow> ('p, 'z) networked_scheme op_step list" where
  "cert_steps N e oid org i kind job =
     [open_order_step N e oid org i kind job, cert_provider_step N e kind, store_certificate_step N e org kind, finish_order_step e]"

definition cert_target :: "'p net_infra \<Rightarrow> json \<Rightarrow> uuid" where
  "cert_target N payload =
     (let named = snd (payload_resource (nt_parse_uuid N) payload)
      in if named \<noteq> uuid_nil then named
         else decode_id_member ''domain_id'' (nt_parse_uuid N) (obj_fields payload) uuid_nil)"

text \<open>\<open>job\<close> is the id of the job that runs the operation.\<close>

definition cert_definition ::
  "string \<Rightarrow> string \<Rightarrow> string \<Rightarrow> string \<Rightarrow> 'p net_infra \<Rightarrow> env \<Rightarrow> uuid \<Rightarrow> uuid \<Rightarrow> ('p, 'z) networked_scheme op_definition" where
  "cert_definition name perm done kind N e oid job =
     \<lparr>df_name = name, df_permission = perm, df_tool_key = [], df_notify_kind = done, df_timeout_seconds = 300, df_flag = [],
      df_factory = (\<lambda>org project payload. Inr \<lparr>op_validate = cert_validate N e org (cert_target N payload) kind,
        op_body = StepperOp (cert_steps N e oid org (cert_target N payload) kind job)\<rparr>)\<rparr>"

definition issue_definition :: "'p net_infra \<Rightarrow> env \<Rightarrow> uuid \<Rightarrow> uuid \<Rightarrow> ('p, 'z) networked_scheme op_definition" where
  "issue_definition = cert_definition ''ssl.issue'' ''ssl.issue'' ''ssl.issued'' ''issue''"

definition renew_definition :: "'p net_infra \<Rightarrow> env \<Rightarrow> uuid \<Rightarrow> uuid \<Rightarrow> ('p, 'z) networked_scheme op_definition" where
  "renew_definition = cert_definition ''ssl.renew'' ''ssl.renew'' ''ssl.renewed'' ''renew''"

definition revoke_definition :: "'p net_infra \<Rightarrow> env \<Rightarrow> uuid \<Rightarrow> uuid \<Rightarrow> ('p, 'z) networked_scheme op_definition" where
  "revoke_definition = cert_definition ''ssl.revoke'' ''ssl.revoke'' ''ssl.revoked'' ''revoke''"

section \<open>The removal of a domain\<close>

text \<open>Statements: the domain (0), its certificate (1 and 2), its records (3, \<open>6 + k\<close> and 4), its row (5).\<close>

definition remove_validate :: "env \<Rightarrow> uuid \<Rightarrow> uuid \<Rightarrow> ('p, 'z) networked_scheme \<Rightarrow> exec_error option" where
  "remove_validate e org i w = (case load_domain (fault e 0) org i w of Inl x \<Rightarrow> Some (ApiFailure x) | Inr _ \<Rightarrow> None)"

definition drop_cert_step :: "'p net_infra \<Rightarrow> env \<Rightarrow> uuid \<Rightarrow> uuid \<Rightarrow> ('p, 'z) networked_scheme op_step" where
  "drop_cert_step N e org i =
     \<lparr>os_name = ''revoke-certificate'',
      os_run = Some (\<lambda>poll rs w0.
        (let w = opened_domain org i w0;
             revoke = (\<lambda>w. if fault e 2 then fail_step ''database error'' rs w
                else done_step rs (w\<lparr>certificates := update_where (live_cert (op_domain w))
                       (\<lambda>c. c\<lparr>ct_status := ''revoked'', ct_updated := db_now e\<rparr>) (certificates w)\<rparr>))
         in if fault e 1 then fail_step ''database error'' rs w
            else case find (live_cert (op_domain w)) (certificates w) of
              None \<Rightarrow> done_step rs w
            | Some c \<Rightarrow>
                if \<not> nt_certs N then revoke w
                else case ncalls N (RevokeCert (ct_serial c)) w of
                    (Some t, _, w1) \<Rightarrow> fail_step t rs w1 | (None, _, w1) \<Rightarrow> revoke w1)),
      os_undo = None\<rparr>"

fun drop_records ::
  "'p net_infra \<Rightarrow> (nat \<Rightarrow> bool) \<Rightarrow> string \<Rightarrow> dns_row list \<Rightarrow> nat \<Rightarrow> ('p, 'z) networked_scheme \<Rightarrow> string option \<times> ('p, 'z) networked_scheme" where
  "drop_records N failed name [] k w = (None, w)"
| "drop_records N failed name (r # rs) k w =
     (case (if failed k then None else dr_provider r) of
        None \<Rightarrow> drop_records N failed name rs (Suc k) w
      | Some pid \<Rightarrow>
          (case ncalls N (DeleteDns name pid) w of (_, a, w1) \<Rightarrow>
             (case nr_err a of Some (OtherError t) \<Rightarrow> (Some t, w1) | _ \<Rightarrow> drop_records N failed name rs (Suc k) w1)))"

definition drop_records_step :: "'p net_infra \<Rightarrow> env \<Rightarrow> uuid \<Rightarrow> ('p, 'z) networked_scheme op_step" where
  "drop_records_step N e org =
     \<lparr>os_name = ''remove-dns-records'',
      os_run = Some (\<lambda>poll rs w.
        (case (if nt_dns N then drop_records N (\<lambda>k. fault e (k + 6)) (op_domain_name w)
                 (if fault e 3 then [] else records_of N org (op_domain w) (dns_records w)) 0 w else (None, w)) of
           (Some t, w1) \<Rightarrow> fail_step t rs w1
         | (None, w1) \<Rightarrow>
             if fault e 4 then fail_step ''database error'' rs w1
             else done_step rs (w1\<lparr>dns_records := delete_where (\<lambda>r. dr_domain r = op_domain w1) (dns_records w1)\<rparr>))),
      os_undo = None\<rparr>"

definition mark_removed_step :: "env \<Rightarrow> ('p, 'z) networked_scheme op_step" where
  "mark_removed_step e =
     \<lparr>os_name = ''mark-removed'',
      os_run = Some (\<lambda>poll rs w.
        if fault e 5 then fail_step ''database error'' rs w
        else done_step rs (set_domain False (op_domain w) (\<lambda>d. d\<lparr>dm_status := ''removed'', dm_ssl := ''none'', dm_deleted := Some (db_now e),
               dm_updated := db_now e\<rparr>) w)),
      os_undo = None\<rparr>"

definition remove_steps :: "'p net_infra \<Rightarrow> env \<Rightarrow> uuid \<Rightarrow> uuid \<Rightarrow> ('p, 'z) networked_scheme op_step list" where
  "remove_steps N e org i = [drop_cert_step N e org i, drop_records_step N e org, mark_removed_step e]"

definition remove_definition :: "'p net_infra \<Rightarrow> env \<Rightarrow> ('p, 'z) networked_scheme op_definition" where
  "remove_definition N e =
     \<lparr>df_name = ''domain.remove'', df_permission = ''domains.manage'', df_tool_key = ''domain.remove'', df_notify_kind = ''domain.removed'',
      df_timeout_seconds = 0, df_flag = [],
      df_factory = (\<lambda>org project payload. let i = snd (payload_resource (nt_parse_uuid N) payload)
        in Inr \<lparr>op_validate = remove_validate e org i, op_body = StepperOp (remove_steps N e org i)\<rparr>)\<rparr>"

section \<open>The sweep\<close>

definition renewWindow :: duration where "renewWindow = 30 * 24 * hour"

definition runs_out :: "string set \<Rightarrow> time \<Rightarrow> certificate_row \<Rightarrow> bool" where
  "runs_out sts t c \<longleftrightarrow> ct_status c \<in> sts \<and> (case ct_until c of None \<Rightarrow> False | Some x \<Rightarrow> x < t)"

definition with_cert_status :: "env \<Rightarrow> string \<Rightarrow> certificate_row \<Rightarrow> certificate_row" where
  "with_cert_status e st c = c\<lparr>ct_status := st, ct_updated := db_now e\<rparr>"

text \<open>UPDATE .. FROM the certificates that expire or are expired.\<close>

definition copy_status :: "'p net_infra \<Rightarrow> certificate_row list \<Rightarrow> domain_row \<Rightarrow> domain_row" where
  "copy_status N cs d =
     (case filter (\<lambda>c. ct_domain c = dm_id d \<and> ct_status c \<in> {''expiring'', ''expired''} \<and> dm_ssl d \<noteq> ct_status c) cs of
        [] \<Rightarrow> d | hits \<Rightarrow> d\<lparr>dm_ssl := ct_status (nt_choose N hits)\<rparr>)"

text \<open>The first three statements of \<open>Sweep\<close>: what was counted, and whether one failed.\<close>

definition sweep_statuses :: "'p net_infra \<Rightarrow> env \<Rightarrow> time \<Rightarrow> ('p, 'z) networked_scheme \<Rightarrow> (int \<times> bool) \<times> ('p, 'z) networked_scheme" where
  "sweep_statuses N e now w =
     (let old = runs_out {''valid'', ''expiring''} now; soon = runs_out {''valid''} (now + renewWindow);
          w1 = w\<lparr>certificates := update_where old (with_cert_status e ''expired'') (certificates w)\<rparr>;
          w2 = w1\<lparr>certificates := update_where soon (with_cert_status e ''expiring'') (certificates w1)\<rparr>;
          n1 = int (row_count old (certificates w)); n2 = n1 + int (row_count soon (certificates w1))
      in if fault e 0 then ((0, True), w)
         else if fault e 1 then ((n1, True), w1)
         else ((n2, False), if fault e 2 then w2 else w2\<lparr>domains := map (copy_status N (certificates w2)) (domains w2)\<rparr>))"

definition renewal :: "'p net_infra \<Rightarrow> time \<Rightarrow> certificate_row \<Rightarrow> submit_input" where
  "renewal N now c =
     \<lparr>si_operation = ''ssl.renew'', si_project = uuid_nil,
      si_payload = Some (JObj [(''domain_id'', JStr (nt_uuid_text N (ct_domain c)))]),
      si_key = ''ssl-renew:'' @ nt_uuid_text N (ct_id c) @ '':'' @ nt_day N now\<rparr>"

fun submit_renewals ::
  "'p net_infra \<Rightarrow> (nat \<Rightarrow> env) \<Rightarrow> flag_checker \<Rightarrow> ('p, 'z) networked_scheme op_table \<Rightarrow> time \<Rightarrow> nat \<Rightarrow> certificate_row list \<Rightarrow> int
     \<Rightarrow> ('p, 'z) networked_scheme jobs_db \<Rightarrow> int \<times> ('p, 'z) networked_scheme jobs_db" where
  "submit_renewals N es fl defs now k [] n d = (n, d)"
| "submit_renewals N es fl defs now k (c # cs) n d =
     (case submit_trusted (es k) fl defs (System_ctx (ct_org c)) (renewal N now c) d of
        (Inl _, d1) \<Rightarrow> submit_renewals N es fl defs now (Suc k) cs n d1
      | (Inr ref, d1) \<Rightarrow> submit_renewals N es fl defs now (Suc k) cs (if jf_created ref then n + 1 else n) d1)"

text \<open>\<open>engine\<close> is the table of operations, when one was registered; statement 3 selects what is due.\<close>

definition Sweep ::
  "'p net_infra \<Rightarrow> env \<Rightarrow> (nat \<Rightarrow> env) \<Rightarrow> flag_checker \<Rightarrow> ('p, 'z) networked_scheme op_table option \<Rightarrow> time
     \<Rightarrow> ('p, 'z) networked_scheme jobs_db \<Rightarrow> (int \<times> bool) \<times> ('p, 'z) networked_scheme jobs_db" where
  "Sweep N e es fl engine now d =
     (case sweep_statuses N e now (outside d) of ((n, failed), w) \<Rightarrow>
       (let d1 = d\<lparr>outside := w\<rparr>
        in if failed then ((n, True), d1)
           else case engine of None \<Rightarrow> ((n, False), d1)
             | Some defs \<Rightarrow>
                 if fault e 3 then ((n, True), d1)
                 else case submit_renewals N es fl defs now 0 (filter (\<lambda>c. ct_status c = ''expiring'' \<and> ct_auto c) (certificates w)) n d1 of
                     (m, d2) \<Rightarrow> ((m, False), d2)))"

end
