(* ===== verification/Network_Zones.thy ===== *)
theory Network_Zones
  imports Networks Saga_Rules
begin

text \<open>
  The domains and their records: an invariant of the zones over every operation of the network service, and what
  a successful removal of a domain leaves.
\<close>

section \<open>What the zones hold\<close>

definition row_key :: "dns_row \<Rightarrow> uuid \<times> string \<times> string \<times> string" where
  "row_key r = (dr_domain r, ri_type (dr_rec r), ri_name (dr_rec r), ri_value (dr_rec r))"

definition same_name :: "dns_row \<Rightarrow> dns_row \<Rightarrow> bool" where
  "same_name r s \<longleftrightarrow> dr_domain r = dr_domain s \<and> ri_name (dr_rec r) = ri_name (dr_rec s)"

definition accepted_record :: "record_input \<Rightarrow> bool" where
  "accepted_record r \<longleftrightarrow> (\<exists>inp. validate_record inp = Inr r)"

definition consistent :: "dns_row list \<Rightarrow> bool" where
  "consistent rows \<longleftrightarrow> pk dr_id rows \<and> pk row_key rows \<and>
     (\<forall>r \<in> set rows. accepted_record (dr_rec r)) \<and>
     (\<forall>r \<in> set rows. \<forall>s \<in> set rows. same_name r s \<longrightarrow> ri_type (dr_rec r) = ''CNAME'' \<longrightarrow> row_key s = row_key r) \<and>
     (\<forall>i. row_count (\<lambda>r. dr_domain r = i) rows \<le> maxRecords)"

definition homed :: "domain_row list \<Rightarrow> dns_row list \<Rightarrow> bool" where
  "homed ds rows \<longleftrightarrow> pk dm_id ds \<and> (\<forall>r \<in> set rows. \<exists>d \<in> set ds. live_domain (dr_org r) (dr_domain r) d)"

definition zones_ok :: "('p, 'z) networked_scheme \<Rightarrow> bool" where
  "zones_ok w \<longleftrightarrow> consistent (dns_records w) \<and> homed (domains w) (dns_records w)"

lemma zones_ok_frame:
  "domains w' = domains w \<Longrightarrow> dns_records w' = dns_records w \<Longrightarrow> zones_ok w \<Longrightarrow> zones_ok w'"
  by (simp add: zones_ok_def)

named_theorems net_frame "what the pieces leave alone"

lemma ncalls_frame [net_frame]:
  assumes "ncalls N c w = (t, r, w')"
  shows "domains w' = domains w" "dns_records w' = dns_records w" "certificates w' = certificates w"
    "cert_orders w' = cert_orders w" "no_domain w' = no_domain w" "no_cert w' = no_cert w" "no_order w' = no_order w" "no_key w' = no_key w"
    "no_bundle w' = no_bundle w" "n_calls w' = n_calls w @ [(c, r)]" "projects w' = projects w" "t = map_option perror_text (nr_err r)"
  using assms by (auto simp: ncalls_def split: prod.splits)

lemma rec_audit_net [simp]:
  fixes w :: "('p, 'z) networked_scheme"
  shows "domains (rec_audit f ac a k i w) = domains w" "dns_records (rec_audit f ac a k i w) = dns_records w"
    "certificates (rec_audit f ac a k i w) = certificates w" "n_calls (rec_audit f ac a k i w) = n_calls w"
  by (simp_all add: rec_audit_def)

lemma zones_ncalls: "ncalls N c w = (t, r, w') \<Longrightarrow> zones_ok w' = zones_ok w"
  by (simp add: zones_ok_def ncalls_frame)

lemma zones_audit [simp]:
  fixes w :: "('p, 'z) networked_scheme"
  shows "zones_ok (rec_audit f ac a k i w) = zones_ok w"
  by (simp add: zones_ok_def)

section \<open>Domains\<close>

text \<open>An update of domains that neither renames, moves nor removes one.\<close>

lemma homed_update:
  assumes "homed ds rows" and "\<And>d. dm_id (f d) = dm_id d" "\<And>d. dm_org (f d) = dm_org d"
    "\<And>d. dm_deleted (f d) = dm_deleted d" "\<And>d. dm_status d \<noteq> ''removed'' \<Longrightarrow> dm_status (f d) \<noteq> ''removed''"
  shows "homed (update_where p f ds) rows"
proof -
  have "live_domain o' i (f d)" if "live_domain o' i d" for o' i d using that assms by (simp add: live_domain_def)
  then have "live_domain o' i (if p d then f d else d)" if "live_domain o' i d" for o' i d using that by simp
  then have "\<exists>d \<in> set (update_where p f ds). live_domain o' i d" if "\<exists>d \<in> set ds. live_domain o' i d" for o' i
    using that unfolding set_update_where by blast
  then show ?thesis using assms(1) by (simp add: homed_def pk_update_where assms(2))
qed

lemma zones_set_domain:
  assumes "zones_ok w" and "\<And>d. dm_id (f d) = dm_id d" "\<And>d. dm_org (f d) = dm_org d"
    "\<And>d. dm_deleted (f d) = dm_deleted d" "\<And>d. dm_status d \<noteq> ''removed'' \<Longrightarrow> dm_status (f d) \<noteq> ''removed''"
  shows "zones_ok (set_domain failed i f w)"
  using assms by (auto simp: zones_ok_def set_domain_def intro!: homed_update)

lemma zones_add:
  assumes "zones_ok w"
  shows "zones_ok (snd (AddDomain N e ac name project w))"
proof -
  have fresh: "homed (ds @ [d]) rows \<and> homed (delete_where (\<lambda>x. dm_id x = dm_id d) (ds @ [d])) rows"
    if "homed ds rows" "\<not> domain_taken ds d" for ds d rows
  proof -
    have n: "dm_id d \<notin> dm_id ` set ds" using that(2) by (auto simp: domain_taken_def list_ex_iff)
    then have "delete_where (\<lambda>x. dm_id x = dm_id d) (ds @ [d]) = ds"
      by (induction ds) (auto simp: delete_where_def)
    then show ?thesis using that(1) n by (auto simp: homed_def pk_append)
  qed
  have "dm_id (new_domain N e org p n) = new_id e" for org p n by (simp add: new_domain_def)
  with fresh have fresh: "homed (ds @ [new_domain N e org p n]) rows"
      "homed (delete_where (\<lambda>x. dm_id x = new_id e) (ds @ [new_domain N e org p n])) rows"
    if "homed ds rows" "\<not> domain_taken ds (new_domain N e org p n)" for ds rows org p n using that by metis+
  show ?thesis
  proof (cases "Require ac ''domains.manage''")
    case None
    show ?thesis using assms fresh unfolding AddDomain_def None option.case Let_def zones_ok_def
      by (auto simp: ncalls_frame split: option.split sum.split prod.split intro: fresh)
  qed (use assms in \<open>simp add: AddDomain_def\<close>)
qed

section \<open>Records\<close>

lemma cname_conflict_None:
  "cname_conflict inp rs = None \<Longrightarrow> r \<in> set rs \<Longrightarrow> ri_name (dr_rec r) = ri_name inp \<Longrightarrow>
     (ri_type inp = ''CNAME'' \<longleftrightarrow> ri_type (dr_rec r) = ''CNAME'') \<and> (ri_type inp = ''CNAME'' \<longrightarrow> ri_value (dr_rec r) = ri_value inp)"
  by (induction rs) (auto simp: Let_def split: if_splits)

lemma set_records_of [simp]: "set (records_of N org i rows) = {r \<in> set rows. dr_org r = org \<and> dr_domain r = i}"
  by (auto simp: records_of_def)

lemma length_records_of [simp]: "length (records_of N org i rows) = row_count (\<lambda>r. dr_org r = org \<and> dr_domain r = i) rows"
  by (simp add: records_of_def row_count_def)

lemma homed_org:
  assumes "homed ds rows" and "find (live_domain org i) ds = Some d" and "r \<in> set rows" "dr_domain r = i"
  shows "dr_org r = org"
proof -
  obtain x where "x \<in> set ds" "live_domain (dr_org r) i x" using assms by (auto simp: homed_def)
  moreover have "d \<in> set ds" "live_domain org i d" using find_SomeD [OF assms(2)] by auto
  ultimately show ?thesis using assms(1) pk_unique [of dm_id ds x d] by (auto simp: homed_def live_domain_def)
qed

lemma domain_records_Inr:
  assumes "domain_records N e org i w = Inr (d, rs)"
  shows "find (live_domain org i) (domains w) = Some d" "rs = records_of N org i (dns_records w)"
  using assms by (auto simp: domain_records_def load_domain_def split: if_splits option.splits)

lemma consistent_insert:
  assumes c: "consistent rows" and h: "homed ds rows" and d: "find (live_domain org i) ds = Some d"
    and room: "length (records_of N org i rows) < maxRecords" and ok: "cname_conflict (dr_rec r) (records_of N org i rows) = None"
    and r: "dr_domain r = i" "dr_id r \<notin> dr_id ` set rows" "accepted_record (dr_rec r)" and new: "row_key r \<notin> row_key ` set rows"
  shows "consistent (rows @ [r])"
proof -
  have own: "s \<in> set (records_of N org i rows)" if "s \<in> set rows" "dr_domain s = i" for s
    using homed_org [OF h d that] that by simp
  have clash: "ri_type (dr_rec r) = ''CNAME'' \<longleftrightarrow> ri_type (dr_rec s) = ''CNAME''" "ri_type (dr_rec r) = ''CNAME'' \<longrightarrow> ri_value (dr_rec s) = ri_value (dr_rec r)"
    if "s \<in> set rows" "dr_domain s = i" "ri_name (dr_rec s) = ri_name (dr_rec r)" for s
    using cname_conflict_None [OF ok own] that by blast+
  have no: False if "s \<in> set rows" "same_name r s" "ri_type (dr_rec r) = ''CNAME'' \<or> ri_type (dr_rec s) = ''CNAME''" for s
  proof -
    have "row_key s = row_key r" using clash [of s] that r(1) by (auto simp: same_name_def row_key_def)
    then show False using new that(1) by (metis image_eqI)
  qed
  have "row_count (\<lambda>s. dr_domain s = i) rows = row_count (\<lambda>s. dr_org s = org \<and> dr_domain s = i) rows"
    using own unfolding row_count_def by (intro arg_cong [where f = length] filter_cong) auto
  then have "row_count (\<lambda>s. dr_domain s = i) rows < maxRecords" using room by simp
  then have count: "row_count (\<lambda>s. dr_domain s = k) (rows @ [r]) \<le> maxRecords" for k
    using c r(1) by (auto simp: consistent_def row_count_def)
  have sym: "same_name s r = same_name r s" for s by (auto simp: same_name_def)
  have pks: "pk dr_id (rows @ [r])" "pk row_key (rows @ [r])" using c r(2) new by (simp_all add: consistent_def pk_append)
  have cn: "row_key t = row_key s" if "s \<in> set (rows @ [r])" "t \<in> set (rows @ [r])" "same_name s t" "ri_type (dr_rec s) = ''CNAME''" for s t
    using that c no [of s] no [of t] sym by (auto simp: consistent_def)
  show ?thesis using c r(3) count pks cn unfolding consistent_def by auto
qed

lemma consistent_map:
  assumes c: "consistent rows" and g: "\<And>r. r \<in> set rows \<Longrightarrow> dr_id (g r) = dr_id r \<and> row_key (g r) = row_key r \<and> accepted_record (dr_rec (g r))"
  shows "consistent (map g rows)"
proof -
  have m: "map dr_id (map g rows) = map dr_id rows" "map row_key (map g rows) = map row_key rows" using g by simp_all
  have k: "dr_domain (g r) = dr_domain r" "ri_type (dr_rec (g r)) = ri_type (dr_rec r)" "ri_name (dr_rec (g r)) = ri_name (dr_rec r)"
    if "r \<in> set rows" for r using g [OF that] by (simp_all add: row_key_def)
  have "row_count (\<lambda>r. dr_domain r = i) (map g rows) = row_count (\<lambda>r. dr_domain r = i) rows" for i
    unfolding row_count_def filter_map length_map using k(1) by (intro arg_cong [where f = length] filter_cong) (simp_all add: comp_def)
  moreover have "same_name (g r) (g t) = same_name r t" if "r \<in> set rows" "t \<in> set rows" for r t
    using k that by (simp add: same_name_def)
  ultimately show ?thesis using c m g k unfolding consistent_def pk_def by (simp del: map_map)
qed

lemma consistent_update:
  assumes "consistent rows" and "\<And>r. r \<in> set rows \<Longrightarrow> p r \<Longrightarrow> dr_id (f r) = dr_id r \<and> row_key (f r) = row_key r \<and> accepted_record (dr_rec (f r))"
  shows "consistent (update_where p f rows)"
  unfolding update_where_def using assms by (intro consistent_map) (auto simp: consistent_def)

lemma consistent_delete:
  assumes "consistent rows" shows "consistent (delete_where p rows)"
proof -
  have "row_count q (delete_where p rows) \<le> row_count q rows" for q
    unfolding row_count_def delete_where_def filter_filter by (induction rows) auto
  then show ?thesis using assms unfolding consistent_def
    by (auto simp: pk_delete_where) (meson order_trans)
qed

lemma same_record_key: "same_record i inp r \<longleftrightarrow> row_key r = (i, ri_type inp, ri_name inp, ri_value inp)"
  by (auto simp: same_record_def row_key_def)

lemma validate_accepted: "validate_record inp = Inr r \<Longrightarrow> accepted_record r"
  by (auto simp: accepted_record_def)

lemma zones_store:
  assumes z: "zones_ok w" and d: "find (live_domain org i) (domains w) = Some d"
    and room: "length (records_of N org i (dns_records w)) < maxRecords" and ok: "cname_conflict inp (records_of N org i (dns_records w)) = None"
    and v: "accepted_record inp" and s: "store_record failed e org i inp pid w = Some (r, w')"
  shows "zones_ok w'"
proof -
  have c: "consistent (dns_records w)" and h: "homed (domains w) (dns_records w)" using z by (simp_all add: zones_ok_def)
  show ?thesis
  proof (cases "find (same_record i inp) (dns_records w)")
    case None
    have w': "w' = w\<lparr>dns_records := dns_records w @ [r]\<rparr>" "new_id e \<notin> dr_id ` set (dns_records w)"
      and r: "r = \<lparr>dr_id = new_id e, dr_org = org, dr_domain = i, dr_rec = inp, dr_provider = Some pid, dr_updated = db_now e\<rparr>"
      using s None by (auto simp: store_record_def Let_def split: if_splits)
    have "row_key r \<notin> row_key ` set (dns_records w)"
      using None by (auto simp: find_None_iff same_record_key row_key_def r)
    then have "consistent (dns_records w @ [r])"
      using consistent_insert [OF c h d room, of r] ok v w'(2) by (simp add: r)
    moreover have "live_domain org i d" "d \<in> set (domains w)" using find_SomeD [OF d] by auto
    ultimately show ?thesis using h by (auto simp: zones_ok_def w' homed_def r)
  next
    case (Some x)
    let ?f = "\<lambda>r. r\<lparr>dr_rec := (dr_rec r)\<lparr>ri_ttl := ri_ttl inp, ri_priority := ri_priority inp\<rparr>, dr_provider := Some pid, dr_updated := db_now e\<rparr>"
    have w': "w' = w\<lparr>dns_records := update_where (same_record i inp) ?f (dns_records w)\<rparr>"
      using s Some by (auto simp: store_record_def Let_def split: if_splits)
    have "dr_id (?f r) = dr_id r \<and> row_key (?f r) = row_key r \<and> accepted_record (dr_rec (?f r))" if "same_record i inp r" for r
    proof -
      have "dr_rec (?f r) = inp" using that by (simp add: same_record_def)
      then have "accepted_record (dr_rec (?f r))" using v by (simp only:)
      then show ?thesis using that by (simp add: row_key_def)
    qed
    then have "consistent (update_where (same_record i inp) ?f (dns_records w))" using c by (intro consistent_update) simp_all
    then show ?thesis using h by (auto simp: zones_ok_def w' homed_def set_update_where)
  qed
qed

lemma zones_upsert:
  assumes z: "zones_ok w"
  shows "zones_ok (snd (UpsertRecord N e ac i inp0 w))"
proof (cases "Require ac ''domains.manage''")
  case None
  have stored: "zones_ok w2"
    if "validate_record inp0 = Inr inp" "domain_records N e (org_id ac) i w = Inr (d, rs)" "\<not> maxRecords \<le> length rs"
      "cname_conflict inp rs = None" "ncalls N (UpsertDns (dm_name d) inp) w = (None, pr, w1)"
      "store_record f e (org_id ac) i inp (nr_id pr) w1 = Some (out, w2)" for inp d rs pr w1 f out w2
    using zones_store [of w1 "org_id ac" i d N inp f e "nr_id pr" out w2] z that domain_records_Inr [OF that(2)] zones_ncalls [OF that(5)] ncalls_frame [OF that(5)]
      validate_accepted [OF that(1)] by simp
  show ?thesis using z unfolding UpsertRecord_def None option.case
    by (auto simp: zones_ncalls split: option.split sum.split prod.split intro!: zones_set_domain intro: stored)
qed (use z in \<open>simp add: UpsertRecord_def\<close>)

lemma zones_drop: "zones_ok w \<Longrightarrow> zones_ok (w\<lparr>dns_records := delete_where p (dns_records w)\<rparr>)"
  by (auto simp: zones_ok_def homed_def consistent_delete)

lemma zones_delete: "zones_ok w \<Longrightarrow> zones_ok (snd (DeleteRecord N e ac i k w))"
  by (cases "Require ac ''domains.manage''")
     (auto simp: DeleteRecord_def Let_def zones_ncalls split: option.split sum.split prod.split perror.split intro!: zones_drop)

lemma zones_push:
  assumes "zones_ok w"
  shows "zones_ok (w\<lparr>dns_records := update_where p (\<lambda>x. x\<lparr>dr_provider := q\<rparr>) (dns_records w)\<rparr>)"
proof -
  have "consistent (update_where p (\<lambda>x. x\<lparr>dr_provider := q\<rparr>) (dns_records w))"
    using assms by (intro consistent_update) (auto simp: zones_ok_def row_key_def consistent_def)
  then show ?thesis using assms by (auto simp: zones_ok_def homed_def set_update_where)
qed

lemma zones_sync_records: "zones_ok w \<Longrightarrow> zones_ok (snd (sync_records N failed name rs k w))"
  by (induction N failed name rs k w rule: sync_records.induct)
     (auto simp: zones_ncalls zones_push split: option.split prod.split)

lemma zones_sync:
  assumes z: "zones_ok w" shows "zones_ok (snd (Sync N e ac i w))"
proof (cases "Require ac ''domains.manage''")
  case None
  have "zones_ok w2" if "ncalls N c w = (t, r, w1)" "sync_records N f name rs k w1 = (x, w2)" for c t r w1 f name rs k x w2
    using zones_sync_records [of w1 N f name rs k] z that by (simp add: zones_ncalls)
  then show ?thesis using z unfolding Sync_def None option.case Let_def
    by (auto simp: zones_ncalls split: option.split sum.split prod.split)
qed (use z in \<open>simp add: Sync_def\<close>)

lemma check_records_frame: "domains (snd (check_records N name rs w)) = domains w \<and> dns_records (snd (check_records N name rs w)) = dns_records w"
  by (induction N name rs w rule: check_records.induct) (auto simp: ncalls_frame split: prod.split)

lemma zones_check: "zones_ok w \<Longrightarrow> zones_ok (snd (CheckPropagation N e ac i w))"
proof (cases "Require ac ''domains.read''")
  case None
  assume z: "zones_ok w"
  have "zones_ok w1" if "check_records N name rs w = (out, w1)" for name rs out w1
    using zones_ok_frame [OF _ _ z, of w1] check_records_frame [of N name rs w] that by simp
  then show ?thesis using z unfolding CheckPropagation_def None option.case Let_def
    by (auto split: sum.split prod.split intro!: zones_set_domain)
qed (simp add: CheckPropagation_def)

section \<open>The operations\<close>

lemma ends_ncalls [ends]:
  assumes "\<And>t r w1. ncalls N c w = (Some t, r, w1) \<Longrightarrow> ends (f t r w1) Ok Err" and "\<And>r w1. ncalls N c w = (None, r, w1) \<Longrightarrow> ends (g r w1) Ok Err"
  shows "ends (case ncalls N c w of (Some t, r, w1) \<Rightarrow> f t r w1 | (None, r, w1) \<Rightarrow> g r w1) Ok Err"
  using assms by (auto split: prod.splits option.splits)

lemma write_cert_frame [net_frame]:
  assumes "write_cert f i h w = Some w'"
  shows "domains w' = domains w" "dns_records w' = dns_records w" "no_domain w' = no_domain w" "n_calls w' = n_calls w"
    "no_cert w' = no_cert w" "no_key w' = no_key w" "no_bundle w' = no_bundle w" "certificates w' = update_where (\<lambda>c. ct_id c = i) h (certificates w)"
    "cert_orders w' = cert_orders w" "no_order w' = no_order w"
  using assms by (auto simp: write_cert_def Let_def split: if_splits)

lemma zones_frame_simps [simp]:
  fixes w :: "('p, 'z) networked_scheme"
  shows "zones_ok (w\<lparr>certificates := cs\<rparr>) = zones_ok w" "zones_ok (w\<lparr>cert_orders := os\<rparr>) = zones_ok w"
    "zones_ok (w\<lparr>no_domain := x\<rparr>) = zones_ok w" "zones_ok (w\<lparr>no_cert := ci\<rparr>) = zones_ok w" "zones_ok (w\<lparr>no_order := j\<rparr>) = zones_ok w"
    "zones_ok (w\<lparr>no_key := k\<rparr>) = zones_ok w" "zones_ok (w\<lparr>no_bundle := b\<rparr>) = zones_ok w" "zones_ok (opened_domain org i w) = zones_ok w"
  by (simp_all add: zones_ok_def opened_domain_def)

lemma zones_write_cert: "write_cert f i h w = Some w' \<Longrightarrow> zones_ok w' = zones_ok w"
  by (simp add: zones_ok_def write_cert_frame)

lemma zones_order_cert: "order_cert N e org kind w = Some w' \<Longrightarrow> zones_ok w' = zones_ok w"
  by (auto simp: order_cert_def split: if_splits option.splits)

lemma cert_steps_zones:
  fixes N :: "'p net_infra"
  assumes "st \<in> set (cert_steps N e oid org i kind job :: ('p, 'z) networked_scheme op_step list)"
  shows "step_keeps (\<lambda>_ _. zones_ok) (\<lambda>_ _. zones_ok) k st"
proof -
  consider "st = open_order_step N e oid org i kind job" | "st = cert_provider_step N e kind" | "st = store_certificate_step N e org kind" | "st = finish_order_step e"
    using assms by (auto simp: cert_steps_def)
  then show ?thesis
  proof cases
    case 1
    show ?thesis unfolding 1
      by (rule step_keeps_const [where f = "the (os_run (open_order_step N e oid org i kind job))"])
         (auto simp: open_order_step_def zones_order_cert Let_def split: option.split)
  next
    case 2
    have "zones_ok w \<Longrightarrow> ends (cert_failed e t rs w) (\<lambda>_. zones_ok) (\<lambda>_. zones_ok)" for t rs and w :: "('p, 'z) networked_scheme"
      by (auto simp: cert_failed_def coalesce_def zones_write_cert split: option.split)
    note failed = this
    show ?thesis unfolding 2
      by (rule step_keeps_const [where f = "the (os_run (cert_provider_step N e kind))"])
         (auto simp: cert_provider_step_def zones_ncalls Let_def split: option.split prod.split intro!: failed)
  next
    case 3
    have a: "zones_ok w \<Longrightarrow> ends (revoked_step e rs w) (\<lambda>_. zones_ok) (\<lambda>_. zones_ok)" for rs and w :: "('p, 'z) networked_scheme"
      by (auto simp: revoked_step_def zones_write_cert split: option.split intro!: zones_set_domain)
    have b: "zones_ok w \<Longrightarrow> ends (store_cert N e org rs w) (\<lambda>_. zones_ok) (\<lambda>_. zones_ok)" for rs and w :: "('p, 'z) networked_scheme"
      by (auto simp: store_cert_def Let_def zones_ncalls zones_write_cert split: option.split prod.split intro!: zones_set_domain)
    show ?thesis unfolding 3
      by (rule step_keeps_const [where f = "the (os_run (store_certificate_step N e org kind))"])
         (auto simp: store_certificate_step_def a b zones_ncalls split: prod.split)
  next
    case 4
    show ?thesis unfolding 4
      by (rule step_keeps_const [where f = "the (os_run (finish_order_step e))"]) (auto simp: finish_order_step_def)
  qed
qed

lemma zones_cert_operation:
  fixes d d' :: "('p, 'z) networked_scheme jobs_db"
  assumes "engine_execute e c (cert_definition n pm kd kind N oe oid job) j d = (r, d')" and "zones_ok (outside d)"
  shows "zones_ok (outside d')"
  using assms by (rule execution_invariant) (auto simp: cert_definition_def intro!: cert_steps_zones)

subsection \<open>Removal\<close>

definition emptied :: "('p, 'z) networked_scheme \<Rightarrow> bool" where
  "emptied w \<longleftrightarrow> zones_ok w \<and> (\<forall>r \<in> set (dns_records w). dr_domain r \<noteq> op_domain w)"

lemma drop_records_frame:
  "domains (snd (drop_records N f name rs k w)) = domains w \<and> dns_records (snd (drop_records N f name rs k w)) = dns_records w \<and>
     certificates (snd (drop_records N f name rs k w)) = certificates w \<and> no_domain (snd (drop_records N f name rs k w)) = no_domain w"
  by (induction N f name rs k w rule: drop_records.induct)
     (auto simp: ncalls_frame split: option.split prod.split perror.split)

lemma zones_remove_domain:
  assumes "emptied w" and "f = (\<lambda>d. d\<lparr>dm_status := ''removed'', dm_ssl := ''none'', dm_deleted := Some t, dm_updated := t\<rparr>)"
  shows "zones_ok (set_domain g (op_domain w) f w)"
proof -
  have "\<exists>d \<in> set (update_where (\<lambda>d. dm_id d = op_domain w) f (domains w)). live_domain (dr_org r) (dr_domain r) d" if "r \<in> set (dns_records w)" for r
  proof -
    obtain d where d: "d \<in> set (domains w)" "live_domain (dr_org r) (dr_domain r) d" using assms(1) \<open>r \<in> _\<close> by (auto simp: emptied_def zones_ok_def homed_def)
    then have "dm_id d \<noteq> op_domain w" using assms(1) \<open>r \<in> _\<close> by (auto simp: emptied_def live_domain_def)
    then have "d \<in> set (update_where (\<lambda>d. dm_id d = op_domain w) f (domains w))" using d(1) by (force simp: set_update_where)
    then show ?thesis using d(2) by blast
  qed
  then show ?thesis using assms(1) by (auto simp: emptied_def zones_ok_def set_domain_def homed_def pk_update_where assms(2))
qed

lemma drop_cert_zones:
  fixes N :: "'p net_infra"
  shows "step_keeps (\<lambda>_ _. zones_ok) (\<lambda>_ _. zones_ok) k (drop_cert_step N e org i :: ('p, 'z) networked_scheme op_step)"
  by (rule step_keeps_const [where f = "the (os_run (drop_cert_step N e org i))"])
     (auto simp: drop_cert_step_def zones_ncalls Let_def split: option.split prod.split)

lemma remove_steps_zones:
  fixes N :: "'p net_infra"
  shows "steps_keep (\<lambda>k rs w. if k = 2 then emptied w else zones_ok w) (\<lambda>k rs. zones_ok) 0
    (remove_steps N e org i :: ('p, 'z) networked_scheme op_step list)"
proof -
  let ?I = "\<lambda>k (rs :: run_state) (w :: ('p, 'z) networked_scheme). if k = 2 then emptied w else zones_ok w"
  have a: "step_keeps ?I (\<lambda>k rs. zones_ok) 0 (drop_cert_step N e org i)"
    using drop_cert_zones [of 0 N e org i] by (simp add: step_keeps_def step_tracks_def cong: option.case_cong)
  have "emptied (w1\<lparr>dns_records := delete_where (\<lambda>r. dr_domain r = op_domain w1) (dns_records w1)\<rparr>)" if "zones_ok w1" for w1 :: "('p, 'z) networked_scheme"
    using zones_drop [OF that] by (auto simp: emptied_def op_domain_def)
  moreover have "zones_ok w1" if "drop_records N f name rs k w = (x, w1)" "zones_ok w" for f name rs k x and w w1 :: "('p, 'z) networked_scheme"
    using zones_ok_frame [OF _ _ that(2), of w1] drop_records_frame [of N f name rs k w] that(1) by simp
  ultimately have b: "step_keeps ?I (\<lambda>k rs. zones_ok) 1 (drop_records_step N e org)"
    by (intro step_keeps_ends [where f = "the (os_run (drop_records_step N e org))"])
       (auto simp: drop_records_step_def split: option.split prod.split)
  have "zones_ok w" if "emptied w" for w :: "('p, 'z) networked_scheme" using that by (simp add: emptied_def)
  then have c: "step_keeps ?I (\<lambda>k rs. zones_ok) 2 (mark_removed_step e)"
    by (intro step_keeps_ends [where f = "the (os_run (mark_removed_step e))"])
       (auto simp: mark_removed_step_def intro!: zones_remove_domain)
  show ?thesis using a b c by (simp add: remove_steps_def numeral_eq_Suc)
qed

lemma zones_removal:
  fixes d d' :: "('p, 'z) networked_scheme jobs_db"
  assumes "engine_execute e c (remove_definition N oe) j d = (r, d')" and z: "zones_ok (outside d)"
  shows "zones_ok (outside d')"
proof -
  let ?i = "snd (payload_resource (nt_parse_uuid N) (j_payload j))"
  let ?op = "\<lparr>op_validate = remove_validate oe (j_org j) ?i, op_body = StepperOp (remove_steps N oe (j_org j) ?i)\<rparr> :: ('p, 'z) networked_scheme operation"
  show ?thesis
    by (rule execution_keeps [OF assms(1), of ?op, OF _ _ remove_steps_zones [of N oe "j_org j" ?i]])
       (use z in \<open>auto simp: remove_definition_def remove_steps_def emptied_def Let_def split: if_splits\<close>)
qed

section \<open>The sweep\<close>

lemma submit_common_outside: "outside (snd (submit_common e fl ac df inp d)) = outside d"
  by (simp add: submit_common_def Let_def split: option.split sum.split)

lemma submit_renewals_outside: "outside (snd (submit_renewals N es fl defs now k cs n d)) = outside d"
  by (induction cs arbitrary: k n d)
     (auto simp: submit_trusted_def split: option.split sum.split prod.split, (metis submit_common_outside snd_conv)+)

lemma zones_statuses: "zones_ok w \<Longrightarrow> zones_ok (snd (sweep_statuses N e now w))"
proof -
  assume z: "zones_ok w"
  have "dm_id (copy_status N cs d) = dm_id d" "dm_org (copy_status N cs d) = dm_org d" "dm_deleted (copy_status N cs d) = dm_deleted d"
    "dm_status (copy_status N cs d) = dm_status d" for cs d by (simp_all add: copy_status_def split: list.split)
  then have "homed (map (copy_status N cs) ds) rows" if "homed ds rows" for cs ds rows
    using homed_update [OF that, of "copy_status N cs" "\<lambda>_. True"] unfolding update_where_def by simp
  then show ?thesis using z by (auto simp: sweep_statuses_def Let_def zones_ok_def)
qed

lemma zones_sweep:
  assumes "zones_ok (outside d)" shows "zones_ok (outside (snd (Sweep N e es fl engine now d)))"
proof -
  obtain n failed w where s: "sweep_statuses N e now (outside d) = ((n, failed), w)" by (metis prod.collapse)
  then have "zones_ok w" using zones_statuses [OF assms, of N e now] by simp
  moreover have "outside d2 = w" if "submit_renewals N es fl defs now 0 cs n (d\<lparr>outside := w\<rparr>) = (m, d2)" for defs cs m d2
    using submit_renewals_outside [of N es fl defs now 0 cs n "d\<lparr>outside := w\<rparr>"] that by simp
  ultimately show ?thesis using s by (auto simp: Sweep_def Let_def split: option.split prod.split)
qed

section \<open>Runs of the network service\<close>

datatype net_event =
    AddsDomain env auth_context string "uuid option"
  | Upserts env auth_context uuid record_input
  | Deletes env auth_context uuid uuid
  | Syncs env auth_context uuid
  | Checks env auth_context uuid
  | Certifies env cancel_env string string string string env uuid uuid job
  | Removes env cancel_env env job
  | Sweeps env "nat \<Rightarrow> env" flag_checker time

fun net_step ::
  "'p net_infra \<Rightarrow> ('p, 'z) networked_scheme op_table option \<Rightarrow> net_event \<Rightarrow> ('p, 'z) networked_scheme jobs_db \<Rightarrow> ('p, 'z) networked_scheme jobs_db" where
  "net_step N eng (AddsDomain e ac name project) d = on_outside (AddDomain N e ac name project) d"
| "net_step N eng (Upserts e ac i inp) d = on_outside (UpsertRecord N e ac i inp) d"
| "net_step N eng (Deletes e ac i k) d = on_outside (DeleteRecord N e ac i k) d"
| "net_step N eng (Syncs e ac i) d = on_outside (Sync N e ac i) d"
| "net_step N eng (Checks e ac i) d = on_outside (CheckPropagation N e ac i) d"
| "net_step N eng (Certifies e c name perm kd kind oe oid job j) d = snd (engine_execute e c (cert_definition name perm kd kind N oe oid job) j d)"
| "net_step N eng (Removes e c oe j) d = snd (engine_execute e c (remove_definition N oe) j d)"
| "net_step N eng (Sweeps e es fl now) d = snd (Sweep N e es fl eng now d)"

lemma net_step_zones:
  assumes z: "zones_ok (outside d)"
  shows "zones_ok (outside (net_step N eng ev d))"
proof (cases ev)
  case (Certifies e c name perm kd kind oe oid job j)
  then show ?thesis using zones_cert_operation [OF _ z] by (metis net_step.simps(6) prod.collapse)
next
  case (Removes e c oe j)
  then show ?thesis using zones_removal [OF _ z] by (metis net_step.simps(7) prod.collapse)
qed (use z in \<open>simp_all add: on_outside_def zones_add zones_upsert zones_delete zones_sync zones_check zones_sweep\<close>)

text \<open>
  C19: The zones stay consistent. Along any sequence of domains added and removed, records written, deleted,
  pushed and checked, certificate operations and sweeps, each with any provider answers, driver errors and
  cancellations: every stored record passed validation and belongs to a domain of its organization that is not
  removed; a CNAME is the only record of its name; and no domain holds more than 200 records.
\<close>

theorem zones_stay_consistent:
  assumes "zones_ok (outside d)" and "w = outside (run_ops (net_step N eng) evs d)" and "r \<in> set (dns_records w)"
  shows "accepted_record (dr_rec r) \<and> (\<exists>x \<in> set (domains w). live_domain (dr_org r) (dr_domain r) x) \<and>
     (\<forall>s \<in> set (dns_records w). same_name r s \<longrightarrow> ri_type (dr_rec r) = ''CNAME'' \<longrightarrow> s = r) \<and>
     row_count (\<lambda>s. dr_domain s = dr_domain r) (dns_records w) \<le> 200"
proof -
  have "zones_ok w" unfolding assms(2)
    by (rule run_ops_invariant [where I = "\<lambda>d. zones_ok (outside d)"]) (simp_all add: assms(1) net_step_zones)
  moreover from this have "pk row_key (dns_records w)" by (simp add: zones_ok_def consistent_def)
  ultimately show ?thesis using assms(3) pk_unique [of row_key "dns_records w"]
    by (simp add: zones_ok_def consistent_def homed_def maxRecords_def)
qed

section \<open>A removed domain\<close>

text \<open>The provider does not hold the record: it never did, or it answered that it deleted or did not know it.\<close>

definition asked_to_delete :: "(ncall \<times> nreply) list \<Rightarrow> dns_row \<Rightarrow> bool" where
  "asked_to_delete l r \<longleftrightarrow> (case dr_provider r of None \<Rightarrow> True | Some pid \<Rightarrow>
     \<exists>name a. (DeleteDns name pid, a) \<in> set l \<and> (nr_err a = None \<or> nr_err a = Some ErrNotFound))"

lemma asked_to_delete_mono: "asked_to_delete l r \<Longrightarrow> asked_to_delete (l @ m) r"
  by (cases "dr_provider r") (auto simp: asked_to_delete_def)

lemma drop_records_asks:
  "drop_records N failed name rs k w = (None, w') \<Longrightarrow> (\<exists>m. n_calls w' = n_calls w @ m) \<and>
     (\<forall>n < length rs. failed (k + n) \<or> asked_to_delete (n_calls w') (rs ! n))"
proof (induction rs arbitrary: k w)
  case (Cons r rs)
  show ?case
  proof (cases "failed k \<or> dr_provider r = None")
    case True
    then have "drop_records N failed name rs (Suc k) w = (None, w')" using Cons.prems by (auto split: if_splits)
    note IH = Cons.IH [OF this]
    show ?thesis using IH True by (auto simp: asked_to_delete_def less_Suc_eq_0_disj)
  next
    case False
    then obtain pid where pid: "dr_provider r = Some pid" "\<not> failed k" by auto
    obtain t a w1 where c: "ncalls N (DeleteDns name pid) w = (t, a, w1)" by (metis prod_cases3)
    then have next_run: "drop_records N failed name rs (Suc k) w1 = (None, w')" and ok: "nr_err a = None \<or> nr_err a = Some ErrNotFound"
      using Cons.prems pid by (auto split: option.splits perror.splits)
    note IH = Cons.IH [OF next_run]
    have n: "n_calls w1 = n_calls w @ [(DeleteDns name pid, a)]" using ncalls_frame [OF c] by simp
    then have "(DeleteDns name pid, a) \<in> set (n_calls w')" using IH by auto
    then have "asked_to_delete (n_calls w') r" using pid ok by (auto simp: asked_to_delete_def)
    then show ?thesis using IH n by (auto simp: less_Suc_eq_0_disj)
  qed
qed simp

text \<open>
  The two reads of the removal of \<open>i\<close> that the code does not check: of the list of records, and, for the
  record at place \<open>n\<close> of that list, of its provider id.
\<close>

definition read_failed :: "'p net_infra \<Rightarrow> env \<Rightarrow> uuid \<Rightarrow> uuid \<Rightarrow> dns_row list \<Rightarrow> dns_row \<Rightarrow> bool" where
  "read_failed N e org i old r \<longleftrightarrow>
     fault e 3 \<or> (\<exists>n < length (records_of N org i old). records_of N org i old ! n = r \<and> fault e (n + 6))"

text \<open>What holds before each step of the removal of the domain \<open>i\<close>: \<open>old\<close> are its records at the start.\<close>

definition removal_at :: "'p net_infra \<Rightarrow> env \<Rightarrow> uuid \<Rightarrow> uuid \<Rightarrow> dns_row list \<Rightarrow> nat \<Rightarrow> ('p, 'z) networked_scheme \<Rightarrow> bool" where
  "removal_at N e org i old k w \<longleftrightarrow>
     (if k = 0 then find (live_domain org i) (domains w) \<noteq> None else op_domain w = i) \<and>
     (1 \<le> k \<longrightarrow> (\<forall>c \<in> set (certificates w). \<not> live_cert i c)) \<and>
     (if k \<le> 1 then dns_records w = old
      else (\<forall>r \<in> set (dns_records w). dr_domain r \<noteq> i) \<and>
        (nt_dns N \<longrightarrow> (\<forall>r \<in> set old. dr_org r = org \<longrightarrow> dr_domain r = i \<longrightarrow> read_failed N e org i old r \<or> asked_to_delete (n_calls w) r))) \<and>
     (3 \<le> k \<longrightarrow> (\<forall>d \<in> set (domains w). \<not> live_domain org i d))"

lemma op_domain_simps [simp]:
  fixes w :: "('p, 'z) networked_scheme"
  shows "op_domain (w\<lparr>certificates := cs\<rparr>) = op_domain w" "op_domain (w\<lparr>dns_records := rs\<rparr>) = op_domain w"
    "op_domain (set_domain g i f w) = op_domain w"
  by (simp_all add: op_domain_def set_domain_def)

lemma op_domain_frame: "no_domain w' = no_domain w \<Longrightarrow> op_domain w' = op_domain w"
  by (simp add: op_domain_def)

lemma drop_cert_removes:
  assumes "removal_at N e org i old 0 w"
  shows "ends (the (os_run (drop_cert_step N e org i)) poll rs w) (\<lambda>_. removal_at N e org i old 1) (\<lambda>_ _. True)"
proof -
  let ?w = "opened_domain org i w"
  obtain dm where dm: "find (live_domain org i) (domains w) = Some dm" using assms by (auto simp: removal_at_def)
  then have op: "op_domain ?w = i" using find_SomeD [OF dm] by (auto simp: opened_domain_def op_domain_def live_domain_def)
  have frame: "domains ?w = domains w" "dns_records ?w = dns_records w" "certificates ?w = certificates w" by (simp_all add: opened_domain_def)
  have none: "removal_at N e org i old 1 ?w" if "find (live_cert i) (certificates w) = None"
    using assms op frame find_NoneD [OF that] by (auto simp: removal_at_def)
  have rev: "removal_at N e org i old 1 (w1\<lparr>certificates := update_where (live_cert i) (\<lambda>c. c\<lparr>ct_status := ''revoked'', ct_updated := t\<rparr>) cs\<rparr>)"
    if "domains w1 = domains w" "dns_records w1 = dns_records w" "op_domain w1 = i" for w1 t cs
    using assms that by (auto simp: removal_at_def live_cert_def set_update_where)
  have keep: "domains w1 = domains w \<and> dns_records w1 = dns_records w \<and> op_domain w1 = i" if "ncalls N c ?w = (x, y, w1)" for c x y w1
    using ncalls_frame [OF that] frame op op_domain_frame [of w1 ?w] by simp
  show ?thesis using none rev keep frame op
    by (auto simp: drop_cert_step_def Let_def split: option.split prod.split)
qed

lemma drop_records_removes:
  assumes "removal_at N e org i old 1 w"
  shows "ends (the (os_run (drop_records_step N e org)) poll rs w) (\<lambda>_. removal_at N e org i old 2) (\<lambda>_ _. True)"
proof -
  have op: "op_domain w = i" and old: "dns_records w = old" and cs: "\<forall>c \<in> set (certificates w). \<not> live_cert i c"
    using assms by (auto simp: removal_at_def)
  let ?recs = "if fault e 3 then [] else records_of N org i old"
  have gone: "removal_at N e org i old 2 (w1\<lparr>dns_records := delete_where (\<lambda>r. dr_domain r = op_domain w1) (dns_records w1)\<rparr>)"
    if "no_domain w1 = no_domain w" "certificates w1 = certificates w"
      "nt_dns N \<longrightarrow> (\<forall>r \<in> set old. dr_org r = org \<longrightarrow> dr_domain r = i \<longrightarrow> read_failed N e org i old r \<or> asked_to_delete (n_calls w1) r)" for w1
    using that op cs op_domain_frame [OF that(1)] by (auto simp: removal_at_def)
  have asks: "no_domain w1 = no_domain w \<and> certificates w1 = certificates w \<and>
      (\<forall>r \<in> set old. dr_org r = org \<longrightarrow> dr_domain r = i \<longrightarrow> read_failed N e org i old r \<or> asked_to_delete (n_calls w1) r)"
    if d: "drop_records N (\<lambda>k. fault e (k + 6)) (op_domain_name w) ?recs 0 w = (None, w1)" for w1
  proof -
    have "read_failed N e org i old r \<or> asked_to_delete (n_calls w1) r" if r: "r \<in> set old" "dr_org r = org" "dr_domain r = i" for r
    proof (cases "fault e 3")
      case False
      have "r \<in> set (records_of N org i old)" using r by (simp add: records_of_def)
      then obtain n where n: "n < length (records_of N org i old)" "records_of N org i old ! n = r" unfolding in_set_conv_nth by blast
      then have "fault e (n + 6) \<or> asked_to_delete (n_calls w1) r" using drop_records_asks [OF d] False by fastforce
      then show ?thesis using n by (auto simp: read_failed_def)
    qed (simp add: read_failed_def)
    then show ?thesis using drop_records_frame [of N "\<lambda>k. fault e (k + 6)" "op_domain_name w" ?recs 0 w] d by simp
  qed
  obtain x w1 where d: "(if nt_dns N then drop_records N (\<lambda>k. fault e (k + 6)) (op_domain_name w) ?recs 0 w else (None, w)) = (x, w1)"
    by fastforce
  have "removal_at N e org i old 2 (w1\<lparr>dns_records := delete_where (\<lambda>r. dr_domain r = op_domain w1) (dns_records w1)\<rparr>)" if "x = None"
  proof (cases "nt_dns N")
    case True
    then show ?thesis using gone [of w1] asks [of w1] d that by simp
  next
    case False
    then show ?thesis using gone [of w1] d by simp
  qed
  then show ?thesis by (cases x) (simp_all add: drop_records_step_def op old d cong: if_cong)
qed

lemma mark_removes:
  assumes "removal_at N e org i old 2 w"
  shows "ends (the (os_run (mark_removed_step e)) poll rs w) (\<lambda>_. removal_at N e org i old 3) (\<lambda>_ _. True)"
proof -
  let ?f = "\<lambda>d. d\<lparr>dm_status := ''removed'', dm_ssl := ''none'', dm_deleted := Some (db_now e), dm_updated := db_now e\<rparr>"
  have "\<not> live_domain org i d" if "d \<in> set (update_where (\<lambda>d. dm_id d = i) ?f (domains w))" for d
  proof -
    from that obtain x where "d = (if dm_id x = i then ?f x else x)" unfolding set_update_where by blast
    then show ?thesis by (cases "dm_id x = i") (simp_all add: live_domain_def)
  qed
  then have "removal_at N e org i old 3 (set_domain False i ?f w)"
    using assms by (simp add: removal_at_def) (simp add: set_domain_def)
  moreover have "op_domain w = i" using assms by (simp add: removal_at_def)
  ultimately show ?thesis by (simp add: mark_removed_step_def)
qed

lemma removal_step:
  assumes "os_run st = Some f" and "\<And>poll rs w. removal_at N e org i old k w \<Longrightarrow> ends (f poll rs w) (\<lambda>_. removal_at N e org i old (Suc k)) (\<lambda>_ _. True)"
  shows "step_keeps (\<lambda>k _. removal_at N e org i old k) (\<lambda>_ _ _. True) k st"
proof (rule step_keeps_ends [where f = f])
  show "os_run st = Some f" by (rule assms(1))
  show "ends (f poll rs w) (\<lambda>_. removal_at N e org i old (Suc k)) (\<lambda>_ _. True)" if "removal_at N e org i old k w" for poll rs w
    by (rule assms(2) [OF that])
next
  have "ends r (\<lambda>_ _. True) (\<lambda>_ _. True)" for r :: "step_end \<times> run_state \<times> ('a, 'b) networked_scheme"
    by (cases r) (auto simp: ends_def split: step_end.split)
  then show "case os_undo st of None \<Rightarrow> \<forall>rs w. True \<longrightarrow> True | Some u \<Rightarrow> \<forall>poll rs w. True \<longrightarrow> ends (u poll rs w) (\<lambda>_ _. True) (\<lambda>_ _. True)"
    by (simp split: option.split)
qed


end
