(* ===== verification/Network_Certificates.thy ===== *)
theory Network_Certificates
  imports Network_Zones
begin

text \<open>
  Certificates: what a failed operation leaves of the certificate it was making, and how the sweep reports the
  certificates of a domain.
\<close>

section \<open>A certificate whose operation failed\<close>

text \<open>The valid certificates without an error note that are not among \<open>old\<close> satisfy \<open>P\<close>.\<close>

definition new_valid :: "certificate_row list \<Rightarrow> (certificate_row \<Rightarrow> bool) \<Rightarrow> certificate_row list \<Rightarrow> bool" where
  "new_valid old P cs \<longleftrightarrow> (\<forall>c \<in> set cs. ct_status c = ''valid'' \<longrightarrow> ct_error c = None \<longrightarrow> c \<in> set old \<or> P c)"

lemma new_valid_mono: "new_valid old P cs \<Longrightarrow> (\<And>c. P c \<Longrightarrow> Q c) \<Longrightarrow> new_valid old Q cs"
  by (auto simp: new_valid_def)

lemma new_valid_update:
  assumes "new_valid old P cs" and "\<And>c. p c \<Longrightarrow> ct_status (f c) = ''valid'' \<Longrightarrow> ct_error (f c) = None \<Longrightarrow> P (f c)"
  shows "new_valid old P (update_where p f cs)"
  using assms by (auto simp: new_valid_def set_update_where)

definition keyed :: "('p, 'z) networked_scheme \<Rightarrow> certificate_row \<Rightarrow> bool" where
  "keyed w c \<longleftrightarrow> no_key w \<noteq> [] \<and> ct_key c = Some (no_key w)"

lemma keyed_frame: "no_key w' = no_key w \<Longrightarrow> keyed w' = keyed w"
  by (simp add: keyed_def fun_eq_iff)

lemma set_domain_frame [simp]:
  fixes w :: "('p, 'z) networked_scheme"
  shows "no_key (set_domain g i f w) = no_key w" "certificates (set_domain g i f w) = certificates w" "n_calls (set_domain g i f w) = n_calls w"
  by (simp_all add: set_domain_def)

definition key_dropped :: "uuid \<Rightarrow> (ncall \<times> nreply) list \<Rightarrow> certificate_row \<Rightarrow> bool" where
  "key_dropped org l c \<longleftrightarrow> l \<noteq> [] \<and> (\<exists>k a. ct_key c = Some k \<and> last l = (DropSecret org k, a))"

definition issuing :: "certificate_row list \<Rightarrow> nat \<Rightarrow> ('p, 'z) networked_scheme \<Rightarrow> bool" where
  "issuing old k w \<longleftrightarrow> new_valid old (if k \<le> 2 then \<lambda>_. False else keyed w) (certificates w)"

definition unwinding :: "uuid \<Rightarrow> certificate_row list \<Rightarrow> nat \<Rightarrow> ('p, 'z) networked_scheme \<Rightarrow> bool" where
  "unwinding org old k w \<longleftrightarrow> new_valid old (if k \<le> 2 then key_dropped org (n_calls w) else keyed w) (certificates w)"

lemma issuing_unwinds: "issuing old k w \<Longrightarrow> unwinding org old k w"
  by (auto simp: issuing_def unwinding_def elim: new_valid_mono)

lemma issuing_frame: "certificates w' = certificates w \<Longrightarrow> no_key w' = no_key w \<Longrightarrow> issuing old k w' = issuing old k w"
  using keyed_frame [of w' w] by (simp add: issuing_def)

lemma open_order_issues:
  assumes "issuing old 0 w"
  shows "ends (the (os_run (open_order_step N e oid org i kind job)) poll rs w) (\<lambda>_. issuing old 1) (\<lambda>_. unwinding org old 1)"
proof -
  have o: "issuing old 1 (opened_domain org i w)" using assms by (simp add: issuing_def opened_domain_def)
  have "issuing old 1 w1" if "order_cert N e org kind (opened_domain org i w) = Some w1" for w1
    using o that by (auto simp: order_cert_def issuing_def new_valid_def pending_cert_def split: if_splits option.splits)
  then show ?thesis using o by (auto simp: open_order_step_def issuing_def intro!: issuing_unwinds split: option.split)
qed

lemma open_order_unwinds:
  assumes "unwinding org old 1 w"
  shows "ends (the (os_undo (open_order_step N e oid org i kind job)) poll rs w) (\<lambda>_. unwinding org old 0) (\<lambda>_. unwinding org old 0)"
proof -
  have "new_valid old (key_dropped org (n_calls w)) (update_where p (\<lambda>c. c\<lparr>ct_status := ''error'', ct_error := Some t, ct_updated := u\<rparr>) (certificates w))" for p t u
    using assms by (intro new_valid_update) (auto simp: unwinding_def)
  then show ?thesis using assms by (auto simp: open_order_step_def unwinding_def Let_def)
qed

lemma provider_issues:
  assumes "issuing old 1 w"
  shows "ends (the (os_run (cert_provider_step N e kind)) poll rs w) (\<lambda>_. issuing old 2) (\<lambda>_. unwinding org old 2)"
proof -
  have i: "issuing old 2 w1" if "certificates w1 = certificates w" for w1 using assms that by (simp add: issuing_def)
  have "ends (cert_failed e t rs w1) (\<lambda>_. issuing old 2) (\<lambda>_. unwinding org old 2)" if "certificates w1 = certificates w" for t rs w1
  proof -
    have "issuing old 2 w2" if "write_cert f c (\<lambda>c. c\<lparr>ct_error := Some m\<rparr>) w1 = Some w2" for f c m w2
      using i [OF \<open>certificates w1 = _\<close>] write_cert_frame [OF that] by (auto simp: issuing_def intro!: new_valid_update)
    then show ?thesis using i [OF that] by (auto simp: cert_failed_def coalesce_def intro!: issuing_unwinds split: option.split)
  qed
  then show ?thesis using i
    by (auto simp: cert_provider_step_def Let_def ncalls_frame intro!: issuing_unwinds split: option.split prod.split)
qed

lemma store_issues:
  assumes "issuing old 2 w"
  shows "ends (the (os_run (store_certificate_step N e org kind)) poll rs w) (\<lambda>_. issuing old 3) (\<lambda>_. unwinding org old 3)"
proof -
  have i: "issuing old 3 w1" if "certificates w1 = certificates w" for w1
    using assms that by (auto simp: issuing_def elim: new_valid_mono)
  have wr: "issuing old 3 w2" if "write_cert f c h w1 = Some w2" "certificates w1 = certificates w"
      "\<And>c. ct_status (h c) = ''valid'' \<Longrightarrow> ct_error (h c) = None \<Longrightarrow> keyed w2 (h c)" for f c h w1 w2
    using i [OF that(2)] assms that(2,3) write_cert_frame [OF that(1)] unfolding issuing_def
    by (auto elim: new_valid_mono intro!: new_valid_update)
  have dom: "issuing old 3 (set_domain g j h w1)" if "issuing old 3 w1" for g j h and w1 :: "('a, 'b) networked_scheme"
    using that by (simp add: issuing_def keyed_frame [of "set_domain g j h w1" w1])
  have r: "ends (revoked_step e rs w) (\<lambda>_. issuing old 3) (\<lambda>_. unwinding org old 3)"
    using i [of w] by (auto simp: revoked_step_def intro!: issuing_unwinds dom wr split: option.split)
  have k: "key_name w \<noteq> []" by (simp add: key_name_def)
  have called: "issuing old 3 b" if "ncalls N c (w\<lparr>no_key := key_name w\<rparr>) = (t, a, b)" for c t a b
    using i [of b] ncalls_frame [OF that] by simp
  have asked: "issuing old 3 b'" if "ncalls N c (w\<lparr>no_key := key_name w\<rparr>) = (t, a, b)" "ncalls N c' b = (t', a', b')" for c c' t t' a a' b b'
    using i [of b'] ncalls_frame [OF that(1)] ncalls_frame [OF that(2)] by simp
  have stored: "issuing old 3 w3"
    if "ncalls N c (w\<lparr>no_key := key_name w\<rparr>) = (t, a, b)" "ncalls N c' b = (t', a', b')" "write_cert f j (issued_cert e (key_name w) pem inf) b' = Some w3"
    for c c' t t' a a' b b' f j pem inf w3
    using wr [OF that(3)] ncalls_frame [OF that(1)] ncalls_frame [OF that(2)] write_cert_frame [OF that(3)] k
    by (simp add: issued_cert_def keyed_def)
  have s: "ends (store_cert N e org rs w) (\<lambda>_. issuing old 3) (\<lambda>_. unwinding org old 3)"
    unfolding store_cert_def Let_def
    by (auto simp: ncalls_frame intro!: issuing_unwinds dom intro: called asked stored split: option.split prod.split)
  show ?thesis using r s by (simp add: store_certificate_step_def)
qed

lemma store_unwinds:
  assumes "unwinding org old 3 w"
  shows "ends (the (os_undo (store_certificate_step N e org kind)) poll rs w) (\<lambda>_. unwinding org old 2) (\<lambda>_. unwinding org old 2)"
proof -
  have "unwinding org old 2 w" if "no_key w = []"
    using assms that by (auto simp: unwinding_def keyed_def elim: new_valid_mono)
  moreover have "unwinding org old 2 w1" if "ncalls N (DropSecret org (no_key w)) w = (t, a, w1)" for t a w1
    using assms ncalls_frame [OF that] by (auto simp: unwinding_def keyed_def key_dropped_def elim!: new_valid_mono)
  ultimately show ?thesis by (auto simp: store_certificate_step_def split: prod.split)
qed

lemma cert_steps_issue:
  "steps_keep (\<lambda>k (rs :: run_state). issuing old k) (\<lambda>k rs. unwinding org old k) 0 (cert_steps N e oid org i kind job)"
proof -
  let ?I = "\<lambda>k (rs :: run_state). issuing old k" and ?B = "\<lambda>k (rs :: run_state). unwinding org old k"
  have "step_keeps ?I ?B 0 (open_order_step N e oid org i kind job)"
    by (rule step_keeps_both [where f = "the (os_run (open_order_step N e oid org i kind job))" and u = "the (os_undo (open_order_step N e oid org i kind job))"])
       (simp_all add: open_order_issues [unfolded One_nat_def] open_order_unwinds [unfolded One_nat_def], simp_all add: open_order_step_def)
  moreover have "step_keeps ?I ?B 1 (cert_provider_step N e kind)"
    by (rule step_keeps_run [where f = "the (os_run (cert_provider_step N e kind))"])
       (simp_all add: provider_issues [unfolded numeral_2_eq_2 One_nat_def], simp_all add: cert_provider_step_def unwinding_def)
  moreover have "step_keeps ?I ?B 2 (store_certificate_step N e org kind)"
    by (rule step_keeps_both [where f = "the (os_run (store_certificate_step N e org kind))" and u = "the (os_undo (store_certificate_step N e org kind))"])
       (simp_all add: store_issues [unfolded numeral_3_eq_3 numeral_2_eq_2] store_unwinds [unfolded numeral_3_eq_3 numeral_2_eq_2] numeral_2_eq_2,
        simp_all add: store_certificate_step_def)
  moreover have "step_keeps ?I ?B 3 (finish_order_step e)"
    by (rule step_keeps_ends [where f = "the (os_run (finish_order_step e))"])
       (auto simp: finish_order_step_def issuing_def unwinding_def keyed_def new_valid_def)
  ultimately show ?thesis by (simp add: cert_steps_def numeral_2_eq_2 numeral_3_eq_3)
qed

text \<open>
  C21: A failed issue or renewal can leave a certificate valid without its key. When the job of a certificate
  operation does not end well, every certificate it has made valid names a private key whose secret the job
  deleted as its last call: undoing the step that stored the certificate drops the key and leaves the row.
\<close>

theorem failed_issue_drops_the_key:
  fixes d d' :: "('p, 'z) networked_scheme jobs_db"
  assumes "engine_execute e c (cert_definition n pm kd kind N oe oid job) j d = (r, d')" and "\<And>res. r \<noteq> JobDone res"
    and "x \<in> set (certificates (outside d'))" "x \<notin> set (certificates (outside d))" "ct_status x = ''valid''" "ct_error x = None"
  shows "\<exists>key a. ct_key x = Some key \<and> last (n_calls (outside d')) = (DropSecret (j_org j) key, a)"
proof -
  let ?i = "cert_target N (j_payload j)" and ?old = "certificates (outside d)"
  let ?op = "\<lparr>op_validate = cert_validate N oe (j_org j) ?i kind, op_body = StepperOp (cert_steps N oe oid (j_org j) ?i kind job)\<rparr> :: ('p, 'z) networked_scheme operation"
  have "issuing ?old 0 (outside d)" by (simp add: issuing_def new_valid_def)
  then have "unwinding (j_org j) ?old 0 (outside d')"
    by (rule_tac execution_keeps [OF assms(1), of ?op, OF _ _ cert_steps_issue [of ?old "j_org j" N oe oid ?i kind job]])
       (use assms(2) in \<open>auto simp: cert_definition_def cert_steps_def issuing_unwinds\<close>)
  then show ?thesis using assms(3-6) by (auto simp: unwinding_def new_valid_def key_dropped_def)
qed

section \<open>The sweep\<close>

lemma copy_status_hits:
  assumes "filter (\<lambda>c. ct_domain c = dm_id d \<and> ct_status c \<in> {''expiring'', ''expired''} \<and> dm_ssl d \<noteq> ct_status c) cs \<noteq> []" (is "?h \<noteq> []")
  shows "copy_status N cs d = d\<lparr>dm_ssl := ct_status (nt_choose N ?h)\<rparr>"
proof -
  obtain a b where "?h = a # b" using assms unfolding neq_Nil_conv by blast
  then show ?thesis unfolding copy_status_def by (simp only: list.case)
qed

lemma update_where_cases: "b \<in> set (update_where p f xs) \<Longrightarrow> \<exists>a \<in> set xs. b = (if p a then f a else a)"
  by (auto simp: set_update_where)

text \<open>
  C22: The sweep lets an old certificate speak for a domain. Where a domain has an expired certificate from
  before and a valid one that lasts beyond the renewal window, a sweep reports the domain's TLS status as
  expired.
\<close>

theorem sweep_reports_replaced_certificates:
  assumes "\<And>cs. cs \<noteq> [] \<Longrightarrow> nt_choose N cs \<in> set cs" and "\<not> fault e 0" "\<not> fault e 1" "\<not> fault e 2"
    and "x \<in> set (domains (outside d))" "dm_ssl x = ''valid''"
    and "c \<in> set (certificates (outside d))" "ct_domain c = dm_id x" "ct_status c = ''expired''"
    and "\<And>c. c \<in> set (certificates (outside d)) \<Longrightarrow> ct_domain c = dm_id x \<Longrightarrow> ct_status c \<noteq> ''expiring'' \<and> (ct_status c = ''valid'' \<longrightarrow> \<not> runs_out {''valid''} (now + renewWindow) c)"
  shows "\<exists>y \<in> set (domains (outside (snd (Sweep N e es fl engine now d)))). dm_id y = dm_id x \<and> dm_ssl y = ''expired''"
proof -
  let ?old = "runs_out {''valid'', ''expiring''} now" and ?soon = "runs_out {''valid''} (now + renewWindow)"
  let ?cs1 = "update_where ?old (with_cert_status e ''expired'') (certificates (outside d))"
  let ?cs2 = "update_where ?soon (with_cert_status e ''expiring'') ?cs1"
  have soon: "\<not> ?soon b" if "b \<in> set ?cs1" "ct_domain b = dm_id x" for b
    using assms(10) that by (auto simp: set_update_where with_cert_status_def runs_out_def split: if_splits)
  have status: "ct_status b \<noteq> ''expiring''" if b: "b \<in> set ?cs2" "ct_domain b = dm_id x" for b
  proof -
    obtain a where a: "a \<in> set ?cs1" "b = (if ?soon a then with_cert_status e ''expiring'' a else a)" using update_where_cases [OF b(1)] by blast
    then have "ct_domain a = dm_id x" using b(2) by (simp add: with_cert_status_def split: if_splits)
    then have "b = a" using a soon by simp
    then show ?thesis using a(1) assms(10) b(2) by (auto simp: set_update_where with_cert_status_def split: if_splits)
  qed
  have "c \<in> set ?cs1" using assms(7,9) by (force simp: set_update_where runs_out_def)
  then have c: "c \<in> set ?cs2" using soon [of c] assms(8) unfolding set_update_where [of ?soon "with_cert_status e ''expiring''" ?cs1] by force
  let ?hits = "filter (\<lambda>c. ct_domain c = dm_id x \<and> ct_status c \<in> {''expiring'', ''expired''} \<and> dm_ssl x \<noteq> ct_status c) ?cs2"
  have "c \<in> set ?hits" using c assms(6,8,9) by simp
  then have ne: "?hits \<noteq> []" by (metis empty_iff list.set(1))
  then have "nt_choose N ?hits \<in> set ?hits" by (rule assms(1))
  then have "ct_status (nt_choose N ?hits) = ''expired''" using status by auto
  then have "copy_status N ?cs2 x = x\<lparr>dm_ssl := ''expired''\<rparr>" by (simp only: copy_status_hits [OF ne])
  moreover obtain n where s: "sweep_statuses N e now (outside d) = ((n, False), (outside d)\<lparr>certificates := ?cs2, domains := map (copy_status N ?cs2) (domains (outside d))\<rparr>)"
    using assms(2-4) by (simp add: sweep_statuses_def Let_def)
  moreover have "outside (snd (Sweep N e es fl engine now d)) = (outside d)\<lparr>certificates := ?cs2, domains := map (copy_status N ?cs2) (domains (outside d))\<rparr>"
  proof -
    have "outside d2 = w" if "submit_renewals N es fl defs now 0 cs n (d\<lparr>outside := w\<rparr>) = (m, d2)" for defs cs n m d2 w
      using submit_renewals_outside [of N es fl defs now 0 cs n "d\<lparr>outside := w\<rparr>"] that by simp
    then show ?thesis using s by (auto simp: Sweep_def Let_def split: option.split prod.split)
  qed
  ultimately show ?thesis using assms(5) by (force simp: image_iff)
qed

end
