(* ===== verification/Network_Examples.thy ===== *)
theory Network_Examples
  imports Network_Certificates
begin

text \<open>
  A domain with a record, one whose certificate could not be finished, and one that was renewed.
\<close>

section \<open>A concrete domain\<close>

definition net_reply :: nreply where
  "net_reply = \<lparr>nr_err = None, nr_flag = True, nr_id = ''p1'', nr_pem = ''PEM'', nr_key = ''KEY'', nr_issuer = ''CA'', nr_serial = ''07'',
     nr_from = 0, nr_until = 90 * 24 * hour, nr_names = [''shop.example'']\<rparr>"

definition net_site :: "unit net_infra" where
  "net_site = \<lparr>nt_dns = True, nt_certs = True, nt_secrets = True, nt_serve = (\<lambda>c p. (net_reply, p)), nt_issuer = ''local'', nt_collate = id, nt_lower = id,
     nt_choose = hd, nt_uuid_text = (\<lambda>i. ''''), nt_parse_uuid = (\<lambda>s. if s = ''d31'' then Some 31 else None), nt_day = (\<lambda>t. ''''), nt_time_json = (\<lambda>t. JNull)\<rparr>"

definition net_admin :: auth_context where
  "net_admin = \<lparr>actor_type = ActorUser, actor_id = 7, actor_label = ''ada'', org_id = 1, permissions = {''domains.read'', ''domains.manage''}, session_id = 0,
     correlation_id = []\<rparr>"

definition net_row :: job_row where
  "net_row = (blank_row (calm 3 90) 1 ''op:ssl.issue'' (JObj [(''resource_id'', JStr ''d31'')]))"

definition net_job :: job where "net_job = scan_job 300 net_row"

definition net_domain :: domain_row where
  "net_domain = \<lparr>dm_id = 31, dm_org = 1, dm_project = None, dm_name = ''shop.example'', dm_status = ''active'', dm_dns = ''ok'', dm_ssl = ''none'',
     dm_provider = ''configured'', dm_verified = None, dm_created = 1, dm_updated = 1, dm_deleted = None\<rparr>"

definition net_record :: dns_row where
  "net_record = \<lparr>dr_id = 40, dr_org = 1, dr_domain = 31, dr_rec = \<lparr>ri_type = ''A'', ri_name = ''www'', ri_value = ''10.0.0.1'', ri_ttl = 300, ri_priority = 0\<rparr>,
     dr_provider = Some ''p1'', dr_updated = 1\<rparr>"

definition net_world :: "certificate_row list \<Rightarrow> domain_row list \<Rightarrow> dns_row list \<Rightarrow> unit networked" where
  "net_world cs ds rs = \<lparr>clients = [], projects = [], project_dbs = [], apps = [], nodes = [], projects_audit = [], domains = ds, dns_records = rs,
     certificates = cs, cert_orders = [], n_calls = [], n_prov = (), no_domain = None, no_cert = None, no_order = None, no_key = [], no_bundle = net_reply\<rparr>"

definition net_jobs :: "unit networked \<Rightarrow> unit networked jobs_db" where
  "net_jobs w = \<lparr>jobs = [net_row], job_steps = [], notices = [], jobs_audit = [], outside = w\<rparr>"

definition net_history :: "unit networked jobs_db" where
  "net_history = run_ops (net_step net_site None)
     [AddsDomain (calm 1 31) net_admin '' Shop.Example.'' None,
      Upserts (calm 2 40) net_admin 31 \<lparr>ri_type = ''cname'', ri_name = ''WWW'', ri_value = ''host.example.'', ri_ttl = 0, ri_priority = 0\<rparr>,
      Upserts (calm 3 41) net_admin 31 \<lparr>ri_type = ''A'', ri_name = ''www'', ri_value = ''10.0.0.1'', ri_ttl = 0, ri_priority = 0\<rparr>]
     (net_jobs (net_world [] [] []))"

lemma net_history_records: "map (\<lambda>r. (dr_id r, ri_type (dr_rec r), ri_name (dr_rec r))) (dns_records (outside net_history)) = [(40, ''CNAME'', ''www'')]"
  by code_simp

theorem zones_stay_consistent_witness:
  "\<exists>r. dns_records (outside net_history) = [r] \<and> ri_type (dr_rec r) = ''CNAME'' \<and> accepted_record (dr_rec r)"
proof -
  obtain r where r: "dns_records (outside net_history) = [r]" "ri_type (dr_rec r) = ''CNAME''"
    using net_history_records by (auto simp: map_eq_Cons_conv)
  have "zones_ok (outside (net_jobs (net_world [] [] [])))"
    by (simp add: net_jobs_def net_world_def zones_ok_def consistent_def homed_def row_count_def)
  from zones_stay_consistent [OF this refl, of r net_site None] r show ?thesis unfolding net_history_def by (metis list.set_intros(1))
qed

text \<open>The removal of a domain with a record.\<close>

definition net_removal :: "job_outcome \<times> unit networked jobs_db" where
  "net_removal = engine_execute (calm 4 50) no_cancel (remove_definition net_site (calm 5 60)) net_job (net_jobs (net_world [] [net_domain] [net_record]))"

lemma net_removal_ends: "(case net_removal of (JobDone _, d) \<Rightarrow> n_calls (outside d) = [(DeleteDns ''shop.example'' ''p1'', net_reply)] | _ \<Rightarrow> False)"
  by code_simp


text \<open>An issue whose last step cannot close the order.\<close>

definition net_issue :: "job_outcome \<times> unit networked jobs_db" where
  "net_issue = engine_execute (calm 4 50) no_cancel (issue_definition net_site ((calm 5 60)\<lparr>fault := (\<lambda>k. k = 12)\<rparr>) 61 90) net_job
     (net_jobs (net_world [] [net_domain] []))"

lemma net_issue_ends:
  "(case net_issue of (JobError _, d) \<Rightarrow> map (\<lambda>c. (ct_id c, ct_status c, ct_error c)) (certificates (outside d)) = [(60, ''valid'', None)] | _ \<Rightarrow> False)"
  by code_simp

theorem failed_issue_drops_the_key_witness:
  "\<exists>x key a. certificates (outside (snd net_issue)) = [x] \<and> ct_status x = ''valid'' \<and> ct_key x = Some key \<and>
     last (n_calls (outside (snd net_issue))) = (DropSecret 1 key, a)"
proof -
  obtain y d where p: "net_issue = (y, d)" by fastforce
  obtain t where t: "y = JobError t" using net_issue_ends unfolding p by (cases y) simp_all
  obtain x where x: "certificates (outside (snd net_issue)) = [x]" "ct_status x = ''valid''" "ct_error x = None"
    using net_issue_ends unfolding p t by auto
  have f: "fst net_issue = JobError t" unfolding p t by simp
  have "j_org net_job = 1" by code_simp
  with failed_issue_drops_the_key [OF net_issue_def [unfolded issue_definition_def, symmetric, THEN trans, OF prod.collapse [symmetric]], of x] f x
  show ?thesis by (simp add: net_jobs_def net_world_def)
qed

text \<open>A renewed domain: its first certificate has expired.\<close>

definition net_certificate :: "uuid \<Rightarrow> string \<Rightarrow> time \<Rightarrow> certificate_row" where
  "net_certificate i st t = \<lparr>ct_id = i, ct_org = 1, ct_domain = 31, ct_status = st, ct_provider = ''local'', ct_issuer = ''CA'', ct_serial = ''07'',
     ct_from = Some 0, ct_until = Some t, ct_auto = True, ct_key = Some ''ssl/shop.example/07'', ct_pem = None, ct_names = [], ct_error = None,
     ct_created = 0, ct_updated = 0\<rparr>"

theorem sweep_reports_replaced_certificates_witness:
  "\<exists>y \<in> set (domains (outside (snd (Sweep net_site (calm 9 0) (\<lambda>k. calm 9 k) None None 100
       (net_jobs (net_world [net_certificate 51 ''expired'' 10, net_certificate 52 ''valid'' (90 * 24 * hour)] [net_domain\<lparr>dm_ssl := ''valid''\<rparr>] [])))))).
     dm_id y = 31 \<and> dm_ssl y = ''expired''"
proof -
  let ?d = "net_jobs (net_world [net_certificate 51 ''expired'' 10, net_certificate 52 ''valid'' (90 * 24 * hour)] [net_domain\<lparr>dm_ssl := ''valid''\<rparr>] [])"
  have "cs \<noteq> [] \<Longrightarrow> nt_choose net_site cs \<in> set cs" for cs by (simp add: net_site_def)
  note sweep = sweep_reports_replaced_certificates [of net_site "calm 9 0" "net_domain\<lparr>dm_ssl := ''valid''\<rparr>" ?d "net_certificate 51 ''expired'' 10" 100, OF this]
  have "dm_id (net_domain\<lparr>dm_ssl := ''valid''\<rparr>) = 31" by (simp add: net_domain_def)
  note sweep = sweep [unfolded this]
  show ?thesis
    by (rule sweep)
       (auto simp: net_jobs_def net_world_def net_certificate_def net_domain_def runs_out_def renewWindow_def duration_defs)
qed

end
