(* ===== verification/Secrets.thy ===== *)
theory Secrets
  imports Platform_Auth Go_Encoding
begin

text \<open>
  Secret storage (internal/secrets/secrets.go): secrets of an organization and of the platform, encrypted at rest,
  over the tables of migrations 0009 and 0020. The cipher and the random generator are parameters.
\<close>

section \<open>State\<close>

text \<open>
  A row of \<open>platform_secrets\<close>, and a row of \<open>secrets\<close>, which belongs to an organization. The key of a row is
  unique in its scope.
\<close>

record secret_row =
  sc_id :: uuid
  sc_key :: string
  sc_desc :: string
  sc_sealed :: string
  sc_creator :: "uuid option"
  sc_created :: time
  sc_updated :: time

record org_secret = secret_row +
  sc_org :: uuid

record secrets_db =
  org_secrets :: "org_secret list"
  platform_secrets :: "secret_row list"
  secrets_audit :: "stated_entry list"

text \<open>What leaves the service: everything of a row but its value.\<close>

record secret_meta =
  sm_id :: uuid
  sm_key :: string
  sm_desc :: string
  sm_created :: time
  sm_updated :: time

definition meta_of :: "'z secret_row_scheme \<Rightarrow> secret_meta" where
  "meta_of r = \<lparr>sm_id = sc_id r, sm_key = sc_key r, sm_desc = sc_desc r, sm_created = sc_created r, sm_updated = sc_updated r\<rparr>"

text \<open>
  The cipher is AES-256-GCM of Go's standard library, here the functions \<open>Seal\<close> and \<open>Open\<close> of an AEAD under a fixed
  key, whose nonces have \<open>ad_nonce\<close> bytes; \<open>Open\<close> may refuse. The platform authorizer may be missing. The texts of
  ids (a library) and of instants (in the time zone of the process) in JSON are parameters.
\<close>

record aead =
  ad_nonce :: nat
  ad_seal :: "string \<Rightarrow> string \<Rightarrow> string"
  ad_open :: "string \<Rightarrow> string \<Rightarrow> string option"

type_synonym platform_authorizer = "auth_context \<Rightarrow> string \<Rightarrow> api_error option"

record secrets_service =
  sv_aead :: aead
  sv_platform :: "platform_authorizer option"
  sv_uuid_text :: "uuid \<Rightarrow> string"
  sv_time_text :: "time \<Rightarrow> string"

definition new_secrets ::
  "(string \<Rightarrow> aead) \<Rightarrow> (uuid \<Rightarrow> string) \<Rightarrow> (time \<Rightarrow> string) \<Rightarrow> platform_authorizer option \<Rightarrow> string \<Rightarrow> string + secrets_service" where
  "new_secrets gcm ids stamps plat key64 =
     (case b64_decode key64 of
        None \<Rightarrow> Inl ''secrets: NODERA_SECRETS_ENCRYPTION_KEY is not valid base64''
      | Some key \<Rightarrow>
          if length key \<noteq> 32
          then Inl (''secrets: NODERA_SECRETS_ENCRYPTION_KEY must decode to 32 bytes (AES-256), got '' @ sprint_d (int (length key)))
          else Inr \<lparr>sv_aead = gcm key, sv_platform = plat, sv_uuid_text = ids, sv_time_text = stamps\<rparr>)"

section \<open>Values\<close>

text \<open>\<open>draw n\<close> is what \<open>rand.Read\<close> puts into a buffer of \<open>n\<close> bytes, \<open>None\<close> when it fails.\<close>

type_synonym entropy = "nat \<Rightarrow> string option"

definition encrypt :: "aead \<Rightarrow> entropy \<Rightarrow> string \<Rightarrow> string option" where
  "encrypt a draw plain = (case draw (ad_nonce a) of None \<Rightarrow> None | Some n \<Rightarrow> Some (n @ ad_seal a n plain))"

definition decrypt :: "aead \<Rightarrow> string \<Rightarrow> string option" where
  "decrypt a c = (if length c < ad_nonce a then None else ad_open a (take (ad_nonce a) c) (drop (ad_nonce a) c))"

definition requirePlatform :: "secrets_service \<Rightarrow> auth_context \<Rightarrow> string \<Rightarrow> api_error option" where
  "requirePlatform v ac key =
     (case sv_platform v of
        None \<Rightarrow> Some (Wrap CodeInternal ''platform secrets unavailable: no platform authorizer wired'')
      | Some req \<Rightarrow> req ac key)"

text \<open>\<open>json.Marshal\<close> of a \<open>Meta\<close>, the resulting state of an audit entry; no entry has a previous state or metadata.\<close>

definition meta_json :: "secrets_service \<Rightarrow> secret_meta \<Rightarrow> json" where
  "meta_json v m = JObj [(''id'', JStr (sv_uuid_text v (sm_id m))), (''key'', JStr (sm_key m)), (''description'', JStr (sm_desc m)),
     (''created_at'', JStr (sv_time_text v (sm_created m))), (''updated_at'', JStr (sv_time_text v (sm_updated m)))]"

definition note_secret ::
  "bool \<Rightarrow> auth_context \<Rightarrow> string \<Rightarrow> string \<Rightarrow> resource_ref \<Rightarrow> json option \<Rightarrow> secrets_db \<Rightarrow> secrets_db" where
  "note_secret failed ac action rtype rid res s =
     s\<lparr>secrets_audit := RecordWith failed ac action rtype rid [] True None res None (secrets_audit s)\<rparr>"

section \<open>Secrets of an organization\<close>

definition of_org :: "uuid \<Rightarrow> string \<Rightarrow> org_secret \<Rightarrow> bool" where
  "of_org org key r \<longleftrightarrow> sc_org r = org \<and> sc_key r = key"

text \<open>
  INSERT .. ON CONFLICT DO UPDATE, with the columns both tables have; \<open>mk\<close> makes a new row of the table.
\<close>

definition upsert_secret ::
  "env \<Rightarrow> ('z secret_row_scheme \<Rightarrow> bool) \<Rightarrow> (secret_row \<Rightarrow> 'z secret_row_scheme) \<Rightarrow> auth_context \<Rightarrow> string \<Rightarrow> string \<Rightarrow> string
     \<Rightarrow> 'z secret_row_scheme list \<Rightarrow> (secret_meta \<times> 'z secret_row_scheme list) option" where
  "upsert_secret e hit mk ac key desc c tbl =
     (case find hit tbl of
        Some r \<Rightarrow>
          (let f = (\<lambda>r. r\<lparr>sc_sealed := c, sc_desc := desc, sc_updated := db_now e\<rparr>)
           in Some (meta_of (f r), update_where hit f tbl))
      | None \<Rightarrow>
          (let r = mk \<lparr>sc_id = new_id e, sc_key = key, sc_desc = desc, sc_sealed = c, sc_creator = actor_user ac,
                       sc_created = db_now e, sc_updated = db_now e\<rparr>
           in if new_id e \<in> sc_id ` set tbl then None else Some (meta_of r, tbl @ [r])))"

text \<open>Statements: the upsert (0), the audit row (1).\<close>

definition SetSecret_org ::
  "secrets_service \<Rightarrow> env \<Rightarrow> entropy \<Rightarrow> auth_context \<Rightarrow> string \<Rightarrow> string \<Rightarrow> string \<Rightarrow> secrets_db \<Rightarrow> (api_error + secret_meta) \<times> secrets_db" where
  "SetSecret_org v e draw ac key value desc s =
     (case Require ac ''secrets.manage'' of Some x \<Rightarrow> (Inl x, s)
      | None \<Rightarrow>
     if key = [] then (Inl (Validation ''secret key is required''), s)
     else if value = [] then (Inl (Validation ''secret value is required''), s)
     else case encrypt (sv_aead v) draw value of None \<Rightarrow> (Inl (Wrap CodeInternal ''failed to encrypt secret''), s)
     | Some c \<Rightarrow>
     (case (if fault e 0 then None
            else upsert_secret e (of_org (org_id ac) key) (\<lambda>r. secret_row.extend r (org_secret.fields (org_id ac))) ac key desc c (org_secrets s)) of
        None \<Rightarrow> (Inl (Wrap CodeInternal ''failed to store secret''), s)
      | Some (m, tbl) \<Rightarrow> (Inr m, note_secret (fault e 1) ac ''secrets.secret.set'' ''secret'' (IdRef (sm_id m)) (Some (meta_json v m)) (s\<lparr>org_secrets := tbl\<rparr>))))"

text \<open>UPDATE .. RETURNING of a description.\<close>

definition describe_secret ::
  "env \<Rightarrow> ('z secret_row_scheme \<Rightarrow> bool) \<Rightarrow> string \<Rightarrow> 'z secret_row_scheme list \<Rightarrow> (secret_meta \<times> 'z secret_row_scheme list) option" where
  "describe_secret e hit desc tbl =
     (let f = (\<lambda>r. r\<lparr>sc_desc := desc, sc_updated := db_now e\<rparr>)
      in map_option (\<lambda>r. (meta_of (f r), update_where hit f tbl)) (find hit tbl))"

definition UpdateDescription ::
  "secrets_service \<Rightarrow> env \<Rightarrow> auth_context \<Rightarrow> string \<Rightarrow> string \<Rightarrow> secrets_db \<Rightarrow> (api_error + secret_meta) \<times> secrets_db" where
  "UpdateDescription v e ac key desc s =
     (case Require ac ''secrets.manage'' of Some x \<Rightarrow> (Inl x, s)
      | None \<Rightarrow>
     if key = [] then (Inl (Validation ''secret key is required''), s)
     else if fault e 0 then (Inl (Wrap CodeInternal ''failed to update secret description''), s)
     else case describe_secret e (of_org (org_id ac) key) desc (org_secrets s) of
        None \<Rightarrow> (Inl (NotFound ''secret''), s)
      | Some (m, tbl) \<Rightarrow>
          (Inr m, note_secret (fault e 1) ac ''secrets.secret.description_updated'' ''secret'' (IdRef (sm_id m)) (Some (meta_json v m)) (s\<lparr>org_secrets := tbl\<rparr>)))"

text \<open>\<open>collate\<close> orders keys as the database does.\<close>

definition ListSecrets :: "(string \<Rightarrow> string) \<Rightarrow> env \<Rightarrow> auth_context \<Rightarrow> secrets_db \<Rightarrow> api_error + secret_meta list" where
  "ListSecrets collate e ac s =
     (case Require ac ''secrets.read'' of Some x \<Rightarrow> Inl x
      | None \<Rightarrow>
        if fault e 0 then Inl (Wrap CodeInternal ''failed to list secrets'')
        else Inr (map meta_of (sort_key (\<lambda>r. collate (sc_key r)) (filter (\<lambda>r. sc_org r = org_id ac) (org_secrets s)))))"

definition DeleteSecret :: "env \<Rightarrow> auth_context \<Rightarrow> string \<Rightarrow> secrets_db \<Rightarrow> api_error option \<times> secrets_db" where
  "DeleteSecret e ac key s =
     (case Require ac ''secrets.manage'' of Some x \<Rightarrow> (Some x, s)
      | None \<Rightarrow>
     if fault e 0 then (Some (Wrap CodeInternal ''failed to delete secret''), s)
     else if row_count (of_org (org_id ac) key) (org_secrets s) = 0 then (Some (NotFound ''secret''), s)
     else (None, note_secret (fault e 1) ac ''secrets.secret.deleted'' ''secret'' (TextRef key) None
             (s\<lparr>org_secrets := delete_where (of_org (org_id ac) key) (org_secrets s)\<rparr>)))"

definition Reveal :: "secrets_service \<Rightarrow> env \<Rightarrow> auth_context \<Rightarrow> string \<Rightarrow> secrets_db \<Rightarrow> api_error + string" where
  "Reveal v e ac key s =
     (case Require ac ''secrets.manage'' of Some x \<Rightarrow> Inl x
      | None \<Rightarrow>
     if fault e 0 then Inl (Wrap CodeInternal ''failed to load secret'')
     else case find (of_org (org_id ac) key) (org_secrets s) of
        None \<Rightarrow> Inl (NotFound ''secret'')
      | Some r \<Rightarrow>
          (case decrypt (sv_aead v) (sc_sealed r) of
             None \<Rightarrow> Inl (Wrap CodeInternal ''failed to decrypt secret'') | Some value \<Rightarrow> Inr value))"

section \<open>Platform secrets\<close>

definition SetPlatform ::
  "secrets_service \<Rightarrow> env \<Rightarrow> entropy \<Rightarrow> auth_context \<Rightarrow> string \<Rightarrow> string \<Rightarrow> string \<Rightarrow> secrets_db \<Rightarrow> (api_error + secret_meta) \<times> secrets_db" where
  "SetPlatform v e draw ac key value desc s =
     (case requirePlatform v ac ''platform.secrets.manage'' of Some x \<Rightarrow> (Inl x, s)
      | None \<Rightarrow>
     if key = [] then (Inl (Validation ''secret key is required''), s)
     else if value = [] then (Inl (Validation ''secret value is required''), s)
     else case encrypt (sv_aead v) draw value of None \<Rightarrow> (Inl (Wrap CodeInternal ''failed to encrypt secret''), s)
     | Some c \<Rightarrow>
     (case (if fault e 0 then None else upsert_secret e (\<lambda>r. sc_key r = key) id ac key desc c (platform_secrets s)) of
        None \<Rightarrow> (Inl (Wrap CodeInternal ''failed to store platform secret''), s)
      | Some (m, tbl) \<Rightarrow> (Inr m, note_secret (fault e 1) ac ''platform.secret.set'' ''platform_secret'' (IdRef (sm_id m)) (Some (meta_json v m)) (s\<lparr>platform_secrets := tbl\<rparr>))))"

definition UpdateDescriptionPlatform ::
  "secrets_service \<Rightarrow> env \<Rightarrow> auth_context \<Rightarrow> string \<Rightarrow> string \<Rightarrow> secrets_db \<Rightarrow> (api_error + secret_meta) \<times> secrets_db" where
  "UpdateDescriptionPlatform v e ac key desc s =
     (case requirePlatform v ac ''platform.secrets.manage'' of Some x \<Rightarrow> (Inl x, s)
      | None \<Rightarrow>
     if key = [] then (Inl (Validation ''secret key is required''), s)
     else if fault e 0 then (Inl (Wrap CodeInternal ''failed to update platform secret description''), s)
     else case describe_secret e (\<lambda>r. sc_key r = key) desc (platform_secrets s) of
        None \<Rightarrow> (Inl (NotFound ''platform secret''), s)
      | Some (m, tbl) \<Rightarrow>
          (Inr m, note_secret (fault e 1) ac ''platform.secret.description_updated'' ''platform_secret'' (IdRef (sm_id m)) (Some (meta_json v m)) (s\<lparr>platform_secrets := tbl\<rparr>)))"

definition ListPlatform :: "secrets_service \<Rightarrow> (string \<Rightarrow> string) \<Rightarrow> env \<Rightarrow> auth_context \<Rightarrow> secrets_db \<Rightarrow> api_error + secret_meta list" where
  "ListPlatform v collate e ac s =
     (case requirePlatform v ac ''platform.secrets.read'' of Some x \<Rightarrow> Inl x
      | None \<Rightarrow>
        if fault e 0 then Inl (Wrap CodeInternal ''failed to list platform secrets'')
        else Inr (map meta_of (sort_key (\<lambda>r. collate (sc_key r)) (platform_secrets s))))"

definition DeletePlatform :: "secrets_service \<Rightarrow> env \<Rightarrow> auth_context \<Rightarrow> string \<Rightarrow> secrets_db \<Rightarrow> api_error option \<times> secrets_db" where
  "DeletePlatform v e ac key s =
     (case requirePlatform v ac ''platform.secrets.manage'' of Some x \<Rightarrow> (Some x, s)
      | None \<Rightarrow>
     if fault e 0 then (Some (Wrap CodeInternal ''failed to delete platform secret''), s)
     else if row_count (\<lambda>r. sc_key r = key) (platform_secrets s) = 0 then (Some (NotFound ''platform secret''), s)
     else (None, note_secret (fault e 1) ac ''platform.secret.deleted'' ''platform_secret'' (TextRef key) None
             (s\<lparr>platform_secrets := delete_where (\<lambda>r. sc_key r = key) (platform_secrets s)\<rparr>)))"

definition RevealPlatform :: "secrets_service \<Rightarrow> env \<Rightarrow> auth_context \<Rightarrow> string \<Rightarrow> secrets_db \<Rightarrow> api_error + string" where
  "RevealPlatform v e ac key s =
     (case requirePlatform v ac ''platform.secrets.manage'' of Some x \<Rightarrow> Inl x
      | None \<Rightarrow>
     if fault e 0 then Inl (Wrap CodeInternal ''failed to load platform secret'')
     else case find (\<lambda>r. sc_key r = key) (platform_secrets s) of
        None \<Rightarrow> Inl (NotFound ''platform secret'')
      | Some r \<Rightarrow>
          (case decrypt (sv_aead v) (sc_sealed r) of
             None \<Rightarrow> Inl (Wrap CodeInternal ''failed to decrypt platform secret'') | Some value \<Rightarrow> Inr value))"

end
