(* ===== verification/Secret_Values.thy ===== *)
theory Secret_Values
  imports Secrets
begin

text \<open>
  What was stored is revealed to those who may manage secrets, and nothing else depends on a stored value. The
  locale \<open>addressed\<close> is a store read by address; both tables interpret it.
\<close>

section \<open>Sequences of operations\<close>

datatype secrets_op =
    DoSet env entropy auth_context string string string
  | DoDescribe env auth_context string string
  | DoList "string \<Rightarrow> string" env auth_context
  | DoDelete env auth_context string
  | DoSetPlatform env entropy auth_context string string string
  | DoDescribePlatform env auth_context string string
  | DoListPlatform "string \<Rightarrow> string" env auth_context
  | DoDeletePlatform env auth_context string

text \<open>What the HTTP surface hands back.\<close>

datatype secrets_reply =
    MetaReply "api_error + secret_meta"
  | ListReply "api_error + secret_meta list"
  | DoneReply "api_error option"

fun secrets_step :: "secrets_service \<Rightarrow> secrets_op \<Rightarrow> secrets_db \<Rightarrow> secrets_reply \<times> secrets_db" where
  "secrets_step v (DoSet e draw ac key value desc) s = map_prod MetaReply id (SetSecret_org v e draw ac key value desc s)"
| "secrets_step v (DoDescribe e ac key desc) s = map_prod MetaReply id (UpdateDescription v e ac key desc s)"
| "secrets_step v (DoList collate e ac) s = (ListReply (ListSecrets collate e ac s), s)"
| "secrets_step v (DoDelete e ac key) s = map_prod DoneReply id (DeleteSecret e ac key s)"
| "secrets_step v (DoSetPlatform e draw ac key value desc) s = map_prod MetaReply id (SetPlatform v e draw ac key value desc s)"
| "secrets_step v (DoDescribePlatform e ac key desc) s = map_prod MetaReply id (UpdateDescriptionPlatform v e ac key desc s)"
| "secrets_step v (DoListPlatform collate e ac) s = (ListReply (ListPlatform v collate e ac s), s)"
| "secrets_step v (DoDeletePlatform e ac key) s = map_prod DoneReply id (DeletePlatform v e ac key s)"

definition secrets_next :: "secrets_service \<Rightarrow> secrets_op \<Rightarrow> secrets_db \<Rightarrow> secrets_db" where
  "secrets_next v x s = snd (secrets_step v x s)"

fun replies :: "secrets_service \<Rightarrow> secrets_op list \<Rightarrow> secrets_db \<Rightarrow> secrets_reply list" where
  "replies v [] s = []"
| "replies v (x # xs) s = fst (secrets_step v x s) # replies v xs (secrets_next v x s)"

section \<open>Stores with addressed cells\<close>

text \<open>
  A store whose cells are read by address: an operation that does not address a cell leaves it alone. Both
  tables are such a store, one addressed by organization and key, the other by key.
\<close>

locale addressed =
  fixes cell :: "'s \<Rightarrow> 'k \<Rightarrow> 'v option" and step :: "'op \<Rightarrow> 's \<Rightarrow> 's" and addresses :: "'op \<Rightarrow> 'k \<Rightarrow> bool"
  assumes frame: "\<not> addresses x k \<Longrightarrow> cell (step x s) k = cell s k"
begin

lemma run_frame: "(\<And>x. x \<in> set xs \<Longrightarrow> \<not> addresses x k) \<Longrightarrow> cell (run_ops step xs s) k = cell s k"
  by (induction xs arbitrary: s) (simp_all add: frame)

end

lemma find_map_same: "(\<And>r. hit (g r) = hit r) \<Longrightarrow> find hit (map g xs) = map_option g (find hit xs)"
  by (induction xs) simp_all

lemma find_update_same:
  assumes "\<And>r. hit (f r) = hit r"
  shows "find hit (update_where p f xs) = map_option (\<lambda>r. if p r then f r else r) (find hit xs)"
  unfolding update_where_def by (rule find_map_same) (simp add: assms)

lemma find_delete_other: "(\<And>r. hit r \<Longrightarrow> \<not> p r) \<Longrightarrow> find hit (delete_where p xs) = find hit xs"
  by (induction xs) auto

lemma find_snoc: "find p (xs @ [x]) = (case find p xs of None \<Rightarrow> if p x then Some x else None | r \<Rightarrow> r)"
  by (induction xs) auto

text \<open>The upsert of a row: what it makes of the cells, its own and the others.\<close>

lemma upsert_cell:
  assumes u: "upsert_secret e hit mk ac key desc c tbl = Some (m, tbl')"
    and "\<And>r x y z. look (r\<lparr>sc_sealed := x, sc_desc := y, sc_updated := z\<rparr>) = look r"
    and "\<And>r. sc_sealed (mk r) = sc_sealed r" and "\<And>r. hit (mk \<lparr>sc_id = new_id e, sc_key = key, sc_desc = desc, sc_sealed = c,
          sc_creator = actor_user ac, sc_created = db_now e, sc_updated = db_now e\<rparr>)"
    and "look = hit \<or> (\<forall>r. hit r \<longrightarrow> \<not> look r)"
  shows "map_option sc_sealed (find look tbl') = (if look = hit then Some c else map_option sc_sealed (find look tbl))"
proof (cases "find hit tbl")
  case None
  then show ?thesis using assms by (auto simp: upsert_secret_def Let_def find_snoc split: if_splits option.split)
next
  case (Some r)
  let ?f = "\<lambda>r. r\<lparr>sc_sealed := c, sc_desc := desc, sc_updated := db_now e\<rparr>"
  have t: "tbl' = update_where hit ?f tbl" using u Some by (auto simp: upsert_secret_def Let_def)
  have f: "find look (update_where hit ?f tbl) = map_option (\<lambda>r. if hit r then ?f r else r) (find look tbl)"
    by (rule find_update_same) (rule assms(2))
  show ?thesis using assms(5) Some f find_SomeD [of hit tbl r] unfolding t
    by (cases "find look tbl") (auto dest: find_SomeD)
qed

definition org_cell :: "secrets_db \<Rightarrow> uuid \<times> string \<Rightarrow> string option" where
  "org_cell s k = map_option sc_sealed (find (of_org (fst k) (snd k)) (org_secrets s))"

definition platform_cell :: "secrets_db \<Rightarrow> string \<Rightarrow> string option" where
  "platform_cell s k = map_option sc_sealed (find (\<lambda>r. sc_key r = k) (platform_secrets s))"

fun rewrites_org :: "secrets_op \<Rightarrow> uuid \<times> string \<Rightarrow> bool" where
  "rewrites_org (DoSet e draw ac key value desc) k = (k = (org_id ac, key))"
| "rewrites_org (DoDelete e ac key) k = (k = (org_id ac, key))"
| "rewrites_org _ k = False"

fun rewrites_platform :: "secrets_op \<Rightarrow> string \<Rightarrow> bool" where
  "rewrites_platform (DoSetPlatform e draw ac key value desc) k = (k = key)"
| "rewrites_platform (DoDeletePlatform e ac key) k = (k = key)"
| "rewrites_platform _ k = False"

lemma describe_cell:
  assumes "describe_secret e hit desc tbl = Some (m, tbl')" and "\<And>r y z. look (r\<lparr>sc_desc := y, sc_updated := z\<rparr>) = look r"
  shows "map_option sc_sealed (find look tbl') = map_option sc_sealed (find look tbl)"
proof -
  have "tbl' = update_where hit (\<lambda>r. r\<lparr>sc_desc := desc, sc_updated := db_now e\<rparr>) tbl" using assms(1) by (auto simp: describe_secret_def Let_def)
  then show ?thesis using find_update_same [of look "\<lambda>r. r\<lparr>sc_desc := desc, sc_updated := db_now e\<rparr>" hit tbl, OF assms(2)]
    by (cases "find look tbl") auto
qed

lemma note_cell [simp]:
  "org_cell (note_secret f ac a t i rs s) k = org_cell s k" "platform_cell (note_secret f ac a t i rs s) k' = platform_cell s k'"
  by (simp_all add: org_cell_def platform_cell_def note_secret_def)

lemma other_table [simp]:
  "org_cell (s\<lparr>platform_secrets := p\<rparr>) k = org_cell s k" "platform_cell (s\<lparr>org_secrets := t\<rparr>) k' = platform_cell s k'"
  by (simp_all add: org_cell_def platform_cell_def)

lemma org_hits [simp]:
  "of_org o' k (secret_row.extend \<lparr>sc_id = i, sc_key = k', sc_desc = d, sc_sealed = c, sc_creator = u, sc_created = t, sc_updated = t'\<rparr> (org_secret.fields q)) = (q = o' \<and> k' = k)"
  "sc_sealed (secret_row.extend x (org_secret.fields q)) = sc_sealed x"
  by (simp_all add: of_org_def org_secret.defs secret_row.defs)

lemma set_org_cell:
  assumes "upsert_secret e (of_org (org_id ac) key) (\<lambda>r. secret_row.extend r (org_secret.fields (org_id ac))) ac key desc c (org_secrets s) = Some (m, tbl)"
  shows "org_cell (s\<lparr>org_secrets := tbl\<rparr>) k = (if k = (org_id ac, key) then Some c else org_cell s k)"
proof -
  have "of_org (fst k) (snd k) = of_org (org_id ac) key \<longleftrightarrow> k = (org_id ac, key)"
    by (metis org_hits(1) prod.collapse fst_conv snd_conv)
  moreover have "k = (org_id ac, key) \<or> (\<forall>r. of_org (org_id ac) key r \<longrightarrow> \<not> of_org (fst k) (snd k) r)"
    by (auto simp: of_org_def prod_eq_iff)
  ultimately show ?thesis using upsert_cell [OF assms, of "of_org (fst k) (snd k)"]
    by (auto simp: org_cell_def) (auto simp: of_org_def)
qed

lemma set_platform_cell:
  assumes "upsert_secret e (\<lambda>r. sc_key r = key) id ac key desc c (platform_secrets s) = Some (m, tbl)"
  shows "platform_cell (s\<lparr>platform_secrets := tbl\<rparr>) k = (if k = key then Some c else platform_cell s k)"
proof -
  have "(\<lambda>r. sc_key r = k) = (\<lambda>r :: secret_row. sc_key r = key) \<longleftrightarrow> k = key"
    by (metis (no_types, lifting) secret_row.select_convs(2))
  then show ?thesis using upsert_cell [OF assms, of "\<lambda>r. sc_key r = k"] by (auto simp: platform_cell_def)
qed

lemma org_frame:
  assumes "\<not> rewrites_org x k" shows "org_cell (secrets_next v x s) k = org_cell s k"
proof (cases x)
  case (DoSet e draw ac key plain desc)
  then show ?thesis using assms
    by (auto simp: secrets_next_def SetSecret_org_def set_org_cell split: option.split if_splits)
next
  case (DoDescribe e ac key desc)
  then show ?thesis
    by (auto simp: secrets_next_def UpdateDescription_def org_cell_def note_secret_def describe_cell of_org_def split: option.split)
next
  case (DoDelete e ac key)
  have "find (of_org (fst k) (snd k)) (delete_where (of_org (org_id ac) key) (org_secrets s)) = find (of_org (fst k) (snd k)) (org_secrets s)"
    using assms DoDelete by (cases k, intro find_delete_other) (auto simp: of_org_def)
  then show ?thesis using DoDelete by (simp add: secrets_next_def DeleteSecret_def org_cell_def note_secret_def split: option.split)
qed (auto simp: secrets_next_def SetPlatform_def UpdateDescriptionPlatform_def DeletePlatform_def split: option.split)

lemma platform_frame:
  assumes "\<not> rewrites_platform x k" shows "platform_cell (secrets_next v x s) k = platform_cell s k"
proof (cases x)
  case (DoSetPlatform e draw ac key plain desc)
  then show ?thesis using assms
    by (auto simp: secrets_next_def SetPlatform_def set_platform_cell split: option.split if_splits)
next
  case (DoDescribePlatform e ac key desc)
  then show ?thesis
    by (auto simp: secrets_next_def UpdateDescriptionPlatform_def platform_cell_def note_secret_def describe_cell split: option.split)
next
  case (DoDeletePlatform e ac key)
  have "find (\<lambda>r. sc_key r = k) (delete_where (\<lambda>r. sc_key r = key) (platform_secrets s)) = find (\<lambda>r. sc_key r = k) (platform_secrets s)"
    using assms DoDeletePlatform by (intro find_delete_other) auto
  then show ?thesis using DoDeletePlatform by (simp add: secrets_next_def DeletePlatform_def platform_cell_def note_secret_def split: option.split)
qed (auto simp: secrets_next_def SetSecret_org_def UpdateDescription_def DeleteSecret_def split: option.split)

interpretation org_table: addressed org_cell "secrets_next v" rewrites_org for v
  by unfold_locales (rule org_frame)

interpretation platform_table: addressed platform_cell "secrets_next v" rewrites_platform for v
  by unfold_locales (rule platform_frame)

section \<open>What was stored is revealed\<close>

text \<open>What \<open>Seal\<close> and \<open>Open\<close> of an AEAD promise, and that \<open>rand.Read\<close> fills its buffer.\<close>

definition opens_what_it_seals :: "aead \<Rightarrow> bool" where
  "opens_what_it_seals a \<longleftrightarrow> (\<forall>n p. length n = ad_nonce a \<longrightarrow> ad_open a n (ad_seal a n p) = Some p)"

definition fills :: "entropy \<Rightarrow> bool" where
  "fills draw \<longleftrightarrow> (\<forall>n b. draw n = Some b \<longrightarrow> length b = n)"

lemma decrypt_encrypt: "opens_what_it_seals a \<Longrightarrow> fills draw \<Longrightarrow> encrypt a draw p = Some c \<Longrightarrow> decrypt a c = Some p"
  by (auto simp: encrypt_def decrypt_def opens_what_it_seals_def fills_def split: option.splits)

text \<open>
  C23: A stored secret is revealed as it was stored. Once Set has stored a value, and whatever else is set,
  described, listed or deleted afterwards, in this or other organizations or on the platform, as long as nobody
  sets or deletes that key of that organization, Reveal gives the value back to a caller who may manage secrets of
  the organization, and to nobody else.
\<close>

theorem stored_secret_is_revealed:
  assumes "opens_what_it_seals (sv_aead v)" and "fills draw"
    and "SetSecret_org v e draw ac key value desc s = (Inr m, s1)"
    and "\<And>x. x \<in> set ops \<Longrightarrow> \<not> rewrites_org x (org_id ac, key)" and "\<not> fault e' 0" and "org_id ac' = org_id ac"
  shows "Reveal v e' ac' key (run_ops (secrets_next v) ops s1) =
     (if authorised ac' ''secrets.manage'' then Inr value else Inl (Forbidden ''missing required permission: secrets.manage''))"
proof -
  obtain c tbl where c: "encrypt (sv_aead v) draw value = Some c"
    and u: "upsert_secret e (of_org (org_id ac) key) (\<lambda>r. secret_row.extend r (org_secret.fields (org_id ac))) ac key desc c (org_secrets s) = Some (m, tbl)"
    and s1: "s1 = note_secret (fault e 1) ac ''secrets.secret.set'' ''secret'' (IdRef (sm_id m)) (Some (meta_json v m)) (s\<lparr>org_secrets := tbl\<rparr>)"
    using assms(3) by (auto simp: SetSecret_org_def split: option.splits if_splits)
  have "org_cell s1 (org_id ac, key) = Some c" using set_org_cell [OF u] unfolding s1 by simp
  then have "org_cell (run_ops (secrets_next v) ops s1) (org_id ac, key) = Some c"
    using org_table.run_frame [of ops "(org_id ac, key)" v s1] assms(4) by simp
  moreover have "decrypt (sv_aead v) c = Some value" using decrypt_encrypt [OF assms(1,2) c] .
  ultimately show ?thesis using assms(5,6)
    by (auto simp: Reveal_def org_cell_def Require_def authorised_def HasPermission_def split: option.split)
qed

section \<open>Values do not show\<close>

definition masked :: "'z secret_row_scheme \<Rightarrow> 'z secret_row_scheme" where
  "masked r = r\<lparr>sc_sealed := []\<rparr>"

definition same_but_values :: "secrets_db \<Rightarrow> secrets_db \<Rightarrow> bool" where
  "same_but_values s t \<longleftrightarrow> map masked (org_secrets s) = map masked (org_secrets t) \<and>
     map masked (platform_secrets s) = map masked (platform_secrets t) \<and> secrets_audit s = secrets_audit t"

text \<open>The same operation, but for the value it stores and the nonce it draws.\<close>

fun same_but_value :: "secrets_service \<Rightarrow> secrets_op \<Rightarrow> secrets_op \<Rightarrow> bool" where
  "same_but_value v (DoSet e draw ac key value desc) y =
     (\<exists>draw' value'. y = DoSet e draw' ac key value' desc \<and> (value = [] \<longleftrightarrow> value' = []) \<and>
        (draw (ad_nonce (sv_aead v)) = None \<longleftrightarrow> draw' (ad_nonce (sv_aead v)) = None))"
| "same_but_value v (DoSetPlatform e draw ac key value desc) y =
     (\<exists>draw' value'. y = DoSetPlatform e draw' ac key value' desc \<and> (value = [] \<longleftrightarrow> value' = []) \<and>
        (draw (ad_nonce (sv_aead v)) = None \<longleftrightarrow> draw' (ad_nonce (sv_aead v)) = None))"
| "same_but_value v x y = (x = y)"

lemma masked_sel [simp]: "sc_key (masked r) = sc_key r" "sc_id (masked r) = sc_id r" "meta_of (masked r) = meta_of r"
  by (simp_all add: masked_def meta_of_def)

lemma masked_org [simp]: "sc_org (masked r) = sc_org r" "of_org q k (masked r) = of_org q k r"
  by (simp_all add: masked_def of_org_def)

lemma upsert_masked:
  assumes "\<And>r. hit (masked r) = hit r" "\<And>r. masked (mk r) = mk (masked r)"
  shows "map_option (\<lambda>(m, t). (m, map masked t)) (upsert_secret e hit mk ac key desc c tbl) = upsert_secret e hit mk ac key desc [] (map masked tbl)"
proof (cases "find hit tbl")
  case None
  then have f: "find hit (map masked tbl) = None" by (simp add: find_map_same assms(1))
  let ?r = "\<lambda>c. mk \<lparr>sc_id = new_id e, sc_key = key, sc_desc = desc, sc_sealed = c, sc_creator = actor_user ac, sc_created = db_now e, sc_updated = db_now e\<rparr>"
  have m: "masked (?r c) = ?r []" using assms(2) by (simp add: masked_def)
  then have "meta_of (?r c) = meta_of (?r [])" by (metis masked_sel(3))
  moreover have "sc_id ` set (map masked tbl) = sc_id ` set tbl" by (force simp: image_iff)
  ultimately show ?thesis using None f m by (simp add: upsert_secret_def Let_def)
next
  case (Some r)
  then have f: "find hit (map masked tbl) = Some (masked r)" by (simp add: find_map_same assms(1))
  have "map masked (update_where hit (\<lambda>r. r\<lparr>sc_sealed := c, sc_desc := desc, sc_updated := t\<rparr>) tbl) =
      update_where hit (\<lambda>r. r\<lparr>sc_sealed := [], sc_desc := desc, sc_updated := t\<rparr>) (map masked tbl)" for t
    using assms(1) by (auto simp: update_where_def masked_def)
  then show ?thesis using Some f by (simp add: upsert_secret_def Let_def meta_of_def masked_def)
qed

lemma describe_masked:
  assumes "\<And>r. hit (masked r) = hit r"
  shows "map_option (\<lambda>(m, t). (m, map masked t)) (describe_secret e hit desc tbl) = describe_secret e hit desc (map masked tbl)"
proof -
  have "map masked (update_where hit (\<lambda>r. r\<lparr>sc_desc := desc, sc_updated := t\<rparr>) tbl) =
      update_where hit (\<lambda>r. r\<lparr>sc_desc := desc, sc_updated := t\<rparr>) (map masked tbl)" for t
    using assms(1) by (auto simp: update_where_def masked_def)
  moreover have "find hit (map masked tbl) = map_option masked (find hit tbl)" by (rule find_map_same) (rule assms)
  ultimately show ?thesis
    by (cases "find hit tbl") (simp_all add: describe_secret_def Let_def meta_of_def masked_def)
qed

lemma rel_same:
  "map_option (\<lambda>(m, t). (m, map masked t)) u = map_option (\<lambda>(m, t). (m, map masked t)) u' \<Longrightarrow>
     rel_option (\<lambda>(m, t) (m', t'). m = m' \<and> map masked t = map masked t') u u'"
  by (cases u; cases u') auto

lemma upsert_same:
  assumes "map masked tbl = map masked tbl'" and h: "\<And>r. hit (masked r) = hit r" and m: "\<And>r. masked (mk r) = mk (masked r)"
  shows "rel_option (\<lambda>(m, t) (m', t'). m = m' \<and> map masked t = map masked t')
    (upsert_secret e hit mk ac key desc c tbl) (upsert_secret e hit mk ac key desc c' tbl')"
  by (rule rel_same) (simp only: upsert_masked [where hit = hit and mk = mk, OF h m] assms(1))

lemma describe_same:
  assumes "map masked tbl = map masked tbl'" and h: "\<And>r. hit (masked r) = hit r"
  shows "rel_option (\<lambda>(m, t) (m', t'). m = m' \<and> map masked t = map masked t') (describe_secret e hit desc tbl) (describe_secret e hit desc tbl')"
  by (rule rel_same) (simp only: describe_masked [where hit = hit, OF h] assms(1))

lemma masked_filter: "(\<And>r. p (masked r) = p r) \<Longrightarrow> map masked (filter p tbl) = filter p (map masked tbl)"
  by (induction tbl) auto

lemma masked_meta: "map meta_of tbl = map meta_of (map masked tbl)"
  by simp

lemma masked_insort:
  fixes k :: "string \<Rightarrow> string"
  shows "map masked (insort_key (\<lambda>r. k (sc_key r)) r u) = insort_key (\<lambda>r. k (sc_key r)) (masked r) (map masked u)"
  by (induction u) simp_all

lemma masked_sort:
  fixes k :: "string \<Rightarrow> string"
  shows "map masked (sort_key (\<lambda>r. k (sc_key r)) t) = sort_key (\<lambda>r. k (sc_key r)) (map masked t)"
  by (induction t) (simp_all add: masked_insort)

lemma masked_extend [simp]: "masked (secret_row.extend r (org_secret.fields q)) = secret_row.extend (masked r) (org_secret.fields q)"
  by (simp add: masked_def secret_row.defs)

text \<open>Two outcomes that differ in values only, along the branches of an operation.\<close>

definition agree :: "'a \<times> secrets_db \<Rightarrow> 'a \<times> secrets_db \<Rightarrow> bool" where
  "agree p q \<longleftrightarrow> fst p = fst q \<and> same_but_values (snd p) (snd q)"

named_theorems agrees "outcomes that differ in values only"

lemma agree_end [agrees]: "same_but_values s t \<Longrightarrow> agree (x, s) (x, t)"
  by (simp add: agree_def)

lemma agree_guard [agrees]:
  "same_but_values s t \<Longrightarrow> (g = None \<Longrightarrow> agree A B) \<Longrightarrow> agree (case g of Some x \<Rightarrow> (f x, s) | None \<Rightarrow> A) (case g of Some x \<Rightarrow> (f x, t) | None \<Rightarrow> B)"
  by (cases g) (simp_all add: agree_def)

lemma agree_if [agrees]:
  "b \<longleftrightarrow> b' \<Longrightarrow> same_but_values s t \<Longrightarrow> (\<not> b \<Longrightarrow> agree A B) \<Longrightarrow> agree (if b then (x, s) else A) (if b' then (x, t) else B)"
  by (simp add: agree_def)

lemma agree_encrypt [agrees]:
  assumes "same_but_values s t" and "draw (ad_nonce a) = None \<longleftrightarrow> draw' (ad_nonce a) = None" and "\<And>c c'. agree (F c) (G c')"
  shows "agree (case encrypt a draw p of None \<Rightarrow> (x, s) | Some c \<Rightarrow> F c) (case encrypt a draw' p' of None \<Rightarrow> (x, t) | Some c \<Rightarrow> G c)"
  using assms by (auto simp: encrypt_def agree_def split: option.split)

lemma agree_row [agrees]:
  assumes "rel_option (\<lambda>(m, t) (m', t'). m = m' \<and> map masked t = map masked t') u u'" and "same_but_values s t"
    and "\<And>m tb tb'. map masked tb = map masked tb' \<Longrightarrow> agree (F m tb) (G m tb')"
  shows "agree (case u of None \<Rightarrow> (x, s) | Some (m, tb) \<Rightarrow> F m tb) (case u' of None \<Rightarrow> (x, t) | Some (m, tb) \<Rightarrow> G m tb)"
  using assms by (auto simp: agree_def elim!: option.rel_cases)

lemma agree_map: "agree p q \<Longrightarrow> agree (map_prod f id p) (map_prod f id q)"
  by (cases p; cases q) (simp add: agree_def)

lemma same_note:
  "same_but_values s t \<Longrightarrow> map masked tb = map masked tb' \<Longrightarrow>
     same_but_values (note_secret f ac a ty i rs (s\<lparr>org_secrets := tb\<rparr>)) (note_secret f ac a ty i rs (t\<lparr>org_secrets := tb'\<rparr>))"
  "same_but_values s t \<Longrightarrow> map masked tp = map masked tp' \<Longrightarrow>
     same_but_values (note_secret f ac a ty i rs (s\<lparr>platform_secrets := tp\<rparr>)) (note_secret f ac a ty i rs (t\<lparr>platform_secrets := tp'\<rparr>))"
  by (simp_all add: same_but_values_def note_secret_def)

lemma same_secret_tables: "same_but_values s t \<Longrightarrow> map masked (org_secrets s) = map masked (org_secrets t)"
  "same_but_values s t \<Longrightarrow> map masked (platform_secrets s) = map masked (platform_secrets t)"
  by (simp_all add: same_but_values_def)

lemma masked_delete: "(\<And>r. p (masked r) = p r) \<Longrightarrow> map masked (delete_where p tbl) = delete_where p (map masked tbl)"
  by (simp add: delete_where_def masked_filter)

lemma masked_count: "(\<And>r. p (masked r) = p r) \<Longrightarrow> row_count p (map masked tbl) = row_count p tbl"
  by (induction tbl) (simp_all add: row_count_def)

lemma set_agrees:
  assumes "same_but_values s t" and "plain = [] \<longleftrightarrow> plain' = []" "draw (ad_nonce (sv_aead v)) = None \<longleftrightarrow> draw' (ad_nonce (sv_aead v)) = None"
  shows "agree (SetSecret_org v e draw ac key plain desc s) (SetSecret_org v e draw' ac key plain' desc t)"
    "agree (SetPlatform v e draw ac key plain desc s) (SetPlatform v e draw' ac key plain' desc t)"
  unfolding SetSecret_org_def SetPlatform_def using assms
  by (auto intro!: agrees same_note upsert_same same_secret_tables)

lemma describe_agrees:
  assumes "same_but_values s t"
  shows "agree (UpdateDescription v e ac key desc s) (UpdateDescription v e ac key desc t)"
    "agree (UpdateDescriptionPlatform v e ac key desc s) (UpdateDescriptionPlatform v e ac key desc t)"
  unfolding UpdateDescription_def UpdateDescriptionPlatform_def using assms
  by (auto intro!: agrees same_note describe_same same_secret_tables)

lemma delete_agrees:
  assumes "same_but_values s t"
  shows "agree (DeleteSecret e ac key s) (DeleteSecret e ac key t)" "agree (DeletePlatform v e ac key s) (DeletePlatform v e ac key t)"
proof -
  have "row_count (of_org q k) (org_secrets s) = row_count (of_org q k) (org_secrets t)"
    "row_count (\<lambda>r. sc_key r = k) (platform_secrets s) = row_count (\<lambda>r. sc_key r = k) (platform_secrets t)" for q k
    using same_secret_tables [OF assms] masked_count [of "of_org q k"] masked_count [of "\<lambda>r. sc_key r = k"] by (metis masked_org(2), metis masked_sel(1))
  then show "agree (DeleteSecret e ac key s) (DeleteSecret e ac key t)" "agree (DeletePlatform v e ac key s) (DeletePlatform v e ac key t)"
    unfolding DeleteSecret_def DeletePlatform_def using assms same_secret_tables [OF assms]
    by (auto intro!: agrees same_note simp: masked_delete)
qed

lemma list_agrees:
  assumes "same_but_values s t"
  shows "ListSecrets collate e ac s = ListSecrets collate e ac t" "ListPlatform v collate e ac s = ListPlatform v collate e ac t"
proof -
  have o: "map meta_of (sort_key (\<lambda>r. collate (sc_key r)) (filter (\<lambda>r. sc_org r = q) tb)) =
      map meta_of (sort_key (\<lambda>r. collate (sc_key r)) (filter (\<lambda>r. sc_org r = q) (map masked tb)))" for q and tb :: "org_secret list"
    by (subst masked_meta, simp only: masked_sort masked_filter masked_org)
  have p: "map meta_of (sort_key (\<lambda>r. collate (sc_key r)) tb) = map meta_of (sort_key (\<lambda>r. collate (sc_key r)) (map masked tb))" for tb :: "secret_row list"
    by (subst masked_meta, simp only: masked_sort)
  show "ListSecrets collate e ac s = ListSecrets collate e ac t"
    unfolding ListSecrets_def o [of _ "org_secrets s"] o [of _ "org_secrets t"] same_secret_tables(1) [OF assms] by (rule refl)
  show "ListPlatform v collate e ac s = ListPlatform v collate e ac t"
    unfolding ListPlatform_def p [of "platform_secrets s"] p [of "platform_secrets t"] same_secret_tables(2) [OF assms] by (rule refl)
qed

lemma step_agrees: "same_but_values s t \<Longrightarrow> same_but_value v x y \<Longrightarrow> agree (secrets_step v x s) (secrets_step v y t)"
  by (cases x) (auto simp: list_agrees intro!: agree_map set_agrees describe_agrees delete_agrees agree_end)

text \<open>
  C24: Values never show. Take two sequences of the same operations that store different values, all
  non-empty or empty in the same places (an empty value is refused), with nonces drawn alike or failing
  alike, from two databases that differ in their stored values only: they give every caller the same
  replies and write the same audit rows, the resulting states included. Nothing but Reveal depends on a
  stored value.
\<close>

theorem values_do_not_show:
  assumes "list_all2 (same_but_value v) xs ys" and "same_but_values s t"
  shows "replies v xs s = replies v ys t \<and>
     secrets_audit (run_ops (secrets_next v) xs s) = secrets_audit (run_ops (secrets_next v) ys t)"
  using assms
proof (induction arbitrary: s t rule: list_all2_induct)
  case Nil
  then show ?case by (simp add: same_but_values_def)
next
  case (Cons x xs y ys)
  have "agree (secrets_step v x s) (secrets_step v y t)" using step_agrees Cons by blast
  then show ?case using Cons.IH by (simp add: agree_def secrets_next_def)
qed

section \<open>Instances\<close>

definition plain_aead :: aead where
  "plain_aead = \<lparr>ad_nonce = 2, ad_seal = (\<lambda>n p. n @ p), ad_open = (\<lambda>n c. if take (length n) c = n then Some (drop (length n) c) else None)\<rparr>"

definition vault :: secrets_service where
  "vault = \<lparr>sv_aead = plain_aead, sv_platform = Some (\<lambda>ac key. None), sv_uuid_text = itoa, sv_time_text = (\<lambda>t. if t < 5 then ''early'' else ''late'')\<rparr>"

definition bytes_of :: "char \<Rightarrow> entropy" where
  "bytes_of c = (\<lambda>n. Some (replicate n c))"

definition keeper :: "uuid \<Rightarrow> auth_context" where
  "keeper org = \<lparr>actor_type = ActorUser, actor_id = 7, actor_label = ''ada'', org_id = org, permissions = {''secrets.manage''}, session_id = 0, correlation_id = []\<rparr>"

definition empty_vault :: secrets_db where
  "empty_vault = \<lparr>org_secrets = [], platform_secrets = [], secrets_audit = []\<rparr>"

lemma vault_lawful: "opens_what_it_seals (sv_aead vault)" "fills (bytes_of c)"
  by (auto simp: opens_what_it_seals_def fills_def vault_def plain_aead_def bytes_of_def)

definition first_stored :: "(api_error + secret_meta) \<times> secrets_db" where
  "first_stored = SetSecret_org vault (calm 1 5) (bytes_of (CHR ''a'')) (keeper 1) ''db'' ''pw'' ''main'' empty_vault"

definition later_ops :: "secrets_op list" where
  "later_ops = [DoSet (calm 2 6) (bytes_of (CHR ''b'')) (keeper 2) ''db'' ''other'' [], DoDescribe (calm 3 0) (keeper 1) ''db'' ''renamed'',
     DoDelete (calm 4 0) (keeper 2) ''db'']"

theorem stored_secret_is_revealed_witness:
  "Reveal vault (calm 9 0) (keeper 1) ''db'' (run_ops (secrets_next vault) later_ops (snd first_stored)) = Inr ''pw''"
proof -
  have "case fst first_stored of Inr _ \<Rightarrow> True | Inl _ \<Rightarrow> False" by code_simp
  then obtain m where m: "fst first_stored = Inr m" by (cases "fst first_stored") simp_all
  have "\<And>x. x \<in> set later_ops \<Longrightarrow> \<not> rewrites_org x (org_id (keeper 1), ''db'')" by (auto simp: later_ops_def keeper_def)
  moreover have "authorised (keeper 1) ''secrets.manage''" by (simp add: authorised_def keeper_def)
  ultimately show ?thesis
    using stored_secret_is_revealed [of vault "bytes_of (CHR ''a'')" "calm 1 5" "keeper 1" "''db''" "''pw''" "''main''" empty_vault m "snd first_stored"
      later_ops "calm 9 0" "keeper 1"] m vault_lawful
    by (simp add: first_stored_def prod_eq_iff)
qed

theorem values_do_not_show_witness:
  "replies vault [DoSet (calm 1 5) (bytes_of (CHR ''a'')) (keeper 1) ''db'' ''pw'' [], DoDescribe (calm 3 0) (keeper 1) ''db'' ''x''] empty_vault =
     replies vault [DoSet (calm 1 5) (bytes_of (CHR ''b'')) (keeper 1) ''db'' ''other'' [], DoDescribe (calm 3 0) (keeper 1) ''db'' ''x''] empty_vault \<and>
   map (\<lambda>r. au_resulting r \<noteq> None) (secrets_audit (run_ops (secrets_next vault)
     [DoSet (calm 1 5) (bytes_of (CHR ''b'')) (keeper 1) ''db'' ''other'' [], DoDescribe (calm 3 0) (keeper 1) ''db'' ''x''] empty_vault)) = [True, True]"
proof -
  let ?xs = "[DoSet (calm 1 5) (bytes_of (CHR ''a'')) (keeper 1) ''db'' ''pw'' [], DoDescribe (calm 3 0) (keeper 1) ''db'' ''x'']"
  let ?ys = "[DoSet (calm 1 5) (bytes_of (CHR ''b'')) (keeper 1) ''db'' ''other'' [], DoDescribe (calm 3 0) (keeper 1) ''db'' ''x'']"
  have "same_but_values empty_vault empty_vault" by (simp add: same_but_values_def)
  moreover have "list_all2 (same_but_value vault) ?xs ?ys" by (simp add: bytes_of_def)
  moreover have "map (\<lambda>r. au_resulting r \<noteq> None) (secrets_audit (run_ops (secrets_next vault) ?xs empty_vault)) = [True, True]"
    by code_simp
  ultimately show ?thesis using values_do_not_show [of vault ?xs ?ys empty_vault empty_vault] by simp
qed

end
