(* ===== verification/Spec2Isabelle.thy ===== *)
theory Spec2Isabelle
  imports GatewayProps Iam Ops_Safety Agent_Examples Provision_Safety Backup_Safety Migration_Examples Site_Rewrite_Props Outbound_Policy Rate_Limits Network_Examples Secret_Values
begin

text \<open>
  A model of the Nodera control plane (the Go module under src/api) and what it guarantees.

  \<^bold>\<open>The program.\<close> Nodera is a multi-tenant hosting control plane. An HTTP API calls services; each
  service is a set of methods over PostgreSQL tables. Callers carry an \<open>AuthContext\<close>; \<open>rbac.Require\<close> is
  the permission choke point; every change writes an audit row. Dangerous actions go through the Tool
  Gateway, which waits for a human approval. Long actions become jobs, which a worker claims and the
  operation engine runs step by step with rollback. Actions on a machine go to a node agent as signed
  commands, which the agent verifies, checks against an allowlist and executes on its providers.

  \<^bold>\<open>How a method is modelled.\<close> A table is the list of its rows (records), an UPDATE, DELETE or SELECT a
  function on that list, a method a function from its arguments, the state and an \<open>env\<close> to a result and
  a new state. The result is \<open>Inl\<close> an error or \<open>Inr\<close> a value, one branch per return of the source. An
  \<open>env\<close> gives the clock of the process, the clock of the database, the id a row would get, and a fault
  script that makes any chosen SQL statement fail, so the theorems hold for every pattern of driver
  errors. Methods run one after the other; the interleavings that matter are stated as sequences of
  operations, since a method's statements take effect one by one.

  \<^bold>\<open>Theories.\<close>
  \<^item> Nodera_Prelude: identifiers, clocks, JSON values, \<open>env\<close>, the statements on row lists, runs.
  \<^item> Go_Strings, Go_Encoding: the parts of Go's standard library the code uses (strings, base64,
    \<open>fmt.Sscanf\<close>, \<open>filepath.Clean\<close>, encoding/json), with their round trips.
  \<^item> Authz: internal/platform/apierr and authctx, \<open>rbac.Require\<close>, \<open>audit.Record\<close>.
  \<^item> ToolGateway, GatewayProps: internal/tools. Approvals as a state machine, who may reach a handler,
    isolation of organizations, finality of decisions.
  \<^item> Rbac, Tenancy, Platform_Auth, Iam: internal/rbac, internal/tenancy, internal/platformauth. Integrity
    of the identity tables, no escalation through custom roles, the last-owner guard and its gap.
  \<^item> Jobs, Ops_Engine, Job_Runs, Ops_Safety: internal/jobs and internal/ops. The queue invariant, order
    of claims, termination of a drain, idempotent submission, rollback of failed operations, approval
    before dangerous operations. The locale \<open>job_handlers\<close> is what the queue needs of a handler;
    the engine's handlers are its interpretation.
  \<^item> Agent_Protocol, Agent_Signatures: internal/nodeagent/protocol. Authenticity of accepted commands and
    requests, the round trips of signing.
  \<^item> Agent_Executor, Agent_Exec_Safety: internal/nodeagent/guard and executor. Every provider call respects
    the guard policy and the validated parameters.
  \<^item> One_Shot: the locale of tokens that can be taken once. It is interpreted for queued commands,
    enrolment tokens and request nonces (Agent_Safety) and for executed commands (Agent_Runtime).
  \<^item> Node_Agents, Agent_Ops, Agent_Safety, Agent_Effects: internal/nodeagent/service.go.
  \<^item> Go_Text, Site_Rewrite, Site_Rewrite_Props: internal/sitemig/rewrite.go. Rewriting a database dump
    changes string literals only, and a serialized PHP value into the serialization of the rewritten value.
  \<^item> Site_Archive: internal/sitemig/archive.go. Extraction writes below its stage and within its limit.
  \<^item> Go_Net, Domain_Names: \<open>net.ParseIP\<close> and internal/network/validate.go.
  \<^item> Networks, Network_Zones, Network_Certificates, Network_Examples: internal/network/network.go. The zones
    stay consistent over all operations, a removed domain leaves nothing, and two gaps: a failed issue that
    leaves a valid certificate without its key, and a sweep that reports a replaced certificate.
  \<^item> Site_Migration, Migration_Safety, Migration_Gates, Migration_Examples: internal/sitemig/sitemig.go. The
    live site is not touched before the cutover and put back when the cutover fails; no status is reached
    without what the step before it has to produce.
  \<^item> Secrets, Secret_Values: internal/secrets. A stored value is revealed as it was stored, and nothing but
    Reveal depends on values. The locale \<open>addressed\<close> is a store read by address; both tables interpret it.
  \<^item> Outbound_Policy: internal/platform/netpolicy. No outbound target is bound to an internal address.
  \<^item> Rate_Limits: internal/platform/ratelimit. The locale \<open>allower\<close> is the interface Allower; both limiters
    interpret it.
  \<^item> Projects: internal/projects. Clients and projects; its record carries the tables of the operations.
  \<^item> Saga_Rules: \<open>execution_keeps\<close> reduces a property of an execution of the engine to conditions on its
    steps, and the \<open>ends\<close> rules read a condition on a step off its body.
  \<^item> Hosting: the calls the operations make on the providers, logged in order with their answers.
  \<^item> Provisioning, Provision_Safety: internal/provisioning. What a provisioning and a deletion do to the
    project's status, what they destroy, and where they reach beyond their own project.
  \<^item> Backups, Backup_Safety: internal/backups. Completed backups were verified, a restore takes a safety
    snapshot first and puts it back when it fails, retention and schedules.
  \<^item> Agent_Runtime, Agent_Examples: internal/nodeagent/agent, and instances of the agent theorems.

  \<^bold>\<open>Bounds and fuel.\<close> Only \<open>copyDir\<close> of the site migration has fuel, the depth of the directory
  tree; running out is an error of its own. The other recursive ones recurse on lists or on the length of a
  text; draining the queue recurses on the attempts that are left, and its termination is a theorem.
  Go's int is an \<open>int\<close> where it is only compared or stored; where its width decides (\<open>Sscanf\<close>, decoding
  a JSON number) the range of int64 is checked, and where it wraps around (the index arithmetic of the
  rewriter) the result is \<open>wrap64\<close>.

  \<^bold>\<open>Parameters.\<close> Ed25519, SHA-256, \<open>url.Parse\<close>, the UUID library and what a jsonb column does to a document
  are fields of \<open>golib\<close>; tool handlers, operation steps and the node's providers are arguments. What the infrastructure providers
  answer is \<open>in_serve\<close> of a deployment, and \<open>nt_serve\<close> for the network service; zip structures and inflate are an argument of the archive functions. A
  theorem that needs something of them says so in a hypothesis.

  \<^bold>\<open>Not modelled.\<close> Routers, middleware, configuration and the process entry points (glue over the
  services); the adapters to external systems; log lines and the details of audit rows (write-only);
  and the services listed as not modelled in the manifest, which are planned next in this order:
  deployments, identity, path safety of the providers, monitoring, the AI router and agents.
\<close>

end
